(* ===== verification/Prelude.thy ===== *)
theory Prelude
  imports Main "HOL-Library.Char_ord" "HOL-Library.List_Lexorder"
begin

text \<open>
  Shared vocabulary of the development: the Python built-ins the backend uses
  (\<^verbatim>\<open>str\<close> methods, slices, \<^verbatim>\<open>sorted\<close> over a set of strings, decimal printing,
  \<^verbatim>\<open>timedelta.days\<close>), the exception classes of \<open>app/core/exceptions.py\<close>, and the
  generic facts on them that the component theories use.

  A Python \<^verbatim>\<open>str\<close> is a list of characters whose code points are below 256; the
  whitespace and case tables below are Python's on that range; the dashes and ellipses of some
  messages are written in ASCII.  Exceptions are values:
  an operation that may raise returns \<open>exn + 'a\<close>, \<open>Inl\<close> for the raised exception.
  A datetime is its UTC instant in microseconds (Python's resolution), so
  \<^verbatim>\<open>ensure_aware\<close> is the identity on it.
\<close>

named_theorems py_str \<open>Python string operations\<close>
named_theorems handler_defs \<open>unfolding of service operations\<close>

section \<open>Strings\<close>

definition py_isspace :: "char \<Rightarrow> bool" where
  "py_isspace c \<longleftrightarrow> (let n = (of_char c :: nat) in
     (9 \<le> n \<and> n \<le> 13) \<or> (28 \<le> n \<and> n \<le> 32) \<or> n = 133 \<or> n = 160)"

definition py_islower_ascii :: "char \<Rightarrow> bool" where
  "py_islower_ascii c \<longleftrightarrow> (let n = (of_char c :: nat) in 97 \<le> n \<and> n \<le> 122)"

definition py_isupper_ascii :: "char \<Rightarrow> bool" where
  "py_isupper_ascii c \<longleftrightarrow> (let n = (of_char c :: nat) in 65 \<le> n \<and> n \<le> 90)"

definition py_isdigit_ascii :: "char \<Rightarrow> bool" where
  "py_isdigit_ascii c \<longleftrightarrow> (let n = (of_char c :: nat) in 48 \<le> n \<and> n \<le> 57)"

definition lower_char :: "char \<Rightarrow> char" where
  "lower_char c = (let n = (of_char c :: nat) in
     if (65 \<le> n \<and> n \<le> 90) \<or> (192 \<le> n \<and> n \<le> 222 \<and> n \<noteq> 215)
     then char_of (n + 32) else c)"

definition py_lower :: "string \<Rightarrow> string" where
  "py_lower s = map lower_char s"

definition lstrip_by :: "(char \<Rightarrow> bool) \<Rightarrow> string \<Rightarrow> string" where
  "lstrip_by p s = dropWhile p s"

definition rstrip_by :: "(char \<Rightarrow> bool) \<Rightarrow> string \<Rightarrow> string" where
  "rstrip_by p s = rev (dropWhile p (rev s))"

definition strip_by :: "(char \<Rightarrow> bool) \<Rightarrow> string \<Rightarrow> string" where
  "strip_by p s = rstrip_by p (lstrip_by p s)"

definition py_strip :: "string \<Rightarrow> string" where
  "py_strip s = strip_by py_isspace s"

definition py_startswith :: "string \<Rightarrow> string \<Rightarrow> bool" where
  "py_startswith s p \<longleftrightarrow> take (length p) s = p"

definition py_endswith :: "string \<Rightarrow> string \<Rightarrow> bool" where
  "py_endswith s p \<longleftrightarrow> length p \<le> length s \<and> drop (length s - length p) s = p"

text \<open>\<^verbatim>\<open>sub in s\<close>\<close>

fun py_contains :: "string \<Rightarrow> string \<Rightarrow> bool" where
  "py_contains sub [] \<longleftrightarrow> sub = []"
| "py_contains sub (c # cs) \<longleftrightarrow> py_startswith (c # cs) sub \<or> py_contains sub cs"

text \<open>\<^verbatim>\<open>s.split(c)\<close> for a one-character separator: never empty, keeps empty pieces.\<close>

fun split_on :: "char \<Rightarrow> string \<Rightarrow> string list" where
  "split_on c [] = [[]]"
| "split_on c (x # xs) =
     (if x = c then [] # split_on c xs
      else (case split_on c xs of [] \<Rightarrow> [[x]] | p # ps \<Rightarrow> (x # p) # ps))"

fun py_join :: "string \<Rightarrow> string list \<Rightarrow> string" where
  "py_join sep [] = []"
| "py_join sep [x] = x"
| "py_join sep (x # y # ys) = x @ sep @ py_join sep (y # ys)"

text \<open>\<^verbatim>\<open>s.partition(c)\<close> without the separator; \<open>None\<close> as second part when it is absent.\<close>

definition py_partition :: "char \<Rightarrow> string \<Rightarrow> string \<times> string option" where
  "py_partition c s =
     (case dropWhile (\<lambda>x. x \<noteq> c) s of
        [] \<Rightarrow> (s, None)
      | _ # rest \<Rightarrow> (takeWhile (\<lambda>x. x \<noteq> c) s, Some rest))"

text \<open>\<^verbatim>\<open>s.rpartition(c)\<close>, equally \<^verbatim>\<open>s.rsplit(c, 1)\<close>: split at the last separator.\<close>

definition py_rpartition :: "char \<Rightarrow> string \<Rightarrow> (string \<times> string) option" where
  "py_rpartition c s =
     (if c \<in> set s
      then Some (rev (tl (dropWhile (\<lambda>x. x \<noteq> c) (rev s))),
                 rev (takeWhile (\<lambda>x. x \<noteq> c) (rev s)))
      else None)"

text \<open>The slice \<^verbatim>\<open>s[-n:]\<close> for positive \<open>n\<close>.\<close>

definition last_n :: "nat \<Rightarrow> 'a list \<Rightarrow> 'a list" where
  "last_n n xs = drop (length xs - n) xs"

fun nat_digits :: "nat \<Rightarrow> string" where
  "nat_digits n = (if n < 10 then [char_of (48 + n)]
     else nat_digits (n div 10) @ [char_of (48 + n mod 10)])"

declare nat_digits.simps [simp del]

definition str_int :: "int \<Rightarrow> string" where
  "str_int i = (if i < 0 then CHR ''-'' # nat_digits (nat (- i)) else nat_digits (nat i))"

text \<open>\<^verbatim>\<open>x or d\<close> for an optional string: \<open>None\<close> and the empty string are falsy.\<close>

definition truthy :: "string option \<Rightarrow> bool" where
  "truthy v \<longleftrightarrow> (case v of None \<Rightarrow> False | Some s \<Rightarrow> s \<noteq> [])"

definition str_or :: "string option \<Rightarrow> string \<Rightarrow> string" where
  "str_or v d = (case v of None \<Rightarrow> d | Some s \<Rightarrow> if s = [] then d else s)"

text \<open>\<^verbatim>\<open>sorted(set(xs))\<close> on strings; Python compares strings by code point.\<close>

definition sorted_set :: "string list \<Rightarrow> string list" where
  "sorted_set xs = sort (remdups xs)"

section \<open>Time\<close>

type_synonym datetime = int

definition us_per_day :: int where
  "us_per_day = 86400000000"

definition us_per_minute :: int where
  "us_per_minute = 60000000"

text \<open>\<^verbatim>\<open>timedelta.days\<close> rounds towards minus infinity.\<close>

definition td_days :: "int \<Rightarrow> int" where
  "td_days d = d div us_per_day"

definition days_until :: "datetime \<Rightarrow> datetime option \<Rightarrow> int" where
  "days_until now dt = (case dt of None \<Rightarrow> 0 | Some t \<Rightarrow> td_days (t - now))"

section \<open>Exceptions\<close>

datatype exc_class =
    AppError | NotFoundError | ConflictError | ValidationAppError | PermissionDeniedError
  | AuthError | SecurityError | ProviderError | RateLimitError | DeploymentError
  | MaintenanceModeError | ConflictResourceError | CommandError
  | KeyError | ValueError | IndexError | TypeError | AttributeError | IntegrityError | PendingRollbackError | OSError
  | SSHConnectionError | CertbotError | SubprocessError | RuntimeError

text \<open>An exception: its class, its message and the \<^verbatim>\<open>code=\<close> override of \<open>AppError\<close>.\<close>

datatype exn = Exn (exc_of: exc_class) (exc_msg: string) (exc_code: "string option")

abbreviation raises :: "exc_class \<Rightarrow> string \<Rightarrow> exn + 'a" where
  "raises c m \<equiv> Inl (Exn c m None)"

text \<open>Class attribute \<^verbatim>\<open>status_code\<close>; anything that is not an \<open>AppError\<close> is answered 500.\<close>

fun status_code :: "exc_class \<Rightarrow> int" where
  "status_code NotFoundError = 404"
| "status_code ConflictError = 409"
| "status_code ConflictResourceError = 409"
| "status_code ValidationAppError = 422"
| "status_code PermissionDeniedError = 403"
| "status_code AuthError = 401"
| "status_code SecurityError = 403"
| "status_code ProviderError = 502"
| "status_code RateLimitError = 429"
| "status_code DeploymentError = 502"
| "status_code MaintenanceModeError = 503"
| "status_code _ = 500"

fun class_code :: "exc_class \<Rightarrow> string" where
  "class_code NotFoundError = ''NOT_FOUND''"
| "class_code ConflictError = ''CONFLICT''"
| "class_code ConflictResourceError = ''RESOURCE_EXISTS''"
| "class_code ValidationAppError = ''VALIDATION_ERROR''"
| "class_code PermissionDeniedError = ''FORBIDDEN''"
| "class_code AuthError = ''UNAUTHORIZED''"
| "class_code SecurityError = ''SECURITY_ERROR''"
| "class_code ProviderError = ''PROVIDER_ERROR''"
| "class_code RateLimitError = ''RATE_LIMITED''"
| "class_code DeploymentError = ''DEPLOYMENT_ERROR''"
| "class_code MaintenanceModeError = ''MAINTENANCE_MODE''"
| "class_code CommandError = ''COMMAND_FAILED''"
| "class_code _ = ''INTERNAL_ERROR''"

definition is_app_error :: "exc_class \<Rightarrow> bool" where
  "is_app_error c \<longleftrightarrow> c \<notin> {KeyError, ValueError, IndexError, TypeError, AttributeError, IntegrityError, PendingRollbackError, OSError,
     SSHConnectionError, CertbotError, SubprocessError, RuntimeError}"

text \<open>\<^verbatim>\<open>_error_body\<close> with the status chosen by the registered handlers.\<close>

definition error_body :: "exn \<Rightarrow> int \<times> string \<times> string" where
  "error_body e =
     (if is_app_error (exc_of e)
      then (status_code (exc_of e),
            (case exc_code e of
               Some c \<Rightarrow> if c = [] then class_code (exc_of e) else c
             | None \<Rightarrow> class_code (exc_of e)),
            exc_msg e)
      else (500, ''INTERNAL_ERROR'', ''Internal server error''))"

section \<open>Generic facts\<close>

lemma set_lstrip_by [py_str]: "set (lstrip_by p s) \<subseteq> set s"
  by (auto simp: lstrip_by_def dest: set_dropWhileD)

lemma set_rstrip_by [py_str]: "set (rstrip_by p s) \<subseteq> set s"
  by (auto simp: rstrip_by_def dest: set_dropWhileD)

lemma set_strip_by [py_str]: "set (strip_by p s) \<subseteq> set s"
  using set_lstrip_by set_rstrip_by by (fastforce simp: strip_by_def)

lemma rstrip_by_last: "rstrip_by p s \<noteq> [] \<Longrightarrow> \<not> p (last (rstrip_by p s))"
  unfolding rstrip_by_def by (metis hd_dropWhile last_rev rev_is_Nil_conv)

lemma rstrip_by_id: "s = [] \<or> \<not> p (last s) \<Longrightarrow> rstrip_by p s = s"
  unfolding rstrip_by_def
  by (metis dropWhile_eq_self_iff hd_rev rev_rev_ident rev_is_Nil_conv)

lemma rstrip_by_prefix: "\<exists>t. s = rstrip_by p s @ t \<and> (\<forall>c \<in> set t. p c)"
proof (intro exI conjI)
  show "s = rstrip_by p s @ rev (takeWhile p (rev s))"
    unfolding rstrip_by_def by (metis rev_append rev_rev_ident takeWhile_dropWhile_id)
  show "\<forall>c \<in> set (rev (takeWhile p (rev s))). p c"
    by (auto dest: set_takeWhileD)
qed

lemma strip_by_last: "strip_by p s \<noteq> [] \<Longrightarrow> \<not> p (last (strip_by p s))"
  unfolding strip_by_def by (rule rstrip_by_last)

lemma strip_by_hd: "strip_by p s \<noteq> [] \<Longrightarrow> \<not> p (hd (strip_by p s))"
proof -
  assume ne: "strip_by p s \<noteq> []"
  obtain t where t: "lstrip_by p s = strip_by p s @ t"
    using rstrip_by_prefix [of "lstrip_by p s" p] by (auto simp: strip_by_def)
  with ne have "hd (strip_by p s) = hd (lstrip_by p s)" and "lstrip_by p s \<noteq> []"
    by auto
  then show ?thesis unfolding lstrip_by_def by (simp add: hd_dropWhile)
qed

lemma strip_by_id: "s = [] \<or> (\<not> p (hd s) \<and> \<not> p (last s)) \<Longrightarrow> strip_by p s = s"
  unfolding strip_by_def lstrip_by_def
  by (metis dropWhile_eq_self_iff rstrip_by_id)

lemma py_strip_idem [simp]: "py_strip (py_strip s) = py_strip s"
  unfolding py_strip_def
  by (rule strip_by_id) (metis strip_by_hd strip_by_last)

lemma py_strip_Nil [simp]: "py_strip [] = []"
  by (simp add: py_strip_def strip_by_def lstrip_by_def rstrip_by_def)

lemma length_py_lower [simp]: "length (py_lower s) = length s"
  by (simp add: py_lower_def)

lemma lower_char_isspace [simp]: "py_isspace (lower_char c) = py_isspace c"
  by (simp add: lower_char_def py_isspace_def Let_def)

lemma lower_char_idem [simp]: "lower_char (lower_char c) = lower_char c"
  by (simp add: lower_char_def Let_def)

lemma py_lower_idem [simp]: "py_lower (py_lower s) = py_lower s"
  by (simp add: py_lower_def)

lemma py_strip_lower_strip [simp]: "py_strip (py_lower (py_strip s)) = py_lower (py_strip s)"
proof -
  let ?t = "py_strip s"
  have "?t = [] \<or> (\<not> py_isspace (hd ?t) \<and> \<not> py_isspace (last ?t))"
    unfolding py_strip_def by (metis strip_by_hd strip_by_last)
  then have "py_lower ?t = [] \<or>
      (\<not> py_isspace (hd (py_lower ?t)) \<and> \<not> py_isspace (last (py_lower ?t)))"
    by (auto simp: py_lower_def hd_map last_map)
  then show ?thesis unfolding py_strip_def [of "py_lower ?t"] by (rule strip_by_id)
qed

end
