(* ===== verification/Tables.thy ===== *)
theory Tables
  imports Prelude
begin

text \<open>
  Database tables.  A row carries what \<open>IntPkMixin\<close> and \<open>TimestampMixin\<close> of
  \<open>app/models/base.py\<close> add to every model: an autoincremented identifier and the two
  timestamps, \<^verbatim>\<open>updated_at\<close> being set by every UPDATE, which SQLAlchemy emits only when a
  column changed.  The locale \<open>row_store\<close> states what the services rely on when they add,
  read, change and delete rows; \<open>tbl\<close> interprets it on the operations below.
\<close>

record 'r row =
  rid :: int
  created_at :: datetime
  updated_at :: datetime
  rval :: 'r

record 'r table =
  rows :: "'r row list"
  next_id :: int

definition empty_table :: "'r table" where
  "empty_table = \<lparr>rows = [], next_id = 1\<rparr>"

text \<open>\<^verbatim>\<open>db.add(obj); db.flush()\<close>: the new identifier and the table.\<close>

definition tbl_add :: "datetime \<Rightarrow> 'r \<Rightarrow> 'r table \<Rightarrow> int \<times> 'r table" where
  "tbl_add now r t =
     (next_id t,
      t\<lparr>rows := rows t @ [\<lparr>rid = next_id t, created_at = now, updated_at = now, rval = r\<rparr>],
        next_id := next_id t + 1\<rparr>)"

text \<open>\<^verbatim>\<open>db.get(Model, id)\<close>\<close>

definition tbl_row :: "int \<Rightarrow> 'r table \<Rightarrow> 'r row option" where
  "tbl_row i t = find (\<lambda>w. rid w = i) (rows t)"

definition tbl_get :: "int \<Rightarrow> 'r table \<Rightarrow> 'r option" where
  "tbl_get i t = map_option rval (tbl_row i t)"

definition touch :: "datetime \<Rightarrow> ('r \<Rightarrow> 'r) \<Rightarrow> 'r row \<Rightarrow> 'r row" where
  "touch now f w = (if f (rval w) = rval w then w else w\<lparr>rval := f (rval w), updated_at := now\<rparr>)"

text \<open>UPDATE of the rows selected by \<open>p\<close>; of one row by its identifier.\<close>

definition tbl_upd_where :: "datetime \<Rightarrow> ('r row \<Rightarrow> bool) \<Rightarrow> ('r \<Rightarrow> 'r) \<Rightarrow> 'r table \<Rightarrow> 'r table" where
  "tbl_upd_where now p f t = t\<lparr>rows := map (\<lambda>w. if p w then touch now f w else w) (rows t)\<rparr>"

definition tbl_upd :: "datetime \<Rightarrow> int \<Rightarrow> ('r \<Rightarrow> 'r) \<Rightarrow> 'r table \<Rightarrow> 'r table" where
  "tbl_upd now i f t = tbl_upd_where now (\<lambda>w. rid w = i) f t"

text \<open>A change the database makes itself, such as \<^verbatim>\<open>ON DELETE SET NULL\<close>: no timestamp is set.\<close>

definition tbl_set_where :: "('r row \<Rightarrow> bool) \<Rightarrow> ('r \<Rightarrow> 'r) \<Rightarrow> 'r table \<Rightarrow> 'r table" where
  "tbl_set_where p f t = t\<lparr>rows := map (\<lambda>w. if p w then w\<lparr>rval := f (rval w)\<rparr> else w) (rows t)\<rparr>"

text \<open>DELETE, and SELECT in primary-key order.\<close>

definition tbl_del_where :: "('r row \<Rightarrow> bool) \<Rightarrow> 'r table \<Rightarrow> 'r table" where
  "tbl_del_where p t = t\<lparr>rows := filter (\<lambda>w. \<not> p w) (rows t)\<rparr>"

definition tbl_del :: "int \<Rightarrow> 'r table \<Rightarrow> 'r table" where
  "tbl_del i t = tbl_del_where (\<lambda>w. rid w = i) t"

definition tbl_sel :: "('r row \<Rightarrow> bool) \<Rightarrow> 'r table \<Rightarrow> 'r row list" where
  "tbl_sel p t = filter p (rows t)"

definition tbl_first :: "('r row \<Rightarrow> bool) \<Rightarrow> 'r table \<Rightarrow> 'r row option" where
  "tbl_first p t = find p (rows t)"

definition tbl_count :: "('r row \<Rightarrow> bool) \<Rightarrow> 'r table \<Rightarrow> nat" where
  "tbl_count p t = length (tbl_sel p t)"

definition ids :: "'r table \<Rightarrow> int list" where
  "ids t = map rid (rows t)"

text \<open>Well-formedness: identifiers are distinct and below the counter.\<close>

definition wf_table :: "'r table \<Rightarrow> bool" where
  "wf_table t \<longleftrightarrow> distinct (ids t) \<and> (\<forall>i \<in> set (ids t). i < next_id t)"

section \<open>The contract of a row store\<close>

locale row_store =
  fixes wf :: "'t \<Rightarrow> bool"
    and get :: "int \<Rightarrow> 't \<Rightarrow> 'r option"
    and add :: "datetime \<Rightarrow> 'r \<Rightarrow> 't \<Rightarrow> int \<times> 't"
    and upd :: "datetime \<Rightarrow> int \<Rightarrow> ('r \<Rightarrow> 'r) \<Rightarrow> 't \<Rightarrow> 't"
    and del :: "int \<Rightarrow> 't \<Rightarrow> 't"
  assumes wf_add: "wf t \<Longrightarrow> wf (snd (add now r t))"
    and wf_upd: "wf t \<Longrightarrow> wf (upd now i f t)"
    and wf_del: "wf t \<Longrightarrow> wf (del i t)"
    and add_fresh: "wf t \<Longrightarrow> get (fst (add now r t)) t = None"
    and get_add: "wf t \<Longrightarrow>
      get j (snd (add now r t)) = (if j = fst (add now r t) then Some r else get j t)"
    and get_upd: "get j (upd now i f t) = (if j = i then map_option f (get j t) else get j t)"
    and get_del: "get j (del i t) = (if j = i then None else get j t)"
begin

lemma get_add_same: "wf t \<Longrightarrow> get (fst (add now r t)) (snd (add now r t)) = Some r"
  by (simp add: get_add)

lemma get_add_old: "wf t \<Longrightarrow> get j t = Some v \<Longrightarrow> get j (snd (add now r t)) = Some v"
  using add_fresh [of t now r] by (auto simp: get_add)

lemma add_upd_get:
  "wf t \<Longrightarrow> get (fst (add now r t)) (upd now' (fst (add now r t)) f (snd (add now r t))) = Some (f r)"
  by (simp add: get_upd get_add)

lemma upd_upd_get: "get j (upd n2 i g (upd n1 i f t)) = get j (upd n1 i (g \<circ> f) t)"
  by (simp add: get_upd option.map_comp)

lemma del_upd_get: "get j (del i (upd now i f t)) = get j (del i t)"
  by (simp add: get_del get_upd)

end

section \<open>The tables satisfy it\<close>

lemma rid_touch [simp]: "rid (touch now f w) = rid w"
  by (simp add: touch_def)

lemma rval_touch [simp]: "rval (touch now f w) = f (rval w)"
  by (simp add: touch_def)

lemma ids_upd_where [simp]: "ids (tbl_upd_where now p f t) = ids t"
  by (auto simp: ids_def tbl_upd_where_def)

lemma next_id_upd_where [simp]: "next_id (tbl_upd_where now p f t) = next_id t"
  by (simp add: tbl_upd_where_def)

lemma ids_upd [simp]: "ids (tbl_upd now i f t) = ids t"
  by (simp add: tbl_upd_def)

lemma wf_upd_where [simp]: "wf_table (tbl_upd_where now p f t) = wf_table t"
  by (simp add: wf_table_def)

lemma wf_del_where [simp]: "wf_table t \<Longrightarrow> wf_table (tbl_del_where p t)"
  by (auto simp: wf_table_def ids_def tbl_del_where_def distinct_map intro: inj_on_subset)

lemma wf_empty_table [simp]: "wf_table empty_table"
  by (simp add: wf_table_def empty_table_def ids_def)

lemma find_none_ids: "i \<notin> set (map rid ws) \<Longrightarrow> find (\<lambda>w. rid w = i) ws = None"
  by (auto simp: find_None_iff)

lemma tbl_get_fresh: "wf_table t \<Longrightarrow> tbl_get (next_id t) t = None"
  by (auto simp: wf_table_def ids_def tbl_get_def tbl_row_def find_None_iff)

lemma find_append: "find p (xs @ ys) = (case find p xs of None \<Rightarrow> find p ys | Some x \<Rightarrow> Some x)"
  by (induction xs) auto

lemma find_map_upd:
  "find (\<lambda>w. rid w = j) (map (\<lambda>w. if p w then touch now f w else w) ws) =
     map_option (\<lambda>w. if p w then touch now f w else w) (find (\<lambda>w. rid w = j) ws)"
  by (induction ws) auto

lemma find_filter_other:
  "(\<And>w. rid w = j \<Longrightarrow> p w) \<Longrightarrow> find (\<lambda>w. rid w = j) (filter p ws) = find (\<lambda>w. rid w = j) ws"
  by (induction ws) auto

lemma tbl_row_rid: "tbl_row i t = Some w \<Longrightarrow> rid w = i \<and> w \<in> set (rows t)"
  by (auto simp: tbl_row_def find_Some_iff)

lemma tbl_row_upd_where:
  "tbl_row j (tbl_upd_where now p f t) =
     map_option (\<lambda>w. if p w then touch now f w else w) (tbl_row j t)"
  by (simp add: tbl_row_def tbl_upd_where_def find_map_upd)

lemma tbl_row_in:
  assumes "wf_table t" and "w \<in> set (rows t)"
  shows "tbl_row (rid w) t = Some w"
proof (cases "tbl_row (rid w) t")
  case None
  then show ?thesis using assms(2) by (auto simp: tbl_row_def find_None_iff)
next
  case (Some w')
  then have "rid w' = rid w" "w' \<in> set (rows t)" using tbl_row_rid by blast+
  then have "w' = w" using assms by (auto simp: wf_table_def ids_def distinct_map dest: inj_onD)
  then show ?thesis using Some by simp
qed

interpretation tbl: row_store wf_table tbl_get tbl_add tbl_upd tbl_del
proof
  fix t :: "'r table" and now i j f r
  show "wf_table t \<Longrightarrow> wf_table (snd (tbl_add now r t))"
    by (auto simp: wf_table_def tbl_add_def ids_def)
  show "wf_table t \<Longrightarrow> wf_table (tbl_upd now i f t)"
    by (simp add: tbl_upd_def)
  show "wf_table t \<Longrightarrow> wf_table (tbl_del i t)"
    by (simp add: tbl_del_def)
  show "wf_table t \<Longrightarrow> tbl_get (fst (tbl_add now r t)) t = None"
    by (simp add: tbl_add_def tbl_get_fresh)
  show "wf_table t \<Longrightarrow>
      tbl_get j (snd (tbl_add now r t)) = (if j = fst (tbl_add now r t) then Some r else tbl_get j t)"
    using tbl_get_fresh [of t]
    by (auto simp: tbl_get_def tbl_row_def tbl_add_def find_append split: option.splits)
  show "tbl_get j (tbl_upd now i f t) = (if j = i then map_option f (tbl_get j t) else tbl_get j t)"
    by (cases "tbl_row j t")
      (auto simp: tbl_get_def tbl_upd_def tbl_row_upd_where dest: tbl_row_rid)
  show "tbl_get j (tbl_del i t) = (if j = i then None else tbl_get j t)"
    by (auto simp: tbl_get_def tbl_del_def tbl_del_where_def tbl_row_def find_None_iff find_filter_other)
qed

lemmas tbl_wf [simp] = tbl.wf_add tbl.wf_upd tbl.wf_del
lemmas tbl_get_simps [simp] = tbl.get_upd tbl.get_del

text \<open>Selections after an update or a deletion.\<close>

lemma rows_upd_where: "rows (tbl_upd_where now p f t) = map (\<lambda>w. if p w then touch now f w else w) (rows t)"
  by (simp add: tbl_upd_where_def)

lemma rows_del_where [simp]: "rows (tbl_del_where p t) = filter (\<lambda>w. \<not> p w) (rows t)"
  by (simp add: tbl_del_where_def)

lemma rows_add: "rows (snd (tbl_add now r t)) =
    rows t @ [\<lparr>rid = next_id t, created_at = now, updated_at = now, rval = r\<rparr>]"
  by (simp add: tbl_add_def)

lemma set_rows_upd_where:
  "w \<in> set (rows (tbl_upd_where now p f t)) \<longleftrightarrow>
     (\<exists>v \<in> set (rows t). w = (if p v then touch now f v else v))"
  by (auto simp: rows_upd_where)

lemma tbl_first_Some: "tbl_first p t = Some w \<Longrightarrow> p w \<and> w \<in> set (rows t)"
  by (auto simp: tbl_first_def find_Some_iff)

lemma tbl_first_upd_where:
  assumes "\<And>w. p w \<Longrightarrow> q (touch now f w) = q w"
  shows "tbl_first q (tbl_upd_where now p f t) =
    map_option (\<lambda>w. if p w then touch now f w else w) (tbl_first q t)"
proof -
  have "find q (map (\<lambda>w. if p w then touch now f w else w) ws) =
      map_option (\<lambda>w. if p w then touch now f w else w) (find q ws)" for ws
    using assms by (induction ws) auto
  then show ?thesis by (simp add: tbl_first_def rows_upd_where)
qed

lemma tbl_first_None: "tbl_first p t = None \<longleftrightarrow> (\<forall>w \<in> set (rows t). \<not> p w)"
  by (auto simp: tbl_first_def find_None_iff)

lemma tbl_del_where_none: "tbl_count p t = 0 \<Longrightarrow> tbl_del_where p t = t"
  by (simp add: tbl_count_def tbl_sel_def tbl_del_where_def filter_empty_conv)

lemma tbl_count_del_where [simp]: "tbl_count p (tbl_del_where p t) = 0"
  by (simp add: tbl_count_def tbl_sel_def)

end
