(* ===== verification/Ops.thy ===== *)
theory Ops
  imports Tables
begin

text \<open>
  Service operations.  An operation is a function of the state that either returns a value
  or raises, and in both cases leaves a state behind: what was written before a raise stays
  written until the transaction is rolled back.  \<open>bnd\<close> sequences two operations, as
  consecutive Python statements do, and \<open>catch_op\<close> is \<^verbatim>\<open>try: ... except\<close>.
  \<open>keeps I m\<close> says that \<open>m\<close> preserves the invariant \<open>I\<close> on every outcome; its rules in
  \<open>keeps_rules\<close> reduce an operation to its primitive writes.
\<close>

type_synonym ('s, 'a) op = "'s \<Rightarrow> (exn + 'a) \<times> 's"

named_theorems keeps_rules \<open>invariant preservation, one rule per combinator\<close>
named_theorems op_simps \<open>evaluation of the combinators\<close>

definition ret :: "'a \<Rightarrow> ('s, 'a) op" where
  "ret x s = (Inr x, s)"

definition throw :: "exn \<Rightarrow> ('s, 'a) op" where
  "throw e s = (Inl e, s)"

abbreviation fail :: "exc_class \<Rightarrow> string \<Rightarrow> ('s, 'a) op" where
  "fail c m \<equiv> throw (Exn c m None)"

definition bnd :: "('s, 'a) op \<Rightarrow> ('a \<Rightarrow> ('s, 'b) op) \<Rightarrow> ('s, 'b) op" where
  "bnd m f s = (case m s of (Inl e, s') \<Rightarrow> (Inl e, s') | (Inr x, s') \<Rightarrow> f x s')"

definition gets :: "('s \<Rightarrow> 'a) \<Rightarrow> ('s, 'a) op" where
  "gets f s = (Inr (f s), s)"

definition modify :: "('s \<Rightarrow> 's) \<Rightarrow> ('s, unit) op" where
  "modify f s = (Inr (), f s)"

text \<open>A pure computation that may raise.\<close>

definition lift_exn :: "exn + 'a \<Rightarrow> ('s, 'a) op" where
  "lift_exn r s = (r, s)"

definition when_op :: "bool \<Rightarrow> ('s, unit) op \<Rightarrow> ('s, unit) op" where
  "when_op b m = (if b then m else ret ())"

text \<open>\<^verbatim>\<open>try: m except Exception as e: h(e)\<close>; the handler decides by the exception.\<close>

definition catch_op :: "('s, 'a) op \<Rightarrow> (exn \<Rightarrow> ('s, 'a) op) \<Rightarrow> ('s, 'a) op" where
  "catch_op m h s = (case m s of (Inl e, s') \<Rightarrow> h e s' | (Inr x, s') \<Rightarrow> (Inr x, s'))"

primrec for_each :: "'a list \<Rightarrow> ('a \<Rightarrow> ('s, unit) op) \<Rightarrow> ('s, unit) op" where
  "for_each [] f = ret ()"
| "for_each (x # xs) f = bnd (f x) (\<lambda>_. for_each xs f)"

lemma ret_simp [op_simps]: "ret x s = (Inr x, s)" by (simp add: ret_def)
lemma throw_simp [op_simps]: "throw e s = (Inl e, s)" by (simp add: throw_def)
lemma gets_simp [op_simps]: "gets f s = (Inr (f s), s)" by (simp add: gets_def)
lemma modify_simp [op_simps]: "modify f s = (Inr (), f s)" by (simp add: modify_def)
lemma lift_exn_simp [op_simps]: "lift_exn r s = (r, s)" by (simp add: lift_exn_def)

lemma bnd_simps [op_simps]:
  "m s = (Inl e, s') \<Longrightarrow> bnd m f s = (Inl e, s')"
  "m s = (Inr x, s') \<Longrightarrow> bnd m f s = f x s'"
  by (simp_all add: bnd_def)

lemma bnd_prim [simp]:
  "bnd (ret x) f = f x"
  "bnd (throw e) f = throw e"
  "bnd (gets g) f s = f (g s) s"
  "bnd (modify u) f2 s = f2 () (u s)"
  "bnd (lift_exn (Inr y)) f = f y"
  "bnd (lift_exn (Inl e)) f = throw e"
  by (simp_all add: bnd_def fun_eq_iff ret_def throw_def gets_def modify_def lift_exn_def)

lemma bnd_assoc: "bnd (bnd m f) g = bnd m (\<lambda>x. bnd (f x) g)"
  by (auto simp: fun_eq_iff bnd_def split: prod.splits sum.splits)

lemma bnd_Inr:
  "bnd m f s = (Inr y, s') \<longleftrightarrow> (\<exists>x t. m s = (Inr x, t) \<and> f x t = (Inr y, s'))"
  by (auto simp: bnd_def split: prod.splits sum.splits)

lemma bnd_Inl:
  "bnd m f s = (Inl e, s') \<longleftrightarrow> m s = (Inl e, s') \<or> (\<exists>x t. m s = (Inr x, t) \<and> f x t = (Inl e, s'))"
  by (auto simp: bnd_def split: prod.splits sum.splits)

section \<open>Invariants\<close>

definition keeps :: "('s \<Rightarrow> bool) \<Rightarrow> ('s, 'a) op \<Rightarrow> bool" where
  "keeps I m \<longleftrightarrow> (\<forall>s. I s \<longrightarrow> I (snd (m s)))"

lemma keepsI: "(\<And>s. I s \<Longrightarrow> I (snd (m s))) \<Longrightarrow> keeps I m"
  by (simp add: keeps_def)

lemma keepsD: "keeps I m \<Longrightarrow> I s \<Longrightarrow> I (snd (m s))"
  by (simp add: keeps_def)

lemma keeps_ret [keeps_rules]: "keeps I (ret x)"
  by (simp add: keeps_def ret_def)

lemma keeps_throw [keeps_rules]: "keeps I (throw e)"
  by (simp add: keeps_def throw_def)

lemma keeps_gets [keeps_rules]: "keeps I (gets f)"
  by (simp add: keeps_def gets_def)

lemma keeps_lift [keeps_rules]: "keeps I (lift_exn r)"
  by (simp add: keeps_def lift_exn_def)

lemma keeps_modify: "(\<And>s. I s \<Longrightarrow> I (f s)) \<Longrightarrow> keeps I (modify f)"
  by (simp add: keeps_def modify_def)

lemma keeps_bnd [keeps_rules]: "keeps I m \<Longrightarrow> (\<And>x. keeps I (f x)) \<Longrightarrow> keeps I (bnd m f)"
  unfolding keeps_def bnd_def by (auto split: prod.splits sum.splits)

lemma keeps_when [keeps_rules]: "(b \<Longrightarrow> keeps I m) \<Longrightarrow> keeps I (when_op b m)"
  by (simp add: when_op_def keeps_ret)

lemma keeps_catch [keeps_rules]: "keeps I m \<Longrightarrow> (\<And>e. keeps I (h e)) \<Longrightarrow> keeps I (catch_op m h)"
  unfolding keeps_def catch_op_def by (auto split: prod.splits sum.splits)

lemma keeps_if [keeps_rules]: "(b \<Longrightarrow> keeps I m) \<Longrightarrow> (\<not> b \<Longrightarrow> keeps I n) \<Longrightarrow> keeps I (if b then m else n)"
  by simp

lemma keeps_option [keeps_rules]:
  "(x = None \<Longrightarrow> keeps I m) \<Longrightarrow> (\<And>y. x = Some y \<Longrightarrow> keeps I (f y)) \<Longrightarrow>
   keeps I (case x of None \<Rightarrow> m | Some y \<Rightarrow> f y)"
  by (cases x) auto

lemma keeps_sum [keeps_rules]:
  "(\<And>e. x = Inl e \<Longrightarrow> keeps I (f e)) \<Longrightarrow> (\<And>y. x = Inr y \<Longrightarrow> keeps I (g y)) \<Longrightarrow>
   keeps I (case x of Inl e \<Rightarrow> f e | Inr y \<Rightarrow> g y)"
  by (cases x) auto

lemma keeps_prod [keeps_rules]:
  "(\<And>a b. x = (a, b) \<Longrightarrow> keeps I (f a b)) \<Longrightarrow> keeps I (case x of (a, b) \<Rightarrow> f a b)"
  by (cases x) auto

lemma keeps_Let [keeps_rules]: "(\<And>y. y = x \<Longrightarrow> keeps I (f y)) \<Longrightarrow> keeps I (Let x f)"
  by simp

lemma keeps_for_each [keeps_rules]: "(\<And>x. x \<in> set xs \<Longrightarrow> keeps I (f x)) \<Longrightarrow> keeps I (for_each xs f)"
  by (induction xs) (auto intro!: keeps_rules)

lemma keeps_conj: "keeps A m \<Longrightarrow> keeps B m \<Longrightarrow> keeps (\<lambda>t. A t \<and> B t) m"
  by (auto simp: keeps_def)

section \<open>Weakest preconditions\<close>

text \<open>\<open>wp m Q E s\<close>: started in \<open>s\<close>, \<open>m\<close> ends in a state satisfying \<open>Q\<close> when it returns and
  \<open>E\<close> when it raises.\<close>

named_theorems wp_simps \<open>weakest preconditions of the combinators\<close>

definition wp :: "('s, 'a) op \<Rightarrow> ('a \<Rightarrow> 's \<Rightarrow> bool) \<Rightarrow> (exn \<Rightarrow> 's \<Rightarrow> bool) \<Rightarrow> 's \<Rightarrow> bool" where
  "wp m Q E s \<longleftrightarrow> (case m s of (Inr x, s') \<Rightarrow> Q x s' | (Inl e, s') \<Rightarrow> E e s')"

lemma wp_prim [wp_simps]:
  "wp (ret x) Q E s = Q x s"
  "wp (throw e) Q E s = E e s"
  "wp (gets f) Q' E s = Q' (f s) s"
  "wp (modify u) Q'' E s = Q'' () (u s)"
  by (simp_all add: wp_def op_simps)

lemma wp_lift [wp_simps]:
  "wp (lift_exn r) Q E s = (case r of Inl e \<Rightarrow> E e s | Inr x \<Rightarrow> Q x s)"
  by (simp add: wp_def op_simps split: sum.splits)

lemma wp_bnd [wp_simps]: "wp (bnd m f) Q E s = wp m (\<lambda>x. wp (f x) Q E) E s"
  by (auto simp: wp_def bnd_def split: prod.splits sum.splits)

lemma wp_catch [wp_simps]: "wp (catch_op m h) Q E s = wp m Q (\<lambda>e. wp (h e) Q E) s"
  by (auto simp: wp_def catch_op_def split: prod.splits sum.splits)

lemma wp_if [wp_simps]: "wp (if b then m else n) Q E s = (if b then wp m Q E s else wp n Q E s)"
  by simp

lemma wp_option [wp_simps]:
  "wp (case x of None \<Rightarrow> m | Some y \<Rightarrow> f y) Q E s = (case x of None \<Rightarrow> wp m Q E s | Some y \<Rightarrow> wp (f y) Q E s)"
  by (cases x) auto

lemma wp_prod [wp_simps]: "wp (case x of (a, b) \<Rightarrow> f a b) Q E s = (case x of (a, b) \<Rightarrow> wp (f a b) Q E s)"
  by (cases x) auto

lemma wp_keeps:
  "keeps I m \<Longrightarrow> I s \<Longrightarrow> (\<And>x t. I t \<Longrightarrow> Q x t) \<Longrightarrow> (\<And>e t. I t \<Longrightarrow> E e t) \<Longrightarrow> wp m Q E s"
  by (auto simp: wp_def keeps_def split: prod.splits sum.splits)

lemma wp_mono: "wp m Q E s \<Longrightarrow> (\<And>x t. Q x t \<Longrightarrow> Q' x t) \<Longrightarrow> (\<And>e t. E e t \<Longrightarrow> E' e t) \<Longrightarrow> wp m Q' E' s"
  by (auto simp: wp_def split: prod.splits sum.splits)

lemma wp_InrD: "wp m Q E s \<Longrightarrow> m s = (Inr x, t) \<Longrightarrow> Q x t"
  by (simp add: wp_def)

lemma wp_InlD: "wp m Q E s \<Longrightarrow> m s = (Inl e, t) \<Longrightarrow> E e t"
  by (simp add: wp_def)

section \<open>Operations that do not raise\<close>

named_theorems returns_rules \<open>operations that always return\<close>

definition returns :: "('s, 'a) op \<Rightarrow> bool" where
  "returns m \<longleftrightarrow> (\<forall>s. \<exists>x t. m s = (Inr x, t))"

lemma returns_prim [returns_rules]: "returns (ret x)" "returns (gets f)" "returns (modify g)"
  by (simp_all add: returns_def op_simps)

lemma returns_bnd [returns_rules]: "returns m \<Longrightarrow> (\<And>x. returns (f x)) \<Longrightarrow> returns (bnd m f)"
  unfolding returns_def bnd_def by (metis (mono_tags, lifting) case_prod_conv sum.case(2))

lemma returns_when [returns_rules]: "returns m \<Longrightarrow> returns (when_op b m)"
  by (simp add: when_op_def returns_prim)

lemma returns_if [returns_rules]: "(b \<Longrightarrow> returns m) \<Longrightarrow> (\<not> b \<Longrightarrow> returns n) \<Longrightarrow> returns (if b then m else n)"
  by simp

lemma returns_option [returns_rules]:
  "returns m \<Longrightarrow> (\<And>y. returns (f y)) \<Longrightarrow> returns (case x of None \<Rightarrow> m | Some y \<Rightarrow> f y)"
  by (cases x) auto

lemma returns_catch [returns_rules]: "(\<And>e. returns (h e)) \<Longrightarrow> returns (catch_op m h)"
  unfolding returns_def catch_op_def by (metis (mono_tags, lifting) case_prod_conv obj_sumE surj_pair sum.case)

lemma returns_for_each [returns_rules]: "(\<And>x. returns (f x)) \<Longrightarrow> returns (for_each xs f)"
  by (induction xs) (auto intro!: returns_rules)

lemma wp_returns: "returns m \<Longrightarrow> keeps I m \<Longrightarrow> I s \<Longrightarrow> (\<And>x t. I t \<Longrightarrow> Q x t) \<Longrightarrow> wp m Q E s"
  unfolding wp_def returns_def keeps_def by (metis (mono_tags, lifting) case_prod_conv snd_conv sum.case(2))

end
