(* ===== verification/Enums.thy ===== *)
theory Enums
  imports Prelude
begin

text \<open>
  The string enumerations of \<open>app/models/enums.py\<close>.  Each \<^verbatim>\<open>StrEnum\<close> class is a
  \<open>datatype\<close> with the members of the source, written \<open>Class.MEMBER\<close> as in Python,
  and a function giving the member's string value.  \<open>enum_values\<close> is the class method
  \<^verbatim>\<open>values\<close> and \<open>enum_of\<close> the constructor call \<^verbatim>\<open>Class(s)\<close>, which raises
  \<open>ValueError\<close> for a string that is no member's value.  The locale \<open>str_enum\<close> is what
  the services rely on: the values are pairwise distinct and the member list is complete;
  each enumeration is an interpretation of it.
\<close>

definition enum_values :: "'e list \<Rightarrow> ('e \<Rightarrow> string) \<Rightarrow> string list" where
  "enum_values ms val = map val ms"

definition enum_of :: "'e list \<Rightarrow> ('e \<Rightarrow> string) \<Rightarrow> string \<Rightarrow> exn + 'e" where
  "enum_of ms val s =
     (case find (\<lambda>m. val m = s) ms of
        Some m \<Rightarrow> Inr m
      | None \<Rightarrow> raises ValueError (s @ '' is not a valid member''))"

locale str_enum =
  fixes members :: "'e list" and val :: "'e \<Rightarrow> string"
  assumes members_complete: "e \<in> set members"
    and values_distinct: "distinct (map val members)"
begin

lemma val_inject: "val a = val b \<longleftrightarrow> a = b"
  using values_distinct members_complete by (auto simp: distinct_map dest: inj_onD)

lemma of_value: "enum_of members val (val e) = Inr e"
proof -
  have "find (\<lambda>m. val m = val e) members = Some e"
  proof (cases "find (\<lambda>m. val m = val e) members")
    case None
    then show ?thesis using members_complete [of e] by (auto simp: find_None_iff)
  next
    case (Some x)
    then show ?thesis by (auto simp: find_Some_iff val_inject)
  qed
  then show ?thesis by (simp add: enum_of_def)
qed

lemma of_sound: "enum_of members val s = Inr e \<Longrightarrow> val e = s"
  by (auto simp: enum_of_def find_Some_iff split: option.splits)

lemma of_defined_iff: "isl (enum_of members val s) \<longleftrightarrow> s \<notin> set (enum_values members val)"
proof (cases "find (\<lambda>m. val m = s) members")
  case None
  then have "s \<notin> val ` set members" by (auto simp: find_None_iff)
  with None show ?thesis by (simp add: enum_of_def enum_values_def)
next
  case (Some m)
  then have "val m = s" by (auto simp: find_Some_iff)
  with Some show ?thesis using members_complete [of m] by (auto simp: enum_of_def enum_values_def)
qed

lemma finite_members: "finite (UNIV :: 'e set)"
proof -
  have "UNIV = set members" using members_complete by auto
  then show ?thesis by (metis finite_set)
qed

end

datatype RoleName =
    ADMIN
  | CERT_MANAGER
  | OPERATOR
  | READ_ONLY

primrec RoleName_value :: "RoleName \<Rightarrow> string" where
  "RoleName_value RoleName.ADMIN = ''administrator''"
| "RoleName_value RoleName.CERT_MANAGER = ''certificate_manager''"
| "RoleName_value RoleName.OPERATOR = ''operator''"
| "RoleName_value RoleName.READ_ONLY = ''read_only''"

definition RoleName_members :: "RoleName list" where
  "RoleName_members =
     [RoleName.ADMIN,
      RoleName.CERT_MANAGER,
      RoleName.OPERATOR,
      RoleName.READ_ONLY]"

interpretation rolename_enum: str_enum RoleName_members RoleName_value
proof
  show "e \<in> set RoleName_members" for e
    by (cases e) (simp_all add: RoleName_members_def)
  show "distinct (map RoleName_value RoleName_members)"
    by (simp add: RoleName_members_def)
qed

datatype CertificateType =
    SINGLE
  | MULTI
  | WILDCARD
  | INTERNAL
  | IMPORTED

primrec CertificateType_value :: "CertificateType \<Rightarrow> string" where
  "CertificateType_value CertificateType.SINGLE = ''single''"
| "CertificateType_value CertificateType.MULTI = ''multi''"
| "CertificateType_value CertificateType.WILDCARD = ''wildcard''"
| "CertificateType_value CertificateType.INTERNAL = ''internal''"
| "CertificateType_value CertificateType.IMPORTED = ''imported''"

definition CertificateType_members :: "CertificateType list" where
  "CertificateType_members =
     [CertificateType.SINGLE,
      CertificateType.MULTI,
      CertificateType.WILDCARD,
      CertificateType.INTERNAL,
      CertificateType.IMPORTED]"

interpretation certificatetype_enum: str_enum CertificateType_members CertificateType_value
proof
  show "e \<in> set CertificateType_members" for e
    by (cases e) (simp_all add: CertificateType_members_def)
  show "distinct (map CertificateType_value CertificateType_members)"
    by (simp add: CertificateType_members_def)
qed

datatype CertificateStatus =
    ACTIVE
  | ISSUING
  | RENEWING
  | EXPIRING
  | EXPIRED
  | REVOKED
  | FAILED
  | IMPORTING
  | DISCOVERED
  | ARCHIVED

primrec CertificateStatus_value :: "CertificateStatus \<Rightarrow> string" where
  "CertificateStatus_value CertificateStatus.ACTIVE = ''active''"
| "CertificateStatus_value CertificateStatus.ISSUING = ''issuing''"
| "CertificateStatus_value CertificateStatus.RENEWING = ''renewing''"
| "CertificateStatus_value CertificateStatus.EXPIRING = ''expiring''"
| "CertificateStatus_value CertificateStatus.EXPIRED = ''expired''"
| "CertificateStatus_value CertificateStatus.REVOKED = ''revoked''"
| "CertificateStatus_value CertificateStatus.FAILED = ''failed''"
| "CertificateStatus_value CertificateStatus.IMPORTING = ''importing''"
| "CertificateStatus_value CertificateStatus.DISCOVERED = ''discovered''"
| "CertificateStatus_value CertificateStatus.ARCHIVED = ''archived''"

definition CertificateStatus_members :: "CertificateStatus list" where
  "CertificateStatus_members =
     [CertificateStatus.ACTIVE,
      CertificateStatus.ISSUING,
      CertificateStatus.RENEWING,
      CertificateStatus.EXPIRING,
      CertificateStatus.EXPIRED,
      CertificateStatus.REVOKED,
      CertificateStatus.FAILED,
      CertificateStatus.IMPORTING,
      CertificateStatus.DISCOVERED,
      CertificateStatus.ARCHIVED]"

interpretation certificatestatus_enum: str_enum CertificateStatus_members CertificateStatus_value
proof
  show "e \<in> set CertificateStatus_members" for e
    by (cases e) (simp_all add: CertificateStatus_members_def)
  show "distinct (map CertificateStatus_value CertificateStatus_members)"
    by (simp add: CertificateStatus_members_def)
qed

datatype RenewalStatus =
    NONE
  | SCHEDULED
  | IN_PROGRESS
  | SUCCESS
  | FAILED
  | SKIPPED
  | DISABLED

primrec RenewalStatus_value :: "RenewalStatus \<Rightarrow> string" where
  "RenewalStatus_value RenewalStatus.NONE = ''none''"
| "RenewalStatus_value RenewalStatus.SCHEDULED = ''scheduled''"
| "RenewalStatus_value RenewalStatus.IN_PROGRESS = ''in_progress''"
| "RenewalStatus_value RenewalStatus.SUCCESS = ''success''"
| "RenewalStatus_value RenewalStatus.FAILED = ''failed''"
| "RenewalStatus_value RenewalStatus.SKIPPED = ''skipped''"
| "RenewalStatus_value RenewalStatus.DISABLED = ''disabled''"

definition RenewalStatus_members :: "RenewalStatus list" where
  "RenewalStatus_members =
     [RenewalStatus.NONE,
      RenewalStatus.SCHEDULED,
      RenewalStatus.IN_PROGRESS,
      RenewalStatus.SUCCESS,
      RenewalStatus.FAILED,
      RenewalStatus.SKIPPED,
      RenewalStatus.DISABLED]"

interpretation renewalstatus_enum: str_enum RenewalStatus_members RenewalStatus_value
proof
  show "e \<in> set RenewalStatus_members" for e
    by (cases e) (simp_all add: RenewalStatus_members_def)
  show "distinct (map RenewalStatus_value RenewalStatus_members)"
    by (simp add: RenewalStatus_members_def)
qed

datatype KeyType =
    RSA_2048
  | RSA_4096
  | ECDSA_P256
  | ECDSA_P384
  | OTHER

primrec KeyType_value :: "KeyType \<Rightarrow> string" where
  "KeyType_value KeyType.RSA_2048 = ''rsa2048''"
| "KeyType_value KeyType.RSA_4096 = ''rsa4096''"
| "KeyType_value KeyType.ECDSA_P256 = ''ecdsa_p256''"
| "KeyType_value KeyType.ECDSA_P384 = ''ecdsa_p384''"
| "KeyType_value KeyType.OTHER = ''other''"

definition KeyType_members :: "KeyType list" where
  "KeyType_members =
     [KeyType.RSA_2048,
      KeyType.RSA_4096,
      KeyType.ECDSA_P256,
      KeyType.ECDSA_P384,
      KeyType.OTHER]"

interpretation keytype_enum: str_enum KeyType_members KeyType_value
proof
  show "e \<in> set KeyType_members" for e
    by (cases e) (simp_all add: KeyType_members_def)
  show "distinct (map KeyType_value KeyType_members)"
    by (simp add: KeyType_members_def)
qed

datatype ValidationMethod =
    HTTP_01
  | DNS_01
  | MANUAL_HTTP
  | MANUAL_DNS
  | STANDALONE
  | WEBROOT
  | CUSTOM

primrec ValidationMethod_value :: "ValidationMethod \<Rightarrow> string" where
  "ValidationMethod_value ValidationMethod.HTTP_01 = ''http-01''"
| "ValidationMethod_value ValidationMethod.DNS_01 = ''dns-01''"
| "ValidationMethod_value ValidationMethod.MANUAL_HTTP = ''manual-http''"
| "ValidationMethod_value ValidationMethod.MANUAL_DNS = ''manual-dns''"
| "ValidationMethod_value ValidationMethod.STANDALONE = ''standalone''"
| "ValidationMethod_value ValidationMethod.WEBROOT = ''webroot''"
| "ValidationMethod_value ValidationMethod.CUSTOM = ''custom''"

definition ValidationMethod_members :: "ValidationMethod list" where
  "ValidationMethod_members =
     [ValidationMethod.HTTP_01,
      ValidationMethod.DNS_01,
      ValidationMethod.MANUAL_HTTP,
      ValidationMethod.MANUAL_DNS,
      ValidationMethod.STANDALONE,
      ValidationMethod.WEBROOT,
      ValidationMethod.CUSTOM]"

interpretation validationmethod_enum: str_enum ValidationMethod_members ValidationMethod_value
proof
  show "e \<in> set ValidationMethod_members" for e
    by (cases e) (simp_all add: ValidationMethod_members_def)
  show "distinct (map ValidationMethod_value ValidationMethod_members)"
    by (simp add: ValidationMethod_members_def)
qed

datatype ProviderName =
    LETS_ENCRYPT
  | OPENSSL_CA
  | DIGICERT
  | GODADDY
  | SECTIGO
  | GLOBALSIGN
  | ENTRUST
  | MS_ADCS
  | INTERNAL_PKI

primrec ProviderName_value :: "ProviderName \<Rightarrow> string" where
  "ProviderName_value ProviderName.LETS_ENCRYPT = ''letsencrypt''"
| "ProviderName_value ProviderName.OPENSSL_CA = ''openssl-ca''"
| "ProviderName_value ProviderName.DIGICERT = ''digicert''"
| "ProviderName_value ProviderName.GODADDY = ''godaddy''"
| "ProviderName_value ProviderName.SECTIGO = ''sectigo''"
| "ProviderName_value ProviderName.GLOBALSIGN = ''globalsign''"
| "ProviderName_value ProviderName.ENTRUST = ''entrust''"
| "ProviderName_value ProviderName.MS_ADCS = ''ms-adcs''"
| "ProviderName_value ProviderName.INTERNAL_PKI = ''internal-pki''"

definition ProviderName_members :: "ProviderName list" where
  "ProviderName_members =
     [ProviderName.LETS_ENCRYPT,
      ProviderName.OPENSSL_CA,
      ProviderName.DIGICERT,
      ProviderName.GODADDY,
      ProviderName.SECTIGO,
      ProviderName.GLOBALSIGN,
      ProviderName.ENTRUST,
      ProviderName.MS_ADCS,
      ProviderName.INTERNAL_PKI]"

interpretation providername_enum: str_enum ProviderName_members ProviderName_value
proof
  show "e \<in> set ProviderName_members" for e
    by (cases e) (simp_all add: ProviderName_members_def)
  show "distinct (map ProviderName_value ProviderName_members)"
    by (simp add: ProviderName_members_def)
qed

datatype ServerEnvironment =
    PRODUCTION
  | DEVELOPMENT
  | TESTING
  | DR
  | CLOUD
  | ON_PREMISE

primrec ServerEnvironment_value :: "ServerEnvironment \<Rightarrow> string" where
  "ServerEnvironment_value ServerEnvironment.PRODUCTION = ''production''"
| "ServerEnvironment_value ServerEnvironment.DEVELOPMENT = ''development''"
| "ServerEnvironment_value ServerEnvironment.TESTING = ''testing''"
| "ServerEnvironment_value ServerEnvironment.DR = ''dr''"
| "ServerEnvironment_value ServerEnvironment.CLOUD = ''cloud''"
| "ServerEnvironment_value ServerEnvironment.ON_PREMISE = ''on_premise''"

definition ServerEnvironment_members :: "ServerEnvironment list" where
  "ServerEnvironment_members =
     [ServerEnvironment.PRODUCTION,
      ServerEnvironment.DEVELOPMENT,
      ServerEnvironment.TESTING,
      ServerEnvironment.DR,
      ServerEnvironment.CLOUD,
      ServerEnvironment.ON_PREMISE]"

interpretation serverenvironment_enum: str_enum ServerEnvironment_members ServerEnvironment_value
proof
  show "e \<in> set ServerEnvironment_members" for e
    by (cases e) (simp_all add: ServerEnvironment_members_def)
  show "distinct (map ServerEnvironment_value ServerEnvironment_members)"
    by (simp add: ServerEnvironment_members_def)
qed

datatype AuthMethod =
    PASSWORD
  | SSH_KEY
  | AGENT

primrec AuthMethod_value :: "AuthMethod \<Rightarrow> string" where
  "AuthMethod_value AuthMethod.PASSWORD = ''password''"
| "AuthMethod_value AuthMethod.SSH_KEY = ''ssh_key''"
| "AuthMethod_value AuthMethod.AGENT = ''agent''"

definition AuthMethod_members :: "AuthMethod list" where
  "AuthMethod_members =
     [AuthMethod.PASSWORD,
      AuthMethod.SSH_KEY,
      AuthMethod.AGENT]"

interpretation authmethod_enum: str_enum AuthMethod_members AuthMethod_value
proof
  show "e \<in> set AuthMethod_members" for e
    by (cases e) (simp_all add: AuthMethod_members_def)
  show "distinct (map AuthMethod_value AuthMethod_members)"
    by (simp add: AuthMethod_members_def)
qed

datatype ConnectionStatus =
    UNKNOWN
  | REACHABLE
  | UNREACHABLE

primrec ConnectionStatus_value :: "ConnectionStatus \<Rightarrow> string" where
  "ConnectionStatus_value ConnectionStatus.UNKNOWN = ''unknown''"
| "ConnectionStatus_value ConnectionStatus.REACHABLE = ''reachable''"
| "ConnectionStatus_value ConnectionStatus.UNREACHABLE = ''unreachable''"

definition ConnectionStatus_members :: "ConnectionStatus list" where
  "ConnectionStatus_members =
     [ConnectionStatus.UNKNOWN,
      ConnectionStatus.REACHABLE,
      ConnectionStatus.UNREACHABLE]"

interpretation connectionstatus_enum: str_enum ConnectionStatus_members ConnectionStatus_value
proof
  show "e \<in> set ConnectionStatus_members" for e
    by (cases e) (simp_all add: ConnectionStatus_members_def)
  show "distinct (map ConnectionStatus_value ConnectionStatus_members)"
    by (simp add: ConnectionStatus_members_def)
qed

datatype WebServerType =
    NGINX
  | APACHE
  | HAPROXY
  | OPENVPN
  | TOMCAT
  | JETTY
  | NODEJS
  | IIS
  | CUSTOM

primrec WebServerType_value :: "WebServerType \<Rightarrow> string" where
  "WebServerType_value WebServerType.NGINX = ''nginx''"
| "WebServerType_value WebServerType.APACHE = ''apache''"
| "WebServerType_value WebServerType.HAPROXY = ''haproxy''"
| "WebServerType_value WebServerType.OPENVPN = ''openvpn''"
| "WebServerType_value WebServerType.TOMCAT = ''tomcat''"
| "WebServerType_value WebServerType.JETTY = ''jetty''"
| "WebServerType_value WebServerType.NODEJS = ''nodejs''"
| "WebServerType_value WebServerType.IIS = ''iis''"
| "WebServerType_value WebServerType.CUSTOM = ''custom''"

definition WebServerType_members :: "WebServerType list" where
  "WebServerType_members =
     [WebServerType.NGINX,
      WebServerType.APACHE,
      WebServerType.HAPROXY,
      WebServerType.OPENVPN,
      WebServerType.TOMCAT,
      WebServerType.JETTY,
      WebServerType.NODEJS,
      WebServerType.IIS,
      WebServerType.CUSTOM]"

interpretation webservertype_enum: str_enum WebServerType_members WebServerType_value
proof
  show "e \<in> set WebServerType_members" for e
    by (cases e) (simp_all add: WebServerType_members_def)
  show "distinct (map WebServerType_value WebServerType_members)"
    by (simp add: WebServerType_members_def)
qed

datatype DeploymentMethod =
    SSH
  | SCP
  | SFTP
  | RSYNC

primrec DeploymentMethod_value :: "DeploymentMethod \<Rightarrow> string" where
  "DeploymentMethod_value DeploymentMethod.SSH = ''ssh''"
| "DeploymentMethod_value DeploymentMethod.SCP = ''scp''"
| "DeploymentMethod_value DeploymentMethod.SFTP = ''sftp''"
| "DeploymentMethod_value DeploymentMethod.RSYNC = ''rsync''"

definition DeploymentMethod_members :: "DeploymentMethod list" where
  "DeploymentMethod_members =
     [DeploymentMethod.SSH,
      DeploymentMethod.SCP,
      DeploymentMethod.SFTP,
      DeploymentMethod.RSYNC]"

interpretation deploymentmethod_enum: str_enum DeploymentMethod_members DeploymentMethod_value
proof
  show "e \<in> set DeploymentMethod_members" for e
    by (cases e) (simp_all add: DeploymentMethod_members_def)
  show "distinct (map DeploymentMethod_value DeploymentMethod_members)"
    by (simp add: DeploymentMethod_members_def)
qed

datatype DeploymentStatus =
    PENDING
  | RUNNING
  | SUCCESS
  | FAILED
  | ROLLED_BACK

primrec DeploymentStatus_value :: "DeploymentStatus \<Rightarrow> string" where
  "DeploymentStatus_value DeploymentStatus.PENDING = ''pending''"
| "DeploymentStatus_value DeploymentStatus.RUNNING = ''running''"
| "DeploymentStatus_value DeploymentStatus.SUCCESS = ''success''"
| "DeploymentStatus_value DeploymentStatus.FAILED = ''failed''"
| "DeploymentStatus_value DeploymentStatus.ROLLED_BACK = ''rolled_back''"

definition DeploymentStatus_members :: "DeploymentStatus list" where
  "DeploymentStatus_members =
     [DeploymentStatus.PENDING,
      DeploymentStatus.RUNNING,
      DeploymentStatus.SUCCESS,
      DeploymentStatus.FAILED,
      DeploymentStatus.ROLLED_BACK]"

interpretation deploymentstatus_enum: str_enum DeploymentStatus_members DeploymentStatus_value
proof
  show "e \<in> set DeploymentStatus_members" for e
    by (cases e) (simp_all add: DeploymentStatus_members_def)
  show "distinct (map DeploymentStatus_value DeploymentStatus_members)"
    by (simp add: DeploymentStatus_members_def)
qed

datatype NotificationChannel =
    SMTP
  | SLACK
  | TEAMS
  | WEBHOOK

primrec NotificationChannel_value :: "NotificationChannel \<Rightarrow> string" where
  "NotificationChannel_value NotificationChannel.SMTP = ''smtp''"
| "NotificationChannel_value NotificationChannel.SLACK = ''slack''"
| "NotificationChannel_value NotificationChannel.TEAMS = ''teams''"
| "NotificationChannel_value NotificationChannel.WEBHOOK = ''webhook''"

definition NotificationChannel_members :: "NotificationChannel list" where
  "NotificationChannel_members =
     [NotificationChannel.SMTP,
      NotificationChannel.SLACK,
      NotificationChannel.TEAMS,
      NotificationChannel.WEBHOOK]"

interpretation notificationchannel_enum: str_enum NotificationChannel_members NotificationChannel_value
proof
  show "e \<in> set NotificationChannel_members" for e
    by (cases e) (simp_all add: NotificationChannel_members_def)
  show "distinct (map NotificationChannel_value NotificationChannel_members)"
    by (simp add: NotificationChannel_members_def)
qed

datatype NotificationStatus =
    QUEUED
  | SENT
  | FAILED

primrec NotificationStatus_value :: "NotificationStatus \<Rightarrow> string" where
  "NotificationStatus_value NotificationStatus.QUEUED = ''queued''"
| "NotificationStatus_value NotificationStatus.SENT = ''sent''"
| "NotificationStatus_value NotificationStatus.FAILED = ''failed''"

definition NotificationStatus_members :: "NotificationStatus list" where
  "NotificationStatus_members =
     [NotificationStatus.QUEUED,
      NotificationStatus.SENT,
      NotificationStatus.FAILED]"

interpretation notificationstatus_enum: str_enum NotificationStatus_members NotificationStatus_value
proof
  show "e \<in> set NotificationStatus_members" for e
    by (cases e) (simp_all add: NotificationStatus_members_def)
  show "distinct (map NotificationStatus_value NotificationStatus_members)"
    by (simp add: NotificationStatus_members_def)
qed

datatype NotificationEvent =
    EXPIRY_60
  | EXPIRY_30
  | EXPIRY_15
  | EXPIRY_7
  | EXPIRY_3
  | EXPIRY_1
  | ISSUED
  | RENEWED
  | FAILURE
  | DEPLOYED
  | DEPLOYMENT_FAILED
  | REVOKED
  | IMPORTED
  | EXPIRED
  | DAILY_SUMMARY

primrec NotificationEvent_value :: "NotificationEvent \<Rightarrow> string" where
  "NotificationEvent_value NotificationEvent.EXPIRY_60 = ''expiry_60''"
| "NotificationEvent_value NotificationEvent.EXPIRY_30 = ''expiry_30''"
| "NotificationEvent_value NotificationEvent.EXPIRY_15 = ''expiry_15''"
| "NotificationEvent_value NotificationEvent.EXPIRY_7 = ''expiry_7''"
| "NotificationEvent_value NotificationEvent.EXPIRY_3 = ''expiry_3''"
| "NotificationEvent_value NotificationEvent.EXPIRY_1 = ''expiry_1''"
| "NotificationEvent_value NotificationEvent.ISSUED = ''issued''"
| "NotificationEvent_value NotificationEvent.RENEWED = ''renewed''"
| "NotificationEvent_value NotificationEvent.FAILURE = ''failure''"
| "NotificationEvent_value NotificationEvent.DEPLOYED = ''deployed''"
| "NotificationEvent_value NotificationEvent.DEPLOYMENT_FAILED = ''deployment_failed''"
| "NotificationEvent_value NotificationEvent.REVOKED = ''revoked''"
| "NotificationEvent_value NotificationEvent.IMPORTED = ''imported''"
| "NotificationEvent_value NotificationEvent.EXPIRED = ''expired''"
| "NotificationEvent_value NotificationEvent.DAILY_SUMMARY = ''daily_summary''"

definition NotificationEvent_members :: "NotificationEvent list" where
  "NotificationEvent_members =
     [NotificationEvent.EXPIRY_60,
      NotificationEvent.EXPIRY_30,
      NotificationEvent.EXPIRY_15,
      NotificationEvent.EXPIRY_7,
      NotificationEvent.EXPIRY_3,
      NotificationEvent.EXPIRY_1,
      NotificationEvent.ISSUED,
      NotificationEvent.RENEWED,
      NotificationEvent.FAILURE,
      NotificationEvent.DEPLOYED,
      NotificationEvent.DEPLOYMENT_FAILED,
      NotificationEvent.REVOKED,
      NotificationEvent.IMPORTED,
      NotificationEvent.EXPIRED,
      NotificationEvent.DAILY_SUMMARY]"

interpretation notificationevent_enum: str_enum NotificationEvent_members NotificationEvent_value
proof
  show "e \<in> set NotificationEvent_members" for e
    by (cases e) (simp_all add: NotificationEvent_members_def)
  show "distinct (map NotificationEvent_value NotificationEvent_members)"
    by (simp add: NotificationEvent_members_def)
qed

datatype JobType =
    ISSUE
  | RENEW
  | REVOKE
  | DEPLOY
  | IMPORT
  | DISCOVERY
  | BACKUP
  | VERIFY
  | COMPLIANCE
  | NOTIFICATION
  | CLEANUP
  | HEALTH
  | REPORTS
  | NETWORK_SCAN
  | CT_MONITOR
  | CERT_USAGE_SCAN

primrec JobType_value :: "JobType \<Rightarrow> string" where
  "JobType_value JobType.ISSUE = ''issue''"
| "JobType_value JobType.RENEW = ''renew''"
| "JobType_value JobType.REVOKE = ''revoke''"
| "JobType_value JobType.DEPLOY = ''deploy''"
| "JobType_value JobType.IMPORT = ''import''"
| "JobType_value JobType.DISCOVERY = ''discovery''"
| "JobType_value JobType.BACKUP = ''backup''"
| "JobType_value JobType.VERIFY = ''verify''"
| "JobType_value JobType.COMPLIANCE = ''compliance''"
| "JobType_value JobType.NOTIFICATION = ''notification''"
| "JobType_value JobType.CLEANUP = ''cleanup''"
| "JobType_value JobType.HEALTH = ''health''"
| "JobType_value JobType.REPORTS = ''reports''"
| "JobType_value JobType.NETWORK_SCAN = ''network_scan''"
| "JobType_value JobType.CT_MONITOR = ''ct_monitor''"
| "JobType_value JobType.CERT_USAGE_SCAN = ''cert_usage_scan''"

definition JobType_members :: "JobType list" where
  "JobType_members =
     [JobType.ISSUE,
      JobType.RENEW,
      JobType.REVOKE,
      JobType.DEPLOY,
      JobType.IMPORT,
      JobType.DISCOVERY,
      JobType.BACKUP,
      JobType.VERIFY,
      JobType.COMPLIANCE,
      JobType.NOTIFICATION,
      JobType.CLEANUP,
      JobType.HEALTH,
      JobType.REPORTS,
      JobType.NETWORK_SCAN,
      JobType.CT_MONITOR,
      JobType.CERT_USAGE_SCAN]"

interpretation jobtype_enum: str_enum JobType_members JobType_value
proof
  show "e \<in> set JobType_members" for e
    by (cases e) (simp_all add: JobType_members_def)
  show "distinct (map JobType_value JobType_members)"
    by (simp add: JobType_members_def)
qed

datatype JobStatus =
    QUEUED
  | RUNNING
  | SUCCESS
  | FAILED
  | RETRYING
  | CANCELLED

primrec JobStatus_value :: "JobStatus \<Rightarrow> string" where
  "JobStatus_value JobStatus.QUEUED = ''queued''"
| "JobStatus_value JobStatus.RUNNING = ''running''"
| "JobStatus_value JobStatus.SUCCESS = ''success''"
| "JobStatus_value JobStatus.FAILED = ''failed''"
| "JobStatus_value JobStatus.RETRYING = ''retrying''"
| "JobStatus_value JobStatus.CANCELLED = ''cancelled''"

definition JobStatus_members :: "JobStatus list" where
  "JobStatus_members =
     [JobStatus.QUEUED,
      JobStatus.RUNNING,
      JobStatus.SUCCESS,
      JobStatus.FAILED,
      JobStatus.RETRYING,
      JobStatus.CANCELLED]"

interpretation jobstatus_enum: str_enum JobStatus_members JobStatus_value
proof
  show "e \<in> set JobStatus_members" for e
    by (cases e) (simp_all add: JobStatus_members_def)
  show "distinct (map JobStatus_value JobStatus_members)"
    by (simp add: JobStatus_members_def)
qed

datatype JobTrigger =
    MANUAL
  | SCHEDULER
  | API
  | SYSTEM

primrec JobTrigger_value :: "JobTrigger \<Rightarrow> string" where
  "JobTrigger_value JobTrigger.MANUAL = ''manual''"
| "JobTrigger_value JobTrigger.SCHEDULER = ''scheduler''"
| "JobTrigger_value JobTrigger.API = ''api''"
| "JobTrigger_value JobTrigger.SYSTEM = ''system''"

definition JobTrigger_members :: "JobTrigger list" where
  "JobTrigger_members =
     [JobTrigger.MANUAL,
      JobTrigger.SCHEDULER,
      JobTrigger.API,
      JobTrigger.SYSTEM]"

interpretation jobtrigger_enum: str_enum JobTrigger_members JobTrigger_value
proof
  show "e \<in> set JobTrigger_members" for e
    by (cases e) (simp_all add: JobTrigger_members_def)
  show "distinct (map JobTrigger_value JobTrigger_members)"
    by (simp add: JobTrigger_members_def)
qed

datatype HookType =
    AUTH
  | CLEANUP
  | PRE_DEPLOY
  | POST_DEPLOY
  | ROLLBACK
  | CUSTOM

primrec HookType_value :: "HookType \<Rightarrow> string" where
  "HookType_value HookType.AUTH = ''auth''"
| "HookType_value HookType.CLEANUP = ''cleanup''"
| "HookType_value HookType.PRE_DEPLOY = ''pre_deploy''"
| "HookType_value HookType.POST_DEPLOY = ''post_deploy''"
| "HookType_value HookType.ROLLBACK = ''rollback''"
| "HookType_value HookType.CUSTOM = ''custom''"

definition HookType_members :: "HookType list" where
  "HookType_members =
     [HookType.AUTH,
      HookType.CLEANUP,
      HookType.PRE_DEPLOY,
      HookType.POST_DEPLOY,
      HookType.ROLLBACK,
      HookType.CUSTOM]"

interpretation hooktype_enum: str_enum HookType_members HookType_value
proof
  show "e \<in> set HookType_members" for e
    by (cases e) (simp_all add: HookType_members_def)
  show "distinct (map HookType_value HookType_members)"
    by (simp add: HookType_members_def)
qed

datatype AuditResult =
    SUCCESS
  | FAILURE
  | DENIED

primrec AuditResult_value :: "AuditResult \<Rightarrow> string" where
  "AuditResult_value AuditResult.SUCCESS = ''success''"
| "AuditResult_value AuditResult.FAILURE = ''failure''"
| "AuditResult_value AuditResult.DENIED = ''denied''"

definition AuditResult_members :: "AuditResult list" where
  "AuditResult_members =
     [AuditResult.SUCCESS,
      AuditResult.FAILURE,
      AuditResult.DENIED]"

interpretation auditresult_enum: str_enum AuditResult_members AuditResult_value
proof
  show "e \<in> set AuditResult_members" for e
    by (cases e) (simp_all add: AuditResult_members_def)
  show "distinct (map AuditResult_value AuditResult_members)"
    by (simp add: AuditResult_members_def)
qed

datatype HealthStatus =
    HEALTHY
  | WARNING
  | CRITICAL
  | UNKNOWN

primrec HealthStatus_value :: "HealthStatus \<Rightarrow> string" where
  "HealthStatus_value HealthStatus.HEALTHY = ''healthy''"
| "HealthStatus_value HealthStatus.WARNING = ''warning''"
| "HealthStatus_value HealthStatus.CRITICAL = ''critical''"
| "HealthStatus_value HealthStatus.UNKNOWN = ''unknown''"

definition HealthStatus_members :: "HealthStatus list" where
  "HealthStatus_members =
     [HealthStatus.HEALTHY,
      HealthStatus.WARNING,
      HealthStatus.CRITICAL,
      HealthStatus.UNKNOWN]"

interpretation healthstatus_enum: str_enum HealthStatus_members HealthStatus_value
proof
  show "e \<in> set HealthStatus_members" for e
    by (cases e) (simp_all add: HealthStatus_members_def)
  show "distinct (map HealthStatus_value HealthStatus_members)"
    by (simp add: HealthStatus_members_def)
qed

datatype ComplianceStatus =
    COMPLIANT
  | NON_COMPLIANT
  | PENDING
  | UNKNOWN

primrec ComplianceStatus_value :: "ComplianceStatus \<Rightarrow> string" where
  "ComplianceStatus_value ComplianceStatus.COMPLIANT = ''compliant''"
| "ComplianceStatus_value ComplianceStatus.NON_COMPLIANT = ''non_compliant''"
| "ComplianceStatus_value ComplianceStatus.PENDING = ''pending''"
| "ComplianceStatus_value ComplianceStatus.UNKNOWN = ''unknown''"

definition ComplianceStatus_members :: "ComplianceStatus list" where
  "ComplianceStatus_members =
     [ComplianceStatus.COMPLIANT,
      ComplianceStatus.NON_COMPLIANT,
      ComplianceStatus.PENDING,
      ComplianceStatus.UNKNOWN]"

interpretation compliancestatus_enum: str_enum ComplianceStatus_members ComplianceStatus_value
proof
  show "e \<in> set ComplianceStatus_members" for e
    by (cases e) (simp_all add: ComplianceStatus_members_def)
  show "distinct (map ComplianceStatus_value ComplianceStatus_members)"
    by (simp add: ComplianceStatus_members_def)
qed

datatype BackupKind =
    CERTIFICATE
  | DATABASE
  | CONFIG
  | FULL

primrec BackupKind_value :: "BackupKind \<Rightarrow> string" where
  "BackupKind_value BackupKind.CERTIFICATE = ''certificate''"
| "BackupKind_value BackupKind.DATABASE = ''database''"
| "BackupKind_value BackupKind.CONFIG = ''config''"
| "BackupKind_value BackupKind.FULL = ''full''"

definition BackupKind_members :: "BackupKind list" where
  "BackupKind_members =
     [BackupKind.CERTIFICATE,
      BackupKind.DATABASE,
      BackupKind.CONFIG,
      BackupKind.FULL]"

interpretation backupkind_enum: str_enum BackupKind_members BackupKind_value
proof
  show "e \<in> set BackupKind_members" for e
    by (cases e) (simp_all add: BackupKind_members_def)
  show "distinct (map BackupKind_value BackupKind_members)"
    by (simp add: BackupKind_members_def)
qed

datatype ScheduleType =
    INTERVAL
  | CRON

primrec ScheduleType_value :: "ScheduleType \<Rightarrow> string" where
  "ScheduleType_value ScheduleType.INTERVAL = ''interval''"
| "ScheduleType_value ScheduleType.CRON = ''cron''"

definition ScheduleType_members :: "ScheduleType list" where
  "ScheduleType_members =
     [ScheduleType.INTERVAL,
      ScheduleType.CRON]"

interpretation scheduletype_enum: str_enum ScheduleType_members ScheduleType_value
proof
  show "e \<in> set ScheduleType_members" for e
    by (cases e) (simp_all add: ScheduleType_members_def)
  show "distinct (map ScheduleType_value ScheduleType_members)"
    by (simp add: ScheduleType_members_def)
qed

datatype StorageKind =
    FILESYSTEM
  | ENCRYPTED_FILESYSTEM
  | NFS

primrec StorageKind_value :: "StorageKind \<Rightarrow> string" where
  "StorageKind_value StorageKind.FILESYSTEM = ''filesystem''"
| "StorageKind_value StorageKind.ENCRYPTED_FILESYSTEM = ''encrypted-filesystem''"
| "StorageKind_value StorageKind.NFS = ''nfs''"

definition StorageKind_members :: "StorageKind list" where
  "StorageKind_members =
     [StorageKind.FILESYSTEM,
      StorageKind.ENCRYPTED_FILESYSTEM,
      StorageKind.NFS]"

interpretation storagekind_enum: str_enum StorageKind_members StorageKind_value
proof
  show "e \<in> set StorageKind_members" for e
    by (cases e) (simp_all add: StorageKind_members_def)
  show "distinct (map StorageKind_value StorageKind_members)"
    by (simp add: StorageKind_members_def)
qed

datatype OIDC_STATUS =
    NONE
  | ENABLED

primrec OIDC_STATUS_value :: "OIDC_STATUS \<Rightarrow> string" where
  "OIDC_STATUS_value OIDC_STATUS.NONE = ''none''"
| "OIDC_STATUS_value OIDC_STATUS.ENABLED = ''enabled''"

definition OIDC_STATUS_members :: "OIDC_STATUS list" where
  "OIDC_STATUS_members =
     [OIDC_STATUS.NONE,
      OIDC_STATUS.ENABLED]"

interpretation oidc_status_enum: str_enum OIDC_STATUS_members OIDC_STATUS_value
proof
  show "e \<in> set OIDC_STATUS_members" for e
    by (cases e) (simp_all add: OIDC_STATUS_members_def)
  show "distinct (map OIDC_STATUS_value OIDC_STATUS_members)"
    by (simp add: OIDC_STATUS_members_def)
qed

datatype FindingStatus =
    OPEN
  | ACKNOWLEDGED
  | INVESTIGATING
  | FALSE_POSITIVE
  | RESOLVED

primrec FindingStatus_value :: "FindingStatus \<Rightarrow> string" where
  "FindingStatus_value FindingStatus.OPEN = ''open''"
| "FindingStatus_value FindingStatus.ACKNOWLEDGED = ''acknowledged''"
| "FindingStatus_value FindingStatus.INVESTIGATING = ''investigating''"
| "FindingStatus_value FindingStatus.FALSE_POSITIVE = ''false_positive''"
| "FindingStatus_value FindingStatus.RESOLVED = ''resolved''"

definition FindingStatus_members :: "FindingStatus list" where
  "FindingStatus_members =
     [FindingStatus.OPEN,
      FindingStatus.ACKNOWLEDGED,
      FindingStatus.INVESTIGATING,
      FindingStatus.FALSE_POSITIVE,
      FindingStatus.RESOLVED]"

interpretation findingstatus_enum: str_enum FindingStatus_members FindingStatus_value
proof
  show "e \<in> set FindingStatus_members" for e
    by (cases e) (simp_all add: FindingStatus_members_def)
  show "distinct (map FindingStatus_value FindingStatus_members)"
    by (simp add: FindingStatus_members_def)
qed

datatype FindingSeverity =
    INFORMATIONAL
  | LOW
  | MEDIUM
  | HIGH
  | CRITICAL

primrec FindingSeverity_value :: "FindingSeverity \<Rightarrow> string" where
  "FindingSeverity_value FindingSeverity.INFORMATIONAL = ''informational''"
| "FindingSeverity_value FindingSeverity.LOW = ''low''"
| "FindingSeverity_value FindingSeverity.MEDIUM = ''medium''"
| "FindingSeverity_value FindingSeverity.HIGH = ''high''"
| "FindingSeverity_value FindingSeverity.CRITICAL = ''critical''"

definition FindingSeverity_members :: "FindingSeverity list" where
  "FindingSeverity_members =
     [FindingSeverity.INFORMATIONAL,
      FindingSeverity.LOW,
      FindingSeverity.MEDIUM,
      FindingSeverity.HIGH,
      FindingSeverity.CRITICAL]"

interpretation findingseverity_enum: str_enum FindingSeverity_members FindingSeverity_value
proof
  show "e \<in> set FindingSeverity_members" for e
    by (cases e) (simp_all add: FindingSeverity_members_def)
  show "distinct (map FindingSeverity_value FindingSeverity_members)"
    by (simp add: FindingSeverity_members_def)
qed

datatype CertUsageScanStatus =
    QUEUED
  | RUNNING
  | COMPLETED
  | FAILED
  | CANCELLED

primrec CertUsageScanStatus_value :: "CertUsageScanStatus \<Rightarrow> string" where
  "CertUsageScanStatus_value CertUsageScanStatus.QUEUED = ''queued''"
| "CertUsageScanStatus_value CertUsageScanStatus.RUNNING = ''running''"
| "CertUsageScanStatus_value CertUsageScanStatus.COMPLETED = ''completed''"
| "CertUsageScanStatus_value CertUsageScanStatus.FAILED = ''failed''"
| "CertUsageScanStatus_value CertUsageScanStatus.CANCELLED = ''cancelled''"

definition CertUsageScanStatus_members :: "CertUsageScanStatus list" where
  "CertUsageScanStatus_members =
     [CertUsageScanStatus.QUEUED,
      CertUsageScanStatus.RUNNING,
      CertUsageScanStatus.COMPLETED,
      CertUsageScanStatus.FAILED,
      CertUsageScanStatus.CANCELLED]"

interpretation certusagescanstatus_enum: str_enum CertUsageScanStatus_members CertUsageScanStatus_value
proof
  show "e \<in> set CertUsageScanStatus_members" for e
    by (cases e) (simp_all add: CertUsageScanStatus_members_def)
  show "distinct (map CertUsageScanStatus_value CertUsageScanStatus_members)"
    by (simp add: CertUsageScanStatus_members_def)
qed

datatype CertUsageResultStatus =
    CONFIRMED
  | DIFFERENT_CERTIFICATE
  | UNREACHABLE
  | DNS_FAILED
  | TLS_FAILED
  | TIMEOUT

primrec CertUsageResultStatus_value :: "CertUsageResultStatus \<Rightarrow> string" where
  "CertUsageResultStatus_value CertUsageResultStatus.CONFIRMED = ''confirmed''"
| "CertUsageResultStatus_value CertUsageResultStatus.DIFFERENT_CERTIFICATE = ''different_certificate''"
| "CertUsageResultStatus_value CertUsageResultStatus.UNREACHABLE = ''unreachable''"
| "CertUsageResultStatus_value CertUsageResultStatus.DNS_FAILED = ''dns_failed''"
| "CertUsageResultStatus_value CertUsageResultStatus.TLS_FAILED = ''tls_failed''"
| "CertUsageResultStatus_value CertUsageResultStatus.TIMEOUT = ''timeout''"

definition CertUsageResultStatus_members :: "CertUsageResultStatus list" where
  "CertUsageResultStatus_members =
     [CertUsageResultStatus.CONFIRMED,
      CertUsageResultStatus.DIFFERENT_CERTIFICATE,
      CertUsageResultStatus.UNREACHABLE,
      CertUsageResultStatus.DNS_FAILED,
      CertUsageResultStatus.TLS_FAILED,
      CertUsageResultStatus.TIMEOUT]"

interpretation certusageresultstatus_enum: str_enum CertUsageResultStatus_members CertUsageResultStatus_value
proof
  show "e \<in> set CertUsageResultStatus_members" for e
    by (cases e) (simp_all add: CertUsageResultStatus_members_def)
  show "distinct (map CertUsageResultStatus_value CertUsageResultStatus_members)"
    by (simp add: CertUsageResultStatus_members_def)
qed

end
