(* ===== verification/Models.thy ===== *)
theory Models
  imports Ops Enums
begin

text \<open>
  The ORM models of \<open>app/models/\<close>: one record per model class, with the columns of the
  source under a prefix that names the class (\<open>c_status\<close> is \<^verbatim>\<open>Certificate.status\<close>).  The
  primary key and the mixin timestamps are in \<open>row\<close>.  Columns holding a status are typed
  with the enumeration of \<open>Enums\<close>; columns that the services compare with free strings
  (provider, key type, validation method, environment) stay strings; JSON columns with a
  fixed shape are lists, the others \<open>json\<close> values.  \<open>db\<close> is the database, \<open>world\<close> a
  session on it: the committed state, the flushed but uncommitted one, and the file system,
  which no rollback restores.
\<close>

datatype json =
    JNull | JBool bool | JInt int | JStr string | JList "json list" | JObj "(string \<times> json) list"

type_synonym dict = "(string \<times> json) list"

record role =
  ro_name :: string
  ro_description :: string
  ro_permissions :: "string list"

record user =
  u_username :: string
  u_email :: "string option"
  u_full_name :: string
  u_hashed_password :: string
  u_role_id :: int
  u_is_active :: bool
  u_is_locked :: bool
  u_failed_login_attempts :: int
  u_locked_until :: "datetime option"
  u_mfa_enabled :: bool
  u_mfa_secret_encrypted :: "string option"
  u_must_change_password :: bool
  u_last_login_at :: "datetime option"
  u_last_login_ip :: "string option"
  u_created_by :: "int option"
  u_preferences :: dict

record api_token =
  at_user_id :: int
  at_name :: string
  at_token_hash :: string
  at_prefix :: string
  at_scopes :: "string list"
  at_expires_at :: "datetime option"
  at_last_used_at :: "datetime option"
  at_revoked_at :: "datetime option"

record refresh_token =
  rt_user_id :: int
  rt_jti :: string
  rt_token_hash :: string
  rt_expires_at :: datetime
  rt_revoked_at :: "datetime option"
  rt_user_agent :: "string option"
  rt_ip_address :: "string option"

record favorite_row =
  fav_user_id :: int
  fav_certificate_id :: int

record tag =
  tag_name :: string
  tag_color :: string

record provider_row =
  pr_name :: string
  pr_provider_type :: string
  pr_is_active :: bool
  pr_is_default :: bool
  pr_config_encrypted :: "string option"
  pr_description :: "string option"
  pr_last_status :: "string option"

record certificate =
  c_domain :: string
  c_cert_name :: "string option"
  c_sans :: "string list"
  c_is_wildcard :: bool
  c_cert_type :: CertificateType
  c_subject :: "string option"
  c_issuer :: "string option"
  c_serial_number :: "string option"
  c_fingerprint_sha256 :: "string option"
  c_public_key_algorithm :: "string option"
  c_key_type :: string
  c_key_size :: "int option"
  c_signature_algorithm :: "string option"
  c_valid_from :: "datetime option"
  c_valid_until :: "datetime option"
  c_status :: CertificateStatus
  c_environment :: string
  c_provider_name :: string
  c_validation_method :: string
  c_auto_renew :: bool
  c_renewal_status :: RenewalStatus
  c_renewal_error :: "string option"
  c_last_renewed_at :: "datetime option"
  c_last_checked_at :: "datetime option"
  c_imported :: bool
  c_staging :: bool
  c_dry_run :: bool
  c_managed_by_platform :: bool
  c_owner_id :: "int option"
  c_owner_contact :: "string option"
  c_notes :: "string option"
  c_favorite :: bool
  c_email :: "string option"
  c_webroot_path :: "string option"
  c_standalone_port :: "int option"
  c_auth_hook_path :: "string option"
  c_cleanup_hook_path :: "string option"
  c_hook_env :: "(string \<times> string) list option"
  c_hook_execution_user :: "string option"
  c_hook_working_directory :: "string option"
  c_hook_timeout :: "int option"
  c_ssh_private_key_encrypted :: "string option"
  c_ssh_target_host :: "string option"
  c_cert_path :: "string option"
  c_key_path :: "string option"
  c_chain_path :: "string option"
  c_fullchain_path :: "string option"
  c_pfx_path :: "string option"
  c_backup_path :: "string option"
  c_health_score :: "int option"
  c_health_status :: HealthStatus
  c_compliance_status :: ComplianceStatus
  c_last_health_check_at :: "datetime option"
  c_tags :: "int list"

text \<open>A \<^verbatim>\<open>Certificate()\<close> with the column defaults.\<close>

definition new_certificate :: "string \<Rightarrow> certificate" where
  "new_certificate domain = \<lparr>
     c_domain = domain, c_cert_name = None, c_sans = [], c_is_wildcard = False,
     c_cert_type = CertificateType.SINGLE, c_subject = None, c_issuer = None,
     c_serial_number = None, c_fingerprint_sha256 = None, c_public_key_algorithm = None,
     c_key_type = ''rsa'', c_key_size = None, c_signature_algorithm = None,
     c_valid_from = None, c_valid_until = None, c_status = CertificateStatus.ACTIVE,
     c_environment = ''production'', c_provider_name = ''letsencrypt'',
     c_validation_method = ''http-01'', c_auto_renew = True,
     c_renewal_status = RenewalStatus.NONE, c_renewal_error = None, c_last_renewed_at = None,
     c_last_checked_at = None, c_imported = False, c_staging = False, c_dry_run = False,
     c_managed_by_platform = False, c_owner_id = None, c_owner_contact = None, c_notes = None,
     c_favorite = False, c_email = None, c_webroot_path = None, c_standalone_port = None,
     c_auth_hook_path = None, c_cleanup_hook_path = None, c_hook_env = None,
     c_hook_execution_user = None, c_hook_working_directory = None, c_hook_timeout = None,
     c_ssh_private_key_encrypted = None, c_ssh_target_host = None, c_cert_path = None,
     c_key_path = None, c_chain_path = None, c_fullchain_path = None, c_pfx_path = None,
     c_backup_path = None, c_health_score = None, c_health_status = HealthStatus.UNKNOWN,
     c_compliance_status = ComplianceStatus.UNKNOWN, c_last_health_check_at = None,
     c_tags = []\<rparr>"

definition days_remaining :: "datetime \<Rightarrow> certificate \<Rightarrow> int option" where
  "days_remaining now c =
     (case c_valid_until c of None \<Rightarrow> None | Some t \<Rightarrow> Some (days_until now (Some t)))"

record certificate_domain =
  cd_certificate_id :: int
  cd_domain :: string
  cd_is_primary :: bool
  cd_is_wildcard :: bool
  cd_validation_status :: "string option"

record hook =
  h_name :: string
  h_hook_type :: HookType
  h_script_path :: string
  h_env_vars :: "(string \<times> string) list"
  h_execution_user :: "string option"
  h_working_directory :: "string option"
  h_timeout_seconds :: int
  h_is_active :: bool
  h_is_default :: bool
  h_description :: "string option"
  h_ssh_private_key_encrypted :: "string option"
  h_ssh_target_host :: "string option"

record backup =
  b_certificate_id :: "int option"
  b_kind :: BackupKind
  b_storage_path :: string
  b_size_bytes :: int
  b_checksum_sha256 :: "string option"
  b_backup_metadata :: dict
  b_restored_at :: "datetime option"

record health_check =
  hc_certificate_id :: int
  hc_checked_at :: datetime
  hc_status :: HealthStatus
  hc_score :: int
  hc_checks :: dict

record compliance_report =
  cr_report_type :: string
  cr_status :: string
  cr_file_path :: "string option"
  cr_summary :: dict
  cr_generated_by :: "int option"
  cr_generated_at :: datetime

record job_execution =
  j_job_type :: JobType
  j_certificate_id :: "int option"
  j_server_id :: "int option"
  j_task_id :: "string option"
  j_trigger :: JobTrigger
  j_status :: JobStatus
  j_exit_code :: "int option"
  j_stdout :: "string option"
  j_stderr :: "string option"
  j_error_message :: "string option"
  j_execution_time_ms :: "int option"
  j_started_at :: "datetime option"
  j_finished_at :: "datetime option"
  j_log_path :: "string option"
  j_retry_count :: int
  j_metadata :: dict
  j_created_by :: "int option"

record discovery_run =
  dr_started_at :: datetime
  dr_finished_at :: "datetime option"
  dr_status :: string
  dr_scan_paths :: "string list"
  dr_found_count :: int
  dr_imported_count :: int
  dr_skipped_count :: int
  dr_log :: "string option"
  dr_created_by :: "int option"
  dr_scan_type :: string
  dr_scan_targets :: "string list option"
  dr_scan_ports :: "int list option"
  dr_scan_domains :: "string list option"

record network_sighting =
  ns_fingerprint_sha256 :: string
  ns_certificate_id :: int
  ns_host :: string
  ns_port :: int
  ns_sni_hostname :: "string option"
  ns_first_seen_at :: datetime
  ns_last_seen_at :: datetime
  ns_discovery_run_id :: "int option"

record ct_observation =
  co_certificate_id :: int
  co_crt_sh_id :: int
  co_matched_domain :: string
  co_first_seen_at :: datetime
  co_last_seen_at :: datetime
  co_ct_monitor_run_id :: "int option"

record discovery_ignore =
  di_fingerprint_sha256 :: string
  di_domain :: "string option"
  di_source_path :: "string option"
  di_ignored_by :: "int option"

record scheduled_job =
  sj_name :: string
  sj_job_type :: string
  sj_schedule_type :: ScheduleType
  sj_cron_expression :: "string option"
  sj_interval_seconds :: "int option"
  sj_enabled :: bool
  sj_config :: dict
  sj_last_run_at :: "datetime option"
  sj_next_run_at :: "datetime option"
  sj_created_by :: "int option"

record notification_setting =
  nset_channel :: NotificationChannel
  nset_name :: string
  nset_enabled :: bool
  nset_config_encrypted :: "string option"
  nset_events :: "string list"

record notification =
  n_event_type :: string
  n_channel :: NotificationChannel
  n_recipients :: "string list"
  n_subject :: "string option"
  n_body :: "string option"
  n_status :: NotificationStatus
  n_sent_at :: "datetime option"
  n_error :: "string option"
  n_retries :: int
  n_related_certificate_id :: "int option"

record webhook_endpoint =
  we_name :: string
  we_url :: string
  we_secret_encrypted :: "string option"
  we_events :: "string list"
  we_is_active :: bool
  we_last_delivery_at :: "datetime option"
  we_failure_count :: int

record webhook_delivery =
  wd_endpoint_id :: int
  wd_event :: string
  wd_payload :: dict
  wd_status :: string
  wd_response_code :: "int option"
  wd_response_body :: "string option"
  wd_error :: "string option"

record audit_log =
  al_user_id :: "int option"
  al_username :: "string option"
  al_action :: string
  al_resource_type :: "string option"
  al_resource_id :: "string option"
  al_result :: string
  al_ip_address :: "string option"
  al_user_agent :: "string option"
  al_browser :: "string option"
  al_device :: "string option"
  al_duration_ms :: "int option"
  al_details :: dict

text \<open>A detection of the CT monitor: code, weight and reason.\<close>

record detection =
  det_code :: string
  det_weight :: int
  det_reason :: string

record ct_finding =
  f_certificate_id :: int
  f_domain :: string
  f_match_type :: string
  f_detections :: "detection list"
  f_risk_score :: int
  f_severity :: FindingSeverity
  f_status :: FindingStatus
  f_resolution_reason :: "string option"
  f_assigned_to :: "int option"
  f_first_seen_at :: datetime
  f_last_seen_at :: datetime
  f_ct_monitor_run_id :: "int option"

record server =
  sv_hostname :: string
  sv_ip_address :: "string option"
  sv_environment :: string
  sv_os_type :: string
  sv_ssh_port :: int
  sv_auth_method :: string
  sv_ssh_user :: string
  sv_ssh_password_encrypted :: "string option"
  sv_ssh_key_path :: "string option"
  sv_ssh_key_passphrase_encrypted :: "string option"
  sv_proxy_jump :: "string option"
  sv_jump_host :: "string option"
  sv_certificate_directory :: "string option"
  sv_web_server_type :: "string option"
  sv_owner_id :: "int option"
  sv_tags :: "int list"
  sv_connection_status :: ConnectionStatus
  sv_last_check_at :: "datetime option"
  sv_notes :: "string option"
  sv_capabilities :: dict

record deployment_template =
  dt_name :: string
  dt_target_type :: string
  dt_description :: "string option"
  dt_pre_deploy_script :: string
  dt_backup_script :: string
  dt_deploy_script :: string
  dt_post_deploy_script :: string
  dt_reload_command :: "string option"
  dt_verify_enabled :: bool
  dt_rollback_enabled :: bool
  dt_variables :: "(string \<times> string) list"
  dt_is_active :: bool
  dt_created_by :: "int option"

record deployment =
  d_certificate_id :: int
  d_server_id :: int
  d_template_id :: "int option"
  d_method :: DeploymentMethod
  d_target_service :: "string option"
  d_remote_cert_path :: "string option"
  d_remote_key_path :: "string option"
  d_remote_chain_path :: "string option"
  d_status :: DeploymentStatus
  d_backup_path :: "string option"
  d_log_path :: "string option"
  d_verification :: dict
  d_error_message :: "string option"
  d_started_at :: "datetime option"
  d_finished_at :: "datetime option"
  d_created_by :: "int option"

record app_setting =
  as_key :: string
  as_value :: "string option"
  as_is_secret :: bool
  as_description :: "string option"
  as_updated_by :: "int option"

record maintenance_window =
  mw_reason :: "string option"
  mw_pause_renewals :: bool
  mw_pause_deployments :: bool
  mw_pause_notifications :: bool
  mw_pause_imports :: bool
  mw_pause_background_jobs :: bool
  mw_scheduled_end :: "datetime option"
  mw_created_by :: "int option"

record usage_scan =
  us_certificate_id :: int
  us_status :: CertUsageScanStatus
  us_sources :: "string list"
  us_started_at :: "datetime option"
  us_completed_at :: "datetime option"
  us_candidate_count :: int
  us_scanned_count :: int
  us_confirmed_count :: int
  us_different_certificate_count :: int
  us_unreachable_count :: int
  us_error_count :: int
  us_log :: "string option"
  us_created_by :: "int option"

record usage_result =
  ur_certificate_id :: int
  ur_hostname :: string
  ur_ip_address :: "string option"
  ur_port :: int
  ur_protocol :: string
  ur_status :: CertUsageResultStatus
  ur_expected_fingerprint :: "string option"
  ur_presented_fingerprint :: "string option"
  ur_presented_subject :: "string option"
  ur_presented_issuer :: "string option"
  ur_presented_serial :: "string option"
  ur_presented_certificate_id :: "int option"
  ur_not_before :: "datetime option"
  ur_not_after :: "datetime option"
  ur_discovery_source :: string
  ur_error_code :: "string option"
  ur_error_message :: "string option"
  ur_first_seen_at :: datetime
  ur_last_seen_at :: "datetime option"
  ur_last_checked_at :: datetime
  ur_scan_id :: "int option"

section \<open>The database\<close>

record db =
  roles :: "role table"
  users :: "user table"
  api_tokens :: "api_token table"
  refresh_tokens :: "refresh_token table"
  favorites :: "favorite_row table"
  tags :: "tag table"
  providers :: "provider_row table"
  certificates :: "certificate table"
  certificate_domains :: "certificate_domain table"
  hooks :: "hook table"
  backups :: "backup table"
  health_checks :: "health_check table"
  compliance_reports :: "compliance_report table"
  job_executions :: "job_execution table"
  discovery_runs :: "discovery_run table"
  network_sightings :: "network_sighting table"
  ct_observations :: "ct_observation table"
  discovery_ignores :: "discovery_ignore table"
  scheduled_jobs :: "scheduled_job table"
  notification_settings :: "notification_setting table"
  notifications :: "notification table"
  webhook_endpoints :: "webhook_endpoint table"
  webhook_deliveries :: "webhook_delivery table"
  audit_logs :: "audit_log table"
  ct_findings :: "ct_finding table"
  servers :: "server table"
  deployment_templates :: "deployment_template table"
  deployments :: "deployment table"
  app_settings :: "app_setting table"
  maintenance_windows :: "maintenance_window table"
  usage_scans :: "usage_scan table"
  usage_results :: "usage_result table"

definition empty_db :: db where
  "empty_db = \<lparr>roles = empty_table, users = empty_table, api_tokens = empty_table,
     refresh_tokens = empty_table, favorites = empty_table, tags = empty_table,
     providers = empty_table, certificates = empty_table, certificate_domains = empty_table, hooks = empty_table,
     backups = empty_table, health_checks = empty_table, compliance_reports = empty_table,
     job_executions = empty_table, discovery_runs = empty_table, network_sightings = empty_table,
     ct_observations = empty_table, discovery_ignores = empty_table, scheduled_jobs = empty_table,
     notification_settings = empty_table, notifications = empty_table,
     webhook_endpoints = empty_table, webhook_deliveries = empty_table, audit_logs = empty_table,
     ct_findings = empty_table, servers = empty_table, deployment_templates = empty_table,
     deployments = empty_table, app_settings = empty_table, maintenance_windows = empty_table,
     usage_scans = empty_table, usage_results = empty_table\<rparr>"

end
