(* ===== verification/Session.thy ===== *)
theory Session
  imports Models
begin

text \<open>
  \<open>app/core/database.py\<close>: sessions and transactions.  \<open>work\<close> is what the session has
  flushed, \<open>committed\<close> what other sessions see and what survives.  \<open>in_session\<close> is
  \<^verbatim>\<open>get_db\<close> / \<^verbatim>\<open>session_scope\<close>: commit when the body returns, roll back and re-raise when
  it raises.  The locale \<open>transaction\<close> is the contract the callers rely on; the
  interpretation \<open>sess\<close> proves it of the definitions.
\<close>

record world =
  committed :: db
  work :: db
  files :: "string \<rightharpoonup> string"

type_synonym 'a wop = "(world, 'a) op"

definition open_session :: "db \<Rightarrow> (string \<rightharpoonup> string) \<Rightarrow> world" where
  "open_session d fs = \<lparr>committed = d, work = d, files = fs\<rparr>"

definition commit :: "unit wop" where
  "commit = modify (\<lambda>w. w\<lparr>committed := work w\<rparr>)"

definition rollback :: "unit wop" where
  "rollback = modify (\<lambda>w. w\<lparr>work := committed w\<rparr>)"

text \<open>Operations on the session's view of the database.\<close>

definition db_get :: "(db \<Rightarrow> 'a) \<Rightarrow> 'a wop" where
  "db_get f = gets (\<lambda>w. f (work w))"

definition db_mod :: "(db \<Rightarrow> db) \<Rightarrow> unit wop" where
  "db_mod f = modify (\<lambda>w. w\<lparr>work := f (work w)\<rparr>)"

definition db_op :: "(db, 'a) op \<Rightarrow> 'a wop" where
  "db_op m w = (case m (work w) of (r, d) \<Rightarrow> (r, w\<lparr>work := d\<rparr>))"

definition in_session :: "'a wop \<Rightarrow> 'a wop" where
  "in_session body w =
     (case body w of
        (Inr x, w') \<Rightarrow> (Inr x, snd (commit w'))
      | (Inl e, w') \<Rightarrow> (Inl e, snd (rollback w')))"

lemma commit_simp [simp]: "commit w = (Inr (), w\<lparr>committed := work w\<rparr>)"
  by (simp add: commit_def modify_def)

lemma rollback_simp [simp]: "rollback w = (Inr (), w\<lparr>work := committed w\<rparr>)"
  by (simp add: rollback_def modify_def)

lemma db_get_simp [op_simps]: "db_get f w = (Inr (f (work w)), w)"
  by (simp add: db_get_def gets_def)

lemma db_mod_simp [op_simps]: "db_mod f w = (Inr (), w\<lparr>work := f (work w)\<rparr>)"
  by (simp add: db_mod_def modify_def)

lemma db_op_simp [op_simps]: "db_op m w = (fst (m (work w)), w\<lparr>work := snd (m (work w))\<rparr>)"
  by (simp add: db_op_def split: prod.splits)

lemma bnd_db [simp]:
  "bnd (db_get g) f w = f (g (work w)) w"
  "bnd (db_mod u) f2 w = f2 () (w\<lparr>work := u (work w)\<rparr>)"
  "bnd commit f2 w = f2 () (w\<lparr>committed := work w\<rparr>)"
  "bnd rollback f2 w = f2 () (w\<lparr>work := committed w\<rparr>)"
  by (simp_all add: bnd_def op_simps)

lemma wp_db [wp_simps]:
  "wp (db_get g) Q E w = Q (g (work w)) w"
  "wp (db_mod u) Q' E w = Q' () (w\<lparr>work := u (work w)\<rparr>)"
  "wp commit Q' E w = Q' () (w\<lparr>committed := work w\<rparr>)"
  "wp rollback Q' E w = Q' () (w\<lparr>work := committed w\<rparr>)"
  by (simp_all add: wp_def op_simps)

text \<open>An operation that never commits leaves the committed state alone.\<close>

definition no_commit :: "'a wop \<Rightarrow> bool" where
  "no_commit m \<longleftrightarrow> (\<forall>w. committed (snd (m w)) = committed w)"

lemma no_commit_keeps: "no_commit m \<longleftrightarrow> (\<forall>d. keeps (\<lambda>w. committed w = d) m)"
  by (auto simp: no_commit_def keeps_def)

lemma no_commit_bnd: "no_commit m \<Longrightarrow> (\<And>x. no_commit (f x)) \<Longrightarrow> no_commit (bnd m f)"
  by (simp add: no_commit_keeps keeps_bnd)

lemma no_commit_db [simp]: "no_commit (db_get f)" "no_commit (db_mod g)" "no_commit (db_op m)"
  by (simp_all add: no_commit_def op_simps)

text \<open>An invariant of the database holds of both views of a session.\<close>

definition winv :: "(db \<Rightarrow> bool) \<Rightarrow> world \<Rightarrow> bool" where
  "winv I w \<longleftrightarrow> I (committed w) \<and> I (work w)"

lemma keeps_db_get [keeps_rules]: "keeps J (db_get f)"
  by (simp add: keeps_def op_simps)

lemma keeps_db_mod: "(\<And>d. I d \<Longrightarrow> I (f d)) \<Longrightarrow> keeps (winv I) (db_mod f)"
  by (simp add: keeps_def op_simps winv_def)

lemma keeps_commit [keeps_rules]: "keeps (winv I) commit"
  by (simp add: keeps_def winv_def)

lemma keeps_rollback [keeps_rules]: "keeps (winv I) rollback"
  by (simp add: keeps_def winv_def)

lemma keeps_in_session: "keeps (winv I) m \<Longrightarrow> keeps (winv I) (in_session m)"
  by (auto simp: keeps_def in_session_def winv_def split: prod.splits sum.splits)

lemma returns_db [returns_rules]:
  "returns (db_get f)" "returns (db_mod g)" "returns commit" "returns rollback"
  by (simp_all add: returns_def op_simps)

section \<open>The contract of a transaction scope\<close>

locale transaction =
  fixes run :: "'a wop \<Rightarrow> 'a wop"
  assumes run_ok: "body w = (Inr x, w') \<Longrightarrow>
      run body w = (Inr x, w'\<lparr>committed := work w'\<rparr>)"
    and run_raise: "body w = (Inl e, w') \<Longrightarrow>
      run body w = (Inl e, w'\<lparr>work := committed w'\<rparr>)"
begin

text \<open>A body that does not commit is atomic: either all its writes become visible or none.\<close>

lemma atomic:
  assumes "no_commit body"
  shows "(\<exists>x. fst (run body w) = Inr x \<and> committed (snd (run body w)) = work (snd (body w)))
    \<or> (\<exists>e. fst (run body w) = Inl e \<and> committed (snd (run body w)) = committed w)"
proof (cases "body w")
  case (Pair r w')
  then show ?thesis
    using assms run_ok run_raise by (cases r) (auto simp: no_commit_def, metis snd_conv)
qed

lemma clean_after: "work (snd (run body w)) = committed (snd (run body w))"
proof (cases "body w")
  case (Pair r w')
  then show ?thesis using run_ok run_raise by (cases r) auto
qed

lemma invariant_after:
  assumes "I (committed w)" "no_commit body" "\<And>x w'. body w = (Inr x, w') \<Longrightarrow> I (work w')"
  shows "I (committed (snd (run body w)))"
proof (cases "body w")
  case (Pair r w')
  then have "committed w' = committed w" using assms(2) unfolding no_commit_def by (metis snd_conv)
  with Pair assms show ?thesis using run_ok run_raise by (cases r) auto
qed

end

interpretation sess: transaction in_session
  by unfold_locales (simp_all add: in_session_def)

end
