(* ===== verification/Py_Re.thy ===== *)
theory Py_Re
  imports Prelude
begin

text \<open>
  The fragment of Python's \<^verbatim>\<open>re\<close> module that the backend's validators use.
  A pattern denotes a relation between start and end positions of the subject string
  (\<open>sem\<close>); \<open>ends\<close> computes the end positions, with \<open>length s\<close> as the fuel of a
  star, and \<open>set_ends\<close> proves that the fuel is always enough.  \<open>re_match\<close> is
  \<^verbatim>\<open>pattern.match(s) is not None\<close>.  As in Python, \<open>Eol\<close> (\<^verbatim>\<open>$\<close>) also matches just
  before a final newline.  \<open>alpha\<close> is the alphabet a pattern can consume; the safety
  theorems on validated strings rest on \<open>match_anchored_alpha\<close>.
\<close>

datatype re =
    Eps
  | Cls "char \<Rightarrow> bool"
  | Seq re re
  | Alt re re
  | Star re
  | Rep nat nat re
  | NotAhead re
  | NotBehind "char \<Rightarrow> bool"
  | Bol
  | Eol

definition lit :: "char \<Rightarrow> re" where
  "lit c = Cls (\<lambda>x. x = c)"

definition plus_re :: "re \<Rightarrow> re" where
  "plus_re r = Seq r (Star r)"

definition opt_re :: "re \<Rightarrow> re" where
  "opt_re r = Alt r Eps"

definition at_eol :: "string \<Rightarrow> nat \<Rightarrow> bool" where
  "at_eol s i \<longleftrightarrow> i = length s \<or> (Suc i = length s \<and> s ! i = CHR 0x0A)"

section \<open>Executable matcher\<close>

primrec star_ends :: "(nat \<Rightarrow> nat list) \<Rightarrow> nat \<Rightarrow> nat \<Rightarrow> nat list" where
  "star_ends f 0 i = [i]"
| "star_ends f (Suc k) i = i # concat (map (star_ends f k) (filter (\<lambda>j. i < j) (f i)))"

primrec rep_ends :: "(nat \<Rightarrow> nat list) \<Rightarrow> nat \<Rightarrow> nat \<Rightarrow> nat \<Rightarrow> nat list" where
  "rep_ends f 0 m i = (if m = 0 then [i] else [])"
| "rep_ends f (Suc n) m i =
     (if m = 0 then [i] else []) @ concat (map (rep_ends f n (m - 1)) (f i))"

primrec ends :: "re \<Rightarrow> string \<Rightarrow> nat \<Rightarrow> nat list" where
  "ends Eps s i = [i]"
| "ends (Cls p) s i = (if i < length s \<and> p (s ! i) then [Suc i] else [])"
| "ends (Seq a b) s i = concat (map (ends b s) (ends a s i))"
| "ends (Alt a b) s i = ends a s i @ ends b s i"
| "ends (Star a) s i = star_ends (ends a s) (length s) i"
| "ends (Rep m n a) s i = rep_ends (ends a s) n m i"
| "ends (NotAhead a) s i = (if ends a s i = [] then [i] else [])"
| "ends (NotBehind p) s i = (if 0 < i \<and> i \<le> length s \<and> p (s ! (i - 1)) then [] else [i])"
| "ends Bol s i = (if i = 0 then [i] else [])"
| "ends Eol s i = (if at_eol s i then [i] else [])"

definition re_match :: "re \<Rightarrow> string \<Rightarrow> bool" where
  "re_match r s \<longleftrightarrow> ends r s 0 \<noteq> []"

section \<open>Denotation\<close>

primrec sem :: "re \<Rightarrow> string \<Rightarrow> (nat \<times> nat) set" where
  "sem Eps s = Id"
| "sem (Cls p) s = {(i, Suc i) | i. i < length s \<and> p (s ! i)}"
| "sem (Seq a b) s = sem a s O sem b s"
| "sem (Alt a b) s = sem a s \<union> sem b s"
| "sem (Star a) s = (sem a s)\<^sup>*"
| "sem (Rep m n a) s = {(i, j). \<exists>k. m \<le> k \<and> k \<le> n \<and> (i, j) \<in> sem a s ^^ k}"
| "sem (NotAhead a) s = {(i, i) | i. \<forall>j. (i, j) \<notin> sem a s}"
| "sem (NotBehind p) s = {(i, i) | i. \<not> (0 < i \<and> i \<le> length s \<and> p (s ! (i - 1)))}"
| "sem Bol s = {(0, 0)}"
| "sem Eol s = {(i, i) | i. at_eol s i}"

lemma rtrancl_mono_pos:
  assumes "(i, j) \<in> R\<^sup>*" and "\<And>a b. (a, b) \<in> R \<Longrightarrow> a \<le> (b::nat)"
  shows "i \<le> j"
  using assms(1) by (induction) (auto dest: assms(2))

lemma relpow_mono_pos:
  assumes "(i, j) \<in> R ^^ k" and "\<And>a b. (a, b) \<in> R \<Longrightarrow> a \<le> (b::nat)"
  shows "i \<le> j"
  using rtrancl_mono_pos [OF relpow_imp_rtrancl [OF assms(1)] assms(2)] .

lemma sem_le: "(i, j) \<in> sem r s \<Longrightarrow> i \<le> j"
proof (induction r arbitrary: i j)
  case (Star r)
  then show ?case by (auto intro: rtrancl_mono_pos)
next
  case (Rep m n r)
  then show ?case by (auto intro: relpow_mono_pos)
qed (auto, meson le_trans)

lemma rtrancl_le_len:
  assumes "(i, j) \<in> R\<^sup>*" and "i \<le> n" and "\<And>a b. (a, b) \<in> R \<Longrightarrow> a \<le> n \<Longrightarrow> b \<le> (n::nat)"
  shows "j \<le> n"
  using assms(1,2) by (induction) (auto dest: assms(3))

lemma sem_len: "(i, j) \<in> sem r s \<Longrightarrow> i \<le> length s \<Longrightarrow> j \<le> length s"
proof (induction r arbitrary: i j)
  case (Star r)
  then show ?case by (auto intro: rtrancl_le_len)
next
  case (Rep m n r)
  then show ?case by (auto dest: relpow_imp_rtrancl intro: rtrancl_le_len)
qed auto

text \<open>Steps that consume nothing can be left out of a star, so \<open>length s\<close> rounds suffice.\<close>

lemma star_ends_sound:
  assumes "\<And>i j. j \<in> set (f i) \<Longrightarrow> i \<le> n \<Longrightarrow> (i, j) \<in> R \<and> j \<le> n"
  shows "j \<in> set (star_ends f k i) \<Longrightarrow> i \<le> n \<Longrightarrow> (i, j) \<in> R\<^sup>*"
proof (induction k arbitrary: i)
  case (Suc k)
  then show ?case
    by (auto dest!: assms intro: converse_rtrancl_into_rtrancl)
qed simp

lemma star_ends_complete:
  assumes step: "\<And>i j. (i, j) \<in> R \<Longrightarrow> i \<le> n \<Longrightarrow> j \<in> set (f i) \<and> i \<le> j \<and> j \<le> n"
  shows "(i, j) \<in> R\<^sup>* \<Longrightarrow> i \<le> n \<Longrightarrow> n - i \<le> k \<Longrightarrow> j \<in> set (star_ends f k i)"
proof (induction arbitrary: k rule: converse_rtrancl_induct)
  case base
  then show ?case by (cases k) auto
next
  case (step y z)
  then have z: "z \<in> set (f y)" "y \<le> z" "z \<le> n" using assms by blast+
  show ?case
  proof (cases "y = z")
    case True
    then show ?thesis using step z by blast
  next
    case False
    with z have "y < z" by simp
    with step.prems z obtain k' where k: "k = Suc k'" "n - z \<le> k'"
      by (cases k) auto
    have "j \<in> set (star_ends f k' z)" using step.IH [of k'] z k by simp
    then show ?thesis using k z \<open>y < z\<close> by auto
  qed
qed

lemma rep_ends_iff:
  assumes "\<And>i. i \<le> L \<Longrightarrow> set (f i) = R `` {i}"
    and "\<And>i j. (i, j) \<in> R \<Longrightarrow> i \<le> L \<Longrightarrow> j \<le> L"
  shows "i \<le> L \<Longrightarrow> j \<in> set (rep_ends f n m i) \<longleftrightarrow>
    (\<exists>k. m \<le> k \<and> k \<le> n \<and> (i, j) \<in> R ^^ k)"
proof (induction n arbitrary: m i)
  case 0
  then show ?case by auto
next
  case (Suc n)
  have "j \<in> set (rep_ends f (Suc n) m i) \<longleftrightarrow>
      (m = 0 \<and> j = i) \<or> (\<exists>z. (i, z) \<in> R \<and> j \<in> set (rep_ends f n (m - 1) z))"
    using assms(1) [OF Suc.prems] by auto
  also have "\<dots> \<longleftrightarrow> (m = 0 \<and> j = i) \<or>
      (\<exists>z k. (i, z) \<in> R \<and> m - 1 \<le> k \<and> k \<le> n \<and> (z, j) \<in> R ^^ k)"
    using Suc.IH assms(2) [OF _ Suc.prems] by blast
  also have "\<dots> \<longleftrightarrow> (m = 0 \<and> j = i) \<or>
      (\<exists>k. m - 1 \<le> k \<and> k \<le> n \<and> (i, j) \<in> R ^^ Suc k)"
    by (metis relpow_Suc_D2 relpow_Suc_I2)
  also have "\<dots> \<longleftrightarrow> (\<exists>k. m \<le> k \<and> k \<le> Suc n \<and> (i, j) \<in> R ^^ k)"
  proof -
    have "(\<exists>k. m \<le> k \<and> k \<le> Suc n \<and> (i, j) \<in> R ^^ k) \<longleftrightarrow>
        (m \<le> 0 \<and> (i, j) \<in> R ^^ 0) \<or> (\<exists>k. m \<le> Suc k \<and> Suc k \<le> Suc n \<and> (i, j) \<in> R ^^ Suc k)"
      by (metis not0_implies_Suc zero_le)
    moreover have "m - 1 \<le> k \<longleftrightarrow> m \<le> Suc k" for k by auto
    ultimately show ?thesis by (simp only: le_zero_eq relpow.simps(1) pair_in_Id_conv Suc_le_mono) blast
  qed
  finally show ?case .
qed

lemma set_ends: "i \<le> length s \<Longrightarrow> set (ends r s i) = sem r s `` {i}"
proof (induction r arbitrary: i)
  case (Seq a b)
  then show ?case using sem_len [of i _ a s] by auto
next
  case (Star r)
  have "j \<in> set (star_ends (ends r s) (length s) i) \<longleftrightarrow> (i, j) \<in> (sem r s)\<^sup>*" for j
    using star_ends_sound [of "ends r s" "length s" "sem r s" j "length s" i]
      star_ends_complete [of "sem r s" "length s" "ends r s" i j "length s"]
      Star sem_len sem_le by (smt (verit) Image_singleton_iff diff_le_self)
  then show ?case by auto
next
  case (Rep m n r)
  then show ?case using rep_ends_iff [of "length s" "ends r s" "sem r s" i _ n m] sem_len
    by auto
next
  case (NotAhead r)
  then show ?case by (auto simp flip: set_empty)
qed auto

lemma re_match_sem: "re_match r s \<longleftrightarrow> (\<exists>j. (0, j) \<in> sem r s)"
  using set_ends [of 0 s r] unfolding re_match_def by (auto simp flip: set_empty)

section \<open>Alphabets\<close>

primrec alpha :: "re \<Rightarrow> char \<Rightarrow> bool" where
  "alpha Eps c \<longleftrightarrow> False"
| "alpha (Cls p) c \<longleftrightarrow> p c"
| "alpha (Seq a b) c \<longleftrightarrow> alpha a c \<or> alpha b c"
| "alpha (Alt a b) c \<longleftrightarrow> alpha a c \<or> alpha b c"
| "alpha (Star a) c \<longleftrightarrow> alpha a c"
| "alpha (Rep m n a) c \<longleftrightarrow> alpha a c"
| "alpha (NotAhead a) c \<longleftrightarrow> False"
| "alpha (NotBehind p) c \<longleftrightarrow> False"
| "alpha Bol c \<longleftrightarrow> False"
| "alpha Eol c \<longleftrightarrow> False"

definition spans :: "(char \<Rightarrow> bool) \<Rightarrow> string \<Rightarrow> nat \<Rightarrow> nat \<Rightarrow> bool" where
  "spans p s i j \<longleftrightarrow> (\<forall>k. i \<le> k \<and> k < j \<longrightarrow> k < length s \<and> p (s ! k))"

lemma spans_trans: "spans p s i j \<Longrightarrow> spans p s j k \<Longrightarrow> spans p s i k"
  unfolding spans_def by (meson not_le)

lemma spans_mono: "spans p s i j \<Longrightarrow> (\<And>c. p c \<Longrightarrow> q c) \<Longrightarrow> spans q s i j"
  unfolding spans_def by blast

lemma rtrancl_spans:
  assumes "(i, j) \<in> R\<^sup>*" and "\<And>a b. (a, b) \<in> R \<Longrightarrow> spans p s a b"
  shows "spans p s i j"
  using assms(1)
proof (induction)
  case base
  then show ?case by (auto simp: spans_def)
next
  case (step y z)
  then show ?case using assms(2) spans_trans by blast
qed

lemma sem_alpha: "(i, j) \<in> sem r s \<Longrightarrow> spans (alpha r) s i j"
proof (induction r arbitrary: i j)
  case (Cls p)
  then show ?case by (auto simp: spans_def less_Suc_eq)
next
  case (Seq a b)
  obtain k where "(i, k) \<in> sem a s" "(k, j) \<in> sem b s" using Seq.prems by auto
  then have "spans (alpha a) s i k" "spans (alpha b) s k j" using Seq.IH by blast+
  then show ?case
    by (intro spans_trans [of _ s i k j]) (auto elim: spans_mono)
next
  case (Alt a b)
  then have "spans (alpha a) s i j \<or> spans (alpha b) s i j" by auto
  then show ?case by (auto elim: spans_mono)
next
  case (Star r)
  then show ?case using rtrancl_spans [of i j "sem r s" "alpha r" s] by (auto elim: spans_mono)
next
  case (Rep m n r)
  then show ?case
    using rtrancl_spans [of i j "sem r s" "alpha r" s]
    by (auto dest!: relpow_imp_rtrancl elim: spans_mono)
qed (auto simp: spans_def)

lemma match_anchored_iff:
  "re_match (Seq Bol (Seq r Eol)) s \<longleftrightarrow> (\<exists>j. (0, j) \<in> sem r s \<and> at_eol s j)"
  unfolding re_match_sem by auto

lemma match_anchored_alpha:
  assumes "re_match (Seq Bol (Seq r Eol)) s" and "s \<noteq> [] \<longrightarrow> last s \<noteq> CHR 0x0A"
    and "c \<in> set s"
  shows "alpha r c"
proof -
  obtain j where j: "(0, j) \<in> sem r s" "at_eol s j"
    using assms(1) match_anchored_iff by blast
  have "j = length s"
    using j(2) assms(2,3) unfolding at_eol_def by (cases s rule: rev_cases) auto
  then show ?thesis
    using sem_alpha [OF j(1)] assms(3) unfolding spans_def in_set_conv_nth by auto
qed

text \<open>Without the condition on the last character a final newline may slip through.\<close>

lemma match_anchored_alpha_nl:
  assumes "re_match (Seq Bol (Seq r Eol)) s" and "c \<in> set s"
  shows "alpha r c \<or> c = CHR 0x0A"
proof -
  obtain j where j: "(0, j) \<in> sem r s" "at_eol s j"
    using assms(1) match_anchored_iff by blast
  then show ?thesis
    using sem_alpha [OF j(1)] assms(2) unfolding spans_def in_set_conv_nth at_eol_def
    by (metis less_antisym zero_le)
qed

end
