(* ===== verification/Domain_Utils.thy ===== *)
theory Domain_Utils
  imports Py_Re
begin

text \<open>
  \<open>app/core/domain_utils.py\<close>: the validators through which every value that reaches a
  subprocess argument vector, an SSH command line or an on-disk file name passes.  The
  compiled patterns are \<open>re\<close> values; the functions keep the source's names.
  \<open>is_valid_ip\<close> follows CPython's \<^verbatim>\<open>ipaddress.ip_address\<close>.  The locale \<open>validator\<close>
  states the contract of a normalising validator; the four string validators are
  interpretations of it, and \<open>validate_domain_list\<close> is proved against it.
\<close>

section \<open>Patterns\<close>

definition is_alnum_ascii :: "char \<Rightarrow> bool" where
  "is_alnum_ascii c \<longleftrightarrow> py_islower_ascii c \<or> py_isupper_ascii c \<or> py_isdigit_ascii c"

definition is_hex :: "char \<Rightarrow> bool" where
  "is_hex c \<longleftrightarrow> c \<in> set ''0123456789abcdefABCDEF''"

definition label_char :: "char \<Rightarrow> bool" where
  "label_char c \<longleftrightarrow> is_alnum_ascii c \<or> c = CHR ''-''"

definition LABEL :: re where
  "LABEL = Seq (NotAhead (lit CHR ''-''))
              (Seq (Rep 1 63 (Cls label_char)) (NotBehind (\<lambda>c. c = CHR ''-'')))"

definition dotted_labels :: re where
  "dotted_labels = Seq (Star (Seq LABEL (lit CHR ''.''))) (Seq LABEL (opt_re (lit CHR ''.'')))"

definition HOSTNAME_RE :: re where
  "HOSTNAME_RE = Seq Bol (Seq dotted_labels Eol)"

definition WILDCARD_RE :: re where
  "WILDCARD_RE = Seq Bol (Seq (Seq (lit CHR ''*'') (Seq (lit CHR ''.'') dotted_labels)) Eol)"

definition email_char :: "char \<Rightarrow> bool" where
  "email_char c \<longleftrightarrow> c \<noteq> CHR ''@'' \<and> \<not> py_isspace c"

definition EMAIL_RE :: re where
  "EMAIL_RE = Seq Bol (Seq (Seq (plus_re (Cls email_char)) (Seq (lit CHR ''@'')
     (Seq (plus_re (Cls email_char)) (Seq (lit CHR ''.'') (plus_re (Cls email_char)))))) Eol)"

definition hex_colon :: "char \<Rightarrow> bool" where
  "hex_colon c \<longleftrightarrow> is_hex c \<or> c = CHR '':''"

definition HEX_FINGERPRINT_RE :: re where
  "HEX_FINGERPRINT_RE = Seq Bol (Seq (Rep 47 95 (Cls hex_colon)) Eol)"

definition SERIAL_RE :: re where
  "SERIAL_RE = Seq Bol (Seq (Seq (Rep 2 2 (Cls hex_colon)) (Star (Cls hex_colon))) Eol)"

definition ssh_user_char :: "char \<Rightarrow> bool" where
  "ssh_user_char c \<longleftrightarrow> is_alnum_ascii c \<or> c \<in> set ''_.-''"

definition SSH_USER_RE :: re where
  "SSH_USER_RE = Seq Bol (Seq (Rep 1 32 (Cls ssh_user_char)) Eol)"

section \<open>Validators\<close>

text \<open>\<^verbatim>\<open>d.encode("idna")\<close> on an ASCII string: every label but the last has 1 to 63
  bytes, the last one fewer than 64.\<close>

definition idna_ok :: "string \<Rightarrow> bool" where
  "idna_ok d \<longleftrightarrow> (let ls = split_on CHR ''.'' d in
     (\<forall>l \<in> set (butlast ls). 0 < length l \<and> length l < 64) \<and> length (last ls) < 64)"

definition validate_domain :: "bool \<Rightarrow> string \<Rightarrow> exn + string" where
  "validate_domain allow_wildcard domain =
     (let d = py_lower (py_strip domain) in
      if d = [] then raises ValidationAppError ''Domain is required''
      else if allow_wildcard \<and> re_match WILDCARD_RE d then Inr d
      else if re_match HOSTNAME_RE d then
        (if idna_ok d then Inr d
         else raises ValidationAppError (''Invalid domain: '' @ domain))
      else raises ValidationAppError (''Invalid domain '' @ [CHR 0x27] @ domain @ [CHR 0x27] @
        ''. Only letters, digits, hyphens and dots are allowed; wildcards must start with '' @
        [CHR 0x27] @ ''*.'' @ [CHR 0x27]))"

text \<open>The loop of \<^verbatim>\<open>validate_domain_list\<close>, with the validator it calls as an argument.\<close>

fun domain_list_loop ::
    "(string \<Rightarrow> exn + string) \<Rightarrow> string list \<Rightarrow> string list \<Rightarrow> exn + string list" where
  "domain_list_loop v out [] =
     (if out = [] then raises ValidationAppError ''At least one domain is required'' else Inr out)"
| "domain_list_loop v out (d # ds) =
     (case v d of
        Inl e \<Rightarrow> Inl e
      | Inr norm \<Rightarrow>
          if norm \<in> set out then raises ValidationAppError (''Duplicate domain: '' @ d)
          else domain_list_loop v (out @ [norm]) ds)"

definition validate_domain_list :: "bool \<Rightarrow> string list \<Rightarrow> exn + string list" where
  "validate_domain_list allow_wildcard domains =
     domain_list_loop (validate_domain allow_wildcard) [] domains"

definition validate_email :: "string \<Rightarrow> exn + string" where
  "validate_email email =
     (let e = py_strip email in
      if re_match EMAIL_RE e then Inr e
      else raises ValidationAppError (''Invalid email address: '' @ email))"

definition validate_fingerprint :: "string \<Rightarrow> exn + string" where
  "validate_fingerprint fp =
     (let f = py_strip fp in
      if re_match HEX_FINGERPRINT_RE f then Inr f
      else raises ValidationAppError ''Invalid SHA-256 fingerprint format'')"

definition validate_serial :: "string \<Rightarrow> exn + string" where
  "validate_serial serial =
     (let s = py_strip serial in
      if re_match SERIAL_RE s then Inr s
      else raises ValidationAppError ''Invalid serial number format'')"

definition filename_char :: "char \<Rightarrow> bool" where
  "filename_char c \<longleftrightarrow> is_alnum_ascii c \<or> c \<in> set ''_.-''"

definition safe_filename :: "string \<Rightarrow> exn + string" where
  "safe_filename name =
     (let cleaned = strip_by (\<lambda>c. c = CHR ''.'')
                      (map (\<lambda>c. if filename_char c then c else CHR ''_'') name) in
      if cleaned = [] \<or> cleaned = ''.'' \<or> cleaned = ''..''
      then raises ValidationAppError ''Invalid file name'' else Inr cleaned)"

text \<open>Paths as lists of components.  \<open>realpath\<close> is \<^verbatim>\<open>Path.resolve\<close> of Python 3.13 (the version
  of the image) in its lenient mode: \<^verbatim>\<open>.\<close> is dropped, \<^verbatim>\<open>..\<close> removes the component before it (the
  root directory is its own parent), and a symbolic link is replaced by its target, which is
  resolved from the directory of the link, or from the root when it is absolute.  The links
  of the host are an argument.  As in the library, \<open>seen\<close> holds the links met so far, \<open>None\<close>
  while one is being resolved; a link met again in that state belongs to a loop and stays in
  the path.\<close>

type_synonym links = "(string list \<times> string) list"

datatype path_item = Name string | Resolved "string list"

function realpath_loop ::
    "links \<Rightarrow> (string list \<times> string list option) list \<Rightarrow> string list \<Rightarrow> path_item list \<Rightarrow> string list" where
  "realpath_loop lk seen path [] = path"
| "realpath_loop lk seen path (Resolved l # rest) = realpath_loop lk ((l, Some path) # seen) path rest"
| "realpath_loop lk seen path (Name c # rest) =
     (if c = [] \<or> c = ''.'' then realpath_loop lk seen path rest
      else if c = ''..'' then realpath_loop lk seen (butlast path) rest
      else
        (case map_of lk (path @ [c]) of
           None \<Rightarrow> realpath_loop lk seen (path @ [c]) rest
         | Some target \<Rightarrow>
             (case map_of seen (path @ [c]) of
                Some (Some p) \<Rightarrow> realpath_loop lk seen p rest
              | Some None \<Rightarrow> realpath_loop lk seen (path @ [c]) rest
              | None \<Rightarrow>
                  realpath_loop lk ((path @ [c], None) # seen) (if py_startswith target ''/'' then [] else path)
                    (map Name (split_on CHR ''/'' target) @ Resolved (path @ [c]) # rest))))"
  by pat_completeness auto

termination
proof (relation "inv_image (less_than <*lex*> less_than)
    (\<lambda>(lk, seen, path, rest). (card (fst ` set lk - fst ` set seen), length rest))", goal_cases)
  case (2 lk seen path l rest)
  have "card (fst ` set lk - insert l (fst ` set seen)) \<le> card (fst ` set lk - fst ` set seen)"
    by (rule card_mono) auto
  then show ?case by (auto simp: less_le)
next
  case (6 lk seen path c rest target)
  from 6(3) have "path @ [c] \<in> fst ` set lk" using map_of_SomeD by force
  moreover from 6(4) have "path @ [c] \<notin> fst ` set seen" by (simp add: map_of_eq_None_iff)
  ultimately have "card (fst ` set lk - insert (path @ [c]) (fst ` set seen)) < card (fst ` set lk - fst ` set seen)"
    by (intro psubset_card_mono) auto
  then show ?case by simp
qed auto

declare realpath_loop.simps(3) [simp del]

definition realpath :: "links \<Rightarrow> string list \<Rightarrow> string list" where
  "realpath lk p = realpath_loop lk [] [] (map Name p)"

text \<open>No directory on the way, and not the file itself, is a link: a file is opened where its
  path says.  A path that runs into a loop of links cannot be opened.\<close>

definition link_free :: "links \<Rightarrow> string list \<Rightarrow> bool" where
  "link_free lk p \<longleftrightarrow> list_all (\<lambda>n. map_of lk (take n p) = None) [0..<Suc (length p)]"

definition join_path :: "string list \<Rightarrow> string \<Rightarrow> string list" where
  "join_path root rel =
     (if py_startswith rel ''/'' then split_on CHR ''/'' rel else root @ split_on CHR ''/'' rel)"

text \<open>\<^verbatim>\<open>root_resolved in p.parents\<close>: a proper prefix of the components.\<close>

definition is_parent :: "string list \<Rightarrow> string list \<Rightarrow> bool" where
  "is_parent r p \<longleftrightarrow> length r < length p \<and> take (length r) p = r"

definition resolve_within_root :: "links \<Rightarrow> string list \<Rightarrow> string \<Rightarrow> exn + string list" where
  "resolve_within_root lk root relative =
     (let p = realpath lk (join_path root relative); root_resolved = realpath lk root in
      if \<not> is_parent root_resolved p \<and> p \<noteq> root_resolved
      then raises ValidationAppError ''Path escapes storage root'' else Inr p)"

section \<open>IP addresses\<close>

definition dec_value :: "string \<Rightarrow> nat" where
  "dec_value s = foldl (\<lambda>n c. 10 * n + (of_char c - 48)) 0 s"

definition octet_ok :: "string \<Rightarrow> bool" where
  "octet_ok s \<longleftrightarrow> s \<noteq> [] \<and> list_all py_isdigit_ascii s \<and> length s \<le> 3
     \<and> (s = ''0'' \<or> hd s \<noteq> CHR ''0'') \<and> dec_value s \<le> 255"

definition ipv4_ok :: "string \<Rightarrow> bool" where
  "ipv4_ok v \<longleftrightarrow> CHR ''/'' \<notin> set v \<and>
     (let octets = split_on CHR ''.'' v in length octets = 4 \<and> list_all octet_ok octets)"

definition hextet_ok :: "string \<Rightarrow> bool" where
  "hextet_ok h \<longleftrightarrow> h \<noteq> [] \<and> list_all is_hex h \<and> length h \<le> 4"

text \<open>\<open>IPv6Address._ip_int_from_string\<close>.  A dotted last part is replaced by two hextets
  (any two nonempty ones: only their number and validity matter here).\<close>

definition ipv6_parts_ok :: "string list \<Rightarrow> bool" where
  "ipv6_parts_ok parts \<longleftrightarrow>
     3 \<le> length parts \<and>
     (CHR ''.'' \<in> set (last parts) \<longrightarrow> ipv4_ok (last parts)) \<and>
     (let ps = (if CHR ''.'' \<in> set (last parts) then butlast parts @ [''0'', ''0''] else parts);
          n = length ps;
          skips = filter (\<lambda>i. ps ! i = []) [1..<n - 1] in
      n \<le> 9 \<and>
      (case skips of
         [] \<Rightarrow> n = 8 \<and> ps ! 0 \<noteq> [] \<and> last ps \<noteq> [] \<and> list_all hextet_ok ps
       | [k] \<Rightarrow>
           (let lead = (ps ! 0 = []); trail = (last ps = []);
                hi = (if lead then k - 1 else k);
                lo = (if trail then n - k - 2 else n - k - 1) in
            (lead \<longrightarrow> hi = 0) \<and> (trail \<longrightarrow> lo = 0) \<and> hi + lo \<le> 7 \<and>
            list_all hextet_ok (take hi ps) \<and> list_all hextet_ok (last_n lo ps))
       | _ \<Rightarrow> False))"

definition ipv6_ok :: "string \<Rightarrow> bool" where
  "ipv6_ok v \<longleftrightarrow> CHR ''/'' \<notin> set v \<and>
     (case py_partition CHR ''%'' v of
        (addr, None) \<Rightarrow> addr \<noteq> [] \<and> ipv6_parts_ok (split_on CHR '':'' addr)
      | (addr, Some scope) \<Rightarrow>
          scope \<noteq> [] \<and> CHR ''%'' \<notin> set scope \<and>
          addr \<noteq> [] \<and> ipv6_parts_ok (split_on CHR '':'' addr))"

definition is_valid_ip :: "string \<Rightarrow> bool" where
  "is_valid_ip v \<longleftrightarrow> ipv4_ok v \<or> ipv6_ok v"

definition validate_port :: "int \<Rightarrow> exn + int" where
  "validate_port port =
     (if 1 \<le> port \<and> port \<le> 65535 then Inr port
      else raises ValidationAppError ''Port must be between 1 and 65535'')"

text \<open>\<^verbatim>\<open>str.isdigit\<close> also accepts the three superscript digits of Latin-1, which
  \<^verbatim>\<open>int()\<close> then rejects with a \<open>ValueError\<close>, as it does more than 4300 digits.\<close>

definition py_isdigit :: "char \<Rightarrow> bool" where
  "py_isdigit c \<longleftrightarrow> py_isdigit_ascii c \<or> (of_char c :: nat) \<in> {178, 179, 185}"

text \<open>\<^verbatim>\<open>sys.get_int_max_str_digits()\<close>\<close>

definition int_max_str_digits :: nat where
  "int_max_str_digits = 4300"

text \<open>\<^verbatim>\<open>int(s)\<close>: surrounding whitespace, a sign and single underscores between digits are
  allowed.\<close>

definition py_int :: "string \<Rightarrow> exn + int" where
  "py_int s =
     (let t = py_strip s;
          neg = (t \<noteq> [] \<and> hd t = CHR ''-'');
          u = (if t \<noteq> [] \<and> hd t \<in> {CHR ''-'', CHR ''+''} then tl t else t);
          groups = split_on CHR ''_'' u;
          ds = concat groups in
      if list_all (\<lambda>g. g \<noteq> [] \<and> list_all py_isdigit_ascii g) groups \<and> length ds \<le> int_max_str_digits
      then Inr (if neg then - int (dec_value ds) else int (dec_value ds))
      else raises ValueError (''invalid literal for int() with base 10: '' @ s))"

definition validate_proxy_jump :: "string \<Rightarrow> exn + string" where
  "validate_proxy_jump spec =
     (let s = py_strip spec in
      case py_rpartition CHR ''@'' s of
        None \<Rightarrow> raises ValidationAppError ''proxy_jump must be in user@host[:port] format''
      | Some (user, hostport) \<Rightarrow>
          (let (host, p) = py_partition CHR '':'' hostport;
               port = (case p of None \<Rightarrow> [] | Some t \<Rightarrow> t) in
           if \<not> re_match SSH_USER_RE user then
             raises ValidationAppError (''Invalid proxy_jump user '' @ [CHR 0x27] @ user @ [CHR 0x27])
           else if \<not> (is_valid_ip host \<or> re_match HOSTNAME_RE (py_lower host)) then
             raises ValidationAppError (''Invalid proxy_jump host '' @ [CHR 0x27] @ host @ [CHR 0x27])
           else if port \<noteq> [] then
             (if \<not> list_all py_isdigit port then
                raises ValidationAppError (''Invalid proxy_jump port '' @ [CHR 0x27] @ port @ [CHR 0x27])
              else (case py_int port of
                      Inl e \<Rightarrow> Inl e
                    | Inr n \<Rightarrow> (case validate_port n of Inl e \<Rightarrow> Inl e | Inr _ \<Rightarrow> Inr s)))
           else Inr s))"

section \<open>The contract of a validator\<close>

text \<open>A validator fails only with a \<open>ValidationAppError\<close>, and what it returns is a normal
  form that it accepts again unchanged.\<close>

locale validator =
  fixes v :: "string \<Rightarrow> exn + string"
  assumes v_error: "v x = Inl e \<Longrightarrow> exc_of e = ValidationAppError"
    and v_normal: "v x = Inr y \<Longrightarrow> v y = Inr y"
begin

lemma loop_sound:
  "domain_list_loop v out ds = Inr ys \<Longrightarrow> distinct out \<Longrightarrow> list_all (\<lambda>d. v d = Inr d) out \<Longrightarrow>
   distinct ys \<and> ys \<noteq> [] \<and> length ys = length out + length ds \<and> list_all (\<lambda>d. v d = Inr d) ys"
proof (induction ds arbitrary: out)
  case (Cons d ds)
  from Cons.prems(1)
  obtain n where n: "v d = Inr n" "n \<notin> set out" "domain_list_loop v (out @ [n]) ds = Inr ys"
    by (auto split: sum.splits if_splits)
  then show ?case using Cons.IH [OF n(3)] Cons.prems(2,3) v_normal [OF n(1)] by simp
qed (auto split: if_splits)

lemma loop_complete:
  "ds \<noteq> [] \<or> out \<noteq> [] \<Longrightarrow> distinct (out @ ds) \<Longrightarrow> list_all (\<lambda>d. v d = Inr d) ds \<Longrightarrow>
   domain_list_loop v out ds = Inr (out @ ds)"
  by (induction ds arbitrary: out) auto

lemma loop_error:
  "domain_list_loop v out ds = Inl e \<Longrightarrow> exc_of e = ValidationAppError"
  by (induction ds arbitrary: out) (auto split: sum.splits if_splits dest: v_error)

lemma loop_idem:
  assumes "domain_list_loop v [] ds = Inr ys"
  shows "domain_list_loop v [] ys = Inr ys"
  using loop_sound [OF assms] loop_complete [of ys "[]"] by simp

end

lemma validate_domain_result:
  "validate_domain w x = Inr y \<Longrightarrow> y = py_lower (py_strip x)"
  by (auto simp: validate_domain_def Let_def split: if_splits)

interpretation vdom: validator "validate_domain w"
proof
  show "validate_domain w x = Inl e \<Longrightarrow> exc_of e = ValidationAppError" for x e
    by (auto simp: validate_domain_def Let_def split: if_splits)
  show "validate_domain w x = Inr y \<Longrightarrow> validate_domain w y = Inr y" for x y
    by (auto simp: validate_domain_def Let_def split: if_splits)
qed

interpretation vemail: validator validate_email
  by unfold_locales (auto simp: validate_email_def Let_def split: if_splits)

interpretation vfp: validator validate_fingerprint
  by unfold_locales (auto simp: validate_fingerprint_def Let_def split: if_splits)

interpretation vserial: validator validate_serial
  by unfold_locales (auto simp: validate_serial_def Let_def split: if_splits)

section \<open>What accepted strings look like\<close>

definition domain_char :: "char \<Rightarrow> bool" where
  "domain_char c \<longleftrightarrow> py_islower_ascii c \<or> py_isdigit_ascii c \<or> c \<in> set ''-.*''"

lemma stripped_last: "py_strip s \<noteq> [] \<Longrightarrow> last (py_lower (py_strip s)) \<noteq> CHR 0x0A"
proof -
  assume "py_strip s \<noteq> []"
  then have "\<not> py_isspace (last (py_lower (py_strip s)))"
    unfolding py_strip_def by (simp add: strip_by_last py_lower_def last_map)
  then show ?thesis by (auto simp: py_isspace_def)
qed

lemma stripped_last': "py_strip s \<noteq> [] \<longrightarrow> last (py_strip s) \<noteq> CHR 0x0A"
  unfolding py_strip_def using strip_by_last [of py_isspace s] by (auto simp: py_isspace_def)

lemma not_upper_lower_char: "\<not> py_isupper_ascii (lower_char c)"
  by (auto simp: lower_char_def py_isupper_ascii_def Let_def)

lemma alpha_dotted_labels [simp]: "alpha dotted_labels c \<longleftrightarrow> label_char c \<or> c = CHR ''.''"
  by (auto simp: dotted_labels_def LABEL_def lit_def opt_re_def)

lemma validate_domain_chars:
  assumes "validate_domain w x = Inr y" and "c \<in> set y"
  shows "domain_char c"
proof -
  have y: "y = py_lower (py_strip x)" by (rule validate_domain_result [OF assms(1)])
  have nl: "y \<noteq> [] \<longrightarrow> last y \<noteq> CHR 0x0A" using y stripped_last [of x] by (auto simp: py_lower_def)
  have "re_match WILDCARD_RE y \<or> re_match HOSTNAME_RE y"
    using assms(1) y by (auto simp: validate_domain_def Let_def split: if_splits)
  then have "label_char c \<or> c = CHR ''.'' \<or> c = CHR ''*''"
    using match_anchored_alpha [OF _ nl assms(2)] unfolding WILDCARD_RE_def HOSTNAME_RE_def
    by (fastforce simp: lit_def)
  moreover have "\<not> py_isupper_ascii c"
    using assms(2) y by (auto simp: py_lower_def not_upper_lower_char)
  ultimately show ?thesis by (auto simp: domain_char_def label_char_def is_alnum_ascii_def)
qed

text \<open>A matched label run is a slice of the subject.\<close>

lemma relpow_cls:
  "(a, b) \<in> sem (Cls p) s ^^ k \<Longrightarrow> b = a + k \<and> (0 < k \<longrightarrow> b \<le> length s)"
  by (induction k arbitrary: b) auto

lemma sem_LABEL:
  assumes "(a, b) \<in> sem LABEL s"
  obtains l where "drop a s = l @ drop b s" "0 < length l" "length l < 64"
    "CHR ''.'' \<notin> set l" "b \<le> length s"
proof -
  obtain k where k: "1 \<le> k" "k \<le> 63" "(a, b) \<in> sem (Cls label_char) s ^^ k"
    using assms by (auto simp: LABEL_def)
  then have b: "b = a + k" "b \<le> length s" using relpow_cls [OF k(3)] by auto
  have sp: "spans label_char s a b"
    using rtrancl_spans [OF relpow_imp_rtrancl [OF k(3)], of label_char s] sem_alpha
    by (metis alpha.simps(2) spans_mono)
  let ?l = "take k (drop a s)"
  have "drop a s = ?l @ drop b s" using b by (metis append_take_drop_id drop_drop add.commute)
  moreover have "length ?l = k" using b by simp
  moreover have "CHR ''.'' \<notin> set ?l"
  proof
    assume "CHR ''.'' \<in> set ?l"
    then obtain i where "i < k" "s ! (a + i) = CHR ''.''"
      using b by (auto simp: in_set_conv_nth)
    then show False using sp b unfolding spans_def
      by (auto simp: label_char_def is_alnum_ascii_def py_islower_ascii_def
          py_isupper_ascii_def py_isdigit_ascii_def dest!: spec [of _ "a + i"])
  qed
  ultimately show thesis using that k b by simp
qed

lemma split_on_nonempty [simp]: "split_on c s \<noteq> []"
  by (cases s) (auto split: list.splits)

lemma split_on_no_sep: "c \<notin> set l \<Longrightarrow> split_on c l = [l]"
  by (induction l) auto

lemma split_on_append_sep: "c \<notin> set l \<Longrightarrow> split_on c (l @ c # t) = l # split_on c t"
  by (induction l) auto

lemma idna_ok_label:
  "CHR ''.'' \<notin> set l \<Longrightarrow> 0 < length l \<Longrightarrow> length l < 64 \<Longrightarrow> idna_ok (l @ CHR ''.'' # t) = idna_ok t"
  by (simp add: idna_ok_def Let_def split_on_append_sep)

lemma sem_labels_idna:
  assumes "(i, j) \<in> (sem (Seq LABEL (lit CHR ''.'')) s)\<^sup>*"
  shows "idna_ok (drop j s) \<Longrightarrow> idna_ok (drop i s)"
  using assms
proof (induction rule: converse_rtrancl_induct)
  case (step y z)
  then obtain m where m: "(y, m) \<in> sem LABEL s" "z = Suc m" "m < length s" "s ! m = CHR ''.''"
    by (auto simp: lit_def)
  obtain l where l: "drop y s = l @ drop m s" "0 < length l" "length l < 64" "CHR ''.'' \<notin> set l"
    using sem_LABEL [OF m(1)] by blast
  have "drop m s = CHR ''.'' # drop z s" using m by (metis Cons_nth_drop_Suc)
  then show ?case using l step idna_ok_label by simp
qed simp

lemma hostname_idna_ok:
  assumes "re_match HOSTNAME_RE d" and "d \<noteq> [] \<longrightarrow> last d \<noteq> CHR 0x0A"
  shows "idna_ok d"
proof -
  obtain i m j where p: "(0, i) \<in> (sem (Seq LABEL (lit CHR ''.'')) d)\<^sup>*" "(i, m) \<in> sem LABEL d"
      "(m, j) \<in> sem (opt_re (lit CHR ''.'')) d" "at_eol d j"
    using assms(1) unfolding HOSTNAME_RE_def match_anchored_iff dotted_labels_def
    by (auto simp: relcomp_unfold)
  obtain l where l: "drop i d = l @ drop m d" "0 < length l" "length l < 64"
      "CHR ''.'' \<notin> set l" "m \<le> length d"
    using sem_LABEL [OF p(2)] by blast
  have "d \<noteq> []" using l by auto
  then have j: "j = length d"
    using p(4) assms(2) unfolding at_eol_def by (cases d rule: rev_cases) auto
  have "idna_ok (drop i d)"
  proof (cases "m = length d")
    case True
    then show ?thesis using l by (simp add: idna_ok_def split_on_no_sep)
  next
    case False
    then have "m < length d" "d ! m = CHR ''.''" "Suc m = length d"
      using p(3) j by (auto simp: opt_re_def lit_def)
    then have "drop m d = CHR ''.'' # []" by (metis Cons_nth_drop_Suc drop_all order_refl)
    then show ?thesis using l idna_ok_label [of l "[]"] by (simp add: idna_ok_def)
  qed
  then show ?thesis using sem_labels_idna [OF p(1)] by simp
qed

lemma sem_LABEL_start: "(a, b) \<in> sem LABEL s \<Longrightarrow> a < length s \<and> s ! a \<noteq> CHR ''-''"
proof -
  assume p: "(a, b) \<in> sem LABEL s"
  then obtain l where "drop a s = l @ drop b s" "0 < length l" by (rule sem_LABEL)
  then have "a < length s" by (metis add_gr_0 length_append length_drop zero_less_diff)
  then show ?thesis using p by (auto simp: LABEL_def lit_def)
qed

lemma hostname_hd:
  assumes "re_match HOSTNAME_RE d"
  shows "hd d \<noteq> CHR ''-''"
proof -
  obtain i m where p: "(0, i) \<in> (sem (Seq LABEL (lit CHR ''.'')) d)\<^sup>*" "(i, m) \<in> sem LABEL d"
    using assms(1) unfolding HOSTNAME_RE_def match_anchored_iff dotted_labels_def
    by (auto simp: relcomp_unfold)
  from p(1) have "\<exists>m'. (0, m') \<in> sem LABEL d"
    by (cases rule: converse_rtranclE) (use p(2) in auto)
  then show ?thesis using sem_LABEL_start [of 0] by (auto simp: hd_conv_nth)
qed

lemma wildcard_hd: "re_match WILDCARD_RE d \<Longrightarrow> hd d = CHR ''*''"
  unfolding WILDCARD_RE_def match_anchored_iff
  by (cases d) (auto simp: lit_def relcomp_unfold)

lemma validate_domain_hd: "validate_domain w x = Inr y \<Longrightarrow> y \<noteq> [] \<and> hd y \<noteq> CHR ''-''"
  using hostname_hd [of y] wildcard_hd [of y]
  by (auto simp: validate_domain_def Let_def split: if_splits)

lemma validate_domain_iff:
  "validate_domain w x = Inr y \<longleftrightarrow> y = py_lower (py_strip x) \<and> y \<noteq> [] \<and>
     (w \<and> re_match WILDCARD_RE y \<or> re_match HOSTNAME_RE y)"
  using hostname_idna_ok [of "py_lower (py_strip x)"] stripped_last [of x]
  by (auto simp: validate_domain_def Let_def py_lower_def)

lemma safe_filename_result:
  assumes "safe_filename n = Inr f"
  shows "f \<noteq> [] \<and> (\<forall>c \<in> set f. filename_char c) \<and> hd f \<noteq> CHR ''.'' \<and> last f \<noteq> CHR ''.''"
proof -
  let ?p = "\<lambda>c. c = CHR ''.''"
  let ?m = "map (\<lambda>c. if filename_char c then c else CHR ''_'') n"
  have f: "f = strip_by ?p ?m" "f \<noteq> []"
    using assms by (auto simp: safe_filename_def Let_def split: if_splits)
  have "\<forall>c \<in> set ?m. filename_char c" by (auto simp: filename_char_def)
  then have "\<forall>c \<in> set f. filename_char c" using f set_strip_by [of ?p ?m] by blast
  then show ?thesis using f strip_by_hd [of ?p ?m] strip_by_last [of ?p ?m] by auto
qed

lemma safe_filename_id:
  assumes "f \<noteq> []" "\<forall>c \<in> set f. filename_char c" "hd f \<noteq> CHR ''.''" "last f \<noteq> CHR ''.''"
  shows "safe_filename f = Inr f"
proof -
  have m: "map (\<lambda>c. if filename_char c then c else CHR ''_'') f = f"
    using assms(2) by (simp add: map_idI)
  have "strip_by (\<lambda>c. c = CHR ''.'') f = f" using assms by (intro strip_by_id) auto
  then show ?thesis using assms m by (auto simp: safe_filename_def)
qed

text \<open>Pieces of a jump-host specification.\<close>

lemma set_split_on: "x \<in> set s \<Longrightarrow> x = c \<or> (\<exists>p \<in> set (split_on c s). x \<in> set p)"
proof (induction s)
  case (Cons y s)
  then show ?case
    by (cases "split_on c s") (auto split: if_splits)
qed simp

lemma ipv4_chars: "ipv4_ok v \<Longrightarrow> c \<in> set v \<Longrightarrow> py_isdigit_ascii c \<or> c = CHR ''.''"
  using set_split_on [of c v "CHR ''.''"]
  by (fastforce simp: ipv4_ok_def octet_ok_def Let_def list_all_iff)

lemma py_partition_parts:
  "py_partition c s = (a, b) \<Longrightarrow>
   c \<notin> set a \<and> (case b of None \<Rightarrow> s = a | Some t \<Rightarrow> s = a @ c # t)"
proof (induction s arbitrary: a)
  case (Cons x s)
  then show ?case
    by (cases "x = c") (auto simp: py_partition_def split: list.splits option.splits)
qed (simp add: py_partition_def)

lemma py_rpartition_parts: "py_rpartition c s = Some (a, b) \<Longrightarrow> s = a @ c # b \<and> c \<notin> set b"
proof -
  assume r: "py_rpartition c s = Some (a, b)"
  then have c: "c \<in> set (rev s)" by (auto simp: py_rpartition_def split: if_splits)
  let ?t = "takeWhile (\<lambda>x. x \<noteq> c) (rev s)" and ?d = "dropWhile (\<lambda>x. x \<noteq> c) (rev s)"
  have "?d \<noteq> []" using c by (auto simp: dropWhile_eq_Nil_conv)
  moreover have "hd ?d = c" using hd_dropWhile [OF calculation] by simp
  ultimately have "rev s = ?t @ c # tl ?d" by (metis list.collapse takeWhile_dropWhile_id)
  then have "s = rev (tl ?d) @ c # rev ?t" by (metis rev.simps(2) rev_append rev_rev_ident append.assoc append_Cons append_Nil)
  then show ?thesis using r c by (auto simp: py_rpartition_def dest: set_takeWhileD)
qed

lemma ipv6_needs_colon: "ipv6_ok v \<Longrightarrow> CHR '':'' \<in> set v"
proof (rule ccontr)
  assume v: "ipv6_ok v" and no: "CHR '':'' \<notin> set v"
  obtain a b where ab: "py_partition CHR ''%'' v = (a, b)" by fastforce
  have "set a \<subseteq> set v" using py_partition_parts [OF ab] by (auto split: option.splits)
  then have "split_on CHR '':'' a = [a]" using no by (intro split_on_no_sep) auto
  then show False using v ab by (auto simp: ipv6_ok_def ipv6_parts_ok_def split: option.splits)
qed

lemma of_char_lower:
  "(of_char (lower_char c) :: nat) < 128 \<Longrightarrow>
   of_char c = (of_char (lower_char c) :: nat) \<or>
   (py_isupper_ascii c \<and> py_islower_ascii (lower_char c))"
  by (auto simp: lower_char_def py_isupper_ascii_def py_islower_ascii_def Let_def split: if_splits)

lemma lower_char_eq_nonletter:
  "lower_char c = d \<Longrightarrow> (of_char d :: nat) < 97 \<Longrightarrow> c = d"
  using of_char_lower [of c] by (auto simp: py_islower_ascii_def of_char_eq_iff)

lemma label_char_lower:
  assumes "label_char (lower_char c)"
  shows "label_char c"
proof -
  have "(of_char (lower_char c) :: nat) < 128"
    using assms by (auto simp: label_char_def is_alnum_ascii_def py_islower_ascii_def
      py_isupper_ascii_def py_isdigit_ascii_def Let_def)
  then show ?thesis
    using of_char_lower [of c] assms
    by (auto simp: label_char_def is_alnum_ascii_def of_char_eq_iff)
qed

lemma hostname_lower_chars:
  assumes "re_match HOSTNAME_RE (py_lower h)" and "c \<in> set h"
  shows "label_char c \<or> c = CHR ''.'' \<or> c = CHR 0x0A"
proof -
  have "lower_char c \<in> set (py_lower h)" using assms(2) by (simp add: py_lower_def)
  then have "label_char (lower_char c) \<or> lower_char c = CHR ''.'' \<or> lower_char c = CHR 0x0A"
    using match_anchored_alpha_nl [of dotted_labels "py_lower h"] assms(1)
    unfolding HOSTNAME_RE_def by (metis alpha_dotted_labels)
  then show ?thesis
    using label_char_lower lower_char_eq_nonletter [of c "CHR ''.''"]
      lower_char_eq_nonletter [of c "CHR 0x0A"] by auto
qed

definition jump_char :: "char \<Rightarrow> bool" where
  "jump_char c \<longleftrightarrow> is_alnum_ascii c \<or> c \<in> set ''_.-@:''"

lemma jump_user_chars: "re_match SSH_USER_RE u \<Longrightarrow> c \<in> set u \<Longrightarrow> jump_char c \<or> c = CHR 0x0A"
  unfolding SSH_USER_RE_def
  using match_anchored_alpha_nl [of "Rep 1 32 (Cls ssh_user_char)" u c]
  by (auto simp: jump_char_def ssh_user_char_def)

lemma jump_host_chars:
  assumes "is_valid_ip h \<or> re_match HOSTNAME_RE (py_lower h)" "CHR '':'' \<notin> set h" "c \<in> set h"
  shows "jump_char c \<or> c = CHR 0x0A"
  using assms ipv6_needs_colon [of h] ipv4_chars [of h c] hostname_lower_chars [of h c]
  by (auto simp: is_valid_ip_def jump_char_def label_char_def is_alnum_ascii_def)

lemma digits_not_space: "list_all py_isdigit_ascii s \<Longrightarrow> py_strip s = s"
proof -
  assume a: "list_all py_isdigit_ascii s"
  have "\<not> py_isspace c" if "py_isdigit_ascii c" for c
    using that by (auto simp: py_isdigit_ascii_def py_isspace_def Let_def)
  then show ?thesis using a unfolding py_strip_def
    by (cases "s = []") (auto intro!: strip_by_id simp: list_all_iff)
qed

lemma py_int_digits:
  assumes "list_all py_isdigit p" and "py_int p = Inr n"
  shows "list_all py_isdigit_ascii p"
proof -
  have c: "\<not> py_isspace c \<and> c \<noteq> CHR ''-'' \<and> c \<noteq> CHR ''+'' \<and> c \<noteq> CHR ''_''" if "c \<in> set p" for c
    using that assms(1)
    by (auto simp: list_all_iff py_isdigit_def py_isdigit_ascii_def py_isspace_def Let_def)
  have "py_strip p = p" unfolding py_strip_def
    using c by (cases "p = []") (auto intro!: strip_by_id)
  moreover have "split_on CHR ''_'' p = [p]" using c by (auto intro: split_on_no_sep)
  moreover have "p \<noteq> [] \<Longrightarrow> hd p \<notin> {CHR ''-'', CHR ''+''}" using c by auto
  ultimately show ?thesis
    using assms(2) by (cases "p = []") (auto simp: py_int_def Let_def split: if_splits)
qed

lemma nat_digits_digits: "list_all py_isdigit_ascii (nat_digits n) \<and> nat_digits n \<noteq> []"
proof (induction n rule: nat_digits.induct)
  case (1 n)
  have "py_isdigit_ascii (char_of (48 + m))" if "m < 10" for m :: nat
    using that by (simp add: py_isdigit_ascii_def)
  then show ?case using 1
    by (subst (1 2) nat_digits.simps) simp
qed

lemma dec_value_snoc: "dec_value (s @ [c]) = 10 * dec_value s + (of_char c - 48)"
  by (simp add: dec_value_def)

lemma dec_value_nat_digits [simp]: "dec_value (nat_digits n) = n"
proof (induction n rule: nat_digits.induct)
  case (1 n)
  show ?case
  proof (cases "n < 10")
    case True
    then show ?thesis by (subst nat_digits.simps) (simp add: dec_value_def)
  next
    case False
    then have "dec_value (nat_digits n) = 10 * (n div 10) + n mod 10"
      using 1 by (subst nat_digits.simps) (simp add: dec_value_snoc)
    then show ?thesis by simp
  qed
qed

lemma length_nat_digits: "n < 10 ^ k \<Longrightarrow> 0 < k \<Longrightarrow> length (nat_digits n) \<le> k"
proof (induction n arbitrary: k rule: nat_digits.induct)
  case (1 n)
  show ?case
  proof (cases "n < 10")
    case True
    then show ?thesis using 1 by (subst nat_digits.simps) simp
  next
    case False
    then obtain k' where k: "k = Suc k'" "0 < k'" using 1 by (cases k; cases "k - 1") auto
    then have "n div 10 < 10 ^ k'" using 1 by (simp add: less_mult_imp_div_less)
    then show ?thesis using 1 False k by (subst nat_digits.simps) simp
  qed
qed

text \<open>\<^verbatim>\<open>int(str(n)) == n\<close> within the interpreter's digit limit.\<close>

lemma py_int_str_int:
  assumes "0 \<le> n" "nat n < 10 ^ int_max_str_digits"
  shows "py_int (str_int n) = Inr n"
proof -
  let ?d = "nat_digits (nat n)"
  have d: "list_all py_isdigit_ascii ?d" "?d \<noteq> []" using nat_digits_digits by auto
  have "py_isdigit_ascii (hd ?d)" using d by (auto simp: list_all_iff)
  then have h: "hd ?d \<notin> {CHR ''-'', CHR ''+''}" by (auto simp: py_isdigit_ascii_def)
  have "CHR ''_'' \<notin> set ?d" using d by (auto simp: list_all_iff py_isdigit_ascii_def Let_def)
  then have "split_on CHR ''_'' ?d = [?d]" by (rule split_on_no_sep)
  moreover have "length ?d \<le> int_max_str_digits"
    using length_nat_digits [OF assms(2)] by (simp add: int_max_str_digits_def)
  ultimately show ?thesis
    using d h assms digits_not_space [OF d(1)] by (simp add: py_int_def str_int_def)
qed

lemma validate_proxy_jump_parts:
  assumes "validate_proxy_jump s = Inr t"
  obtains u h p where "t = py_strip s" "re_match SSH_USER_RE u" "CHR '':'' \<notin> set h"
    "is_valid_ip h \<or> re_match HOSTNAME_RE (py_lower h)" "list_all py_isdigit_ascii p"
    "t = u @ CHR ''@'' # h \<or> t = u @ CHR ''@'' # h @ CHR '':'' # p"
proof -
  obtain u hp where r: "py_rpartition CHR ''@'' (py_strip s) = Some (u, hp)"
    using assms by (cases "py_rpartition CHR ''@'' (py_strip s)") (auto simp: validate_proxy_jump_def Let_def)
  obtain h q where q: "py_partition CHR '':'' hp = (h, q)" by fastforce
  let ?p = "case q of None \<Rightarrow> [] | Some t \<Rightarrow> t"
  have t: "t = py_strip s" "re_match SSH_USER_RE u" "list_all py_isdigit_ascii ?p"
    "is_valid_ip h \<or> re_match HOSTNAME_RE (py_lower h)"
    using assms r q
    by (auto simp: validate_proxy_jump_def Let_def dest: py_int_digits
        split: if_splits sum.splits option.splits)
  have "t = u @ CHR ''@'' # h \<or> t = u @ CHR ''@'' # h @ CHR '':'' # ?p"
    using py_rpartition_parts [OF r] py_partition_parts [OF q] t(1) by (auto split: option.splits)
  then show thesis using that [of u h ?p] t py_partition_parts [OF q] by blast
qed

section \<open>Properties\<close>

text \<open>C34: whatever \<open>validate_domain\<close> returns is nonempty, consists only of lower-case ASCII
  letters, digits, hyphens, dots and the wildcard star, does not begin with a hyphen (so it
  cannot be read as a command-line option) and is accepted again unchanged.\<close>

theorem validate_domain_safe:
  assumes "validate_domain w x = Inr y"
  shows "y \<noteq> [] \<and> (\<forall>c \<in> set y. domain_char c) \<and> hd y \<noteq> CHR ''-'' \<and> validate_domain w y = Inr y"
  using validate_domain_chars [OF assms] validate_domain_hd [OF assms] vdom.v_normal [OF assms]
  by simp

lemma validate_domain_safe_witness:
  "validate_domain True '' *.Example.COM '' = Inr ''*.example.com'' \<and>
   list_all domain_char ''*.example.com'' \<and> hd ''*.example.com'' \<noteq> CHR ''-'' \<and>
   validate_domain True ''*.example.com'' = Inr ''*.example.com''"
proof -
  have v: "validate_domain True '' *.Example.COM '' = Inr ''*.example.com''" by code_simp
  show ?thesis using v validate_domain_safe [OF v] unfolding list_all_iff by blast
qed

text \<open>the IDNA re-check never rejects: a domain is accepted exactly when its stripped,
  lower-cased form is nonempty and matches the host-name pattern or, where wildcards are
  allowed, the wildcard pattern.\<close>

theorem validate_domain_accepts:
  "validate_domain w x = Inr y \<longleftrightarrow> y = py_lower (py_strip x) \<and> y \<noteq> [] \<and>
     (w \<and> re_match WILDCARD_RE y \<or> re_match HOSTNAME_RE y)"
  by (rule validate_domain_iff)

text \<open>an accepted domain list is nonempty, keeps one entry per input, has no duplicates
  after normalisation, is accepted again unchanged, and rejection is always a
  \<open>ValidationAppError\<close>.\<close>

theorem validate_domain_list_ok:
  "(case validate_domain_list w ds of
      Inl e \<Rightarrow> exc_of e = ValidationAppError
    | Inr ys \<Rightarrow> ys \<noteq> [] \<and> length ys = length ds \<and> distinct ys \<and>
        validate_domain_list w ys = Inr ys)"
proof (cases "validate_domain_list w ds")
  case (Inl e)
  then show ?thesis using vdom.loop_error by (auto simp: validate_domain_list_def)
next
  case (Inr ys)
  then have l: "domain_list_loop (validate_domain w) [] ds = Inr ys"
    by (simp add: validate_domain_list_def)
  from vdom.loop_sound [OF l] vdom.loop_idem [OF l] l show ?thesis
    by (simp add: validate_domain_list_def)
qed

text \<open>a file name built by \<open>safe_filename\<close> has no path separator, is not hidden and is
  not a directory reference, and cleaning it again changes nothing.\<close>

theorem safe_filename_safe:
  assumes "safe_filename n = Inr f"
  shows "f \<noteq> [] \<and> CHR ''/'' \<notin> set f \<and> (\<forall>c \<in> set f. filename_char c) \<and> hd f \<noteq> CHR ''.'' \<and>
    safe_filename f = Inr f"
  using safe_filename_result [OF assms] safe_filename_id
  by (auto simp: filename_char_def is_alnum_ascii_def py_islower_ascii_def
      py_isupper_ascii_def py_isdigit_ascii_def)

lemma safe_filename_safe_witness:
  "safe_filename ''../etc/pass wd'' = Inr ''_etc_pass_wd'' \<and>
   CHR ''/'' \<notin> set ''_etc_pass_wd'' \<and> safe_filename ''_etc_pass_wd'' = Inr ''_etc_pass_wd''"
proof -
  have v: "safe_filename ''../etc/pass wd'' = Inr ''_etc_pass_wd''" by code_simp
  show ?thesis using v safe_filename_safe [OF v] by blast
qed

text \<open>an accepted jump-host specification contains no shell metacharacter other than a
  newline: every other character is an ASCII letter or digit or one of
  \<^verbatim>\<open>_ . - @ :\<close>.\<close>

theorem validate_proxy_jump_chars:
  assumes "validate_proxy_jump s = Inr t"
  shows "\<forall>c \<in> set t. jump_char c \<or> c = CHR 0x0A"
proof -
  obtain u h p where p: "t = py_strip s" "re_match SSH_USER_RE u" "CHR '':'' \<notin> set h"
    "is_valid_ip h \<or> re_match HOSTNAME_RE (py_lower h)" "list_all py_isdigit_ascii p"
    "t = u @ CHR ''@'' # h \<or> t = u @ CHR ''@'' # h @ CHR '':'' # p"
    by (rule validate_proxy_jump_parts [OF assms])
  have "jump_char (CHR ''@'')" "jump_char (CHR '':'')" by (simp_all add: jump_char_def)
  moreover have "jump_char c" if "c \<in> set p" for c
    using that p(5) by (auto simp: jump_char_def is_alnum_ascii_def list_all_iff)
  moreover have "c \<in> set u \<or> c = CHR ''@'' \<or> c \<in> set h \<or> c = CHR '':'' \<or> c \<in> set p"
    if "c \<in> set t" for c
    using that p(6) by auto
  ultimately show ?thesis
    using jump_user_chars [OF p(2)] jump_host_chars [OF p(4,3)] by blast
qed

lemma validate_proxy_jump_chars_witness:
  "validate_proxy_jump '' ops@10.0.0.1:2222'' = Inr ''ops@10.0.0.1:2222'' \<and>
   list_all (\<lambda>c. jump_char c \<or> c = CHR 0x0A) ''ops@10.0.0.1:2222''"
proof -
  have v: "validate_proxy_jump '' ops@10.0.0.1:2222'' = Inr ''ops@10.0.0.1:2222''" by code_simp
  show ?thesis using v validate_proxy_jump_chars [OF v] unfolding list_all_iff by blast
qed

text \<open>the newline exception is real.  Because \<^verbatim>\<open>$\<close> matches before a final newline,
  a user or host part that ends in one is accepted and reaches the proxy command, although
  the validator exists to keep such characters out.\<close>

theorem validate_proxy_jump_newline:
  "validate_proxy_jump (''root'' @ [CHR 0x0A] @ ''@host'' @ [CHR 0x0A] @ '':22'') =
     Inr (''root'' @ [CHR 0x0A] @ ''@host'' @ [CHR 0x0A] @ '':22'')"
  by code_simp

end
