(* ===== verification/Security.thy ===== *)
theory Security
  imports Session Domain_Utils "HOL-Library.Countable"
begin

text \<open>
  \<open>app/core/security.py\<close> and the settings of \<open>app/core/config.py\<close> that the modelled
  services read.  The cryptographic libraries (bcrypt, PyJWT, Fernet, SHA-256, TOTP) are not
  part of the program: they are the fields of a \<open>crypto\<close> record that every operation
  using them takes as an argument, and the assumptions made of them are the named predicates
  \<open>bcrypt_correct\<close>, \<open>fernet_correct\<close> and \<open>jwt_correct\<close> below.  Random values drawn by an
  operation are arguments too.
\<close>

record settings =
  environment :: string
  trust_proxy_headers :: bool
  access_token_expire_minutes :: int
  refresh_token_expire_days :: int
  jwt_issuer :: string
  csrf_enabled :: bool
  password_min_length :: nat
  max_login_attempts :: int
  lockout_minutes :: int
  storage_root :: string
  log_root :: string
  default_letsencrypt_email :: string
  default_staging :: bool
  default_environment :: string
  renewal_threshold_days :: int
  execution_retention_days :: int
  audit_retention_days :: int
  notification_retention_days :: int
  deployment_verify_enabled :: bool
  deployment_rollback_enabled :: bool
  ssh_connect_timeout :: int
  ssh_command_timeout :: int
  celery_task_always_eager :: bool
  max_upload_bytes :: int
  certbot_binary :: string
  certbot_workdir :: string
  certbot_timeout_seconds :: int
  ssh_key_staging_dir :: string
  ssh_config_include_dir :: string
  backup_root :: string
  backup_keep_days :: int

text \<open>The defaults of the \<open>Settings\<close> class.\<close>

definition default_settings :: settings where
  "default_settings = \<lparr>
     environment = ''development'', trust_proxy_headers = True,
     access_token_expire_minutes = 30, refresh_token_expire_days = 14, jwt_issuer = ''certmgr'',
     csrf_enabled = True, password_min_length = 12, max_login_attempts = 5, lockout_minutes = 15,
     storage_root = ''/var/lib/certmgr/certificates'', log_root = ''/var/log/certmgr'',
     default_letsencrypt_email = ''ssl-admin@example.com'', default_staging = False, default_environment = ''production'',
     renewal_threshold_days = 30, execution_retention_days = 365, audit_retention_days = 730,
     notification_retention_days = 365, deployment_verify_enabled = True,
     deployment_rollback_enabled = True, ssh_connect_timeout = 10, ssh_command_timeout = 120,
     celery_task_always_eager = False, max_upload_bytes = 10485760,
     certbot_binary = ''certbot'', certbot_workdir = ''/etc/letsencrypt'', certbot_timeout_seconds = 900,
     ssh_key_staging_dir = ''/var/lib/certmgr/tmp/ssh'', ssh_config_include_dir = ''~/.ssh/certmgr.d'',
     backup_root = ''/var/lib/certmgr/backups'', backup_keep_days = 30\<rparr>"

text \<open>The claims of a token.\<close>

datatype payload = Payload (p_sub: string) (p_type: string) (p_iat: datetime) (p_exp: datetime)
  (p_iss: string) (p_jti: string) (p_role: string) (p_permissions: "string list")

instance payload :: countable
  by countable_datatype

datatype jwt_error = ExpiredSignatureError | InvalidTokenError

record crypto =
  bcrypt_hashpw :: "string \<Rightarrow> string \<Rightarrow> string"
  bcrypt_checkpw :: "string \<Rightarrow> string \<Rightarrow> bool"
  fernet_encrypt :: "string \<Rightarrow> string \<Rightarrow> string"
  fernet_decrypt :: "string \<Rightarrow> string option"
  sha256_hex :: "string \<Rightarrow> string"
  jwt_encode :: "payload \<Rightarrow> string"
  jwt_decode :: "datetime \<Rightarrow> string \<Rightarrow> string \<Rightarrow> jwt_error + payload"
  totp_verify :: "datetime \<Rightarrow> string \<Rightarrow> string \<Rightarrow> bool"

text \<open>The documented behaviour of the libraries: a hash checks against its password and no
  other one hashes equal under check; decryption inverts encryption under the same key; a
  token that has not expired decodes to its payload for the issuer it carries.\<close>

definition bcrypt_correct :: "crypto \<Rightarrow> bool" where
  "bcrypt_correct k \<longleftrightarrow>
     (\<forall>salt p q. bcrypt_checkpw k q (bcrypt_hashpw k salt p) = (p = q))"

definition fernet_correct :: "crypto \<Rightarrow> bool" where
  "fernet_correct k \<longleftrightarrow> (\<forall>iv m. fernet_decrypt k (fernet_encrypt k iv m) = Some m)"

definition jwt_correct :: "crypto \<Rightarrow> bool" where
  "jwt_correct k \<longleftrightarrow> (\<forall>now p.
     jwt_decode k now (p_iss p) (jwt_encode k p) =
       (if p_exp p \<le> now then Inl ExpiredSignatureError else Inr p))"

definition hash_password :: "settings \<Rightarrow> crypto \<Rightarrow> string \<Rightarrow> string \<Rightarrow> exn + string" where
  "hash_password cfg k salt password =
     (if length password < password_min_length cfg
      then raises SecurityError (''Password must be at least '' @
             nat_digits (password_min_length cfg) @ '' characters'')
      else Inr (bcrypt_hashpw k salt password))"

definition verify_password :: "crypto \<Rightarrow> string \<Rightarrow> string \<Rightarrow> bool" where
  "verify_password k plain hashed = bcrypt_checkpw k plain hashed"

text \<open>Python's \<^verbatim>\<open>islower\<close>, \<^verbatim>\<open>isupper\<close> on code points below 256.\<close>

definition py_islower :: "char \<Rightarrow> bool" where
  "py_islower c \<longleftrightarrow> (let n = (of_char c :: nat) in
     (97 \<le> n \<and> n \<le> 122) \<or> n \<in> {170, 181, 186} \<or> (223 \<le> n \<and> n \<le> 255 \<and> n \<noteq> 247))"

definition py_isupper :: "char \<Rightarrow> bool" where
  "py_isupper c \<longleftrightarrow> (let n = (of_char c :: nat) in
     (65 \<le> n \<and> n \<le> 90) \<or> (192 \<le> n \<and> n \<le> 222 \<and> n \<noteq> 215))"

definition validate_password_policy :: "settings \<Rightarrow> string \<Rightarrow> string list" where
  "validate_password_policy cfg password =
     (if length password < password_min_length cfg
      then [''Must be at least '' @ nat_digits (password_min_length cfg) @ '' characters''] else []) @
     (if \<not> list_ex py_islower password then [''Must contain a lowercase letter''] else []) @
     (if \<not> list_ex py_isupper password then [''Must contain an uppercase letter''] else []) @
     (if \<not> list_ex py_isdigit password then [''Must contain a digit''] else []) @
     (if \<not> list_ex (\<lambda>c. c \<in> set ''!@#$%^&*()_+-=[]{};:,.<>?/~`'') password
      then [''Must contain a special character''] else [])"

text \<open>\<^verbatim>\<open>_load_master_key\<close>: the source of the Fernet key.  \<open>file\<close> is the content of the
  configured key file (\<open>None\<close>: none configured, \<open>Some None\<close>: unreadable); \<open>derive\<close> is
  base64 of SHA-256.  A file shorter than 32 bytes falls through to the other sources.\<close>

definition load_master_key ::
    "settings \<Rightarrow> (string \<Rightarrow> string) \<Rightarrow> string option option \<Rightarrow> string option \<Rightarrow> exn + string" where
  "load_master_key cfg derive key_file master_key =
     (let fallback =
        (if truthy master_key then Inr (derive (str_or master_key []))
         else if environment cfg = ''production''
         then raises SecurityError (''CERTMGR_SECRETS_MASTER_KEY (or CERTMGR_SECRETS_ENCRYPTION_FILE) '' @
                ''is required in production'')
         else Inr (derive ''certmgr-dev-master-key'')) in
      case key_file of
        None \<Rightarrow> fallback
      | Some None \<Rightarrow> raises SecurityError ''Cannot read secrets encryption file''
      | Some (Some content) \<Rightarrow>
          (let data = py_strip content in
           if length data = 44 then Inr data
           else if 32 \<le> length data then Inr (derive data)
           else fallback))"

definition encrypt_secret :: "crypto \<Rightarrow> string \<Rightarrow> string \<Rightarrow> string" where
  "encrypt_secret k iv plaintext = fernet_encrypt k iv plaintext"

definition decrypt_secret :: "crypto \<Rightarrow> string \<Rightarrow> exn + string" where
  "decrypt_secret k token =
     (case fernet_decrypt k token of
        None \<Rightarrow> raises SecurityError ''Unable to decrypt secret (invalid master key)''
      | Some m \<Rightarrow> Inr m)"

definition create_token ::
    "settings \<Rightarrow> crypto \<Rightarrow> datetime \<Rightarrow> string \<Rightarrow> string \<Rightarrow> int \<Rightarrow> string \<Rightarrow> string list \<Rightarrow> string \<Rightarrow> string" where
  "create_token cfg k now subject token_type expires_delta role perms jti =
     jwt_encode k (Payload subject token_type now (now + expires_delta) (jwt_issuer cfg) jti role perms)"

definition create_access_token ::
    "settings \<Rightarrow> crypto \<Rightarrow> datetime \<Rightarrow> string \<Rightarrow> string \<Rightarrow> string list \<Rightarrow> string \<Rightarrow> string" where
  "create_access_token cfg k now subject role perms jti =
     create_token cfg k now subject ''access'' (access_token_expire_minutes cfg * us_per_minute)
       role perms jti"

definition create_refresh_token ::
    "settings \<Rightarrow> crypto \<Rightarrow> datetime \<Rightarrow> string \<Rightarrow> string \<Rightarrow> string list \<Rightarrow> string \<Rightarrow> string" where
  "create_refresh_token cfg k now subject role perms jti =
     create_token cfg k now subject ''refresh'' (refresh_token_expire_days cfg * us_per_day)
       role perms jti"

definition decode_token ::
    "settings \<Rightarrow> crypto \<Rightarrow> datetime \<Rightarrow> string \<Rightarrow> string \<Rightarrow> exn + payload" where
  "decode_token cfg k now token expected_type =
     (case jwt_decode k now (jwt_issuer cfg) token of
        Inl ExpiredSignatureError \<Rightarrow> Inl (Exn AuthError ''Token has expired'' (Some ''TOKEN_EXPIRED''))
      | Inl InvalidTokenError \<Rightarrow> Inl (Exn AuthError ''Invalid token'' (Some ''TOKEN_INVALID''))
      | Inr p \<Rightarrow> if p_type p \<noteq> expected_type
                 then Inl (Exn AuthError ''Wrong token type'' (Some ''TOKEN_TYPE''))
                 else Inr p)"

definition verify_csrf_token :: "string \<Rightarrow> string \<Rightarrow> bool" where
  "verify_csrf_token token expected \<longleftrightarrow> token \<noteq> [] \<and> expected \<noteq> [] \<and> token = expected"

definition hash_api_token :: "crypto \<Rightarrow> string \<Rightarrow> string" where
  "hash_api_token k token = sha256_hex k token"

section \<open>CSRF middleware\<close>

record request =
  rq_method :: string
  rq_path :: string
  rq_authorization :: string
  rq_x_certmgr_token :: "string option"
  rq_x_api_key :: "string option"
  rq_csrf_header :: string
  rq_csrf_cookie :: string
  rq_forwarded_for :: "string option"
  rq_client_host :: "string option"
  rq_user_agent :: string

text \<open>\<open>CSRFMiddleware.dispatch\<close>: whether the request is passed on (otherwise answered 403).\<close>

definition csrf_passes :: "settings \<Rightarrow> request \<Rightarrow> bool" where
  "csrf_passes cfg r =
     (let token_auth = py_startswith (rq_authorization r) ''Bearer '' \<or> truthy (rq_x_certmgr_token r);
          is_auth_endpoint = py_startswith (rq_path r) ''/api/v1/auth/'' in
      if csrf_enabled cfg \<and> rq_method r \<in> set [''POST'', ''PUT'', ''PATCH'', ''DELETE'']
         \<and> py_startswith (rq_path r) ''/api'' \<and> \<not> token_auth \<and> \<not> is_auth_endpoint
      then verify_csrf_token (rq_csrf_header r) (rq_csrf_cookie r)
      else True)"

section \<open>Facts\<close>

lemma token_decode:
  assumes "jwt_correct k"
  shows "decode_token cfg k now' (create_token cfg k now sub ty delta role perms jti) ty' =
    (if now + delta \<le> now' then Inl (Exn AuthError ''Token has expired'' (Some ''TOKEN_EXPIRED''))
     else if ty \<noteq> ty' then Inl (Exn AuthError ''Wrong token type'' (Some ''TOKEN_TYPE''))
     else Inr (Payload sub ty now (now + delta) (jwt_issuer cfg) jti role perms))"
proof -
  let ?p = "Payload sub ty now (now + delta) (jwt_issuer cfg) jti role perms"
  have "jwt_decode k now' (p_iss ?p) (jwt_encode k ?p) =
      (if p_exp ?p \<le> now' then Inl ExpiredSignatureError else Inr ?p)"
    using assms(1) unfolding jwt_correct_def by blast
  then show ?thesis by (simp add: decode_token_def create_token_def)
qed

lemma secret_roundtrip: "fernet_correct k \<Longrightarrow> decrypt_secret k (encrypt_secret k iv m) = Inr m"
  by (simp add: fernet_correct_def decrypt_secret_def encrypt_secret_def)

text \<open>Concrete libraries that satisfy the assumptions: cleartext hashes and cipher texts, and
  tokens that code their payload in their length.\<close>

definition clear_crypto :: crypto where
  "clear_crypto = \<lparr>
     bcrypt_hashpw = (\<lambda>salt p. p), bcrypt_checkpw = (\<lambda>q h. q = h),
     fernet_encrypt = (\<lambda>iv m. m), fernet_decrypt = Some, sha256_hex = (\<lambda>s. s),
     jwt_encode = (\<lambda>p. replicate (Suc (to_nat p)) CHR ''x''),
     jwt_decode = (\<lambda>now iss s. let p = from_nat (length s - 1) in
        if p_iss p \<noteq> iss then Inl InvalidTokenError
        else if p_exp p \<le> now then Inl ExpiredSignatureError else Inr p),
     totp_verify = (\<lambda>now secret code. code = secret)\<rparr>"

lemma clear_crypto_correct [simp]:
  "bcrypt_correct clear_crypto" "fernet_correct clear_crypto" "jwt_correct clear_crypto"
  by (simp_all add: bcrypt_correct_def fernet_correct_def jwt_correct_def clear_crypto_def Let_def
      eq_commute)

end
