(* ===== verification/Audit_Trail.thy ===== *)
theory Audit_Trail
  imports Security
begin

text \<open>
  \<open>app/services/audit_service.py\<close>, the structural part of redaction in
  \<open>app/core/logging.py\<close> and the client-address helpers of \<open>app/api/deps.py\<close>.  The
  substitution \<^verbatim>\<open>redact\<close> on a single string is an argument \<open>rd\<close>: only its application to
  the values of a details dictionary is modelled.
\<close>

section \<open>Redaction of a dictionary\<close>

fun redact_dict :: "(string \<Rightarrow> string) \<Rightarrow> dict \<Rightarrow> dict"
  and redact_val :: "(string \<Rightarrow> string) \<Rightarrow> json \<Rightarrow> json"
  and redact_items :: "(string \<Rightarrow> string) \<Rightarrow> json list \<Rightarrow> json list" where
  "redact_dict rd [] = []"
| "redact_dict rd ((k, v) # m) = (k, redact_val rd v) # redact_dict rd m"
| "redact_val rd (JObj m) = JObj (redact_dict rd m)"
| "redact_val rd (JList xs) = JList (redact_items rd xs)"
| "redact_val rd (JStr s) = JStr (rd s)"
| "redact_val rd v = v"
| "redact_items rd [] = []"
| "redact_items rd (x # xs) =
     (case x of JObj m \<Rightarrow> JObj (redact_dict rd m) | _ \<Rightarrow> x) # redact_items rd xs"

section \<open>Client context\<close>

definition get_client_ip :: "settings \<Rightarrow> request \<Rightarrow> string" where
  "get_client_ip cfg r =
     (if trust_proxy_headers cfg \<and> truthy (rq_forwarded_for r)
      then py_strip (hd (split_on CHR '','' (str_or (rq_forwarded_for r) [])))
      else (case rq_client_host r of None \<Rightarrow> ''unknown'' | Some h \<Rightarrow> h))"

definition BROWSER_PATTERNS :: "(string \<times> string) list" where
  "BROWSER_PATTERNS =
     [(''Chrome'', ''Chrome/''), (''Firefox'', ''Firefox/''), (''Safari'', ''Safari/''),
      (''Edge'', ''Edg/''), (''Opera'', ''OPR/''), (''curl'', ''curl/''),
      (''python'', ''python-requests''), (''Unknown'', '''')]"

definition browser :: "string option \<Rightarrow> string" where
  "browser user_agent =
     (let ua = py_lower (str_or user_agent []) in
      case find (\<lambda>(name, marker). marker \<noteq> [] \<and> py_contains (py_lower marker) ua) BROWSER_PATTERNS of
        None \<Rightarrow> ''Unknown'' | Some (name, _) \<Rightarrow> name)"

definition device :: "string option \<Rightarrow> string" where
  "device user_agent =
     (let ua = py_lower (str_or user_agent []) in
      if py_contains ''mobile'' ua \<or> py_contains ''android'' ua \<or> py_contains ''iphone'' ua then ''mobile''
      else if py_contains ''tablet'' ua \<or> py_contains ''ipad'' ua then ''tablet''
      else ''desktop'')"

section \<open>Recording and querying\<close>

text \<open>The keyword arguments of \<^verbatim>\<open>record\<close>.\<close>

record audit_args =
  aa_action :: string
  aa_user_id :: "int option"
  aa_username :: "string option"
  aa_resource_type :: "string option"
  aa_resource_id :: "string option"
  aa_result :: AuditResult
  aa_ip_address :: "string option"
  aa_user_agent :: "string option"
  aa_duration_ms :: "int option"
  aa_details :: dict

definition audit_defaults :: "string \<Rightarrow> audit_args" where
  "audit_defaults action = \<lparr>aa_action = action, aa_user_id = None, aa_username = None,
     aa_resource_type = None, aa_resource_id = None, aa_result = AuditResult.SUCCESS,
     aa_ip_address = None, aa_user_agent = None, aa_duration_ms = None, aa_details = []\<rparr>"

definition audit_row :: "(string \<Rightarrow> string) \<Rightarrow> audit_args \<Rightarrow> audit_log" where
  "audit_row rd a = \<lparr>
     al_user_id = aa_user_id a, al_username = aa_username a, al_action = aa_action a,
     al_resource_type = aa_resource_type a, al_resource_id = aa_resource_id a,
     al_result = AuditResult_value (aa_result a), al_ip_address = aa_ip_address a,
     al_user_agent = Some (take 500 (str_or (aa_user_agent a) [])),
     al_browser = Some (browser (aa_user_agent a)), al_device = Some (device (aa_user_agent a)),
     al_duration_ms = aa_duration_ms a, al_details = redact_dict rd (aa_details a)\<rparr>"

definition record_audit :: "(string \<Rightarrow> string) \<Rightarrow> datetime \<Rightarrow> audit_args \<Rightarrow> unit wop" where
  "record_audit rd now a =
     db_mod (audit_logs_update (\<lambda>t. snd (tbl_add now (audit_row rd a) t)))"

record audit_query =
  aq_user :: "string option"
  aq_action :: "string option"
  aq_resource_type :: "string option"
  aq_result :: "string option"
  aq_date_from :: "datetime option"
  aq_date_to :: "datetime option"
  aq_limit :: nat
  aq_offset :: nat

definition audit_matches :: "audit_query \<Rightarrow> audit_log row \<Rightarrow> bool" where
  "audit_matches q w \<longleftrightarrow>
     (truthy (aq_user q) \<longrightarrow> al_username (rval w) = aq_user q) \<and>
     (truthy (aq_action q) \<longrightarrow> Some (al_action (rval w)) = aq_action q) \<and>
     (truthy (aq_resource_type q) \<longrightarrow> al_resource_type (rval w) = aq_resource_type q) \<and>
     (truthy (aq_result q) \<longrightarrow> Some (al_result (rval w)) = aq_result q) \<and>
     (case aq_date_from q of None \<Rightarrow> True | Some t \<Rightarrow> t \<le> created_at w) \<and>
     (case aq_date_to q of None \<Rightarrow> True | Some t \<Rightarrow> created_at w \<le> t)"

text \<open>Newest first; rows with equal timestamps, whose order SQL leaves open, newest identifier
  last.\<close>

definition query_audit :: "audit_query \<Rightarrow> db \<Rightarrow> audit_log row list \<times> nat" where
  "query_audit q d =
     (let ms = tbl_sel (audit_matches q) (audit_logs d) in
      (take (aq_limit q) (drop (aq_offset q) (sort_key (\<lambda>w. - created_at w) ms)), length ms))"

section \<open>Facts\<close>

lemma no_commit_record [simp]: "no_commit (record_audit rd now a)"
  by (simp add: record_audit_def)

lemma query_audit_sound:
  assumes "query_audit q d = (ws, n)"
  shows "set ws \<subseteq> {w \<in> set (rows (audit_logs d)). audit_matches q w}"
    and "length ws = min (aq_limit q) (n - aq_offset q)"
    and "sorted (map (\<lambda>w. - created_at w) ws)"
proof -
  let ?ms = "tbl_sel (audit_matches q) (audit_logs d)"
  let ?s = "sort_key (\<lambda>w. - created_at w) ?ms"
  have ws: "ws = take (aq_limit q) (drop (aq_offset q) ?s)" "n = length ?ms"
    using assms by (auto simp: query_audit_def Let_def)
  have "set ws \<subseteq> set ?s" using ws by (meson order_trans set_drop_subset set_take_subset)
  then show "set ws \<subseteq> {w \<in> set (rows (audit_logs d)). audit_matches q w}"
    by (auto simp: tbl_sel_def)
  show "length ws = min (aq_limit q) (n - aq_offset q)" using ws by simp
  have "map (\<lambda>w. - created_at w) ws = take (aq_limit q) (drop (aq_offset q) (map (\<lambda>w. - created_at w) ?s))"
    using ws by (simp add: take_map drop_map)
  then show "sorted (map (\<lambda>w. - created_at w) ws)"
    by (metis sorted_sort_key sorted_wrt_drop sorted_wrt_take)
qed

end
