(* ===== verification/Permissions.thy ===== *)
theory Permissions
  imports Session
begin

text \<open>
  \<open>app/api/permissions.py\<close>: the permission codes, the role matrix and its seeding into the
  \<open>roles\<close> table, and \<open>require_permissions\<close> of \<open>app/api/deps.py\<close>, the guard of every
  endpoint.
\<close>

definition P_codes :: "(string \<times> (string \<times> string) list) list" where
  "P_codes =
    [(''cert'', [(''view'', ''certificate:view''),
       (''issue'', ''certificate:issue''),
       (''renew'', ''certificate:renew''),
       (''revoke'', ''certificate:revoke''),
       (''import'', ''certificate:import''),
       (''export'', ''certificate:export''),
       (''download_key'', ''certificate:download_key''),
       (''deploy'', ''certificate:deploy''),
       (''edit'', ''certificate:edit''),
       (''delete'', ''certificate:delete''),
       (''bulk'', ''certificate:bulk''),
       (''usage_scan'', ''certificate:usage_scan'')]),
     (''server'', [(''view'', ''server:view''),
       (''manage'', ''server:manage''),
       (''command'', ''server:command''),
       (''deploy'', ''server:deploy'')]),
     (''hook'', [(''view'', ''hook:view''),
       (''manage'', ''hook:manage'')]),
     (''notification'', [(''view'', ''notification:view''),
       (''manage'', ''notification:manage'')]),
     (''audit'', [(''view'', ''audit:view'')]),
     (''admin'', [(''users'', ''admin:users''),
       (''settings'', ''admin:settings''),
       (''providers'', ''admin:providers''),
       (''maintenance'', ''admin:maintenance''),
       (''reports'', ''admin:reports''),
       (''webhooks'', ''admin:webhooks'')]),
     (''discovery'', [(''run'', ''discovery:run''),
       (''view'', ''discovery:view''),
       (''network_scan'', ''discovery:network_scan''),
       (''ct_monitor'', ''discovery:ct_monitor'')]),
     (''health'', [(''view'', ''health:view''),
       (''run'', ''health:run'')]),
     (''ai'', [(''use'', ''ai:use'')]),
     (''finding'', [(''view'', ''finding:view''),
       (''manage'', ''finding:manage'')])]"

text \<open>\<^verbatim>\<open>P_[g].values()\<close> and \<^verbatim>\<open>P_[g][k]\<close>; every key used below is present.\<close>

definition P_values :: "string \<Rightarrow> string list" where
  "P_values g = (case map_of P_codes g of None \<Rightarrow> [] | Some m \<Rightarrow> map snd m)"

definition P_at :: "string \<times> string \<Rightarrow> string" where
  "P_at gk = (case map_of P_codes (fst gk) of None \<Rightarrow> []
     | Some m \<Rightarrow> (case map_of m (snd gk) of None \<Rightarrow> [] | Some c \<Rightarrow> c))"

primrec ROLE_PERMISSIONS_of :: "RoleName \<Rightarrow> string list" where
  "ROLE_PERMISSIONS_of RoleName.ADMIN =
     concat (map P_values [''cert'', ''server'', ''hook'', ''notification'', ''audit'', ''admin'', ''discovery'', ''health'', ''ai'', ''finding''])"
| "ROLE_PERMISSIONS_of RoleName.CERT_MANAGER =
     map P_at [(''cert'', ''view''),
        (''cert'', ''issue''),
        (''cert'', ''renew''),
        (''cert'', ''revoke''),
        (''cert'', ''import''),
        (''cert'', ''export''),
        (''cert'', ''download_key''),
        (''cert'', ''deploy''),
        (''cert'', ''edit''),
        (''cert'', ''bulk''),
        (''cert'', ''usage_scan''),
        (''server'', ''view''),
        (''server'', ''deploy''),
        (''hook'', ''view''),
        (''notification'', ''view''),
        (''discovery'', ''run''),
        (''discovery'', ''view''),
        (''health'', ''view''),
        (''finding'', ''view''),
        (''finding'', ''manage'')]"
| "ROLE_PERMISSIONS_of RoleName.OPERATOR =
     map P_at [(''cert'', ''view''),
        (''cert'', ''issue''),
        (''cert'', ''renew''),
        (''cert'', ''import''),
        (''cert'', ''export''),
        (''cert'', ''deploy''),
        (''server'', ''view''),
        (''server'', ''deploy''),
        (''hook'', ''view''),
        (''notification'', ''view''),
        (''discovery'', ''view''),
        (''health'', ''view''),
        (''finding'', ''view'')]"
| "ROLE_PERMISSIONS_of RoleName.READ_ONLY =
     map P_at [(''cert'', ''view''),
        (''server'', ''view''),
        (''hook'', ''view''),
        (''notification'', ''view''),
        (''audit'', ''view''),
        (''discovery'', ''view''),
        (''health'', ''view''),
        (''finding'', ''view'')]"

text \<open>\<^verbatim>\<open>ROLE_PERMISSIONS\<close>, keyed by the role's string value.\<close>

definition ROLE_PERMISSIONS :: "(string \<times> string list) list" where
  "ROLE_PERMISSIONS = map (\<lambda>r. (RoleName_value r, ROLE_PERMISSIONS_of r)) RoleName_members"

definition role_permissions :: "string \<Rightarrow> string list" where
  "role_permissions role_name =
     sorted_set (case map_of ROLE_PERMISSIONS role_name of None \<Rightarrow> [] | Some p \<Rightarrow> p)"

definition has_permission :: "string \<Rightarrow> string \<Rightarrow> bool" where
  "has_permission role_name permission \<longleftrightarrow>
     permission \<in> set (case map_of ROLE_PERMISSIONS role_name of None \<Rightarrow> [] | Some p \<Rightarrow> p)"

text \<open>\<^verbatim>\<open>dict.update\<close> on association lists: later groups overwrite equal keys.\<close>

fun dict_set :: "string \<Rightarrow> 'v \<Rightarrow> (string \<times> 'v) list \<Rightarrow> (string \<times> 'v) list" where
  "dict_set k v [] = [(k, v)]"
| "dict_set k v ((k', v') # m) = (if k = k' then (k, v) # m else (k', v') # dict_set k v m)"

definition dict_update :: "(string \<times> 'v) list \<Rightarrow> (string \<times> 'v) list \<Rightarrow> (string \<times> 'v) list" where
  "dict_update m g = foldl (\<lambda>acc (k, v). dict_set k v acc) m g"

definition all_permissions :: "(string \<times> string) list" where
  "all_permissions = foldl (\<lambda>flat g. dict_update flat (snd g)) [] P_codes"

primrec role_description :: "RoleName \<Rightarrow> string" where
  "role_description RoleName.ADMIN = ''Full platform administration''"
| "role_description RoleName.CERT_MANAGER = ''Full certificate lifecycle management''"
| "role_description RoleName.OPERATOR = ''Day-to-day certificate operations''"
| "role_description RoleName.READ_ONLY = ''Read-only visibility''"

definition seed_role :: "datetime \<Rightarrow> RoleName \<Rightarrow> db \<Rightarrow> db" where
  "seed_role now r d =
     (let n = RoleName_value r in
      case tbl_first (\<lambda>w. ro_name (rval w) = n) (roles d) of
        Some w \<Rightarrow> d\<lparr>roles := tbl_upd now (rid w) (\<lambda>x. x\<lparr>ro_permissions := role_permissions n\<rparr>) (roles d)\<rparr>
      | None \<Rightarrow> d\<lparr>roles := snd (tbl_add now \<lparr>ro_name = n, ro_description = role_description r,
                    ro_permissions = role_permissions n\<rparr> (roles d))\<rparr>)"

definition seed_default_roles :: "datetime \<Rightarrow> db \<Rightarrow> db" where
  "seed_default_roles now d = foldl (\<lambda>d r. seed_role now r d) d RoleName_members"

text \<open>\<open>require_permissions\<close> of \<open>app/api/deps.py\<close>, on the permissions of the user's role.\<close>

definition require_permissions :: "string list \<Rightarrow> string list \<Rightarrow> exn + unit" where
  "require_permissions perms user_perms =
     (let missing = filter (\<lambda>p. p \<notin> set user_perms) perms in
      if missing = [] then Inr ()
      else raises PermissionDeniedError
             (''Insufficient permissions - requires: '' @ py_join '', '' missing))"

section \<open>Facts\<close>

lemma set_role_permissions: "set (role_permissions n) = {p. has_permission n p}"
  by (auto simp: role_permissions_def has_permission_def sorted_set_def split: option.splits)

lemma require_permissions_iff: "require_permissions ps us = Inr () \<longleftrightarrow> set ps \<subseteq> set us"
  by (auto simp: require_permissions_def Let_def filter_empty_conv)

lemma has_permission_role: "has_permission (RoleName_value r) p \<longleftrightarrow> p \<in> set (ROLE_PERMISSIONS_of r)"
  by (cases r) (simp_all add: has_permission_def ROLE_PERMISSIONS_def RoleName_members_def)

section \<open>Roles\<close>

definition declared_codes :: "string list" where
  "declared_codes = concat (map (map snd \<circ> snd) P_codes)"

lemma declared_distinct: "distinct declared_codes" by code_simp

lemma role_codes_declared: "set (ROLE_PERMISSIONS_of r) \<subseteq> set declared_codes"
proof -
  have "list_all (\<lambda>r. list_all (\<lambda>p. p \<in> set declared_codes) (ROLE_PERMISSIONS_of r)) RoleName_members" by code_simp
  moreover have "r \<in> set RoleName_members" by (cases r) (simp_all add: RoleName_members_def)
  ultimately show ?thesis by (auto simp: list_all_iff)
qed

lemma admin_codes: "set (ROLE_PERMISSIONS_of RoleName.ADMIN) = set declared_codes"
proof
  have "list_all (\<lambda>p. p \<in> set (ROLE_PERMISSIONS_of RoleName.ADMIN)) declared_codes" by code_simp
  then show "set declared_codes \<subseteq> set (ROLE_PERMISSIONS_of RoleName.ADMIN)" by (auto simp: list_all_iff)
qed (rule role_codes_declared)

text \<open>A role row that carries exactly the codes of the matrix.\<close>

definition role_seeded :: "RoleName \<Rightarrow> db \<Rightarrow> bool" where
  "role_seeded r d \<longleftrightarrow> (\<exists>w. tbl_first (\<lambda>w. ro_name (rval w) = RoleName_value r) (roles d) = Some w \<and>
     set (ro_permissions (rval w)) = set (ROLE_PERMISSIONS_of r))"

lemma RoleName_value_inj: "RoleName_value a = RoleName_value b \<longleftrightarrow> a = b"
  by (cases a; cases b) simp_all

lemma set_role_permissions_of: "set (role_permissions (RoleName_value r)) = set (ROLE_PERMISSIONS_of r)"
  by (simp add: set_role_permissions has_permission_role)

lemma first_role_upd:
  "tbl_first (\<lambda>w. ro_name (rval w) = n) (tbl_upd now i (\<lambda>x. x\<lparr>ro_permissions := ps\<rparr>) t) =
     map_option (\<lambda>w. if rid w = i then touch now (\<lambda>x. x\<lparr>ro_permissions := ps\<rparr>) w else w)
       (tbl_first (\<lambda>w. ro_name (rval w) = n) t)"
  unfolding tbl_upd_def by (rule tbl_first_upd_where) simp

lemma first_role_add:
  "tbl_first (\<lambda>w. ro_name (rval w) = n) (snd (tbl_add now x t)) =
     (case tbl_first (\<lambda>w. ro_name (rval w) = n) t of
        Some w \<Rightarrow> Some w
      | None \<Rightarrow> if ro_name x = n then Some \<lparr>rid = next_id t, created_at = now, updated_at = now, rval = x\<rparr> else None)"
  by (simp add: tbl_first_def tbl_add_def find_append split: option.splits)

lemma seed_role_seeds: "role_seeded r (seed_role now r d)"
  by (cases "tbl_first (\<lambda>w. ro_name (rval w) = RoleName_value r) (roles d)")
    (simp_all add: role_seeded_def seed_role_def first_role_upd first_role_add set_role_permissions_of Let_def)

lemma seed_role_keeps:
  assumes "wf_table (roles d)" "role_seeded r' d" "r \<noteq> r'"
  shows "role_seeded r' (seed_role now r d)"
proof -
  obtain v where v: "tbl_first (\<lambda>w. ro_name (rval w) = RoleName_value r') (roles d) = Some v"
      "set (ro_permissions (rval v)) = set (ROLE_PERMISSIONS_of r')" using assms(2) by (auto simp: role_seeded_def)
  show ?thesis
  proof (cases "tbl_first (\<lambda>w. ro_name (rval w) = RoleName_value r) (roles d)")
    case (Some w)
    have "v \<noteq> w" using tbl_first_Some [OF v(1)] tbl_first_Some [OF Some] assms(3) by (auto simp: RoleName_value_inj)
    then have "rid v \<noteq> rid w" using tbl_first_Some [OF v(1)] tbl_first_Some [OF Some] assms(1)
      unfolding wf_table_def ids_def distinct_map by (meson inj_onD)
    then show ?thesis using v Some by (simp add: role_seeded_def seed_role_def first_role_upd)
  qed (use v in \<open>simp add: role_seeded_def seed_role_def first_role_add Let_def\<close>)
qed

lemma wf_seed_role: "wf_table (roles d) \<Longrightarrow> wf_table (roles (seed_role now r d))"
  by (auto simp: seed_role_def Let_def split: option.splits)

text \<open>C29: The permission codes are distinct, the roles' matrix grants declared codes only and the
  administrator all of them; seeding, over whatever roles the database holds, leaves every built-in role with
  exactly the codes of the matrix.\<close>

theorem roles_well_typed:
  assumes "wf_table (roles d)"
  shows "distinct declared_codes \<and> set (ROLE_PERMISSIONS_of r) \<subseteq> set declared_codes \<and>
    set (ROLE_PERMISSIONS_of RoleName.ADMIN) = set declared_codes \<and> role_seeded r (seed_default_roles now d)"
proof -
  have "role_seeded r (seed_default_roles now d)"
    using assms by (cases r) (auto simp: seed_default_roles_def RoleName_members_def intro!: seed_role_seeds seed_role_keeps wf_seed_role)
  then show ?thesis using assms declared_distinct role_codes_declared admin_codes by simp
qed

lemma roles_well_typed_witness: "role_seeded RoleName.OPERATOR (seed_default_roles 5 empty_db)"
  using roles_well_typed [of empty_db RoleName.OPERATOR 5]
  by (simp add: empty_db_def empty_table_def wf_table_def ids_def)

end
