(* ===== verification/Auth.thy ===== *)
theory Auth
  imports Audit_Trail Permissions
begin

text \<open>
  \<open>app/services/auth_service.py\<close>, the user resolution of \<open>app/api/deps.py\<close> and the
  endpoints of \<open>app/api/v1/auth.py\<close>: password login with lockout, TOTP, access and refresh
  tokens, API tokens, password change, user creation and the bootstrap administrator.  A user
  object of the source is its identifier here; reading it goes through the session.
\<close>

abbreviation auth_error :: "string \<Rightarrow> string \<Rightarrow> ('s, 'a) op" where
  "auth_error m c \<equiv> throw (Exn AuthError m (Some c))"

text \<open>Random values drawn during one request.\<close>

record randoms =
  r_salt :: string
  r_dummy :: string
  r_access_jti :: string
  r_refresh_jti :: string
  r_token :: string
  r_csrf :: string
  r_iv :: string

section \<open>State access\<close>

definition find_user :: "(user row \<Rightarrow> bool) \<Rightarrow> (user row option) wop" where
  "find_user p = db_get (\<lambda>d. tbl_first p (users d))"

text \<open>The row of a loaded user object.\<close>

definition the_user :: "int \<Rightarrow> user wop" where
  "the_user uid = bnd (db_get (\<lambda>d. tbl_get uid (users d))) (\<lambda>u.
     case u of None \<Rightarrow> fail AttributeError ''user'' | Some x \<Rightarrow> ret x)"

definition upd_user :: "datetime \<Rightarrow> int \<Rightarrow> (user \<Rightarrow> user) \<Rightarrow> unit wop" where
  "upd_user now uid f = db_mod (users_update (tbl_upd now uid f))"

text \<open>\<^verbatim>\<open>user.role_name.value\<close> and \<^verbatim>\<open>user.role.permissions\<close>: the role name must be one of
  \<open>RoleName\<close>.\<close>

definition role_claims :: "int \<Rightarrow> (string \<times> string list) wop" where
  "role_claims uid = bnd (the_user uid) (\<lambda>u.
     bnd (db_get (\<lambda>d. tbl_get (u_role_id u) (roles d))) (\<lambda>ro.
       case ro of
         None \<Rightarrow> fail AttributeError ''role''
       | Some r \<Rightarrow> bnd (lift_exn (enum_of RoleName_members RoleName_value (ro_name r)))
                     (\<lambda>rn. ret (RoleName_value rn, ro_permissions r))))"

section \<open>Password login\<close>

definition is_locked_now :: "datetime \<Rightarrow> user \<Rightarrow> bool" where
  "is_locked_now now u \<longleftrightarrow>
     u_is_locked u \<and> (case u_locked_until u of None \<Rightarrow> False | Some t \<Rightarrow> now < t)"

text \<open>The row update of a failed and of a successful attempt.\<close>

definition failed_attempt :: "settings \<Rightarrow> datetime \<Rightarrow> user \<Rightarrow> user" where
  "failed_attempt cfg now u =
     (let n = u_failed_login_attempts u + 1 in
      if max_login_attempts cfg \<le> n
      then u\<lparr>u_is_locked := True,
             u_locked_until := Some (now + lockout_minutes cfg * us_per_minute),
             u_failed_login_attempts := 0\<rparr>
      else u\<lparr>u_failed_login_attempts := n\<rparr>)"

definition successful_login :: "datetime \<Rightarrow> user \<Rightarrow> user" where
  "successful_login now u = u\<lparr>u_failed_login_attempts := 0, u_is_locked := False,
     u_locked_until := None, u_last_login_at := Some now\<rparr>"

definition authenticate ::
    "settings \<Rightarrow> crypto \<Rightarrow> datetime \<Rightarrow> randoms \<Rightarrow> string \<Rightarrow> string \<Rightarrow> int wop" where
  "authenticate cfg k now rnd username password =
     bnd (find_user (\<lambda>w. u_username (rval w) = username)) (\<lambda>found.
       case found of
         None \<Rightarrow>
           bnd (lift_exn (hash_password cfg k (r_salt rnd) (''dummy-'' @ r_dummy rnd @ ''!Aa9'')))
             (\<lambda>_. auth_error ''Invalid username or password'' ''BAD_CREDENTIALS'')
       | Some w \<Rightarrow>
           if \<not> u_is_active (rval w) then auth_error ''Account is disabled'' ''ACCOUNT_DISABLED''
           else if is_locked_now now (rval w) then
             auth_error (''Account temporarily locked; retry in '' @
                 str_int ((the (u_locked_until (rval w)) - now) div us_per_minute) @ '' minute(s)'')
               ''ACCOUNT_LOCKED''
           else if \<not> verify_password k password (u_hashed_password (rval w)) then
             bnd (upd_user now (rid w) (failed_attempt cfg now)) (\<lambda>_.
             bnd commit (\<lambda>_. auth_error ''Invalid username or password'' ''BAD_CREDENTIALS''))
           else
             bnd (upd_user now (rid w) (successful_login now)) (\<lambda>_.
             bnd commit (\<lambda>_. ret (rid w))))"

definition verify_mfa :: "crypto \<Rightarrow> datetime \<Rightarrow> user \<Rightarrow> string \<Rightarrow> exn + bool" where
  "verify_mfa k now u code =
     (if \<not> u_mfa_enabled u \<or> \<not> truthy (u_mfa_secret_encrypted u) then Inr True
      else (case decrypt_secret k (str_or (u_mfa_secret_encrypted u) []) of
              Inl e \<Rightarrow> Inl e
            | Inr secret \<Rightarrow> Inr (totp_verify k now secret code)))"

section \<open>Tokens\<close>

record token_pair =
  tp_access_token :: string
  tp_refresh_token :: string
  tp_token_type :: string
  tp_expires_in :: int

text \<open>INSERT with the unique columns of \<open>RefreshToken\<close> and \<open>ApiToken\<close>.\<close>

definition add_refresh_token :: "datetime \<Rightarrow> refresh_token \<Rightarrow> unit wop" where
  "add_refresh_token now r =
     bnd (db_get (\<lambda>d. tbl_first (\<lambda>w. rt_jti (rval w) = rt_jti r \<or>
                        rt_token_hash (rval w) = rt_token_hash r) (refresh_tokens d))) (\<lambda>dup.
       case dup of
         Some _ \<Rightarrow> fail IntegrityError ''refresh_tokens''
       | None \<Rightarrow> db_mod (refresh_tokens_update (\<lambda>t. snd (tbl_add now r t))))"

definition issue_tokens ::
    "settings \<Rightarrow> crypto \<Rightarrow> datetime \<Rightarrow> randoms \<Rightarrow> int \<Rightarrow> string option \<Rightarrow> string option \<Rightarrow> token_pair wop" where
  "issue_tokens cfg k now rnd uid ip user_agent =
     bnd (role_claims uid) (\<lambda>(role, perms).
       let access = create_access_token cfg k now (str_int uid) role perms (r_access_jti rnd);
           refresh = create_refresh_token cfg k now (str_int uid) role perms (r_refresh_jti rnd) in
       bnd (lift_exn (decode_token cfg k now refresh ''refresh'')) (\<lambda>p.
       bnd (add_refresh_token now \<lparr>rt_user_id = uid, rt_jti = p_jti p,
              rt_token_hash = sha256_hex k refresh,
              rt_expires_at = now + refresh_token_expire_days cfg * us_per_day,
              rt_revoked_at = None, rt_user_agent = Some (take 500 (str_or user_agent [])),
              rt_ip_address = ip\<rparr>) (\<lambda>_.
       bnd commit (\<lambda>_.
       ret \<lparr>tp_access_token = access, tp_refresh_token = refresh, tp_token_type = ''bearer'',
            tp_expires_in = access_token_expire_minutes cfg * 60\<rparr>))))"

definition find_refresh :: "crypto \<Rightarrow> string \<Rightarrow> (refresh_token row option) wop" where
  "find_refresh k token =
     db_get (\<lambda>d. tbl_first (\<lambda>w. rt_token_hash (rval w) = sha256_hex k token) (refresh_tokens d))"

definition refresh_access_token ::
    "settings \<Rightarrow> crypto \<Rightarrow> datetime \<Rightarrow> randoms \<Rightarrow> string \<Rightarrow> (string \<times> string \<times> int) wop" where
  "refresh_access_token cfg k now rnd token =
     bnd (lift_exn (decode_token cfg k now token ''refresh'')) (\<lambda>p.
     bnd (find_refresh k token) (\<lambda>row.
       case row of
         None \<Rightarrow> auth_error ''Refresh token has been revoked'' ''TOKEN_REVOKED''
       | Some w \<Rightarrow>
         if rt_revoked_at (rval w) \<noteq> None then
           auth_error ''Refresh token has been revoked'' ''TOKEN_REVOKED''
         else if rt_expires_at (rval w) < now then
           auth_error ''Refresh token expired'' ''TOKEN_EXPIRED''
         else
           bnd (lift_exn (py_int (p_sub p))) (\<lambda>sub.
           bnd (find_user (\<lambda>u. rid u = sub)) (\<lambda>u.
             case u of
               None \<Rightarrow> auth_error ''User no longer active'' ''ACCOUNT_DISABLED''
             | Some uw \<Rightarrow>
                 if \<not> u_is_active (rval uw) then
                   auth_error ''User no longer active'' ''ACCOUNT_DISABLED''
                 else bnd (role_claims (rid uw)) (\<lambda>(role, perms).
                   ret (create_access_token cfg k now (str_int (rid uw)) role perms (r_access_jti rnd),
                        ''bearer'', access_token_expire_minutes cfg * 60))))))"

definition revoke_refresh_token :: "crypto \<Rightarrow> datetime \<Rightarrow> string \<Rightarrow> unit wop" where
  "revoke_refresh_token k now token =
     bnd (find_refresh k token) (\<lambda>row.
       case row of
         None \<Rightarrow> ret ()
       | Some w \<Rightarrow>
           bnd (db_mod (refresh_tokens_update (tbl_upd now (rid w) (\<lambda>r. r\<lparr>rt_revoked_at := Some now\<rparr>))))
             (\<lambda>_. commit))"

definition create_api_token ::
    "crypto \<Rightarrow> datetime \<Rightarrow> randoms \<Rightarrow> int \<Rightarrow> string \<Rightarrow> string list \<Rightarrow> datetime option \<Rightarrow> string wop" where
  "create_api_token k now rnd uid name scopes expires_at =
     (let token = r_token rnd in
      bnd (db_get (\<lambda>d. tbl_first (\<lambda>w. at_token_hash (rval w) = hash_api_token k token) (api_tokens d))) (\<lambda>dup.
        case dup of
          Some _ \<Rightarrow> fail IntegrityError ''api_tokens''
        | None \<Rightarrow>
            bnd (db_mod (api_tokens_update (\<lambda>t. snd (tbl_add now
                   \<lparr>at_user_id = uid, at_name = name, at_token_hash = hash_api_token k token,
                    at_prefix = ''cm_'' @ take 8 token, at_scopes = scopes,
                    at_expires_at = expires_at, at_last_used_at = None, at_revoked_at = None\<rparr> t)))) (\<lambda>_.
            bnd commit (\<lambda>_. ret token))))"

definition api_token_usable :: "datetime \<Rightarrow> api_token \<Rightarrow> bool" where
  "api_token_usable now a \<longleftrightarrow>
     at_revoked_at a = None \<and> (case at_expires_at a of None \<Rightarrow> True | Some t \<Rightarrow> \<not> t < now)"

definition authenticate_api_token :: "crypto \<Rightarrow> datetime \<Rightarrow> string \<Rightarrow> (int option) wop" where
  "authenticate_api_token k now token =
     bnd (db_get (\<lambda>d. tbl_first (\<lambda>w. at_token_hash (rval w) = hash_api_token k token) (api_tokens d))) (\<lambda>row.
       case row of
         None \<Rightarrow> ret None
       | Some w \<Rightarrow>
           if \<not> api_token_usable now (rval w) then ret None
           else
             bnd (find_user (\<lambda>u. rid u = at_user_id (rval w) \<and> u_is_active (rval u))) (\<lambda>u.
               case u of
                 None \<Rightarrow> ret None
               | Some uw \<Rightarrow>
                   bnd (db_mod (api_tokens_update (tbl_upd now (rid w)
                          (\<lambda>a. a\<lparr>at_last_used_at := Some now\<rparr>)))) (\<lambda>_.
                   bnd commit (\<lambda>_. ret (Some (rid uw))))))"

section \<open>MFA enrolment and password change\<close>

definition setup_mfa :: "crypto \<Rightarrow> datetime \<Rightarrow> randoms \<Rightarrow> int \<Rightarrow> string \<Rightarrow> string wop" where
  "setup_mfa k now rnd uid secret =
     bnd (upd_user now uid (\<lambda>u. u\<lparr>u_mfa_secret_encrypted := Some (encrypt_secret k (r_iv rnd) secret)\<rparr>)) (\<lambda>_.
     bnd commit (\<lambda>_. ret secret))"

definition enable_mfa :: "crypto \<Rightarrow> datetime \<Rightarrow> int \<Rightarrow> string \<Rightarrow> unit wop" where
  "enable_mfa k now uid code =
     bnd (the_user uid) (\<lambda>u.
       if \<not> truthy (u_mfa_secret_encrypted u) then
         fail ConflictError ''MFA not initialized; call setup first''
       else
         bnd (lift_exn (decrypt_secret k (str_or (u_mfa_secret_encrypted u) []))) (\<lambda>secret.
           if \<not> totp_verify k now secret code then fail ValidationAppError ''Invalid verification code''
           else bnd (upd_user now uid (\<lambda>u. u\<lparr>u_mfa_enabled := True\<rparr>)) (\<lambda>_. commit)))"

definition disable_mfa :: "crypto \<Rightarrow> datetime \<Rightarrow> int \<Rightarrow> string \<Rightarrow> unit wop" where
  "disable_mfa k now uid password =
     bnd (the_user uid) (\<lambda>u.
       if \<not> verify_password k password (u_hashed_password u) then
         auth_error ''Password verification failed'' ''BAD_CREDENTIALS''
       else
         bnd (upd_user now uid (\<lambda>u. u\<lparr>u_mfa_enabled := False, u_mfa_secret_encrypted := None\<rparr>))
           (\<lambda>_. commit))"

definition change_password ::
    "settings \<Rightarrow> crypto \<Rightarrow> datetime \<Rightarrow> randoms \<Rightarrow> int \<Rightarrow> string \<Rightarrow> string \<Rightarrow> unit wop" where
  "change_password cfg k now rnd uid old_password new_password =
     bnd (the_user uid) (\<lambda>u.
       if \<not> verify_password k old_password (u_hashed_password u) then
         auth_error ''Current password is incorrect'' ''BAD_CREDENTIALS''
       else if validate_password_policy cfg new_password \<noteq> [] then
         fail ValidationAppError ''Password policy not met''
       else if old_password = new_password then
         fail ValidationAppError ''New password must differ from the current password''
       else
         bnd (lift_exn (hash_password cfg k (r_salt rnd) new_password)) (\<lambda>h.
         bnd (upd_user now uid (\<lambda>u. u\<lparr>u_hashed_password := h, u_must_change_password := False\<rparr>)) (\<lambda>_.
         bnd (db_mod (refresh_tokens_update (tbl_upd_where now (\<lambda>w. rt_user_id (rval w) = uid)
                (\<lambda>r. r\<lparr>rt_revoked_at := Some now\<rparr>)))) (\<lambda>_.
         commit))))"

section \<open>Users\<close>

definition new_user :: "string \<Rightarrow> string option \<Rightarrow> string \<Rightarrow> string \<Rightarrow> int \<Rightarrow> int option \<Rightarrow> user" where
  "new_user username email full_name hashed role_id created_by = \<lparr>
     u_username = username, u_email = email, u_full_name = full_name,
     u_hashed_password = hashed, u_role_id = role_id, u_is_active = True, u_is_locked = False,
     u_failed_login_attempts = 0, u_locked_until = None, u_mfa_enabled = False,
     u_mfa_secret_encrypted = None, u_must_change_password = True, u_last_login_at = None,
     u_last_login_ip = None, u_created_by = created_by, u_preferences = []\<rparr>"

text \<open>INSERT into \<open>users\<close>: the username and a non-null email are unique columns.\<close>

definition insert_user :: "datetime \<Rightarrow> user \<Rightarrow> int wop" where
  "insert_user now u =
     bnd (find_user (\<lambda>w. u_username (rval w) = u_username u \<or>
            (u_email u \<noteq> None \<and> u_email (rval w) = u_email u))) (\<lambda>dup.
       case dup of
         Some _ \<Rightarrow> fail IntegrityError ''users''
       | None \<Rightarrow>
           bnd (db_get (\<lambda>d. next_id (users d))) (\<lambda>i.
           bnd (db_mod (users_update (\<lambda>t. snd (tbl_add now u t)))) (\<lambda>_. ret i)))"

definition create_user ::
    "settings \<Rightarrow> crypto \<Rightarrow> datetime \<Rightarrow> randoms \<Rightarrow> string \<Rightarrow> string option \<Rightarrow> string \<Rightarrow> string \<Rightarrow> string
      \<Rightarrow> int option \<Rightarrow> int wop" where
  "create_user cfg k now rnd username email full_name password role_name created_by =
     bnd (find_user (\<lambda>w. u_username (rval w) = username)) (\<lambda>dup.
       if dup \<noteq> None then
         fail ConflictError (''Username '' @ [CHR 0x27] @ username @ [CHR 0x27] @ '' already exists'')
       else
         bnd (find_user (\<lambda>w. truthy email \<and> u_email (rval w) = email)) (\<lambda>dup2.
           if dup2 \<noteq> None then
             fail ConflictError (''Email '' @ [CHR 0x27] @ str_or email [] @ [CHR 0x27] @ '' already exists'')
           else
             bnd (db_get (\<lambda>d. tbl_first (\<lambda>w. ro_name (rval w) = role_name) (roles d))) (\<lambda>role.
               case role of
                 None \<Rightarrow> fail ValidationAppError (''Invalid role: '' @ role_name)
               | Some r \<Rightarrow>
                   if map_of ROLE_PERMISSIONS role_name = None then
                     fail ValidationAppError (''Invalid role: '' @ role_name)
                   else
                     bnd (lift_exn (hash_password cfg k (r_salt rnd) password)) (\<lambda>h.
                     bnd (insert_user now (new_user username email full_name h (rid r) created_by)) (\<lambda>i.
                     bnd commit (\<lambda>_. ret i))))))"

text \<open>The bootstrap administrator; a missing role makes the NOT NULL role column fail.  The
  race the source guards against is a concurrent session that commits the row first: the
  \<open>IntegrityError\<close> branch re-reads after a rollback.\<close>

definition get_or_create_bootstrap_admin ::
    "settings \<Rightarrow> crypto \<Rightarrow> datetime \<Rightarrow> randoms \<Rightarrow> int wop" where
  "get_or_create_bootstrap_admin cfg k now rnd =
     bnd (find_user (\<lambda>w. u_username (rval w) = ''admin'')) (\<lambda>admin.
       case admin of
         Some w \<Rightarrow> ret (rid w)
       | None \<Rightarrow>
           bnd (db_get (\<lambda>d. tbl_first (\<lambda>w. ro_name (rval w) = ''administrator'') (roles d))) (\<lambda>role.
           bnd (lift_exn (hash_password cfg k (r_salt rnd) (take 60 (r_token rnd)))) (\<lambda>h.
           bnd (catch_op
                  (case role of
                     None \<Rightarrow> fail IntegrityError ''users.role_id''
                   | Some r \<Rightarrow> bnd (insert_user now (new_user ''admin'' (Some (default_letsencrypt_email cfg))
                                 ''Platform Administrator'' h (rid r) None)) (\<lambda>i. ret (i, True)))
                  (\<lambda>e. if exc_of e = IntegrityError
                       then bnd rollback (\<lambda>_.
                            bnd (find_user (\<lambda>w. u_username (rval w) = ''admin'')) (\<lambda>ex.
                              case ex of None \<Rightarrow> throw e | Some w \<Rightarrow> ret (rid w, False)))
                       else throw e)) (\<lambda>(i, created).
           if created then bnd commit (\<lambda>_. ret i) else ret i))))"

section \<open>Request authentication\<close>

definition check_account :: "request \<Rightarrow> int option \<Rightarrow> int wop" where
  "check_account req uid =
     (case uid of
        None \<Rightarrow> auth_error ''Invalid or expired credentials'' ''BAD_TOKEN''
      | Some i \<Rightarrow>
          bnd (the_user i) (\<lambda>u.
            if \<not> u_is_active u then auth_error ''Account is disabled'' ''ACCOUNT_DISABLED''
            else if u_must_change_password u \<and>
                    \<not> list_ex (py_endswith (rq_path req))
                        [''/auth/me'', ''/auth/change-password'', ''/auth/logout''] then
              fail PermissionDeniedError ''Password change required before continuing''
            else ret i))"

text \<open>\<open>get_current_user\<close>; \<open>bearer\<close> is what \<^verbatim>\<open>HTTPBearer\<close> extracted from the Authorization
  header.  An exception other than \<open>AuthError\<close> leaves the user unresolved.\<close>

definition get_current_user ::
    "settings \<Rightarrow> crypto \<Rightarrow> datetime \<Rightarrow> request \<Rightarrow> string option \<Rightarrow> int wop" where
  "get_current_user cfg k now req bearer =
     (let x_jwt = rq_x_certmgr_token req;
          api_key = (if \<not> truthy bearer \<and> \<not> truthy x_jwt then rq_x_api_key req else None);
          jwt_token = (if truthy bearer then bearer else x_jwt) in
      if \<not> truthy jwt_token \<and> \<not> truthy api_key then auth_error ''Not authenticated'' ''NO_CREDENTIALS''
      else
        bnd (catch_op
               (if truthy jwt_token then
                  bnd (lift_exn (decode_token cfg k now (str_or jwt_token []) ''access'')) (\<lambda>p.
                  bnd (lift_exn (py_int (p_sub p))) (\<lambda>sub.
                  bnd (find_user (\<lambda>u. rid u = sub)) (\<lambda>u. ret (map_option rid u))))
                else authenticate_api_token k now (str_or api_key []))
               (\<lambda>e. if exc_of e = AuthError then throw e else ret None)) (\<lambda>uid.
          check_account req uid))"

definition check_permissions :: "string list \<Rightarrow> int \<Rightarrow> int wop" where
  "check_permissions perms uid =
     bnd (the_user uid) (\<lambda>u.
     bnd (db_get (\<lambda>d. tbl_get (u_role_id u) (roles d))) (\<lambda>ro.
       case ro of
         None \<Rightarrow> fail AttributeError ''role''
       | Some r \<Rightarrow> bnd (lift_exn (require_permissions perms (ro_permissions r))) (\<lambda>_. ret uid)))"

section \<open>Endpoints\<close>

record login_request =
  lq_username :: string
  lq_password :: string
  lq_mfa_code :: "string option"

record login_response =
  lr_tokens :: token_pair
  lr_user_id :: int
  lr_must_change_password :: bool
  lr_csrf_token :: string

definition login ::
    "settings \<Rightarrow> crypto \<Rightarrow> (string \<Rightarrow> string) \<Rightarrow> datetime \<Rightarrow> randoms \<Rightarrow> request \<Rightarrow> login_request
      \<Rightarrow> login_response wop" where
  "login cfg k rd now rnd req body =
     (let ip = Some (get_client_ip cfg req);
          ua = Some (rq_user_agent req);
          base = (audit_defaults ''auth.login'')\<lparr>aa_ip_address := ip, aa_user_agent := ua\<rparr> in
      catch_op
        (bnd (authenticate cfg k now rnd (py_strip (lq_username body)) (lq_password body)) (\<lambda>uid.
         bnd (the_user uid) (\<lambda>u.
         bnd (if u_mfa_enabled u then lift_exn (verify_mfa k now u (str_or (lq_mfa_code body) []))
              else ret True) (\<lambda>mfa_ok.
           if \<not> mfa_ok then
             bnd (record_audit rd now (base\<lparr>aa_user_id := Some uid, aa_username := Some (u_username u),
                    aa_result := AuditResult.FAILURE, aa_details := [(''reason'', JStr ''mfa_failed'')]\<rparr>))
               (\<lambda>_. auth_error ''MFA verification failed'' ''MFA_FAILED'')
           else
             bnd (issue_tokens cfg k now rnd uid ip ua) (\<lambda>tokens.
             bnd (record_audit rd now (base\<lparr>aa_user_id := Some uid, aa_username := Some (u_username u)\<rparr>)) (\<lambda>_.
             bnd (role_claims uid) (\<lambda>_.
             ret \<lparr>lr_tokens = tokens, lr_user_id = uid,
                  lr_must_change_password = u_must_change_password u,
                  lr_csrf_token = (if rq_csrf_cookie req = [] then r_csrf rnd
                                   else rq_csrf_cookie req)\<rparr>)))))))
        (\<lambda>e. if exc_of e = AuthError
             then bnd (record_audit rd now (base\<lparr>aa_username := Some (py_strip (lq_username body)),
                         aa_result := AuditResult.FAILURE\<rparr>)) (\<lambda>_. throw e)
             else throw e))"

definition logout ::
    "settings \<Rightarrow> crypto \<Rightarrow> (string \<Rightarrow> string) \<Rightarrow> datetime \<Rightarrow> request \<Rightarrow> int \<Rightarrow> string \<Rightarrow> unit wop" where
  "logout cfg k rd now req uid token =
     bnd (revoke_refresh_token k now token) (\<lambda>_.
     bnd (the_user uid) (\<lambda>u.
       record_audit rd now ((audit_defaults ''auth.logout'')\<lparr>aa_user_id := Some uid,
         aa_username := Some (u_username u), aa_ip_address := Some (get_client_ip cfg req),
         aa_user_agent := Some (rq_user_agent req)\<rparr>)))"

definition create_token_endpoint ::
    "settings \<Rightarrow> crypto \<Rightarrow> (string \<Rightarrow> string) \<Rightarrow> datetime \<Rightarrow> randoms \<Rightarrow> request \<Rightarrow> int \<Rightarrow> string
      \<Rightarrow> string list \<Rightarrow> int option \<Rightarrow> string wop" where
  "create_token_endpoint cfg k rd now rnd req uid name scopes expires_in_days =
     (let expires = (case expires_in_days of None \<Rightarrow> None
                     | Some n \<Rightarrow> if n = 0 then None else Some (now + n * us_per_day)) in
      bnd (create_api_token k now rnd uid name scopes expires) (\<lambda>tok.
      bnd (the_user uid) (\<lambda>u.
      bnd (record_audit rd now ((audit_defaults ''auth.token.create'')\<lparr>aa_user_id := Some uid,
             aa_username := Some (u_username u), aa_ip_address := Some (get_client_ip cfg req),
             aa_user_agent := Some (rq_user_agent req), aa_details := [(''name'', JStr name)]\<rparr>)) (\<lambda>_.
      ret tok))))"

definition revoke_token ::
    "settings \<Rightarrow> (string \<Rightarrow> string) \<Rightarrow> datetime \<Rightarrow> request \<Rightarrow> int \<Rightarrow> int \<Rightarrow> unit wop" where
  "revoke_token cfg rd now req uid token_id =
     bnd (db_get (\<lambda>d. tbl_first (\<lambda>w. rid w = token_id \<and> at_user_id (rval w) = uid) (api_tokens d))) (\<lambda>row.
     bnd (case row of
            None \<Rightarrow> ret ()
          | Some w \<Rightarrow> bnd (db_mod (api_tokens_update (tbl_upd now (rid w) (\<lambda>a. a\<lparr>at_revoked_at := Some now\<rparr>))))
              (\<lambda>_. commit)) (\<lambda>_.
     bnd (the_user uid) (\<lambda>u.
       record_audit rd now ((audit_defaults ''auth.token.revoke'')\<lparr>aa_user_id := Some uid,
         aa_username := Some (u_username u), aa_ip_address := Some (get_client_ip cfg req),
         aa_user_agent := Some (rq_user_agent req),
         aa_details := [(''token_id'', JInt token_id)]\<rparr>))))"

section \<open>The user table invariant\<close>

text \<open>The failure counter stays below the limit, a locked user has an end of the lock, and
  usernames are unique.\<close>

definition user_ok :: "settings \<Rightarrow> user \<Rightarrow> bool" where
  "user_ok cfg u \<longleftrightarrow>
     0 \<le> u_failed_login_attempts u \<and>
     (u_failed_login_attempts u = 0 \<or> u_failed_login_attempts u < max_login_attempts cfg) \<and>
     (u_is_locked u \<longrightarrow> u_locked_until u \<noteq> None)"

definition auth_inv :: "settings \<Rightarrow> db \<Rightarrow> bool" where
  "auth_inv cfg d \<longleftrightarrow>
     wf_table (users d) \<and> (\<forall>w \<in> set (rows (users d)). user_ok cfg (rval w)) \<and>
     distinct (map (u_username \<circ> rval) (rows (users d)))"

lemma user_ok_failed: "user_ok cfg u \<Longrightarrow> user_ok cfg (failed_attempt cfg now u)"
  by (auto simp: user_ok_def failed_attempt_def Let_def)

lemma user_ok_success: "user_ok cfg (successful_login now u)"
  by (simp add: user_ok_def successful_login_def)

lemma auth_inv_upd:
  assumes "auth_inv cfg d" "\<And>u. user_ok cfg u \<Longrightarrow> user_ok cfg (f u)" "\<And>u. u_username (f u) = u_username u"
  shows "auth_inv cfg (users_update (tbl_upd now i f) d)"
proof -
  have "map (u_username \<circ> rval) (rows (tbl_upd now i f (users d))) = map (u_username \<circ> rval) (rows (users d))"
    using assms(3) by (auto simp: tbl_upd_def rows_upd_where)
  then show ?thesis
    using assms by (auto simp: auth_inv_def tbl_upd_def set_rows_upd_where)
qed

lemma keeps_upd_user:
  "(\<And>u. user_ok cfg u \<Longrightarrow> user_ok cfg (f u)) \<Longrightarrow> (\<And>u. u_username (f u) = u_username u) \<Longrightarrow>
   keeps (winv (auth_inv cfg)) (upd_user now i f)"
  unfolding upd_user_def by (intro keeps_db_mod auth_inv_upd) auto

lemma keeps_other_table:
  "(\<And>d. users (f d) = users d) \<Longrightarrow> keeps (winv (auth_inv cfg)) (db_mod f)"
  by (rule keeps_db_mod) (simp add: auth_inv_def)

lemma keeps_find_user [keeps_rules]: "keeps J (find_user p)"
  by (simp add: find_user_def keeps_rules)

lemma keeps_the_user [keeps_rules]: "keeps J (the_user i)"
  by (auto simp: the_user_def intro!: keeps_rules)

lemma keeps_role_claims [keeps_rules]: "keeps J (role_claims i)"
  by (auto simp: role_claims_def intro!: keeps_rules)

lemma keeps_record_audit [keeps_rules]: "keeps (winv (auth_inv cfg)) (record_audit rd now a)"
  unfolding record_audit_def by (rule keeps_other_table) simp

lemma insert_user_inv: "keeps (winv (auth_inv cfg)) (insert_user now (new_user n e f h r c))"
proof (rule keepsI)
  fix w :: world
  assume I: "winv (auth_inv cfg) w"
  let ?u = "new_user n e f h r c"
  let ?dup = "tbl_first (\<lambda>w. u_username (rval w) = u_username ?u \<or>
            (u_email ?u \<noteq> None \<and> u_email (rval w) = u_email ?u)) (users (work w))"
  show "winv (auth_inv cfg) (snd (insert_user now ?u w))"
  proof (cases ?dup)
    case None
    then have "u_username ?u \<notin> (u_username \<circ> rval) ` set (rows (users (work w)))"
      by (auto simp: tbl_first_None)
    moreover have "user_ok cfg ?u" by (simp add: user_ok_def new_user_def)
    ultimately show ?thesis
      using I None
      by (auto simp: insert_user_def find_user_def op_simps winv_def auth_inv_def rows_add)
  next
    case (Some x)
    then show ?thesis using I by (simp add: insert_user_def find_user_def op_simps)
  qed
qed

text \<open>Every operation of the component preserves the invariant, on success and on failure.\<close>

lemma authenticate_inv [keeps_rules]: "keeps (winv (auth_inv cfg)) (authenticate cfg k now rnd n p)"
  unfolding authenticate_def
  by (auto intro!: keeps_rules keeps_upd_user user_ok_failed user_ok_success
      simp: failed_attempt_def successful_login_def Let_def)

lemma add_refresh_token_inv [keeps_rules]: "keeps (winv (auth_inv cfg)) (add_refresh_token now r)"
  unfolding add_refresh_token_def by (auto intro!: keeps_rules keeps_other_table)

lemma issue_tokens_inv [keeps_rules]: "keeps (winv (auth_inv cfg)) (issue_tokens cfg k now rnd i ip ua)"
  unfolding issue_tokens_def by (auto intro!: keeps_rules)

lemma keeps_find_refresh [keeps_rules]: "keeps J (find_refresh k t)"
  by (simp add: find_refresh_def keeps_rules)

lemma refresh_access_token_inv [keeps_rules]: "keeps J (refresh_access_token cfg k now rnd t)"
  unfolding refresh_access_token_def by (auto intro!: keeps_rules)

lemma revoke_refresh_token_inv [keeps_rules]: "keeps (winv (auth_inv cfg)) (revoke_refresh_token k now t)"
  unfolding revoke_refresh_token_def by (auto intro!: keeps_rules keeps_other_table)

lemma create_api_token_inv [keeps_rules]:
  "keeps (winv (auth_inv cfg)) (create_api_token k now rnd i n sc ex)"
  unfolding create_api_token_def by (auto intro!: keeps_rules keeps_other_table simp: Let_def)

lemma authenticate_api_token_inv [keeps_rules]:
  "keeps (winv (auth_inv cfg)) (authenticate_api_token k now t)"
  unfolding authenticate_api_token_def by (auto intro!: keeps_rules keeps_other_table)

lemma mfa_inv [keeps_rules]:
  "keeps (winv (auth_inv cfg)) (setup_mfa k now rnd i sec)"
  "keeps (winv (auth_inv cfg)) (enable_mfa k now i code)"
  "keeps (winv (auth_inv cfg)) (disable_mfa k now i p)"
  unfolding setup_mfa_def enable_mfa_def disable_mfa_def
  by (auto intro!: keeps_rules keeps_upd_user simp: user_ok_def)

lemma change_password_inv [keeps_rules]:
  "keeps (winv (auth_inv cfg)) (change_password cfg k now rnd i old new)"
  unfolding change_password_def
  by (auto intro!: keeps_rules keeps_upd_user keeps_other_table simp: user_ok_def)

lemma create_user_inv [keeps_rules]:
  "keeps (winv (auth_inv cfg)) (create_user cfg k now rnd n e f p r c)"
  unfolding create_user_def by (auto intro!: keeps_rules insert_user_inv)

lemma bootstrap_inv [keeps_rules]:
  "keeps (winv (auth_inv cfg)) (get_or_create_bootstrap_admin cfg k now rnd)"
  unfolding get_or_create_bootstrap_admin_def by (auto intro!: keeps_rules insert_user_inv)

lemma get_current_user_inv [keeps_rules]:
  "keeps (winv (auth_inv cfg)) (get_current_user cfg k now req b)"
  unfolding get_current_user_def check_account_def by (auto intro!: keeps_rules simp: Let_def)

lemma login_inv [keeps_rules]: "keeps (winv (auth_inv cfg)) (login cfg k rd now rnd req body)"
  unfolding login_def by (auto intro!: keeps_rules simp: Let_def)

lemma token_endpoints_inv [keeps_rules]:
  "keeps (winv (auth_inv cfg)) (logout cfg k rd now req i t)"
  "keeps (winv (auth_inv cfg)) (create_token_endpoint cfg k rd now rnd req i n sc ex)"
  "keeps (winv (auth_inv cfg)) (revoke_token cfg rd now req i tid)"
  unfolding logout_def create_token_endpoint_def revoke_token_def
  by (auto intro!: keeps_rules keeps_other_table simp: Let_def)

section \<open>Lockout\<close>

lemma authenticate_locked:
  assumes "tbl_first (\<lambda>w. u_username (rval w) = n) (users (work s)) = Some w"
    and "u_is_active (rval w)" "is_locked_now now (rval w)"
  shows "\<exists>m. authenticate cfg k now rnd n p s = (Inl (Exn AuthError m (Some ''ACCOUNT_LOCKED'')), s)"
  using assms by (auto simp: authenticate_def find_user_def op_simps)

text \<open>One wrong password for an active, unlocked user.\<close>

lemma authenticate_wrong:
  assumes "tbl_first (\<lambda>w. u_username (rval w) = n) (users (work s)) = Some w"
    and "u_is_active (rval w)" "\<not> is_locked_now now (rval w)"
    and "\<not> verify_password k p (u_hashed_password (rval w))"
  shows "authenticate cfg k now rnd n p s =
    (Inl (Exn AuthError ''Invalid username or password'' (Some ''BAD_CREDENTIALS'')),
     s\<lparr>work := users_update (tbl_upd now (rid w) (failed_attempt cfg now)) (work s),
       committed := users_update (tbl_upd now (rid w) (failed_attempt cfg now)) (work s)\<rparr>)"
  using assms by (simp add: authenticate_def find_user_def upd_user_def op_simps)

lemma authenticate_right:
  assumes "tbl_first (\<lambda>w. u_username (rval w) = n) (users (work s)) = Some w"
    and "u_is_active (rval w)" "\<not> is_locked_now now (rval w)"
    and "verify_password k p (u_hashed_password (rval w))"
  shows "authenticate cfg k now rnd n p s =
    (Inr (rid w),
     s\<lparr>work := users_update (tbl_upd now (rid w) (successful_login now)) (work s),
       committed := users_update (tbl_upd now (rid w) (successful_login now)) (work s)\<rparr>)"
  using assms by (simp add: authenticate_def find_user_def upd_user_def op_simps)

text \<open>A series of login attempts against one name, each at its own time.\<close>

fun login_series ::
    "settings \<Rightarrow> crypto \<Rightarrow> string \<Rightarrow> (datetime \<times> randoms \<times> string) list \<Rightarrow> world \<Rightarrow> world" where
  "login_series cfg k n [] s = s"
| "login_series cfg k n ((t, rnd, p) # xs) s =
     login_series cfg k n xs (snd (authenticate cfg k t rnd n p s))"

text \<open>The user of a name, as \<open>authenticate\<close> finds it.\<close>

definition user_named :: "string \<Rightarrow> db \<Rightarrow> user option" where
  "user_named n d = map_option rval (tbl_first (\<lambda>w. u_username (rval w) = n) (users d))"

lemma tbl_first_upd_name:
  assumes "tbl_first (\<lambda>w. u_username (rval w) = n) t = Some w" "\<And>u. u_username (f u) = u_username u"
  shows "tbl_first (\<lambda>w. u_username (rval w) = n) (tbl_upd now (rid w) f t) = Some (touch now f w)"
  using assms by (simp add: tbl_upd_def tbl_first_upd_where)

lemma failed_attempt_name: "u_username (failed_attempt cfg now u) = u_username u"
  by (simp add: failed_attempt_def Let_def)

lemma login_series_count:
  assumes "tbl_first (\<lambda>w. u_username (rval w) = n) (users (work s)) = Some w" "rval w = u"
    and "u_is_active u" "\<not> u_is_locked u" "0 \<le> u_failed_login_attempts u"
    and "list_all (\<lambda>(t, rnd, p). \<not> verify_password k p (u_hashed_password u)) xs"
    and "u_failed_login_attempts u + int (length xs) < max_login_attempts cfg"
  shows "\<exists>w'. tbl_first (\<lambda>w. u_username (rval w) = n) (users (work (login_series cfg k n xs s))) = Some w'
    \<and> rval w' = u\<lparr>u_failed_login_attempts := u_failed_login_attempts u + int (length xs)\<rparr>"
  using assms
proof (induction xs arbitrary: s w u)
  case (Cons x xs)
  obtain t rnd p where x: "x = (t, rnd, p)" by (cases x)
  let ?u = "u\<lparr>u_failed_login_attempts := u_failed_login_attempts u + 1\<rparr>"
  have f: "failed_attempt cfg t u = ?u" using Cons.prems by (simp add: failed_attempt_def Let_def)
  let ?s = "snd (authenticate cfg k t rnd n p s)"
  have "tbl_first (\<lambda>w. u_username (rval w) = n) (users (work ?s)) = Some (touch t (failed_attempt cfg t) w)"
    using Cons.prems x
    by (subst authenticate_wrong)
      (auto simp: is_locked_now_def tbl_first_upd_name failed_attempt_name)
  then have "\<exists>w'. tbl_first (\<lambda>w. u_username (rval w) = n) (users (work (login_series cfg k n xs ?s))) = Some w'
      \<and> rval w' = ?u\<lparr>u_failed_login_attempts := u_failed_login_attempts ?u + int (length xs)\<rparr>"
    by (rule Cons.IH) (use Cons.prems f in auto)
  then show ?case using x by (simp add: add.assoc)
qed simp

section \<open>Audit trail of logins\<close>

text \<open>No operation before the final record touches the audit log.\<close>

definition audit_is :: "audit_log table \<Rightarrow> db \<Rightarrow> bool" where
  "audit_is A d \<longleftrightarrow> audit_logs d = A"

lemma keeps_audit_is: "(\<And>d. audit_logs (f d) = audit_logs d) \<Longrightarrow> keeps (winv (audit_is A)) (db_mod f)"
  by (rule keeps_db_mod) (simp add: audit_is_def)

lemma authenticate_audit [keeps_rules]: "keeps (winv (audit_is A)) (authenticate cfg k now rnd n p)"
  unfolding authenticate_def upd_user_def by (auto intro!: keeps_rules keeps_audit_is)

lemma issue_tokens_audit [keeps_rules]: "keeps (winv (audit_is A)) (issue_tokens cfg k now rnd i ip ua)"
  unfolding issue_tokens_def add_refresh_token_def by (auto intro!: keeps_rules keeps_audit_is)

lemma wp_the_user [wp_simps]:
  "wp (the_user i) Q E s = (case tbl_get i (users (work s)) of
     None \<Rightarrow> E (Exn AttributeError ''user'' None) s | Some u \<Rightarrow> Q u s)"
  by (simp add: the_user_def wp_simps split: option.splits)

lemma wp_record_audit [wp_simps]:
  "wp (record_audit rd now a) Q E s =
     Q () (s\<lparr>work := audit_logs_update (\<lambda>t. snd (tbl_add now (audit_row rd a) t)) (work s)\<rparr>)"
  by (simp add: record_audit_def wp_simps)

text \<open>A login that raises leaves the committed audit log as it was; one that returns has
  flushed one more entry.\<close>

lemma wp_role_claims:
  "(\<And>x. Q x s) \<Longrightarrow> (\<And>e. exc_of e \<noteq> AuthError \<Longrightarrow> E e s) \<Longrightarrow> wp (role_claims i) Q E s"
  by (auto simp: role_claims_def wp_simps enum_of_def split: option.splits sum.splits)

definition login_entry :: "settings \<Rightarrow> request \<Rightarrow> int \<Rightarrow> string \<Rightarrow> audit_args" where
  "login_entry cfg req uid name = (audit_defaults ''auth.login'')\<lparr>
     aa_ip_address := Some (get_client_ip cfg req), aa_user_agent := Some (rq_user_agent req),
     aa_user_id := Some uid, aa_username := Some name\<rparr>"

lemma login_audit_wp:
  assumes "winv (audit_is A) w"
  shows "wp (login cfg k rd now rnd req body)
    (\<lambda>r s. audit_logs (committed s) = A \<and> (\<exists>n. audit_logs (work s) =
        snd (tbl_add now (audit_row rd (login_entry cfg req (lr_user_id r) n)) A)))
    (\<lambda>e s. audit_logs (committed s) = A) w"
    (is "wp _ ?Q ?E w")
proof -
  have h: "wp (if exc_of e = AuthError then bnd (record_audit rd now a) (\<lambda>_. throw e) else throw e) ?Q ?E t
      \<longleftrightarrow> audit_logs (committed t) = A" for e a t
    by (simp add: wp_simps)
  have c: "winv (audit_is A) t \<Longrightarrow> audit_logs (committed t) = A \<and> audit_logs (work t) = A" for t
    by (simp add: winv_def audit_is_def)
  show ?thesis
    unfolding login_def Let_def wp_catch wp_bnd h
    by (rule wp_keeps [OF authenticate_audit assms])
      (auto simp: wp_simps c login_entry_def intro!: wp_keeps [OF issue_tokens_audit]
        wp_role_claims exI [where P = "\<lambda>n. snd (tbl_add _ _ _) = snd (tbl_add _ (_ n) _)", OF refl]
        split: option.splits sum.splits)
qed

section \<open>Refresh and access tokens\<close>

text \<open>A refused refresh: the row of the token is revoked.\<close>

lemma refresh_revoked:
  assumes "\<And>w. tbl_first (\<lambda>w. rt_token_hash (rval w) = sha256_hex k t) (refresh_tokens (work s)) = Some w
      \<Longrightarrow> rt_revoked_at (rval w) \<noteq> None"
  shows "\<exists>e. refresh_access_token cfg k now rnd t s = (Inl e, s) \<and> exc_of e = AuthError"
proof (cases "decode_token cfg k now t ''refresh''")
  case (Inl e)
  then have "exc_of e = AuthError"
    by (auto simp: decode_token_def split: sum.splits jwt_error.splits if_splits)
  with Inl show ?thesis by (simp add: refresh_access_token_def op_simps)
next
  case (Inr p)
  then show ?thesis
    using assms
    by (cases "tbl_first (\<lambda>w. rt_token_hash (rval w) = sha256_hex k t) (refresh_tokens (work s))")
      (auto simp: refresh_access_token_def find_refresh_def op_simps)
qed

lemma change_password_state:
  assumes "change_password cfg k now rnd uid old new s = (Inr (), s')"
  shows "committed s' = work s'"
    and "refresh_tokens (work s') = tbl_upd_where now (\<lambda>w. rt_user_id (rval w) = uid)
           (\<lambda>r. r\<lparr>rt_revoked_at := Some now\<rparr>) (refresh_tokens (work s))"
    and "\<exists>u. tbl_get uid (users (work s)) = Some u \<and> verify_password k old (u_hashed_password u) \<and>
           tbl_get uid (users (work s')) = Some (u\<lparr>u_hashed_password := bcrypt_hashpw k (r_salt rnd) new,
             u_must_change_password := False\<rparr>)"
    and "validate_password_policy cfg new = []" and "old \<noteq> new"
  using assms
  by (auto simp: change_password_def the_user_def upd_user_def hash_password_def bnd_def op_simps
      validate_password_policy_def split: option.splits if_splits)

lemma role_claims_ok:
  assumes "tbl_get uid (users (work s)) = Some u" "tbl_get (u_role_id u) (roles (work s)) = Some r"
    and "ro_name r = RoleName_value rn"
  shows "role_claims uid s = (Inr (RoleName_value rn, ro_permissions r), s)"
  using assms
  by (simp add: role_claims_def the_user_def bnd_def op_simps rolename_enum.of_value)

lemma tbl_first_rid: "tbl_first (\<lambda>w. rid w = i) t = tbl_row i t"
  by (simp add: tbl_first_def tbl_row_def)

lemma issue_tokens_access:
  assumes "issue_tokens cfg k now rnd uid ip ua s = (Inr tp, s')"
  shows "users (work s') = users (work s) \<and> committed s' = work s' \<and>
    (\<exists>role perms. tp_access_token tp = create_access_token cfg k now (str_int uid) role perms (r_access_jti rnd))"
  using assms
  by (auto simp: issue_tokens_def role_claims_def the_user_def add_refresh_token_def bnd_def op_simps
      Let_def split: prod.splits sum.splits option.splits) blast

lemma access_token_resolves:
  assumes "jwt_correct k" "now' < now + access_token_expire_minutes cfg * us_per_minute"
    and "0 \<le> uid" "nat uid < 10 ^ int_max_str_digits"
    and "tok = create_access_token cfg k now (str_int uid) role perms jti" "tok \<noteq> []"
    and "tbl_get uid (users (work s)) = Some u" "u_is_active u" "\<not> u_must_change_password u"
  shows "get_current_user cfg k now' req (Some tok) s = (Inr uid, s)"
proof -
  have d: "decode_token cfg k now' tok ''access'' = Inr (Payload (str_int uid) ''access'' now
      (now + access_token_expire_minutes cfg * us_per_minute) (jwt_issuer cfg) jti role perms)"
    using assms(1,2,5) by (simp add: create_access_token_def token_decode)
  obtain w where w: "tbl_row uid (users (work s)) = Some w" "rval w = u" "rid w = uid"
    using assms(7) tbl_row_rid [of uid "users (work s)"] by (auto simp: tbl_get_def)
  show ?thesis
    using d w assms(6-9) py_int_str_int [OF assms(3,4)]
    by (simp add: get_current_user_def check_account_def find_user_def the_user_def catch_op_def bnd_def op_simps
        tbl_first_rid truthy_def str_or_def Let_def)
qed

section \<open>Properties\<close>

text \<open>C16: the invariant of the user table (failure counters below the limit, locked accounts
  with an end of lock, unique usernames, well-formed identifiers) is preserved, in the
  committed state as in the session, by every operation of the service and its endpoints,
  whether they return or raise.\<close>

theorem auth_operations_preserve:
  "keeps (winv (auth_inv cfg)) (authenticate cfg k now rnd name pw) \<and>
   keeps (winv (auth_inv cfg)) (issue_tokens cfg k now rnd uid ip ua) \<and>
   keeps (winv (auth_inv cfg)) (refresh_access_token cfg k now rnd tok) \<and>
   keeps (winv (auth_inv cfg)) (revoke_refresh_token k now tok) \<and>
   keeps (winv (auth_inv cfg)) (create_api_token k now rnd uid name scopes ex) \<and>
   keeps (winv (auth_inv cfg)) (authenticate_api_token k now tok) \<and>
   keeps (winv (auth_inv cfg)) (setup_mfa k now rnd uid secret) \<and>
   keeps (winv (auth_inv cfg)) (enable_mfa k now uid code) \<and>
   keeps (winv (auth_inv cfg)) (disable_mfa k now uid pw) \<and>
   keeps (winv (auth_inv cfg)) (change_password cfg k now rnd uid old new) \<and>
   keeps (winv (auth_inv cfg)) (create_user cfg k now rnd name email full pw role by) \<and>
   keeps (winv (auth_inv cfg)) (get_or_create_bootstrap_admin cfg k now rnd) \<and>
   keeps (winv (auth_inv cfg)) (in_session (login cfg k rd now rnd req body))"
  by (intro conjI keeps_rules keeps_in_session)

text \<open>while an account is locked, every login attempt for it is refused with the
  \<open>ACCOUNT_LOCKED\<close> code and changes nothing, whatever password is presented.\<close>

theorem locked_account_rejected:
  assumes "user_named n (work s) = Some u" "u_is_active u" "u_is_locked u"
    "u_locked_until u = Some t" "now < t"
  shows "\<exists>m. authenticate cfg k now rnd n pw s = (Inl (Exn AuthError m (Some ''ACCOUNT_LOCKED'')), s)"
proof -
  obtain w where w: "tbl_first (\<lambda>w. u_username (rval w) = n) (users (work s)) = Some w" "rval w = u"
    using assms(1) by (auto simp: user_named_def)
  then show ?thesis using authenticate_locked [OF w(1)] assms by (simp add: is_locked_now_def)
qed

text \<open>C24: starting from a clean counter, fewer wrong passwords in a row than the limit leave
  an active account unlocked with the number of failures counted, and the attempt that
  reaches the limit locks it for the lockout period and resets the counter; both outcomes are
  committed.\<close>

theorem lockout_after_failures:
  assumes "user_named n (work s) = Some u" "u_is_active u" "\<not> u_is_locked u"
    and "u_failed_login_attempts u = 0"
    and "list_all (\<lambda>(t, rnd, p). \<not> verify_password k p (u_hashed_password u)) xs"
    and "\<not> verify_password k p (u_hashed_password u)"
    and "int (length xs) + 1 = max_login_attempts cfg"
  shows "user_named n (work (login_series cfg k n xs s)) = Some (u\<lparr>u_failed_login_attempts := int (length xs)\<rparr>)
    \<and> user_named n (committed (login_series cfg k n (xs @ [(t, rnd, p)]) s)) =
      Some (u\<lparr>u_is_locked := True, u_locked_until := Some (t + lockout_minutes cfg * us_per_minute),
              u_failed_login_attempts := 0\<rparr>)"
proof -
  obtain w where w: "tbl_first (\<lambda>w. u_username (rval w) = n) (users (work s)) = Some w" "rval w = u"
    using assms(1) by (auto simp: user_named_def)
  obtain w' where w': "tbl_first (\<lambda>w. u_username (rval w) = n) (users (work (login_series cfg k n xs s))) = Some w'"
      "rval w' = u\<lparr>u_failed_login_attempts := int (length xs)\<rparr>"
    using login_series_count [OF w assms(2,3) _ assms(5), of cfg] assms(4,7) by auto
  then have "user_named n (work (login_series cfg k n xs s)) = Some (u\<lparr>u_failed_login_attempts := int (length xs)\<rparr>)"
    by (simp add: user_named_def)
  moreover have app: "login_series cfg k n (xs @ ys) s0 = login_series cfg k n ys (login_series cfg k n xs s0)" for ys s0
    by (induction xs arbitrary: s0) auto
  moreover have "failed_attempt cfg t (rval w') = u\<lparr>u_is_locked := True,
      u_locked_until := Some (t + lockout_minutes cfg * us_per_minute), u_failed_login_attempts := 0\<rparr>"
    using w' assms(7) by (simp add: failed_attempt_def)
  ultimately show ?thesis
    using w' assms(2,3,6)
    by (simp add: app authenticate_wrong [OF w'(1)] is_locked_now_def user_named_def
        tbl_first_upd_name [OF w'(1)] failed_attempt_name)
qed

text \<open>a failed login leaves no trace in the audit log.  The endpoint records the failure and
  re-raises, and the rollback of the request's session discards the record; only a successful
  login commits its entry.\<close>

theorem login_failure_unaudited:
  assumes "audit_logs (work w) = audit_logs (committed w)"
  shows "case in_session (login cfg k rd now rnd req body) w of
      (Inl e, w') \<Rightarrow> audit_logs (committed w') = audit_logs (committed w)
    | (Inr r, w') \<Rightarrow> \<exists>n. audit_logs (committed w') =
        snd (tbl_add now (audit_row rd (login_entry cfg req (lr_user_id r) n)) (audit_logs (committed w)))"
proof -
  have "winv (audit_is (audit_logs (committed w))) w" using assms by (simp add: winv_def audit_is_def)
  from login_audit_wp [OF this, of cfg k rd now rnd req body] show ?thesis
    by (auto simp: in_session_def wp_def split: prod.splits sum.splits)
qed

text \<open>C25: after a successful password change every refresh token the user held is refused, at
  any later time, and the change is committed.\<close>

theorem change_password_kills_refresh:
  assumes "change_password cfg k now rnd uid old new s = (Inr (), s')"
    and "tbl_first (\<lambda>w. rt_token_hash (rval w) = sha256_hex k tok) (refresh_tokens (work s)) = Some w"
    and "rt_user_id (rval w) = uid"
  shows "committed s' = work s' \<and>
    (\<exists>e. refresh_access_token cfg k now' rnd' tok s' = (Inl e, s') \<and> exc_of e = AuthError)"
proof
  show "committed s' = work s'" by (rule change_password_state(1) [OF assms(1)])
  show "\<exists>e. refresh_access_token cfg k now' rnd' tok s' = (Inl e, s') \<and> exc_of e = AuthError"
  proof (rule refresh_revoked)
    fix w'
    assume "tbl_first (\<lambda>w. rt_token_hash (rval w) = sha256_hex k tok) (refresh_tokens (work s')) = Some w'"
    then obtain v where v: "tbl_first (\<lambda>w. rt_token_hash (rval w) = sha256_hex k tok) (refresh_tokens (work s)) = Some v"
        "w' = (if rt_user_id (rval v) = uid then touch now (\<lambda>r. r\<lparr>rt_revoked_at := Some now\<rparr>) v else v)"
      by (auto simp: change_password_state(2) [OF assms(1)] tbl_first_upd_where)
    then show "rt_revoked_at (rval w') \<noteq> None" using assms(2,3) by simp
  qed
qed

text \<open>the access token that a login issues identifies its user: until it expires,
  presenting it as a bearer token resolves to the same user, provided the account is active
  and needs no password change.\<close>

theorem issued_access_token_resolves:
  assumes "jwt_correct k" "issue_tokens cfg k now rnd uid ip ua s = (Inr tp, s')"
    and "now' < now + access_token_expire_minutes cfg * us_per_minute"
    and "0 \<le> uid" "nat uid < 10 ^ int_max_str_digits" "tp_access_token tp \<noteq> []"
    and "tbl_get uid (users (work s)) = Some u" "u_is_active u" "\<not> u_must_change_password u"
  shows "get_current_user cfg k now' req (Some (tp_access_token tp)) s' = (Inr uid, s')"
  using issue_tokens_access [OF assms(2)] access_token_resolves [OF assms(1,3-5) _ assms(6)] assms(7-9)
  by (metis (no_types, lifting))

text \<open>an API token authenticates a user exactly when a token row with its hash exists that
  is neither revoked nor expired and whose user is active; otherwise nothing changes.\<close>

theorem api_token_authenticates_iff:
  assumes "wf_table (users (work s))"
  shows "(\<exists>s'. authenticate_api_token k now tok s = (Inr (Some uid), s')) \<longleftrightarrow>
    (\<exists>w u. tbl_first (\<lambda>w. at_token_hash (rval w) = hash_api_token k tok) (api_tokens (work s)) = Some w \<and>
       api_token_usable now (rval w) \<and> at_user_id (rval w) = uid \<and>
       tbl_get uid (users (work s)) = Some u \<and> u_is_active u)"
proof -
  have key: "(\<exists>v. tbl_first (\<lambda>u. rid u = i \<and> u_is_active (rval u)) (users (work s)) = Some v \<and> rid v = uid) \<longleftrightarrow>
      i = uid \<and> (\<exists>u. tbl_get uid (users (work s)) = Some u \<and> u_is_active u)"
    (is "?L \<longleftrightarrow> ?R") for i
  proof
    assume ?L
    then obtain v where v: "rid v = i" "u_is_active (rval v)" "v \<in> set (rows (users (work s)))" "rid v = uid"
      using tbl_first_Some by blast
    then show ?R using tbl_row_in [OF assms v(3)] by (simp add: tbl_get_def)
  next
    assume R: ?R
    then obtain v where v: "tbl_row uid (users (work s)) = Some v" "u_is_active (rval v)" "i = uid"
      by (auto simp: tbl_get_def)
    then have "v \<in> set (rows (users (work s)))" "rid v = uid" using tbl_row_rid by blast+
    then have "tbl_first (\<lambda>u. rid u = i \<and> u_is_active (rval u)) (users (work s)) \<noteq> None"
      using v by (auto simp: tbl_first_None)
    then show ?L using v tbl_first_Some by fastforce
  qed
  show ?thesis
  proof (cases "tbl_first (\<lambda>w. at_token_hash (rval w) = hash_api_token k tok) (api_tokens (work s))")
    case None
    then show ?thesis by (simp add: authenticate_api_token_def op_simps)
  next
    case (Some w)
    then have "(\<exists>s'. authenticate_api_token k now tok s = (Inr (Some uid), s')) \<longleftrightarrow>
        api_token_usable now (rval w) \<and>
        (\<exists>v. tbl_first (\<lambda>u. rid u = at_user_id (rval w) \<and> u_is_active (rval u)) (users (work s)) = Some v
           \<and> rid v = uid)"
      by (auto simp: authenticate_api_token_def find_user_def op_simps split: option.splits)
    then show ?thesis unfolding key using Some by auto
  qed
qed

text \<open>a request is attributed to a user only if the account is active and, while a password
  change is pending, only on the three endpoints left open for it.\<close>

theorem current_user_gated:
  assumes "get_current_user cfg k now req bearer s = (Inr uid, s')"
  shows "\<exists>u. tbl_get uid (users (work s')) = Some u \<and> u_is_active u \<and>
    (u_must_change_password u \<longrightarrow> list_ex (py_endswith (rq_path req))
       [''/auth/me'', ''/auth/change-password'', ''/auth/logout''])"
proof -
  have "\<exists>x t. check_account req x t = (Inr uid, s')"
    using assms by (auto simp: get_current_user_def Let_def bnd_Inr op_simps split: if_splits)
  then show ?thesis
    by (auto simp: check_account_def the_user_def bnd_def op_simps split: option.splits if_splits)
qed

section \<open>Witnesses\<close>

text \<open>A small database: the administrator role and one user of it, who holds a refresh token
  and an API token.\<close>

definition demo_user :: user where
  "demo_user = (new_user ''alice'' None ''Alice'' ''OldPassw0rd!'' 1 None)\<lparr>u_must_change_password := False\<rparr>"

definition demo_db :: db where
  "demo_db = empty_db\<lparr>
     roles := snd (tbl_add 0 \<lparr>ro_name = ''administrator'', ro_description = '''',
       ro_permissions = [''certificate:view'']\<rparr> empty_table),
     users := snd (tbl_add 0 demo_user empty_table),
     refresh_tokens := snd (tbl_add 0 \<lparr>rt_user_id = 1, rt_jti = ''j0'', rt_token_hash = ''t0'',
       rt_expires_at = 1000, rt_revoked_at = None, rt_user_agent = None, rt_ip_address = None\<rparr> empty_table),
     api_tokens := snd (tbl_add 0 \<lparr>at_user_id = 1, at_name = ''ci'', at_token_hash = ''tok'',
       at_prefix = ''cm_tok'', at_scopes = [], at_expires_at = None, at_last_used_at = None,
       at_revoked_at = None\<rparr> empty_table)\<rparr>"

definition demo_world :: world where
  "demo_world = open_session demo_db Map.empty"

definition demo_randoms :: randoms where
  "demo_randoms = \<lparr>r_salt = ''s'', r_dummy = ''abcdefgh'', r_access_jti = ''j1'', r_refresh_jti = ''j2'',
     r_token = ''tok'', r_csrf = ''c'', r_iv = ''v''\<rparr>"

definition demo_request :: request where
  "demo_request = \<lparr>rq_method = ''POST'', rq_path = ''/api/v1/certificates'', rq_authorization = '''',
     rq_x_certmgr_token = None, rq_x_api_key = Some ''tok'', rq_csrf_header = '''', rq_csrf_cookie = '''',
     rq_forwarded_for = None, rq_client_host = Some ''10.0.0.9'', rq_user_agent = ''curl/8''\<rparr>"

lemmas demo_defs = demo_user_def demo_db_def demo_world_def demo_randoms_def demo_request_def
  empty_db_def empty_table_def open_session_def new_user_def tbl_add_def

lemma locked_account_rejected_witness:
  "\<exists>s u. user_named ''alice'' (work s) = Some u \<and> u_is_locked u \<and>
     (\<exists>m. authenticate default_settings clear_crypto 5 demo_randoms ''alice'' ''OldPassw0rd!'' s =
        (Inl (Exn AuthError m (Some ''ACCOUNT_LOCKED'')), s))"
proof -
  let ?u = "demo_user\<lparr>u_is_locked := True, u_locked_until := Some 10\<rparr>"
  let ?s = "open_session (demo_db\<lparr>users := snd (tbl_add 0 ?u empty_table)\<rparr>) Map.empty"
  have u: "user_named ''alice'' (work ?s) = Some ?u"
    by (simp add: user_named_def tbl_first_def demo_defs)
  have "\<exists>m. authenticate default_settings clear_crypto 5 demo_randoms ''alice'' ''OldPassw0rd!'' ?s =
        (Inl (Exn AuthError m (Some ''ACCOUNT_LOCKED'')), ?s)"
    by (rule locked_account_rejected [OF u, where t = 10]) (simp_all add: demo_defs)
  then show ?thesis using u by (intro exI [of _ ?s] exI [of _ ?u]) simp
qed

lemma lockout_after_failures_witness:
  "user_named ''alice'' (committed (login_series (default_settings\<lparr>max_login_attempts := 2\<rparr>) clear_crypto
       ''alice'' ([(1, demo_randoms, ''guess1'')] @ [(2, demo_randoms, ''guess2'')]) demo_world)) =
     Some (demo_user\<lparr>u_is_locked := True, u_locked_until := Some (2 + 15 * us_per_minute),
       u_failed_login_attempts := 0\<rparr>)"
proof -
  have u: "user_named ''alice'' (work demo_world) = Some demo_user"
    by (simp add: user_named_def tbl_first_def demo_defs)
  show ?thesis
    using lockout_after_failures [OF u, where xs = "[(1, demo_randoms, ''guess1'')]" and k = clear_crypto
        and p = "''guess2''" and t = 2 and rnd = demo_randoms
        and cfg = "default_settings\<lparr>max_login_attempts := 2\<rparr>"]
    by (simp add: demo_user_def new_user_def verify_password_def clear_crypto_def default_settings_def)
qed

lemma login_failure_unaudited_witness:
  "case in_session (login default_settings clear_crypto (\<lambda>t. t) 5 demo_randoms demo_request
       \<lparr>lq_username = ''nobody'', lq_password = ''x'', lq_mfa_code = None\<rparr>) demo_world of
      (Inl e, w') \<Rightarrow> audit_logs (committed w') = audit_logs (committed demo_world)
    | (Inr r, w') \<Rightarrow> \<exists>n. audit_logs (committed w') =
        snd (tbl_add 5 (audit_row (\<lambda>t. t) (login_entry default_settings demo_request (lr_user_id r) n))
          (audit_logs (committed demo_world)))"
  by (rule login_failure_unaudited) (simp add: demo_world_def open_session_def)

lemma change_password_kills_refresh_witness:
  "\<exists>s'. change_password default_settings clear_crypto 5 demo_randoms 1 ''OldPassw0rd!'' ''NewPassw0rd!'' demo_world
       = (Inr (), s') \<and>
     (\<exists>e. refresh_access_token default_settings clear_crypto 6 demo_randoms ''t0'' s' = (Inl e, s') \<and>
        exc_of e = AuthError)"
proof -
  have pol: "validate_password_policy default_settings ''NewPassw0rd!'' = []" by code_simp
  have "\<exists>s'. change_password default_settings clear_crypto 5 demo_randoms 1 ''OldPassw0rd!''
      ''NewPassw0rd!'' demo_world = (Inr (), s')"
    by (simp add: change_password_def the_user_def upd_user_def bnd_def op_simps pol hash_password_def
        verify_password_def clear_crypto_def tbl_get_def tbl_row_def demo_defs)
      (simp add: default_settings_def)
  then obtain s' where s': "change_password default_settings clear_crypto 5 demo_randoms 1 ''OldPassw0rd!''
      ''NewPassw0rd!'' demo_world = (Inr (), s')" by blast
  obtain w where w: "tbl_first (\<lambda>w. rt_token_hash (rval w) = sha256_hex clear_crypto ''t0'')
      (refresh_tokens (work demo_world)) = Some w" "rt_user_id (rval w) = 1"
    by (simp add: tbl_first_def demo_defs clear_crypto_def)
  from change_password_kills_refresh [OF s' w] s' show ?thesis by blast
qed

lemma api_token_authenticates_witness:
  "\<exists>s'. authenticate_api_token clear_crypto 5 ''tok'' demo_world = (Inr (Some 1), s')"
  by (subst api_token_authenticates_iff)
    (simp_all add: demo_defs wf_table_def ids_def tbl_first_def tbl_get_def tbl_row_def
      hash_api_token_def clear_crypto_def api_token_usable_def)

lemma current_user_gated_witness:
  "\<exists>s'. get_current_user default_settings clear_crypto 5 demo_request None demo_world = (Inr 1, s') \<and>
     (\<exists>u. tbl_get 1 (users (work s')) = Some u \<and> u_is_active u)"
proof -
  obtain s' where s': "get_current_user default_settings clear_crypto 5 demo_request None demo_world = (Inr 1, s')"
    by (simp add: get_current_user_def check_account_def authenticate_api_token_def find_user_def
        the_user_def catch_op_def bnd_def op_simps truthy_def str_or_def api_token_usable_def
        hash_api_token_def clear_crypto_def tbl_first_def tbl_get_def tbl_row_def demo_defs)
  from current_user_gated [OF s'] s' show ?thesis by blast
qed

lemma issued_access_token_resolves_witness:
  "\<exists>tp s'. issue_tokens default_settings clear_crypto 5 demo_randoms 1 None None demo_world = (Inr tp, s') \<and>
     get_current_user default_settings clear_crypto 6 demo_request (Some (tp_access_token tp)) s' = (Inr 1, s')"
proof -
  let ?k = clear_crypto and ?c = default_settings
  have u: "tbl_get 1 (users (work demo_world)) = Some demo_user"
    by (simp add: tbl_get_def tbl_row_def demo_defs)
  have r: "role_claims 1 demo_world = (Inr (''administrator'', [''certificate:view'']), demo_world)"
    using role_claims_ok [OF u, where rn = RoleName.ADMIN]
    by (simp add: tbl_get_def tbl_row_def demo_defs)
  have d: "decode_token ?c ?k 5 (create_refresh_token ?c ?k 5 (str_int 1) ''administrator''
      [''certificate:view''] ''j2'') ''refresh'' = Inr (Payload (str_int 1) ''refresh'' 5
        (5 + 14 * us_per_day) ''certmgr'' ''j2'' ''administrator'' [''certificate:view''])"
    by (simp add: create_refresh_token_def token_decode default_settings_def us_per_day_def)
  have ne: "sha256_hex ?k (jwt_encode ?k p) \<noteq> ''t0''" "jwt_encode ?k p \<noteq> []" for p
    by (simp_all add: clear_crypto_def)
  have nodup: "tbl_first (\<lambda>w. rt_jti (rval w) = ''j2'' \<or> rt_token_hash (rval w) =
      sha256_hex ?k (create_refresh_token ?c ?k 5 (str_int 1) ''administrator'' [''certificate:view''] ''j2''))
      (refresh_tokens (work demo_world)) = None"
    using ne(1) [THEN not_sym] by (simp add: tbl_first_None demo_defs create_refresh_token_def create_token_def)
  have "\<exists>tp s'. issue_tokens ?c ?k 5 demo_randoms 1 None None demo_world = (Inr tp, s')"
    using r d nodup by (simp add: issue_tokens_def add_refresh_token_def bnd_def op_simps demo_randoms_def Let_def)
  then obtain tp s' where i: "issue_tokens ?c ?k 5 demo_randoms 1 None None demo_world = (Inr tp, s')"
    by blast
  then have n: "tp_access_token tp \<noteq> []"
    using issue_tokens_access ne by (fastforce simp: create_access_token_def create_token_def)
  have l: "(1::nat) < 10 ^ int_max_str_digits" by (rule one_less_power) (simp_all add: int_max_str_digits_def)
  have "get_current_user ?c ?k 6 demo_request (Some (tp_access_token tp)) s' = (Inr 1, s')"
    by (rule issued_access_token_resolves [OF _ i _ _ _ n u])
      (use l in \<open>simp_all add: demo_defs default_settings_def us_per_minute_def\<close>)
  then show ?thesis using i by blast
qed

end
