(* ===== verification/Notifications.thy ===== *)
theory Notifications
  imports Audit_Trail Permissions
begin

text \<open>
  \<open>app/services/notification_service.py\<close>: channel configuration, queueing of one row per
  enabled channel subscribed to an event, rendering, and delivery by a worker.  The network
  (SMTP, HTTP) and the JSON codec are fields of a \<open>net\<close> record; a channel configuration is
  the dictionary its encrypted JSON text denotes.
\<close>

section \<open>ISO timestamps\<close>

text \<open>\<^verbatim>\<open>datetime.isoformat()\<close> of an aware UTC datetime: the civil date of a day count
  (years of 365.2425 days, March-based months), then the time, microseconds only when they are
  not zero.\<close>

definition pad :: "nat \<Rightarrow> int \<Rightarrow> string" where
  "pad n i = (let s = str_int i in replicate (n - length s) CHR ''0'' @ s)"

definition civil_from_days :: "int \<Rightarrow> int \<times> int \<times> int" where
  "civil_from_days z0 =
     (let z = z0 + 719468;
          era = z div 146097;
          doe = z mod 146097;
          yoe = (doe - doe div 1460 + doe div 36524 - doe div 146096) div 365;
          doy = doe - (365 * yoe + yoe div 4 - yoe div 100);
          mp = (5 * doy + 2) div 153;
          d = doy - (153 * mp + 2) div 5 + 1;
          m = (if mp < 10 then mp + 3 else mp - 9);
          y = yoe + era * 400 + (if m \<le> 2 then 1 else 0) in
      (y, m, d))"

definition isoformat :: "datetime \<Rightarrow> string" where
  "isoformat t =
     (let (y, m, d) = civil_from_days (t div us_per_day);
          r = t mod us_per_day;
          us = r mod 1000000; s = r div 1000000 in
      pad 4 y @ ''-'' @ pad 2 m @ ''-'' @ pad 2 d @ ''T'' @
      pad 2 (s div 3600) @ '':'' @ pad 2 (s div 60 mod 60) @ '':'' @ pad 2 (s mod 60) @
      (if us = 0 then [] else ''.'' @ pad 6 us) @ ''+00:00'')"

section \<open>Channel configuration\<close>

record net =
  json_loads :: "string \<Rightarrow> dict option"
  json_dumps :: "dict \<Rightarrow> string"
  smtp_send :: "dict \<Rightarrow> notification \<Rightarrow> string option"
  http_post :: "string \<Rightarrow> dict \<Rightarrow> string + int"

definition dict_get :: "dict \<Rightarrow> string \<Rightarrow> json option" where
  "dict_get m key = map_of m key"

definition json_str :: "json option \<Rightarrow> string \<Rightarrow> string" where
  "json_str j d = (case j of Some (JStr s) \<Rightarrow> s | _ \<Rightarrow> d)"

definition json_strs :: "json option \<Rightarrow> string list" where
  "json_strs j = (case j of Some (JList xs) \<Rightarrow> map (\<lambda>x. json_str (Some x) []) xs | _ \<Rightarrow> [])"

definition find_channel :: "NotificationChannel \<Rightarrow> db \<Rightarrow> notification_setting row option" where
  "find_channel ch d = tbl_first (\<lambda>w. nset_channel (rval w) = ch) (notification_settings d)"

text \<open>\<^verbatim>\<open>json.loads(decrypt_secret(text))\<close>\<close>

definition load_config :: "net \<Rightarrow> crypto \<Rightarrow> string \<Rightarrow> exn + dict" where
  "load_config nt k text =
     (case decrypt_secret k text of
        Inl e \<Rightarrow> Inl e
      | Inr t \<Rightarrow> (case json_loads nt t of None \<Rightarrow> raises ValueError ''json'' | Some m \<Rightarrow> Inr m))"

definition get_channel_config :: "net \<Rightarrow> crypto \<Rightarrow> NotificationChannel \<Rightarrow> db \<Rightarrow> dict option" where
  "get_channel_config nt k ch d =
     (case find_channel ch d of
        None \<Rightarrow> None
      | Some w \<Rightarrow>
          if \<not> nset_enabled (rval w) then None
          else if \<not> truthy (nset_config_encrypted (rval w)) then Some []
          else (case load_config nt k (str_or (nset_config_encrypted (rval w)) []) of
                  Inl _ \<Rightarrow> None | Inr m \<Rightarrow> Some m))"

definition save_channel_config ::
    "net \<Rightarrow> crypto \<Rightarrow> datetime \<Rightarrow> string \<Rightarrow> NotificationChannel \<Rightarrow> dict \<Rightarrow> string list \<Rightarrow> bool \<Rightarrow> string
      \<Rightarrow> unit wop" where
  "save_channel_config nt k now iv ch config events enabled name =
     (let row = \<lparr>nset_channel = ch, nset_name = name, nset_enabled = enabled,
                 nset_config_encrypted = Some (encrypt_secret k iv (json_dumps nt config)),
                 nset_events = events\<rparr> in
      bnd (db_get (find_channel ch)) (\<lambda>found.
      bnd (case found of
             None \<Rightarrow> db_mod (notification_settings_update (\<lambda>t. snd (tbl_add now row t)))
           | Some w \<Rightarrow> db_mod (notification_settings_update (tbl_upd now (rid w) (\<lambda>_. row)))) (\<lambda>_.
      commit)))"

section \<open>Queueing\<close>

definition EVENT_LABELS :: "(string \<times> string) list" where
  "EVENT_LABELS =
     [(''expiry_60'', ''expires in 60 days''), (''expiry_30'', ''expires in 30 days''),
      (''expiry_15'', ''expires in 15 days''), (''expiry_7'', ''expires in 7 days''),
      (''expiry_3'', ''expires in 3 days''), (''expiry_1'', ''expires tomorrow''),
      (''issued'', ''issued''), (''renewed'', ''renewed''), (''failure'', ''operation failed''),
      (''deployed'', ''deployed''), (''revoked'', ''revoked''), (''imported'', ''imported''),
      (''expired'', ''expired'')]"

definition recipients_for :: "NotificationChannel \<Rightarrow> dict \<Rightarrow> string list" where
  "recipients_for ch config =
     (case ch of
        NotificationChannel.SMTP \<Rightarrow> json_strs (dict_get config ''recipients'')
      | NotificationChannel.SLACK \<Rightarrow> [json_str (dict_get config ''channel'') ''#certmgr'']
      | NotificationChannel.TEAMS \<Rightarrow> [json_str (dict_get config ''webhook_url'') '''']
      | NotificationChannel.WEBHOOK \<Rightarrow> [json_str (dict_get config ''url'') ''''])"

text \<open>Subject and body; \<open>cert\<close> is the certificate, \<open>extra\<close> additional lines.\<close>

definition render :: "string \<Rightarrow> certificate option \<Rightarrow> (string \<times> string) list \<Rightarrow> string \<times> string" where
  "render event cert extra =
     (let label = (case map_of EVENT_LABELS event of None \<Rightarrow> event | Some l \<Rightarrow> l);
          domain = (case cert of Some c \<Rightarrow> c_domain c
                    | None \<Rightarrow> (case map_of extra ''domain'' of None \<Rightarrow> ''n/a'' | Some d \<Rightarrow> d));
          lines = [''Certificate: '' @ domain, ''Event: '' @ event] @
            (case cert of
               None \<Rightarrow> []
             | Some c \<Rightarrow>
                 (case c_valid_until c of None \<Rightarrow> [] | Some t \<Rightarrow> [''Expires: '' @ isoformat t]) @
                 (if truthy (c_issuer c) then [''Issuer: '' @ str_or (c_issuer c) []] else [])) @
            map (\<lambda>(key, v). key @ '': '' @ v) extra in
      (''[CertMgr] Certificate '' @ label @ '': '' @ domain, py_join [CHR 0x0A] lines))"

text \<open>One queued row; a configuration that cannot be decrypted or parsed raises.\<close>

definition queue_one ::
    "net \<Rightarrow> crypto \<Rightarrow> datetime \<Rightarrow> string \<Rightarrow> (int \<times> certificate) option \<Rightarrow> (string \<times> string) list
      \<Rightarrow> notification_setting \<Rightarrow> unit wop" where
  "queue_one nt k now event cert extra ch =
     bnd (lift_exn (if truthy (nset_config_encrypted ch)
                    then (case load_config nt k (str_or (nset_config_encrypted ch) []) of
                            Inl e \<Rightarrow> Inl e | Inr m \<Rightarrow> Inr (recipients_for (nset_channel ch) m))
                    else Inr [])) (\<lambda>recipients.
       let (subject, body) = render event (map_option snd cert) extra in
       db_mod (notifications_update (\<lambda>t. snd (tbl_add now
         \<lparr>n_event_type = event, n_channel = nset_channel ch, n_recipients = recipients,
          n_subject = Some subject, n_body = Some body, n_status = NotificationStatus.QUEUED,
          n_sent_at = None, n_error = None, n_retries = 0,
          n_related_certificate_id = map_option fst cert\<rparr> t))))"

definition subscribed :: "string \<Rightarrow> db \<Rightarrow> notification_setting list" where
  "subscribed event d =
     map rval (tbl_sel (\<lambda>w. nset_enabled (rval w) \<and> event \<in> set (nset_events (rval w)))
                 (notification_settings d))"

definition queue_event_notifications ::
    "net \<Rightarrow> crypto \<Rightarrow> datetime \<Rightarrow> string \<Rightarrow> (int \<times> certificate) option \<Rightarrow> (string \<times> string) list
      \<Rightarrow> unit wop" where
  "queue_event_notifications nt k now event cert extra =
     bnd (db_get (subscribed event)) (\<lambda>chs. for_each chs (queue_one nt k now event cert extra))"

section \<open>Delivery\<close>

type_synonym delivery = "bool \<times> string option"

definition http_result :: "string + int \<Rightarrow> delivery" where
  "http_result r = (case r of
       Inl err \<Rightarrow> (False, Some err)
     | Inr code \<Rightarrow> if 200 \<le> code \<and> code \<le> 299 then (True, None)
                   else (False, Some (''HTTP '' @ str_int code)))"

text \<open>\<^verbatim>\<open>html.escape\<close> and the line breaks of a Teams card.\<close>

definition teams_text :: "string \<Rightarrow> string" where
  "teams_text s = concat (map (\<lambda>c.
     if c = CHR ''&'' then ''&amp;'' else if c = CHR ''<'' then ''&lt;''
     else if c = CHR ''>'' then ''&gt;'' else if c = CHR 0x22 then ''&quot;''
     else if c = CHR 0x27 then ''&#x27;'' else if c = CHR 0x0A then ''<br/>'' else [c]) s)"

definition opt_json :: "string option \<Rightarrow> json" where
  "opt_json v = (case v of None \<Rightarrow> JNull | Some s \<Rightarrow> JStr s)"

text \<open>An absent optional text prints as \<^verbatim>\<open>None\<close> inside an f-string.\<close>

definition fstr :: "string option \<Rightarrow> string" where
  "fstr v = (case v of None \<Rightarrow> ''None'' | Some s \<Rightarrow> s)"

definition deliver_channel :: "net \<Rightarrow> notification \<Rightarrow> dict \<Rightarrow> delivery" where
  "deliver_channel nt n config =
     (case n_channel n of
        NotificationChannel.SMTP \<Rightarrow>
          (case smtp_send nt config n of None \<Rightarrow> (True, None) | Some err \<Rightarrow> (False, Some err))
      | NotificationChannel.SLACK \<Rightarrow>
          (let url = json_str (dict_get config ''webhook_url'') '''' in
           if url = [] then (False, Some ''Slack webhook URL not configured'')
           else http_result (http_post nt url [(''text'', JStr (''*'' @ fstr (n_subject n) @ ''*'' @
                  [CHR 0x0A] @ ''```'' @ fstr (n_body n) @ ''```''))]))
      | NotificationChannel.TEAMS \<Rightarrow>
          (let url = json_str (dict_get config ''webhook_url'') '''';
               title = JStr (str_or (n_subject n) ''CertMgr notification'') in
           if url = [] then (False, Some ''Teams webhook URL not configured'')
           else http_result (http_post nt url
                  [(''@type'', JStr ''MessageCard''), (''@context'', JStr ''http://schema.org/extensions''),
                   (''summary'', title), (''title'', title), (''text'', JStr (teams_text (str_or (n_body n) [])))]))
      | NotificationChannel.WEBHOOK \<Rightarrow>
          (let url = json_str (dict_get config ''url'') '''' in
           if url = [] then (False, Some ''Webhook URL not configured'')
           else http_result (http_post nt url
                  [(''event'', JStr (n_event_type n)), (''subject'', opt_json (n_subject n)),
                   (''body'', opt_json (n_body n))])))"

definition deliver :: "net \<Rightarrow> crypto \<Rightarrow> datetime \<Rightarrow> int \<Rightarrow> delivery wop" where
  "deliver nt k now i =
     bnd (db_get (\<lambda>d. tbl_get i (notifications d))) (\<lambda>row.
       case row of
         None \<Rightarrow> ret (False, Some ''Notification not found'')
       | Some n \<Rightarrow>
           if n_status n = NotificationStatus.SENT then ret (True, None)
           else
             bnd (db_get (get_channel_config nt k (n_channel n))) (\<lambda>cfg.
             let r = deliver_channel nt n (case cfg of None \<Rightarrow> [] | Some m \<Rightarrow> m) in
             bnd (db_mod (notifications_update (tbl_upd now i (\<lambda>n. n\<lparr>
                    n_status := (if fst r then NotificationStatus.SENT else NotificationStatus.FAILED),
                    n_sent_at := (if fst r then Some now else None),
                    n_error := snd r, n_retries := n_retries n + 1\<rparr>)))) (\<lambda>_.
             bnd commit (\<lambda>_. ret r))))"

definition send_test :: "net \<Rightarrow> crypto \<Rightarrow> datetime \<Rightarrow> NotificationChannel \<Rightarrow> delivery wop" where
  "send_test nt k now ch =
     bnd (db_get (get_channel_config nt k ch)) (\<lambda>cfg.
       case cfg of
         None \<Rightarrow> ret (False, Some (''Channel '' @ [CHR 0x27] @ NotificationChannel_value ch @ [CHR 0x27] @
                        '' is not enabled''))
       | Some config \<Rightarrow>
           let n = \<lparr>n_event_type = ''test'', n_channel = ch, n_recipients = recipients_for ch config,
                    n_subject = Some ''[CertMgr] Test notification'',
                    n_body = Some ''This is a test notification from CertMgr.'',
                    n_status = NotificationStatus.QUEUED, n_sent_at = None, n_error = None,
                    n_retries = 0, n_related_certificate_id = None\<rparr> in
           bnd (db_mod (notifications_update (\<lambda>t. snd (tbl_add now n t)))) (\<lambda>_.
           bnd commit (\<lambda>_. ret (deliver_channel nt n config))))"

section \<open>Facts\<close>

lemma queue_one_cases:
  "(\<exists>e. queue_one nt k now ev c ex ch s = (Inl e, s)) \<or>
   (\<exists>n. queue_one nt k now ev c ex ch s =
      (Inr (), s\<lparr>work := notifications_update (\<lambda>t. snd (tbl_add now n t)) (work s)\<rparr>) \<and>
      n_channel n = nset_channel ch \<and> n_event_type n = ev \<and> n_status n = NotificationStatus.QUEUED \<and>
      n_related_certificate_id n = map_option fst c)"
  by (auto simp: queue_one_def bnd_def op_simps Let_def split: sum.splits prod.splits)

lemma for_each_queue_rows:
  assumes "for_each chs (queue_one nt k now ev c ex) s = (Inr (), s')"
  shows "\<exists>ns. rows (notifications (work s')) = rows (notifications (work s)) @ ns \<and>
    map (\<lambda>w. n_channel (rval w)) ns = map nset_channel chs \<and>
    list_all (\<lambda>w. n_event_type (rval w) = ev \<and> n_status (rval w) = NotificationStatus.QUEUED \<and>
      n_related_certificate_id (rval w) = map_option fst c) ns"
  using assms
proof (induction chs arbitrary: s)
  case Nil
  then show ?case by (auto simp: op_simps)
next
  case (Cons ch chs)
  then obtain t where t: "queue_one nt k now ev c ex ch s = (Inr (), t)"
      "for_each chs (queue_one nt k now ev c ex) t = (Inr (), s')"
    by (auto simp: bnd_Inr)
  from queue_one_cases [of nt k now ev c ex ch s] t(1) obtain n where n:
      "rows (notifications (work t)) = rows (notifications (work s)) @
        [\<lparr>rid = next_id (notifications (work s)), created_at = now, updated_at = now, rval = n\<rparr>]"
      "n_channel n = nset_channel ch" "n_event_type n = ev" "n_status n = NotificationStatus.QUEUED"
      "n_related_certificate_id n = map_option fst c"
    by (auto simp: rows_add)
  obtain ns where ns: "rows (notifications (work s')) = rows (notifications (work t)) @ ns"
      "map (\<lambda>w. n_channel (rval w)) ns = map nset_channel chs"
      "list_all (\<lambda>w. n_event_type (rval w) = ev \<and> n_status (rval w) = NotificationStatus.QUEUED \<and>
        n_related_certificate_id (rval w) = map_option fst c) ns"
    using Cons.IH [OF t(2)] by blast
  show ?case
    by (rule exI [of _ "\<lparr>rid = next_id (notifications (work s)), created_at = now,
          updated_at = now, rval = n\<rparr> # ns"]) (use n ns in simp)
qed

text \<open>Queueing touches only the notifications table and never commits.\<close>

definition same_but_notifications :: "db \<Rightarrow> db \<Rightarrow> bool" where
  "same_but_notifications d d' \<longleftrightarrow> (\<exists>t. d' = d\<lparr>notifications := t\<rparr>)"

lemma same_but_notifications_refl [simp]: "same_but_notifications d d"
  unfolding same_but_notifications_def by (rule exI [of _ "notifications d"]) simp

lemma queue_one_frame:
  "keeps (\<lambda>w. committed w = c0 \<and> files w = f0 \<and> same_but_notifications d0 (work w))
     (queue_one nt k now ev c ex ch)"
proof (rule keepsI)
  fix s :: world
  assume "committed s = c0 \<and> files s = f0 \<and> same_but_notifications d0 (work s)"
  then show "committed (snd (queue_one nt k now ev c ex ch s)) = c0 \<and>
      files (snd (queue_one nt k now ev c ex ch s)) = f0 \<and>
      same_but_notifications d0 (work (snd (queue_one nt k now ev c ex ch s)))"
    using queue_one_cases [of nt k now ev c ex ch s]
    by (auto simp: same_but_notifications_def comp_def)
qed

lemma queue_frame [keeps_rules]:
  "keeps (\<lambda>w. committed w = c0 \<and> files w = f0 \<and> same_but_notifications d0 (work w))
     (queue_event_notifications nt k now ev c ex)"
  unfolding queue_event_notifications_def
  by (intro keeps_bnd keeps_db_get keeps_for_each queue_one_frame)

lemma deliver_sent:
  assumes "tbl_get i (notifications (work s)) = Some n" "n_status n = NotificationStatus.SENT"
  shows "deliver nt k now i s = (Inr (True, None), s)"
  using assms by (simp add: deliver_def op_simps)

lemma deliver_success:
  assumes "deliver nt k now i s = (Inr (True, e), s')"
  shows "\<exists>n. tbl_get i (notifications (work s')) = Some n \<and> n_status n = NotificationStatus.SENT"
  using assms
  by (auto simp: deliver_def bnd_def op_simps Let_def split: option.splits if_splits)

end
