(* ===== verification/Settings_Store.thy ===== *)
theory Settings_Store
  imports Notifications
begin

text \<open>
  \<open>app/services/settings_service.py\<close>: the administrator's key/value settings, secrets
  encrypted at rest.  \<open>setting_row_add\<close> and \<open>setting_row_upd\<close> are what the writers of settings
  use: a row added or changed under one key leaves every other key's row alone.
\<close>

definition SECRET_KEYS :: "string list" where
  "SECRET_KEYS = [''letsencrypt.account_key'', ''slack.webhook_url'', ''smtp.password'', ''teams.webhook_url'', ''webhook.secret'', ''webhook.url'']"

definition DEFAULT_SETTINGS :: "(string \<times> (string \<times> bool \<times> string)) list" where
  "DEFAULT_SETTINGS = [
    (''letsencrypt.email'', ('''', False, ''Let'' @ [CHR 0x27] @ ''s Encrypt account/contact email'')),
    (''default.key_type'', (''rsa2048'', False, ''Default key type for new certificates'')),
    (''default.validation_method'', (''http-01'', False, ''Default validation method'')),
    (''default.hook_id'', ('''', False, ''Default auth hook id'')),
    (''renewal.threshold_days'', (''30'', False, ''Auto-renew certificates expiring within N days'')),
    (''storage.certificate_location'', ('''', False, ''Certificate storage root'')),
    (''storage.backup_location'', ('''', False, ''Backup location'')),
    (''storage.temp_dir'', ('''', False, ''Temporary working directory'')),
    (''discovery.scan_paths'', (''/etc/letsencrypt/live,/etc/pki/tls/certs'', False, ''Discovery scan paths (comma-separated)'')),
    (''smtp.host'', ('''', False, ''SMTP host'')),
    (''smtp.port'', (''587'', False, ''SMTP port'')),
    (''smtp.username'', ('''', False, ''SMTP username'')),
    (''smtp.password'', ('''', True, ''SMTP password (secret)'')),
    (''smtp.from'', ('''', False, ''SMTP from address'')),
    (''slack.webhook_url'', ('''', True, ''Slack webhook URL (secret)'')),
    (''teams.webhook_url'', ('''', True, ''Microsoft Teams webhook URL (secret)'')),
    (''webhook.url'', ('''', True, ''Generic webhook URL (secret)'')),
    (''notification.default_recipients'', ('''', False, ''Default notification recipients (comma-separated emails)'')),
    (''notification.expiry_warning_days'', (''60,30,15,7,3,1'', False, ''Days before expiry to send warnings (comma-separated, e.g. 14,7,1)'')),
    (''maintenance.message'', ('''', False, ''Optional maintenance banner message'')),
    (''godaddy.api_key'', ('''', True, ''GoDaddy API key (secret) - developer.godaddy.com'')),
    (''godaddy.api_secret'', ('''', True, ''GoDaddy API secret (secret)'')),
    (''tls_scan.default_ports'', (''443,8443,636,465'', False, ''Default ports for network TLS scans (comma-separated)'')),
    (''tls_scan.concurrency'', (''20'', False, ''Concurrent connections during a network TLS scan'')),
    (''tls_scan.timeout_seconds'', (''3'', False, ''Per-connection timeout (seconds) during a network TLS scan'')),
    (''tls_scan.max_targets'', (''2048'', False, ''Max hostxport combinations allowed in a single network TLS scan'')),
    (''tls_scan.scheduled_targets'', ('''', False, ''Targets for the automatic weekly network scan (comma-separated hosts/CIDRs) - leave empty to disable'')),
    (''ct_monitoring.domains'', ('''', False, ''Domains to monitor via Certificate Transparency logs (comma-separated) - leave empty to disable'')),
    (''ct_monitoring.expected_issuers'', ('''', False, ''Expected CA names (comma-separated substrings, e.g. \"Let'' @ [CHR 0x27] @ ''s Encrypt,DigiCert\") - empty means the unknown-CA detection is skipped, not that everything is flagged'')),
    (''ct_monitoring.sensitive_keywords'', (''admin,vpn,sso,login,auth,portal,mail,owa,gateway,remote,internal,secure'', False, ''Hostname keywords that flag a CT finding as sensitive (comma-separated)'')),
    (''ct_monitoring.staging_keywords'', (''dev,test,qa,uat,stage,staging,sandbox,preprod,demo,lab'', False, ''Hostname keywords that flag a CT finding as staging/test infrastructure (comma-separated)'')),
    (''ct_monitoring.max_certs_per_domain'', (''200'', False, ''Max crt.sh entries processed per domain per CT scan (safety cap - some domains have thousands)'')),
    (''cert_usage_scan.ports'', (''443,8443,9443'', False, ''Default ports probed during wildcard certificate usage discovery (comma-separated)'')),
    (''cert_usage_scan.timeout_seconds'', (''5'', False, ''Per-connection DNS/TCP/TLS timeout (seconds) during usage discovery'')),
    (''cert_usage_scan.max_concurrency'', (''25'', False, ''Concurrent TLS probes during a single usage discovery scan''))]"

definition default_of :: "string \<Rightarrow> (string \<times> bool \<times> string) option" where
  "default_of key = map_of DEFAULT_SETTINGS key"

definition setting_row :: "string \<Rightarrow> db \<Rightarrow> app_setting row option" where
  "setting_row key d = tbl_first (\<lambda>w. as_key (rval w) = key) (app_settings d)"

text \<open>\<^verbatim>\<open>encrypt_secret(v) if secret and v else (v or None)\<close>\<close>

definition stored_value :: "crypto \<Rightarrow> string \<Rightarrow> bool \<Rightarrow> string option \<Rightarrow> string option" where
  "stored_value k iv secret v =
     (if \<not> truthy v then None
      else if secret then Some (encrypt_secret k iv (str_or v [])) else v)"

definition seed_one :: "crypto \<Rightarrow> string \<Rightarrow> datetime \<Rightarrow> string \<times> string \<times> bool \<times> string \<Rightarrow> unit wop" where
  "seed_one k iv now entry = (case entry of (key, dflt, is_secret, description) \<Rightarrow>
     bnd (db_get (setting_row key)) (\<lambda>row.
     when_op (row = None) (db_mod (app_settings_update (\<lambda>t. snd (tbl_add now
       \<lparr>as_key = key, as_value = stored_value k iv is_secret (Some dflt), as_is_secret = is_secret,
        as_description = Some description, as_updated_by = None\<rparr> t))))))"

definition seed_defaults :: "crypto \<Rightarrow> string \<Rightarrow> datetime \<Rightarrow> unit wop" where
  "seed_defaults k iv now = bnd (for_each DEFAULT_SETTINGS (seed_one k iv now)) (\<lambda>_. commit)"

definition get_setting :: "crypto \<Rightarrow> string \<Rightarrow> db \<Rightarrow> exn + string option" where
  "get_setting k key d =
     (case setting_row key d of
        None \<Rightarrow> Inr (map_option fst (default_of key))
      | Some w \<Rightarrow>
          if as_is_secret (rval w) \<and> truthy (as_value (rval w))
          then (case decrypt_secret k (str_or (as_value (rval w)) []) of
                  Inl e \<Rightarrow> Inl e | Inr v \<Rightarrow> Inr (Some v))
          else Inr (as_value (rval w)))"

record setting_view =
  sw_key :: string
  sw_value :: string
  sw_is_secret :: bool
  sw_description :: string
  sw_configured :: bool

definition view_setting :: "db \<Rightarrow> string \<times> string \<times> bool \<times> string \<Rightarrow> setting_view" where
  "view_setting d entry = (case entry of (key, dflt, is_secret, description) \<Rightarrow>
     let row = setting_row key d;
         set = (case row of None \<Rightarrow> False | Some w \<Rightarrow> truthy (as_value (rval w))) in
     \<lparr>sw_key = key,
      sw_value = (if is_secret then (if set then ''[SET]'' else [])
                  else (case row of None \<Rightarrow> dflt | Some w \<Rightarrow> str_or (as_value (rval w)) [])),
      sw_is_secret = is_secret, sw_description = description, sw_configured = set\<rparr>)"

definition get_all_settings :: "db \<Rightarrow> setting_view list" where
  "get_all_settings d = map (view_setting d) DEFAULT_SETTINGS"

definition set_setting ::
    "crypto \<Rightarrow> string \<Rightarrow> datetime \<Rightarrow> string \<Rightarrow> string option \<Rightarrow> int option \<Rightarrow> bool option \<Rightarrow> unit wop" where
  "set_setting k iv now key value updated_by is_secret =
     (case default_of key of
        None \<Rightarrow> fail ValueError (''Unknown setting key: '' @ key)
      | Some (_, dflt_secret, description) \<Rightarrow>
          bnd (db_get (setting_row key)) (\<lambda>row.
          bnd (when_op (row = None) (db_mod (app_settings_update (\<lambda>t. snd (tbl_add now
                 \<lparr>as_key = key, as_value = None,
                  as_is_secret = (case is_secret of Some b \<Rightarrow> b | None \<Rightarrow> dflt_secret),
                  as_description = Some description, as_updated_by = None\<rparr> t))))) (\<lambda>_.
          bnd (db_get (setting_row key)) (\<lambda>row2.
          case row2 of
            None \<Rightarrow> fail AttributeError key
          | Some w \<Rightarrow>
              let secret = (case is_secret of Some b \<Rightarrow> b | None \<Rightarrow> as_is_secret (rval w)) in
              bnd (db_mod (app_settings_update (tbl_upd now (rid w) (\<lambda>s. s\<lparr>as_is_secret := secret,
                     as_value := stored_value k iv secret value, as_updated_by := updated_by\<rparr>)))) (\<lambda>_.
              commit)))))"

definition get_secret :: "crypto \<Rightarrow> string \<Rightarrow> db \<Rightarrow> exn + string option" where
  "get_secret k key d =
     (if key \<notin> set SECRET_KEYS \<and> default_of key = None
      then raises ValueError (''Not a secret setting: '' @ key)
      else (case setting_row key d of
              None \<Rightarrow> Inr None
            | Some w \<Rightarrow>
                if \<not> truthy (as_value (rval w)) then Inr None
                else if as_is_secret (rval w)
                then (case decrypt_secret k (str_or (as_value (rval w)) []) of
                        Inl e \<Rightarrow> Inl e | Inr v \<Rightarrow> Inr (Some v))
                else Inr (as_value (rval w))))"

section \<open>Facts\<close>

lemma setting_row_add:
  "setting_row key (app_settings_update (\<lambda>t. snd (tbl_add now s t)) d) =
     (case setting_row key d of
        Some w \<Rightarrow> Some w
      | None \<Rightarrow> if as_key s = key
                then Some \<lparr>rid = next_id (app_settings d), created_at = now, updated_at = now, rval = s\<rparr> else None)"
  by (simp add: setting_row_def tbl_first_def rows_add find_append split: option.splits)

lemma setting_row_upd:
  assumes "wf_table (app_settings d)" "setting_row key d = Some w" "\<And>s. as_key (f s) = as_key s"
  shows "setting_row key' (app_settings_update (tbl_upd now (rid w) f) d) =
    (if key' = key then Some (touch now f w) else setting_row key' d)"
proof -
  have w: "w \<in> set (rows (app_settings d))" "as_key (rval w) = key"
    using assms(2) by (auto simp: setting_row_def dest: tbl_first_Some)
  have m: "setting_row key' (app_settings_update (tbl_upd now (rid w) f) d) =
      map_option (\<lambda>v. if rid v = rid w then touch now f v else v) (setting_row key' d)"
    unfolding setting_row_def tbl_upd_def using assms(3) by (simp add: tbl_first_upd_where)
  have same: "v = w" if "v \<in> set (rows (app_settings d))" "rid v = rid w" for v
  proof -
    have "tbl_row (rid w) (app_settings d) = Some v" using tbl_row_in [OF assms(1) that(1)] that(2) by simp
    with tbl_row_in [OF assms(1) w(1)] show ?thesis by simp
  qed
  show ?thesis
  proof (cases "setting_row key' d")
    case (Some v)
    then have v: "v \<in> set (rows (app_settings d))" "as_key (rval v) = key'"
      by (auto simp: setting_row_def dest: tbl_first_Some)
    have "(if rid v = rid w then touch now f v else v) = (if key' = key then touch now f w else v)"
    proof (cases "rid v = rid w")
      case True
      with same [OF v(1)] have "v = w" by blast
      with v(2) w(2) show ?thesis by simp
    next
      case False
      have "key' \<noteq> key" using False Some assms(2) by auto
      with False show ?thesis by simp
    qed
    with m Some show ?thesis by (cases "key' = key") simp_all
  next
    case None
    then show ?thesis using m assms(2) by auto
  qed
qed

lemma set_setting_result:
  assumes key: "default_of key = Some (dv, ds, desc)" and wf: "wf_table (app_settings (work w))"
  shows "\<exists>w' r secret. set_setting k iv now key vl ub is_secret w = (Inr (), w') \<and> committed w' = work w' \<and>
    setting_row key (work w') = Some r \<and> as_is_secret (rval r) = secret \<and>
    as_value (rval r) = stored_value k iv secret vl \<and>
    (is_secret = None \<longrightarrow> setting_row key (work w) = None \<longrightarrow> secret = ds) \<and>
    (\<forall>key'. key' \<noteq> key \<longrightarrow> setting_row key' (work w') = setting_row key' (work w))"
proof (cases "setting_row key (work w)")
  case None
  let ?s = "\<lparr>as_key = key, as_value = None, as_is_secret = (case is_secret of Some b \<Rightarrow> b | None \<Rightarrow> ds),
    as_description = Some desc, as_updated_by = None\<rparr>"
  let ?d = "app_settings_update (\<lambda>t. snd (tbl_add now ?s t)) (work w)"
  have "setting_row key ?d = Some \<lparr>rid = next_id (app_settings (work w)), created_at = now, updated_at = now, rval = ?s\<rparr>"
    using None by (simp add: setting_row_add)
  note u = setting_row_upd [OF _ this, of _ _ now]
  show ?thesis using None key wf u
    by (auto simp: set_setting_def when_op_def Let_def op_simps setting_row_add split: option.splits)
next
  case (Some x)
  note u = setting_row_upd [OF wf Some, of _ _ now]
  show ?thesis using Some key u by (auto simp: set_setting_def when_op_def Let_def op_simps)
qed

text \<open>A known setting reads back the value that was stored, secret or not, and an empty value
  reads back as none; the other settings are unchanged, and the write is committed.\<close>

theorem settings_roundtrip:
  assumes k: "fernet_correct k" "\<And>m. m \<noteq> [] \<Longrightarrow> fernet_encrypt k iv m \<noteq> []"
    and key: "default_of key \<noteq> None" and wf: "wf_table (app_settings (work w))"
  shows "\<exists>w'. set_setting k iv now key vl ub is_secret w = (Inr (), w') \<and> committed w' = work w' \<and>
    get_setting k key (committed w') = Inr (if truthy vl then vl else None) \<and>
    (\<forall>key'. key' \<noteq> key \<longrightarrow> get_setting k key' (committed w') = get_setting k key' (work w))"
proof -
  obtain dv ds desc where d: "default_of key = Some (dv, ds, desc)" using key by (cases "default_of key") auto
  from set_setting_result [OF d wf, of k iv now vl ub is_secret] obtain w' r secret where
    r: "set_setting k iv now key vl ub is_secret w = (Inr (), w')" "committed w' = work w'"
      "setting_row key (work w') = Some r" "as_is_secret (rval r) = secret"
      "as_value (rval r) = stored_value k iv secret vl"
      "\<forall>key'. key' \<noteq> key \<longrightarrow> setting_row key' (work w') = setting_row key' (work w)" by blast
  have "get_setting k key (work w') = Inr (if truthy vl then vl else None)"
    using r(3-5) secret_roundtrip [OF k(1)] k(2)
    by (cases vl) (auto simp: get_setting_def stored_value_def truthy_def str_or_def encrypt_secret_def)
  then show ?thesis using r(1,2,6) by (auto simp: get_setting_def)
qed

text \<open>The settings list never shows the value of a setting that is secret by default: it shows
  at most that one is set, so two databases that agree on which secrets are set and on the
  other settings give the same list.\<close>

theorem settings_masked:
  "list_all (\<lambda>v. sw_is_secret v \<longrightarrow> sw_value v \<in> {[], ''[SET]''}) (get_all_settings d) \<and>
   (list_all (\<lambda>(key, dflt, sec, desc).
      (if sec then (case setting_row key d of None \<Rightarrow> False | Some w \<Rightarrow> truthy (as_value (rval w))) =
                   (case setting_row key d' of None \<Rightarrow> False | Some w \<Rightarrow> truthy (as_value (rval w)))
       else setting_row key d = setting_row key d')) DEFAULT_SETTINGS \<longrightarrow>
    get_all_settings d = get_all_settings d')"
proof -
  have "sw_is_secret (view_setting d e) \<longrightarrow> sw_value (view_setting d e) \<in> {[], ''[SET]''}" for e
    by (auto simp: view_setting_def Let_def split: prod.splits)
  moreover have "view_setting d e = view_setting d' e" if "case e of (key, dflt, sec, desc) \<Rightarrow>
      (if sec then (case setting_row key d of None \<Rightarrow> False | Some w \<Rightarrow> truthy (as_value (rval w))) =
                   (case setting_row key d' of None \<Rightarrow> False | Some w \<Rightarrow> truthy (as_value (rval w)))
       else setting_row key d = setting_row key d')" for e
    using that by (auto simp: view_setting_def Let_def split: prod.splits if_splits)
  ultimately show ?thesis by (auto simp: get_all_settings_def list_all_iff)
qed

section \<open>Seeding\<close>

lemma seed_one_result:
  "\<exists>w'. seed_one k iv now (key, dv, s, desc) w = (Inr (), w') \<and> setting_row key (work w') \<noteq> None \<and>
     (\<forall>key' r. setting_row key' (work w) = Some r \<longrightarrow> setting_row key' (work w') = Some r) \<and>
     (setting_row key (work w) \<noteq> None \<longrightarrow> w' = w)"
  by (cases "setting_row key (work w)") (auto simp: seed_one_def op_simps when_op_def setting_row_add)

lemma seed_loop_result:
  "\<exists>w'. for_each es (seed_one k iv now) w = (Inr (), w') \<and>
     (\<forall>key \<in> fst ` set es. setting_row key (work w') \<noteq> None) \<and>
     (\<forall>key' r. setting_row key' (work w) = Some r \<longrightarrow> setting_row key' (work w') = Some r) \<and>
     ((\<forall>key \<in> fst ` set es. setting_row key (work w) \<noteq> None) \<longrightarrow> w' = w)"
proof (induction es arbitrary: w)
  case (Cons e es)
  obtain key dv s desc where e: "e = (key, dv, s, desc)" by (cases e)
  from seed_one_result [of k iv now key dv s desc w] obtain w1 where w1:
    "seed_one k iv now e w = (Inr (), w1)" "setting_row key (work w1) \<noteq> None"
    "\<forall>key' r. setting_row key' (work w) = Some r \<longrightarrow> setting_row key' (work w1) = Some r"
    "setting_row key (work w) \<noteq> None \<longrightarrow> w1 = w" unfolding e by blast
  from Cons.IH [of w1] obtain w' where w':
    "for_each es (seed_one k iv now) w1 = (Inr (), w')"
    "\<forall>key \<in> fst ` set es. setting_row key (work w') \<noteq> None"
    "\<forall>key' r. setting_row key' (work w1) = Some r \<longrightarrow> setting_row key' (work w') = Some r"
    "(\<forall>key \<in> fst ` set es. setting_row key (work w1) \<noteq> None) \<longrightarrow> w' = w1" by blast
  have "for_each (e # es) (seed_one k iv now) w = (Inr (), w')" using w1(1) w'(1) by (simp add: bnd_def)
  moreover have "setting_row key (work w') \<noteq> None" using w1(2) w'(3) by fastforce
  moreover have "w' = w" if "\<forall>key \<in> fst ` set (e # es). setting_row key (work w) \<noteq> None"
    using that w1(4) w'(4) e by simp
  ultimately show ?case using w1(3) w'(2,3) e by (intro exI [of _ w']) auto
qed (simp add: ret_def)

text \<open>Seeding gives every known key a row, changes no existing row, commits, and does nothing
  the second time.\<close>

theorem seed_defaults_idempotent:
  "\<exists>w'. seed_defaults k iv now w = (Inr (), w') \<and> committed w' = work w' \<and>
     list_all (\<lambda>e. setting_row (fst e) (work w') \<noteq> None) DEFAULT_SETTINGS \<and>
     (\<lambda>key. setting_row key (work w)) \<subseteq>\<^sub>m (\<lambda>key. setting_row key (work w')) \<and>
     seed_defaults k2 iv2 now2 w' = (Inr (), w')"
proof -
  from seed_loop_result [of DEFAULT_SETTINGS k iv now w] obtain w1 where w1:
    "for_each DEFAULT_SETTINGS (seed_one k iv now) w = (Inr (), w1)"
    "\<forall>key \<in> fst ` set DEFAULT_SETTINGS. setting_row key (work w1) \<noteq> None"
    "\<forall>key' r. setting_row key' (work w) = Some r \<longrightarrow> setting_row key' (work w1) = Some r" by blast
  let ?w = "w1\<lparr>committed := work w1\<rparr>"
  have "seed_defaults k iv now w = (Inr (), ?w)" using w1(1) by (simp add: seed_defaults_def bnd_def)
  moreover have "seed_defaults k2 iv2 now2 ?w = (Inr (), ?w)"
    using seed_loop_result [of DEFAULT_SETTINGS k2 iv2 now2 ?w] w1(2) by (auto simp: seed_defaults_def bnd_def)
  ultimately show ?thesis using w1(2,3) by (auto simp: list_all_iff map_le_def dom_def intro!: exI [of _ ?w])
qed

end
