(* ===== verification/Retention.thy ===== *)
theory Retention
  imports Notifications
begin

text \<open>
  \<open>app/services/retention_service.py\<close>: purging of the history tables by age.  The locale
  \<open>age_purge\<close> states what the three purges promise of a table; \<open>purging\<close> interprets it.
\<close>

definition cutoff :: "datetime \<Rightarrow> int \<Rightarrow> datetime" where
  "cutoff now days = now - days * us_per_day"

definition older :: "datetime \<Rightarrow> int \<Rightarrow> 'r row \<Rightarrow> bool" where
  "older now days w \<longleftrightarrow> created_at w < cutoff now days"

definition count_old :: "datetime \<Rightarrow> int \<Rightarrow> 'r table \<Rightarrow> nat" where
  "count_old now days t = tbl_count (older now days) t"

definition purge :: "datetime \<Rightarrow> int \<Rightarrow> 'r table \<Rightarrow> nat \<times> 'r table" where
  "purge now days t = (tbl_count (older now days) t, tbl_del_where (older now days) t)"

text \<open>\<open>_apply\<close>: the number reported and the table afterwards.\<close>

definition apply_purge :: "datetime \<Rightarrow> bool \<Rightarrow> int \<Rightarrow> 'r table \<Rightarrow> nat \<times> 'r table" where
  "apply_purge now dry_run days t =
     (if days \<noteq> 0 \<and> 0 < days then
        (if dry_run then (count_old now days t, t) else purge now days t)
      else (0, t))"

record retention_result =
  rr_dry_run :: bool
  rr_execution_days :: int
  rr_audit_days :: int
  rr_notification_days :: int
  rr_executions_purged :: nat
  rr_audit_purged :: nat
  rr_notifications_purged :: nat

definition override :: "int option \<Rightarrow> int \<Rightarrow> int" where
  "override v d = (case v of None \<Rightarrow> d | Some x \<Rightarrow> x)"

definition apply_retention ::
    "settings \<Rightarrow> datetime \<Rightarrow> int option \<Rightarrow> int option \<Rightarrow> int option \<Rightarrow> bool \<Rightarrow> retention_result wop" where
  "apply_retention s now execution_days audit_days notification_days dry_run =
     (let ed = override execution_days (execution_retention_days s);
          ad = override audit_days (audit_retention_days s);
          nd = override notification_days (notification_retention_days s) in
      bnd (db_get (\<lambda>d. (fst (apply_purge now dry_run ed (job_executions d)),
                        fst (apply_purge now dry_run ad (audit_logs d)),
                        fst (apply_purge now dry_run nd (notifications d))))) (\<lambda>(x, a, n).
      bnd (db_mod (\<lambda>d. d\<lparr>
             job_executions := snd (apply_purge now dry_run ed (job_executions d)),
             audit_logs := snd (apply_purge now dry_run ad (audit_logs d)),
             notifications := snd (apply_purge now dry_run nd (notifications d))\<rparr>)) (\<lambda>_.
      bnd commit (\<lambda>_.
      ret \<lparr>rr_dry_run = dry_run, rr_execution_days = ed, rr_audit_days = ad, rr_notification_days = nd,
           rr_executions_purged = x, rr_audit_purged = a, rr_notifications_purged = n\<rparr>))))"

record retention_counts =
  rc_execution_days :: int
  rc_audit_days :: int
  rc_notification_days :: int
  rc_job_executions :: nat
  rc_audit_logs :: nat
  rc_notifications :: nat

definition retention_status :: "settings \<Rightarrow> db \<Rightarrow> retention_counts" where
  "retention_status s d = \<lparr>
     rc_execution_days = execution_retention_days s, rc_audit_days = audit_retention_days s,
     rc_notification_days = notification_retention_days s,
     rc_job_executions = length (rows (job_executions d)), rc_audit_logs = length (rows (audit_logs d)),
     rc_notifications = length (rows (notifications d))\<rparr>"

section \<open>The contract of a purge\<close>

locale age_purge =
  fixes size_of :: "'t \<Rightarrow> nat"
    and stale :: "int \<Rightarrow> 't \<Rightarrow> nat"
    and run :: "bool \<Rightarrow> int \<Rightarrow> 't \<Rightarrow> nat \<times> 't"
  assumes dry: "snd (run True days t) = t"
    and reported: "fst (run dry days t) = (if 0 < days then stale days t else 0)"
    and purged: "0 < days \<Longrightarrow> stale days (snd (run False days t)) = 0"
    and size_run: "size_of (snd (run False days t)) + fst (run False days t) = size_of t"
    and off: "days \<le> 0 \<Longrightarrow> snd (run dry days t) = t"
begin

lemma dry_run_predicts: "fst (run True days t) = fst (run False days t)"
  by (simp add: reported)

lemma idempotent_count: "fst (run dry days (snd (run False days t))) = 0"
  by (simp add: reported purged)

lemma size_decreases: "size_of (snd (run dry days t)) \<le> size_of t"
  by (cases dry) (use size_run [of days t] in \<open>auto simp: dry\<close>)

end

interpretation purging: age_purge "\<lambda>t. length (rows t)" "count_old now" "apply_purge now"
proof
  fix days :: int and t :: "'r table" and dr
  show "length (rows (snd (apply_purge now False days t))) + fst (apply_purge now False days t) = length (rows t)"
    using sum_length_filter_compl [of "older now days" "rows t"]
    by (simp add: apply_purge_def purge_def tbl_count_def tbl_sel_def)
qed (simp_all add: apply_purge_def purge_def count_old_def)

text \<open>C36: A dry run changes no table and reports exactly what the real run deletes; the real run
  keeps every row at least as young as the cutoff, removes every older one, commits, and a
  second run with the same arguments finds nothing left; 0 days keeps everything.\<close>

theorem retention_effect:
  "\<exists>r r' w' r2 w2.
     apply_retention s now ed ad nd True w = (Inr r, w\<lparr>committed := work w\<rparr>) \<and>
     apply_retention s now ed ad nd False w = (Inr r', w') \<and>
     apply_retention s now ed ad nd False w' = (Inr r2, w2) \<and>
     r' = r\<lparr>rr_dry_run := False\<rparr> \<and> committed w' = work w' \<and>
     rows (job_executions (work w')) = filter (\<lambda>x. \<not> (0 < rr_execution_days r \<and> older now (rr_execution_days r) x))
       (rows (job_executions (work w))) \<and>
     rows (audit_logs (work w')) = filter (\<lambda>x. \<not> (0 < rr_audit_days r \<and> older now (rr_audit_days r) x))
       (rows (audit_logs (work w))) \<and>
     rows (notifications (work w')) = filter (\<lambda>x. \<not> (0 < rr_notification_days r \<and> older now (rr_notification_days r) x))
       (rows (notifications (work w))) \<and>
     rr_executions_purged r2 = 0 \<and> rr_audit_purged r2 = 0 \<and> rr_notifications_purged r2 = 0"
proof -
  have rows: "rows (snd (apply_purge now False days t)) = filter (\<lambda>x. \<not> (0 < days \<and> older now days x)) (rows t)"
    for days and t :: "'b table"
    by (auto simp: apply_purge_def purge_def)
  show ?thesis
    by (simp add: apply_retention_def Let_def op_simps purging.dry rows purging.idempotent_count
        purging.dry_run_predicts)
qed

end
