(* ===== verification/Admin.thy ===== *)
theory Admin
  imports Settings_Store Retention
begin

text \<open>
  \<open>app/services/maintenance_service.py\<close> and the administration endpoints of
  \<open>app/api/v1/settings.py\<close>, with the route table of that router: FastAPI takes the first
  route, in the order of declaration, whose method and path pattern match.
\<close>

section \<open>Maintenance mode\<close>

definition MAINTENANCE_KEY :: string where
  "MAINTENANCE_KEY = ''maintenance.mode''"

definition last_window :: "db \<Rightarrow> maintenance_window option" where
  "last_window d = (case rev (rows (maintenance_windows d)) of [] \<Rightarrow> None | w # _ \<Rightarrow> Some (rval w))"

definition is_maintenance :: "datetime \<Rightarrow> bool wop" where
  "is_maintenance now =
     bnd (db_get (setting_row MAINTENANCE_KEY)) (\<lambda>row.
     case row of
       None \<Rightarrow> ret False
     | Some r \<Rightarrow>
         if as_value (rval r) = Some ''true'' then
           bnd (db_get (\<lambda>d. case last_window d of
                   Some m \<Rightarrow> (case mw_scheduled_end m of Some t \<Rightarrow> t < now | None \<Rightarrow> False)
                 | None \<Rightarrow> False)) (\<lambda>ended.
           if ended then
             bnd (db_mod (app_settings_update (tbl_upd now (rid r) (\<lambda>s. s\<lparr>as_value := Some ''false''\<rparr>)))) (\<lambda>_.
             bnd commit (\<lambda>_. ret False))
           else ret True)
         else ret False)"

record maintenance_status =
  ms_active :: bool
  ms_reason :: "string option"
  ms_scheduled_end :: "datetime option"
  ms_renewals :: bool
  ms_deployments :: bool
  ms_notifications :: bool
  ms_imports :: bool
  ms_background_jobs :: bool

definition get_status :: "db \<Rightarrow> maintenance_status" where
  "get_status d =
     (let active = (case setting_row MAINTENANCE_KEY d of
            Some r \<Rightarrow> as_value (rval r) = Some ''true'' | None \<Rightarrow> False);
          w = last_window d;
          pick = (\<lambda>f. case w of Some m \<Rightarrow> f m | None \<Rightarrow> active) in
      \<lparr>ms_active = active,
       ms_reason = (case w of Some m \<Rightarrow> mw_reason m | None \<Rightarrow> None),
       ms_scheduled_end = (case w of Some m \<Rightarrow> mw_scheduled_end m | None \<Rightarrow> None),
       ms_renewals = pick mw_pause_renewals, ms_deployments = pick mw_pause_deployments,
       ms_notifications = pick mw_pause_notifications, ms_imports = pick mw_pause_imports,
       ms_background_jobs = pick mw_pause_background_jobs\<rparr>)"

definition pause_flag :: "(string \<times> bool) list \<Rightarrow> string \<Rightarrow> bool" where
  "pause_flag pauses key = (case map_of pauses key of Some b \<Rightarrow> b | None \<Rightarrow> True)"

definition set_maintenance ::
    "datetime \<Rightarrow> bool \<Rightarrow> string option \<Rightarrow> datetime option \<Rightarrow> (string \<times> bool) list \<Rightarrow> int option
      \<Rightarrow> maintenance_status wop" where
  "set_maintenance now active reason scheduled_end pauses created_by =
     bnd (db_get (setting_row MAINTENANCE_KEY)) (\<lambda>row.
     bnd (when_op (row = None) (db_mod (app_settings_update (\<lambda>t. snd (tbl_add now
            \<lparr>as_key = MAINTENANCE_KEY, as_value = None, as_is_secret = False,
             as_description = Some ''Global maintenance mode'', as_updated_by = None\<rparr> t))))) (\<lambda>_.
     bnd (db_get (setting_row MAINTENANCE_KEY)) (\<lambda>row2.
     bnd (case row2 of
            None \<Rightarrow> fail AttributeError ''value''
          | Some r \<Rightarrow> db_mod (app_settings_update (tbl_upd now (rid r) (\<lambda>s. s\<lparr>
              as_value := Some (if active then ''true'' else ''false''), as_updated_by := created_by\<rparr>)))) (\<lambda>_.
     bnd (when_op active (db_mod (maintenance_windows_update (\<lambda>t. snd (tbl_add now
            \<lparr>mw_reason = Some (str_or reason ''Scheduled maintenance''),
             mw_pause_renewals = pause_flag pauses ''pause_renewals'',
             mw_pause_deployments = pause_flag pauses ''pause_deployments'',
             mw_pause_notifications = pause_flag pauses ''pause_notifications'',
             mw_pause_imports = pause_flag pauses ''pause_imports'',
             mw_pause_background_jobs = pause_flag pauses ''pause_background_jobs'',
             mw_scheduled_end = scheduled_end, mw_created_by = created_by\<rparr> t))))) (\<lambda>_.
     bnd commit (\<lambda>_.
     db_get get_status))))))"

definition ensure_not_maintenance :: "datetime \<Rightarrow> string \<Rightarrow> unit wop" where
  "ensure_not_maintenance now operation =
     bnd (is_maintenance now) (\<lambda>m.
     if m then fail MaintenanceModeError (''Platform is in maintenance mode - '' @ operation @ '' paused'')
     else ret ())"

section \<open>Endpoints\<close>

record api_user =
  au_id :: int
  au_username :: string
  au_role :: string

definition require_admin :: "api_user \<Rightarrow> string \<Rightarrow> unit wop" where
  "require_admin user message =
     (if au_role user \<noteq> ''administrator'' then fail PermissionDeniedError message else ret ())"

definition audit_admin ::
    "(string \<Rightarrow> string) \<Rightarrow> datetime \<Rightarrow> string \<Rightarrow> api_user \<Rightarrow> (string \<times> string) option \<Rightarrow> string option
      \<Rightarrow> string option \<Rightarrow> dict \<Rightarrow> unit wop" where
  "audit_admin rd now action user resource ip agent details =
     record_audit rd now ((audit_defaults action)\<lparr>aa_user_id := Some (au_id user),
       aa_username := Some (au_username user), aa_resource_type := map_option fst resource,
       aa_resource_id := map_option snd resource, aa_result := AuditResult.SUCCESS,
       aa_ip_address := ip, aa_user_agent := agent, aa_details := details\<rparr>)"

definition put_setting ::
    "crypto \<Rightarrow> string \<Rightarrow> (string \<Rightarrow> string) \<Rightarrow> datetime \<Rightarrow> api_user \<Rightarrow> string option \<Rightarrow> string option
      \<Rightarrow> string \<Rightarrow> string option \<Rightarrow> bool option \<Rightarrow> bool wop" where
  "put_setting k iv rd now user ip agent key value is_secret =
     bnd (require_admin user ''Only administrators can change settings'') (\<lambda>_.
     bnd (catch_op (set_setting k iv now key value (Some (au_id user)) is_secret)
            (\<lambda>e. if exc_of e = ValueError then fail ValidationAppError (exc_msg e) else throw e)) (\<lambda>_.
     bnd (db_get (\<lambda>d. case setting_row key d of Some r \<Rightarrow> as_is_secret (rval r) | None \<Rightarrow> False)) (\<lambda>sec.
     bnd (audit_admin rd now ''settings.update'' user (Some (''setting'', key)) ip agent
            [(''key'', JStr key), (''is_secret'', JBool sec)]) (\<lambda>_.
     ret sec))))"

definition get_secret_metadata :: "api_user \<Rightarrow> string \<Rightarrow> bool wop" where
  "get_secret_metadata user key =
     bnd (require_admin user ''Only administrators can inspect secret settings'') (\<lambda>_.
     db_get (\<lambda>d. case setting_row key d of Some r \<Rightarrow> truthy (as_value (rval r)) | None \<Rightarrow> False))"

definition get_retention :: "settings \<Rightarrow> api_user \<Rightarrow> retention_counts wop" where
  "get_retention s user =
     bnd (require_admin user ''Only administrators can view retention settings'') (\<lambda>_.
     db_get (retention_status s))"

definition run_retention ::
    "settings \<Rightarrow> (string \<Rightarrow> string) \<Rightarrow> datetime \<Rightarrow> api_user \<Rightarrow> string option \<Rightarrow> string option \<Rightarrow> bool
      \<Rightarrow> retention_result wop" where
  "run_retention s rd now user ip agent dry_run =
     bnd (require_admin user ''Only administrators can run retention'') (\<lambda>_.
     bnd (apply_retention s now None None None dry_run) (\<lambda>r.
     bnd (audit_admin rd now ''maintenance.retention'' user None ip agent
            [(''dry_run'', JBool dry_run),
             (''execution_retention_days'', JInt (rr_execution_days r)),
             (''audit_retention_days'', JInt (rr_audit_days r)),
             (''notification_retention_days'', JInt (rr_notification_days r)),
             (''executions_purged'', JInt (int (rr_executions_purged r))),
             (''audit_purged'', JInt (int (rr_audit_purged r))),
             (''notifications_purged'', JInt (int (rr_notifications_purged r)))]) (\<lambda>_.
     ret r)))"

text \<open>\<open>parse_iso\<close> is \<^verbatim>\<open>datetime.fromisoformat\<close>.\<close>

definition put_maintenance ::
    "(string \<Rightarrow> datetime option) \<Rightarrow> (string \<Rightarrow> string) \<Rightarrow> datetime \<Rightarrow> api_user \<Rightarrow> string option \<Rightarrow> string option
      \<Rightarrow> bool \<Rightarrow> string option \<Rightarrow> string option \<Rightarrow> (string \<times> bool) list \<Rightarrow> maintenance_status wop" where
  "put_maintenance parse_iso rd now user ip agent active reason scheduled_end pauses =
     bnd (require_admin user ''Only administrators can toggle maintenance mode'') (\<lambda>_.
     bnd (if truthy scheduled_end then
            (case parse_iso (str_or scheduled_end []) of
               None \<Rightarrow> fail ValidationAppError ''scheduled_end must be ISO-8601''
             | Some t \<Rightarrow> ret (Some t))
          else ret None) (\<lambda>se.
     bnd (set_maintenance now active reason se pauses (Some (au_id user))) (\<lambda>st.
     bnd (audit_admin rd now ''maintenance.set'' user None ip agent [(''active'', JBool active)]) (\<lambda>_.
     ret st))))"

section \<open>Routing\<close>

datatype segment = Lit string | Var

datatype settings_handler =
    Get_settings | Put_setting | Get_secret_metadata | Get_retention | Run_retention
  | Get_maintenance | Put_maintenance

fun seg_match :: "segment list \<Rightarrow> string list \<Rightarrow> string list option" where
  "seg_match [] [] = Some []"
| "seg_match (Lit l # ps) (x # xs) = (if x = l then seg_match ps xs else None)"
| "seg_match (Var # ps) (x # xs) =
     (if x = [] then None else map_option ((#) x) (seg_match ps xs))"
| "seg_match _ _ = None"

fun route_match :: "(string \<times> segment list \<times> 'h) list \<Rightarrow> string \<Rightarrow> string list \<Rightarrow> ('h \<times> string list) option" where
  "route_match [] method path = None"
| "route_match ((m, pat, h) # rs) method path =
     (case (if m = method then seg_match pat path else None) of
        Some args \<Rightarrow> Some (h, args)
      | None \<Rightarrow> route_match rs method path)"

text \<open>The routes in the order of the source, as path segments below the prefix.\<close>

definition settings_routes :: "(string \<times> segment list \<times> settings_handler) list" where
  "settings_routes = [
     (''GET'', [], Get_settings),
     (''PUT'', [Var], Put_setting),
     (''GET'', [Lit ''secrets'', Var], Get_secret_metadata),
     (''GET'', [Lit ''retention''], Get_retention),
     (''POST'', [Lit ''retention'', Lit ''run''], Run_retention),
     (''GET'', [Lit ''maintenance''], Get_maintenance),
     (''PUT'', [Lit ''maintenance''], Put_maintenance)]"

section \<open>Facts\<close>

lemma ensure_not_maintenance_flag:
  assumes "setting_row MAINTENANCE_KEY (work w) = Some r" "as_value (rval r) = Some ''true''"
    and "case last_window (work w) of Some m \<Rightarrow> (case mw_scheduled_end m of Some t \<Rightarrow> \<not> t < now | None \<Rightarrow> True) | None \<Rightarrow> True"
  shows "ensure_not_maintenance now op' w =
    (Inl (Exn MaintenanceModeError (''Platform is in maintenance mode - '' @ op' @ '' paused'') None), w)"
  using assms by (auto simp: ensure_not_maintenance_def is_maintenance_def bnd_def op_simps split: option.splits)

lemma setting_row_windows: "setting_row key (maintenance_windows_update f d) = setting_row key d"
  by (simp add: setting_row_def)

lemma set_maintenance_result:
  assumes wf: "wf_table (app_settings (work w))"
  shows "\<exists>w' r st. set_maintenance now active reason se pauses uid w = (Inr st, w') \<and> committed w' = work w' \<and>
    setting_row MAINTENANCE_KEY (work w') = Some r \<and>
    as_value (rval r) = Some (if active then ''true'' else ''false'') \<and>
    (active \<longrightarrow> (\<exists>m. last_window (work w') = Some m \<and> mw_scheduled_end m = se))"
proof (cases "setting_row MAINTENANCE_KEY (work w)")
  case None
  let ?s = "\<lparr>as_key = MAINTENANCE_KEY, as_value = None, as_is_secret = False,
    as_description = Some ''Global maintenance mode'', as_updated_by = None\<rparr>"
  let ?d = "app_settings_update (\<lambda>t. snd (tbl_add now ?s t)) (work w)"
  have "setting_row MAINTENANCE_KEY ?d = Some \<lparr>rid = next_id (app_settings (work w)), created_at = now, updated_at = now, rval = ?s\<rparr>"
    using None by (simp add: setting_row_add)
  note u = setting_row_upd [OF _ this, of _ _ now]
  show ?thesis using None wf u
    by (cases active) (auto simp: set_maintenance_def when_op_def op_simps setting_row_add last_window_def rows_add setting_row_windows)
next
  case (Some x)
  note u = setting_row_upd [OF wf Some, of _ _ now]
  show ?thesis using Some u
    by (cases active) (auto simp: set_maintenance_def when_op_def op_simps last_window_def rows_add setting_row_windows)
qed

text \<open>While maintenance mode is on and its scheduled end has not passed, every guarded
  operation is refused, whatever the pause flags of the window say; switching it off lets
  every operation through.\<close>

theorem maintenance_guard:
  assumes wf: "wf_table (app_settings (work w))"
    and t: "case se of None \<Rightarrow> True | Some t \<Rightarrow> now2 \<le> t"
  shows "\<exists>st w'. set_maintenance now active reason se pauses uid w = (Inr st, w') \<and>
    ensure_not_maintenance now2 operation w' =
      (if active then Inl (Exn MaintenanceModeError (''Platform is in maintenance mode - '' @ operation @ '' paused'') None)
       else Inr (), w')"
proof -
  from set_maintenance_result [OF wf, of now active reason se pauses uid] obtain w' r st where r:
    "set_maintenance now active reason se pauses uid w = (Inr st, w')"
    "setting_row MAINTENANCE_KEY (work w') = Some r"
    "as_value (rval r) = Some (if active then ''true'' else ''false'')"
    "active \<longrightarrow> (\<exists>m. last_window (work w') = Some m \<and> mw_scheduled_end m = se)" by blast
  have "ensure_not_maintenance now2 operation w' =
      (if active then Inl (Exn MaintenanceModeError (''Platform is in maintenance mode - '' @ operation @ '' paused'') None)
       else Inr (), w')"
    using r(2-4) t
    by (auto simp: ensure_not_maintenance_def is_maintenance_def bnd_def op_simps split: option.splits)
  with r(1) show ?thesis by blast
qed

text \<open>No request reaches the endpoint that switches maintenance mode: \<open>PUT\<close> on its path is
  taken by the earlier route for a setting named \<open>maintenance\<close>, which no user may write.\<close>

theorem maintenance_route_shadowed:
  "route_match settings_routes method path \<noteq> Some (Put_maintenance, args) \<and>
   route_match settings_routes ''PUT'' [''maintenance''] = Some (Put_setting, [''maintenance'']) \<and>
   (\<exists>e. put_setting k iv rd now user ip agent ''maintenance'' v sec w = (Inl e, w) \<and>
      exc_of e \<in> {ValidationAppError, PermissionDeniedError})"
proof -
  have "route_match settings_routes method path \<noteq> Some (Put_maintenance, args)"
    by (cases path rule: remdups_adj.cases)
      (auto simp: settings_routes_def split: if_splits option.splits)
  moreover have "default_of ''maintenance'' = None"
    by (simp add: default_of_def DEFAULT_SETTINGS_def)
  then have "\<exists>e. put_setting k iv rd now user ip agent ''maintenance'' v sec w = (Inl e, w) \<and>
      exc_of e \<in> {ValidationAppError, PermissionDeniedError}"
    by (simp add: put_setting_def require_admin_def set_setting_def bnd_def catch_op_def op_simps)
  ultimately show ?thesis by (simp add: settings_routes_def)
qed

end
