(* ===== verification/Cert_Requests.thy ===== *)
theory Cert_Requests
  imports Storage Notifications
begin

text \<open>
  First part of \<open>app/services/certificate_service.py\<close>: the context of the lifecycle
  operations, reading and updating certificate rows, and the construction of an issuance
  request from a payload or from the persisted row (\<open>build_issue_request\<close>,
  \<open>_resolve_hooks\<close>, the reconstruction in \<open>_execute_issuance\<close>).  Certificate authorities
  (\<open>providers/base.py\<close>) are functions on the file system found through a registry, and
  X.509 parsing is a record of functions: both are arguments.
\<close>

section \<open>Interfaces\<close>

record x509_meta =
  m_subject :: string
  m_issuer :: string
  m_serial_number :: string
  m_fingerprint_sha256 :: string
  m_public_key_algorithm :: string
  m_key_type :: string
  m_key_size :: "int option"
  m_signature_algorithm :: string
  m_valid_from :: datetime
  m_valid_until :: datetime
  m_is_wildcard :: bool
  m_sans :: "string list"

text \<open>Parsing: a certificate, the PEM blocks of a chain, a PKCS#12 file (certificate, key and
  further certificates as PEM), and whether a key, loaded with a password, fits a
  certificate.\<close>

record x509 =
  parse_certificate :: "string \<Rightarrow> exn + x509_meta"
  parse_chain_pem :: "string \<Rightarrow> exn + string list"
  parse_pfx :: "string \<Rightarrow> string option \<Rightarrow> exn + (string \<times> string \<times> string list)"
  key_matches :: "string \<Rightarrow> string \<Rightarrow> string option \<Rightarrow> exn + bool"

record issue_request =
  q_domains :: "string list"
  q_email :: string
  q_key_type :: string
  q_validation_method :: string
  q_environment :: string
  q_staging :: bool
  q_dry_run :: bool
  q_webroot_path :: "string option"
  q_standalone_port :: "int option"
  q_auth_hook :: "string option"
  q_cleanup_hook :: "string option"
  q_hook_env :: "(string \<times> string) list"
  q_hook_execution_user :: "string option"
  q_hook_working_directory :: "string option"
  q_hook_timeout :: int
  q_ssh_private_key_encrypted :: "string option"
  q_ssh_target_host :: "string option"
  q_cert_name :: "string option"
  q_extra :: dict

record issue_result =
  ir_success :: bool
  ir_cert_path :: "string option"
  ir_key_path :: "string option"
  ir_chain_path :: "string option"
  ir_fullchain_path :: "string option"
  ir_cert_name :: "string option"
  ir_exit_code :: "int option"
  ir_stdout :: string
  ir_stderr :: string
  ir_duration_ms :: int
  ir_error :: "string option"

record renew_result =
  rr_success :: bool
  rr_renewed :: bool
  rr_cert_path :: "string option"
  rr_key_path :: "string option"
  rr_chain_path :: "string option"
  rr_fullchain_path :: "string option"
  rr_exit_code :: "int option"
  rr_stdout :: string
  rr_stderr :: string
  rr_duration_ms :: int
  rr_error :: "string option"

record revoke_result =
  vr_success :: bool
  vr_stdout :: string
  vr_stderr :: string
  vr_exit_code :: "int option"
  vr_error :: "string option"

type_synonym fs = "string \<rightharpoonup> string"

record provider =
  pv_issue :: "issue_request \<Rightarrow> fs \<Rightarrow> (exn + issue_result) \<times> fs"
  pv_renew :: "string \<Rightarrow> bool \<Rightarrow> bool \<Rightarrow> fs \<Rightarrow> (exn + renew_result) \<times> fs"
  pv_revoke :: "string \<Rightarrow> string \<Rightarrow> fs \<Rightarrow> (exn + revoke_result) \<times> fs"

record ctx =
  cx_cfg :: settings
  cx_kc :: crypto
  cx_nt :: net
  cx_rdf :: "string \<Rightarrow> string"
  cx_x5 :: x509
  cx_registry :: "string \<Rightarrow> string option \<Rightarrow> provider option"
  cx_ivf :: string

type_synonym actor = "(int \<times> string) option"

section \<open>Rows\<close>

definition get_certificate :: "int \<Rightarrow> certificate wop" where
  "get_certificate i = bnd (db_get (\<lambda>d. tbl_get i (certificates d))) (\<lambda>c.
     case c of
       None \<Rightarrow> fail NotFoundError (''Certificate '' @ str_int i @ '' not found'')
     | Some x \<Rightarrow> ret x)"

definition upd_cert :: "datetime \<Rightarrow> int \<Rightarrow> (certificate \<Rightarrow> certificate) \<Rightarrow> unit wop" where
  "upd_cert now i f = db_mod (certificates_update (tbl_upd now i f))"

definition upd_job :: "datetime \<Rightarrow> int \<Rightarrow> (job_execution \<Rightarrow> job_execution) \<Rightarrow> unit wop" where
  "upd_job now i f = db_mod (job_executions_update (tbl_upd now i f))"

definition add_job :: "datetime \<Rightarrow> job_execution \<Rightarrow> int wop" where
  "add_job now j =
     bnd (db_get (\<lambda>d. next_id (job_executions d))) (\<lambda>i.
     bnd (db_mod (job_executions_update (\<lambda>t. snd (tbl_add now j t)))) (\<lambda>_. ret i))"

definition new_job :: "JobType \<Rightarrow> int option \<Rightarrow> JobTrigger \<Rightarrow> JobStatus \<Rightarrow> datetime \<Rightarrow> actor \<Rightarrow> job_execution" where
  "new_job ty cid trigger st now user = \<lparr>
     j_job_type = ty, j_certificate_id = cid, j_server_id = None, j_task_id = None,
     j_trigger = trigger, j_status = st, j_exit_code = None, j_stdout = None, j_stderr = None,
     j_error_message = None, j_execution_time_ms = None, j_started_at = Some now,
     j_finished_at = None, j_log_path = None, j_retry_count = 0, j_metadata = [],
     j_created_by = map_option fst user\<rparr>"

text \<open>The audit entry of a lifecycle action, and \<open>_notify\<close>, which swallows every exception.\<close>

definition audit_cert ::
    "ctx \<Rightarrow> datetime \<Rightarrow> string \<Rightarrow> actor \<Rightarrow> int \<Rightarrow> AuditResult \<Rightarrow> int option \<Rightarrow> dict \<Rightarrow> unit wop" where
  "audit_cert cx now action user cid res ms details =
     record_audit (cx_rdf cx) now ((audit_defaults action)\<lparr>
       aa_user_id := map_option fst user, aa_username := map_option snd user,
       aa_resource_type := Some ''certificate'', aa_resource_id := Some (str_int cid),
       aa_result := res, aa_duration_ms := ms, aa_details := details\<rparr>)"

definition notify :: "ctx \<Rightarrow> datetime \<Rightarrow> string \<Rightarrow> int \<Rightarrow> unit wop" where
  "notify cx now event cid =
     bnd (db_get (\<lambda>d. tbl_get cid (certificates d))) (\<lambda>c.
     catch_op (queue_event_notifications (cx_nt cx) (cx_kc cx) now event (map_option (Pair cid) c) [])
              (\<lambda>_. ret ()))"

record cert_update =
  cu_auto_renew :: "bool option"
  cu_environment :: "string option"
  cu_owner_id :: "int option"
  cu_notes :: "string option"

definition change_entry :: "('a \<Rightarrow> json) \<Rightarrow> string \<Rightarrow> 'a \<Rightarrow> 'a option \<Rightarrow> dict" where
  "change_entry js key old new =
     (case new of
        None \<Rightarrow> []
      | Some v \<Rightarrow> if v = old then [] else [(key, JObj [(''old'', js old), (''new'', js v)])])"

definition int_json :: "int option \<Rightarrow> json" where
  "int_json v = (case v of None \<Rightarrow> JNull | Some i \<Rightarrow> JInt i)"

definition update_certificate :: "ctx \<Rightarrow> datetime \<Rightarrow> int \<Rightarrow> cert_update \<Rightarrow> actor \<Rightarrow> certificate wop" where
  "update_certificate cx now i p user =
     bnd (get_certificate i) (\<lambda>c.
     bnd (db_get (\<lambda>d. case cu_owner_id p of None \<Rightarrow> True | Some o' \<Rightarrow> tbl_get o' (users d) \<noteq> None)) (\<lambda>owner_ok.
       if \<not> owner_ok then
         fail ValidationAppError (''No such user: '' @ (case cu_owner_id p of None \<Rightarrow> [] | Some o' \<Rightarrow> str_int o'))
       else
         let changed =
           change_entry JBool ''auto_renew'' (c_auto_renew c) (cu_auto_renew p) @
           change_entry JStr ''environment'' (c_environment c) (cu_environment p) @
           change_entry int_json ''owner_id'' (c_owner_id c) (map_option Some (cu_owner_id p)) @
           change_entry opt_json ''notes'' (c_notes c) (map_option Some (cu_notes p)) in
         bnd (when_op (changed \<noteq> [])
               (bnd (upd_cert now i (\<lambda>c. c\<lparr>
                   c_auto_renew := (case cu_auto_renew p of None \<Rightarrow> c_auto_renew c | Some v \<Rightarrow> v),
                   c_environment := (case cu_environment p of None \<Rightarrow> c_environment c | Some v \<Rightarrow> v),
                   c_owner_id := (case cu_owner_id p of None \<Rightarrow> c_owner_id c | Some v \<Rightarrow> Some v),
                   c_notes := (case cu_notes p of None \<Rightarrow> c_notes c | Some v \<Rightarrow> Some v)\<rparr>)) (\<lambda>_.
                bnd commit (\<lambda>_.
                audit_cert cx now ''certificate.update'' user i AuditResult.SUCCESS None
                  [(''changed'', JObj changed)])))) (\<lambda>_.
         get_certificate i)))"

section \<open>Issuance requests\<close>

record issue_payload =
  ip_domains :: "string list"
  ip_validation_method :: "string option"
  ip_email :: "string option"
  ip_key_type :: "string option"
  ip_environment :: "string option"
  ip_staging :: "bool option"
  ip_dry_run :: "bool option"
  ip_webroot_path :: "string option"
  ip_standalone_port :: "int option"
  ip_auth_hook :: "string option"
  ip_cleanup_hook :: "string option"
  ip_auth_hook_id :: "int option"
  ip_cleanup_hook_id :: "int option"
  ip_hook_env :: "(string \<times> string) list"
  ip_cert_name :: "string option"
  ip_provider :: "string option"
  ip_auto_renew :: "bool option"
  ip_owner_id :: "int option"
  ip_notes :: "string option"
  ip_tags :: "string list"
  ip_extra :: dict

definition empty_payload :: issue_payload where
  "empty_payload = \<lparr>ip_domains = [], ip_validation_method = None, ip_email = None,
     ip_key_type = None, ip_environment = None, ip_staging = None, ip_dry_run = None,
     ip_webroot_path = None, ip_standalone_port = None, ip_auth_hook = None,
     ip_cleanup_hook = None, ip_auth_hook_id = None, ip_cleanup_hook_id = None, ip_hook_env = [],
     ip_cert_name = None, ip_provider = None, ip_auto_renew = None, ip_owner_id = None,
     ip_notes = None, ip_tags = [], ip_extra = []\<rparr>"

definition or_default :: "'a option \<Rightarrow> 'a \<Rightarrow> 'a" where
  "or_default v d = (case v of None \<Rightarrow> d | Some x \<Rightarrow> x)"

text \<open>Truth of an optional identifier: \<open>None\<close> and 0 are falsy.\<close>

definition id_truthy :: "int option \<Rightarrow> bool" where
  "id_truthy v \<longleftrightarrow> v \<noteq> None \<and> v \<noteq> Some 0"

definition HOOKED_METHODS :: "string list" where
  "HOOKED_METHODS = [''custom'', ''manual-dns'', ''manual-http'']"

definition resolve_key_type :: "string \<Rightarrow> exn + string" where
  "resolve_key_type kt =
     (if kt \<in> set [''rsa2048'', ''rsa4096'', ''ecdsa_p256'', ''ecdsa_p384''] then Inr kt
      else raises ValidationAppError (''Unsupported key type: '' @ kt))"

definition cert_type_for :: "string list \<Rightarrow> CertificateType" where
  "cert_type_for domains =
     (if list_ex (\<lambda>d. py_startswith d ''*.'') domains then CertificateType.WILDCARD
      else if 1 < length domains then CertificateType.MULTI
      else CertificateType.SINGLE)"

record resolved_hooks =
  rh_auth_hook :: "string option"
  rh_cleanup_hook :: "string option"
  rh_env :: "(string \<times> string) list"
  rh_execution_user :: "string option"
  rh_working_directory :: "string option"
  rh_timeout_seconds :: int
  rh_ssh_private_key_encrypted :: "string option"
  rh_ssh_target_host :: "string option"

definition find_hook :: "int option \<Rightarrow> db \<Rightarrow> hook option" where
  "find_hook i d =
     (case i of
        None \<Rightarrow> None
      | Some h \<Rightarrow> map_option rval (tbl_first (\<lambda>w. rid w = h \<and> h_is_active (rval w)) (hooks d)))"

definition resolve_hooks :: "issue_payload \<Rightarrow> db \<Rightarrow> exn + resolved_hooks option" where
  "resolve_hooks p d =
     (let auth_row = (if id_truthy (ip_auth_hook_id p) then find_hook (ip_auth_hook_id p) d else None);
          cleanup_row = (if id_truthy (ip_cleanup_hook_id p) then find_hook (ip_cleanup_hook_id p) d else None) in
      if id_truthy (ip_auth_hook_id p) \<and> auth_row = None
      then raises NotFoundError ''Authentication hook not found''
      else if id_truthy (ip_cleanup_hook_id p) \<and> cleanup_row = None
      then raises NotFoundError ''Cleanup hook not found''
      else
        let auth_hook = (case auth_row of Some h \<Rightarrow> Some (h_script_path h) | None \<Rightarrow> ip_auth_hook p);
            cleanup_hook = (case cleanup_row of Some h \<Rightarrow> Some (h_script_path h) | None \<Rightarrow> ip_cleanup_hook p) in
        if \<not> truthy auth_hook \<and> \<not> truthy cleanup_hook then Inr None
        else
          let env1 = (case auth_row of Some h \<Rightarrow> dict_update [] (h_env_vars h) | None \<Rightarrow> []);
              env2 = (case cleanup_row of Some h \<Rightarrow> dict_update env1 (h_env_vars h) | None \<Rightarrow> env1);
              hook_row = (if auth_row \<noteq> None then auth_row else cleanup_row);
              ssh_row = (case auth_row of
                  Some h \<Rightarrow> if truthy (h_ssh_private_key_encrypted h) then auth_row else cleanup_row
                | None \<Rightarrow> cleanup_row) in
          Inr (Some \<lparr>rh_auth_hook = auth_hook, rh_cleanup_hook = cleanup_hook,
            rh_env = dict_update env2 (ip_hook_env p),
            rh_execution_user = (case hook_row of Some h \<Rightarrow> h_execution_user h | None \<Rightarrow> None),
            rh_working_directory = (case hook_row of Some h \<Rightarrow> h_working_directory h | None \<Rightarrow> None),
            rh_timeout_seconds = (case hook_row of Some h \<Rightarrow> h_timeout_seconds h | None \<Rightarrow> 300),
            rh_ssh_private_key_encrypted =
              (case ssh_row of Some h \<Rightarrow> h_ssh_private_key_encrypted h | None \<Rightarrow> None),
            rh_ssh_target_host = (case ssh_row of Some h \<Rightarrow> h_ssh_target_host h | None \<Rightarrow> None)\<rparr>))"

definition no_hooks :: resolved_hooks where
  "no_hooks = \<lparr>rh_auth_hook = None, rh_cleanup_hook = None, rh_env = [],
     rh_execution_user = None, rh_working_directory = None, rh_timeout_seconds = 300,
     rh_ssh_private_key_encrypted = None, rh_ssh_target_host = None\<rparr>"

definition uses_hooks :: "string \<Rightarrow> issue_payload \<Rightarrow> bool" where
  "uses_hooks method p \<longleftrightarrow>
     method \<in> set HOOKED_METHODS \<or> id_truthy (ip_auth_hook_id p) \<or> id_truthy (ip_cleanup_hook_id p)"

definition build_issue_request ::
    "settings \<Rightarrow> issue_payload \<Rightarrow> string option \<Rightarrow> db \<Rightarrow> exn + issue_request" where
  "build_issue_request s p cert_name d =
     (case validate_domain_list True (ip_domains p) of Inl e \<Rightarrow> Inl e | Inr domains \<Rightarrow>
      (let method = or_default (ip_validation_method p) ''http-01'' in
       if method \<notin> set (enum_values ValidationMethod_members ValidationMethod_value)
       then raises ValidationAppError (''Invalid validation method: '' @ method)
       else
       let email = str_or (ip_email p) (default_letsencrypt_email s) in
       case validate_email email of Inl e \<Rightarrow> Inl e | Inr _ \<Rightarrow>
       (case (if uses_hooks method p then resolve_hooks p d else Inr None) of Inl e \<Rightarrow> Inl e | Inr ho \<Rightarrow>
       (let h = (case ho of None \<Rightarrow> no_hooks | Some x \<Rightarrow> x) in
       case resolve_key_type (or_default (ip_key_type p) ''rsa2048'') of Inl e \<Rightarrow> Inl e | Inr kt \<Rightarrow>
       Inr \<lparr>q_domains = domains, q_email = email, q_key_type = kt, q_validation_method = method,
         q_environment = or_default (ip_environment p) (default_environment s),
         q_staging = or_default (ip_staging p) (default_staging s),
         q_dry_run = or_default (ip_dry_run p) False,
         q_webroot_path = ip_webroot_path p, q_standalone_port = ip_standalone_port p,
         q_auth_hook = rh_auth_hook h, q_cleanup_hook = rh_cleanup_hook h, q_hook_env = rh_env h,
         q_hook_execution_user = rh_execution_user h,
         q_hook_working_directory = rh_working_directory h,
         q_hook_timeout = rh_timeout_seconds h,
         q_ssh_private_key_encrypted = rh_ssh_private_key_encrypted h,
         q_ssh_target_host = rh_ssh_target_host h, q_cert_name = cert_name,
         q_extra = ip_extra p\<rparr>))))"

text \<open>\<^verbatim>\<open>re.sub(r"[^A-Za-z0-9_.-]", "-", domains[0].lstrip("*."))[:120]\<close>\<close>

definition default_cert_name :: "string list \<Rightarrow> exn + string" where
  "default_cert_name domains =
     (case domains of
        [] \<Rightarrow> raises IndexError ''list index out of range''
      | d # _ \<Rightarrow> Inr (take 120 (map (\<lambda>c. if filename_char c then c else CHR ''-'')
                   (lstrip_by (\<lambda>c. c = CHR ''*'' \<or> c = CHR ''.'') d))))"

definition norm_domain :: "string \<Rightarrow> string" where
  "norm_domain d = rstrip_by (\<lambda>c. c = CHR ''.'') (py_lower d)"

text \<open>The row that \<open>issue_certificate\<close> creates; the hook columns hold the resolved hooks.\<close>

definition issue_row ::
    "settings \<Rightarrow> issue_payload \<Rightarrow> string \<Rightarrow> resolved_hooks option \<Rightarrow> actor \<Rightarrow> certificate" where
  "issue_row s p cert_name ho user =
     (let h = (case ho of None \<Rightarrow> no_hooks | Some x \<Rightarrow> x);
          ds = ip_domains p in
      (new_certificate (norm_domain (hd ds)))\<lparr>
        c_cert_name := Some cert_name,
        c_sans := sorted_set (map norm_domain ds),
        c_is_wildcard := list_ex (\<lambda>d. py_startswith d ''*.'') ds,
        c_cert_type := cert_type_for ds,
        c_environment := or_default (ip_environment p) (default_environment s),
        c_provider_name := or_default (ip_provider p) ''letsencrypt'',
        c_validation_method := or_default (ip_validation_method p) ''http-01'',
        c_key_type := or_default (ip_key_type p) ''rsa2048'',
        c_status := CertificateStatus.ISSUING,
        c_auto_renew := or_default (ip_auto_renew p) True,
        c_renewal_status := RenewalStatus.NONE,
        c_staging := or_default (ip_staging p) False,
        c_dry_run := or_default (ip_dry_run p) False,
        c_owner_id := (if id_truthy (ip_owner_id p) then ip_owner_id p else map_option fst user),
        c_notes := ip_notes p,
        c_managed_by_platform := True,
        c_email := ip_email p,
        c_webroot_path := ip_webroot_path p,
        c_standalone_port := ip_standalone_port p,
        c_auth_hook_path := rh_auth_hook h,
        c_cleanup_hook_path := rh_cleanup_hook h,
        c_hook_env := (if rh_env h = [] then None else Some (rh_env h)),
        c_hook_execution_user := rh_execution_user h,
        c_hook_working_directory := rh_working_directory h,
        c_hook_timeout := map_option rh_timeout_seconds ho,
        c_ssh_private_key_encrypted := rh_ssh_private_key_encrypted h,
        c_ssh_target_host := rh_ssh_target_host h\<rparr>)"

text \<open>The asynchronous path: payload and request rebuilt from the row.\<close>

definition reconstruct_payload :: "certificate \<Rightarrow> issue_payload" where
  "reconstruct_payload c = empty_payload\<lparr>
     ip_domains := c_domain c # filter (\<lambda>d. d \<noteq> c_domain c) (c_sans c),
     ip_validation_method := Some (c_validation_method c),
     ip_key_type := Some (c_key_type c),
     ip_environment := Some (c_environment c),
     ip_staging := Some (c_staging c),
     ip_dry_run := Some (c_dry_run c),
     ip_email := c_email c,
     ip_webroot_path := c_webroot_path c,
     ip_standalone_port := c_standalone_port c,
     ip_auth_hook := c_auth_hook_path c,
     ip_cleanup_hook := c_cleanup_hook_path c,
     ip_hook_env := or_default (c_hook_env c) []\<rparr>"

definition restore_hooks :: "certificate \<Rightarrow> issue_request \<Rightarrow> issue_request" where
  "restore_hooks c q =
     (if truthy (c_auth_hook_path c) \<or> truthy (c_cleanup_hook_path c)
      then q\<lparr>q_hook_execution_user := c_hook_execution_user c,
             q_hook_working_directory := c_hook_working_directory c,
             q_hook_timeout := (if id_truthy (c_hook_timeout c) then or_default (c_hook_timeout c) 0
                                else q_hook_timeout q),
             q_ssh_private_key_encrypted := c_ssh_private_key_encrypted c,
             q_ssh_target_host := c_ssh_target_host c\<rparr>
      else q)"

definition issuance_request ::
    "settings \<Rightarrow> certificate \<Rightarrow> issue_payload option \<Rightarrow> db \<Rightarrow> exn + issue_request" where
  "issuance_request s c payload d =
     (let p = (case payload of None \<Rightarrow> reconstruct_payload c | Some x \<Rightarrow> x) in
      case build_issue_request s p (c_cert_name c) d of
        Inl e \<Rightarrow> Inl e
      | Inr q \<Rightarrow>
          let q' = (if payload = None then restore_hooks c q else q) in
          Inr (q'\<lparr>q_email := (if q_email q' = [] then default_letsencrypt_email s else q_email q')\<rparr>))"

end
