(* ===== verification/Cert_Lifecycle.thy ===== *)
theory Cert_Lifecycle
  imports Cert_Requests
begin

text \<open>
  Second part of \<open>app/services/certificate_service.py\<close>: issuing, ingesting material,
  renewing, revoking, deleting and importing certificates, with the commits where the source
  has them, so that what an exception leaves behind is visible.
\<close>

section \<open>Providers\<close>

text \<open>\<open>_provider_for\<close>: an unknown provider raises \<open>KeyError\<close>; a configuration that cannot be
  decrypted is dropped.\<close>

definition provider_for :: "ctx \<Rightarrow> certificate \<Rightarrow> provider wop" where
  "provider_for cx c =
     bnd (db_get (\<lambda>d. tbl_first (\<lambda>w. pr_name (rval w) = c_provider_name c) (providers d))) (\<lambda>row.
       let config = (case row of
             None \<Rightarrow> None
           | Some w \<Rightarrow> if truthy (pr_config_encrypted (rval w))
                       then (case decrypt_secret (cx_kc cx) (str_or (pr_config_encrypted (rval w)) []) of
                               Inl _ \<Rightarrow> None | Inr t \<Rightarrow> Some t)
                       else None) in
       case cx_registry cx (c_provider_name c) config of
         None \<Rightarrow> fail KeyError (c_provider_name c)
       | Some p \<Rightarrow> ret p)"

text \<open>A provider call acts on the file system.\<close>

definition on_fs :: "(fs \<Rightarrow> (exn + 'a) \<times> fs) \<Rightarrow> 'a wop" where
  "on_fs f w = (case f (files w) of (r, fs') \<Rightarrow> (r, w\<lparr>files := fs'\<rparr>))"

section \<open>Material\<close>

text \<open>\<^verbatim>\<open>bytes.replace(sub, b"")\<close> and \<^verbatim>\<open>bytes.strip()\<close>.\<close>

function py_remove :: "string \<Rightarrow> string \<Rightarrow> string" where
  "py_remove sub s =
     (if sub = [] \<or> s = [] then s
      else if py_startswith s sub then py_remove sub (drop (length sub) s)
      else hd s # py_remove sub (tl s))"
  by pat_completeness auto
termination by (relation "measure (\<lambda>(_, s). length s)") auto

declare py_remove.simps [simp del]

definition ascii_space :: "char \<Rightarrow> bool" where
  "ascii_space c \<longleftrightarrow> (let n = (of_char c :: nat) in (9 \<le> n \<and> n \<le> 13) \<or> n = 32)"

definition apply_metadata :: "x509_meta \<Rightarrow> string option \<Rightarrow> certificate \<Rightarrow> certificate" where
  "apply_metadata m cert_name c = c\<lparr>
     c_subject := Some (m_subject m), c_issuer := Some (m_issuer m),
     c_serial_number := Some (m_serial_number m),
     c_fingerprint_sha256 := Some (m_fingerprint_sha256 m),
     c_public_key_algorithm := Some (m_public_key_algorithm m),
     c_key_type := (if m_key_type m \<in> set (enum_values KeyType_members KeyType_value) then m_key_type m
                    else if c_key_type c = [] then m_key_type m else c_key_type c),
     c_key_size := m_key_size m, c_signature_algorithm := Some (m_signature_algorithm m),
     c_valid_from := Some (m_valid_from m), c_valid_until := Some (m_valid_until m),
     c_is_wildcard := m_is_wildcard m \<or> c_is_wildcard c,
     c_sans := (if m_sans m = [] then c_sans c else sorted_set (m_sans m)),
     c_cert_name := (if truthy cert_name then cert_name else c_cert_name c)\<rparr>"

definition ingest_material ::
    "ctx \<Rightarrow> datetime \<Rightarrow> int \<Rightarrow> string option \<Rightarrow> string option \<Rightarrow> string option \<Rightarrow> string option
      \<Rightarrow> string option \<Rightarrow> unit wop" where
  "ingest_material cx now i cert_path key_path chain_path fullchain_path cert_name =
     bnd (opt_exists cert_path) (\<lambda>ex.
     if \<not> ex then fail ValidationAppError (''Issued certificate file missing: '' @ fstr cert_path)
     else
     bnd (fs_read (str_or cert_path [])) (\<lambda>raw.
     bnd (lift_exn (parse_certificate (cx_x5 cx) raw)) (\<lambda>meta.
     let fp = m_fingerprint_sha256 meta; s = cx_cfg cx in
     bnd (fs_write (store_cert_path s fp) raw) (\<lambda>_.
     bnd (upd_cert now i (\<lambda>c. c\<lparr>c_cert_path := Some (store_cert_path s fp)\<rparr>)) (\<lambda>_.
     bnd (opt_exists fullchain_path) (\<lambda>has_fc.
     bnd (when_op has_fc
           (bnd (fs_read (str_or fullchain_path [])) (\<lambda>fc.
            bnd (fs_write (store_fullchain_path s fp) fc) (\<lambda>_.
            upd_cert now i (\<lambda>c. c\<lparr>c_fullchain_path := Some (store_fullchain_path s fp)\<rparr>))))) (\<lambda>_.
     bnd (opt_exists chain_path) (\<lambda>has_ch.
     bnd (if has_ch then
            bnd (fs_read (str_or chain_path [])) (\<lambda>ch.
            bnd (fs_write (store_chain_path s fp) ch) (\<lambda>_.
            upd_cert now i (\<lambda>c. c\<lparr>c_chain_path := Some (store_chain_path s fp)\<rparr>)))
          else if has_fc then
            bnd (fs_read (str_or fullchain_path [])) (\<lambda>fc.
            let chain = py_remove raw fc in
            when_op (strip_by ascii_space chain \<noteq> [])
              (bnd (fs_write (store_chain_path s fp) chain) (\<lambda>_.
               upd_cert now i (\<lambda>c. c\<lparr>c_chain_path := Some (store_chain_path s fp)\<rparr>))))
          else ret ()) (\<lambda>_.
     bnd (opt_exists key_path) (\<lambda>has_key.
     bnd (when_op has_key
           (bnd (fs_read (str_or key_path [])) (\<lambda>pem.
            bnd (write_private_key s (cx_kc cx) (cx_ivf cx) fp pem) (\<lambda>kp.
            upd_cert now i (\<lambda>c. c\<lparr>c_key_path := Some kp\<rparr>))))) (\<lambda>_.
     upd_cert now i (apply_metadata meta cert_name))))))))))))"

section \<open>Issue\<close>

definition tail_log :: "string \<Rightarrow> string option" where
  "tail_log s = Some (last_n 100000 s)"

definition duration_or :: "int \<Rightarrow> int \<Rightarrow> int" where
  "duration_or d elapsed = (if d = 0 then elapsed else d)"

text \<open>The error text of a failed issuance.\<close>

definition issue_error :: "issue_result \<Rightarrow> string" where
  "issue_error r =
     (if truthy (ir_error r) then str_or (ir_error r) []
      else let t = last_n 2000 (py_strip (ir_stderr r)) in
           if t = [] then ''Unknown provider error'' else t)"

text \<open>What follows the call of the provider.\<close>

definition finish_issuance ::
    "ctx \<Rightarrow> datetime \<Rightarrow> int \<Rightarrow> actor \<Rightarrow> int \<Rightarrow> int \<Rightarrow> issue_result \<Rightarrow> unit wop" where
  "finish_issuance cx now i user j ms r =
     (if ir_success r then
       bnd (upd_cert now i (\<lambda>c. c\<lparr>c_status := CertificateStatus.ACTIVE,
              c_renewal_status := RenewalStatus.NONE, c_last_renewed_at := Some now\<rparr>)) (\<lambda>_.
       bnd (ingest_material cx now i (ir_cert_path r) (ir_key_path r) (ir_chain_path r)
              (ir_fullchain_path r) (ir_cert_name r)) (\<lambda>_.
       bnd (upd_job now j (\<lambda>x. x\<lparr>j_status := JobStatus.SUCCESS\<rparr>)) (\<lambda>_.
       bnd (audit_cert cx now ''certificate.issue'' user i AuditResult.SUCCESS (Some ms) []) (\<lambda>_.
       notify cx now ''issued'' i))))
     else
       let err = take 4000 (issue_error r) in
       bnd (upd_cert now i (\<lambda>c. c\<lparr>c_status := CertificateStatus.FAILED,
              c_renewal_status := RenewalStatus.FAILED, c_renewal_error := Some err\<rparr>)) (\<lambda>_.
       bnd (upd_job now j (\<lambda>x. x\<lparr>j_status := JobStatus.FAILED,
              j_error_message := Some err\<rparr>)) (\<lambda>_.
       bnd (audit_cert cx now ''certificate.issue'' user i AuditResult.FAILURE (Some ms)
              [(''error'', opt_json (ir_error r))]) (\<lambda>_.
       notify cx now ''failure'' i))))"

definition execute_issuance ::
    "ctx \<Rightarrow> datetime \<Rightarrow> int \<Rightarrow> int \<Rightarrow> actor \<Rightarrow> JobTrigger \<Rightarrow> issue_payload option \<Rightarrow> int wop" where
  "execute_issuance cx now elapsed i user trigger payload =
     bnd (get_certificate i) (\<lambda>c.
     bnd (add_job now (new_job JobType.ISSUE (Some i) trigger JobStatus.RUNNING now user)) (\<lambda>j.
     bnd commit (\<lambda>_.
     bnd (catch_op (bnd (provider_for cx c) (\<lambda>p. ret (Some p)))
                   (\<lambda>e. if exc_of e = KeyError then ret None else throw e)) (\<lambda>provider.
     case provider of
       None \<Rightarrow>
         let msg = ''Unknown provider: '' @ c_provider_name c in
         bnd (upd_job now j (\<lambda>x. x\<lparr>j_status := JobStatus.FAILED, j_exit_code := Some 127,
                j_stderr := Some msg, j_error_message := Some msg,
                j_execution_time_ms := Some elapsed, j_finished_at := Some now\<rparr>)) (\<lambda>_.
         bnd (upd_cert now i (\<lambda>c. c\<lparr>c_status := CertificateStatus.FAILED,
                c_renewal_status := RenewalStatus.FAILED, c_renewal_error := Some msg\<rparr>)) (\<lambda>_.
         bnd commit (\<lambda>_. ret j)))
     | Some pv \<Rightarrow>
         bnd (db_get (issuance_request (cx_cfg cx) c payload)) (\<lambda>rq.
         bnd (lift_exn rq) (\<lambda>q.
         bnd (on_fs (pv_issue pv q)) (\<lambda>r.
         let ms = duration_or (ir_duration_ms r) elapsed in
         bnd (upd_job now j (\<lambda>x. x\<lparr>j_exit_code := ir_exit_code r, j_stdout := tail_log (ir_stdout r),
                j_stderr := tail_log (ir_stderr r), j_execution_time_ms := Some ms,
                j_finished_at := Some now\<rparr>)) (\<lambda>_.
         bnd (finish_issuance cx now i user j ms r) (\<lambda>_.
         bnd commit (\<lambda>_. ret j))))))))))"

definition add_tag :: "datetime \<Rightarrow> int \<Rightarrow> string \<Rightarrow> unit wop" where
  "add_tag now i name =
     bnd (db_get (\<lambda>d. tbl_first (\<lambda>w. tag_name (rval w) = name) (tags d))) (\<lambda>found.
     bnd (case found of
            Some w \<Rightarrow> ret (rid w)
          | None \<Rightarrow>
              bnd (db_get (\<lambda>d. next_id (tags d))) (\<lambda>t.
              bnd (db_mod (tags_update (\<lambda>tb. snd (tbl_add now \<lparr>tag_name = name, tag_color = ''#3f51b5''\<rparr> tb))))
                (\<lambda>_. ret t))) (\<lambda>t.
     upd_cert now i (\<lambda>c. if t \<in> set (c_tags c) then c else c\<lparr>c_tags := c_tags c @ [t]\<rparr>)))"

definition add_domains :: "datetime \<Rightarrow> int \<Rightarrow> bool \<Rightarrow> string list \<Rightarrow> unit wop" where
  "add_domains now i wild sans =
     for_each (zip [0..<length sans] sans) (\<lambda>(idx, d).
       db_mod (certificate_domains_update (\<lambda>t. snd (tbl_add now
         \<lparr>cd_certificate_id = i, cd_domain = d, cd_is_primary = (idx = 0),
          cd_is_wildcard = (wild \<and> py_startswith d ''*.''), cd_validation_status = None\<rparr> t))))"

definition add_cert :: "datetime \<Rightarrow> certificate \<Rightarrow> int wop" where
  "add_cert now c =
     bnd (db_get (\<lambda>d. next_id (certificates d))) (\<lambda>i.
     bnd (db_mod (certificates_update (\<lambda>t. snd (tbl_add now c t)))) (\<lambda>_. ret i))"

definition issue_certificate ::
    "ctx \<Rightarrow> datetime \<Rightarrow> int \<Rightarrow> issue_payload \<Rightarrow> actor \<Rightarrow> JobTrigger \<Rightarrow> bool \<Rightarrow> int wop" where
  "issue_certificate cx now elapsed p user trigger execute =
     bnd (lift_exn (if truthy (ip_cert_name p) then Inr (str_or (ip_cert_name p) [])
                    else default_cert_name (ip_domains p))) (\<lambda>cert_name.
     bnd (db_get (\<lambda>d. if uses_hooks (or_default (ip_validation_method p) ''http-01'') p
                      then resolve_hooks p d else Inr None)) (\<lambda>hr.
     bnd (lift_exn hr) (\<lambda>ho.
     bnd (if ip_domains p = [] then fail IndexError ''list index out of range'' else ret ()) (\<lambda>_.
     let c = issue_row (cx_cfg cx) p cert_name ho user in
     bnd (add_cert now c) (\<lambda>i.
     bnd (add_domains now i True (c_sans c)) (\<lambda>_.
     bnd (for_each (ip_tags p) (add_tag now i)) (\<lambda>_.
     bnd commit (\<lambda>_.
     bnd (when_op execute (bnd (execute_issuance cx now elapsed i user trigger (Some p)) (\<lambda>_. ret ()))) (\<lambda>_.
     ret i)))))))))"

section \<open>Renew\<close>

definition is_due :: "settings \<Rightarrow> datetime \<Rightarrow> int option \<Rightarrow> certificate \<Rightarrow> bool" where
  "is_due s now threshold c \<longleftrightarrow>
     (let days = (if id_truthy threshold then or_default threshold 0 else renewal_threshold_days s) in
      c_auto_renew c \<and> c_status c \<in> {CertificateStatus.ACTIVE, CertificateStatus.EXPIRING} \<and>
      (case c_valid_until c of None \<Rightarrow> False | Some t \<Rightarrow> t \<le> now + days * us_per_day))"

definition due_certificates :: "settings \<Rightarrow> datetime \<Rightarrow> int option \<Rightarrow> db \<Rightarrow> certificate row list" where
  "due_certificates s now threshold d = tbl_sel (\<lambda>w. is_due s now threshold (rval w)) (certificates d)"

definition STALE_RENEWAL_MINUTES :: int where
  "STALE_RENEWAL_MINUTES = 60"

text \<open>The running renewal of a certificate with the latest start; a descending order of
  PostgreSQL puts executions without a start time first.\<close>

definition running_renewal :: "int \<Rightarrow> db \<Rightarrow> job_execution row option" where
  "running_renewal i d =
     (let js = tbl_sel (\<lambda>w. j_certificate_id (rval w) = Some i \<and> j_job_type (rval w) = JobType.RENEW \<and>
                  j_status (rval w) = JobStatus.RUNNING) (job_executions d);
          unstarted = filter (\<lambda>w. j_started_at (rval w) = None) js in
      case unstarted of
        w # _ \<Rightarrow> Some w
      | [] \<Rightarrow> (case sort_key (\<lambda>w. - or_default (j_started_at (rval w)) 0) js of [] \<Rightarrow> None | w # _ \<Rightarrow> Some w))"

definition still_valid :: "datetime \<Rightarrow> certificate \<Rightarrow> bool" where
  "still_valid now c \<longleftrightarrow> (case c_valid_until c of None \<Rightarrow> False | Some t \<Rightarrow> now < t)"

definition fail_renewal :: "datetime \<Rightarrow> string \<Rightarrow> certificate \<Rightarrow> certificate" where
  "fail_renewal now message c = c\<lparr>
     c_renewal_status := RenewalStatus.FAILED, c_renewal_error := Some message,
     c_status := (if still_valid now c then CertificateStatus.ACTIVE else CertificateStatus.EXPIRING)\<rparr>"

text \<open>The common end of \<open>mark_stale_renewal_failed\<close> and \<open>cancel_renewal\<close>.\<close>

definition close_renewal :: "datetime \<Rightarrow> int \<Rightarrow> string \<Rightarrow> job_execution row option \<Rightarrow> unit wop" where
  "close_renewal now i message execution =
     bnd (case execution of
            None \<Rightarrow> ret ()
          | Some w \<Rightarrow> upd_job now (rid w) (\<lambda>x. x\<lparr>j_status := JobStatus.FAILED,
                        j_finished_at := Some now, j_error_message := Some message\<rparr>)) (\<lambda>_.
     bnd (upd_cert now i (fail_renewal now message)) (\<lambda>_.
     commit))"

definition mark_stale_renewal_failed :: "datetime \<Rightarrow> int \<Rightarrow> unit wop" where
  "mark_stale_renewal_failed now i =
     bnd (db_get (\<lambda>d. tbl_row i (certificates d))) (\<lambda>row.
     case row of
       None \<Rightarrow> fail AttributeError ''certificate''
     | Some cw \<Rightarrow>
         if c_renewal_status (rval cw) \<noteq> RenewalStatus.IN_PROGRESS then ret ()
         else
           bnd (db_get (running_renewal i)) (\<lambda>execution.
           let started = (case execution of Some w \<Rightarrow> j_started_at (rval w) | None \<Rightarrow> Some (updated_at cw)) in
           case started of
             None \<Rightarrow> ret ()
           | Some t \<Rightarrow>
               if now - t < STALE_RENEWAL_MINUTES * us_per_minute then ret ()
               else close_renewal now i
                      (''Marked failed: no progress for over '' @ str_int STALE_RENEWAL_MINUTES @
                       '' minutes - the worker likely crashed, was restarted, or got stuck.'') execution))"

definition cancel_renewal :: "datetime \<Rightarrow> int \<Rightarrow> unit wop" where
  "cancel_renewal now i =
     bnd (get_certificate i) (\<lambda>c.
       if c_renewal_status c \<noteq> RenewalStatus.IN_PROGRESS then
         fail ValidationAppError ''No renewal is in progress for this certificate''
       else bnd (db_get (running_renewal i)) (close_renewal now i ''Cancelled by an administrator.''))"

text \<open>The three outcomes of a renewal run.\<close>

definition renewal_ok :: "datetime \<Rightarrow> certificate \<Rightarrow> certificate" where
  "renewal_ok now c = c\<lparr>c_last_renewed_at := Some now, c_renewal_status := RenewalStatus.SUCCESS,
     c_status := CertificateStatus.ACTIVE, c_renewal_error := None\<rparr>"

definition renewal_skipped :: "certificate \<Rightarrow> certificate" where
  "renewal_skipped c = c\<lparr>c_renewal_status := RenewalStatus.SKIPPED, c_status := CertificateStatus.ACTIVE\<rparr>"

definition finish_renewal ::
    "ctx \<Rightarrow> datetime \<Rightarrow> int \<Rightarrow> actor \<Rightarrow> int \<Rightarrow> int \<Rightarrow> renew_result \<Rightarrow> unit wop" where
  "finish_renewal cx now i user j ms r =
     (if rr_success r then
        bnd (opt_exists (rr_cert_path r)) (\<lambda>ex.
        bnd (if rr_renewed r \<and> ex then
               bnd (ingest_material cx now i (rr_cert_path r) (rr_key_path r) (rr_chain_path r)
                      (rr_fullchain_path r) None) (\<lambda>_.
               bnd (upd_cert now i (renewal_ok now)) (\<lambda>_.
               bnd (audit_cert cx now ''certificate.renew'' user i AuditResult.SUCCESS (Some ms) []) (\<lambda>_.
               notify cx now ''renewed'' i)))
             else upd_cert now i renewal_skipped) (\<lambda>_.
        upd_job now j (\<lambda>x. x\<lparr>j_status := JobStatus.SUCCESS\<rparr>)))
      else
        let err = take 4000 (str_or (rr_error r) ''Unknown renewal error'') in
        bnd (upd_cert now i (fail_renewal now err)) (\<lambda>_.
        bnd (upd_job now j (\<lambda>x. x\<lparr>j_status := JobStatus.FAILED, j_error_message := Some err\<rparr>)) (\<lambda>_.
        bnd (audit_cert cx now ''certificate.renew'' user i AuditResult.FAILURE (Some ms)
               [(''error'', opt_json (rr_error r))]) (\<lambda>_.
        notify cx now ''failure'' i))))"

definition renew_certificate ::
    "ctx \<Rightarrow> datetime \<Rightarrow> int \<Rightarrow> int \<Rightarrow> bool \<Rightarrow> actor \<Rightarrow> JobTrigger \<Rightarrow> int wop" where
  "renew_certificate cx now elapsed i force user trigger =
     bnd (get_certificate i) (\<lambda>c.
     if \<not> c_managed_by_platform c \<or> \<not> truthy (c_cert_name c) then
       fail ValidationAppError ''Only platform-managed certificates can be renewed''
     else if c_renewal_status c = RenewalStatus.IN_PROGRESS then
       fail ConflictError ''Renewal already in progress for this certificate''
     else
       bnd (upd_cert now i (\<lambda>c. c\<lparr>c_renewal_status := RenewalStatus.IN_PROGRESS,
              c_status := CertificateStatus.RENEWING\<rparr>)) (\<lambda>_.
       bnd (add_job now (new_job JobType.RENEW (Some i) trigger JobStatus.RUNNING now user)) (\<lambda>j.
       bnd commit (\<lambda>_.
       bnd (provider_for cx c) (\<lambda>pv.
       bnd (on_fs (pv_renew pv (str_or (c_cert_name c) []) force (c_staging c))) (\<lambda>r.
       let ms = duration_or (rr_duration_ms r) elapsed in
       bnd (upd_job now j (\<lambda>x. x\<lparr>j_exit_code := rr_exit_code r, j_stdout := tail_log (rr_stdout r),
              j_stderr := tail_log (rr_stderr r), j_execution_time_ms := Some ms,
              j_finished_at := Some now\<rparr>)) (\<lambda>_.
       bnd (finish_renewal cx now i user j ms r) (\<lambda>_.
       bnd commit (\<lambda>_. ret j)))))))))"

section \<open>Revoke and delete\<close>

definition mark_revoked :: "certificate \<Rightarrow> certificate" where
  "mark_revoked c = c\<lparr>c_status := CertificateStatus.REVOKED, c_auto_renew := False,
     c_renewal_status := RenewalStatus.DISABLED\<rparr>"

text \<open>What follows a successful revocation.\<close>

definition revoke_rest :: "ctx \<Rightarrow> datetime \<Rightarrow> int \<Rightarrow> string \<Rightarrow> bool \<Rightarrow> actor \<Rightarrow> certificate \<Rightarrow> unit wop" where
  "revoke_rest cx now i reason b user c =
     bnd (when_op b
            (catch_op
               (bnd (delete_cert_material (cx_cfg cx) (c_fingerprint_sha256 c)) (\<lambda>_.
                upd_cert now i (\<lambda>c. c\<lparr>c_cert_path := None, c_key_path := None,
                  c_chain_path := None, c_fullchain_path := None\<rparr>)))
               (\<lambda>_. ret ()))) (\<lambda>_.
     bnd (audit_cert cx now ''certificate.revoke'' user i AuditResult.SUCCESS None
            [(''reason'', JStr reason)]) (\<lambda>_.
     notify cx now ''revoked'' i))"

definition revoke_certificate ::
    "ctx \<Rightarrow> datetime \<Rightarrow> int \<Rightarrow> string \<Rightarrow> bool \<Rightarrow> actor \<Rightarrow> JobTrigger \<Rightarrow> int wop" where
  "revoke_certificate cx now i reason delete_after user trigger =
     bnd (get_certificate i) (\<lambda>c.
     bnd (catch_op (provider_for cx c)
            (\<lambda>e. if exc_of e = KeyError
                 then fail ValidationAppError (''Cannot revoke: no registered provider for '' @ [CHR 0x27] @
                   c_provider_name c @ [CHR 0x27] @ '' - this certificate was imported or discovered, '' @
                   ''not issued through CertMgr'')
                 else throw e)) (\<lambda>pv.
     bnd (on_fs (pv_revoke pv (str_or (c_cert_path c) []) reason)) (\<lambda>r.
     bnd (add_job now ((new_job JobType.REVOKE (Some i) trigger
            (if vr_success r then JobStatus.SUCCESS else JobStatus.FAILED) now user)\<lparr>
            j_exit_code := vr_exit_code r, j_stdout := tail_log (vr_stdout r),
            j_stderr := tail_log (vr_stderr r), j_finished_at := Some now,
            j_error_message := (if vr_success r then None
                                else Some (take 4000 (str_or (vr_error r) [])))\<rparr>)) (\<lambda>j.
     bnd (if vr_success r then
            bnd (upd_cert now i mark_revoked) (\<lambda>_.
              revoke_rest cx now i reason (delete_after \<and> truthy (c_cert_path c)) user c)
          else audit_cert cx now ''certificate.revoke'' user i AuditResult.FAILURE None
                 [(''error'', opt_json (vr_error r))]) (\<lambda>_.
     bnd commit (\<lambda>_. ret j))))))"

definition DELETABLE_STATUSES :: "CertificateStatus list" where
  "DELETABLE_STATUSES = [CertificateStatus.FAILED, CertificateStatus.REVOKED, CertificateStatus.ARCHIVED]"

text \<open>\<^verbatim>\<open>db.delete(cert)\<close>: the ORM cascades to domains, executions, deployments, backups and
  health checks; the foreign keys of the other tables cascade or are set to null.\<close>

definition delete_cert_rows :: "int \<Rightarrow> db \<Rightarrow> db" where
  "delete_cert_rows i d = d\<lparr>
     certificates := tbl_del i (certificates d),
     certificate_domains := tbl_del_where (\<lambda>w. cd_certificate_id (rval w) = i) (certificate_domains d),
     job_executions := tbl_del_where (\<lambda>w. j_certificate_id (rval w) = Some i) (job_executions d),
     deployments := tbl_del_where (\<lambda>w. d_certificate_id (rval w) = i) (deployments d),
     backups := tbl_del_where (\<lambda>w. b_certificate_id (rval w) = Some i) (backups d),
     health_checks := tbl_del_where (\<lambda>w. hc_certificate_id (rval w) = i) (health_checks d),
     favorites := tbl_del_where (\<lambda>w. fav_certificate_id (rval w) = i) (favorites d),
     network_sightings := tbl_del_where (\<lambda>w. ns_certificate_id (rval w) = i) (network_sightings d),
     ct_observations := tbl_del_where (\<lambda>w. co_certificate_id (rval w) = i) (ct_observations d),
     ct_findings := tbl_del_where (\<lambda>w. f_certificate_id (rval w) = i) (ct_findings d),
     usage_scans := tbl_del_where (\<lambda>w. us_certificate_id (rval w) = i) (usage_scans d),
     usage_results := tbl_set_where (\<lambda>w. ur_presented_certificate_id (rval w) = Some i)
       (\<lambda>r. r\<lparr>ur_presented_certificate_id := None\<rparr>)
       (tbl_del_where (\<lambda>w. ur_certificate_id (rval w) = i) (usage_results d)),
     notifications := tbl_set_where (\<lambda>w. n_related_certificate_id (rval w) = Some i)
       (\<lambda>n. n\<lparr>n_related_certificate_id := None\<rparr>) (notifications d)\<rparr>"

definition delete_certificate :: "ctx \<Rightarrow> datetime \<Rightarrow> int \<Rightarrow> actor \<Rightarrow> unit wop" where
  "delete_certificate cx now i user =
     bnd (get_certificate i) (\<lambda>c.
     if c_managed_by_platform c \<and> c_status c \<notin> set DELETABLE_STATUSES then
       fail ValidationAppError (''Cannot delete a certificate with status '' @ [CHR 0x27] @
         CertificateStatus_value (c_status c) @ [CHR 0x27] @
         '' - only failed, revoked or archived certificates can be deleted. '' @
         ''Revoke an active certificate first.'')
     else
       bnd (when_op (truthy (c_cert_path c))
              (catch_op (delete_cert_material (cx_cfg cx) (c_fingerprint_sha256 c)) (\<lambda>_. ret ()))) (\<lambda>_.
       bnd (db_get (\<lambda>d. \<not> c_managed_by_platform c \<and> truthy (c_fingerprint_sha256 c) \<and>
              tbl_first (\<lambda>w. Some (di_fingerprint_sha256 (rval w)) = c_fingerprint_sha256 c)
                (discovery_ignores d) = None)) (\<lambda>ignore.
       bnd (when_op ignore (db_mod (discovery_ignores_update (\<lambda>t. snd (tbl_add now
              \<lparr>di_fingerprint_sha256 = str_or (c_fingerprint_sha256 c) [], di_domain = Some (c_domain c),
               di_source_path = c_cert_path c, di_ignored_by = map_option fst user\<rparr> t))))) (\<lambda>_.
       bnd (db_mod (delete_cert_rows i)) (\<lambda>_.
       bnd (audit_cert cx now ''certificate.delete'' user i AuditResult.SUCCESS None
              [(''domain'', JStr (c_domain c)), (''status'', JStr (CertificateStatus_value (c_status c)))]) (\<lambda>_.
       commit))))))"

section \<open>Import\<close>

record import_payload =
  im_domain :: "string option"
  im_environment :: "string option"
  im_provider :: "string option"
  im_auto_renew :: "bool option"
  im_owner_id :: "int option"
  im_notes :: "string option"
  im_tags :: "string list"

definition import_row ::
    "settings \<Rightarrow> x509_meta \<Rightarrow> import_payload \<Rightarrow> actor \<Rightarrow> bool \<Rightarrow> string option \<Rightarrow> certificate" where
  "import_row s m p user has_chain key_path =
     (let primary = (case m_sans m of d # _ \<Rightarrow> d | [] \<Rightarrow> str_or (im_domain p) ''imported-certificate'');
          sans = (if m_sans m = [] then [primary] else m_sans m);
          fp = m_fingerprint_sha256 m in
      (new_certificate primary)\<lparr>
        c_sans := sans, c_is_wildcard := m_is_wildcard m, c_cert_type := cert_type_for sans,
        c_subject := Some (m_subject m), c_issuer := Some (m_issuer m),
        c_serial_number := Some (m_serial_number m), c_fingerprint_sha256 := Some fp,
        c_public_key_algorithm := Some (m_public_key_algorithm m), c_key_type := m_key_type m,
        c_key_size := m_key_size m, c_signature_algorithm := Some (m_signature_algorithm m),
        c_valid_from := Some (m_valid_from m), c_valid_until := Some (m_valid_until m),
        c_status := CertificateStatus.ACTIVE,
        c_environment := or_default (im_environment p) (default_environment s),
        c_provider_name := or_default (im_provider p) ''imported'',
        c_imported := True, c_auto_renew := or_default (im_auto_renew p) False,
        c_renewal_status := RenewalStatus.NONE,
        c_cert_path := Some (store_cert_path s fp),
        c_chain_path := (if has_chain then Some (store_chain_path s fp) else None),
        c_key_path := key_path,
        c_owner_id := (if id_truthy (im_owner_id p) then im_owner_id p else map_option fst user),
        c_notes := im_notes p, c_managed_by_platform := False\<rparr>)"

text \<open>The PKCS#12 case replaces the three inputs by the unpacked material.\<close>

definition import_inputs ::
    "ctx \<Rightarrow> string option \<Rightarrow> string option \<Rightarrow> string option \<Rightarrow> string option \<Rightarrow> string option
      \<Rightarrow> exn + (string option \<times> string option \<times> string option)" where
  "import_inputs cx cert_data key_data chain_data pfx_data pfx_password =
     (if truthy pfx_data then
        (case parse_pfx (cx_x5 cx) (str_or pfx_data []) pfx_password of
           Inl e \<Rightarrow> Inl e
         | Inr (cert, key, extra) \<Rightarrow>
             Inr (Some cert, Some key, if extra = [] then None else Some (concat extra)))
      else Inr (cert_data, key_data, chain_data))"

text \<open>What an import writes once the input has been accepted.  The names of a certificate become
  one row each, and \<^verbatim>\<open>uq_certdomain\<close> makes the pair of certificate and name unique: a
  certificate that lists a name twice fails at the next flush, and nothing of the import
  stays in the session.\<close>

definition import_store ::
    "ctx \<Rightarrow> datetime \<Rightarrow> import_payload \<Rightarrow> actor \<Rightarrow> JobTrigger \<Rightarrow> string \<Rightarrow> certificate \<Rightarrow> int wop" where
  "import_store cx now p user trigger fp c =
     (if \<not> distinct (c_sans c) then fail IntegrityError ''UNIQUE constraint failed: certificate_domains''
      else
     bnd (add_cert now c) (\<lambda>i.
     bnd (add_domains now i False (c_sans c)) (\<lambda>_.
     bnd (for_each (im_tags p) (add_tag now i)) (\<lambda>_.
     bnd (add_job now ((new_job JobType.IMPORT (Some i) trigger JobStatus.SUCCESS now user)\<lparr>
            j_finished_at := Some now, j_stdout := Some (''Imported '' @ take 16 fp @ ''...'')\<rparr>)) (\<lambda>_.
     bnd (audit_cert cx now ''certificate.import'' user i AuditResult.SUCCESS None
            [(''fingerprint'', JStr fp)]) (\<lambda>_.
     bnd (notify cx now ''imported'' i) (\<lambda>_.
     bnd commit (\<lambda>_. ret i))))))))"

definition import_certificate ::
    "ctx \<Rightarrow> datetime \<Rightarrow> string option \<Rightarrow> string option \<Rightarrow> string option \<Rightarrow> string option \<Rightarrow> string option
      \<Rightarrow> import_payload \<Rightarrow> actor \<Rightarrow> JobTrigger \<Rightarrow> int wop" where
  "import_certificate cx now cert_data0 key_data0 chain_data0 pfx_data pfx_password p user trigger =
     bnd (lift_exn (import_inputs cx cert_data0 key_data0 chain_data0 pfx_data pfx_password))
       (\<lambda>(cert_data, key_data, chain_data).
     if \<not> truthy cert_data then fail ValidationAppError ''Certificate file is required''
     else
     let raw = str_or cert_data []; s = cx_cfg cx in
     bnd (lift_exn (parse_certificate (cx_x5 cx) raw)) (\<lambda>meta.
     bnd (if truthy chain_data then
            bnd (lift_exn (parse_chain_pem (cx_x5 cx) (str_or chain_data []))) (\<lambda>cs.
              if cs = [] then
                fail ValidationAppError ''Chain file does not contain any recognizable PEM certificates''
              else ret (Some (concat cs)))
          else ret chain_data) (\<lambda>chain.
     let fp = m_fingerprint_sha256 meta in
     bnd (db_get (\<lambda>d. tbl_first (\<lambda>w. c_fingerprint_sha256 (rval w) = Some fp) (certificates d))) (\<lambda>dup.
     if dup \<noteq> None then
       throw (Exn ConflictError (''Certificate already imported (fingerprint '' @ take 24 fp @ ''...)'')
                (Some ''DUPLICATE_CERTIFICATE''))
     else
     bnd (fs_write (store_cert_path s fp) raw) (\<lambda>_.
     bnd (when_op (truthy chain) (fs_write (store_chain_path s fp) (str_or chain []))) (\<lambda>_.
     bnd (if truthy key_data then
            bnd (lift_exn (key_matches (cx_x5 cx) raw (str_or key_data []) pfx_password)) (\<lambda>ok.
              if \<not> ok then fail ValidationAppError ''Private key does not match certificate public key''
              else bnd (write_private_key s (cx_kc cx) (cx_ivf cx) fp (str_or key_data [])) (\<lambda>kp. ret (Some kp)))
          else ret None) (\<lambda>key_path.
     import_store cx now p user trigger fp (import_row s meta p user (truthy chain) key_path))))))))"

section \<open>Clone\<close>

definition clone_payload :: "int \<Rightarrow> certificate \<Rightarrow> string list \<Rightarrow> issue_payload" where
  "clone_payload i src new_domains = empty_payload\<lparr>
     ip_domains := (if new_domains = [] then c_domain src # filter (\<lambda>d. d \<noteq> c_domain src) (c_sans src)
                    else new_domains),
     ip_validation_method := Some (c_validation_method src),
     ip_key_type := Some (c_key_type src),
     ip_environment := Some (c_environment src),
     ip_staging := Some (c_staging src),
     ip_auto_renew := Some (c_auto_renew src),
     ip_provider := Some (c_provider_name src),
     ip_notes := Some (''Cloned from certificate #'' @ str_int i)\<rparr>"

definition clone_certificate :: "ctx \<Rightarrow> datetime \<Rightarrow> int \<Rightarrow> int \<Rightarrow> string list \<Rightarrow> actor \<Rightarrow> int wop" where
  "clone_certificate cx now elapsed i new_domains user =
     bnd (get_certificate i) (\<lambda>src.
     issue_certificate cx now elapsed (clone_payload i src new_domains) user JobTrigger.API True)"

section \<open>Export\<close>

text \<open>What a download returns: a single file or the members of an archive.\<close>

datatype export = Blob string | Archive "(string \<times> string) list"

definition path_or_cert :: "string option \<Rightarrow> string \<Rightarrow> export wop" where
  "path_or_cert p cert_path =
     bnd (opt_exists p) (\<lambda>ex.
     bnd (fs_read (if ex then str_or p [] else cert_path)) (\<lambda>x. ret (Blob x)))"

definition parent_name :: "string \<Rightarrow> string" where
  "parent_name path = (case rev (split_on CHR ''/'' path) of _ # d # _ \<Rightarrow> d | _ \<Rightarrow> [])"

definition export_bundle ::
    "ctx \<Rightarrow> (string \<Rightarrow> string \<Rightarrow> string option \<Rightarrow> string \<Rightarrow> exn + string) \<Rightarrow> int \<Rightarrow> string \<Rightarrow> bool \<Rightarrow> string
      \<Rightarrow> export wop" where
  "export_bundle cx build_pfx i fmt include_key password =
     bnd (get_certificate i) (\<lambda>c.
     bnd (opt_exists (c_cert_path c)) (\<lambda>ex.
     if \<not> ex then fail ValidationAppError ''Certificate material not available (revoked or missing files)''
     else
     let path = str_or (c_cert_path c) []; fp = str_or (c_fingerprint_sha256 c) (parent_name path) in
     if fmt = ''zip'' then bnd (export_zip (cx_cfg cx) (cx_kc cx) fp include_key) (\<lambda>z. ret (Archive z))
     else if fmt = ''pem'' then bnd (fs_read path) (\<lambda>x. ret (Blob x))
     else if fmt = ''key'' then
       (if \<not> include_key then fail ValidationAppError ''Key download not permitted''
        else (case c_key_path c of
                None \<Rightarrow> fail TypeError ''key_path''
              | Some kp \<Rightarrow> bnd (read_private_key (cx_kc cx) kp) (\<lambda>x. ret (Blob x))))
     else if fmt = ''chain'' then path_or_cert (c_chain_path c) path
     else if fmt = ''fullchain'' then path_or_cert (c_fullchain_path c) path
     else if fmt = ''pfx'' then
       bnd (build_bundle (cx_cfg cx) (cx_kc cx) build_pfx fp include_key password) (\<lambda>_.
       bnd (fs_read (store_pfx_path (cx_cfg cx) fp)) (\<lambda>x. ret (Blob x)))
     else fail ValidationAppError (''Unsupported export format: '' @ fmt)))"

end
