(* ===== verification/Posture.thy ===== *)
theory Posture
  imports Cert_Lifecycle
begin

text \<open>
  \<open>app/services/health_service.py\<close> and \<open>app/services/compliance_service.py\<close>: the health
  score of a certificate with its TLS probes, the scan over all certificates, the compliance
  rules and the dashboard.  The TLS handshake is an argument; the compliance rate is kept as
  numerator and denominator, and the CSV and JSON serialisation is left out.
\<close>

section \<open>Health\<close>

text \<open>The outcome of one handshake; \<open>Tls_raises\<close> is an exception the code does not catch.\<close>

datatype tls_probe =
    Tls_up string "string option"
  | Tls_untrusted
  | Tls_os_error string
  | Tls_raises exn

definition WEAK_SIGNATURES :: "string list" where
  "WEAK_SIGNATURES = [''md5'', ''sha1'']"

definition MIN_RSA_KEY_SIZE :: int where
  "MIN_RSA_KEY_SIZE = 2048"

definition MIN_ECC_KEY_SIZE :: int where
  "MIN_ECC_KEY_SIZE = 256"

definition weak_signature :: "string \<Rightarrow> bool" where
  "weak_signature sig \<longleftrightarrow> list_ex (\<lambda>w. py_contains w (py_lower sig)) WEAK_SIGNATURES"

text \<open>The checks on the row: each returns the points it takes off and its entry.\<close>

definition check_expiry :: "datetime \<Rightarrow> certificate \<Rightarrow> int \<times> json" where
  "check_expiry now c =
     (case c_valid_until c of
        None \<Rightarrow> (0, JObj [(''ok'', JBool False), (''error'', JStr ''no expiry'')])
      | Some t \<Rightarrow>
          let days = days_until now (Some t) in
          (if days \<le> 30 then 25 else if days \<le> 60 then 10 else 0,
           JObj [(''days'', JInt days), (''ok'', JBool (30 < days))]))"

definition check_signature :: "certificate \<Rightarrow> int \<times> json" where
  "check_signature c =
     (let weak = weak_signature (str_or (c_signature_algorithm c) []) in
      (if weak then 20 else 0,
       JObj [(''ok'', JBool (\<not> weak)), (''algorithm'', opt_json (c_signature_algorithm c))]))"

definition small_key :: "certificate \<Rightarrow> bool" where
  "small_key c \<longleftrightarrow>
     (case c_key_size c of
        None \<Rightarrow> False
      | Some n \<Rightarrow> n \<noteq> 0 \<and>
          (c_key_type c = ''rsa'' \<and> n < MIN_RSA_KEY_SIZE \<or> c_key_type c = ''ecdsa'' \<and> n < MIN_ECC_KEY_SIZE))"

definition check_key_size :: "certificate \<Rightarrow> int \<times> json" where
  "check_key_size c =
     (if small_key c then 20 else 0,
      JObj [(''ok'', JBool (\<not> small_key c)), (''size'', int_json (c_key_size c))])"

text \<open>The live handshakes, in order; the first exception that is not caught ends them.\<close>

fun tls_checks :: "(string \<Rightarrow> tls_probe) \<Rightarrow> string list \<Rightarrow> dict \<Rightarrow> int \<Rightarrow> exn + (int \<times> dict)" where
  "tls_checks probe [] acc lost = Inr (lost, acc)"
| "tls_checks probe (t # ts) acc lost =
     (case probe t of
        Tls_up v cipher \<Rightarrow>
          tls_checks probe ts (dict_set t (JObj [(''ok'', JBool True), (''protocol'', JStr v),
            (''cipher'', opt_json cipher), (''cert_valid'', JBool True)]) acc) lost
      | Tls_untrusted \<Rightarrow>
          tls_checks probe ts (dict_set t (JObj [(''ok'', JBool True), (''cert_valid'', JBool False),
            (''error'', JStr ''hostname mismatch or untrusted chain'')]) acc) (lost + 15)
      | Tls_os_error m \<Rightarrow>
          tls_checks probe ts (dict_set t (JObj [(''ok'', JBool False), (''error'', JStr m)]) acc) (lost + 5)
      | Tls_raises e \<Rightarrow> Inl e)"

definition health_targets :: "string list \<Rightarrow> certificate \<Rightarrow> string list" where
  "health_targets hosts c =
     take 3 (if hosts \<noteq> [] then hosts else if c_domain c \<noteq> [] then [c_domain c] else [])"

definition clamp_score :: "int \<Rightarrow> int" where
  "clamp_score s = max 0 (min 100 s)"

definition health_status_of :: "int \<Rightarrow> HealthStatus" where
  "health_status_of score =
     (if 80 \<le> score then HealthStatus.HEALTHY else if 50 \<le> score then HealthStatus.WARNING
      else HealthStatus.CRITICAL)"

record health_result =
  hr_score :: int
  hr_status :: HealthStatus
  hr_checks :: dict

definition check_certificate_health ::
    "(string \<Rightarrow> tls_probe) \<Rightarrow> datetime \<Rightarrow> int \<Rightarrow> string list \<Rightarrow> health_result wop" where
  "check_certificate_health probe now i hosts =
     bnd (get_certificate i) (\<lambda>c.
     bnd (lift_exn (tls_checks probe (health_targets hosts c) [] 0)) (\<lambda>(lost, tls).
     let (p1, e1) = check_expiry now c; (p2, e2) = check_signature c; (p3, e3) = check_key_size c;
         checks = [(''expiry'', e1), (''signature'', e2), (''key_size'', e3), (''tls'', JObj tls),
                   (''ocsp'', JObj [(''ok'', JBool True),
                      (''note'', JStr ''OCSP check configured via compliance engine'')])];
         score = clamp_score (100 - p1 - p2 - p3 - lost);
         status = health_status_of score in
     bnd (db_mod (health_checks_update (\<lambda>t. snd (tbl_add now
            \<lparr>hc_certificate_id = i, hc_checked_at = now, hc_status = status, hc_score = score,
             hc_checks = checks\<rparr> t)))) (\<lambda>_.
     bnd (upd_cert now i (\<lambda>c. c\<lparr>c_health_score := Some score, c_health_status := status,
            c_last_health_check_at := Some now\<rparr>)) (\<lambda>_.
     bnd commit (\<lambda>_.
     ret \<lparr>hr_score = score, hr_status = status, hr_checks = checks\<rparr>)))))"

record health_counts =
  n_healthy :: nat
  n_warning :: nat
  n_critical :: nat
  n_failed :: nat

definition count_health :: "health_result option \<Rightarrow> health_counts \<Rightarrow> health_counts" where
  "count_health r n =
     (case r of
        None \<Rightarrow> n\<lparr>n_failed := n_failed n + 1\<rparr>
      | Some h \<Rightarrow>
          (case hr_status h of
             HealthStatus.HEALTHY \<Rightarrow> n\<lparr>n_healthy := n_healthy n + 1\<rparr>
           | HealthStatus.WARNING \<Rightarrow> n\<lparr>n_warning := n_warning n + 1\<rparr>
           | _ \<Rightarrow> n\<lparr>n_critical := n_critical n + 1\<rparr>))"

primrec scan_loop ::
    "(string \<Rightarrow> tls_probe) \<Rightarrow> datetime \<Rightarrow> int list \<Rightarrow> health_counts \<Rightarrow> health_counts wop" where
  "scan_loop probe now [] n = ret n"
| "scan_loop probe now (i # is) n =
     bnd (catch_op (bnd (check_certificate_health probe now i []) (\<lambda>h. ret (Some h)))
            (\<lambda>_. ret None)) (\<lambda>r.
     scan_loop probe now is (count_health r n))"

definition scan_all :: "(string \<Rightarrow> tls_probe) \<Rightarrow> datetime \<Rightarrow> nat option \<Rightarrow> health_counts wop" where
  "scan_all probe now limit =
     bnd (db_get (\<lambda>d. map rid (tbl_sel (\<lambda>w. c_status (rval w) \<in>
            {CertificateStatus.ACTIVE, CertificateStatus.EXPIRING}) (certificates d)))) (\<lambda>is.
     scan_loop probe now (case limit of Some n \<Rightarrow> if n = 0 then is else take n is | None \<Rightarrow> is)
       \<lparr>n_healthy = 0, n_warning = 0, n_critical = 0, n_failed = 0\<rparr>)"

section \<open>Compliance\<close>

definition MAX_LIFETIME_DAYS :: int where
  "MAX_LIFETIME_DAYS = 398"

record evaluation =
  ev_id :: int
  ev_domain :: string
  ev_compliant :: bool
  ev_score :: int
  ev_issues :: "string list"
  ev_status :: ComplianceStatus

definition str_opt_int :: "int option \<Rightarrow> string" where
  "str_opt_int v = (case v of None \<Rightarrow> ''None'' | Some n \<Rightarrow> str_int n)"

definition too_small :: "int option \<Rightarrow> int \<Rightarrow> bool" where
  "too_small sz m \<longleftrightarrow> (case sz of None \<Rightarrow> True | Some n \<Rightarrow> n = 0 \<or> n < m)"

text \<open>The rules, each a list of at most one issue with its weight.\<close>

definition key_rule :: "certificate \<Rightarrow> (string \<times> int) list" where
  "key_rule c =
     (if c_key_type c = ''rsa'' then
        (if too_small (c_key_size c) MIN_RSA_KEY_SIZE
         then [(''RSA key size '' @ str_opt_int (c_key_size c) @ '' < '' @ str_int MIN_RSA_KEY_SIZE, 30)] else [])
      else if c_key_type c = ''ecdsa'' then
        (if too_small (c_key_size c) MIN_ECC_KEY_SIZE
         then [(''ECC key size '' @ str_opt_int (c_key_size c) @ '' < '' @ str_int MIN_ECC_KEY_SIZE, 30)] else [])
      else if c_key_type c \<in> {''ed25519'', ''ed448''} then []
      else [(''Unrecognized key algorithm'', 10)])"

definition signature_rule :: "certificate \<Rightarrow> (string \<times> int) list" where
  "signature_rule c =
     (if truthy (c_signature_algorithm c) \<and> weak_signature (str_or (c_signature_algorithm c) [])
      then [(''Weak signature algorithm: '' @ str_or (c_signature_algorithm c) [], 30)] else [])"

definition lifetime_rule :: "certificate \<Rightarrow> (string \<times> int) list" where
  "lifetime_rule c =
     (case (c_valid_from c, c_valid_until c) of
        (Some a, Some b) \<Rightarrow>
          let lifetime = td_days (b - a) in
          if MAX_LIFETIME_DAYS < lifetime
          then [(''Certificate lifetime '' @ str_int lifetime @ ''d exceeds '' @ str_int MAX_LIFETIME_DAYS @ ''d'', 20)]
          else []
      | _ \<Rightarrow> [])"

definition status_rule :: "certificate \<Rightarrow> (string \<times> int) list" where
  "status_rule c =
     (if c_status c \<in> {CertificateStatus.EXPIRED, CertificateStatus.REVOKED}
      then [(''Certificate is '' @ CertificateStatus_value (c_status c), 25)] else [])"

definition sans_rule :: "certificate \<Rightarrow> (string \<times> int) list" where
  "sans_rule c = (if c_sans c = [] then [(''Certificate has no SAN entries'', 10)] else [])"

definition evaluate_certificate :: "int \<Rightarrow> certificate \<Rightarrow> evaluation" where
  "evaluate_certificate i c =
     (let found = key_rule c @ signature_rule c @ lifetime_rule c @ status_rule c @ sans_rule c;
          issues = map fst found in
      \<lparr>ev_id = i, ev_domain = c_domain c, ev_compliant = (length issues = 0),
       ev_score = max 0 (100 - sum_list (map snd found)), ev_issues = issues,
       ev_status = (if issues = [] then ComplianceStatus.COMPLIANT else ComplianceStatus.NON_COMPLIANT)\<rparr>)"

text \<open>\<^verbatim>\<open>GROUP BY fingerprint HAVING count > 1\<close>: rows without a fingerprint form one group.\<close>

definition fingerprint_groups :: "db \<Rightarrow> (string option \<times> nat) list" where
  "fingerprint_groups d =
     (let fps = map (\<lambda>w. c_fingerprint_sha256 (rval w)) (rows (certificates d)) in
      filter (\<lambda>g. 1 < snd g) (map (\<lambda>f. (f, length (filter (\<lambda>x. x = f) fps))) (remdups fps)))"

primrec count_issue :: "string \<Rightarrow> (string \<times> nat) list \<Rightarrow> (string \<times> nat) list" where
  "count_issue k [] = [(k, 1)]"
| "count_issue k (p # ps) = (if fst p = k then (k, snd p + 1) # ps else p # count_issue k ps)"

record dashboard =
  cd_total :: nat
  cd_compliant :: nat
  cd_non_compliant :: nat
  cd_issue_counts :: "(string \<times> nat) list"
  cd_duplicates :: "(string option \<times> nat) list"
  cd_unused :: "(int \<times> string) list"

definition compliance_dashboard :: "datetime \<Rightarrow> db \<Rightarrow> dashboard" where
  "compliance_dashboard now d =
     (let certs = rows (certificates d);
          results = map (\<lambda>w. evaluate_certificate (rid w) (rval w)) certs;
          compliant = length (filter ev_compliant results);
          issues = foldl (\<lambda>acc k. count_issue k acc) [] (concat (map ev_issues results)) in
      \<lparr>cd_total = length results, cd_compliant = compliant, cd_non_compliant = length results - compliant,
       cd_issue_counts = sort_key (\<lambda>p. - int (snd p)) issues,
       cd_duplicates = fingerprint_groups d,
       cd_unused = map (\<lambda>w. (rid w, c_domain (rval w))) (filter (\<lambda>w.
         c_status (rval w) \<notin> {CertificateStatus.EXPIRED, CertificateStatus.REVOKED} \<and>
         (case days_remaining now (rval w) of None \<Rightarrow> False | Some n \<Rightarrow> 90 < n) \<and>
         tbl_count (\<lambda>x. d_certificate_id (rval x) = rid w) (deployments d) = 0) certs)\<rparr>)"

text \<open>\<open>run_compliance_report\<close>; \<open>rate\<close> is the rounded percentage, a float.\<close>

definition dashboard_dict :: "(nat \<Rightarrow> nat \<Rightarrow> json) \<Rightarrow> dashboard \<Rightarrow> dict" where
  "dashboard_dict rate x =
     [(''total'', JInt (int (cd_total x))), (''compliant'', JInt (int (cd_compliant x))),
      (''non_compliant'', JInt (int (cd_non_compliant x))), (''compliance_rate'', rate (cd_compliant x) (cd_total x)),
      (''issue_counts'', JObj (map (\<lambda>(k, n). (k, JInt (int n))) (cd_issue_counts x))),
      (''duplicates'', JList (map (\<lambda>(fp, n). JObj [(''fingerprint'', case fp of None \<Rightarrow> JNull | Some v \<Rightarrow> JStr v),
         (''count'', JInt (int n))]) (cd_duplicates x))),
      (''unused'', JList (map (\<lambda>(i, d). JObj [(''id'', JInt i), (''domain'', JStr d)]) (cd_unused x)))]"

definition run_compliance_report ::
    "(nat \<Rightarrow> nat \<Rightarrow> json) \<Rightarrow> datetime \<Rightarrow> int option \<Rightarrow> bool \<Rightarrow> compliance_report wop" where
  "run_compliance_report rate now created_by persist =
     bnd (db_get (\<lambda>d. dashboard_dict rate (compliance_dashboard now d))) (\<lambda>data.
     let report = \<lparr>cr_report_type = ''compliance'', cr_status = ''generated'', cr_file_path = None, cr_summary = data,
           cr_generated_by = created_by, cr_generated_at = now\<rparr> in
     if persist then
       bnd (db_mod (compliance_reports_update (\<lambda>t. snd (tbl_add now report t)))) (\<lambda>_.
       bnd commit (\<lambda>_. ret report))
     else ret report)"

section \<open>Facts\<close>

lemma clamp_score_bounds: "0 \<le> clamp_score s" "clamp_score s \<le> 100"
  by (simp_all add: clamp_score_def)

lemma check_health_wp:
  assumes c: "tbl_get i (certificates (work w)) = Some c" and wf: "wf_table (health_checks (work w))"
  shows "wp (check_certificate_health probe now i hosts)
    (\<lambda>r w'. committed w' = work w' \<and> 0 \<le> hr_score r \<and> hr_score r \<le> 100 \<and>
       hr_status r = health_status_of (hr_score r) \<and>
       (\<exists>c'. tbl_get i (certificates (work w')) = Some c' \<and> c_health_score c' = Some (hr_score r) \<and>
          c_health_status c' = hr_status r \<and> c_status c' = c_status c) \<and>
       (\<exists>x. tbl_get (next_id (health_checks (work w))) (health_checks (work w')) = Some x \<and>
          hc_certificate_id x = i \<and> hc_score x = hr_score r \<and> hc_status x = hr_status r))
    (\<lambda>_ w'. w' = w) w"
  using c tbl.get_add_same [OF wf]
  by (auto simp: check_certificate_health_def get_certificate_def wp_simps upd_cert_def clamp_score_bounds Let_def
      tbl_add_def split: sum.splits prod.splits)

text \<open>C37: A health check that completes commits a score between 0 and 100 with the status of
  its band, the same in the certificate and in the new history row, and leaves the lifecycle
  status alone; one that raises changes nothing.\<close>

theorem health_check_recorded:
  assumes "tbl_get i (certificates (work w)) = Some c" and "wf_table (health_checks (work w))"
  shows "case check_certificate_health probe now i hosts w of
      (Inl _, w') \<Rightarrow> w' = w
    | (Inr r, w') \<Rightarrow> committed w' = work w' \<and> 0 \<le> hr_score r \<and> hr_score r \<le> 100 \<and>
        hr_status r = health_status_of (hr_score r) \<and>
        (\<exists>c'. tbl_get i (certificates (work w')) = Some c' \<and> c_health_score c' = Some (hr_score r) \<and>
           c_health_status c' = hr_status r \<and> c_status c' = c_status c) \<and>
        (\<exists>x. tbl_get (next_id (health_checks (work w))) (health_checks (work w')) = Some x \<and>
           hc_certificate_id x = i \<and> hc_score x = hr_score r \<and> hc_status x = hr_status r)"
  using check_health_wp [OF assms, of probe now hosts] by (simp add: wp_def split: prod.splits sum.splits)

lemma rule_weights:
  "\<forall>p \<in> set (key_rule c @ signature_rule c @ lifetime_rule c @ status_rule c @ sans_rule c). 0 < snd p"
  by (auto simp: key_rule_def signature_rule_def lifetime_rule_def status_rule_def sans_rule_def Let_def
      split: if_splits option.splits)

lemma sum_weights: "\<forall>p \<in> set ps. 0 < (snd p :: int) \<Longrightarrow> 0 \<le> sum_list (map snd ps) \<and> (sum_list (map snd ps) = 0 \<longleftrightarrow> ps = [])"
  by (induction ps) auto

text \<open>The compliance score lies between 0 and 100, and a certificate is compliant exactly
  when no rule reports an issue, when its score is 100 and when its status says so.\<close>

theorem compliance_score:
  "0 \<le> ev_score (evaluate_certificate i c) \<and> ev_score (evaluate_certificate i c) \<le> 100 \<and>
   (ev_compliant (evaluate_certificate i c) \<longleftrightarrow> ev_score (evaluate_certificate i c) = 100) \<and>
   (ev_compliant (evaluate_certificate i c) \<longleftrightarrow> ev_issues (evaluate_certificate i c) = []) \<and>
   (ev_compliant (evaluate_certificate i c) \<longleftrightarrow> ev_status (evaluate_certificate i c) = ComplianceStatus.COMPLIANT)"
  using sum_weights [OF rule_weights [of c]] by (auto simp: evaluate_certificate_def Let_def max_def)

lemma keytype_values: "set (enum_values KeyType_members KeyType_value) =
    {''rsa2048'', ''rsa4096'', ''ecdsa_p256'', ''ecdsa_p384'', ''other''}"
  by (auto simp: enum_values_def KeyType_members_def)

text \<open>A certificate issued with one of the platform's key types keeps a platform key type
  when the parsed metadata are applied, and the compliance rules, which know the parser's
  names only, then always report it: no certificate the platform issues is compliant.\<close>

theorem issued_never_compliant:
  assumes "c_key_type c \<in> set (enum_values KeyType_members KeyType_value)"
  shows "c_key_type (apply_metadata m n c) \<in> set (enum_values KeyType_members KeyType_value) \<and>
    ''Unrecognized key algorithm'' \<in> set (ev_issues (evaluate_certificate i (apply_metadata m n c))) \<and>
    \<not> ev_compliant (evaluate_certificate i (apply_metadata m n c)) \<and>
    \<not> small_key (apply_metadata m n c)"
proof -
  have k: "c_key_type (apply_metadata m n c) \<in> set (enum_values KeyType_members KeyType_value)"
    using assms by (auto simp: apply_metadata_def keytype_values)
  then have "key_rule (apply_metadata m n c) = [(''Unrecognized key algorithm'', 10)]"
    "\<not> small_key (apply_metadata m n c)"
    unfolding keytype_values by (auto simp: key_rule_def small_key_def split: option.splits)
  then show ?thesis using k by (simp add: evaluate_certificate_def Let_def)
qed

end
