(* ===== verification/Cert_Proofs.thy ===== *)
theory Cert_Proofs
  imports Cert_Lifecycle
begin

text \<open>
  Properties of the certificate lifecycle: what each operation leaves in the row and in its
  job execution, on success, on failure and when an exception escapes between two commits.
\<close>

section \<open>Rows during an operation\<close>

text \<open>The certificate \<open>i\<close> exists and satisfies \<open>Pc\<close>; the execution \<open>j\<close> exists and satisfies
  \<open>Pj\<close>.\<close>

definition tracks ::
    "int \<Rightarrow> (certificate \<Rightarrow> bool) \<Rightarrow> int \<Rightarrow> (job_execution \<Rightarrow> bool) \<Rightarrow> db \<Rightarrow> bool" where
  "tracks i Pc j Pj d \<longleftrightarrow>
     (\<exists>c. tbl_get i (certificates d) = Some c \<and> Pc c) \<and>
     (\<exists>x. tbl_get j (job_executions d) = Some x \<and> Pj x)"

abbreviation tracking :: "int \<Rightarrow> (certificate \<Rightarrow> bool) \<Rightarrow> int \<Rightarrow> (job_execution \<Rightarrow> bool) \<Rightarrow> world \<Rightarrow> bool" where
  "tracking i Pc j Pj w \<equiv> tracks i Pc j Pj (work w)"

text \<open>A condition on the two status columns only.\<close>

definition status_only :: "(certificate \<Rightarrow> bool) \<Rightarrow> bool" where
  "status_only P \<longleftrightarrow> (\<forall>c c'. c_status c' = c_status c \<longrightarrow> c_renewal_status c' = c_renewal_status c \<longrightarrow> P c \<longrightarrow> P c')"

lemma status_only_True [simp]: "status_only (\<lambda>_. True)"
  by (simp add: status_only_def)

lemma keeps_on_fs [keeps_rules]:
  "(\<And>w fs'. I w \<Longrightarrow> I (w\<lparr>files := fs'\<rparr>)) \<Longrightarrow> keeps I (on_fs f)"
  by (auto simp: keeps_def on_fs_def split: prod.splits)

lemma tracking_files [simp]: "tracking i Pc j Pj (w\<lparr>files := f\<rparr>) = tracking i Pc j Pj w"
  by simp

lemma keeps_track_fs [keeps_rules]:
  "keeps (tracking i Pc j Pj) (fs_write p c)"
  "keeps (tracking i Pc j Pj) (write_private_key s k iv fp pem)"
  by (auto simp: keeps_def op_simps write_private_key_def bnd_def Let_def)

lemma keeps_track_upd_cert:
  "(\<And>c. Pc c \<Longrightarrow> Pc (f c)) \<Longrightarrow> keeps (tracking i Pc j Pj) (upd_cert now i' f)"
  by (auto simp: keeps_def upd_cert_def op_simps tracks_def)

lemma keeps_track_upd_job:
  "(\<And>x. Pj x \<Longrightarrow> Pj (f x)) \<Longrightarrow> keeps (tracking i Pc j Pj) (upd_job now j' f)"
  by (auto simp: keeps_def upd_job_def op_simps tracks_def)

lemma keeps_track_audit [keeps_rules]: "keeps (tracking i Pc j Pj) (audit_cert cx now a u c r ms dt)"
  by (simp add: keeps_def audit_cert_def record_audit_def op_simps tracks_def)

lemma keeps_track_queue [keeps_rules]:
  "keeps (tracking i Pc j Pj) (queue_event_notifications nt k now ev c ex)"
proof (rule keepsI)
  fix w
  assume t: "tracking i Pc j Pj w"
  have "same_but_notifications (work w) (work (snd (queue_event_notifications nt k now ev c ex w)))"
    using keepsD [OF queue_frame [of "committed w" "files w" "work w" nt k now ev c ex], of w]
    by simp
  then show "tracking i Pc j Pj (snd (queue_event_notifications nt k now ev c ex w))"
    using t by (auto simp: same_but_notifications_def tracks_def)
qed

lemma keeps_track_notify [keeps_rules]: "keeps (tracking i Pc j Pj) (notify cx now ev c)"
  unfolding notify_def by (auto intro!: keeps_rules)

lemma keeps_track_ingest [keeps_rules]:
  assumes "status_only Pc"
  shows "keeps (tracking i Pc j Pj) (ingest_material cx now i' a b c d e)"
proof -
  have "c_status x' = c_status x \<Longrightarrow> c_renewal_status x' = c_renewal_status x \<Longrightarrow> Pc x \<Longrightarrow> Pc x'" for x x'
    using assms unfolding status_only_def by blast
  then show ?thesis
    unfolding ingest_material_def Let_def
    by (intro keeps_rules keeps_track_upd_cert) (auto simp: apply_metadata_def)
qed

text \<open>None of the steps between two commits commits.\<close>

definition comm :: "db \<Rightarrow> world \<Rightarrow> bool" where
  "comm d w \<longleftrightarrow> committed w = d"

lemma keeps_comm [keeps_rules]:
  "keeps (comm d) (db_mod f)" "keeps (comm d) (fs_write p c)" "keeps (comm d) (upd_cert now i g)"
  "keeps (comm d) (upd_job now i h)" "keeps (comm d) (record_audit rd now a)"
  by (auto simp: keeps_def op_simps comm_def upd_cert_def upd_job_def record_audit_def)

lemma keeps_comm_on_fs [keeps_rules]: "keeps (comm d) (on_fs f)"
  by (rule keeps_on_fs) (simp add: comm_def)

lemma keeps_comm_ops [keeps_rules]:
  "keeps (comm d) (write_private_key s k iv fp pem)" "keeps (comm d) (audit_cert cx now a u i r ms dt)"
  "keeps (comm d) (delete_cert_material s fpo)"
  unfolding write_private_key_def audit_cert_def delete_cert_material_def Let_def
  by (auto intro!: keeps_rules keeps_modify simp: comm_def)

lemma keeps_comm_queue [keeps_rules]: "keeps (comm d) (queue_event_notifications nt k now ev c ex)"
  unfolding queue_event_notifications_def queue_one_def Let_def
  by (intro keeps_rules)

lemma keeps_comm_notify [keeps_rules]: "keeps (comm d) (notify cx now ev c)"
  unfolding notify_def by (auto intro!: keeps_rules)

lemma keeps_comm_ingest [keeps_rules]: "keeps (comm d) (ingest_material cx now i a b c e f)"
  unfolding ingest_material_def Let_def by (intro keeps_rules)

lemma keeps_provider_for [keeps_rules]: "keeps J (provider_for cx c)"
  unfolding provider_for_def Let_def by (intro keeps_rules)

lemma keeps_get_certificate [keeps_rules]: "keeps J (get_certificate i)"
  unfolding get_certificate_def by (intro keeps_rules)

section \<open>Weakest preconditions of the row operations\<close>

lemma wp_get_certificate [wp_simps]:
  "wp (get_certificate i) Q E w = (case tbl_get i (certificates (work w)) of
     None \<Rightarrow> E (Exn NotFoundError (''Certificate '' @ str_int i @ '' not found'') None) w
   | Some c \<Rightarrow> Q c w)"
  by (simp add: get_certificate_def wp_simps split: option.splits)

lemma wp_upd [wp_simps]:
  "wp (upd_cert now i f) Q E w = Q () (w\<lparr>work := certificates_update (tbl_upd now i f) (work w)\<rparr>)"
  "wp (upd_job now i g) Q E w = Q () (w\<lparr>work := job_executions_update (tbl_upd now i g) (work w)\<rparr>)"
  by (simp_all add: upd_cert_def upd_job_def wp_simps)

lemma wp_add_job [wp_simps]:
  "wp (add_job now x) Q E w =
     Q (next_id (job_executions (work w)))
       (w\<lparr>work := job_executions_update (\<lambda>t. snd (tbl_add now x t)) (work w)\<rparr>)"
  by (simp add: add_job_def wp_simps)

lemma wp_conj_keeps:
  assumes "keeps I m" "keeps J m" "I s" "J s" "\<And>x t. I t \<Longrightarrow> J t \<Longrightarrow> Q x t" "\<And>e t. I t \<Longrightarrow> J t \<Longrightarrow> E e t"
  shows "wp m Q E s"
  by (rule wp_keeps [where I = "\<lambda>s. I s \<and> J s"]) (use assms in \<open>auto simp: keeps_def\<close>)

lemma get_new_job:
  "wf_table t \<Longrightarrow> tbl_get (next_id t) (snd (tbl_add now x t)) = Some x"
  using tbl.get_add_same [of t now x] by (simp add: tbl_add_def)

section \<open>Renewal\<close>

text \<open>The end of a renewal run leaves the certificate usable and the execution finished.\<close>

definition renewed_state :: "datetime \<Rightarrow> bool \<Rightarrow> certificate \<Rightarrow> bool" where
  "renewed_state now ok c \<longleftrightarrow>
     (if ok then c_status c = CertificateStatus.ACTIVE \<and>
        c_renewal_status c \<in> {RenewalStatus.SUCCESS, RenewalStatus.SKIPPED}
      else c_renewal_status c = RenewalStatus.FAILED \<and>
        c_status c = (if still_valid now c then CertificateStatus.ACTIVE else CertificateStatus.EXPIRING))"

definition job_done :: "datetime \<Rightarrow> bool \<Rightarrow> job_execution \<Rightarrow> bool" where
  "job_done now ok x \<longleftrightarrow>
     j_status x = (if ok then JobStatus.SUCCESS else JobStatus.FAILED) \<and> j_finished_at x = Some now"

definition job_stamped :: "datetime \<Rightarrow> job_execution \<Rightarrow> bool" where
  "job_stamped now x \<longleftrightarrow> j_finished_at x = Some now"

lemma finish_renewal_wp:
  assumes "tracking i (\<lambda>_. True) j (job_stamped now) w" and ok: "ok = rr_success r"
  shows "wp (finish_renewal cx now i user j ms r)
    (\<lambda>_. tracking i (renewed_state now ok) j (job_done now ok)) (\<lambda>_ _. True) w"
proof -
  have set_cert: "tracks i R j (job_stamped now) (certificates_update (tbl_upd now i f) d)"
    if "tracks i (\<lambda>_. True) j (job_stamped now) d" "\<And>c. R (f c)" for d f R
    using that by (auto simp: tracks_def)
  have set_job: "tracks i R j D (job_executions_update (tbl_upd now j g) d)"
    if "tracks i R j (job_stamped now) d"
      "\<And>x. j_finished_at x = Some now \<Longrightarrow> D (g x)" for d g R D
    using that by (auto simp: tracks_def job_stamped_def)
  have finish: "wp (bnd (audit_cert cx now a user i ar m dt) (\<lambda>_. notify cx now ev i)) (\<lambda>_. F) (\<lambda>_ _. True) t"
    if "tracking i R j P t" "\<And>u. tracking i R j P u \<Longrightarrow> F u" for a ar m dt ev t F P R
    using that unfolding wp_bnd
    by (intro wp_keeps [OF keeps_track_audit] wp_keeps [OF keeps_track_notify]) auto
  show ?thesis
  proof (cases "rr_success r")
    case True
    then have [simp]: ok using ok by simp
    show ?thesis
    proof (cases "rr_renewed r \<and> truthy (rr_cert_path r) \<and> files w (str_or (rr_cert_path r) []) \<noteq> None")
      case ren: True
      have "wp (ingest_material cx now i (rr_cert_path r) (rr_key_path r) (rr_chain_path r)
              (rr_fullchain_path r) None)
            (\<lambda>_. wp (bnd (upd_cert now i (renewal_ok now)) (\<lambda>_.
               bnd (audit_cert cx now ''certificate.renew'' user i AuditResult.SUCCESS (Some ms) []) (\<lambda>_.
               notify cx now ''renewed'' i)))
              (\<lambda>_. wp (upd_job now j (\<lambda>x. x\<lparr>j_status := JobStatus.SUCCESS\<rparr>))
                 (\<lambda>_. tracking i (renewed_state now ok) j (job_done now ok)) (\<lambda>_ _. True)) (\<lambda>_ _. True)) (\<lambda>_ _. True) w"
        by (rule wp_keeps [OF keeps_track_ingest [OF status_only_True] assms(1)], unfold wp_bnd [of "upd_cert _ _ _"] wp_upd)
          (auto intro!: finish [where R = "renewed_state now True"] set_cert set_job simp: renewal_ok_def renewed_state_def job_done_def)
      then show ?thesis using True ren by (simp add: finish_renewal_def wp_simps)
    next
      case False
      have "tracks i (renewed_state now ok) j (job_done now ok) (job_executions_update
          (tbl_upd now j (\<lambda>x. x\<lparr>j_status := JobStatus.SUCCESS\<rparr>))
          (certificates_update (tbl_upd now i renewal_skipped) (work w)))"
        using set_job [OF set_cert [OF assms(1), of "renewed_state now ok" renewal_skipped], of "job_done now ok" "\<lambda>x. x\<lparr>j_status := JobStatus.SUCCESS\<rparr>"]
        by (simp add: renewal_skipped_def renewed_state_def job_done_def)
      then show ?thesis using True False by (auto simp: finish_renewal_def wp_simps)
    qed
  next
    case False
    then have [simp]: "\<not> ok" using ok by simp
    let ?err = "take 4000 (str_or (rr_error r) ''Unknown renewal error'')"
    let ?w = "w\<lparr>work := job_executions_update
          (tbl_upd now j (\<lambda>x. x\<lparr>j_status := JobStatus.FAILED, j_error_message := Some ?err\<rparr>))
          (certificates_update (tbl_upd now i (fail_renewal now ?err)) (work w))\<rparr>"
    have "tracking i (renewed_state now ok) j (job_done now ok) ?w"
      using set_job [OF set_cert [OF assms(1), of "renewed_state now ok" "fail_renewal now ?err"],
          of "job_done now ok" "\<lambda>x. x\<lparr>j_status := JobStatus.FAILED, j_error_message := Some ?err\<rparr>"]
      by (simp add: fail_renewal_def renewed_state_def job_done_def still_valid_def)
    from finish [OF this] show ?thesis using False
      by (simp add: finish_renewal_def Let_def wp_bnd [of "upd_cert _ _ _"] wp_bnd [of "upd_job _ _ _"] wp_upd)
  qed
qed

lemma renew_wp:
  assumes "wf_table (job_executions (work w))"
  shows "wp (renew_certificate cx now el i force user tr)
    (\<lambda>j w'. committed w' = work w' \<and> (\<exists>ok. tracks i (renewed_state now ok) j (job_done now ok) (work w'))) (\<lambda>_ _. True) w"
proof (cases "tbl_get i (certificates (work w))")
  case None
  then show ?thesis by (simp add: renew_certificate_def wp_simps)
next
  case (Some c)
  let ?j = "next_id (job_executions (work w))"
  have start: "tracks i (\<lambda>_. True) ?j (\<lambda>_. True) (job_executions_update (\<lambda>t. snd (tbl_add now x t))
      (certificates_update (tbl_upd now i f) (work w)))" for x f
    using Some get_new_job [OF assms, of now x] by (simp add: tracks_def)
  have run: "wp (bnd (upd_job now ?j f) (\<lambda>_. bnd (finish_renewal cx now i user ?j ms r) (\<lambda>_. bnd commit (\<lambda>_. ret ?j))))
      (\<lambda>j w'. committed w' = work w' \<and> (\<exists>ok. tracks i (renewed_state now ok) j (job_done now ok) (work w'))) (\<lambda>_ _. True) t"
    if "tracking i (\<lambda>_. True) ?j (\<lambda>_. True) t" "\<And>x. job_stamped now (f x)" for t f ms r
  proof -
    have "tracks i (\<lambda>_. True) ?j (job_stamped now) (job_executions_update (tbl_upd now ?j f) (work t))"
      using that by (auto simp: tracks_def)
    then show ?thesis
      using finish_renewal_wp [of i ?j now "t\<lparr>work := job_executions_update (tbl_upd now ?j f) (work t)\<rparr>" "rr_success r" r cx user ms]
      by (auto simp: wp_simps elim!: wp_mono)
  qed
  have "wp (bnd (provider_for cx c) (\<lambda>pv. bnd (on_fs (pv_renew pv n force st)) (\<lambda>r.
       let ms = duration_or (rr_duration_ms r) el in
       bnd (upd_job now ?j (\<lambda>x. x\<lparr>j_exit_code := rr_exit_code r, j_stdout := tail_log (rr_stdout r),
              j_stderr := tail_log (rr_stderr r), j_execution_time_ms := Some ms,
              j_finished_at := Some now\<rparr>)) (\<lambda>_.
       bnd (finish_renewal cx now i user ?j ms r) (\<lambda>_. bnd commit (\<lambda>_. ret ?j))))))
      (\<lambda>j w'. committed w' = work w' \<and> (\<exists>ok. tracks i (renewed_state now ok) j (job_done now ok) (work w'))) (\<lambda>_ _. True) t"
    if "tracking i (\<lambda>_. True) ?j (\<lambda>_. True) t" for t n st
    unfolding wp_bnd [of "provider_for _ _"] wp_bnd [of "on_fs _"] Let_def
    by (rule wp_keeps [where I = "tracking i (\<lambda>_. True) ?j (\<lambda>_. True)", OF keeps_provider_for that],
        rule wp_keeps [where I = "tracking i (\<lambda>_. True) ?j (\<lambda>_. True)", OF keeps_on_fs])
      (auto intro!: run simp: job_stamped_def)
  with Some start show ?thesis
    by (auto simp: renew_certificate_def wp_simps(1-2) wp_bnd [of "get_certificate _"] wp_get_certificate
        wp_bnd [of "upd_cert _ _ _"] wp_bnd [of "add_job _ _"] wp_bnd [of commit] wp_upd wp_add_job wp_db)
qed

lemma keeps_comm_finish [keeps_rules]: "keeps (comm d) (finish_renewal cx now i user j ms r)"
  unfolding finish_renewal_def opt_exists_def Let_def by (intro keeps_rules)

text \<open>The state a renewal commits before it calls the provider.\<close>

definition renewal_started ::
    "datetime \<Rightarrow> int \<Rightarrow> actor \<Rightarrow> JobTrigger \<Rightarrow> db \<Rightarrow> db" where
  "renewal_started now i user tr d =
     job_executions_update (\<lambda>t. snd (tbl_add now (new_job JobType.RENEW (Some i) tr JobStatus.RUNNING now user) t))
       (certificates_update (tbl_upd now i (\<lambda>c. c\<lparr>c_renewal_status := RenewalStatus.IN_PROGRESS,
          c_status := CertificateStatus.RENEWING\<rparr>)) d)"

definition renewable :: "certificate \<Rightarrow> bool" where
  "renewable c \<longleftrightarrow> c_managed_by_platform c \<and> truthy (c_cert_name c) \<and>
     c_renewal_status c \<noteq> RenewalStatus.IN_PROGRESS"

lemma renew_raise_wp:
  assumes c: "tbl_get i (certificates (work w)) = Some c" "renewable c"
  shows "wp (renew_certificate cx now el i force user tr) (\<lambda>_ _. True)
    (\<lambda>_ w'. committed w' = renewal_started now i user tr (work w)) w"
proof -
  let ?d = "renewal_started now i user tr (work w)"
  let ?j = "next_id (job_executions (work w))"
  have finish: "wp (bnd (upd_job now ?j f) (\<lambda>_. bnd (finish_renewal cx now i user ?j ms r) (\<lambda>_. bnd commit (\<lambda>_. ret ?j))))
      (\<lambda>_ _. True) (\<lambda>_ w'. committed w' = ?d) t" if "comm ?d t" for t f ms r
    unfolding wp_bnd [of "upd_job _ _ _"] wp_upd wp_bnd [of "finish_renewal _ _ _ _ _ _ _"]
    by (rule wp_keeps [OF keeps_comm_finish, of ?d]) (use that in \<open>auto simp: comm_def wp_simps\<close>)
  have run: "wp (bnd (provider_for cx c) (\<lambda>pv. bnd (on_fs (pv_renew pv n force st)) (\<lambda>r.
       let ms = duration_or (rr_duration_ms r) el in
       bnd (upd_job now ?j (\<lambda>x. x\<lparr>j_exit_code := rr_exit_code r, j_stdout := tail_log (rr_stdout r),
              j_stderr := tail_log (rr_stderr r), j_execution_time_ms := Some ms,
              j_finished_at := Some now\<rparr>)) (\<lambda>_.
       bnd (finish_renewal cx now i user ?j ms r) (\<lambda>_. bnd commit (\<lambda>_. ret ?j))))))
      (\<lambda>_ _. True) (\<lambda>_ w'. committed w' = ?d) t"
    if "comm ?d t" for t n st
    unfolding wp_bnd [of "provider_for _ _"] wp_bnd [of "on_fs _"] Let_def
    by (rule wp_keeps [where I = "comm ?d", OF keeps_provider_for that],
        rule wp_keeps [where I = "comm ?d", OF keeps_comm_on_fs])
      (auto intro!: finish, simp_all add: comm_def)
  from run [of "w\<lparr>work := ?d, committed := ?d\<rparr>"] show ?thesis using c
    by (auto simp: renew_certificate_def renewable_def renewal_started_def comm_def wp_prim wp_if
        wp_bnd [of "get_certificate _"] wp_get_certificate
        wp_bnd [of "upd_cert _ _ _"] wp_bnd [of "add_job _ _"] wp_bnd [of commit] wp_upd wp_add_job wp_db)
qed

section \<open>Properties of renewal\<close>

text \<open>C1: A renewal that returns has committed everything it wrote; its execution is finished,
  and either it succeeded and the certificate is active with renewal status success or
  skipped, or it failed and the certificate is active while still valid and expiring
  otherwise.\<close>

theorem renew_outcome:
  assumes "wf_table (job_executions (work w))"
    and "renew_certificate cx now el i force user tr w = (Inr j, w')"
  shows "committed w' = work w' \<and>
    (\<exists>c x ok. tbl_get i (certificates (committed w')) = Some c \<and>
       tbl_get j (job_executions (committed w')) = Some x \<and>
       j_status x = (if ok then JobStatus.SUCCESS else JobStatus.FAILED) \<and> j_finished_at x = Some now \<and>
       (if ok then c_status c = CertificateStatus.ACTIVE \<and>
          c_renewal_status c \<in> {RenewalStatus.SUCCESS, RenewalStatus.SKIPPED}
        else c_renewal_status c = RenewalStatus.FAILED \<and>
          c_status c = (if still_valid now c then CertificateStatus.ACTIVE else CertificateStatus.EXPIRING)))"
proof -
  from wp_InrD [OF renew_wp [OF assms(1)] assms(2)]
  obtain ok where o: "committed w' = work w'" "tracks i (renewed_state now ok) j (job_done now ok) (work w')"
    by blast
  then obtain c x where "tbl_get i (certificates (work w')) = Some c" "renewed_state now ok c"
      "tbl_get j (job_executions (work w')) = Some x" "job_done now ok x"
    by (auto simp: tracks_def)
  with o(1) show ?thesis unfolding renewed_state_def job_done_def
    by (intro conjI exI [of _ c] exI [of _ x] exI [of _ ok]) simp_all
qed

lemma renewal_blocked:
  assumes c: "tbl_get i (certificates (work w)) = Some c" "renewable c"
    and wf: "wf_table (job_executions (work w))"
    and t: "renew_certificate cx now el i force user tr w = (Inl e, t)"
  defines "w' \<equiv> t\<lparr>work := committed t\<rparr>"
  shows "tbl_get i (certificates (committed w')) =
      Some (c\<lparr>c_renewal_status := RenewalStatus.IN_PROGRESS, c_status := CertificateStatus.RENEWING\<rparr>) \<and>
    tbl_get (next_id (job_executions (work w))) (job_executions (committed w')) =
      Some (new_job JobType.RENEW (Some i) tr JobStatus.RUNNING now user) \<and>
    fst (renew_certificate cx now2 el2 i force2 user2 tr2 w') =
      Inl (Exn ConflictError ''Renewal already in progress for this certificate'' None)"
proof -
  have cm: "committed t = renewal_started now i user tr (work w)"
    using wp_InlD [OF renew_raise_wp [OF c] t] .
  let ?c = "c\<lparr>c_renewal_status := RenewalStatus.IN_PROGRESS, c_status := CertificateStatus.RENEWING\<rparr>"
  have g: "tbl_get i (certificates (work w')) = Some ?c" using c cm by (simp add: renewal_started_def w'_def)
  have "wp (renew_certificate cx now2 el2 i force2 user2 tr2) (\<lambda>_ _. False)
      (\<lambda>e _. e = Exn ConflictError ''Renewal already in progress for this certificate'' None) w'"
    using g c(2) by (simp add: renew_certificate_def wp_simps renewable_def)
  then have "fst (renew_certificate cx now2 el2 i force2 user2 tr2 w') =
      Inl (Exn ConflictError ''Renewal already in progress for this certificate'' None)"
    by (auto simp: wp_def split: prod.splits sum.splits)
  then show ?thesis using g c cm wf by (simp add: renewal_started_def get_new_job w'_def)
qed

text \<open>C3: An exception that escapes a started renewal (an unknown provider, a failing provider
  call, unreadable material) leaves the committed certificate RENEWING and IN_PROGRESS with
  a RUNNING execution, and the next renewal of it is refused with a conflict.\<close>

theorem renew_exception_blocks:
  assumes c: "tbl_get i (certificates (work w)) = Some c" "renewable c"
    and wf: "wf_table (job_executions (work w))"
    and r: "in_session (renew_certificate cx now el i force user tr) w = (Inl e, w')"
  shows "tbl_get i (certificates (committed w')) =
      Some (c\<lparr>c_renewal_status := RenewalStatus.IN_PROGRESS, c_status := CertificateStatus.RENEWING\<rparr>) \<and>
    tbl_get (next_id (job_executions (work w))) (job_executions (committed w')) =
      Some (new_job JobType.RENEW (Some i) tr JobStatus.RUNNING now user) \<and>
    fst (renew_certificate cx now2 el2 i force2 user2 tr2 w') =
      Inl (Exn ConflictError ''Renewal already in progress for this certificate'' None)"
proof -
  obtain t where t: "renew_certificate cx now el i force user tr w = (Inl e, t)" "w' = t\<lparr>work := committed t\<rparr>"
    using r by (auto simp: in_session_def split: prod.splits sum.splits)
  show ?thesis unfolding t(2) by (rule renewal_blocked [OF c wf t(1)])
qed

end
