(* ===== verification/Cert_Safety.thy ===== *)
theory Cert_Safety
  imports Cert_Proofs
begin

text \<open>
  Further properties of the certificate lifecycle: recovery of stale renewals, revocation,
  deletion, import and issuance, and what the asynchronous path reconstructs of a request.
\<close>

section \<open>Stale renewals\<close>

lemma running_renewal_row:
  assumes "running_renewal i d = Some x"
  shows "x \<in> set (rows (job_executions d)) \<and> j_certificate_id (rval x) = Some i \<and>
    j_job_type (rval x) = JobType.RENEW \<and> j_status (rval x) = JobStatus.RUNNING"
proof -
  let ?js = "tbl_sel (\<lambda>w. j_certificate_id (rval w) = Some i \<and> j_job_type (rval w) = JobType.RENEW \<and>
                  j_status (rval w) = JobStatus.RUNNING) (job_executions d)"
  let ?us = "filter (\<lambda>w. j_started_at (rval w) = None) ?js"
  let ?ss = "sort_key (\<lambda>w. - or_default (j_started_at (rval w)) 0) ?js"
  have "x \<in> set ?us \<or> x \<in> set ?ss"
    using assms unfolding running_renewal_def Let_def
    by (cases ?us; cases ?ss) (auto simp del: set_sort set_filter)
  then show ?thesis by (auto simp: tbl_sel_def)
qed

definition stale_message :: string where
  "stale_message = ''Marked failed: no progress for over '' @ str_int STALE_RENEWAL_MINUTES @
     '' minutes - the worker likely crashed, was restarted, or got stuck.''"

text \<open>C8: A renewal that has been in progress for an hour or longer is closed by the stale
  check, in a committed state: the certificate can be renewed again, is active or expiring
  according to its validity, and its execution is failed.  Before the hour the check changes
  nothing.\<close>

theorem stale_renewal_closed:
  assumes cw: "tbl_row i (certificates (work w)) = Some cw"
    and ip: "c_renewal_status (rval cw) = RenewalStatus.IN_PROGRESS"
    and ex: "running_renewal i (work w) = Some x" "j_started_at (rval x) = Some t"
    and wf: "wf_table (job_executions (work w))"
  shows "if now - t < 60 * us_per_minute then mark_stale_renewal_failed now i w = (Inr (), w)
    else \<exists>w' c. mark_stale_renewal_failed now i w = (Inr (), w') \<and> committed w' = work w' \<and>
      tbl_get i (certificates (work w')) = Some c \<and>
      c_renewal_status c = RenewalStatus.FAILED \<and>
      c_status c = (if still_valid now (rval cw) then CertificateStatus.ACTIVE else CertificateStatus.EXPIRING) \<and>
      tbl_get (rid x) (job_executions (work w')) = Some ((rval x)\<lparr>j_status := JobStatus.FAILED,
        j_finished_at := Some now, j_error_message := Some stale_message\<rparr>)"
proof -
  have x: "tbl_get (rid x) (job_executions (work w)) = Some (rval x)"
    using tbl_row_in [OF wf] running_renewal_row [OF ex(1)] by (simp add: tbl_get_def)
  have c: "tbl_get i (certificates (work w)) = Some (rval cw)" using cw by (simp add: tbl_get_def)
  show ?thesis
    using cw ip ex x c
    by (simp add: mark_stale_renewal_failed_def STALE_RENEWAL_MINUTES_def close_renewal_def op_simps
        upd_job_def upd_cert_def fail_renewal_def stale_message_def)
qed

text \<open>Cancelling is refused unless a renewal is in progress, changes nothing then, and
  otherwise commits a certificate whose renewal can be started again.\<close>

theorem cancel_renewal_ok:
  assumes c: "tbl_get i (certificates (work w)) = Some c" "c_managed_by_platform c" "truthy (c_cert_name c)"
  shows "case cancel_renewal now i w of
      (Inl e, w') \<Rightarrow> e = Exn ValidationAppError ''No renewal is in progress for this certificate'' None \<and>
        c_renewal_status c \<noteq> RenewalStatus.IN_PROGRESS \<and> w' = w
    | (Inr _, w') \<Rightarrow> c_renewal_status c = RenewalStatus.IN_PROGRESS \<and> committed w' = work w' \<and>
        (\<exists>c'. tbl_get i (certificates (work w')) = Some c' \<and> renewable c' \<and>
           c_status c' = (if still_valid now c then CertificateStatus.ACTIVE else CertificateStatus.EXPIRING))"
  using c
  by (auto simp: cancel_renewal_def get_certificate_def op_simps close_renewal_def upd_job_def upd_cert_def
      fail_renewal_def renewable_def split: option.splits)

section \<open>Revocation\<close>

lemma keeps_del_material [keeps_rules]:
  "keeps (comm d) (delete_cert_material cfg fpo)" "keeps (tracking i P j R) (delete_cert_material cfg fpo)"
  unfolding delete_cert_material_def by (auto intro!: keeps_rules keeps_modify simp: comm_def)

definition revoked_state :: "certificate \<Rightarrow> bool" where
  "revoked_state c \<longleftrightarrow> c_status c = CertificateStatus.REVOKED \<and> \<not> c_auto_renew c \<and>
     c_renewal_status c = RenewalStatus.DISABLED"

lemma revoke_rest_comm: "keeps (comm d) (revoke_rest cx now i reason b user c)"
  unfolding revoke_rest_def by (intro keeps_rules)

lemma revoke_rest_tracks: "keeps (tracking i revoked_state j P) (revoke_rest cx now i reason b user c)"
  unfolding revoke_rest_def
  by (intro keeps_rules keeps_track_upd_cert) (simp add: revoked_state_def)+

lemma revoke_wp:
  assumes c: "tbl_get i (certificates (work w)) = Some c"
    and wf: "wf_table (job_executions (work w))"
  shows "wp (revoke_certificate cx now i reason da user tr)
    (\<lambda>j w'. committed w' = work w' \<and>
       (tracks i revoked_state j (\<lambda>x. j_status x = JobStatus.SUCCESS) (work w') \<or>
        tracks i (\<lambda>c'. c' = c) j (\<lambda>x. j_status x = JobStatus.FAILED) (work w')))
    (\<lambda>_ w'. committed w' = committed w) w" (is "wp _ ?Q ?E w")
proof -
  let ?j = "next_id (job_executions (work w))"
  let ?I = "\<lambda>t. comm (committed w) t \<and> work t = work w"
  let ?S = "\<lambda>t. comm (committed w) t \<and> tracking i revoked_state ?j (\<lambda>x. j_status x = JobStatus.SUCCESS) t"
  let ?F = "\<lambda>t. comm (committed w) t \<and> tracking i (\<lambda>c'. c' = c) ?j (\<lambda>x. j_status x = JobStatus.FAILED) t"
  have ok: "wp (bnd (bnd (upd_cert now i mark_revoked) (\<lambda>_. revoke_rest cx now i reason b user c))
        (\<lambda>_. bnd commit (\<lambda>_. ret ?j))) ?Q ?E t"
    if "comm (committed w) t" "tracking i (\<lambda>_. True) ?j (\<lambda>x. j_status x = JobStatus.SUCCESS) t" for t b
    unfolding bnd_assoc wp_bnd [of "upd_cert _ _ mark_revoked"] wp_upd wp_bnd [of "revoke_rest _ _ _ _ _ _ _"]
    by (rule wp_keeps [where I = ?S, OF keeps_conj [OF revoke_rest_comm revoke_rest_tracks]])
      (use that in \<open>auto simp: tracks_def comm_def revoked_state_def mark_revoked_def wp_simps\<close>)
  have bad: "wp (bnd (audit_cert cx now ''certificate.revoke'' user i AuditResult.FAILURE None dt)
      (\<lambda>_. bnd commit (\<lambda>_. ret ?j))) ?Q ?E t" if "?F t" for t dt
    unfolding wp_bnd [of "audit_cert _ _ _ _ _ _ _ _"]
    by (rule wp_keeps [where I = ?F, OF keeps_conj [OF keeps_comm_ops(2) keeps_track_audit]]) (use that in \<open>auto simp: wp_simps comm_def\<close>)
  have start: "tracks i P ?j (\<lambda>x. j_status x = st) (job_executions_update (\<lambda>t. snd (tbl_add now x t)) (work w))"
    if "P c" "j_status x = st" for P st x
    using c get_new_job [OF wf, of now x] that by (simp add: tracks_def)
  have pre: "keeps ?I (provider_for cx c)" "keeps ?I (on_fs f)" for f :: "fs \<Rightarrow> (exn + revoke_result) \<times> fs"
    by (auto intro!: keeps_provider_for keeps_on_fs simp: comm_def)
  have "wp (revoke_certificate cx now i reason da user tr) ?Q ?E w"
    unfolding revoke_certificate_def wp_bnd [of "get_certificate _"] wp_get_certificate c option.case
      wp_bnd [of "catch_op _ _"] wp_catch
  proof (rule wp_keeps [where I = ?I, OF pre(1)])
    fix pv t assume t: "?I t"
    show "wp (bnd (on_fs (pv_revoke pv (str_or (c_cert_path c) []) reason)) (\<lambda>r.
       bnd (add_job now ((new_job JobType.REVOKE (Some i) tr
            (if vr_success r then JobStatus.SUCCESS else JobStatus.FAILED) now user)\<lparr>
            j_exit_code := vr_exit_code r, j_stdout := tail_log (vr_stdout r),
            j_stderr := tail_log (vr_stderr r), j_finished_at := Some now,
            j_error_message := (if vr_success r then None
                                else Some (take 4000 (str_or (vr_error r) [])))\<rparr>)) (\<lambda>j.
     bnd (if vr_success r then
            bnd (upd_cert now i mark_revoked) (\<lambda>_. revoke_rest cx now i reason (da \<and> truthy (c_cert_path c)) user c)
          else audit_cert cx now ''certificate.revoke'' user i AuditResult.FAILURE None
                 [(''error'', opt_json (vr_error r))]) (\<lambda>_.
     bnd commit (\<lambda>_. ret j))))) ?Q ?E t"
      unfolding wp_bnd [of "on_fs _"] wp_bnd [of "add_job _ _"] wp_add_job
      by (rule wp_keeps [where I = ?I, OF pre(2) t])
        (auto intro!: ok bad start simp: comm_def new_job_def)
  qed (auto simp: comm_def wp_simps)
  then show ?thesis .
qed

lemma not_due: "\<not> c_auto_renew c \<Longrightarrow> \<not> is_due s now threshold c"
  by (simp add: is_due_def Let_def)

text \<open>C5: A revocation that returns has committed; when its execution succeeded the
  certificate is revoked, its automatic renewal is off and it is never selected for renewal
  again, whatever the time and threshold; otherwise the certificate is unchanged.  One that
  raises has committed nothing.\<close>

theorem revoke_outcome:
  assumes c: "tbl_get i (certificates (work w)) = Some c"
    and wf: "wf_table (job_executions (work w))"
  shows "case revoke_certificate cx now i reason da user tr w of
      (Inl _, w') \<Rightarrow> committed w' = committed w
    | (Inr j, w') \<Rightarrow> committed w' = work w' \<and> (\<exists>c' x.
        tbl_get i (certificates (committed w')) = Some c' \<and> tbl_get j (job_executions (committed w')) = Some x \<and>
        (if j_status x = JobStatus.SUCCESS
         then c_status c' = CertificateStatus.REVOKED \<and> \<not> c_auto_renew c' \<and> \<not> is_due s now2 threshold c'
         else j_status x = JobStatus.FAILED \<and> c' = c))"
proof (cases "revoke_certificate cx now i reason da user tr w")
  case (Pair r w')
  note wp = revoke_wp [OF assms, of cx now reason da user tr]
  show ?thesis
  proof (cases r)
    case (Inl e)
    with Pair wp_InlD [OF wp] show ?thesis by simp
  next
    case (Inr j)
    with Pair wp_InrD [OF wp] have "committed w' = work w'"
      "tracks i revoked_state j (\<lambda>x. j_status x = JobStatus.SUCCESS) (work w') \<or>
        tracks i (\<lambda>c'. c' = c) j (\<lambda>x. j_status x = JobStatus.FAILED) (work w')" by auto
    with Pair Inr show ?thesis by (force simp: tracks_def revoked_state_def not_due)
  qed
qed

section \<open>Deletion\<close>

text \<open>Whether any row of the database refers to certificate \<open>i\<close>.\<close>

definition mentions :: "int \<Rightarrow> db \<Rightarrow> bool" where
  "mentions i d \<longleftrightarrow>
     tbl_count (\<lambda>w. rid w = i) (certificates d) + tbl_count (\<lambda>w. cd_certificate_id (rval w) = i) (certificate_domains d) +
     tbl_count (\<lambda>w. j_certificate_id (rval w) = Some i) (job_executions d) +
     tbl_count (\<lambda>w. d_certificate_id (rval w) = i) (deployments d) +
     tbl_count (\<lambda>w. b_certificate_id (rval w) = Some i) (backups d) +
     tbl_count (\<lambda>w. hc_certificate_id (rval w) = i) (health_checks d) +
     tbl_count (\<lambda>w. fav_certificate_id (rval w) = i) (favorites d) +
     tbl_count (\<lambda>w. ns_certificate_id (rval w) = i) (network_sightings d) +
     tbl_count (\<lambda>w. co_certificate_id (rval w) = i) (ct_observations d) +
     tbl_count (\<lambda>w. f_certificate_id (rval w) = i) (ct_findings d) +
     tbl_count (\<lambda>w. us_certificate_id (rval w) = i) (usage_scans d) +
     tbl_count (\<lambda>w. ur_certificate_id (rval w) = i \<or> ur_presented_certificate_id (rval w) = Some i) (usage_results d) +
     tbl_count (\<lambda>w. n_related_certificate_id (rval w) = Some i) (notifications d) \<noteq> 0"

lemma tbl_count_cleared:
  assumes "\<And>w. w \<in> set (rows t) \<Longrightarrow> p w \<Longrightarrow> \<not> q (w\<lparr>rval := f (rval w)\<rparr>)" "\<And>w. w \<in> set (rows t) \<Longrightarrow> \<not> p w \<Longrightarrow> \<not> q w"
  shows "tbl_count q (tbl_set_where p f t) = 0"
  using assms by (auto simp: tbl_count_def tbl_sel_def tbl_set_where_def filter_empty_conv)

lemma delete_cert_rows_mentions: "\<not> mentions i (delete_cert_rows i d)"
  unfolding mentions_def
  by (auto simp: delete_cert_rows_def tbl_del_def intro!: tbl_count_cleared)

lemma delete_frame:
  "mentions i (audit_logs_update h d) = mentions i d"
  "discovery_ignores (delete_cert_rows i d) = discovery_ignores d"
  by (simp_all add: mentions_def delete_cert_rows_def)

lemma truthy_str_or: "truthy v \<Longrightarrow> Some (str_or v e) = v"
  by (cases v) (auto simp: truthy_def str_or_def)

text \<open>C6: A managed certificate can be deleted only when it is failed, revoked or archived;
  otherwise the request is refused and nothing changes.  A deletion leaves no row that
  refers to the certificate, in a committed state, and puts the fingerprint of a certificate
  the platform only discovered on the ignore list, so that discovery does not bring it
  back.\<close>

theorem delete_outcome:
  assumes c: "tbl_get i (certificates (work w)) = Some c"
  shows "case delete_certificate cx now i user w of
      (Inl e, w') \<Rightarrow> c_managed_by_platform c \<and>
        c_status c \<notin> {CertificateStatus.FAILED, CertificateStatus.REVOKED, CertificateStatus.ARCHIVED} \<and>
        exc_of e = ValidationAppError \<and> w' = w
    | (Inr _, w') \<Rightarrow>
        (c_managed_by_platform c \<longrightarrow>
           c_status c \<in> {CertificateStatus.FAILED, CertificateStatus.REVOKED, CertificateStatus.ARCHIVED}) \<and>
        committed w' = work w' \<and> \<not> mentions i (committed w') \<and>
        (\<not> c_managed_by_platform c \<and> truthy (c_fingerprint_sha256 c) \<longrightarrow>
           tbl_first (\<lambda>r. Some (di_fingerprint_sha256 (rval r)) = c_fingerprint_sha256 c)
             (discovery_ignores (committed w')) \<noteq> None)"
proof -
  let ?I = "\<lambda>t. \<exists>f. t = w\<lparr>files := f\<rparr>"
  have wipe: "keeps ?I (when_op b (catch_op (delete_cert_material cfg fpo) (\<lambda>_. ret ())))" for b cfg fpo
    unfolding delete_cert_material_def by (auto intro!: keeps_rules keeps_modify)
  show ?thesis
  proof (cases "c_managed_by_platform c \<and> c_status c \<notin> set DELETABLE_STATUSES")
    case True
    then show ?thesis using c
      by (auto simp: delete_certificate_def get_certificate_def op_simps DELETABLE_STATUSES_def)
  next
    case False
    have "wp (delete_certificate cx now i user)
        (\<lambda>_ w'. committed w' = work w' \<and> \<not> mentions i (committed w') \<and>
          (\<not> c_managed_by_platform c \<and> truthy (c_fingerprint_sha256 c) \<longrightarrow>
           tbl_first (\<lambda>r. Some (di_fingerprint_sha256 (rval r)) = c_fingerprint_sha256 c)
             (discovery_ignores (committed w')) \<noteq> None)) (\<lambda>_ _. False) w"
      unfolding delete_certificate_def wp_bnd [of "get_certificate _"] wp_get_certificate c option.case
        if_not_P [OF False] wp_bnd [of "when_op (truthy _) _"]
      by (rule wp_returns [where I = ?I, OF _ wipe])
        (auto intro!: returns_rules exI [of _ "files w"] simp: wp_simps when_op_def audit_cert_def record_audit_def delete_frame
          delete_cert_rows_mentions truthy_str_or tbl_first_def rows_add find_append find_None_iff
          split: option.splits)
    then show ?thesis using False
      by (auto simp: wp_def DELETABLE_STATUSES_def split: prod.splits sum.splits)
  qed
qed

section \<open>Import\<close>

definition has_cert :: "int \<Rightarrow> (certificate \<Rightarrow> bool) \<Rightarrow> world \<Rightarrow> bool" where
  "has_cert i P w \<longleftrightarrow> (\<exists>c. tbl_get i (certificates (work w)) = Some c \<and> P c)"

lemma returns_row_ops [returns_rules]:
  "returns (upd_cert now i f)" "returns (upd_job now i g)" "returns (add_job now x)"
  "returns (audit_cert cx now a u c r ms dt)" "returns (notify cx now ev c)" "returns (add_cert now x2)"
  unfolding upd_cert_def upd_job_def add_job_def audit_cert_def record_audit_def notify_def add_cert_def
  by (intro returns_rules)+

lemma returns_add [returns_rules]: "returns (add_domains now i b sans)" "returns (add_tag now i n)"
  unfolding add_domains_def add_tag_def by (auto intro!: returns_rules split: prod.splits)

lemma keeps_cert_mod [keeps_rules]:
  "(\<And>d. certificates (f d) = certificates d) \<Longrightarrow> keeps (has_cert i P) (db_mod f)"
  by (simp add: keeps_def op_simps has_cert_def)

lemma keeps_cert_ops [keeps_rules]:
  "keeps (has_cert i P) (add_job now x)" "keeps (has_cert i P) (audit_cert cx now a u c r ms dt)"
  unfolding add_job_def audit_cert_def record_audit_def by (auto intro!: keeps_rules)

lemma keeps_cert_domains [keeps_rules]: "keeps (has_cert i P) (add_domains now i' b sans)"
  unfolding add_domains_def by (auto intro!: keeps_rules split: prod.splits)

lemma keeps_cert_upd: "(\<And>c. P c \<Longrightarrow> P (f c)) \<Longrightarrow> keeps (has_cert i P) (upd_cert now i' f)"
  by (auto simp: keeps_def upd_cert_def op_simps has_cert_def)

lemma keeps_cert_tag:
  "(\<And>c ts. P c \<Longrightarrow> P (c\<lparr>c_tags := ts\<rparr>)) \<Longrightarrow> keeps (has_cert i P) (add_tag now i' n)"
  unfolding add_tag_def by (auto intro!: keeps_rules keeps_cert_upd)

lemma keeps_cert_notify [keeps_rules]: "keeps (has_cert i P) (notify cx now ev c)"
proof -
  have "keeps (has_cert i P) (queue_event_notifications nt k now ev c ex)" for nt k c ex
  proof (rule keepsI)
    fix w
    assume t: "has_cert i P w"
    have "same_but_notifications (work w) (work (snd (queue_event_notifications nt k now ev c ex w)))"
      using keepsD [OF queue_frame [of "committed w" "files w" "work w" nt k now ev c ex], of w] by simp
    then show "has_cert i P (snd (queue_event_notifications nt k now ev c ex w))"
      using t by (auto simp: same_but_notifications_def has_cert_def)
  qed
  then show ?thesis unfolding notify_def by (auto intro!: keeps_rules)
qed

lemma import_store_wp:
  assumes "wf_table (certificates (work w))" and P: "P c" "\<And>c ts. P c \<Longrightarrow> P (c\<lparr>c_tags := ts\<rparr>)"
  shows "wp (import_store cx now p user trigger fp c)
    (\<lambda>i w'. i = next_id (certificates (work w)) \<and> committed w' = work w' \<and> has_cert i P w') (\<lambda>_ w'. w' = w) w"
proof (cases "distinct (c_sans c)")
  case True
  let ?i = "next_id (certificates (work w))"
  let ?w = "w\<lparr>work := certificates_update (\<lambda>t. snd (tbl_add now c t)) (work w)\<rparr>"
  let ?m = "bnd (add_domains now ?i False (c_sans c)) (\<lambda>_.
     bnd (for_each (im_tags p) (add_tag now ?i)) (\<lambda>_.
     bnd (add_job now ((new_job JobType.IMPORT (Some ?i) trigger JobStatus.SUCCESS now user)\<lparr>
            j_finished_at := Some now, j_stdout := Some (''Imported '' @ take 16 fp @ ''...'')\<rparr>)) (\<lambda>_.
     bnd (audit_cert cx now ''certificate.import'' user ?i AuditResult.SUCCESS None
            [(''fingerprint'', JStr fp)]) (\<lambda>_.
     notify cx now ''imported'' ?i))))"
  have h: "has_cert ?i P ?w" using get_new_job [OF assms(1)] P by (simp add: has_cert_def)
  have k: "keeps (has_cert ?i P) ?m" by (intro keeps_rules keeps_cert_tag P)
  have "wp (bnd ?m (\<lambda>_. bnd commit (\<lambda>_. ret ?i)))
     (\<lambda>i w'. i = ?i \<and> committed w' = work w' \<and> has_cert i P w') (\<lambda>_ w'. w' = w) ?w"
    unfolding wp_bnd [of ?m]
    by (rule wp_returns [OF _ k h]) (auto intro!: returns_rules simp: wp_simps has_cert_def)
  then show ?thesis using True by (simp add: import_store_def bnd_assoc add_cert_def wp_simps)
next
  case False
  then show ?thesis by (simp add: import_store_def wp_simps)
qed

text \<open>The row of an import, its tags aside, is made from the metadata of the parsed certificate.\<close>

definition imported_from :: "settings \<Rightarrow> x509_meta \<Rightarrow> import_payload \<Rightarrow> actor \<Rightarrow> certificate \<Rightarrow> bool" where
  "imported_from s m p user c \<longleftrightarrow> (\<exists>has_chain key_path tags. c = (import_row s m p user has_chain key_path)\<lparr>c_tags := tags\<rparr>)"

lemma imported_from_row: "imported_from s m p user (import_row s m p user hc kp)"
  unfolding imported_from_def
  by (intro exI [of _ hc] exI [of _ kp] exI [of _ "c_tags (import_row s m p user hc kp)"]) simp

lemma imported_from_tags: "imported_from s m p user c \<Longrightarrow> imported_from s m p user (c\<lparr>c_tags := ts\<rparr>)"
  unfolding imported_from_def by (elim exE) (intro exI, simp)

lemma imported_from_facts:
  assumes "imported_from s m p user c"
  shows "c_fingerprint_sha256 c = Some (m_fingerprint_sha256 m)" "c_imported c" "\<not> c_managed_by_platform c"
    "c_provider_name c = or_default (im_provider p) ''imported''"
  using assms by (auto simp: imported_from_def import_row_def Let_def)

text \<open>The certificate an import is about: the one given, or the one inside the PKCS#12 file.\<close>

definition import_source :: "ctx \<Rightarrow> string option \<Rightarrow> string option \<Rightarrow> string option \<Rightarrow> string option \<Rightarrow> string option \<Rightarrow> x509_meta \<Rightarrow> bool" where
  "import_source cx cd kd chd pd pp m \<longleftrightarrow>
     (\<exists>raw key_data chain. import_inputs cx cd kd chd pd pp = Inr (Some raw, key_data, chain) \<and> parse_certificate (cx_x5 cx) raw = Inr m)"

lemma import_parsed_wp:
  assumes wf: "wf_table (certificates (work w))"
  shows "wp (import_certificate cx now cd kd chd pd pp p user trigger)
    (\<lambda>i w'. committed w' = work w' \<and> (\<exists>m. import_source cx cd kd chd pd pp m \<and>
        tbl_first (\<lambda>r. c_fingerprint_sha256 (rval r) = Some (m_fingerprint_sha256 m)) (certificates (work w)) = None \<and>
        has_cert i (imported_from (cx_cfg cx) m p user) w'))
    (\<lambda>_ w'. work w' = work w \<and> committed w' = committed w) w" (is "wp _ ?Q ?E w")
proof -
  let ?I = "\<lambda>t. work t = work w \<and> committed t = committed w"
  have store: "wp (import_store cx now p user trigger fp (import_row s m p user hc kp)) ?Q ?E t"
    if "?I t" "fp = m_fingerprint_sha256 m" "s = cx_cfg cx"
      "\<not> (\<exists>y. tbl_first (\<lambda>r. c_fingerprint_sha256 (rval r) = Some fp) (certificates (work w)) = Some y)"
      "import_inputs cx cd kd chd pd pp = Inr (raw, key_data, chain)" "truthy raw" "parse_certificate (cx_x5 cx) (str_or raw []) = Inr m"
    for t fp m s hc kp raw key_data chain
  proof -
    have "import_source cx cd kd chd pd pp m"
      using that(5-7) truthy_str_or [of raw "[]"] unfolding import_source_def by metis
    then show ?thesis
      using that wf by (intro wp_mono [OF import_store_wp [of t "imported_from (cx_cfg cx) m p user"]])
        (auto simp: imported_from_row imported_from_tags)
  qed
  have key: "wp (write_private_key s k iv fp pem) Q ?E t" if "?I t" "\<And>x u. ?I u \<Longrightarrow> Q x u" for s k iv fp pem t Q
    by (rule wp_keeps [where I = ?I]) (use that in \<open>auto simp: keeps_def write_private_key_def op_simps bnd_def Let_def\<close>)
  show ?thesis
    unfolding import_certificate_def Let_def
    by (auto intro!: store key simp: wp_simps when_op_def simp del: bnd_db bnd_prim split: sum.splits)
qed

lemma import_wp:
  assumes wf: "wf_table (certificates (work w))"
  shows "wp (import_certificate cx now cd kd chd pd pp p user trigger)
    (\<lambda>i w'. committed w' = work w' \<and> (\<exists>fp. tbl_first (\<lambda>r. c_fingerprint_sha256 (rval r) = Some fp) (certificates (work w)) = None \<and>
        has_cert i (\<lambda>c. c_fingerprint_sha256 c = Some fp \<and> \<not> c_managed_by_platform c \<and> c_imported c) w'))
    (\<lambda>_ w'. work w' = work w \<and> committed w' = committed w) w"
  by (rule wp_mono [OF import_parsed_wp [OF wf]]) (auto simp: has_cert_def dest: imported_from_facts)

text \<open>C7: An import that raises leaves the database as it was.  One that returns has committed a
  certificate whose fingerprint no certificate had before: the same certificate cannot be
  imported twice.\<close>

theorem import_outcome:
  assumes wf: "wf_table (certificates (work w))"
  shows "case import_certificate cx now cd kd chd pd pp p user trigger w of
      (Inl _, w') \<Rightarrow> work w' = work w \<and> committed w' = committed w
    | (Inr i, w') \<Rightarrow> committed w' = work w' \<and> (\<exists>fp c.
        tbl_first (\<lambda>r. c_fingerprint_sha256 (rval r) = Some fp) (certificates (work w)) = None \<and>
        tbl_get i (certificates (committed w')) = Some c \<and> c_fingerprint_sha256 c = Some fp \<and>
        c_imported c \<and> \<not> c_managed_by_platform c)"
proof (cases "import_certificate cx now cd kd chd pd pp p user trigger w")
  case (Pair r w')
  note wp = import_wp [OF assms, of cx now cd kd chd pd pp p user trigger]
  show ?thesis
  proof (cases r)
    case (Inl e)
    with Pair wp_InlD [OF wp] show ?thesis by simp
  next
    case (Inr i)
    with Pair wp_InrD [OF wp] obtain fp c where "committed w' = work w'"
      "tbl_first (\<lambda>r. c_fingerprint_sha256 (rval r) = Some fp) (certificates (work w)) = None"
      "tbl_get i (certificates (work w')) = Some c" "c_fingerprint_sha256 c = Some fp"
      "\<not> c_managed_by_platform c" "c_imported c"
      unfolding has_cert_def by blast
    with Pair Inr show ?thesis by (auto intro!: exI [of _ fp])
  qed
qed

section \<open>Issuance\<close>

definition issued_state :: "bool \<Rightarrow> certificate \<Rightarrow> bool" where
  "issued_state ok c \<longleftrightarrow>
     (if ok then c_status c = CertificateStatus.ACTIVE \<and> c_renewal_status c = RenewalStatus.NONE
      else c_status c = CertificateStatus.FAILED \<and> c_renewal_status c = RenewalStatus.FAILED)"

lemma status_only_issued: "status_only (issued_state ok)"
  by (simp add: status_only_def issued_state_def)

lemma keeps_comm_finish_issuance [keeps_rules]: "keeps (comm d) (finish_issuance cx now i user j ms r)"
  unfolding finish_issuance_def Let_def by (intro keeps_rules)

text \<open>The last steps of an operation: an audit entry and a notification.\<close>

lemma keeps_track_report:
  "keeps (tracking i Pc j Pj) (bnd (audit_cert cx now a user i ar m dt) (\<lambda>_. notify cx now ev i))"
  by (intro keeps_rules)

lemma tracks_upd_cert:
  "tracks i P j R d \<Longrightarrow> (\<And>c. P c \<Longrightarrow> P' (f c)) \<Longrightarrow> tracks i P' j R (certificates_update (tbl_upd now i f) d)"
  by (auto simp: tracks_def)

lemma tracks_upd_job:
  "tracks i P j R d \<Longrightarrow> (\<And>x. R x \<Longrightarrow> R' (f x)) \<Longrightarrow> tracks i P j R' (job_executions_update (tbl_upd now j f) d)"
  by (auto simp: tracks_def)

lemma finish_issuance_wp:
  assumes t: "tracking i (\<lambda>_. True) j (job_stamped now) w"
  shows "wp (finish_issuance cx now i user j ms r)
    (\<lambda>_. tracking i (issued_state (ir_success r)) j (job_done now (ir_success r))) (\<lambda>_ _. True) w"
proof (cases "ir_success r")
  case True
  let ?c = "\<lambda>c. c\<lparr>c_status := CertificateStatus.ACTIVE, c_renewal_status := RenewalStatus.NONE,
      c_last_renewed_at := Some now\<rparr>"
  have c: "tracks i (issued_state True) j (job_stamped now) (certificates_update (tbl_upd now i ?c) (work w))"
    by (rule tracks_upd_cert [OF t]) (simp add: issued_state_def)
  have "wp (ingest_material cx now i (ir_cert_path r) (ir_key_path r) (ir_chain_path r) (ir_fullchain_path r) (ir_cert_name r))
     (\<lambda>_. wp (bnd (upd_job now j (\<lambda>x. x\<lparr>j_status := JobStatus.SUCCESS\<rparr>)) (\<lambda>_.
        bnd (audit_cert cx now ''certificate.issue'' user i AuditResult.SUCCESS (Some ms) []) (\<lambda>_.
        notify cx now ''issued'' i))) (\<lambda>_. tracking i (issued_state True) j (job_done now True)) (\<lambda>_ _. True)) (\<lambda>_ _. True)
     (w\<lparr>work := certificates_update (tbl_upd now i ?c) (work w)\<rparr>)"
    using c
    by (intro wp_keeps [OF keeps_track_ingest [OF status_only_issued], of i True j "job_stamped now"])
      (auto simp: wp_bnd [of "upd_job _ _ _"] wp_upd job_stamped_def job_done_def
        intro!: wp_keeps [OF keeps_track_report, of i "issued_state True" j "job_done now True"] elim!: tracks_upd_job)
  then show ?thesis using True by (simp add: finish_issuance_def wp_bnd [of "upd_cert _ _ _"] wp_upd wp_bnd [of "ingest_material _ _ _ _ _ _ _ _"])
next
  case False
  let ?err = "take 4000 (issue_error r)"
  let ?w = "w\<lparr>work := job_executions_update
        (tbl_upd now j (\<lambda>x. x\<lparr>j_status := JobStatus.FAILED, j_error_message := Some ?err\<rparr>))
        (certificates_update (tbl_upd now i (\<lambda>c. c\<lparr>c_status := CertificateStatus.FAILED,
           c_renewal_status := RenewalStatus.FAILED, c_renewal_error := Some ?err\<rparr>)) (work w))\<rparr>"
  have "tracking i (issued_state False) j (job_done now False) ?w"
    using t by (auto intro!: tracks_upd_job [where R = "job_stamped now"] tracks_upd_cert
        simp: job_stamped_def job_done_def issued_state_def)
  then have "wp (bnd (audit_cert cx now ''certificate.issue'' user i AuditResult.FAILURE (Some ms)
       [(''error'', opt_json (ir_error r))]) (\<lambda>_. notify cx now ''failure'' i))
     (\<lambda>_. tracking i (issued_state False) j (job_done now False)) (\<lambda>_ _. True) ?w"
    by (rule wp_keeps [OF keeps_track_report]) auto
  then show ?thesis using False
    by (simp add: finish_issuance_def Let_def wp_bnd [of "upd_cert _ _ _"] wp_bnd [of "upd_job _ _ _"] wp_upd)
qed

text \<open>The state an issuance commits before it looks for the provider.\<close>

definition issuance_started :: "datetime \<Rightarrow> int \<Rightarrow> actor \<Rightarrow> JobTrigger \<Rightarrow> db \<Rightarrow> db" where
  "issuance_started now i user tr d =
     job_executions_update (\<lambda>t. snd (tbl_add now (new_job JobType.ISSUE (Some i) tr JobStatus.RUNNING now user) t)) d"

lemma execute_issuance_wp:
  assumes c: "tbl_get i (certificates (work w)) = Some c"
    and wf: "wf_table (job_executions (work w))"
  shows "wp (execute_issuance cx now el i user tr p)
    (\<lambda>j w'. committed w' = work w' \<and> (\<exists>ok. tracks i (issued_state ok) j (job_done now ok) (work w')))
    (\<lambda>_ w'. committed w' = issuance_started now i user tr (work w)) w" (is "wp _ ?Q ?E w")
proof -
  let ?d = "issuance_started now i user tr (work w)"
  let ?j = "next_id (job_executions (work w))"
  let ?I = "\<lambda>t. comm ?d t \<and> tracking i (\<lambda>_. True) ?j (\<lambda>_. True) t"
  have start: "tracks i (\<lambda>_. True) ?j (\<lambda>_. True) ?d"
    using c get_new_job [OF wf] by (simp add: tracks_def issuance_started_def)
  have none: "wp (bnd (upd_job now ?j f) (\<lambda>_. bnd (upd_cert now i g) (\<lambda>_. bnd commit (\<lambda>_. ret ?j)))) ?Q ?E t"
    if "?I t" "\<And>x. job_done now False (f x)" "\<And>c. issued_state False (g c)" for t f g
    using that by (auto simp: wp_simps intro!: exI [of _ False] tracks_upd_cert [where P = "\<lambda>_. True"]
        tracks_upd_job [where R = "\<lambda>_. True"])
  have fin: "wp (bnd (upd_job now ?j f) (\<lambda>_. bnd (finish_issuance cx now i user ?j ms r) (\<lambda>_. bnd commit (\<lambda>_. ret ?j)))) ?Q ?E t"
    if "?I t" "\<And>x. job_stamped now (f x)" for t f ms r
  proof -
    let ?t = "t\<lparr>work := job_executions_update (tbl_upd now ?j f) (work t)\<rparr>"
    have "tracks i (\<lambda>_. True) ?j (job_stamped now) (work ?t)"
      using that by (auto intro!: tracks_upd_job [where R = "\<lambda>_. True"])
    from finish_issuance_wp [OF this, of cx user ms r] have "wp (finish_issuance cx now i user ?j ms r)
       (\<lambda>_ u. tracking i (issued_state (ir_success r)) ?j (job_done now (ir_success r)) u) (\<lambda>_ u. comm ?d u) ?t"
      using keepsD [OF keeps_comm_finish_issuance [of ?d cx now i user ?j ms r], of ?t] that(1)
      by (auto simp: wp_def comm_def split: prod.splits sum.splits)
    then show ?thesis
      by (auto simp: wp_bnd [of "upd_job _ _ _"] wp_upd wp_bnd [of "finish_issuance _ _ _ _ _ _ _"] comm_def wp_simps
          elim!: wp_mono)
  qed
  have fs: "keeps ?I (on_fs f)" for f :: "fs \<Rightarrow> (exn + issue_result) \<times> fs"
    by (auto intro!: keeps_on_fs simp: comm_def)
  have run: "wp (bnd (catch_op (bnd (provider_for cx c) (\<lambda>p. ret (Some p)))
                   (\<lambda>e. if exc_of e = KeyError then ret None else throw e)) K) ?Q ?E t"
    if "?I t" "\<And>u v. ?I u \<Longrightarrow> wp (K v) ?Q ?E u" for t K
    unfolding wp_bnd [of "catch_op _ _"] wp_catch wp_bnd [of "provider_for _ _"]
    by (rule wp_keeps [where I = ?I, OF keeps_provider_for that(1)]) (use that in \<open>auto simp: wp_simps comm_def\<close>)
  show ?thesis
    unfolding execute_issuance_def wp_bnd [of "get_certificate _"] wp_get_certificate c option.case
      wp_bnd [of "add_job _ _"] wp_add_job wp_bnd [of commit] wp_db
    apply (rule run)
    subgoal using start by (simp add: comm_def issuance_started_def)
    subgoal for u v
      by (cases v) (auto intro!: none fin wp_keeps [where I = ?I, OF fs]
        simp: wp_bnd [of "db_get _"] wp_db wp_bnd [of "lift_exn _"] wp_lift wp_bnd [of "on_fs _"] Let_def
          issued_state_def job_done_def job_stamped_def comm_def
        simp del: bnd_db bnd_prim split: sum.splits)
    done
qed

text \<open>C4: An issuance that returns has committed: the execution is finished, and either it
  succeeded and the certificate is active, or it failed and the certificate is failed.\<close>

theorem issuance_outcome:
  assumes c: "tbl_get i (certificates (work w)) = Some c"
    and wf: "wf_table (job_executions (work w))"
    and r: "execute_issuance cx now el i user tr p w = (Inr j, w')"
  shows "committed w' = work w' \<and> (\<exists>c x ok.
    tbl_get i (certificates (committed w')) = Some c \<and> tbl_get j (job_executions (committed w')) = Some x \<and>
    j_status x = (if ok then JobStatus.SUCCESS else JobStatus.FAILED) \<and> j_finished_at x = Some now \<and>
    c_status c = (if ok then CertificateStatus.ACTIVE else CertificateStatus.FAILED) \<and>
    c_renewal_status c = (if ok then RenewalStatus.NONE else RenewalStatus.FAILED))"
proof -
  obtain ok where o: "committed w' = work w'" "tracks i (issued_state ok) j (job_done now ok) (work w')"
    using wp_InrD [OF execute_issuance_wp [OF c wf] r] by blast
  then obtain c x where "tbl_get i (certificates (work w')) = Some c" "issued_state ok c"
      "tbl_get j (job_executions (work w')) = Some x" "job_done now ok x"
    by (auto simp: tracks_def)
  with o(1) show ?thesis unfolding issued_state_def job_done_def
    by (intro conjI exI [of _ c] exI [of _ x] exI [of _ ok]) (simp_all split: if_splits)
qed

text \<open>An exception that escapes an issuance (a rejected request, a failing provider call,
  unreadable material) leaves the certificate as it was, with a RUNNING execution.  A
  managed certificate in status ISSUING is then stuck: the stale check does not touch it
  and deleting it is refused.\<close>

theorem issuance_exception_strands:
  assumes c: "tbl_get i (certificates (work w)) = Some c" "c_status c = CertificateStatus.ISSUING"
      "c_managed_by_platform c" "c_renewal_status c = RenewalStatus.NONE"
    and wf: "wf_table (job_executions (work w))"
    and r: "in_session (execute_issuance cx now el i user tr p) w = (Inl e, w')"
  shows "tbl_get i (certificates (committed w')) = Some c \<and>
    tbl_get (next_id (job_executions (work w))) (job_executions (committed w')) =
      Some (new_job JobType.ISSUE (Some i) tr JobStatus.RUNNING now user) \<and>
    mark_stale_renewal_failed now2 i w' = (Inr (), w') \<and>
    (\<exists>m. delete_certificate cx now3 i user2 w' = (Inl (Exn ValidationAppError m None), w'))"
proof -
  obtain t where t: "execute_issuance cx now el i user tr p w = (Inl e, t)" "w' = t\<lparr>work := committed t\<rparr>"
    using r by (auto simp: in_session_def split: prod.splits sum.splits)
  have cm: "committed t = issuance_started now i user tr (work w)"
    using wp_InlD [OF execute_issuance_wp [OF c(1) wf] t(1)] .
  then have g: "tbl_get i (certificates (work w')) = Some c" "committed w' = work w'"
    using c t(2) by (simp_all add: issuance_started_def)
  obtain cw where "tbl_row i (certificates (work w')) = Some cw" "rval cw = c"
    using g(1) by (auto simp: tbl_get_def)
  then have "mark_stale_renewal_failed now2 i w' = (Inr (), w')"
    using c(4) by (simp add: mark_stale_renewal_failed_def op_simps)
  moreover have "\<exists>m. delete_certificate cx now3 i user2 w' = (Inl (Exn ValidationAppError m None), w')"
    using g c by (simp add: delete_certificate_def get_certificate_def op_simps DELETABLE_STATUSES_def)
  ultimately show ?thesis using g cm t(2) wf by (simp add: issuance_started_def get_new_job)
qed

section \<open>Requests rebuilt from the row\<close>

lemma build_request_hooks:
  assumes "build_issue_request s p n d = Inr q"
  shows "\<exists>ho. (if uses_hooks (or_default (ip_validation_method p) ''http-01'') p then resolve_hooks p d else Inr None) = Inr ho \<and>
    (let h = (case ho of None \<Rightarrow> no_hooks | Some x \<Rightarrow> x) in
     q_auth_hook q = rh_auth_hook h \<and> q_cleanup_hook q = rh_cleanup_hook h \<and> q_hook_env q = rh_env h \<and>
     q_hook_execution_user q = rh_execution_user h \<and> q_hook_working_directory q = rh_working_directory h \<and>
     q_hook_timeout q = rh_timeout_seconds h \<and>
     q_ssh_private_key_encrypted q = rh_ssh_private_key_encrypted h \<and> q_ssh_target_host q = rh_ssh_target_host h)"
  using assms by (auto simp: build_issue_request_def Let_def split: sum.splits if_splits)

lemma keys_dict_set: "map fst (dict_set k v m) = (if k \<in> set (map fst m) then map fst m else map fst m @ [k])"
  by (induction k v m rule: dict_set.induct) auto

lemma distinct_dict_update: "distinct (map fst m) \<Longrightarrow> distinct (map fst (dict_update m g))"
  unfolding dict_update_def
  by (induction g arbitrary: m) (auto simp: keys_dict_set split: prod.splits)

lemma dict_set_new: "k \<notin> fst ` set m \<Longrightarrow> dict_set k v m = m @ [(k, v)]"
  by (induction m) auto

lemma dict_update_append:
  "distinct (map fst (m @ g)) \<Longrightarrow> dict_update m g = m @ g"
proof (induction g arbitrary: m)
  case (Cons kv g)
  obtain k v where kv: "kv = (k, v)" by (cases kv)
  have "dict_update m (kv # g) = dict_update (dict_set k v m) g" by (simp add: dict_update_def kv)
  also have "\<dots> = dict_update (m @ [kv]) g" using Cons.prems by (simp add: dict_set_new kv image_def)
  also have "\<dots> = m @ kv # g" using Cons.IH [of "m @ [kv]"] Cons.prems by simp
  finally show ?case .
qed (simp add: dict_update_def)

lemma resolve_hooks_Some:
  assumes "resolve_hooks p d = Inr (Some h)"
  shows "distinct (map fst (rh_env h))" "truthy (rh_auth_hook h) \<or> truthy (rh_cleanup_hook h)"
  using assms
  by (auto simp: resolve_hooks_def Let_def distinct_dict_update split: if_splits option.splits)

lemma resolve_paths:
  assumes "\<not> id_truthy (ip_auth_hook_id p)" "\<not> id_truthy (ip_cleanup_hook_id p)"
    "truthy (ip_auth_hook p) \<or> truthy (ip_cleanup_hook p)" "distinct (map fst (ip_hook_env p))"
  shows "resolve_hooks p d = Inr (Some (no_hooks\<lparr>rh_auth_hook := ip_auth_hook p,
    rh_cleanup_hook := ip_cleanup_hook p, rh_env := ip_hook_env p\<rparr>))"
  using assms by (auto simp: resolve_hooks_def no_hooks_def Let_def dict_update_append)

lemma issuance_request_sync:
  "issuance_request s c (Some p) d = Inr q \<Longrightarrow>
     \<exists>q0 e. build_issue_request s p (c_cert_name c) d = Inr q0 \<and> q = q0\<lparr>q_email := e\<rparr>"
  by (auto simp: issuance_request_def Let_def split: sum.splits)

lemma issuance_request_async:
  "issuance_request s c None d = Inr q \<Longrightarrow>
     \<exists>q0 e. build_issue_request s (reconstruct_payload c) (c_cert_name c) d = Inr q0 \<and>
       q = (restore_hooks c q0)\<lparr>q_email := e\<rparr>"
  by (auto simp: issuance_request_def Let_def split: sum.splits)

lemma hook_ids_reconstruct [simp]:
  "\<not> id_truthy (ip_auth_hook_id (reconstruct_payload c))" "\<not> id_truthy (ip_cleanup_hook_id (reconstruct_payload c))"
  by (simp_all add: reconstruct_payload_def empty_payload_def id_truthy_def)

text \<open>For the hooked validation methods the request that a worker rebuilds from the
  certificate row carries the same hooks, hook environment, user, directory, timeout and SSH
  target as the one built from the original payload.\<close>

theorem async_hooks_preserved:
  assumes m: "or_default (ip_validation_method p) ''http-01'' \<in> set HOOKED_METHODS"
    and h: "resolve_hooks p d = Inr (Some h)" "rh_timeout_seconds h \<noteq> 0"
    and q: "issuance_request s (issue_row s p n (Some h) user) (Some p) d = Inr q1"
      "issuance_request s (issue_row s p n (Some h) user) None d2 = Inr q2"
  shows "q_auth_hook q2 = q_auth_hook q1 \<and> q_cleanup_hook q2 = q_cleanup_hook q1 \<and>
    q_hook_env q2 = q_hook_env q1 \<and> q_hook_execution_user q2 = q_hook_execution_user q1 \<and>
    q_hook_working_directory q2 = q_hook_working_directory q1 \<and> q_hook_timeout q2 = q_hook_timeout q1 \<and>
    q_ssh_private_key_encrypted q2 = q_ssh_private_key_encrypted q1 \<and>
    q_ssh_target_host q2 = q_ssh_target_host q1"
proof -
  let ?c = "issue_row s p n (Some h) user"
  let ?p = "reconstruct_payload ?c"
  have hooked: "uses_hooks (or_default (ip_validation_method p) ''http-01'') p"
    "uses_hooks (or_default (ip_validation_method ?p) ''http-01'') ?p"
    using m by (simp_all add: uses_hooks_def reconstruct_payload_def issue_row_def Let_def or_default_def)
  have hook_fields: "ip_auth_hook ?p = rh_auth_hook h" "ip_cleanup_hook ?p = rh_cleanup_hook h" "ip_hook_env ?p = rh_env h"
    by (simp_all add: reconstruct_payload_def issue_row_def Let_def or_default_def)
  have r: "resolve_hooks ?p d2 = Inr (Some (no_hooks\<lparr>rh_auth_hook := rh_auth_hook h,
      rh_cleanup_hook := rh_cleanup_hook h, rh_env := rh_env h\<rparr>))"
    using resolve_hooks_Some [OF h(1)] resolve_paths [of ?p d2] hook_fields by simp
  obtain q10 q20 e1 e2 where b: "build_issue_request s p (c_cert_name ?c) d = Inr q10" "q1 = q10\<lparr>q_email := e1\<rparr>"
    "build_issue_request s ?p (c_cert_name ?c) d2 = Inr q20" "q2 = (restore_hooks ?c q20)\<lparr>q_email := e2\<rparr>"
    using issuance_request_sync [OF q(1)] issuance_request_async [OF q(2)] by blast
  show ?thesis
    using build_request_hooks [OF b(1)] build_request_hooks [OF b(3)] b(2,4) hooked h r resolve_hooks_Some(2) [OF h(1)]
    by (auto simp: Let_def restore_hooks_def issue_row_def id_truthy_def or_default_def)
qed

text \<open>For the other validation methods hooks named by identifier reach the provider on the
  synchronous path and are lost when a worker rebuilds the request.\<close>

theorem async_hooks_lost:
  assumes m: "or_default (ip_validation_method p) ''http-01'' \<notin> set HOOKED_METHODS" "id_truthy (ip_auth_hook_id p)"
    and h: "resolve_hooks p d = Inr (Some h)"
    and q: "issuance_request s (issue_row s p n (Some h) user) (Some p) d = Inr q1"
      "issuance_request s (issue_row s p n (Some h) user) None d2 = Inr q2"
  shows "q_auth_hook q1 = rh_auth_hook h \<and> q_hook_env q1 = rh_env h \<and> q_auth_hook q2 = None \<and> q_hook_env q2 = []"
proof -
  let ?c = "issue_row s p n (Some h) user"
  let ?p = "reconstruct_payload ?c"
  have hooked: "uses_hooks (or_default (ip_validation_method p) ''http-01'') p"
    "\<not> uses_hooks (or_default (ip_validation_method ?p) ''http-01'') ?p"
    using m hook_ids_reconstruct [of ?c]
    by (simp_all add: uses_hooks_def) (simp add: reconstruct_payload_def issue_row_def Let_def or_default_def)
  obtain q10 q20 e1 e2 where b: "build_issue_request s p (c_cert_name ?c) d = Inr q10" "q1 = q10\<lparr>q_email := e1\<rparr>"
    "build_issue_request s ?p (c_cert_name ?c) d2 = Inr q20" "q2 = (restore_hooks ?c q20)\<lparr>q_email := e2\<rparr>"
    using issuance_request_sync [OF q(1)] issuance_request_async [OF q(2)] by blast
  show ?thesis
    using build_request_hooks [OF b(1)] build_request_hooks [OF b(3)] b(2,4) hooked h
    by (auto simp: Let_def restore_hooks_def no_hooks_def)
qed

end
