(* ===== verification/Tasks.thy ===== *)
theory Tasks
  imports Admin Posture Cert_Safety
begin

text \<open>
  The background work: \<open>app/tasks/\<close> (the session and maintenance wrapper, the renewal sweep,
  expiry warnings, the daily summary, dispatch of a queued job),
  \<open>app/services/job_service.py\<close> and the in-process scheduler \<open>app/core/scheduler.py\<close>.
  Celery's broker is left out: a queued job is the list of messages it would carry.
\<close>

section \<open>The task wrapper\<close>

definition db_task :: "datetime \<Rightarrow> 'a wop \<Rightarrow> 'a wop" where
  "db_task now body = in_session (bnd (ensure_not_maintenance now ''background job'') (\<lambda>_. body))"

section \<open>Renewal sweep\<close>

record sweep =
  sw_attempted :: nat
  sw_succeeded :: nat
  sw_failed :: nat

text \<open>\<^verbatim>\<open>except Exception\<close> goes on with the session as the failed renewal left it.\<close>

primrec renew_loop :: "ctx \<Rightarrow> datetime \<Rightarrow> int \<Rightarrow> int list \<Rightarrow> sweep \<Rightarrow> sweep wop" where
  "renew_loop cx now elapsed [] n = ret n"
| "renew_loop cx now elapsed (i # is) n =
     bnd (catch_op
            (bnd (renew_certificate cx now elapsed i False None JobTrigger.SCHEDULER) (\<lambda>j.
             bnd (db_get (\<lambda>d. case tbl_get j (job_executions d) of
                     Some x \<Rightarrow> j_status x = JobStatus.SUCCESS | None \<Rightarrow> False)) (\<lambda>ok.
             ret (if ok then n\<lparr>sw_attempted := sw_attempted n + 1, sw_succeeded := sw_succeeded n + 1\<rparr>
                  else n\<lparr>sw_attempted := sw_attempted n + 1, sw_failed := sw_failed n + 1\<rparr>))))
            (\<lambda>_. ret (n\<lparr>sw_failed := sw_failed n + 1\<rparr>))) (\<lambda>n'.
     renew_loop cx now elapsed is n')"

definition renew_due :: "ctx \<Rightarrow> datetime \<Rightarrow> int \<Rightarrow> sweep option wop" where
  "renew_due cx now elapsed =
     bnd (is_maintenance now) (\<lambda>m.
     if m then ret None
     else
       bnd (db_get (\<lambda>d. map rid (due_certificates (cx_cfg cx) now None d))) (\<lambda>is.
       bnd (renew_loop cx now elapsed is \<lparr>sw_attempted = 0, sw_succeeded = 0, sw_failed = 0\<rparr>) (\<lambda>n.
       ret (Some n))))"

definition renew_one :: "ctx \<Rightarrow> datetime \<Rightarrow> int \<Rightarrow> int \<Rightarrow> int option \<Rightarrow> bool \<Rightarrow> int wop" where
  "renew_one cx now elapsed i user_id force =
     renew_certificate cx now elapsed i force None
       (if id_truthy user_id then JobTrigger.API else JobTrigger.SCHEDULER)"

definition issue_task :: "ctx \<Rightarrow> datetime \<Rightarrow> int \<Rightarrow> int \<Rightarrow> int wop" where
  "issue_task cx now elapsed i =
     bnd (get_certificate i) (\<lambda>_. execute_issuance cx now elapsed i None JobTrigger.API None)"

definition revoke_task :: "ctx \<Rightarrow> datetime \<Rightarrow> int \<Rightarrow> string \<Rightarrow> int wop" where
  "revoke_task cx now i reason = revoke_certificate cx now i reason True None JobTrigger.API"

text \<open>A message of the broker and the task that consumes it; the identifier of the execution
  is carried and not used.  The outer session of \<open>run_job\<close> only checks for maintenance.\<close>

record job_message =
  jm_job_type :: string
  jm_certificate_id :: int
  jm_user_id :: "int option"
  jm_execution_id :: "int option"

definition run_job :: "ctx \<Rightarrow> datetime \<Rightarrow> int \<Rightarrow> job_message \<Rightarrow> int wop" where
  "run_job cx now elapsed m =
     bnd (db_task now (ret ())) (\<lambda>_.
     if jm_job_type m = ''issue'' then db_task now (issue_task cx now elapsed (jm_certificate_id m))
     else if jm_job_type m = ''renew'' then
       db_task now (renew_one cx now elapsed (jm_certificate_id m) (jm_user_id m) False)
     else if jm_job_type m = ''revoke'' then
       db_task now (revoke_task cx now (jm_certificate_id m) ''unspecified'')
     else fail ValueError (''Unsupported job type: '' @ jm_job_type m))"

section \<open>Job executions\<close>

definition get_execution :: "int \<Rightarrow> job_execution wop" where
  "get_execution i = bnd (db_get (\<lambda>d. tbl_get i (job_executions d))) (\<lambda>x.
     case x of None \<Rightarrow> fail NotFoundError ''Execution not found'' | Some r \<Rightarrow> ret r)"

record execution_query =
  eq_certificate_id :: "int option"
  eq_job_type :: "JobType option"
  eq_status :: "JobStatus option"
  eq_page :: nat
  eq_page_size :: nat

definition execution_matches :: "execution_query \<Rightarrow> job_execution row \<Rightarrow> bool" where
  "execution_matches q w \<longleftrightarrow>
     (id_truthy (eq_certificate_id q) \<longrightarrow> j_certificate_id (rval w) = eq_certificate_id q) \<and>
     (case eq_job_type q of None \<Rightarrow> True | Some t \<Rightarrow> j_job_type (rval w) = t) \<and>
     (case eq_status q of None \<Rightarrow> True | Some s \<Rightarrow> j_status (rval w) = s)"

definition list_executions :: "execution_query \<Rightarrow> db \<Rightarrow> job_execution row list \<times> nat" where
  "list_executions q d =
     (let ms = tbl_sel (execution_matches q) (job_executions d) in
      (take (eq_page_size q) (drop ((eq_page q - 1) * eq_page_size q)
         (sort_key (\<lambda>w. - created_at w) ms)), length ms))"

text \<open>The message sent, if any, and the execution that is returned.  The deployment is an
  argument.\<close>

definition retry_execution ::
    "ctx \<Rightarrow> (int \<Rightarrow> int \<Rightarrow> int \<Rightarrow> unit wop) \<Rightarrow> datetime \<Rightarrow> int \<Rightarrow> int \<Rightarrow> actor
      \<Rightarrow> (job_message option \<times> int) wop" where
  "retry_execution cx deploy now elapsed i user =
     bnd (get_execution i) (\<lambda>x.
     if j_job_type x = JobType.ISSUE \<and> id_truthy (j_certificate_id x) then
       bnd (upd_job now i (\<lambda>x. x\<lparr>j_status := JobStatus.QUEUED, j_retry_count := j_retry_count x + 1,
              j_error_message := None\<rparr>)) (\<lambda>_.
       bnd commit (\<lambda>_.
       ret (Some \<lparr>jm_job_type = ''issue'', jm_certificate_id = or_default (j_certificate_id x) 0,
                  jm_user_id = map_option fst user, jm_execution_id = Some i\<rparr>, i)))
     else if j_job_type x = JobType.RENEW \<and> id_truthy (j_certificate_id x) then
       bnd (renew_certificate cx now elapsed (or_default (j_certificate_id x) 0) True user JobTrigger.API)
         (\<lambda>j. ret (None, j))
     else if j_job_type x = JobType.DEPLOY \<and> id_truthy (j_certificate_id x) \<and> id_truthy (j_server_id x) then
       bnd (deploy (or_default (j_certificate_id x) 0) (or_default (j_server_id x) 0) i) (\<lambda>_.
       bnd (get_execution i) (\<lambda>_. ret (None, i)))
     else fail NotFoundError (''Retry not supported for job type '' @ JobType_value (j_job_type x)))"

definition mark_running :: "datetime \<Rightarrow> int \<Rightarrow> unit wop" where
  "mark_running now i =
     bnd (get_execution i) (\<lambda>_.
     bnd (upd_job now i (\<lambda>x. x\<lparr>j_status := JobStatus.RUNNING, j_started_at := Some now\<rparr>)) (\<lambda>_. commit))"

definition mark_done :: "datetime \<Rightarrow> int \<Rightarrow> bool \<Rightarrow> string \<Rightarrow> string \<Rightarrow> string option \<Rightarrow> unit wop" where
  "mark_done now i success stdout stderr error =
     bnd (get_execution i) (\<lambda>_.
     bnd (upd_job now i (\<lambda>x. x\<lparr>j_status := (if success then JobStatus.SUCCESS else JobStatus.FAILED),
            j_stdout := Some (str_or (j_stdout x) [] @ stdout),
            j_stderr := Some (str_or (j_stderr x) [] @ stderr),
            j_error_message := error, j_finished_at := Some now\<rparr>)) (\<lambda>_. commit))"

section \<open>Expiry warnings\<close>

definition DEFAULT_THRESHOLDS :: "int list" where
  "DEFAULT_THRESHOLDS = [60, 30, 15, 7, 3, 1]"

fun parse_ints :: "string list \<Rightarrow> int list option" where
  "parse_ints [] = Some []"
| "parse_ints (x # xs) =
     (case py_int (py_strip x) of
        Inl _ \<Rightarrow> None
      | Inr n \<Rightarrow> (case parse_ints xs of None \<Rightarrow> None | Some ns \<Rightarrow> Some (n # ns)))"

definition expiry_thresholds :: "crypto \<Rightarrow> db \<Rightarrow> exn + int list" where
  "expiry_thresholds k d =
     (case get_setting k ''notification.expiry_warning_days'' d of
        Inl e \<Rightarrow> Inl e
      | Inr raw \<Rightarrow>
          if \<not> truthy raw then Inr DEFAULT_THRESHOLDS
          else (case parse_ints (filter (\<lambda>x. py_strip x \<noteq> []) (split_on CHR '','' (str_or raw []))) of
                  None \<Rightarrow> Inr DEFAULT_THRESHOLDS
                | Some ns \<Rightarrow>
                    let ts = rev (sorted_list_of_set (set ns)) in
                    Inr (if ts = [] then DEFAULT_THRESHOLDS else ts)))"

definition expiry_event :: "int \<Rightarrow> string" where
  "expiry_event t = ''expiry_'' @ str_int t"

text \<open>One certificate: the first threshold that is not below the remaining days, unless a
  notification of that event has been sent for the certificate.  Returns whether it queued.\<close>

definition warn_one :: "net \<Rightarrow> crypto \<Rightarrow> datetime \<Rightarrow> int list \<Rightarrow> int \<times> certificate \<Rightarrow> bool wop" where
  "warn_one nt k now thresholds ic =
     (let days = days_until now (c_valid_until (snd ic)) in
      if days < 0 then ret False
      else (case find (\<lambda>t. days \<le> t) thresholds of
              None \<Rightarrow> ret False
            | Some t \<Rightarrow>
                bnd (db_get (\<lambda>d. tbl_first (\<lambda>w. n_event_type (rval w) = expiry_event t \<and>
                       n_related_certificate_id (rval w) = Some (fst ic) \<and>
                       n_status (rval w) = NotificationStatus.SENT) (notifications d))) (\<lambda>already.
                if already = None then
                  bnd (queue_event_notifications nt k now (expiry_event t) (Some ic) []) (\<lambda>_. ret True)
                else ret False)))"

primrec warn_loop :: "net \<Rightarrow> crypto \<Rightarrow> datetime \<Rightarrow> int list \<Rightarrow> (int \<times> certificate) list \<Rightarrow> nat \<Rightarrow> nat wop" where
  "warn_loop nt k now ts [] n = ret n"
| "warn_loop nt k now ts (c # cs) n =
     bnd (warn_one nt k now ts c) (\<lambda>q. warn_loop nt k now ts cs (if q then n + 1 else n))"

definition expiry_warnings :: "net \<Rightarrow> crypto \<Rightarrow> datetime \<Rightarrow> nat wop" where
  "expiry_warnings nt k now =
     bnd (db_get (expiry_thresholds k)) (\<lambda>tr.
     bnd (lift_exn tr) (\<lambda>ts.
     bnd (db_get (\<lambda>d. map (\<lambda>w. (rid w, rval w))
            (tbl_sel (\<lambda>w. c_valid_until (rval w) \<noteq> None) (certificates d)))) (\<lambda>cs.
     bnd (warn_loop nt k now ts cs 0) (\<lambda>n.
     bnd commit (\<lambda>_. ret n)))))"

definition daily_summary :: "net \<Rightarrow> crypto \<Rightarrow> datetime \<Rightarrow> bool wop" where
  "daily_summary nt k now =
     bnd (db_get (\<lambda>d. (length (rows (certificates d)),
            tbl_count (\<lambda>w. case c_valid_until (rval w) of None \<Rightarrow> False
                           | Some t \<Rightarrow> t \<le> now + 30 * us_per_day) (certificates d),
            tbl_count (\<lambda>w. n_status (rval w) = NotificationStatus.FAILED \<and>
                           now - us_per_day \<le> created_at w) (notifications d),
            tbl_sel (\<lambda>w. nset_enabled (rval w)) (notification_settings d))))
       (\<lambda>(total, expiring, failed, channels).
     case channels of
       [] \<Rightarrow> ret False
     | ch # _ \<Rightarrow>
         bnd (db_get (\<lambda>d. next_id (notifications d))) (\<lambda>i.
         bnd (db_mod (notifications_update (\<lambda>t. snd (tbl_add now
                \<lparr>n_event_type = ''daily_summary'', n_channel = nset_channel (rval ch), n_recipients = [],
                 n_subject = Some (''[CertMgr] Daily summary: '' @ nat_digits total @ '' certificates, '' @
                   nat_digits expiring @ '' expiring <=30d''),
                 n_body = Some (''Total certificates: '' @ nat_digits total @ [CHR 0x0A] @
                   ''Expiring within 30 days: '' @ nat_digits expiring @ [CHR 0x0A] @
                   ''Failed notifications (24h): '' @ nat_digits failed @ [CHR 0x0A]),
                 n_status = NotificationStatus.QUEUED, n_sent_at = None, n_error = None, n_retries = 0,
                 n_related_certificate_id = None\<rparr> t)))) (\<lambda>_.
         bnd commit (\<lambda>_.
         bnd (deliver nt k now i) (\<lambda>r. ret (fst r))))))"

section \<open>The in-process scheduler\<close>

datatype trigger = Cron string string string string string | Interval int

text \<open>\<^verbatim>\<open>str.split()\<close>: the maximal runs of characters that are not white space.\<close>

fun split_ws :: "string \<Rightarrow> string \<Rightarrow> string list" where
  "split_ws acc [] = (if acc = [] then [] else [acc])"
| "split_ws acc (c # cs) =
     (if py_isspace c then (if acc = [] then split_ws [] cs else acc # split_ws [] cs)
      else split_ws (acc @ [c]) cs)"

text \<open>\<open>valid\<close> says whether APScheduler accepts the five fields; otherwise it raises and the
  error is logged.\<close>

definition build_trigger ::
    "(string list \<Rightarrow> bool) \<Rightarrow> string \<Rightarrow> string option \<Rightarrow> int option \<Rightarrow> trigger option" where
  "build_trigger valid schedule_type cron interval =
     (let by_interval = (if schedule_type = ''interval'' \<and> id_truthy interval
                         then Some (Interval (max 60 (or_default interval 0))) else None) in
      if schedule_type = ''cron'' \<and> truthy cron then
        (case split_ws [] (str_or cron []) of
           [m, h, d, mo, dow] \<Rightarrow>
             if valid [m, h, d, mo, dow] then Some (Cron m h d mo dow) else None
         | _ \<Rightarrow> by_interval)
      else by_interval)"

text \<open>The renewal branch of \<open>_dispatch\<close>: no handler around a single certificate, an exception
  ends the sweep, is logged, and closing the session drops what was not committed.\<close>

definition scheduler_renewal :: "ctx \<Rightarrow> datetime \<Rightarrow> int \<Rightarrow> unit wop" where
  "scheduler_renewal cx now elapsed =
     bnd (catch_op
            (bnd (db_get (\<lambda>d. map rid (due_certificates (cx_cfg cx) now None d))) (\<lambda>is.
             for_each is (\<lambda>i. bnd (renew_certificate cx now elapsed i False None JobTrigger.SCHEDULER) (\<lambda>_. ret ()))))
            (\<lambda>_. ret ())) (\<lambda>_.
     rollback)"

section \<open>Properties\<close>

lemma renew_loop_counts:
  "\<exists>n' w'. renew_loop cx now el is n w = (Inr n', w') \<and>
     sw_succeeded n' + sw_failed n' = sw_succeeded n + sw_failed n + length is"
proof (induction "is" arbitrary: n w)
  case (Cons i "is")
  show ?case
  proof (cases "renew_certificate cx now el i False None JobTrigger.SCHEDULER w")
    case (Pair r w1)
    then show ?thesis
      using Cons.IH [of "n\<lparr>sw_failed := sw_failed n + 1\<rparr>" w1]
        Cons.IH [of "n\<lparr>sw_attempted := sw_attempted n + 1, sw_succeeded := sw_succeeded n + 1\<rparr>" w1]
        Cons.IH [of "n\<lparr>sw_attempted := sw_attempted n + 1, sw_failed := sw_failed n + 1\<rparr>" w1]
      by (cases r) (auto simp: bnd_def catch_op_def op_simps)
  qed
qed (simp add: op_simps)

text \<open>Outside maintenance the renewal sweep of the workers always returns and accounts for
  every due certificate, whatever the single renewals do.\<close>

theorem renew_due_accounts:
  assumes "is_maintenance now w = (Inr False, w)"
  shows "\<exists>n w'. renew_due cx now el w = (Inr (Some n), w') \<and>
    sw_succeeded n + sw_failed n = length (due_certificates (cx_cfg cx) now None (work w))"
  using renew_loop_counts [of cx now el "map rid (due_certificates (cx_cfg cx) now None (work w))"
      "\<lparr>sw_attempted = 0, sw_succeeded = 0, sw_failed = 0\<rparr>" w]
  by (auto simp: renew_due_def bnd_def assms op_simps)

text \<open>The sweep of the in-process scheduler stops at the first renewal that raises: the
  certificates after it are not attempted, and the state is what that renewal committed.\<close>

theorem scheduler_sweep_stops:
  assumes "map rid (due_certificates (cx_cfg cx) now None (work w)) = i # is"
    and "renew_certificate cx now el i False None JobTrigger.SCHEDULER w = (Inl e, w1)"
  shows "scheduler_renewal cx now el w = (Inr (), w1\<lparr>work := committed w1\<rparr>)"
  using assms by (simp add: scheduler_renewal_def bnd_def catch_op_def op_simps)

text \<open>Expiry warnings.  The thresholds are in descending order, so the first one that is not
  below the remaining days is the largest of all.\<close>

lemma find_desc:
  assumes "sorted (rev ts)" "find (\<lambda>t. (n::int) \<le> t) ts = Some t"
  shows "t = hd ts"
proof (cases ts)
  case (Cons a l)
  show ?thesis
  proof (cases "n \<le> a")
    case False
    with Cons assms(2) have "t \<in> set l" "n \<le> t" by (auto simp: find_Some_iff)
    moreover have "t \<le> a" using assms(1) \<open>t \<in> set l\<close> Cons by (simp add: sorted_append)
    ultimately show ?thesis using False by simp
  qed (use Cons assms(2) in simp)
qed (use assms(2) in simp)

lemma expiry_thresholds_desc:
  assumes "expiry_thresholds k d = Inr ts"
  shows "sorted (rev ts) \<and> ts \<noteq> []"
  using assms by (auto simp: expiry_thresholds_def DEFAULT_THRESHOLDS_def Let_def split: sum.splits if_splits option.splits)

definition appended :: "notification row list \<Rightarrow> string \<Rightarrow> world \<Rightarrow> bool" where
  "appended r0 ev w \<longleftrightarrow> (\<exists>ns. rows (notifications (work w)) = r0 @ ns \<and> list_all (\<lambda>x. n_event_type (rval x) = ev) ns)"

lemma keeps_appended_queue [keeps_rules]: "keeps (appended r0 ev) (queue_event_notifications nt k now ev c ex)"
proof -
  have "keeps (appended r0 ev) (queue_one nt k now ev c ex ch)" for ch
  proof (rule keepsI)
    fix s assume "appended r0 ev s"
    then show "appended r0 ev (snd (queue_one nt k now ev c ex ch s))"
      using queue_one_cases [of nt k now ev c ex ch s] by (auto simp: appended_def rows_add)
  qed
  then show ?thesis unfolding queue_event_notifications_def by (intro keeps_rules)
qed

lemma keeps_warn_one: "sorted (rev ts) \<Longrightarrow> keeps (appended r0 (expiry_event (hd ts))) (warn_one nt k now ts c)"
  unfolding warn_one_def Let_def by (intro keeps_rules) (auto dest!: find_desc intro!: keeps_rules)

lemma keeps_warn_loop:
  "sorted (rev ts) \<Longrightarrow> keeps (appended r0 (expiry_event (hd ts))) (warn_loop nt k now ts cs n)"
  by (induction cs arbitrary: n) (auto intro!: keeps_rules keeps_warn_one)

text \<open>Every notification that the expiry task queues is for the largest threshold, however
  few days the certificate has left: with the default thresholds no warning for 30, 15, 7, 3
  or 1 days is ever queued.\<close>

theorem expiry_only_largest:
  assumes "expiry_warnings nt k now w = (Inr n, w')"
  shows "\<exists>ts ns. expiry_thresholds k (work w) = Inr ts \<and> ts \<noteq> [] \<and> hd ts = Max (set ts) \<and>
    rows (notifications (committed w')) = rows (notifications (work w)) @ ns \<and>
    list_all (\<lambda>x. n_event_type (rval x) = expiry_event (Max (set ts))) ns"
proof -
  obtain ts where ts: "expiry_thresholds k (work w) = Inr ts"
    using assms by (cases "expiry_thresholds k (work w)") (auto simp: expiry_warnings_def op_simps)
  note d = expiry_thresholds_desc [OF ts]
  have m: "hd ts = Max (set ts)"
    using d by (cases ts) (auto simp: sorted_append intro!: Max_eqI [symmetric])
  let ?cs = "map (\<lambda>w. (rid w, rval w)) (tbl_sel (\<lambda>w. c_valid_until (rval w) \<noteq> None) (certificates (work w)))"
  have "appended (rows (notifications (work w))) (expiry_event (hd ts)) (snd (warn_loop nt k now ts ?cs 0 w))"
    by (rule keepsD [OF keeps_warn_loop]) (use d in \<open>auto simp: appended_def\<close>)
  then obtain ns where "rows (notifications (committed w')) = rows (notifications (work w)) @ ns"
    "list_all (\<lambda>x. n_event_type (rval x) = expiry_event (hd ts)) ns"
    using assms ts by (auto simp: expiry_warnings_def op_simps bnd_def appended_def split: prod.splits sum.splits)
  with ts d m show ?thesis by auto
qed

text \<open>Retrying an issuance.  \<open>job_is i x\<close>: execution \<open>i\<close> is \<open>x\<close> in a well-formed table.\<close>

definition job_is :: "int \<Rightarrow> job_execution \<Rightarrow> db \<Rightarrow> bool" where
  "job_is i x d \<longleftrightarrow> tbl_get i (job_executions d) = Some x \<and> wf_table (job_executions d)"

lemma job_is_fresh: "job_is i x d \<Longrightarrow> next_id (job_executions d) \<noteq> i"
  using tbl_get_fresh [of "job_executions d"] by (auto simp: job_is_def)

lemma keeps_job_mod [keeps_rules]:
  "(\<And>d. job_executions (f d) = job_executions d) \<Longrightarrow> keeps (winv (job_is i x)) (db_mod f)"
  by (rule keeps_db_mod) (simp add: job_is_def)

lemma keeps_job_ops [keeps_rules]:
  "keeps (winv (job_is i x)) (upd_cert now c f)" "keeps (winv (job_is i x)) (audit_cert cx now a u c r ms dt)"
  unfolding upd_cert_def audit_cert_def record_audit_def by (auto intro!: keeps_rules)

lemma keeps_job_upd: "j \<noteq> i \<Longrightarrow> keeps (winv (job_is i x)) (upd_job now j f)"
  unfolding upd_job_def by (rule keeps_db_mod) (simp add: job_is_def)

lemma keeps_job_fs [keeps_rules]:
  "keeps (winv (job_is i x)) (on_fs g)" "keeps (winv (job_is i x)) (fs_write p c)"
  "keeps (winv (job_is i x)) (write_private_key s k iv fp pem)"
  by (auto simp: keeps_def winv_def on_fs_def op_simps write_private_key_def bnd_def Let_def split: prod.splits)

lemma keeps_job_notify [keeps_rules]: "keeps (winv (job_is i x)) (notify cx now ev c)"
  unfolding notify_def queue_event_notifications_def queue_one_def Let_def
  by (intro keeps_rules) (auto intro!: keeps_rules split: prod.splits)

lemma keeps_job_ingest [keeps_rules]: "keeps (winv (job_is i x)) (ingest_material cx now c a b e f g)"
  unfolding ingest_material_def Let_def by (intro keeps_rules)

lemma keeps_job_finish: "j \<noteq> i \<Longrightarrow> keeps (winv (job_is i x)) (finish_issuance cx now c u j ms r)"
  unfolding finish_issuance_def Let_def by (intro keeps_rules keeps_job_upd)

lemma keeps_job_execute: "keeps (winv (job_is i x)) (execute_issuance cx now el c u tr p)"
proof (rule keepsI)
  fix w assume w: "winv (job_is i x) w"
  have add: "winv (job_is i x) (w\<lparr>work := job_executions_update (\<lambda>t. snd (tbl_add now y t)) (work w)\<rparr>)" for y
    using w tbl.get_add_old [of "job_executions (work w)" i x now y] by (simp add: winv_def job_is_def)
  have ne: "next_id (job_executions (work w)) \<noteq> i" using w job_is_fresh by (auto simp: winv_def)
  have rest: "keeps (winv (job_is i x)) (bnd commit (\<lambda>_.
     bnd (catch_op (bnd (provider_for cx cc) (\<lambda>p. ret (Some p)))
                   (\<lambda>e. if exc_of e = KeyError then ret None else throw e)) K))"
    if "\<And>v. keeps (winv (job_is i x)) (K v)" for cc K
    using that by (intro keeps_rules keeps_provider_for) auto
  have "wp (execute_issuance cx now el c u tr p) (\<lambda>_. winv (job_is i x)) (\<lambda>_. winv (job_is i x)) w"
    unfolding execute_issuance_def wp_bnd [of "get_certificate _"] wp_get_certificate wp_bnd [of "add_job _ _"] wp_add_job
    using w add ne
    by (auto split: option.splits simp: Let_def
        intro!: wp_keeps [where I = "winv (job_is i x)", OF rest] keeps_rules keeps_job_upd keeps_job_finish)
  then show "winv (job_is i x) (snd (execute_issuance cx now el c u tr p w))"
    by (auto simp: wp_def split: prod.splits sum.splits)
qed

lemma keeps_job_task:
  "keeps (winv (job_is i x)) m \<Longrightarrow> keeps (winv (job_is i x)) (db_task now m)"
  unfolding db_task_def ensure_not_maintenance_def is_maintenance_def
  by (intro keeps_in_session keeps_rules) auto

text \<open>Retrying a failed issuance marks its execution queued and sends a message; the worker
  that consumes the message runs under an execution of its own, whatever happens there, so
  the retried one stays queued.\<close>

theorem retry_stays_queued:
  assumes x: "tbl_get i (job_executions (work w)) = Some x" "j_job_type x = JobType.ISSUE"
      "id_truthy (j_certificate_id x)"
    and wf: "wf_table (job_executions (work w))"
  shows "\<exists>m w1 x'. retry_execution cx deploy now el i user w = (Inr (Some m, i), w1) \<and>
    tbl_get i (job_executions (committed (snd (run_job cx now2 el2 m w1)))) = Some x' \<and>
    j_status x' = JobStatus.QUEUED \<and> j_retry_count x' = j_retry_count x + 1"
proof -
  let ?x = "x\<lparr>j_status := JobStatus.QUEUED, j_retry_count := j_retry_count x + 1, j_error_message := None\<rparr>"
  let ?d = "job_executions_update (tbl_upd now i (\<lambda>x. x\<lparr>j_status := JobStatus.QUEUED,
      j_retry_count := j_retry_count x + 1, j_error_message := None\<rparr>)) (work w)"
  let ?w = "w\<lparr>work := ?d, committed := ?d\<rparr>"
  let ?m = "\<lparr>jm_job_type = ''issue'', jm_certificate_id = or_default (j_certificate_id x) 0,
      jm_user_id = map_option fst user, jm_execution_id = Some i\<rparr>"
  have r: "retry_execution cx deploy now el i user w = (Inr (Some ?m, i), ?w)"
    using x by (simp add: retry_execution_def get_execution_def upd_job_def op_simps)
  have k: "keeps (winv (job_is i ?x)) (run_job cx now2 el2 ?m)"
    unfolding run_job_def issue_task_def
    by (simp, intro keeps_rules keeps_job_task keeps_job_execute keeps_get_certificate)
  have "winv (job_is i ?x) ?w" using x wf by (simp add: winv_def job_is_def)
  from keepsD [OF k this] have j: "tbl_get i (job_executions (committed (snd (run_job cx now2 el2 ?m ?w)))) = Some ?x"
    by (simp add: winv_def job_is_def)
  show ?thesis by (rule exI [of _ ?m], rule exI [of _ ?w], rule exI [of _ ?x]) (use r j in simp)
qed

text \<open>A task that starts while maintenance mode is on raises before its body and commits
  nothing.\<close>

theorem task_paused:
  assumes "setting_row MAINTENANCE_KEY (work w) = Some r" "as_value (rval r) = Some ''true''"
    and "case last_window (work w) of
      Some m \<Rightarrow> (case mw_scheduled_end m of Some t \<Rightarrow> now \<le> t | None \<Rightarrow> True) | None \<Rightarrow> True"
  shows "\<exists>e. db_task now body w = (Inl e, w\<lparr>work := committed w\<rparr>) \<and> exc_of e = MaintenanceModeError"
proof -
  have "ensure_not_maintenance now ''background job'' w =
      (Inl (Exn MaintenanceModeError (''Platform is in maintenance mode - '' @ ''background job'' @ '' paused'') None), w)"
    using assms by (intro ensure_not_maintenance_flag) (auto split: option.splits)
  then show ?thesis by (simp add: db_task_def in_session_def bnd_def)
qed

end
