(* ===== verification/Cert_Witnesses.thy ===== *)
theory Cert_Witnesses
  imports Cert_Safety
begin

text \<open>
  A concrete certificate, context and session at which the properties of \<open>Cert_Proofs\<close> and
  \<open>Cert_Safety\<close> apply.
\<close>

definition demo_meta :: x509_meta where
  "demo_meta = \<lparr>m_subject = ''CN=a.example.com'', m_issuer = ''CN=CA'', m_serial_number = ''1'',
     m_fingerprint_sha256 = ''AB:CD'', m_public_key_algorithm = ''RSA'', m_key_type = ''rsa'',
     m_key_size = Some 2048, m_signature_algorithm = ''sha256'', m_valid_from = 0, m_valid_until = 10,
     m_is_wildcard = False, m_sans = [''a.example.com'']\<rparr>"

definition demo_x509 :: x509 where
  "demo_x509 = \<lparr>parse_certificate = (\<lambda>_. Inr demo_meta), parse_chain_pem = (\<lambda>s. Inr [s]),
     parse_pfx = (\<lambda>_ _. Inl (Exn ValidationAppError ''pfx'' None)), key_matches = (\<lambda>_ _ _. Inr True)\<rparr>"

text \<open>A provider that finds nothing to renew, cannot issue and revokes.\<close>

definition demo_provider :: provider where
  "demo_provider = \<lparr>
     pv_issue = (\<lambda>_ fs. (Inr \<lparr>ir_success = False, ir_cert_path = None, ir_key_path = None,
       ir_chain_path = None, ir_fullchain_path = None, ir_cert_name = None, ir_exit_code = Some 1,
       ir_stdout = [], ir_stderr = [], ir_duration_ms = 1, ir_error = Some ''rate limited''\<rparr>, fs)),
     pv_renew = (\<lambda>_ _ _ fs. (Inr \<lparr>rr_success = True, rr_renewed = False, rr_cert_path = None,
       rr_key_path = None, rr_chain_path = None, rr_fullchain_path = None, rr_exit_code = Some 0,
       rr_stdout = [], rr_stderr = [], rr_duration_ms = 1, rr_error = None\<rparr>, fs)),
     pv_revoke = (\<lambda>_ _ fs. (Inr \<lparr>vr_success = True, vr_stdout = [], vr_stderr = [],
       vr_exit_code = Some 0, vr_error = None\<rparr>, fs))\<rparr>"

definition demo_ctx :: "(string \<Rightarrow> string option \<Rightarrow> provider option) \<Rightarrow> ctx" where
  "demo_ctx reg = \<lparr>cx_cfg = default_settings, cx_kc = clear_crypto,
     cx_nt = \<lparr>json_loads = (\<lambda>_. None), json_dumps = (\<lambda>_. []), smtp_send = (\<lambda>_ _. None),
       http_post = (\<lambda>_ _. Inr 200)\<rparr>, cx_rdf = (\<lambda>t. t), cx_x5 = demo_x509, cx_registry = reg, cx_ivf = ''iv''\<rparr>"

definition demo_cert :: certificate where
  "demo_cert = (new_certificate ''a.example.com'')\<lparr>c_cert_name := Some ''a'', c_managed_by_platform := True,
     c_key_type := ''rsa2048'', c_valid_until := Some 100\<rparr>"

definition demo_session :: "certificate \<Rightarrow> world" where
  "demo_session c = open_session (empty_db\<lparr>certificates := snd (tbl_add 0 c empty_table)\<rparr>) Map.empty"

text \<open>The same certificate during a renewal that started at time 0.\<close>

definition demo_renewing :: world where
  "demo_renewing = open_session (empty_db\<lparr>
     certificates := snd (tbl_add 0 (demo_cert\<lparr>c_renewal_status := RenewalStatus.IN_PROGRESS,
       c_status := CertificateStatus.RENEWING\<rparr>) empty_table),
     job_executions := snd (tbl_add 0 (new_job JobType.RENEW (Some 1) JobTrigger.SCHEDULER JobStatus.RUNNING 0 None)
       empty_table)\<rparr>) Map.empty"

lemma demo_session_facts [simp]:
  "tbl_get 1 (certificates (work (demo_session c))) = Some c"
  "wf_table (job_executions (work (demo_session c)))" "wf_table (certificates (work (demo_session c)))"
  "job_executions (work (demo_session c)) = empty_table"
  by (simp_all add: demo_session_def open_session_def tbl_get_def tbl_row_def tbl_add_def empty_table_def
      empty_db_def wf_table_def ids_def)

lemma demo_providers [simp]: "tbl_first p (providers (work (demo_session c))) = None"
  by (simp add: demo_session_def open_session_def empty_db_def tbl_first_def empty_table_def)

lemma demo_ctx_fields [simp]: "cx_registry (demo_ctx r) = r" "cx_cfg (demo_ctx r) = default_settings"
  by (simp_all add: demo_ctx_def)

lemma demo_cert_renewable [simp]: "renewable demo_cert"
  by (simp add: demo_cert_def renewable_def new_certificate_def truthy_def)

definition with_provider :: ctx where
  "with_provider = demo_ctx (\<lambda>_ _. Some demo_provider)"

definition without_provider :: ctx where
  "without_provider = demo_ctx (\<lambda>_ _. None)"

lemma renew_returns:
  "\<exists>w'. renew_certificate with_provider 5 1 1 False None JobTrigger.API (demo_session demo_cert) = (Inr 1, w')"
  by (simp add: with_provider_def renew_certificate_def get_certificate_def bnd_def op_simps provider_for_def
      upd_cert_def add_job_def upd_job_def on_fs_def demo_provider_def finish_renewal_def opt_exists_def
      Let_def demo_cert_def new_certificate_def truthy_def empty_table_def)

section \<open>Witnesses\<close>

lemma renew_outcome_witness:
  "\<exists>w' c x ok. renew_certificate with_provider 5 1 1 False None JobTrigger.API (demo_session demo_cert) = (Inr 1, w') \<and>
     committed w' = work w' \<and> tbl_get 1 (certificates (committed w')) = Some c \<and>
     tbl_get 1 (job_executions (committed w')) = Some x \<and>
     j_status x = (if ok then JobStatus.SUCCESS else JobStatus.FAILED) \<and> j_finished_at x = Some 5"
proof -
  obtain w' where w: "renew_certificate with_provider 5 1 1 False None JobTrigger.API (demo_session demo_cert) = (Inr 1, w')"
    using renew_returns by blast
  from renew_outcome [OF _ this] w show ?thesis by auto
qed

lemma renew_exception_blocks_witness:
  "\<exists>e w'. in_session (renew_certificate without_provider 5 1 1 False None JobTrigger.API) (demo_session demo_cert) = (Inl e, w') \<and>
     fst (renew_certificate without_provider 6 1 1 True None JobTrigger.API w') =
       Inl (Exn ConflictError ''Renewal already in progress for this certificate'' None)"
proof -
  have "\<exists>e w'. in_session (renew_certificate without_provider 5 1 1 False None JobTrigger.API) (demo_session demo_cert) = (Inl e, w')"
    by (simp add: without_provider_def in_session_def renew_certificate_def get_certificate_def bnd_def op_simps
        provider_for_def upd_cert_def add_job_def Let_def demo_cert_def new_certificate_def truthy_def empty_table_def)
  then obtain e w' where r:
    "in_session (renew_certificate without_provider 5 1 1 False None JobTrigger.API) (demo_session demo_cert) = (Inl e, w')" by blast
  show ?thesis
    using renew_exception_blocks [OF _ _ _ r, of demo_cert 6 1 True None JobTrigger.API] r by auto
qed

lemma demo_renewing_facts:
  "tbl_get 1 (certificates (work demo_renewing)) = Some (demo_cert\<lparr>c_renewal_status := RenewalStatus.IN_PROGRESS,
       c_status := CertificateStatus.RENEWING\<rparr>)"
  "running_renewal 1 (work demo_renewing) = Some \<lparr>rid = 1, created_at = 0, updated_at = 0,
     rval = new_job JobType.RENEW (Some 1) JobTrigger.SCHEDULER JobStatus.RUNNING 0 None\<rparr>"
  "wf_table (job_executions (work demo_renewing))"
  by (simp_all add: demo_renewing_def open_session_def tbl_get_def tbl_row_def tbl_add_def empty_table_def
      empty_db_def wf_table_def ids_def running_renewal_def tbl_sel_def new_job_def)

lemma stale_renewal_closed_witness:
  "(\<exists>w' c. mark_stale_renewal_failed (60 * us_per_minute) 1 demo_renewing = (Inr (), w') \<and>
      tbl_get 1 (certificates (committed w')) = Some c \<and> c_renewal_status c = RenewalStatus.FAILED \<and>
      c_status c = CertificateStatus.EXPIRING) \<and>
   mark_stale_renewal_failed 59 1 demo_renewing = (Inr (), demo_renewing)"
proof -
  obtain cw where cw: "tbl_row 1 (certificates (work demo_renewing)) = Some cw"
    "rval cw = demo_cert\<lparr>c_renewal_status := RenewalStatus.IN_PROGRESS, c_status := CertificateStatus.RENEWING\<rparr>"
    using demo_renewing_facts(1) by (auto simp: tbl_get_def)
  note closed = stale_renewal_closed [OF cw(1) _ demo_renewing_facts(2) _ demo_renewing_facts(3), where t = 0]
  show ?thesis
    using closed [where now = "60 * us_per_minute"] closed [where now = 59] cw(2)
    by (auto simp: new_job_def still_valid_def demo_cert_def us_per_minute_def)
qed

lemma cancel_renewal_ok_witness:
  "case cancel_renewal 5 1 demo_renewing of
      (Inl e, w') \<Rightarrow> False
    | (Inr _, w') \<Rightarrow> committed w' = work w' \<and>
        (\<exists>c'. tbl_get 1 (certificates (work w')) = Some c' \<and> renewable c' \<and> c_status c' = CertificateStatus.ACTIVE)"
proof -
  have "c_managed_by_platform demo_cert" "truthy (c_cert_name demo_cert)" "still_valid 5 demo_cert"
    by (simp_all add: demo_cert_def truthy_def still_valid_def)
  then show ?thesis
    using cancel_renewal_ok [OF demo_renewing_facts(1), of 5]
    by (auto simp: still_valid_def split: prod.splits sum.splits)
qed

lemma revoke_outcome_witness:
  "case revoke_certificate with_provider 5 1 ''keyCompromise'' True None JobTrigger.API (demo_session demo_cert) of
      (Inl _, w') \<Rightarrow> committed w' = committed (demo_session demo_cert)
    | (Inr j, w') \<Rightarrow> committed w' = work w' \<and> (\<exists>c' x.
        tbl_get 1 (certificates (committed w')) = Some c' \<and> tbl_get j (job_executions (committed w')) = Some x \<and>
        (if j_status x = JobStatus.SUCCESS
         then c_status c' = CertificateStatus.REVOKED \<and> \<not> c_auto_renew c' \<and> \<not> is_due default_settings 99 None c'
         else j_status x = JobStatus.FAILED \<and> c' = demo_cert))"
  by (rule revoke_outcome) simp_all

lemma delete_outcome_witness:
  "case delete_certificate with_provider 5 1 None (demo_session (demo_cert\<lparr>c_status := CertificateStatus.FAILED\<rparr>)) of
      (Inl e, w') \<Rightarrow> False
    | (Inr _, w') \<Rightarrow> committed w' = work w' \<and> \<not> mentions 1 (committed w')"
  using delete_outcome [of 1 "demo_session (demo_cert\<lparr>c_status := CertificateStatus.FAILED\<rparr>)"
      "demo_cert\<lparr>c_status := CertificateStatus.FAILED\<rparr>" with_provider 5 None]
  by (auto split: prod.splits sum.splits)

definition demo_import :: import_payload where
  "demo_import = \<lparr>im_domain = None, im_environment = None, im_provider = None, im_auto_renew = None,
     im_owner_id = None, im_notes = None, im_tags = [''web'']\<rparr>"

lemma import_outcome_witness:
  "case import_certificate with_provider 5 (Some ''pem'') None None None None demo_import None JobTrigger.API
      (demo_session demo_cert) of
      (Inl _, w') \<Rightarrow> work w' = work (demo_session demo_cert) \<and> committed w' = committed (demo_session demo_cert)
    | (Inr i, w') \<Rightarrow> committed w' = work w' \<and> (\<exists>fp c.
        tbl_first (\<lambda>r. c_fingerprint_sha256 (rval r) = Some fp) (certificates (work (demo_session demo_cert))) = None \<and>
        tbl_get i (certificates (committed w')) = Some c \<and> c_fingerprint_sha256 c = Some fp \<and>
        c_imported c \<and> \<not> c_managed_by_platform c)"
  by (rule import_outcome) simp

lemma issuance_returns:
  "\<exists>w'. execute_issuance without_provider 5 1 1 None JobTrigger.API None (demo_session demo_cert) = (Inr 1, w')"
  by (simp add: without_provider_def execute_issuance_def get_certificate_def bnd_def op_simps provider_for_def
      upd_cert_def add_job_def upd_job_def catch_op_def Let_def empty_table_def)

lemma issuance_outcome_witness:
  "\<exists>w' c x. execute_issuance without_provider 5 1 1 None JobTrigger.API None (demo_session demo_cert) = (Inr 1, w') \<and>
     committed w' = work w' \<and> tbl_get 1 (certificates (committed w')) = Some c \<and>
     tbl_get 1 (job_executions (committed w')) = Some x \<and> j_finished_at x = Some 5"
proof -
  obtain w' where w: "execute_issuance without_provider 5 1 1 None JobTrigger.API None (demo_session demo_cert) = (Inr 1, w')"
    using issuance_returns by blast
  from issuance_outcome [OF _ _ w] w show ?thesis by fastforce
qed

text \<open>A certificate whose key type the request builder does not know.\<close>

definition stranded_cert :: certificate where
  "stranded_cert = demo_cert\<lparr>c_status := CertificateStatus.ISSUING, c_validation_method := ''smoke-signal''\<rparr>"

lemma issuance_exception_strands_witness:
  "\<exists>e w' m. in_session (execute_issuance with_provider 5 1 1 None JobTrigger.API None) (demo_session stranded_cert) = (Inl e, w') \<and>
     tbl_get 1 (certificates (committed w')) = Some stranded_cert \<and>
     mark_stale_renewal_failed 99 1 w' = (Inr (), w') \<and>
     delete_certificate with_provider 9 1 None w' = (Inl (Exn ValidationAppError m None), w')"
proof -
  have q: "\<exists>e. issuance_request default_settings stranded_cert None d = Inl e" for d
  proof -
    have "\<exists>e. build_issue_request default_settings (reconstruct_payload stranded_cert) n d = Inl e" for n
      by (auto simp: build_issue_request_def reconstruct_payload_def stranded_cert_def or_default_def Let_def
          enum_values_def ValidationMethod_members_def split: sum.splits)
    from this [of "c_cert_name stranded_cert"] show ?thesis by (auto simp: issuance_request_def Let_def)
  qed
  have "\<exists>e w'. in_session (execute_issuance with_provider 5 1 1 None JobTrigger.API None) (demo_session stranded_cert) = (Inl e, w')"
    using q [of "issuance_started 5 1 None JobTrigger.API (work (demo_session stranded_cert))"]
    by (auto simp: with_provider_def in_session_def execute_issuance_def get_certificate_def bnd_def op_simps
        provider_for_def add_job_def catch_op_def Let_def empty_table_def issuance_started_def)
  then obtain e w' where r:
    "in_session (execute_issuance with_provider 5 1 1 None JobTrigger.API None) (demo_session stranded_cert) = (Inl e, w')" by blast
  show ?thesis
    using issuance_exception_strands [OF _ _ _ _ _ r, of stranded_cert 99 9 None] r
    by (auto simp: stranded_cert_def demo_cert_def new_certificate_def)
qed

section \<open>Hooks on the asynchronous path\<close>

definition demo_hook :: hook where
  "demo_hook = \<lparr>h_name = ''dns'', h_hook_type = HookType.AUTH, h_script_path = ''/opt/dns.sh'', h_env_vars = [(''K'', ''V'')],
     h_execution_user = Some ''acme'', h_working_directory = None, h_timeout_seconds = 60, h_is_active = True,
     h_is_default = False, h_description = None, h_ssh_private_key_encrypted = None, h_ssh_target_host = None\<rparr>"

definition demo_hook_db :: db where
  "demo_hook_db = empty_db\<lparr>hooks := snd (tbl_add 0 demo_hook empty_table)\<rparr>"

definition demo_payload :: "string \<Rightarrow> issue_payload" where
  "demo_payload m = empty_payload\<lparr>ip_domains := [''a.example.com''], ip_validation_method := Some m,
     ip_auth_hook_id := Some 1\<rparr>"

definition demo_resolved :: resolved_hooks where
  "demo_resolved = no_hooks\<lparr>rh_auth_hook := Some ''/opt/dns.sh'', rh_env := [(''K'', ''V'')],
     rh_execution_user := Some ''acme'', rh_timeout_seconds := 60\<rparr>"

lemma demo_resolve: "resolve_hooks (demo_payload m) demo_hook_db = Inr (Some demo_resolved)"
  by (simp add: resolve_hooks_def demo_payload_def demo_hook_db_def empty_payload_def id_truthy_def find_hook_def
      tbl_first_def tbl_add_def empty_table_def demo_hook_def demo_resolved_def no_hooks_def truthy_def
      dict_update_def empty_db_def)

abbreviation demo_row :: "string \<Rightarrow> certificate" where
  "demo_row m \<equiv> issue_row default_settings (demo_payload m) ''a'' (Some demo_resolved) None"

definition request_of :: "exn + issue_request \<Rightarrow> issue_request option" where
  "request_of r = (case r of Inl _ \<Rightarrow> None | Inr q \<Rightarrow> Some q)"

lemma demo_requests:
  "request_of (issuance_request default_settings (demo_row ''custom'') (Some (demo_payload ''custom'')) demo_hook_db) \<noteq> None"
  "request_of (issuance_request default_settings (demo_row ''custom'') None demo_hook_db) \<noteq> None"
  "request_of (issuance_request default_settings (demo_row ''http-01'') (Some (demo_payload ''http-01'')) demo_hook_db) \<noteq> None"
  "request_of (issuance_request default_settings (demo_row ''http-01'') None demo_hook_db) \<noteq> None"
  by code_simp+

lemma request_of_Some: "request_of r \<noteq> None \<Longrightarrow> \<exists>q. r = Inr q"
  by (cases r) (simp_all add: request_of_def)

lemma async_hooks_preserved_witness:
  "\<exists>q1 q2. issuance_request default_settings (demo_row ''custom'') (Some (demo_payload ''custom'')) demo_hook_db = Inr q1 \<and>
     issuance_request default_settings (demo_row ''custom'') None demo_hook_db = Inr q2 \<and>
     q_auth_hook q2 = q_auth_hook q1 \<and> q_hook_env q2 = q_hook_env q1 \<and> q_hook_timeout q2 = q_hook_timeout q1"
proof -
  obtain q1 q2 where
    q: "issuance_request default_settings (demo_row ''custom'') (Some (demo_payload ''custom'')) demo_hook_db = Inr q1"
      "issuance_request default_settings (demo_row ''custom'') None demo_hook_db = Inr q2"
    using request_of_Some [OF demo_requests(1)] request_of_Some [OF demo_requests(2)] by blast
  have "or_default (ip_validation_method (demo_payload ''custom'')) ''http-01'' \<in> set HOOKED_METHODS"
    by (simp add: demo_payload_def or_default_def HOOKED_METHODS_def)
  from async_hooks_preserved [OF this demo_resolve _ q] q show ?thesis
    by (simp add: demo_resolved_def no_hooks_def)
qed

lemma async_hooks_lost_witness:
  "\<exists>q1 q2. issuance_request default_settings (demo_row ''http-01'') (Some (demo_payload ''http-01'')) demo_hook_db = Inr q1 \<and>
     issuance_request default_settings (demo_row ''http-01'') None demo_hook_db = Inr q2 \<and>
     q_auth_hook q1 = Some ''/opt/dns.sh'' \<and> q_auth_hook q2 = None"
proof -
  obtain q1 q2 where
    q: "issuance_request default_settings (demo_row ''http-01'') (Some (demo_payload ''http-01'')) demo_hook_db = Inr q1"
      "issuance_request default_settings (demo_row ''http-01'') None demo_hook_db = Inr q2"
    using request_of_Some [OF demo_requests(3)] request_of_Some [OF demo_requests(4)] by blast
  have m: "or_default (ip_validation_method (demo_payload ''http-01'')) ''http-01'' \<notin> set HOOKED_METHODS"
    "id_truthy (ip_auth_hook_id (demo_payload ''http-01''))"
    by (simp_all add: demo_payload_def or_default_def HOOKED_METHODS_def id_truthy_def)
  from async_hooks_lost [OF m demo_resolve q] q show ?thesis
    by (simp add: demo_resolved_def no_hooks_def)
qed

end
