(* ===== verification/Service_Witnesses.thy ===== *)
theory Service_Witnesses
  imports Tasks Cert_Witnesses
begin

text \<open>
  Concrete inputs at which the properties of \<open>Posture\<close>, \<open>Settings_Store\<close>, \<open>Admin\<close> and
  \<open>Tasks\<close> apply.
\<close>

lemma demo_session_tables [simp]:
  "wf_table (health_checks (work (demo_session c)))" "wf_table (app_settings (work (demo_session c)))"
  "setting_row key (work (demo_session c)) = None"
  "tbl_sel p (notification_settings (work (demo_session c))) = []"
  by (simp_all add: demo_session_def open_session_def empty_db_def setting_row_def tbl_first_def
      tbl_sel_def empty_table_def wf_table_def ids_def)

section \<open>Posture\<close>

lemma health_check_recorded_witness:
  "case check_certificate_health (\<lambda>_. Tls_untrusted) 0 1 [] (demo_session demo_cert) of
      (Inl _, w') \<Rightarrow> False
    | (Inr r, w') \<Rightarrow> hr_status r = health_status_of (hr_score r) \<and>
        (\<exists>c'. tbl_get 1 (certificates (work w')) = Some c' \<and> c_health_score c' = Some (hr_score r))"
proof -
  have "fst (check_certificate_health (\<lambda>_. Tls_untrusted) 0 1 [] (demo_session demo_cert)) \<noteq> Inl e" for e
    by (simp add: check_certificate_health_def get_certificate_def bnd_def op_simps health_targets_def
        check_expiry_def check_signature_def check_key_size_def upd_cert_def Let_def demo_cert_def new_certificate_def)
  then show ?thesis
    using health_check_recorded [of 1 "demo_session demo_cert" demo_cert "\<lambda>_. Tls_untrusted" 0 "[]"]
    by (auto split: prod.splits sum.splits)
qed

lemma issued_never_compliant_witness:
  "\<not> ev_compliant (evaluate_certificate 1 (apply_metadata demo_meta None demo_cert))"
  using issued_never_compliant [of demo_cert demo_meta None 1]
  by (simp add: demo_cert_def keytype_values)

section \<open>Settings and maintenance\<close>

lemma settings_roundtrip_witness:
  "\<exists>w'. set_setting clear_crypto ''iv'' 5 ''smtp.password'' (Some ''s3cret'') None None (demo_session demo_cert) = (Inr (), w') \<and>
     get_setting clear_crypto ''smtp.password'' (committed w') = Inr (Some ''s3cret'')"
proof -
  have "default_of ''smtp.password'' \<noteq> None" by (simp add: default_of_def DEFAULT_SETTINGS_def)
  moreover have "fernet_encrypt clear_crypto iv m = m" for iv m by (simp add: clear_crypto_def)
  ultimately show ?thesis
    using settings_roundtrip [of clear_crypto "''iv''" "''smtp.password''" "demo_session demo_cert" 5 "Some ''s3cret''" None None]
    by (auto simp: truthy_def)
qed

definition secret_db :: "string \<Rightarrow> db" where
  "secret_db v = empty_db\<lparr>app_settings := snd (tbl_add 0 \<lparr>as_key = ''smtp.password'', as_value = Some v,
     as_is_secret = True, as_description = None, as_updated_by = None\<rparr> empty_table)\<rparr>"

lemma settings_masked_witness:
  "get_all_settings (secret_db ''one'') = get_all_settings (secret_db ''two'')"
  using settings_masked [of "secret_db ''one''" "secret_db ''two''"]
  by (simp add: DEFAULT_SETTINGS_def secret_db_def setting_row_def tbl_first_def rows_add empty_table_def truthy_def)

lemma maintenance_guard_witness:
  "\<exists>st w'. set_maintenance 0 True None (Some 100) [(''pause_renewals'', False)] None (demo_session demo_cert) = (Inr st, w') \<and>
     fst (ensure_not_maintenance 50 ''renewal'' w') =
       Inl (Exn MaintenanceModeError ''Platform is in maintenance mode - renewal paused'' None)"
proof -
  from maintenance_guard [where w = "demo_session demo_cert" and se = "Some 100" and ?now2.0 = 50 and now = 0 and active = True
      and reason = None and pauses = "[(''pause_renewals'', False)]" and uid = None and operation = "''renewal''"]
  obtain st w' where "set_maintenance 0 True None (Some 100) [(''pause_renewals'', False)] None (demo_session demo_cert) = (Inr st, w')"
    "ensure_not_maintenance 50 ''renewal'' w' =
       (Inl (Exn MaintenanceModeError ''Platform is in maintenance mode - renewal paused'' None), w')" by auto
  then show ?thesis by auto
qed

section \<open>Background tasks\<close>

lemma not_maintenance_demo: "is_maintenance now (demo_session c) = (Inr False, demo_session c)"
  by (simp add: is_maintenance_def bnd_def op_simps)

lemma due_demo: "map rid (due_certificates default_settings 5 None (work (demo_session demo_cert))) = [1]"
  by (simp add: due_certificates_def is_due_def demo_session_def open_session_def empty_db_def rows_add tbl_sel_def
      empty_table_def demo_cert_def new_certificate_def default_settings_def us_per_day_def id_truthy_def)

lemma renew_due_accounts_witness:
  "\<exists>n w'. renew_due without_provider 5 1 (demo_session demo_cert) = (Inr (Some n), w') \<and>
     sw_succeeded n + sw_failed n = length (map rid (due_certificates default_settings 5 None (work (demo_session demo_cert))))"
  using renew_due_accounts [OF not_maintenance_demo, where cx = without_provider]
  by (simp add: without_provider_def)

lemma renew_raises_demo:
  "\<exists>e w'. renew_certificate without_provider 5 1 1 False None JobTrigger.SCHEDULER (demo_session demo_cert) = (Inl e, w')"
  by (simp add: without_provider_def renew_certificate_def get_certificate_def bnd_def op_simps
      provider_for_def upd_cert_def add_job_def Let_def demo_cert_def new_certificate_def truthy_def empty_table_def)

lemma scheduler_sweep_stops_witness:
  "\<exists>e w1. renew_certificate without_provider 5 1 1 False None JobTrigger.SCHEDULER (demo_session demo_cert) = (Inl e, w1) \<and>
     scheduler_renewal without_provider 5 1 (demo_session demo_cert) = (Inr (), w1\<lparr>work := committed w1\<rparr>)"
  using renew_raises_demo
    scheduler_sweep_stops [of without_provider 5 "demo_session demo_cert" 1 "[]" 1] due_demo
  by (auto simp: without_provider_def)

text \<open>A certificate one day from its expiry and a channel subscribed to the events of 60 and 1
  days: the row that is queued is for 60 days.\<close>

definition mail_session :: world where
  "mail_session = open_session (empty_db\<lparr>
     certificates := snd (tbl_add 0 (demo_cert\<lparr>c_valid_until := Some us_per_day\<rparr>) empty_table),
     notification_settings := snd (tbl_add 0 \<lparr>nset_channel = NotificationChannel.SLACK, nset_name = ''ops'',
       nset_enabled = True, nset_config_encrypted = None, nset_events = [''expiry_60'', ''expiry_1'']\<rparr> empty_table)\<rparr>) Map.empty"

lemma expiry_only_largest_witness:
  "\<exists>n w' ns. expiry_warnings (cx_nt with_provider) clear_crypto 0 mail_session = (Inr n, w') \<and> n = 1 \<and>
     rows (notifications (committed w')) = rows (notifications (work mail_session)) @ ns \<and> length ns = 1 \<and>
     list_all (\<lambda>x. n_event_type (rval x) = ''expiry_60'') ns"
proof -
  have t: "expiry_thresholds clear_crypto (work mail_session) = Inr [60, 30, 15, 7, 3, 1]"
    and e: "rows (notifications (work mail_session)) = []" and x: "expiry_event 60 = ''expiry_60''" by code_simp+
  have "(case expiry_warnings (cx_nt with_provider) clear_crypto 0 mail_session of
      (r, w') \<Rightarrow> r = Inr 1 \<and> length (rows (notifications (committed w'))) = 1)"
    by code_simp
  then obtain w' where w: "expiry_warnings (cx_nt with_provider) clear_crypto 0 mail_session = (Inr 1, w')"
    "length (rows (notifications (committed w'))) = 1" by (auto split: prod.splits)
  from expiry_only_largest [OF w(1)] t obtain ns where
    "rows (notifications (committed w')) = rows (notifications (work mail_session)) @ ns"
    "list_all (\<lambda>x. n_event_type (rval x) = expiry_event 60) ns" by auto
  then show ?thesis unfolding x using w e
    by (intro exI [of _ 1] exI [of _ w'] exI [of _ ns]) simp
qed

definition failed_issue :: world where
  "failed_issue = open_session (empty_db\<lparr>
     certificates := snd (tbl_add 0 demo_cert empty_table),
     job_executions := snd (tbl_add 0 (new_job JobType.ISSUE (Some 1) JobTrigger.API JobStatus.FAILED 0 None)
       empty_table)\<rparr>) Map.empty"

lemma retry_stays_queued_witness:
  "\<exists>m w1 x'. retry_execution with_provider (\<lambda>_ _ _. ret ()) 5 1 1 None failed_issue = (Inr (Some m, 1), w1) \<and>
     tbl_get 1 (job_executions (committed (snd (run_job with_provider 6 1 m w1)))) = Some x' \<and>
     j_status x' = JobStatus.QUEUED"
proof -
  let ?x = "new_job JobType.ISSUE (Some 1) JobTrigger.API JobStatus.FAILED 0 None"
  have "tbl_get 1 (job_executions (work failed_issue)) = Some ?x"
    "wf_table (job_executions (work failed_issue))" "j_job_type ?x = JobType.ISSUE" "id_truthy (j_certificate_id ?x)"
    by (simp_all add: failed_issue_def open_session_def tbl_get_def tbl_row_def tbl_add_def empty_table_def
        wf_table_def ids_def new_job_def id_truthy_def)
  from retry_stays_queued [OF this(1,3,4,2), of with_provider "\<lambda>_ _ _. ret ()" 5 1 None 6 1] show ?thesis by blast
qed

definition paused_session :: world where
  "paused_session = open_session (empty_db\<lparr>app_settings := snd (tbl_add 0 \<lparr>as_key = MAINTENANCE_KEY,
     as_value = Some ''true'', as_is_secret = False, as_description = None, as_updated_by = None\<rparr> empty_table)\<rparr>) Map.empty"

lemma task_paused_witness:
  "\<exists>e. db_task 5 (renew_one with_provider 5 1 1 None False) paused_session = (Inl e, paused_session) \<and>
     exc_of e = MaintenanceModeError"
proof -
  have r: "\<exists>r. setting_row MAINTENANCE_KEY (work paused_session) = Some r \<and> as_value (rval r) = Some ''true''"
    and l: "last_window (work paused_session) = None" and c: "paused_session\<lparr>work := committed paused_session\<rparr> = paused_session"
    by (simp_all add: paused_session_def open_session_def setting_row_def tbl_first_def rows_add empty_table_def
        last_window_def empty_db_def)
  from r obtain r where "setting_row MAINTENANCE_KEY (work paused_session) = Some r" "as_value (rval r) = Some ''true''"
    by blast
  from task_paused [OF this, of 5 "renew_one with_provider 5 1 1 None False"] l c show ?thesis by simp
qed

end
