(* ===== verification/Cert_Refine.thy ===== *)
theory Cert_Refine
  imports Cert_Safety
begin

text \<open>
  The life of one certificate as an abstract machine over its two status columns.  A step is
  labelled with the request and with whether it returned or raised, so the machine says what
  each request may do from where the certificate stands: a renewal starts only when none is in
  progress, a cancellation succeeds exactly when one is, only a revocation revokes.  The
  operations of the certificate service refine it request by request: whatever is requested
  for a certificate, each time in a session of its own and possibly failing at any point, the
  committed columns take the step of that request and outcome.
\<close>

section \<open>The machine\<close>

type_synonym life = "CertificateStatus \<times> RenewalStatus"

datatype request = Q_issue | Q_renew | Q_check | Q_cancel | Q_revoke

inductive life_step :: "life \<Rightarrow> request \<Rightarrow> bool \<Rightarrow> life \<Rightarrow> bool" where
  issued: "life_step l Q_issue True (CertificateStatus.ACTIVE, RenewalStatus.NONE)"
| issue_failed: "life_step l Q_issue True (CertificateStatus.FAILED, RenewalStatus.FAILED)"
| issue_raised: "life_step l Q_issue False l"
| renewed: "snd l \<noteq> RenewalStatus.IN_PROGRESS \<Longrightarrow> r \<in> {RenewalStatus.SUCCESS, RenewalStatus.SKIPPED} \<Longrightarrow>
    life_step l Q_renew True (CertificateStatus.ACTIVE, r)"
| renew_failed: "snd l \<noteq> RenewalStatus.IN_PROGRESS \<Longrightarrow> st \<in> {CertificateStatus.ACTIVE, CertificateStatus.EXPIRING} \<Longrightarrow>
    life_step l Q_renew True (st, RenewalStatus.FAILED)"
| renew_stuck: "snd l \<noteq> RenewalStatus.IN_PROGRESS \<Longrightarrow>
    life_step l Q_renew False (CertificateStatus.RENEWING, RenewalStatus.IN_PROGRESS)"
| renew_refused: "life_step l Q_renew False l"
| stale_closed: "snd l = RenewalStatus.IN_PROGRESS \<Longrightarrow> st \<in> {CertificateStatus.ACTIVE, CertificateStatus.EXPIRING} \<Longrightarrow>
    life_step l Q_check True (st, RenewalStatus.FAILED)"
| not_stale: "life_step l Q_check True l"
| cancelled: "snd l = RenewalStatus.IN_PROGRESS \<Longrightarrow> st \<in> {CertificateStatus.ACTIVE, CertificateStatus.EXPIRING} \<Longrightarrow>
    life_step l Q_cancel True (st, RenewalStatus.FAILED)"
| cancel_refused: "snd l \<noteq> RenewalStatus.IN_PROGRESS \<Longrightarrow> life_step l Q_cancel False l"
| revoked: "life_step l Q_revoke True (CertificateStatus.REVOKED, RenewalStatus.DISABLED)"
| revoke_failed: "life_step l Q_revoke b l"

inductive_cases life_stepE: "life_step l q b (s, r)"

text \<open>In every state the machine reaches from a new certificate, the two columns agree about a
  renewal in progress.\<close>

definition life_ok :: "life \<Rightarrow> bool" where
  "life_ok l \<longleftrightarrow> (fst l = CertificateStatus.RENEWING \<longleftrightarrow> snd l = RenewalStatus.IN_PROGRESS)"

lemma life_step_ok: "life_step l q b l' \<Longrightarrow> life_ok l \<Longrightarrow> life_ok l'"
  by (induction rule: life_step.induct) (auto simp: life_ok_def)

text \<open>The guards bite: a cancellation that returns finds a renewal in progress and ends it, and a
  renewal in progress lets no renewal start.\<close>

inductive_simps life_step_cancel: "life_step l Q_cancel True l'"
inductive_simps life_step_renew: "life_step l Q_renew b l'"

lemma cancel_needs_renewal: "life_step l Q_cancel True l' \<Longrightarrow> snd l = RenewalStatus.IN_PROGRESS \<and> snd l' = RenewalStatus.FAILED"
  by (auto simp: life_step_cancel)

lemma renew_waits: "snd l = RenewalStatus.IN_PROGRESS \<Longrightarrow> life_step l Q_renew b l' \<longleftrightarrow> \<not> b \<and> l' = l"
  by (auto simp: life_step_renew)

text \<open>A run of the machine: the requests with their outcomes and the states they lead to.\<close>

fun life_trace :: "life \<Rightarrow> (request \<times> bool \<times> life option) list \<Rightarrow> bool" where
  "life_trace l [] = True"
| "life_trace l ((q, b, None) # es) = False"
| "life_trace l ((q, b, Some l') # es) = (life_step l q b l' \<and> life_trace l' es)"

section \<open>Operations on one certificate\<close>

datatype life_op =
    Issue datetime int actor JobTrigger "issue_payload option"
  | Renew datetime int bool actor JobTrigger
  | Check_stale datetime
  | Cancel datetime
  | Revoke datetime string bool actor JobTrigger

definition life_body :: "ctx \<Rightarrow> int \<Rightarrow> life_op \<Rightarrow> unit wop" where
  "life_body cx i x =
     (case x of
        Issue now el user tr p \<Rightarrow> bnd (execute_issuance cx now el i user tr p) (\<lambda>_. ret ())
      | Renew now el force user tr \<Rightarrow> bnd (renew_certificate cx now el i force user tr) (\<lambda>_. ret ())
      | Check_stale now \<Rightarrow> mark_stale_renewal_failed now i
      | Cancel now \<Rightarrow> cancel_renewal now i
      | Revoke now reason da user tr \<Rightarrow> bnd (revoke_certificate cx now i reason da user tr) (\<lambda>_. ret ()))"

primrec request_of :: "life_op \<Rightarrow> request" where
  "request_of (Issue _ _ _ _ _) = Q_issue"
| "request_of (Renew _ _ _ _ _) = Q_renew"
| "request_of (Check_stale _) = Q_check"
| "request_of (Cancel _) = Q_cancel"
| "request_of (Revoke _ _ _ _ _) = Q_revoke"

text \<open>Each request opens a session on what is committed.\<close>

definition life_run :: "ctx \<Rightarrow> int \<Rightarrow> life_op \<Rightarrow> world \<Rightarrow> (exn + unit) \<times> world" where
  "life_run cx i x w = in_session (life_body cx i x) (w\<lparr>work := committed w\<rparr>)"

text \<open>The abstraction.\<close>

definition life_of :: "int \<Rightarrow> db \<Rightarrow> life option" where
  "life_of i d = map_option (\<lambda>c. (c_status c, c_renewal_status c)) (tbl_get i (certificates d))"

text \<open>What a sequence of requests does, as the database shows it: after each request, which one it
  was, whether it returned, and the committed columns.\<close>

primrec life_log :: "ctx \<Rightarrow> int \<Rightarrow> life_op list \<Rightarrow> world \<Rightarrow> (request \<times> bool \<times> life option) list" where
  "life_log cx i [] w = []"
| "life_log cx i (x # xs) w =
     (case life_run cx i x w of
        (res, w') \<Rightarrow> (request_of x, \<not> isl res, life_of i (committed w')) # life_log cx i xs w')"

section \<open>The executions stay well formed\<close>

definition wf_jobs :: "db \<Rightarrow> bool" where
  "wf_jobs d \<longleftrightarrow> wf_table (job_executions d)"

lemma keeps_wf_mod [keeps_rules]:
  "(\<And>d. job_executions (f d) = job_executions d) \<Longrightarrow> keeps (winv wf_jobs) (db_mod f)"
  by (rule keeps_db_mod) (simp add: wf_jobs_def)

lemma keeps_wf_ops [keeps_rules]:
  "keeps (winv wf_jobs) (upd_cert now c f)" "keeps (winv wf_jobs) (audit_cert cx now a u c r ms dt)"
  "keeps (winv wf_jobs) (upd_job now j g)" "keeps (winv wf_jobs) (add_job now x)"
  unfolding upd_cert_def audit_cert_def record_audit_def upd_job_def add_job_def
  by (auto intro!: keeps_rules keeps_db_mod simp: wf_jobs_def)

lemma keeps_wf_fs [keeps_rules]:
  "keeps (winv wf_jobs) (on_fs g)" "keeps (winv wf_jobs) (fs_write p c)"
  "keeps (winv wf_jobs) (write_private_key s k iv fp pem)" "keeps (winv wf_jobs) (delete_cert_material cfg fpo)"
  by (auto simp: keeps_def winv_def on_fs_def op_simps write_private_key_def delete_cert_material_def bnd_def Let_def
      split: prod.splits option.splits)

lemma keeps_wf_notify [keeps_rules]: "keeps (winv wf_jobs) (notify cx now ev c)"
  unfolding notify_def queue_event_notifications_def queue_one_def Let_def
  by (intro keeps_rules) (auto intro!: keeps_rules split: prod.splits)

lemma keeps_wf_ingest [keeps_rules]: "keeps (winv wf_jobs) (ingest_material cx now c a b e f g)"
  unfolding ingest_material_def Let_def by (intro keeps_rules)

lemma keeps_wf_life: "keeps (winv wf_jobs) (life_body cx i x)"
proof (cases x)
  case (Issue now el user tr p)
  then show ?thesis unfolding life_body_def execute_issuance_def finish_issuance_def Let_def
    by (simp, intro keeps_rules)
next
  case (Renew now el force user tr)
  then show ?thesis unfolding life_body_def renew_certificate_def finish_renewal_def opt_exists_def fs_exists_def Let_def
    by (simp, intro keeps_rules)
next
  case (Check_stale now)
  then show ?thesis unfolding life_body_def mark_stale_renewal_failed_def close_renewal_def Let_def
    by (simp, intro keeps_rules)
next
  case (Cancel now)
  then show ?thesis unfolding life_body_def cancel_renewal_def close_renewal_def Let_def
    by (simp, intro keeps_rules)
next
  case (Revoke now reason da user tr)
  then show ?thesis unfolding life_body_def revoke_certificate_def revoke_rest_def Let_def
    by (simp, intro keeps_rules)
qed

section \<open>Refinement\<close>

text \<open>\<open>refines i l q b d\<close>: the committed certificate is where request \<open>q\<close> with outcome \<open>b\<close> leads from \<open>l\<close>.\<close>

definition refines :: "int \<Rightarrow> life \<Rightarrow> request \<Rightarrow> bool \<Rightarrow> db \<Rightarrow> bool" where
  "refines i l q b d \<longleftrightarrow> (\<exists>l'. life_of i d = Some l' \<and> life_step l q b l')"

lemma refinesI:
  "tbl_get i (certificates d) = Some c \<Longrightarrow> life_step l q b (c_status c, c_renewal_status c) \<Longrightarrow> refines i l q b d"
  by (auto simp: refines_def life_of_def)

definition run_refines :: "int \<Rightarrow> life \<Rightarrow> request \<Rightarrow> (exn + 'a) \<times> world \<Rightarrow> bool" where
  "run_refines i l q r \<longleftrightarrow> refines i l q (\<not> isl (fst r)) (committed (snd r))"

lemma refines_session:
  assumes "wp m (\<lambda>_ w'. refines i l q True (work w')) (\<lambda>_ w'. refines i l q False (committed w')) w"
  shows "run_refines i l q (in_session m w)"
  using assms by (auto simp: wp_def run_refines_def in_session_def split: prod.splits sum.splits)

lemma refines_unit:
  assumes "wp m (\<lambda>_ w'. refines i l q True (work w')) (\<lambda>_ w'. refines i l q False (committed w')) w"
  shows "run_refines i l q (in_session (bnd m (\<lambda>_. ret ())) w)"
  using assms by (auto simp: wp_def bnd_def op_simps intro!: refines_session split: prod.splits sum.splits)

lemma renewed_refines:
  assumes "snd l \<noteq> RenewalStatus.IN_PROGRESS" "renewed_state now ok c"
  shows "life_step l Q_renew True (c_status c, c_renewal_status c)"
  using assms(2) renewed [OF assms(1)] renew_failed [OF assms(1)] by (auto simp: renewed_state_def split: if_splits)

lemma renew_refines:
  assumes wf: "wf_jobs (work w)" and c: "tbl_get i (certificates (work w)) = Some c" and w: "committed w = work w"
  shows "wp (renew_certificate cx now el i force user tr)
    (\<lambda>_ w'. refines i (c_status c, c_renewal_status c) Q_renew True (work w'))
    (\<lambda>_ w'. refines i (c_status c, c_renewal_status c) Q_renew False (committed w')) w"
proof (cases "renewable c")
  case True
  let ?l = "(c_status c, c_renewal_status c)"
  have s: "snd ?l \<noteq> RenewalStatus.IN_PROGRESS" using True by (simp add: renewable_def)
  have "refines i ?l Q_renew True (work w')" if "tracks i (renewed_state now ok) j (job_done now ok) (work w')" for ok j w'
    using that renewed_refines [OF s] by (auto simp: tracks_def intro: refinesI)
  moreover have "refines i ?l Q_renew False (renewal_started now i user tr (work w))"
    using c renew_stuck [OF s] by (intro refinesI) (auto simp: renewal_started_def)
  ultimately show ?thesis
    using renew_wp [of w cx now el i force user tr] renew_raise_wp [OF c True, of cx now el force user tr] wf
    by (auto simp: wp_def wf_jobs_def split: prod.splits sum.splits)
next
  case False
  then show ?thesis using c w renew_refused
    by (auto simp: renew_certificate_def wp_simps renewable_def intro!: refinesI)
qed

text \<open>Closing a renewal in progress.\<close>

lemma close_renewal_refines:
  assumes c: "tbl_get i (certificates (work w)) = Some c" and l: "c_renewal_status c = RenewalStatus.IN_PROGRESS"
    and q: "\<And>st. st \<in> {CertificateStatus.ACTIVE, CertificateStatus.EXPIRING} \<Longrightarrow>
      life_step (c_status c, c_renewal_status c) q True (st, RenewalStatus.FAILED)"
  shows "wp (close_renewal now i m y) (\<lambda>_ w'. refines i (c_status c, c_renewal_status c) q True (work w')) E w"
  using c q by (auto simp: close_renewal_def upd_cert_def upd_job_def wp_simps fail_renewal_def
      intro!: refinesI split: option.splits)

lemma life_run_refines:
  assumes wf: "wf_jobs (committed w)" and l: "life_of i (committed w) = Some l"
  shows "run_refines i l (request_of x) (life_run cx i x w)"
proof -
  let ?w = "w\<lparr>work := committed w\<rparr>"
  obtain c where c: "tbl_get i (certificates (work ?w)) = Some c" and lc: "l = (c_status c, c_renewal_status c)"
    using l by (auto simp: life_of_def)
  have wf': "wf_table (job_executions (work ?w))" using wf by (simp add: wf_jobs_def)
  have here: "refines i l q b (committed w)" if "life_step l q b l" for q b
    using c lc that by (auto intro: refinesI)
  obtain cw where cw: "tbl_row i (certificates (committed w)) = Some cw" "rval cw = c"
    using c by (auto simp: tbl_get_def)
  show ?thesis
  proof (cases x)
    case (Issue now el user tr p)
    have "wp (execute_issuance cx now el i user tr p) (\<lambda>_ w'. refines i l Q_issue True (work w'))
        (\<lambda>_ w'. refines i l Q_issue False (committed w')) ?w"
    proof (rule wp_mono [OF execute_issuance_wp [OF c wf']])
      fix j w' assume "committed w' = work w' \<and> (\<exists>ok. tracks i (issued_state ok) j (job_done now ok) (work w'))"
      then show "refines i l Q_issue True (work w')"
        using issued [of l] issue_failed [of l]
        by (auto simp: tracks_def issued_state_def intro!: refinesI split: if_splits)
    next
      fix e w' assume "committed w' = issuance_started now i user tr (work ?w)"
      then show "refines i l Q_issue False (committed w')"
        using here [OF issue_raised] by (simp add: refines_def life_of_def issuance_started_def)
    qed
    then show ?thesis using Issue by (simp add: life_run_def life_body_def refines_unit)
  next
    case (Renew now el force user tr)
    have "wp (renew_certificate cx now el i force user tr) (\<lambda>_ w'. refines i l Q_renew True (work w'))
        (\<lambda>_ w'. refines i l Q_renew False (committed w')) ?w"
      unfolding lc by (rule renew_refines) (use wf c in auto)
    then show ?thesis using Renew by (simp add: life_run_def life_body_def refines_unit)
  next
    case (Check_stale now)
    have "wp (mark_stale_renewal_failed now i) (\<lambda>_ w'. refines i l Q_check True (work w'))
        (\<lambda>_ w'. refines i l Q_check False (committed w')) ?w"
      using here [OF not_stale] cw close_renewal_refines [OF c _ stale_closed] lc
      by (auto simp: mark_stale_renewal_failed_def wp_simps Let_def split: option.splits)
    then show ?thesis using Check_stale by (simp add: life_run_def life_body_def refines_session)
  next
    case (Cancel now)
    have "wp (cancel_renewal now i) (\<lambda>_ w'. refines i l Q_cancel True (work w'))
        (\<lambda>_ w'. refines i l Q_cancel False (committed w')) ?w"
      using here [OF cancel_refused] c close_renewal_refines [OF c _ cancelled] lc
      by (auto simp: cancel_renewal_def get_certificate_def wp_simps)
    then show ?thesis using Cancel by (simp add: life_run_def life_body_def refines_session)
  next
    case (Revoke now reason da user tr)
    have "wp (revoke_certificate cx now i reason da user tr) (\<lambda>_ w'. refines i l Q_revoke True (work w'))
        (\<lambda>_ w'. refines i l Q_revoke False (committed w')) ?w"
    proof (rule wp_mono [OF revoke_wp [OF c wf']])
      fix j w' assume a: "committed w' = work w' \<and> (tracks i revoked_state j (\<lambda>x. j_status x = JobStatus.SUCCESS) (work w') \<or>
        tracks i (\<lambda>c'. c' = c) j (\<lambda>x. j_status x = JobStatus.FAILED) (work w'))"
      then show "refines i l Q_revoke True (work w')"
        using refinesI [of i "work w'" _ l Q_revoke True] lc revoked [of l] revoke_failed [of l True]
        by (fastforce simp: tracks_def revoked_state_def)
    qed (use here [OF revoke_failed] in simp)
    then show ?thesis using Revoke by (simp add: life_run_def life_body_def refines_unit)
  qed
qed

lemma life_run_wf: "wf_jobs (committed w) \<Longrightarrow> wf_jobs (committed (snd (life_run cx i x w)))"
  using keepsD [OF keeps_in_session [OF keeps_wf_life, of cx i x], of "w\<lparr>work := committed w\<rparr>"]
  by (simp add: winv_def life_run_def)

definition logged_ok :: "request \<times> bool \<times> life option \<Rightarrow> bool" where
  "logged_ok e = (case e of (q, b, l) \<Rightarrow> case l of None \<Rightarrow> False | Some l' \<Rightarrow> life_ok l')"

lemma life_log_trace:
  assumes "wf_jobs (committed w)" "life_of i (committed w) = Some l"
  shows "life_trace l (life_log cx i xs w) \<and> (life_ok l \<longrightarrow> list_all logged_ok (life_log cx i xs w))"
  using assms
proof (induction xs arbitrary: w l)
  case (Cons x xs)
  obtain res w' where r: "life_run cx i x w = (res, w')" by (cases "life_run cx i x w")
  from life_run_refines [OF Cons.prems, of x cx] r obtain l'
    where l': "life_of i (committed w') = Some l'" "life_step l (request_of x) (\<not> isl res) l'"
    by (auto simp: run_refines_def refines_def)
  moreover have "wf_jobs (committed w')" using life_run_wf [OF Cons.prems(1), of cx i x] r by simp
  ultimately show ?case using Cons.IH [of w' l'] life_step_ok [OF l'(2)] r by (auto simp: logged_ok_def)
qed simp

text \<open>C2: Whatever sequence of issuances, renewals, stale checks, cancellations and revocations is
  requested for a certificate, each in a session of its own and each possibly failing at any
  point, every request takes the step of the machine that its kind and its outcome allow from
  the committed status columns it finds, and a certificate whose columns agreed about a renewal
  in progress stays so after each of them.\<close>

theorem lifecycle_refinement:
  assumes "wf_jobs (committed w)" and "life_of i (committed w) = Some l" and "life_ok l"
  shows "life_trace l (life_log cx i xs w) \<and> list_all logged_ok (life_log cx i xs w)"
  using life_log_trace [OF assms(1,2), of cx xs] assms(3) by blast

text \<open>C38: Nothing keeps a revoked certificate revoked: every renewal requested for a managed one,
  whether it returns or raises, leaves the committed certificate active, expiring or renewing,
  so the revocation is gone from the status.\<close>

theorem revoked_renewal_reactivates:
  assumes "tbl_get i (certificates (committed w)) = Some c" and "revoked_state c"
    and "c_managed_by_platform c" and "truthy (c_cert_name c)"
    and "wf_jobs (committed w)"
  shows "\<exists>c'. tbl_get i (certificates (committed (snd (life_run cx i (Renew now el force user tr) w)))) = Some c' \<and>
    c_status c' \<in> {CertificateStatus.ACTIVE, CertificateStatus.EXPIRING, CertificateStatus.RENEWING}"
proof -
  let ?w = "w\<lparr>work := committed w\<rparr>"
  have r: "renewable c" using assms(2-4) by (simp add: renewable_def revoked_state_def)
  have c: "tbl_get i (certificates (work ?w)) = Some c" using assms(1) by simp
  have "wp (renew_certificate cx now el i force user tr)
      (\<lambda>_ w'. \<exists>c'. tbl_get i (certificates (work w')) = Some c' \<and> c_status c' \<in> {CertificateStatus.ACTIVE, CertificateStatus.EXPIRING})
      (\<lambda>_ w'. \<exists>c'. tbl_get i (certificates (committed w')) = Some c' \<and> c_status c' = CertificateStatus.RENEWING) ?w"
    using renew_wp [of ?w cx now el i force user tr] renew_raise_wp [OF c r, of cx now el force user tr] assms(5) c
    by (fastforce simp: wp_def wf_jobs_def tracks_def renewed_state_def renewal_started_def split: prod.splits sum.splits if_splits)
  then show ?thesis
    by (auto simp: life_run_def life_body_def in_session_def bnd_def op_simps wp_def split: prod.splits sum.splits)
qed

end
