(* ===== verification/CT_Monitor.thy ===== *)
theory CT_Monitor
  imports Models
begin

text \<open>
  \<open>app/services/ct_monitor.py\<close>: matching of a name against the monitored domains, the
  detections on a certificate found in a transparency log, their score and severity.  The
  answer of crt.sh is an argument, as the three outcomes the code tells apart.
\<close>

section \<open>crt.sh\<close>

text \<open>One row of the answer: the identifier as \<^verbatim>\<open>int\<close> reads it (\<open>None\<close> when that raises
  \<^verbatim>\<open>TypeError\<close> or \<^verbatim>\<open>ValueError\<close>), and the two fields the monitor uses.\<close>

record ct_entry =
  ce_id :: "int option"
  ce_serial_number :: "string option"
  ce_issuer_name :: "string option"

datatype crtsh_reply = Query_failed | Not_a_list | Entries "ct_entry list"

text \<open>The slice \<^verbatim>\<open>xs[:n]\<close>.\<close>

definition slice_to :: "int \<Rightarrow> 'a list \<Rightarrow> 'a list" where
  "slice_to n xs = (if 0 \<le> n then take (nat n) xs else take (length xs - nat (- n)) xs)"

definition fetch_crtsh_entries :: "(string \<Rightarrow> crtsh_reply) \<Rightarrow> string \<Rightarrow> int \<Rightarrow> ct_entry list option" where
  "fetch_crtsh_entries crtsh domain limit =
     (case crtsh domain of
        Query_failed \<Rightarrow> None | Not_a_list \<Rightarrow> None | Entries es \<Rightarrow> Some (slice_to limit es))"

section \<open>Matching\<close>

text \<open>\<^verbatim>\<open>(name or "").strip().lower().rstrip(".")\<close>\<close>

definition norm_name :: "string \<Rightarrow> string" where
  "norm_name s = rstrip_by (\<lambda>c. c = CHR ''.'') (py_lower (py_strip s))"

fun match_loop :: "bool \<Rightarrow> string \<Rightarrow> string list \<Rightarrow> string" where
  "match_loop wild base [] = ''unrelated''"
| "match_loop wild base (md # mds) =
     (let m = norm_name md in
      if m = [] then match_loop wild base mds
      else if base = m then (if wild then ''wildcard'' else ''exact'')
      else if py_endswith base (CHR ''.'' # m) then (if wild then ''wildcard'' else ''subdomain'')
      else match_loop wild base mds)"

definition classify_domain_match :: "string \<Rightarrow> string list \<Rightarrow> string" where
  "classify_domain_match name monitored_domains =
     (let n = norm_name name; wild = py_startswith n ''*.''; base = (if wild then drop 2 n else n) in
      match_loop wild base monitored_domains)"

section \<open>Detections\<close>

definition new_detection :: "bool \<Rightarrow> detection list" where
  "new_detection is_new =
     (if is_new then [\<lparr>det_code = ''NEW_CERTIFICATE'', det_weight = 10,
        det_reason = ''First time this certificate has been observed''\<rparr>] else [])"

definition issuer_detection :: "string option \<Rightarrow> string list \<Rightarrow> detection list" where
  "issuer_detection issuer expected_issuers =
     (let expected = filter (\<lambda>e. e \<noteq> []) (map py_strip expected_issuers);
          issuer_lower = py_lower (str_or issuer []) in
      if expected \<noteq> [] \<and> \<not> list_ex (\<lambda>e. py_contains (py_lower e) issuer_lower) expected
      then [\<lparr>det_code = ''UNKNOWN_CA'', det_weight = 25,
             det_reason = ''Issuer not in expected list: '' @ str_or issuer ''unknown''\<rparr>]
      else [])"

text \<open>The loop over the keywords stops at the first one the name contains.\<close>

definition keyword_detection :: "string \<Rightarrow> int \<Rightarrow> string \<Rightarrow> string \<Rightarrow> string list \<Rightarrow> detection list" where
  "keyword_detection code weight reason name_lower keywords =
     (case find (\<lambda>kw. let k = py_lower (py_strip kw) in k \<noteq> [] \<and> py_contains k name_lower) keywords of
        None \<Rightarrow> []
      | Some kw \<Rightarrow> [\<lparr>det_code = code, det_weight = weight, det_reason = reason @ py_strip kw\<rparr>])"

definition run_detections ::
    "string option \<Rightarrow> string \<Rightarrow> bool \<Rightarrow> string list \<Rightarrow> string list \<Rightarrow> string list \<Rightarrow> detection list" where
  "run_detections issuer matched_name is_new expected_issuers sensitive_keywords staging_keywords =
     new_detection is_new @ issuer_detection issuer expected_issuers @
     keyword_detection ''SENSITIVE_HOSTNAME'' 20 ''Hostname contains sensitive keyword: ''
       (py_lower matched_name) sensitive_keywords @
     keyword_detection ''STAGING_HOSTNAME'' 15 ''Hostname contains staging/test keyword: ''
       (py_lower matched_name) staging_keywords"

definition risk_score_for :: "detection list \<Rightarrow> int" where
  "risk_score_for ds = min 100 (sum_list (map det_weight ds))"

definition risk_severity :: "int \<Rightarrow> FindingSeverity" where
  "risk_severity score =
     (if 90 \<le> score then FindingSeverity.CRITICAL
      else if 75 \<le> score then FindingSeverity.HIGH
      else if 50 \<le> score then FindingSeverity.MEDIUM
      else if 25 \<le> score then FindingSeverity.LOW
      else FindingSeverity.INFORMATIONAL)"

section \<open>Facts\<close>

text \<open>Being a subdomain, label by label.\<close>

definition below :: "string \<Rightarrow> string \<Rightarrow> bool" where
  "below base m \<longleftrightarrow> (\<exists>p. base = p @ CHR ''.'' # m)"

lemma py_endswith_iff: "py_endswith s p \<longleftrightarrow> (\<exists>q. s = q @ p)"
proof
  assume "py_endswith s p"
  then show "\<exists>q. s = q @ p" unfolding py_endswith_def by (metis append_take_drop_id)
qed (auto simp: py_endswith_def)

lemma match_loop_iff:
  "match_loop wild base mds \<noteq> ''unrelated'' \<longleftrightarrow>
     (\<exists>md \<in> set mds. norm_name md \<noteq> [] \<and> (base = norm_name md \<or> below base (norm_name md)))"
  by (induction mds) (auto simp: Let_def py_endswith_iff below_def)

lemma match_loop_wild:
  "wild \<Longrightarrow> match_loop wild base mds \<in> {''wildcard'', ''unrelated''}"
  "\<not> wild \<Longrightarrow> match_loop wild base mds \<in> {''exact'', ''subdomain'', ''unrelated''}"
  by (induction mds) (auto simp: Let_def)

text \<open>A name matches exactly when, normalised and without a leading wildcard label, it is a
  monitored domain or lies below one; it is reported as a wildcard exactly when it matches
  and has that label.\<close>

theorem classify_match_spec:
  "(classify_domain_match name mds = ''unrelated'') =
     (\<not> (\<exists>base m. base = (if py_startswith (norm_name name) ''*.'' then drop 2 (norm_name name) else norm_name name) \<and>
        m \<in> norm_name ` set mds \<and> m \<noteq> [] \<and> (base = m \<or> below base m))) \<and>
   (classify_domain_match name mds = ''wildcard'') =
     (classify_domain_match name mds \<noteq> ''unrelated'' \<and> py_startswith (norm_name name) ''*.'')"
proof -
  let ?w = "py_startswith (norm_name name) ''*.''"
  let ?b = "if ?w then drop 2 (norm_name name) else norm_name name"
  have "(classify_domain_match name mds = ''unrelated'') =
      (\<not> (\<exists>md \<in> set mds. norm_name md \<noteq> [] \<and> (?b = norm_name md \<or> below ?b (norm_name md))))"
    unfolding classify_domain_match_def Let_def using match_loop_iff [of ?w ?b mds] by blast
  moreover have "(classify_domain_match name mds = ''wildcard'') =
      (classify_domain_match name mds \<noteq> ''unrelated'' \<and> ?w)"
    unfolding classify_domain_match_def Let_def using match_loop_wild [of ?w ?b mds] by auto
  ultimately show ?thesis by blast
qed

lemma keyword_weight: "0 \<le> wt \<Longrightarrow> sum_list (map det_weight (keyword_detection code wt rs nm kws)) \<in> {0, wt}"
  by (auto simp: keyword_detection_def split: option.splits)

text \<open>A finding scores between 0 and 70, whatever the certificate and the configured lists, so
  its severity is never high or critical, and the cap at 100 never applies.\<close>

theorem finding_score_bound:
  "let ds = run_detections issuer name is_new expected sensitive staging in
   0 \<le> risk_score_for ds \<and> risk_score_for ds \<le> 70 \<and>
   risk_score_for ds = sum_list (map det_weight ds) \<and>
   risk_severity (risk_score_for ds) \<in> {FindingSeverity.INFORMATIONAL, FindingSeverity.LOW, FindingSeverity.MEDIUM}"
proof -
  have "sum_list (map det_weight (run_detections issuer name is_new expected sensitive staging)) \<in> {0..70}"
    unfolding run_detections_def
    using keyword_weight [of 20 "''SENSITIVE_HOSTNAME''" "''Hostname contains sensitive keyword: ''" "py_lower name" sensitive]
      keyword_weight [of 15 "''STAGING_HOSTNAME''" "''Hostname contains staging/test keyword: ''" "py_lower name" staging]
    by (auto simp: new_detection_def issuer_detection_def Let_def)
  then show ?thesis by (auto simp: Let_def risk_score_for_def risk_severity_def)
qed

end
