(* ===== verification/Discovery.thy ===== *)
theory Discovery
  imports CT_Monitor Settings_Store Cert_Lifecycle
begin

text \<open>
  \<open>app/services/discovery_service.py\<close>: the network scan and the transparency-log monitor
  with their tracked runs.  Sessions are created with \<^verbatim>\<open>autoflush=False\<close>, so a row that was
  added is not found by a query before the next flush, and a flush that violates the unique
  index on \<^verbatim>\<open>crt_sh_id\<close>, or the one on the names of a certificate, leaves the session unusable until it is rolled back: the state of a
  scan carries the rows that wait for a flush.  crt.sh, the TLS handshakes, the expansion of
  a network and the PEM encoding are arguments.
\<close>

record scan_net =
  sn_crtsh :: "string \<Rightarrow> crtsh_reply"
  sn_crtsh_pem :: "int \<Rightarrow> string option"
  sn_tls :: "string \<Rightarrow> int \<Rightarrow> string option"
  sn_network :: "string \<Rightarrow> string list option"
  sn_to_pem :: "string \<Rightarrow> string"

section \<open>State of a scan\<close>

record scan =
  sc_world :: world
  sc_domains :: "certificate_domain list"
  sc_sightings :: "network_sighting list"
  sc_observations :: "ct_observation list"
  sc_findings :: "ct_finding list"
  sc_broken :: bool
  sc_found :: int
  sc_imported :: int
  sc_skipped :: int
  sc_logs :: "string list"

type_synonym 'a sop = "(scan, 'a) op"

definition start_scan_state :: "world \<Rightarrow> scan" where
  "start_scan_state w = \<lparr>sc_world = w, sc_domains = [], sc_sightings = [], sc_observations = [], sc_findings = [],
     sc_broken = False, sc_found = 0, sc_imported = 0, sc_skipped = 0, sc_logs = []\<rparr>"

text \<open>A query on a session whose flush failed raises.\<close>

definition usable :: "unit sop" where
  "usable = bnd (gets sc_broken) (\<lambda>b.
     if b then fail PendingRollbackError ''transaction has been rolled back due to a previous exception during flush''
     else ret ())"

definition query :: "(db \<Rightarrow> 'a) \<Rightarrow> 'a sop" where
  "query f = bnd usable (\<lambda>_. gets (\<lambda>s. f (work (sc_world s))))"

definition in_world :: "'a wop \<Rightarrow> 'a sop" where
  "in_world m s = (case m (sc_world s) of (r, w) \<Rightarrow> (r, s\<lparr>sc_world := w\<rparr>))"

definition log_line :: "string \<Rightarrow> unit sop" where
  "log_line l = modify (\<lambda>s. s\<lparr>sc_logs := sc_logs s @ [l]\<rparr>)"

definition observation_conflict :: "ct_observation list \<Rightarrow> db \<Rightarrow> bool" where
  "observation_conflict os d \<longleftrightarrow>
     \<not> distinct (map co_crt_sh_id os) \<or>
     list_ex (\<lambda>o1. tbl_first (\<lambda>w. co_crt_sh_id (rval w) = co_crt_sh_id o1) (ct_observations d) \<noteq> None) os"

text \<open>The names of a certificate are added once, right after its row, so only those that wait
  together can clash.\<close>

definition domain_conflict :: "certificate_domain list \<Rightarrow> bool" where
  "domain_conflict ds \<longleftrightarrow> \<not> distinct (map (\<lambda>x. (cd_certificate_id x, cd_domain x)) ds)"

definition pending_conflict :: "scan \<Rightarrow> bool" where
  "pending_conflict s \<longleftrightarrow> domain_conflict (sc_domains s) \<or> observation_conflict (sc_observations s) (work (sc_world s))"

definition add_all :: "datetime \<Rightarrow> 'r list \<Rightarrow> 'r table \<Rightarrow> 'r table" where
  "add_all now rs t = fold (\<lambda>r t. snd (tbl_add now r t)) rs t"

definition flush :: "datetime \<Rightarrow> unit sop" where
  "flush now = bnd usable (\<lambda>_. bnd (gets pending_conflict) (\<lambda>bad.
     if bad then
       bnd (modify (\<lambda>s. s\<lparr>sc_broken := True\<rparr>)) (\<lambda>_.
       fail IntegrityError ''UNIQUE constraint failed'')
     else
       modify (\<lambda>s. s\<lparr>
         sc_world := (sc_world s)\<lparr>work := (work (sc_world s))\<lparr>
           certificate_domains := add_all now (sc_domains s) (certificate_domains (work (sc_world s))),
           network_sightings := add_all now (sc_sightings s) (network_sightings (work (sc_world s))),
           ct_observations := add_all now (sc_observations s) (ct_observations (work (sc_world s))),
           ct_findings := add_all now (sc_findings s) (ct_findings (work (sc_world s)))\<rparr>\<rparr>,
         sc_domains := [], sc_sightings := [], sc_observations := [], sc_findings := []\<rparr>)))"

definition commit_scan :: "datetime \<Rightarrow> unit sop" where
  "commit_scan now = bnd (flush now) (\<lambda>_. in_world commit)"

section \<open>Runs\<close>

definition new_run :: "datetime \<Rightarrow> int option \<Rightarrow> discovery_run" where
  "new_run now created_by = \<lparr>dr_started_at = now, dr_finished_at = None, dr_status = ''running'',
     dr_scan_paths = [], dr_found_count = 0, dr_imported_count = 0, dr_skipped_count = 0, dr_log = None,
     dr_created_by = created_by, dr_scan_type = ''filesystem'', dr_scan_targets = None,
     dr_scan_ports = None, dr_scan_domains = None\<rparr>"

definition upd_run :: "datetime \<Rightarrow> int \<Rightarrow> (discovery_run \<Rightarrow> discovery_run) \<Rightarrow> unit wop" where
  "upd_run now r f = db_mod (discovery_runs_update (tbl_upd now r f))"

text \<open>\<^verbatim>\<open>_tracked_run\<close>: the body runs on the session of \<open>w\<close>; whatever it raises, the session is
  rolled back, which also drops what waits for a flush, and the run is marked failed.\<close>

definition tracked_run :: "datetime \<Rightarrow> int \<Rightarrow> unit sop \<Rightarrow> unit wop" where
  "tracked_run now r body w =
     (case body (start_scan_state w) of
        (Inr _, s) \<Rightarrow> (Inr (), sc_world s)
      | (Inl e, s) \<Rightarrow>
          bnd rollback (\<lambda>_.
          bnd (upd_run now r (\<lambda>x. x\<lparr>dr_status := ''failed'', dr_finished_at := Some now,
                 dr_log := Some (take 2000 (''Scan failed: '' @ exc_msg e))\<rparr>)) (\<lambda>_.
          commit)) (sc_world s))"

definition STALE_RUN_MINUTES :: int where
  "STALE_RUN_MINUTES = 60"

definition mark_stale_run_failed :: "datetime \<Rightarrow> int \<Rightarrow> unit wop" where
  "mark_stale_run_failed now r =
     bnd (db_get (\<lambda>d. tbl_get r (discovery_runs d))) (\<lambda>x.
     case x of
       None \<Rightarrow> ret ()
     | Some run \<Rightarrow>
         if dr_status run \<noteq> ''running'' \<or> now - dr_started_at run < STALE_RUN_MINUTES * us_per_minute then ret ()
         else
           bnd (upd_run now r (\<lambda>x. x\<lparr>dr_status := ''failed'', dr_finished_at := Some now,
                  dr_log := Some (''Marked failed: no progress for over '' @ str_int STALE_RUN_MINUTES @
                    '' minutes - the worker likely crashed, was restarted, or got stuck (e.g. a hung DNS lookup).'')\<rparr>)) (\<lambda>_.
           commit))"

definition cancel_run :: "datetime \<Rightarrow> int \<Rightarrow> unit wop" where
  "cancel_run now r =
     bnd (db_get (\<lambda>d. tbl_get r (discovery_runs d))) (\<lambda>x.
     case x of
       None \<Rightarrow> ret ()
     | Some run \<Rightarrow>
         if dr_status run \<noteq> ''running'' then fail ValidationAppError ''Only a running scan can be cancelled''
         else
           bnd (upd_run now r (\<lambda>x. x\<lparr>dr_status := ''cancelled'', dr_finished_at := Some now,
                  dr_log := Some ''Cancelled by an administrator.''\<rparr>)) (\<lambda>_. commit))"

text \<open>The end of every scan body: the counters and the log go to the run, then the execution
  record and the audit entry.\<close>

definition run_log :: "string option \<Rightarrow> scan \<Rightarrow> string" where
  "run_log known s =
     (if sc_logs s \<noteq> [] then py_join [CHR 0x0A] (last_n 500 (sc_logs s))
      else case known of
        Some text \<Rightarrow> if sc_found s \<noteq> 0 then str_int (sc_found s) @ text else ''No certificates found.''
      | None \<Rightarrow> ''No certificates found.'')"

definition finish_scan ::
    "ctx \<Rightarrow> datetime \<Rightarrow> int \<Rightarrow> JobType \<Rightarrow> string \<Rightarrow> string option \<Rightarrow> int option \<Rightarrow> unit sop" where
  "finish_scan cx now r ty action known created_by =
     bnd (gets (\<lambda>s. s)) (\<lambda>s.
     bnd (in_world (upd_run now r (\<lambda>x. x\<lparr>dr_found_count := sc_found s, dr_imported_count := sc_imported s,
            dr_skipped_count := sc_skipped s, dr_status := ''completed'', dr_finished_at := Some now,
            dr_log := Some (run_log known s)\<rparr>))) (\<lambda>_.
     bnd (commit_scan now) (\<lambda>_.
     bnd (in_world (bnd (db_get (\<lambda>d. tbl_get r (discovery_runs d))) (\<lambda>run.
       bnd (add_job now ((new_job ty None JobTrigger.SCHEDULER JobStatus.SUCCESS now None)\<lparr>
              j_started_at := map_option dr_started_at run, j_finished_at := Some now,
              j_stdout := Some (run_log known s), j_created_by := created_by\<rparr>)) (\<lambda>_.
       record_audit (cx_rdf cx) now ((audit_defaults action)\<lparr>aa_resource_type := Some ''discovery'',
         aa_resource_id := Some (str_int r),
         aa_details := [(''found'', JInt (sc_found s)), (''imported'', JInt (sc_imported s))]\<rparr>))))) (\<lambda>_.
     commit_scan now))))"

section \<open>Settings of the scans\<close>

text \<open>\<^verbatim>\<open>get_setting(db, key) or default\<close>; an unreadable setting gives the default.\<close>

definition tls_scan_setting :: "crypto \<Rightarrow> string \<Rightarrow> string \<Rightarrow> db \<Rightarrow> string" where
  "tls_scan_setting k key dflt d =
     (case get_setting k key d of Inl _ \<Rightarrow> dflt | Inr v \<Rightarrow> str_or v dflt)"

definition DEFAULT_SCAN_PATHS :: "string list" where
  "DEFAULT_SCAN_PATHS =
     [''/etc/letsencrypt/live'', ''/etc/pki/tls/certs'', ''/etc/pki/tls/private'', ''/etc/nginx'',
      ''/etc/httpd'', ''/etc/apache2'', ''/etc/openvpn'']"

definition settings_scan_paths :: "crypto \<Rightarrow> db \<Rightarrow> string list" where
  "settings_scan_paths k d =
     (case get_setting k ''discovery.scan_paths'' d of
        Inl _ \<Rightarrow> DEFAULT_SCAN_PATHS
      | Inr raw \<Rightarrow>
          if truthy raw then filter (\<lambda>p. p \<noteq> []) (map py_strip (split_on CHR '','' (str_or raw [])))
          else DEFAULT_SCAN_PATHS)"

text \<open>\<^verbatim>\<open>[x for x in s.split(",") if x.strip()]\<close>\<close>

definition split_list :: "string \<Rightarrow> string list" where
  "split_list s = filter (\<lambda>x. py_strip x \<noteq> []) (split_on CHR '','' s)"

fun parse_all :: "string list \<Rightarrow> exn + int list" where
  "parse_all [] = Inr []"
| "parse_all (x # xs) =
     (case py_int x of
        Inl e \<Rightarrow> Inl e
      | Inr n \<Rightarrow> (case parse_all xs of Inl e \<Rightarrow> Inl e | Inr ns \<Rightarrow> Inr (n # ns)))"

section \<open>Certificates found by a scan\<close>

definition validity_status :: "datetime \<Rightarrow> datetime option \<Rightarrow> int \<Rightarrow> CertificateStatus" where
  "validity_status now valid_until threshold_days =
     (case valid_until of
        None \<Rightarrow> CertificateStatus.DISCOVERED
      | Some t \<Rightarrow>
          if t - now \<le> 0 then CertificateStatus.EXPIRED
          else if td_days (t - now) \<le> threshold_days then CertificateStatus.EXPIRING
          else CertificateStatus.ACTIVE)"

definition discovered_row :: "settings \<Rightarrow> datetime \<Rightarrow> x509_meta \<Rightarrow> string \<Rightarrow> string \<Rightarrow> certificate" where
  "discovered_row s now m fallback provider =
     (let primary = (case m_sans m of d # _ \<Rightarrow> d | [] \<Rightarrow> fallback);
          sans = (if m_sans m = [] then [primary] else m_sans m) in
      (new_certificate primary)\<lparr>
        c_sans := sans, c_is_wildcard := m_is_wildcard m, c_cert_type := cert_type_for sans,
        c_subject := Some (m_subject m), c_issuer := Some (m_issuer m),
        c_serial_number := Some (m_serial_number m), c_fingerprint_sha256 := Some (m_fingerprint_sha256 m),
        c_public_key_algorithm := Some (m_public_key_algorithm m), c_key_type := m_key_type m,
        c_key_size := m_key_size m, c_signature_algorithm := Some (m_signature_algorithm m),
        c_valid_from := Some (m_valid_from m), c_valid_until := Some (m_valid_until m),
        c_status := validity_status now (Some (m_valid_until m)) (renewal_threshold_days s),
        c_environment := default_environment s, c_provider_name := provider,
        c_imported := False, c_auto_renew := False, c_renewal_status := RenewalStatus.NONE,
        c_cert_path := Some (store_cert_path s (m_fingerprint_sha256 m)), c_managed_by_platform := False\<rparr>)"

definition find_by_fingerprint :: "string \<Rightarrow> db \<Rightarrow> certificate row option" where
  "find_by_fingerprint fp d = tbl_first (\<lambda>w. c_fingerprint_sha256 (rval w) = Some fp) (certificates d)"

text \<open>The file, the row, which is flushed at once, and its domains, which wait for a flush.\<close>

definition domain_rows :: "int \<Rightarrow> string list \<Rightarrow> certificate_domain list" where
  "domain_rows i sans = map (\<lambda>(idx, d). \<lparr>cd_certificate_id = i, cd_domain = d, cd_is_primary = (idx = 0),
     cd_is_wildcard = False, cd_validation_status = None\<rparr>) (zip [0..<length sans] sans)"

definition add_discovered ::
    "ctx \<Rightarrow> scan_net \<Rightarrow> datetime \<Rightarrow> x509_meta \<Rightarrow> string \<Rightarrow> string \<Rightarrow> string \<Rightarrow> int sop" where
  "add_discovered cx net now m raw fallback provider =
     (let c = discovered_row (cx_cfg cx) now m fallback provider in
      bnd (in_world (fs_write (store_cert_path (cx_cfg cx) (m_fingerprint_sha256 m)) (sn_to_pem net raw))) (\<lambda>_.
      bnd (flush now) (\<lambda>_.
      bnd (in_world (add_cert now c)) (\<lambda>i.
      bnd (modify (\<lambda>s. s\<lparr>sc_domains := sc_domains s @ domain_rows i (c_sans c)\<rparr>)) (\<lambda>_.
      bnd (modify (\<lambda>s. s\<lparr>sc_imported := sc_imported s + 1\<rparr>)) (\<lambda>_. ret i))))))"

definition ignored_fingerprints :: "db \<Rightarrow> string list" where
  "ignored_fingerprints d = map (\<lambda>w. di_fingerprint_sha256 (rval w)) (rows (discovery_ignores d))"

section \<open>Network scan\<close>

text \<open>One target: \<open>network t\<close> are the hosts of the network \<open>t\<close> denotes, \<open>None\<close> when it is a name.\<close>

definition expand_target :: "(string \<Rightarrow> string list option) \<Rightarrow> string \<Rightarrow> string list" where
  "expand_target network target =
     (let t = py_strip target in
      if t = [] then [] else (case network t of None \<Rightarrow> [t] | Some hosts \<Rightarrow> hosts))"

definition expand_targets ::
    "(string \<Rightarrow> string list option) \<Rightarrow> string list \<Rightarrow> int \<Rightarrow> nat \<Rightarrow> exn + string list" where
  "expand_targets network targets max_targets port_count =
     (let hosts = concat (map (expand_target network) targets);
          n = int (length hosts * max port_count 1) in
      if max_targets < n then
        raises ValidationAppError (''Scan would cover '' @ str_int n @ '' host:port combinations, '' @
          ''exceeding the configured limit of '' @ str_int max_targets @ '' (tls_scan.max_targets) - '' @
          ''scan in smaller batches or raise the limit.'')
      else Inr hosts)"

definition scan_targets :: "scan_net \<Rightarrow> string list \<Rightarrow> int list \<Rightarrow> (string \<times> int \<times> string option) list" where
  "scan_targets net hosts ports =
     map (\<lambda>(h, p). (h, p, sn_tls net h p)) (concat (map (\<lambda>h. map (Pair h) ports) hosts))"

definition latest_sighting :: "string \<Rightarrow> int \<Rightarrow> db \<Rightarrow> network_sighting row option" where
  "latest_sighting host port d =
     (case rev (tbl_sel (\<lambda>w. ns_host (rval w) = host \<and> ns_port (rval w) = port) (network_sightings d)) of
        [] \<Rightarrow> None | w # _ \<Rightarrow> Some w)"

definition at :: "string \<Rightarrow> int \<Rightarrow> string" where
  "at host port = host @ '':'' @ str_int port"

text \<open>The sighting of certificate \<open>i\<close>: the latest one of the endpoint is refreshed when it shows
  the same certificate, otherwise a new one is added.\<close>

definition note_sighting :: "ctx \<Rightarrow> datetime \<Rightarrow> int \<Rightarrow> string \<Rightarrow> int \<Rightarrow> int \<Rightarrow> unit sop" where
  "note_sighting cx now r host port i =
     bnd (query (latest_sighting host port)) (\<lambda>latest.
     bnd (query (\<lambda>d. tbl_get i (certificates d))) (\<lambda>co.
     case co of
       None \<Rightarrow> fail AttributeError ''certificate''
     | Some c \<Rightarrow>
         (case latest of
            Some l \<Rightarrow>
              if ns_certificate_id (rval l) = i then
                bnd (in_world (db_mod (network_sightings_update (tbl_upd now (rid l)
                       (\<lambda>x. x\<lparr>ns_last_seen_at := now, ns_discovery_run_id := Some r\<rparr>))))) (\<lambda>_.
                in_world (when_op (\<not> c_managed_by_platform c) (upd_cert now i (\<lambda>c. c\<lparr>
                  c_status := validity_status now (c_valid_until c) (renewal_threshold_days (cx_cfg cx))\<rparr>))))
              else
                bnd (modify (\<lambda>s. s\<lparr>sc_sightings := sc_sightings s @ [\<lparr>
                       ns_fingerprint_sha256 = str_or (c_fingerprint_sha256 c) [], ns_certificate_id = i,
                       ns_host = host, ns_port = port, ns_sni_hostname = None, ns_first_seen_at = now,
                       ns_last_seen_at = now, ns_discovery_run_id = Some r\<rparr>]\<rparr>)) (\<lambda>_.
                log_line (''ROTATED cert at '' @ at host port @ '' (was cert #'' @
                  str_int (ns_certificate_id (rval l)) @ '', now #'' @ str_int i @ '')''))
          | None \<Rightarrow>
              modify (\<lambda>s. s\<lparr>sc_sightings := sc_sightings s @ [\<lparr>
                ns_fingerprint_sha256 = str_or (c_fingerprint_sha256 c) [], ns_certificate_id = i,
                ns_host = host, ns_port = port, ns_sni_hostname = None, ns_first_seen_at = now,
                ns_last_seen_at = now, ns_discovery_run_id = Some r\<rparr>]\<rparr>))))"

definition record_sighting ::
    "ctx \<Rightarrow> scan_net \<Rightarrow> datetime \<Rightarrow> int \<Rightarrow> string list \<Rightarrow> string \<Rightarrow> int \<Rightarrow> string \<Rightarrow> unit sop" where
  "record_sighting cx net now r ignored host port der =
     bnd (lift_exn (parse_certificate (cx_x5 cx) der)) (\<lambda>m.
     let fp = m_fingerprint_sha256 m in
     bnd (query (find_by_fingerprint fp)) (\<lambda>found.
     case found of
       Some w \<Rightarrow> note_sighting cx now r host port (rid w)
     | None \<Rightarrow>
         if fp \<in> set ignored then log_line (''SKIP ignored cert at '' @ at host port @ '' ('' @ fp @ '')'')
         else
           bnd (add_discovered cx net now m der host ''network-scan'') (\<lambda>i.
           bnd (log_line (''FOUND new cert at '' @ at host port @ '' ('' @ fp @ '')'')) (\<lambda>_.
           note_sighting cx now r host port i))))"

definition sighting_step ::
    "ctx \<Rightarrow> scan_net \<Rightarrow> datetime \<Rightarrow> int \<Rightarrow> string list \<Rightarrow> string \<times> int \<times> string option \<Rightarrow> unit sop" where
  "sighting_step cx net now r ignored res = (case res of (host, port, der) \<Rightarrow>
     (case der of
        None \<Rightarrow> ret ()
      | Some x \<Rightarrow>
          bnd (modify (\<lambda>s. s\<lparr>sc_found := sc_found s + 1\<rparr>)) (\<lambda>_.
          catch_op (record_sighting cx net now r ignored host port x) (\<lambda>e.
            bnd (modify (\<lambda>s. s\<lparr>sc_skipped := sc_skipped s + 1\<rparr>)) (\<lambda>_.
            log_line (''ERR '' @ at host port @ '': '' @ exc_msg e))))))"

definition network_scan_body ::
    "ctx \<Rightarrow> scan_net \<Rightarrow> datetime \<Rightarrow> int \<Rightarrow> string list \<Rightarrow> int list \<Rightarrow> int option \<Rightarrow> unit sop" where
  "network_scan_body cx net now r hosts ports created_by =
     bnd (query ignored_fingerprints) (\<lambda>ignored.
     bnd (for_each (scan_targets net hosts ports) (sighting_step cx net now r ignored)) (\<lambda>_.
     finish_scan cx now r JobType.NETWORK_SCAN ''discovery.network_scan''
       (Some '' certificate(s) found, all already known and unchanged.'') created_by))"

definition add_run :: "datetime \<Rightarrow> discovery_run \<Rightarrow> int wop" where
  "add_run now x =
     bnd (db_get (\<lambda>d. next_id (discovery_runs d))) (\<lambda>r.
     bnd (db_mod (discovery_runs_update (\<lambda>t. snd (tbl_add now x t)))) (\<lambda>_.
     bnd commit (\<lambda>_. ret r)))"

text \<open>Concurrency and timeout only configure the handshakes; their settings must still parse.
  \<open>float_ok\<close> says whether \<^verbatim>\<open>float\<close> accepts a string.\<close>

definition run_network_scan ::
    "ctx \<Rightarrow> scan_net \<Rightarrow> (string \<Rightarrow> bool) \<Rightarrow> datetime \<Rightarrow> string list \<Rightarrow> int list option \<Rightarrow> int option \<Rightarrow> bool
      \<Rightarrow> int option \<Rightarrow> int wop" where
  "run_network_scan cx net float_ok now targets ports concurrency has_timeout created_by =
     bnd (db_get (\<lambda>d key. tls_scan_setting (cx_kc cx) (''tls_scan.'' @ key) (case map_of
            [(''default_ports'', ''443,8443,636,465''), (''concurrency'', ''20''), (''timeout_seconds'', ''3''),
             (''max_targets'', ''2048'')] key of Some v \<Rightarrow> v | None \<Rightarrow> []) d)) (\<lambda>setting.
     bnd (if or_default ports [] \<noteq> [] then ret (or_default ports [])
          else lift_exn (parse_all (split_list (setting ''default_ports'')))) (\<lambda>resolved_ports.
     bnd (if id_truthy concurrency then ret 0 else lift_exn (py_int (setting ''concurrency''))) (\<lambda>_.
     bnd (if has_timeout \<or> float_ok (setting ''timeout_seconds'') then ret ()
          else fail ValueError ''could not convert string to float'') (\<lambda>_.
     bnd (lift_exn (py_int (setting ''max_targets''))) (\<lambda>max_targets.
     bnd (lift_exn (expand_targets (sn_network net) targets max_targets (length resolved_ports))) (\<lambda>hosts.
     bnd (add_run now ((new_run now created_by)\<lparr>dr_scan_type := ''network'',
            dr_scan_targets := Some targets, dr_scan_ports := Some resolved_ports\<rparr>)) (\<lambda>r.
     bnd (tracked_run now r (network_scan_body cx net now r hosts resolved_ports created_by)) (\<lambda>_.
     ret r))))))))"

section \<open>Transparency logs\<close>

definition hex_digit :: "char \<Rightarrow> nat option" where
  "hex_digit c = (let n = of_char c :: nat in
     if py_isdigit_ascii c then Some (n - 48)
     else if 97 \<le> n \<and> n \<le> 102 then Some (n - 87)
     else if 65 \<le> n \<and> n \<le> 70 then Some (n - 55) else None)"

definition hex_value :: "string \<Rightarrow> nat" where
  "hex_value s = foldl (\<lambda>a c. 16 * a + or_default (hex_digit c) 0) 0 s"

text \<open>\<^verbatim>\<open>int(s, 16)\<close>: as for base 10, with an optional prefix \<^verbatim>\<open>0x\<close>, which an underscore may follow.\<close>

definition py_int16 :: "string \<Rightarrow> int option" where
  "py_int16 s =
     (let t = py_strip s;
          neg = (t \<noteq> [] \<and> hd t = CHR ''-'');
          u = (if t \<noteq> [] \<and> hd t \<in> {CHR ''-'', CHR ''+''} then tl t else t);
          prefixed = (take 2 u \<in> {''0x'', ''0X''});
          v = (if prefixed then drop 2 u else u);
          v' = (if prefixed \<and> v \<noteq> [] \<and> hd v = CHR ''_'' then tl v else v);
          groups = split_on CHR ''_'' v' in
      if list_all (\<lambda>g. g \<noteq> [] \<and> list_all (\<lambda>c. hex_digit c \<noteq> None) g) groups
      then Some (if neg then - int (hex_value (concat groups)) else int (hex_value (concat groups)))
      else None)"

fun hex_digits :: "nat \<Rightarrow> string" where
  "hex_digits n = (let d = (\<lambda>k. char_of (if k < 10 then 48 + k else 87 + k)) in
     if n < 16 then [d n] else hex_digits (n div 16) @ [d (n mod 16)])"

declare hex_digits.simps [simp del]

definition format_hex :: "int \<Rightarrow> string" where
  "format_hex i = (if i < 0 then CHR ''-'' # hex_digits (nat (- i)) else hex_digits (nat i))"

text \<open>The certificate a row of the answer names by serial number and issuer.\<close>

definition find_by_serial :: "string option \<Rightarrow> string option \<Rightarrow> db \<Rightarrow> certificate row option" where
  "find_by_serial serial_number issuer_name d =
     (if truthy serial_number \<and> truthy issuer_name then
        (case py_int16 (str_or serial_number []) of
           None \<Rightarrow> None
         | Some n \<Rightarrow> tbl_first (\<lambda>w. c_serial_number (rval w) = Some (format_hex n) \<and>
                                  c_issuer (rval w) = issuer_name) (certificates d))
      else None)"

definition ACTIVE_FINDING :: "FindingStatus list" where
  "ACTIVE_FINDING = [FindingStatus.OPEN, FindingStatus.ACKNOWLEDGED, FindingStatus.INVESTIGATING]"

definition active_finding :: "int \<Rightarrow> db \<Rightarrow> ct_finding row option" where
  "active_finding i d =
     (case rev (tbl_sel (\<lambda>w. f_certificate_id (rval w) = i \<and> f_status (rval w) \<in> set ACTIVE_FINDING)
        (ct_findings d)) of [] \<Rightarrow> None | w # _ \<Rightarrow> Some w)"

record ct_config =
  cc_domains :: "string list"
  cc_expected :: "string list"
  cc_sensitive :: "string list"
  cc_staging :: "string list"

definition upper_char :: "char \<Rightarrow> char" where
  "upper_char c = (let n = of_char c :: nat in if 97 \<le> n \<and> n \<le> 122 then char_of (n - 32) else c)"

text \<open>What is recorded of certificate \<open>i\<close>: the observation and, when a detection applies, a
  finding, of which an active one is refreshed.\<close>

definition record_finding ::
    "ct_config \<Rightarrow> datetime \<Rightarrow> int \<Rightarrow> int \<Rightarrow> string \<Rightarrow> string \<Rightarrow> detection list \<Rightarrow> unit sop" where
  "record_finding cc now r i matched_name match_type ds =
     (let score = risk_score_for ds; severity = risk_severity score in
      bnd (query (active_finding i)) (\<lambda>af.
      case af of
        Some w \<Rightarrow>
          in_world (db_mod (ct_findings_update (tbl_upd now (rid w) (\<lambda>f. f\<lparr>f_last_seen_at := now,
            f_detections := ds, f_risk_score := score, f_severity := severity, f_ct_monitor_run_id := Some r\<rparr>))))
      | None \<Rightarrow>
          bnd (modify (\<lambda>s. s\<lparr>sc_findings := sc_findings s @ [\<lparr>f_certificate_id = i, f_domain = matched_name,
                 f_match_type = match_type, f_detections = ds, f_risk_score = score, f_severity = severity,
                 f_status = FindingStatus.OPEN, f_resolution_reason = None, f_assigned_to = None,
                 f_first_seen_at = now, f_last_seen_at = now, f_ct_monitor_run_id = Some r\<rparr>]\<rparr>)) (\<lambda>_.
          log_line (''FINDING '' @ map upper_char (FindingSeverity_value severity) @ '' for '' @ matched_name @
            '' (score='' @ str_int score @ ''): '' @ py_join '', '' (map det_code ds)))))"

definition observe ::
    "ct_config \<Rightarrow> datetime \<Rightarrow> int \<Rightarrow> string \<Rightarrow> int \<Rightarrow> string \<Rightarrow> int \<Rightarrow> certificate \<Rightarrow> bool \<Rightarrow> unit sop" where
  "observe cc now r domain crt_sh_id matched_name i c is_new =
     bnd (modify (\<lambda>s. s\<lparr>sc_observations := sc_observations s @ [\<lparr>co_certificate_id = i,
            co_crt_sh_id = crt_sh_id, co_matched_domain = domain, co_first_seen_at = now,
            co_last_seen_at = now, co_ct_monitor_run_id = Some r\<rparr>]\<rparr>)) (\<lambda>_.
     let ds = run_detections (c_issuer c) matched_name is_new (cc_expected cc) (cc_sensitive cc) (cc_staging cc) in
     if ds = [] then ret ()
     else record_finding cc now r i matched_name (classify_domain_match domain (cc_domains cc)) ds)"

definition record_ct_observation ::
    "ctx \<Rightarrow> scan_net \<Rightarrow> ct_config \<Rightarrow> datetime \<Rightarrow> int \<Rightarrow> string list \<Rightarrow> int list \<Rightarrow> string \<Rightarrow> int
      \<Rightarrow> string option \<Rightarrow> string option \<Rightarrow> unit sop" where
  "record_ct_observation cx net cc now r ignored known domain crt_sh_id serial_number issuer_name =
     (if crt_sh_id \<in> set known then
        bnd (query (\<lambda>d. tbl_first (\<lambda>w. co_crt_sh_id (rval w) = crt_sh_id) (ct_observations d))) (\<lambda>obs.
        case obs of
          None \<Rightarrow> ret ()
        | Some w \<Rightarrow> in_world (db_mod (ct_observations_update (tbl_upd now (rid w) (\<lambda>x. x\<lparr>
            co_last_seen_at := now, co_ct_monitor_run_id := Some r\<rparr>)))))
      else
        bnd (if truthy serial_number \<and> truthy issuer_name
             then query (find_by_serial serial_number issuer_name) else ret None) (\<lambda>by_serial.
        case by_serial of
          Some w \<Rightarrow>
            observe cc now r domain crt_sh_id (case c_sans (rval w) of d # _ \<Rightarrow> d | [] \<Rightarrow> domain)
              (rid w) (rval w) False
        | None \<Rightarrow>
            (case sn_crtsh_pem net crt_sh_id of
               None \<Rightarrow>
                 bnd (modify (\<lambda>s. s\<lparr>sc_skipped := sc_skipped s + 1\<rparr>)) (\<lambda>_.
                 log_line (''SKIP crt.sh id='' @ str_int crt_sh_id @ '': could not fetch certificate''))
             | Some pem \<Rightarrow>
                 bnd (lift_exn (parse_certificate (cx_x5 cx) pem)) (\<lambda>m.
                 let fp = m_fingerprint_sha256 m; matched = (case m_sans m of d # _ \<Rightarrow> d | [] \<Rightarrow> domain) in
                 if fp \<in> set ignored then
                   log_line (''SKIP ignored cert (crt.sh id='' @ str_int crt_sh_id @ '', '' @ fp @ '')'')
                 else
                   bnd (query (find_by_fingerprint fp)) (\<lambda>found.
                   case found of
                     Some w \<Rightarrow> observe cc now r domain crt_sh_id matched (rid w) (rval w) False
                   | None \<Rightarrow>
                       bnd (add_discovered cx net now m pem domain ''ct-log'') (\<lambda>i.
                       bnd (log_line (''FOUND new cert via CT for '' @ domain @ '' ('' @ fp @ '')'')) (\<lambda>_.
                       observe cc now r domain crt_sh_id matched i
                         (discovered_row (cx_cfg cx) now m domain ''ct-log'') True)))))))"

definition ct_entry_step ::
    "ctx \<Rightarrow> scan_net \<Rightarrow> ct_config \<Rightarrow> datetime \<Rightarrow> int \<Rightarrow> string list \<Rightarrow> int list \<Rightarrow> string \<Rightarrow> ct_entry \<Rightarrow> unit sop" where
  "ct_entry_step cx net cc now r ignored known domain e =
     (case ce_id e of
        None \<Rightarrow> ret ()
      | Some n \<Rightarrow>
          bnd (modify (\<lambda>s. s\<lparr>sc_found := sc_found s + 1\<rparr>)) (\<lambda>_.
          catch_op (record_ct_observation cx net cc now r ignored known domain n
                      (ce_serial_number e) (ce_issuer_name e)) (\<lambda>x.
            bnd (modify (\<lambda>s. s\<lparr>sc_skipped := sc_skipped s + 1\<rparr>)) (\<lambda>_.
            log_line (''ERR '' @ domain @ '' crt.sh id='' @ str_int n @ '': '' @ exc_msg x)))))"

definition ct_domain_step ::
    "ctx \<Rightarrow> scan_net \<Rightarrow> ct_config \<Rightarrow> datetime \<Rightarrow> int \<Rightarrow> int \<Rightarrow> string list \<Rightarrow> int list \<Rightarrow> string \<Rightarrow> unit sop" where
  "ct_domain_step cx net cc now r max_certs ignored known domain =
     (case fetch_crtsh_entries (sn_crtsh net) domain max_certs of
        None \<Rightarrow>
          bnd (modify (\<lambda>s. s\<lparr>sc_skipped := sc_skipped s + 1\<rparr>)) (\<lambda>_.
          log_line (''SKIP '' @ domain @ '': crt.sh query failed (see server logs for details)''))
      | Some es \<Rightarrow> for_each es (ct_entry_step cx net cc now r ignored known domain))"

definition ct_monitor_body ::
    "ctx \<Rightarrow> scan_net \<Rightarrow> ct_config \<Rightarrow> datetime \<Rightarrow> int \<Rightarrow> int \<Rightarrow> int option \<Rightarrow> unit sop" where
  "ct_monitor_body cx net cc now r max_certs created_by =
     bnd (query ignored_fingerprints) (\<lambda>ignored.
     bnd (query (\<lambda>d. map (\<lambda>w. co_crt_sh_id (rval w)) (rows (ct_observations d)))) (\<lambda>known.
     bnd (for_each (cc_domains cc) (ct_domain_step cx net cc now r max_certs ignored known)) (\<lambda>_.
     finish_scan cx now r JobType.CT_MONITOR ''discovery.ct_monitor''
       (Some '' CT entries found, all already known and unchanged.'') created_by)))"

definition ct_config_of ::
    "crypto \<Rightarrow> string list \<Rightarrow> string list option \<Rightarrow> string list option \<Rightarrow> string list option \<Rightarrow> db \<Rightarrow> ct_config" where
  "ct_config_of k domains expected sensitive staging d = \<lparr>
     cc_domains = domains,
     cc_expected = (case expected of Some x \<Rightarrow> x
       | None \<Rightarrow> split_list (tls_scan_setting k ''ct_monitoring.expected_issuers'' [] d)),
     cc_sensitive = (case sensitive of Some x \<Rightarrow> x
       | None \<Rightarrow> split_list (tls_scan_setting k ''ct_monitoring.sensitive_keywords''
           ''admin,vpn,sso,login,auth,portal,mail,owa,gateway,remote,internal,secure'' d)),
     cc_staging = (case staging of Some x \<Rightarrow> x
       | None \<Rightarrow> split_list (tls_scan_setting k ''ct_monitoring.staging_keywords''
           ''dev,test,qa,uat,stage,staging,sandbox,preprod,demo,lab'' d))\<rparr>"

definition run_ct_monitor ::
    "ctx \<Rightarrow> scan_net \<Rightarrow> datetime \<Rightarrow> string list \<Rightarrow> string list option \<Rightarrow> string list option \<Rightarrow> string list option
      \<Rightarrow> int option \<Rightarrow> int option \<Rightarrow> int wop" where
  "run_ct_monitor cx net now domains expected sensitive staging max_certs created_by =
     bnd (db_get (ct_config_of (cx_kc cx) domains expected sensitive staging)) (\<lambda>cc.
     bnd (db_get (\<lambda>d. tls_scan_setting (cx_kc cx) ''ct_monitoring.max_certs_per_domain'' ''200'' d)) (\<lambda>raw.
     bnd (if id_truthy max_certs then ret (or_default max_certs 0) else lift_exn (py_int raw)) (\<lambda>n.
     bnd (add_run now ((new_run now created_by)\<lparr>dr_scan_type := ''ct_log'',
            dr_scan_domains := Some domains\<rparr>)) (\<lambda>r.
     bnd (tracked_run now r (ct_monitor_body cx net cc now r n created_by)) (\<lambda>_.
     ret r)))))"

end
