(* ===== verification/Discovery_Proofs.thy ===== *)
theory Discovery_Proofs
  imports Discovery
begin

text \<open>
  What a scan guarantees.  The locale \<open>scan_invariant\<close> lists the elementary changes a scan makes
  to its state; an invariant that survives them survives the steps of both scans, which is
  proved once.  It is interpreted on four invariants: nothing is committed before the end, an
  ignored fingerprint stays away, a conflict among the observations never goes away, and an
  observation once recorded stays recorded.
\<close>

section \<open>Elementary operations\<close>

lemma in_world_simp [op_simps]: "in_world m s = (fst (m (sc_world s)), s\<lparr>sc_world := snd (m (sc_world s))\<rparr>)"
  by (simp add: in_world_def split: prod.splits)

lemma keeps_in_world: "(\<And>s. I s \<Longrightarrow> I (s\<lparr>sc_world := snd (m (sc_world s))\<rparr>)) \<Longrightarrow> keeps I (in_world m)"
  by (simp add: keeps_def in_world_simp)

lemma usable_simp [op_simps]:
  "usable s = (if sc_broken s then Inl (Exn PendingRollbackError
     ''transaction has been rolled back due to a previous exception during flush'' None) else Inr (), s)"
  by (simp add: usable_def op_simps)

lemma bnd_usable [simp]:
  "bnd usable f s = (if sc_broken s then (Inl (Exn PendingRollbackError
     ''transaction has been rolled back due to a previous exception during flush'' None), s) else f () s)"
  by (simp add: bnd_def op_simps)

lemma query_simp [op_simps]:
  "query f s = (if sc_broken s then Inl (Exn PendingRollbackError
     ''transaction has been rolled back due to a previous exception during flush'' None)
     else Inr (f (work (sc_world s))), s)"
  by (simp add: query_def op_simps)

lemma keeps_query [keeps_rules]: "keeps I (query f)"
  by (simp add: keeps_def op_simps)

definition flushed :: "datetime \<Rightarrow> scan \<Rightarrow> scan" where
  "flushed now s = s\<lparr>
     sc_world := (sc_world s)\<lparr>work := (work (sc_world s))\<lparr>
       certificate_domains := add_all now (sc_domains s) (certificate_domains (work (sc_world s))),
       network_sightings := add_all now (sc_sightings s) (network_sightings (work (sc_world s))),
       ct_observations := add_all now (sc_observations s) (ct_observations (work (sc_world s))),
       ct_findings := add_all now (sc_findings s) (ct_findings (work (sc_world s)))\<rparr>\<rparr>,
     sc_domains := [], sc_sightings := [], sc_observations := [], sc_findings := []\<rparr>"

lemma flush_simp [op_simps]:
  "flush now s =
     (if sc_broken s then (Inl (Exn PendingRollbackError
        ''transaction has been rolled back due to a previous exception during flush'' None), s)
      else if pending_conflict s
      then (Inl (Exn IntegrityError ''UNIQUE constraint failed'' None), s\<lparr>sc_broken := True\<rparr>)
      else (Inr (), flushed now s))"
  by (simp add: flush_def op_simps flushed_def)

lemma rows_add_all:
  "\<exists>ws. rows (add_all now rs t) = rows t @ ws \<and> map rval ws = rs"
proof (induction rs arbitrary: t)
  case (Cons r rs)
  from Cons [of "snd (tbl_add now r t)"] show ?case by (auto simp: add_all_def rows_add)
qed (simp add: add_all_def)

section \<open>Invariants of a scan\<close>

locale scan_invariant =
  fixes I :: "scan \<Rightarrow> bool" and ok :: "certificate \<Rightarrow> bool"
  assumes counters: "I s \<Longrightarrow> I (sc_found_update f s)" "I s \<Longrightarrow> I (sc_imported_update f s)"
      "I s \<Longrightarrow> I (sc_skipped_update f s)" "I s \<Longrightarrow> I (sc_logs_update g s)"
    and pending: "I s \<Longrightarrow> I (sc_sightings_update h s)" "I s \<Longrightarrow> I (sc_findings_update k s)"
      "I s \<Longrightarrow> I (s\<lparr>sc_observations := sc_observations s @ [x]\<rparr>)" "I s \<Longrightarrow> I (s\<lparr>sc_domains := sc_domains s @ ds\<rparr>)"
    and flushes: "keeps I (flush now)"
    and rows_changed: "I s \<Longrightarrow> I (s\<lparr>sc_world := (sc_world s)\<lparr>work := network_sightings_update f1 (work (sc_world s))\<rparr>\<rparr>)"
      "I s \<Longrightarrow> I (s\<lparr>sc_world := (sc_world s)\<lparr>work := ct_findings_update f2 (work (sc_world s))\<rparr>\<rparr>)"
      "I s \<Longrightarrow> I (s\<lparr>sc_world := (sc_world s)\<lparr>files := fs\<rparr>\<rparr>)"
    and observation_seen: "(\<And>x. co_crt_sh_id (g1 x) = co_crt_sh_id x) \<Longrightarrow> I s \<Longrightarrow>
      I (s\<lparr>sc_world := (sc_world s)\<lparr>work := ct_observations_update (tbl_upd now i g1) (work (sc_world s))\<rparr>\<rparr>)"
    and status_set: "I s \<Longrightarrow> I (s\<lparr>sc_world := (sc_world s)\<lparr>work :=
        certificates_update (tbl_upd now i (\<lambda>c. c\<lparr>c_status := st c\<rparr>)) (work (sc_world s))\<rparr>\<rparr>)"
    and cert_added: "ok c \<Longrightarrow> I s \<Longrightarrow>
      I (s\<lparr>sc_world := (sc_world s)\<lparr>work := certificates_update (\<lambda>t. snd (tbl_add now c t)) (work (sc_world s))\<rparr>\<rparr>)"
begin

lemma keeps_counters:
  "keeps I (modify (\<lambda>s. s\<lparr>sc_found := sc_found s + 1\<rparr>))" "keeps I (modify (\<lambda>s. s\<lparr>sc_imported := sc_imported s + 1\<rparr>))"
  "keeps I (modify (\<lambda>s. s\<lparr>sc_skipped := sc_skipped s + 1\<rparr>))" "keeps I (log_line l)"
  unfolding log_line_def by (auto intro!: keeps_modify counters)

lemma keeps_domains: "keeps I (modify (\<lambda>s. s\<lparr>sc_domains := sc_domains s @ ds\<rparr>))"
  by (rule keeps_modify) (rule pending)

lemma keeps_add_discovered:
  assumes "ok (discovered_row (cx_cfg cx) now m fb pv)"
  shows "keeps I (add_discovered cx net now m raw fb pv)"
proof -
  have "keeps I (in_world (add_cert now (discovered_row (cx_cfg cx) now m fb pv)))"
    by (rule keeps_in_world) (use assms cert_added in \<open>simp add: add_cert_def op_simps\<close>)
  moreover have "keeps I (in_world (fs_write p x))" for p x
    by (rule keeps_in_world) (use rows_changed(3) in \<open>simp add: fs_write_def op_simps\<close>)
  ultimately show ?thesis
    unfolding add_discovered_def Let_def by (intro keeps_rules keeps_counters keeps_domains flushes)
qed

lemma keeps_note_sighting: "keeps I (note_sighting cx now r host port i)"
proof -
  have "keeps I (in_world (db_mod (network_sightings_update f)))" for f
    by (rule keeps_in_world) (use rows_changed(1) in \<open>simp add: op_simps\<close>)
  moreover have "keeps I (in_world (when_op b (upd_cert now i (\<lambda>c. c\<lparr>c_status := st c\<rparr>))))" for b st
    by (rule keeps_in_world) (use status_set in \<open>auto simp: when_op_def upd_cert_def op_simps\<close>)
  moreover have "keeps I (modify (sc_sightings_update f))" for f
    by (rule keeps_modify) (rule pending)
  moreover have "keeps I (modify (\<lambda>s. s\<lparr>sc_sightings := sc_sightings s @ [x]\<rparr>))" for x
    by (rule keeps_modify) (rule pending)
  ultimately show ?thesis
    unfolding note_sighting_def by (intro keeps_rules keeps_counters) auto
qed

lemma keeps_sighting_step:
  assumes "\<And>m fb pv. m_fingerprint_sha256 m \<notin> set ignored \<Longrightarrow> ok (discovered_row (cx_cfg cx) now m fb pv)"
  shows "keeps I (sighting_step cx net now r ignored x)"
  unfolding sighting_step_def record_sighting_def Let_def
  by (intro keeps_rules keeps_counters keeps_note_sighting keeps_add_discovered assms)

lemma keeps_record_finding: "keeps I (record_finding cc now r i nm mt ds)"
proof -
  have "keeps I (in_world (db_mod (ct_findings_update f)))" for f
    by (rule keeps_in_world) (use rows_changed(2) in \<open>simp add: op_simps\<close>)
  moreover have "keeps I (modify (\<lambda>s. s\<lparr>sc_findings := sc_findings s @ [x]\<rparr>))" for x
    by (rule keeps_modify) (rule pending)
  ultimately show ?thesis
    unfolding record_finding_def Let_def by (intro keeps_rules keeps_counters)
qed

lemma keeps_observe: "keeps I (observe cc now r domain n nm i c new)"
proof -
  have "keeps I (modify (\<lambda>s. s\<lparr>sc_observations := sc_observations s @ [x]\<rparr>))" for x
    by (rule keeps_modify) (rule pending)
  then show ?thesis
    unfolding observe_def Let_def by (intro keeps_rules keeps_record_finding)
qed

text \<open>What holds once the observation waits for a flush holds after the step.\<close>

lemma after_observe:
  assumes "I (s\<lparr>sc_observations := sc_observations s @ [\<lparr>co_certificate_id = i, co_crt_sh_id = n,
      co_matched_domain = dm, co_first_seen_at = now, co_last_seen_at = now, co_ct_monitor_run_id = Some r\<rparr>]\<rparr>)"
  shows "I (snd (observe cc now r dm n nm i c new s))"
  using assms keeps_record_finding by (simp add: observe_def Let_def op_simps keeps_def)

lemma keeps_ct_entry_step:
  assumes "\<And>m fb pv. m_fingerprint_sha256 m \<notin> set ignored \<Longrightarrow> ok (discovered_row (cx_cfg cx) now m fb pv)"
  shows "keeps I (ct_entry_step cx net cc now r ignored known domain e)"
proof -
  have "keeps I (in_world (db_mod (ct_observations_update (tbl_upd now i
      (\<lambda>x. x\<lparr>co_last_seen_at := now, co_ct_monitor_run_id := Some r\<rparr>)))))" for i
    by (rule keeps_in_world) (use observation_seen in \<open>simp add: op_simps\<close>)
  then show ?thesis
    unfolding ct_entry_step_def record_ct_observation_def Let_def
    by (intro keeps_rules keeps_counters keeps_observe keeps_add_discovered assms)
qed

lemma keeps_ct_domain_step:
  assumes "\<And>m fb pv. m_fingerprint_sha256 m \<notin> set ignored \<Longrightarrow> ok (discovered_row (cx_cfg cx) now m fb pv)"
  shows "keeps I (ct_domain_step cx net cc now r mx ignored known domain)"
  unfolding ct_domain_step_def
  by (intro keeps_rules keeps_counters keeps_ct_entry_step assms)

end

section \<open>The steps never raise\<close>

lemma returns_log [returns_rules]: "returns (log_line l)"
  unfolding log_line_def by (rule returns_rules)

lemma returns_sighting_step: "returns (sighting_step cx net now r ignored x)"
  by (cases x) (auto simp: sighting_step_def intro!: returns_rules)

lemma returns_ct_entry_step: "returns (ct_entry_step cx net cc now r ignored known domain e)"
  unfolding ct_entry_step_def by (intro returns_rules)

lemma returns_ct_domain_step: "returns (ct_domain_step cx net cc now r mx ignored known domain)"
  unfolding ct_domain_step_def by (intro returns_rules returns_ct_entry_step)

section \<open>Four invariants\<close>

definition quiet :: "db \<Rightarrow> scan \<Rightarrow> bool" where
  "quiet d s \<longleftrightarrow> committed (sc_world s) = d \<and> discovery_runs (work (sc_world s)) = discovery_runs d"

definition away :: "string \<Rightarrow> scan \<Rightarrow> bool" where
  "away fp s \<longleftrightarrow> find_by_fingerprint fp (work (sc_world s)) = None"

definition doomed :: "scan \<Rightarrow> bool" where
  "doomed s \<longleftrightarrow> sc_broken s \<or> pending_conflict s"

definition obs_ids :: "ct_observation table \<Rightarrow> int set" where
  "obs_ids t = set (map (\<lambda>w. co_crt_sh_id (rval w)) (rows t))"

definition recorded :: "int \<Rightarrow> scan \<Rightarrow> bool" where
  "recorded n s \<longleftrightarrow> n \<in> co_crt_sh_id ` set (sc_observations s) \<or>
     n \<in> obs_ids (ct_observations (work (sc_world s)))"

lemma find_by_fingerprint_add:
  "find_by_fingerprint fp (certificates_update (\<lambda>t. snd (tbl_add now c t)) d) = None \<longleftrightarrow>
     find_by_fingerprint fp d = None \<and> c_fingerprint_sha256 c \<noteq> Some fp"
  by (auto simp: find_by_fingerprint_def tbl_first_None rows_add)

lemma find_by_fingerprint_status:
  "find_by_fingerprint fp (certificates_update (tbl_upd now i (\<lambda>c. c\<lparr>c_status := st c\<rparr>)) d) = None \<longleftrightarrow>
     find_by_fingerprint fp d = None"
  unfolding find_by_fingerprint_def tbl_upd_def by (simp add: tbl_first_upd_where)

lemma find_by_fingerprint_other [simp]:
  "find_by_fingerprint fp (network_sightings_update f1 d) = find_by_fingerprint fp d"
  "find_by_fingerprint fp (ct_observations_update f2 d) = find_by_fingerprint fp d"
  "find_by_fingerprint fp (ct_findings_update f3 d) = find_by_fingerprint fp d"
  "find_by_fingerprint fp (certificate_domains_update f4 d) = find_by_fingerprint fp d"
  by (simp_all add: find_by_fingerprint_def)

interpretation quiet: scan_invariant "quiet d" "\<lambda>_. True"
  by unfold_locales (auto simp: quiet_def keeps_def op_simps flushed_def)

interpretation away: scan_invariant "away fp" "\<lambda>c. c_fingerprint_sha256 c \<noteq> Some fp"
  by unfold_locales (auto simp: away_def keeps_def op_simps flushed_def find_by_fingerprint_add find_by_fingerprint_status)

lemma obs_ids_upd:
  assumes "\<And>x. co_crt_sh_id (g x) = co_crt_sh_id x"
  shows "obs_ids (tbl_upd now i g t) = obs_ids t"
proof -
  have "map (\<lambda>w. co_crt_sh_id (rval w)) (rows (tbl_upd now i g t)) = map (\<lambda>w. co_crt_sh_id (rval w)) (rows t)"
    using assms by (simp add: tbl_upd_def rows_upd_where)
  then show ?thesis by (simp only: obs_ids_def)
qed

lemma obs_ids_add_all: "obs_ids (add_all now rs t) = obs_ids t \<union> co_crt_sh_id ` set rs"
proof -
  obtain ws where "rows (add_all now rs t) = rows t @ ws" "map rval ws = rs"
    using rows_add_all by blast
  then show ?thesis by (auto simp: obs_ids_def)
qed

lemma conflict_iff:
  "observation_conflict os d \<longleftrightarrow> \<not> distinct (map co_crt_sh_id os) \<or>
     co_crt_sh_id ` set os \<inter> obs_ids (ct_observations d) \<noteq> {}"
  by (fastforce simp: observation_conflict_def list_ex_iff tbl_first_None obs_ids_def)

lemma domain_conflict_append: "domain_conflict ds \<Longrightarrow> domain_conflict (ds @ es)"
  by (simp add: domain_conflict_def)

lemmas pending_iff = pending_conflict_def conflict_iff

interpretation doomed: scan_invariant doomed "\<lambda>_. True"
proof
  fix g1 :: "ct_observation \<Rightarrow> ct_observation" and s now i
  assume g: "\<And>x. co_crt_sh_id (g1 x) = co_crt_sh_id x" and s: "doomed s"
  show "doomed (s\<lparr>sc_world := (sc_world s)\<lparr>work := ct_observations_update (tbl_upd now i g1) (work (sc_world s))\<rparr>\<rparr>)"
    using s by (simp add: doomed_def pending_iff obs_ids_upd [OF g])
qed (auto simp: doomed_def keeps_def op_simps pending_iff domain_conflict_append)

interpretation recorded: scan_invariant "recorded n" "\<lambda>_. True"
proof
  fix g1 :: "ct_observation \<Rightarrow> ct_observation" and s now i
  assume g: "\<And>x. co_crt_sh_id (g1 x) = co_crt_sh_id x" and s: "recorded n s"
  show "recorded n (s\<lparr>sc_world := (sc_world s)\<lparr>work := ct_observations_update (tbl_upd now i g1) (work (sc_world s))\<rparr>\<rparr>)"
    using s by (simp add: recorded_def obs_ids_upd [OF g])
qed (auto simp: recorded_def keeps_def op_simps flushed_def obs_ids_add_all)

section \<open>The end of a scan\<close>

lemma not_doomed_flushed [simp]: "sc_broken (flushed now s) = sc_broken s" "sc_observations (flushed now s) = []"
  "sc_domains (flushed now s) = []"
  "committed (sc_world (flushed now s)) = committed (sc_world s)"
  "discovery_runs (work (sc_world (flushed now s))) = discovery_runs (work (sc_world s))"
  "certificates (work (sc_world (flushed now s))) = certificates (work (sc_world s))"
  by (simp_all add: flushed_def)

lemma no_conflict_nil [simp]: "\<not> observation_conflict [] d" "\<not> domain_conflict []"
  by (simp_all add: observation_conflict_def domain_conflict_def)

text \<open>What the end does to a state that is not doomed.\<close>

lemma finish_scan_result:
  assumes q: "quiet d s" and r: "tbl_get r (discovery_runs d) = Some x"
  shows "wp (finish_scan cx now r ty action known cb)
    (\<lambda>_ s'. \<not> doomed s \<and> committed (sc_world s') = work (sc_world s') \<and>
       certificates (committed (sc_world s')) = certificates (work (sc_world s)) \<and>
       (\<exists>x'. tbl_get r (discovery_runs (committed (sc_world s'))) = Some x' \<and>
          dr_status x' = ''completed'' \<and> dr_finished_at x' = Some now))
    (\<lambda>_ s'. doomed s \<and> committed (sc_world s') = d) s"
proof -
  let ?s = "s\<lparr>sc_world := snd (upd_run now r (\<lambda>x. x\<lparr>dr_found_count := sc_found s,
      dr_imported_count := sc_imported s, dr_skipped_count := sc_skipped s, dr_status := ''completed'',
      dr_finished_at := Some now, dr_log := Some (run_log known s)\<rparr>) (sc_world s))\<rparr>"
  have d: "doomed ?s \<longleftrightarrow> doomed s" by (simp add: doomed_def upd_run_def op_simps pending_iff)
  have "sc_broken s \<or> pending_conflict ?s \<longleftrightarrow> doomed s"
    using d by (simp add: doomed_def)
  then show ?thesis
    using q r
    by (auto simp: wp_def finish_scan_def bnd_def op_simps commit_scan_def upd_run_def add_job_def record_audit_def
        quiet_def pending_iff doomed_def flushed_def split: if_splits)
qed

lemma finish_scan_doomed:
  assumes "quiet d s" "tbl_get r (discovery_runs d) = Some x" "doomed s"
  shows "\<exists>e s'. finish_scan cx now r ty action known cb s = (Inl e, s') \<and> committed (sc_world s') = d"
proof (cases "finish_scan cx now r ty action known cb s")
  case (Pair res s')
  with finish_scan_result [OF assms(1,2), of cx now ty action known cb] assms(3) show ?thesis
    by (cases res) (auto simp: wp_def)
qed

lemma tracked_run_ok:
  assumes "body (start_scan_state w) = (Inr y, s)"
  shows "tracked_run now r body w = (Inr (), sc_world s)"
  using assms by (simp add: tracked_run_def)

lemma tracked_run_failed:
  assumes "body (start_scan_state w) = (Inl e, s)" "committed (sc_world s) = d" "tbl_get r (discovery_runs d) = Some x"
  shows "\<exists>w' x'. tracked_run now r body w = (Inr (), w') \<and> committed w' = work w' \<and>
    tbl_get r (discovery_runs (committed w')) = Some x' \<and> dr_status x' = ''failed'' \<and> dr_finished_at x' = Some now \<and>
    committed w' = d\<lparr>discovery_runs := discovery_runs (committed w')\<rparr>"
  using assms by (simp add: tracked_run_def upd_run_def bnd_def op_simps)

text \<open>A loop of steps followed by the end: \<open>J\<close> is any invariant of the loop.\<close>

lemma loop_then_finish:
  assumes l: "returns loop" "keeps (quiet d) loop" "keeps J loop"
    and s: "quiet d s" "J s" and r: "tbl_get r (discovery_runs d) = Some x"
  shows "wp (bnd loop (\<lambda>_. finish_scan cx now r ty action known cb))
    (\<lambda>_ s'. \<exists>s1. J s1 \<and> \<not> doomed s1 \<and> committed (sc_world s') = work (sc_world s') \<and>
       certificates (committed (sc_world s')) = certificates (work (sc_world s1)) \<and>
       (\<exists>x'. tbl_get r (discovery_runs (committed (sc_world s'))) = Some x' \<and>
          dr_status x' = ''completed'' \<and> dr_finished_at x' = Some now))
    (\<lambda>_ s'. \<exists>s1. J s1 \<and> doomed s1 \<and> committed (sc_world s') = d) s"
proof -
  obtain y s1 where s1: "loop s = (Inr y, s1)" using l(1) unfolding returns_def by blast
  with keepsD [OF l(2) s(1)] keepsD [OF l(3) s(2)] have "quiet d s1" "J s1" by simp_all
  from finish_scan_result [OF this(1) r, of cx now ty action known cb] this(2) show ?thesis
    by (auto simp: bnd_simps(2) [where m = loop, OF s1] wp_def split: prod.splits sum.splits)
qed

text \<open>A run that has been added and committed.\<close>

lemma add_run_result:
  assumes "wf_table (discovery_runs (work w))"
  shows "\<exists>w1. add_run now x w = (Inr (next_id (discovery_runs (work w))), w1) \<and> committed w1 = work w1 \<and>
    work w1 = discovery_runs_update (\<lambda>t. snd (tbl_add now x t)) (work w) \<and>
    tbl_get (next_id (discovery_runs (work w))) (discovery_runs (work w1)) = Some x"
  using tbl.get_add_same [OF assms, of now x] by (simp add: add_run_def op_simps tbl_add_def)

lemma start_facts [simp]:
  "sc_world (start_scan_state w) = w" "sc_broken (start_scan_state w) = False"
  "sc_observations (start_scan_state w) = []" "sc_domains (start_scan_state w) = []"
  by (simp_all add: start_scan_state_def)

lemma quiet_start: "committed w = work w \<Longrightarrow> quiet (work w) (start_scan_state w)"
  by (simp add: quiet_def)

text \<open>The outcome of a tracked body that ends like \<open>loop_then_finish\<close>.\<close>

definition scan_ends :: "datetime \<Rightarrow> int \<Rightarrow> (scan \<Rightarrow> bool) \<Rightarrow> db \<Rightarrow> unit sop \<Rightarrow> world \<Rightarrow> bool" where
  "scan_ends now r J d body w \<longleftrightarrow> wp body
    (\<lambda>_ s'. \<exists>s1. J s1 \<and> \<not> doomed s1 \<and> committed (sc_world s') = work (sc_world s') \<and>
       certificates (committed (sc_world s')) = certificates (work (sc_world s1)) \<and>
       (\<exists>x'. tbl_get r (discovery_runs (committed (sc_world s'))) = Some x' \<and>
          dr_status x' = ''completed'' \<and> dr_finished_at x' = Some now))
    (\<lambda>_ s'. \<exists>s1. J s1 \<and> doomed s1 \<and> committed (sc_world s') = d) (start_scan_state w)"

lemma tracked_run_outcome:
  assumes e: "scan_ends now r J (work w) body w" and r: "tbl_get r (discovery_runs (work w)) = Some x"
  shows "\<exists>w' x'. tracked_run now r body w = (Inr (), w') \<and> committed w' = work w' \<and>
    tbl_get r (discovery_runs (committed w')) = Some x' \<and> dr_finished_at x' = Some now \<and>
    (dr_status x' = ''completed'' \<and> (\<exists>s1. J s1 \<and> \<not> doomed s1 \<and> certificates (committed w') = certificates (work (sc_world s1))) \<or>
     dr_status x' = ''failed'' \<and> (\<exists>s1. J s1 \<and> doomed s1) \<and>
       committed w' = (work w)\<lparr>discovery_runs := discovery_runs (committed w')\<rparr>)"
proof (cases "body (start_scan_state w)")
  case (Pair res s)
  show ?thesis
  proof (cases res)
    case (Inl e')
    with Pair e have d: "committed (sc_world s) = work w" "\<exists>s1. J s1 \<and> doomed s1" by (auto simp: scan_ends_def wp_def)
    from tracked_run_failed [where body = body, OF Pair [unfolded Inl] d(1) r, of now] show ?thesis using d(2) by auto
  next
    case (Inr y)
    with Pair e tracked_run_ok [where body = body, OF Pair [unfolded Inr]] show ?thesis by (auto simp: scan_ends_def wp_def)
  qed
qed

lemma network_scan_ends:
  assumes w: "committed w = work w" "tbl_get r (discovery_runs (work w)) = Some x"
    and J: "J (start_scan_state w)"
      "\<And>y. keeps J (sighting_step cx net now r (ignored_fingerprints (work w)) y)"
  shows "scan_ends now r J (work w) (network_scan_body cx net now r hosts ports cb) w"
proof -
  let ?loop = "for_each (scan_targets net hosts ports) (sighting_step cx net now r (ignored_fingerprints (work w)))"
  have "network_scan_body cx net now r hosts ports cb (start_scan_state w) =
      bnd ?loop (\<lambda>_. finish_scan cx now r JobType.NETWORK_SCAN ''discovery.network_scan''
        (Some '' certificate(s) found, all already known and unchanged.'') cb) (start_scan_state w)"
    by (simp add: network_scan_body_def bnd_def [of "query _"] op_simps)
  moreover have "returns ?loop" "keeps (quiet (work w)) ?loop" "keeps J ?loop"
    by (auto intro!: returns_rules returns_sighting_step keeps_rules quiet.keeps_sighting_step J)
  note loop_then_finish [OF this quiet_start [OF w(1)] J(1) w(2)]
  ultimately show ?thesis by (simp add: scan_ends_def wp_def)
qed

lemma ct_monitor_ends:
  assumes w: "committed w = work w" "tbl_get r (discovery_runs (work w)) = Some x"
    and J: "J (start_scan_state w)"
      "\<And>dm. dm \<in> set (cc_domains cc) \<Longrightarrow> keeps J (ct_domain_step cx net cc now r mx (ignored_fingerprints (work w))
         (map (\<lambda>w. co_crt_sh_id (rval w)) (rows (ct_observations (work w)))) dm)"
  shows "scan_ends now r J (work w) (ct_monitor_body cx net cc now r mx cb) w"
proof -
  let ?loop = "for_each (cc_domains cc) (ct_domain_step cx net cc now r mx (ignored_fingerprints (work w))
         (map (\<lambda>w. co_crt_sh_id (rval w)) (rows (ct_observations (work w)))))"
  have "ct_monitor_body cx net cc now r mx cb (start_scan_state w) =
      bnd ?loop (\<lambda>_. finish_scan cx now r JobType.CT_MONITOR ''discovery.ct_monitor''
        (Some '' CT entries found, all already known and unchanged.'') cb) (start_scan_state w)"
    by (simp add: ct_monitor_body_def bnd_def [of "query _"] op_simps)
  moreover have "returns ?loop" "keeps (quiet (work w)) ?loop" "keeps J ?loop"
    by (auto intro!: returns_rules returns_ct_domain_step keeps_rules quiet.keeps_ct_domain_step J)
  note loop_then_finish [OF this quiet_start [OF w(1)] J(1) w(2)]
  ultimately show ?thesis by (simp add: scan_ends_def wp_def)
qed

section \<open>Outcome of the scans\<close>

lemma ct_run_split:
  assumes "run_ct_monitor cx net now domains ex se st mx cb w = (Inr r, w')"
  shows "\<exists>x w1 n. add_run now x w = (Inr r, w1) \<and>
    tracked_run now r (ct_monitor_body cx net (ct_config_of (cx_kc cx) domains ex se st (work w)) now r n cb) w1 = (Inr (), w')"
  using assms by (auto simp: run_ct_monitor_def bnd_Inr op_simps split: if_splits)

lemma network_run_split:
  assumes "run_network_scan cx net fl now targets ports conc tmo cb w = (Inr r, w')"
  shows "\<exists>x w1 hosts ps. add_run now x w = (Inr r, w1) \<and>
    tracked_run now r (network_scan_body cx net now r hosts ps cb) w1 = (Inr (), w')"
  using assms by (auto simp: run_network_scan_def bnd_Inr op_simps split: if_splits)

text \<open>The run of either scan, with an invariant of its steps.\<close>

definition scan_run ::
    "ctx \<Rightarrow> scan_net \<Rightarrow> datetime \<Rightarrow> int \<Rightarrow> world \<Rightarrow> world \<Rightarrow> bool" where
  "scan_run cx net now r w w' \<longleftrightarrow>
     (\<exists>domains ex se st mx cb. run_ct_monitor cx net now domains ex se st mx cb w = (Inr r, w')) \<or>
     (\<exists>fl targets ports conc tmo cb. run_network_scan cx net fl now targets ports conc tmo cb w = (Inr r, w'))"

lemma scan_run_outcome:
  assumes run: "scan_run cx net now r w w'" and wf: "wf_table (discovery_runs (work w))"
    and J: "\<And>w1. certificates (work w1) = certificates (work w) \<Longrightarrow> J (start_scan_state w1)"
      "\<And>y. keeps J (sighting_step cx net now r (ignored_fingerprints (work w)) y)"
      "\<And>cc mx known dm. keeps J (ct_domain_step cx net cc now r mx (ignored_fingerprints (work w)) known dm)"
  shows "\<exists>x'. committed w' = work w' \<and>
    tbl_get r (discovery_runs (committed w')) = Some x' \<and> dr_finished_at x' = Some now \<and>
    (dr_status x' = ''completed'' \<and> (\<exists>s1. J s1 \<and> certificates (committed w') = certificates (work (sc_world s1))) \<or>
     dr_status x' = ''failed'' \<and> committed w' = (work w)\<lparr>discovery_runs := discovery_runs (committed w')\<rparr>)"
proof -
  obtain x w1 body where t: "add_run now x w = (Inr r, w1)" "tracked_run now r body w1 = (Inr (), w')"
    and b: "(\<exists>hosts ps cb. body = network_scan_body cx net now r hosts ps cb) \<or> (\<exists>cc n cb. body = ct_monitor_body cx net cc now r n cb)"
    using run unfolding scan_run_def by (elim disjE exE) (blast dest: ct_run_split network_run_split)+
  from add_run_result [OF wf, of now x] t(1) have w1: "committed w1 = work w1"
    "work w1 = discovery_runs_update (\<lambda>t. snd (tbl_add now x t)) (work w)" "tbl_get r (discovery_runs (work w1)) = Some x"
    by auto
  have i: "ignored_fingerprints (work w1) = ignored_fingerprints (work w)" "certificates (work w1) = certificates (work w)"
    using w1(2) by (simp_all add: ignored_fingerprints_def)
  note J1 = J(1) [OF i(2)]
  have "scan_ends now r J (work w1) body w1"
    using b network_scan_ends [OF w1(1,3), where J = J, OF J1] ct_monitor_ends [OF w1(1,3), where J = J, OF J1] J(2,3) i(1) by auto
  from tracked_run_outcome [OF this w1(3)] t(2) show ?thesis using w1(2) by fastforce
qed

text \<open>C26: A network scan or a transparency-log scan that returns has committed its run as completed
  or failed, with its end time; a failed one has committed nothing else.  (The discovery of files
  is different: each of its imports commits on its own.)\<close>

theorem scan_run_atomic:
  assumes "scan_run cx net now r w w'" and "wf_table (discovery_runs (work w))"
  shows "committed w' = work w' \<and> (\<exists>x. tbl_get r (discovery_runs (committed w')) = Some x \<and> dr_finished_at x = Some now \<and>
    (dr_status x = ''completed'' \<or>
     dr_status x = ''failed'' \<and> committed w' = (work w)\<lparr>discovery_runs := discovery_runs (committed w')\<rparr>))"
  using scan_run_outcome [OF assms, where J = "\<lambda>_. True"] by (auto simp: keeps_def)

text \<open>A certificate whose fingerprint is on the ignore list is not tracked again by either scan.\<close>

lemma scan_run_ignored:
  assumes "scan_run cx net now r w w'" and "wf_table (discovery_runs (work w))"
    and "fp \<in> set (ignored_fingerprints (work w))" and "find_by_fingerprint fp (work w) = None"
  shows "find_by_fingerprint fp (committed w') = None"
proof -
  have ok: "c_fingerprint_sha256 (discovered_row (cx_cfg cx) now m fb pv) \<noteq> Some fp"
    if "m_fingerprint_sha256 m \<notin> set (ignored_fingerprints (work w))" for m fb pv
    using that assms(3) by (auto simp: discovered_row_def Let_def)
  have start: "away fp (start_scan_state w1)" if "certificates (work w1) = certificates (work w)" for w1
    using that assms(4) by (simp add: away_def find_by_fingerprint_def)
  have steps: "keeps (away fp) (sighting_step cx net now r (ignored_fingerprints (work w)) y)"
    "keeps (away fp) (ct_domain_step cx net cc now r mx (ignored_fingerprints (work w)) known dm)" for y cc mx known dm
    by (intro away.keeps_sighting_step away.keeps_ct_domain_step ok; assumption)+
  have "(\<exists>s1. away fp s1 \<and> certificates (committed w') = certificates (work (sc_world s1))) \<or>
     committed w' = (work w)\<lparr>discovery_runs := discovery_runs (committed w')\<rparr>"
    using scan_run_outcome [OF assms(1,2), where J = "away fp", OF start steps] by blast
  then show ?thesis
  proof (elim exE disjE conjE)
    assume "committed w' = (work w)\<lparr>discovery_runs := discovery_runs (committed w')\<rparr>"
    then have "certificates (committed w') = certificates (work w)" by (metis db.select_convs(8) db.simps(8) db.surjective db.update_convs(15))
    with assms(4) show ?thesis by (simp add: find_by_fingerprint_def)
  qed (simp add: away_def find_by_fingerprint_def)
qed

section \<open>Overlapping domains\<close>

text \<open>A tracked certificate stays found by its serial number.\<close>

definition serial_hit :: "ct_entry \<Rightarrow> certificate table \<Rightarrow> bool" where
  "serial_hit e t \<longleftrightarrow> truthy (ce_serial_number e) \<and> truthy (ce_issuer_name e) \<and>
     (case py_int16 (str_or (ce_serial_number e) []) of
        None \<Rightarrow> False
      | Some k \<Rightarrow> tbl_first (\<lambda>w. c_serial_number (rval w) = Some (format_hex k) \<and>
                                c_issuer (rval w) = ce_issuer_name e) t \<noteq> None)"

definition tracked :: "ct_entry \<Rightarrow> scan \<Rightarrow> bool" where
  "tracked e s \<longleftrightarrow> serial_hit e (certificates (work (sc_world s)))"

lemma serial_hit_iff:
  "serial_hit e (certificates d) \<longleftrightarrow> find_by_serial (ce_serial_number e) (ce_issuer_name e) d \<noteq> None"
  by (auto simp: serial_hit_def find_by_serial_def split: option.splits)

lemma tbl_first_add: "tbl_first p t \<noteq> None \<Longrightarrow> tbl_first p (snd (tbl_add now c t)) \<noteq> None"
  by (simp only: tbl_first_None rows_add) auto

lemma serial_hit_add: "serial_hit e t \<Longrightarrow> serial_hit e (snd (tbl_add now c t))"
  by (auto simp: serial_hit_def tbl_first_add simp del: not_None_eq split: option.splits)

lemma serial_hit_status: "serial_hit e (tbl_upd now i (\<lambda>c. c\<lparr>c_status := st c\<rparr>) t) = serial_hit e t"
  by (simp add: serial_hit_def tbl_upd_def tbl_first_upd_where split: option.splits)

interpretation tracked: scan_invariant "tracked e" "\<lambda>_. True"
  by unfold_locales (auto simp: tracked_def keeps_def op_simps serial_hit_add serial_hit_status)

lemma snd_for_each_Cons:
  assumes "returns (f x)"
  shows "snd (for_each (x # xs) f s) = snd (for_each xs f (snd (f x s)))"
proof -
  obtain y t where "f x s = (Inr y, t)" using assms unfolding returns_def by blast
  then show ?thesis by (simp add: bnd_def)
qed

lemma snd_for_each_append:
  assumes "\<And>x. returns (f x)"
  shows "snd (for_each (xs @ ys) f s) = snd (for_each ys f (snd (for_each xs f s)))"
  by (induction xs arbitrary: s) (simp_all add: op_simps snd_for_each_Cons [OF assms] del: for_each.simps(2))

text \<open>A step that establishes \<open>J\<close> from \<open>I\<close>, both invariants of the other steps.\<close>

lemma for_each_reach:
  assumes f: "\<And>x. returns (f x)" "\<And>x. keeps I (f x)" "\<And>x. keeps J (f x)"
    and x: "x \<in> set xs" "\<And>s. I s \<Longrightarrow> J (snd (f x s))" and s: "I s"
  shows "J (snd (for_each xs f s))"
proof -
  from split_list [OF x(1)] obtain us vs where xs: "xs = us @ x # vs" by blast
  have "I (snd (for_each us f s))" by (rule keepsD [where I = I and m = "for_each us f", OF _ s]) (intro keeps_rules f)
  then have J: "J (snd (f x (snd (for_each us f s))))" by (rule x(2))
  have "J (snd (for_each vs f (snd (f x (snd (for_each us f s))))))" by (rule keepsD [where I = J and m = "for_each vs f", OF _ J]) (intro keeps_rules f)
  then show ?thesis by (simp add: xs snd_for_each_append [OF f(1)] snd_for_each_Cons [OF f(1)] del: for_each.simps(2))
qed

context scan_invariant
begin

lemma entry_step_after:
  assumes e: "tracked e s" "ce_id e = Some n" "n \<notin> set known" "\<not> sc_broken s"
    and I: "\<And>i. I (s\<lparr>sc_found := sc_found s + 1, sc_observations := sc_observations s @ [\<lparr>co_certificate_id = i,
      co_crt_sh_id = n, co_matched_domain = dm, co_first_seen_at = now, co_last_seen_at = now,
      co_ct_monitor_run_id = Some r\<rparr>]\<rparr>)"
  shows "I (snd (ct_entry_step cx net cc now r ig known dm e s))"
proof -
  obtain w where w: "find_by_serial (ce_serial_number e) (ce_issuer_name e) (work (sc_world s)) = Some w"
    using e(1) by (auto simp: tracked_def serial_hit_iff)
  then have t: "truthy (ce_serial_number e)" "truthy (ce_issuer_name e)"
    by (auto simp: find_by_serial_def split: if_splits)
  let ?s = "s\<lparr>sc_found := sc_found s + 1\<rparr>"
  let ?o = "observe cc now r dm n (case c_sans (rval w) of d # _ \<Rightarrow> d | [] \<Rightarrow> dm) (rid w) (rval w) False"
  have "record_ct_observation cx net cc now r ig known dm n (ce_serial_number e) (ce_issuer_name e) ?s = ?o ?s"
    using e(3,4) w t by (simp add: record_ct_observation_def bnd_def op_simps)
  moreover have "I (snd (?o ?s))" using I by (intro after_observe) simp
  ultimately show ?thesis
    by (cases "?o ?s", cases "fst (?o ?s)")
      (auto simp: ct_entry_step_def e(2) catch_op_def log_line_def op_simps intro!: counters)
qed

end

text \<open>The first entry with an unknown identifier is recorded, unless the session is broken; the
  second one then makes a conflict.\<close>

definition seen_or_doomed :: "int \<Rightarrow> scan \<Rightarrow> bool" where
  "seen_or_doomed n s \<longleftrightarrow> doomed s \<or> recorded n s"

lemma entry_seen:
  assumes e: "tracked e s" "ce_id e = Some n" "n \<notin> set known"
  shows "seen_or_doomed n (snd (ct_entry_step cx net cc now r ig known dm e s))"
proof (cases "sc_broken s")
  case True
  then have "doomed s" by (simp add: doomed_def)
  then show ?thesis unfolding seen_or_doomed_def by (intro disjI1 keepsD [OF doomed.keeps_ct_entry_step]) auto
next
  case False
  have "recorded n (snd (ct_entry_step cx net cc now r ig known dm e s))"
    by (rule recorded.entry_step_after [OF e False]) (simp add: recorded_def)
  then show ?thesis by (simp add: seen_or_doomed_def)
qed

lemma entry_dooms:
  assumes e: "tracked e s" "ce_id e = Some n" "n \<notin> set known" and s: "seen_or_doomed n s"
  shows "doomed (snd (ct_entry_step cx net cc now r ig known dm e s))"
proof (cases "doomed s")
  case True
  then show ?thesis by (intro keepsD [OF doomed.keeps_ct_entry_step]) auto
next
  case False
  with s have n: "recorded n s" "\<not> sc_broken s" by (auto simp: seen_or_doomed_def doomed_def)
  show ?thesis
    by (rule doomed.entry_step_after [OF e n(2)]) (use n(1) in \<open>auto simp: recorded_def doomed_def pending_iff\<close>)
qed

lemma keeps_seen_or_doomed: "keeps doomed m \<Longrightarrow> keeps (recorded n) m \<Longrightarrow> keeps (seen_or_doomed n) m"
  by (auto simp: keeps_def seen_or_doomed_def)

text \<open>The loop over the domains, two of which report an entry with the same identifier.\<close>

lemma domains_doom:
  fixes cx net cc now r mx ig known
  defines "f \<equiv> ct_domain_step cx net cc now r mx ig known"
  assumes a: "fetch_crtsh_entries (sn_crtsh net) a mx = Some ea" "e1 \<in> set ea" "ce_id e1 = Some n"
    and b: "fetch_crtsh_entries (sn_crtsh net) b mx = Some eb" "e2 \<in> set eb" "ce_id e2 = Some n"
    and n: "n \<notin> set known" and s: "tracked e1 s" "tracked e2 s"
  shows "doomed (snd (for_each (xs @ a # ys @ b # zs) f s))"
proof -
  let ?I = "\<lambda>s. tracked e1 s \<and> tracked e2 s" and ?J = "\<lambda>s. tracked e2 s \<and> seen_or_doomed n s"
  let ?g = "ct_entry_step cx net cc now r ig known"
  have ret: "returns (f x)" "returns (?g x y)" for x y
    unfolding f_def by (rule returns_ct_domain_step returns_ct_entry_step)+
  have keep: "keeps ?I (f x)" "keeps ?J (f x)" "keeps doomed (f x)" "keeps ?I (?g x y)" "keeps ?J (?g x y)" "keeps doomed (?g x y)" for x y
    unfolding f_def
    by (intro keeps_conj keeps_seen_or_doomed tracked.keeps_ct_domain_step recorded.keeps_ct_domain_step
        doomed.keeps_ct_domain_step tracked.keeps_ct_entry_step recorded.keeps_ct_entry_step
        doomed.keeps_ct_entry_step TrueI)+
  have first: "?J (snd (f a t))" if "?I t" for t
    unfolding f_def ct_domain_step_def a(1) option.case
    by (rule for_each_reach [where I = ?I and x = e1, OF ret(2) keep(4,5) a(2) _ that])
      (use entry_seen [OF _ a(3) n] keepsD [OF tracked.keeps_ct_entry_step [OF TrueI]] in auto)
  have second: "doomed (snd (f b t))" if "?J t" for t
    unfolding f_def ct_domain_step_def b(1) option.case
    by (rule for_each_reach [where I = ?J and x = e2, OF ret(2) keep(5,6) b(2) _ that])
      (use entry_dooms [OF _ b(3) n] in auto)
  have "?J (snd (for_each (xs @ [a]) f s))"
    by (rule for_each_reach [where I = ?I and J = ?J and f = f and x = a, OF ret(1) keep(1,2) _ first]) (use s in auto)
  then have "doomed (snd (for_each (ys @ b # zs) f (snd (for_each (xs @ [a]) f s))))"
    by (intro for_each_reach [where I = ?J and J = doomed and f = f and x = b, OF ret(1) keep(2,3) _ second]) auto
  moreover have "snd (for_each ((xs @ [a]) @ (ys @ b # zs)) f s) = snd (for_each (ys @ b # zs) f (snd (for_each (xs @ [a]) f s)))"
    by (rule snd_for_each_append [OF ret(1)])
  ultimately show ?thesis by simp
qed

text \<open>When the answers for two monitored domains contain an entry with the same identifier, as
  they do for a domain and its subdomain, and that entry names a tracked certificate, the
  whole scan fails: the two observations violate the unique index, and nothing that any
  domain reported is kept.\<close>

theorem overlapping_domains_fail:
  assumes run: "run_ct_monitor cx net now (xs @ a # ys @ b # zs) ex se st (Some k) cb w = (Inr r, w')"
    and wf: "wf_table (discovery_runs (work w))" and k: "k \<noteq> 0"
    and a: "fetch_crtsh_entries (sn_crtsh net) a k = Some ea" "e \<in> set ea"
    and b: "fetch_crtsh_entries (sn_crtsh net) b k = Some eb" "e \<in> set eb"
    and e: "ce_id e = Some n" "n \<notin> obs_ids (ct_observations (work w))"
      "find_by_serial (ce_serial_number e) (ce_issuer_name e) (work w) \<noteq> None"
  shows "\<exists>x. tbl_get r (discovery_runs (committed w')) = Some x \<and> dr_status x = ''failed'' \<and>
    committed w' = (work w)\<lparr>discovery_runs := discovery_runs (committed w')\<rparr>"
proof -
  let ?cc = "ct_config_of (cx_kc cx) (xs @ a # ys @ b # zs) ex se st (work w)"
  obtain x w1 where t: "add_run now x w = (Inr r, w1)"
    "tracked_run now r (ct_monitor_body cx net ?cc now r k cb) w1 = (Inr (), w')"
    using run k by (auto simp: run_ct_monitor_def bnd_Inr op_simps id_truthy_def or_default_def split: if_splits)
  from add_run_result [OF wf, of now x] t(1) have w1: "committed w1 = work w1"
    "work w1 = discovery_runs_update (\<lambda>t. snd (tbl_add now x t)) (work w)" "tbl_get r (discovery_runs (work w1)) = Some x"
    by auto
  let ?known = "map (\<lambda>w. co_crt_sh_id (rval w)) (rows (ct_observations (work w1)))"
  let ?loop = "for_each (cc_domains ?cc) (ct_domain_step cx net ?cc now r k (ignored_fingerprints (work w1)) ?known)"
  let ?s = "start_scan_state w1"
  have n: "n \<notin> set ?known" using e(2) w1(2) by (simp add: obs_ids_def)
  have tr: "tracked e ?s" using e(3) w1(2) by (simp add: tracked_def serial_hit_iff [of e "work w"])
  have dom: "cc_domains ?cc = xs @ a # ys @ b # zs" by (simp add: ct_config_of_def)
  have "returns ?loop" by (intro returns_rules returns_ct_domain_step)
  then obtain y s1 where s1: "?loop ?s = (Inr y, s1)" unfolding returns_def by blast
  have "doomed s1" using domains_doom [OF a e(1) b e(1) n tr tr] s1 dom by (metis snd_conv)
  moreover have "keeps (quiet (work w1)) ?loop" by (intro keeps_rules quiet.keeps_ct_domain_step TrueI)
  from keepsD [OF this quiet_start [OF w1(1)]] have "quiet (work w1) s1" using s1 by simp
  moreover have fin: "ct_monitor_body cx net ?cc now r k cb ?s = finish_scan cx now r JobType.CT_MONITOR
      ''discovery.ct_monitor'' (Some '' CT entries found, all already known and unchanged.'') cb s1"
    by (simp add: ct_monitor_body_def bnd_def [of "query _"] op_simps bnd_simps(2) [where m = ?loop, OF s1])
  ultimately obtain e' s' where f: "ct_monitor_body cx net ?cc now r k cb ?s = (Inl e', s')"
    "committed (sc_world s') = work w1"
    unfolding fin using finish_scan_doomed [OF _ w1(3)] by blast
  from tracked_run_failed [where body = "ct_monitor_body cx net ?cc now r k cb", OF f w1(3), of now] t(2) w1(2)
  show ?thesis by auto
qed

text \<open>A network scan that is allowed to start probes at most the configured number of
  host and port combinations.\<close>

theorem scan_targets_bounded:
  assumes "expand_targets network targets max_targets (length ports) = Inr hosts"
  shows "int (length (scan_targets net hosts ports)) \<le> max_targets"
proof -
  have "length (concat (map (\<lambda>h. map (Pair h) ports) hs)) = length hs * length ports" for hs :: "string list"
    by (induction hs) auto
  then have "length (scan_targets net hosts ports) = length hosts * length ports" by (simp add: scan_targets_def)
  moreover have "int (length hosts * max (length ports) 1) \<le> max_targets"
    using assms by (auto simp: expand_targets_def Let_def split: if_splits)
  moreover have "length hosts * length ports \<le> length hosts * max (length ports) 1" by simp
  ultimately show ?thesis by linarith
qed

end
