(* ===== verification/Discovery_Files.thy ===== *)
theory Discovery_Files
  imports Discovery_Proofs Cert_Safety
begin

text \<open>
  The file system discovery of \<open>app/services/discovery_service.py\<close> and the import from paths of
  \<open>app/services/certificate_service.py\<close>.  The files below a directory, sorted, are an argument
  (\<open>None\<close> when it does not exist).  \<open>fs_env\<close> is what paths depend on besides the files: the
  working directory, for relative paths, and the symbolic links of the host.  \<open>files\<close> maps the
  places of the files, so opening a path follows its links first; a loop of links cannot be
  opened.
\<close>

section \<open>Paths\<close>

record fs_env =
  fe_cwd :: "string list"
  fe_links :: links

text \<open>\<^verbatim>\<open>Path(p).resolve()\<close>\<close>

definition real_of :: "fs_env \<Rightarrow> string \<Rightarrow> string list" where
  "real_of fe p = realpath (fe_links fe) (join_path (fe_cwd fe) p)"

definition path_string :: "string list \<Rightarrow> string" where
  "path_string cs = ''/'' @ py_join ''/'' cs"

definition file_name :: "string \<Rightarrow> string" where
  "file_name p = last (split_on CHR ''/'' p)"

definition parent_dir :: "string \<Rightarrow> string" where
  "parent_dir p = py_join ''/'' (butlast (split_on CHR ''/'' p))"

text \<open>\<^verbatim>\<open>Path.suffix\<close> and \<^verbatim>\<open>Path.stem\<close>: the last dot counts unless it begins or ends the name.\<close>

definition split_name :: "string \<Rightarrow> string \<times> string" where
  "split_name p =
     (let n = file_name p in
      case py_rpartition CHR ''.'' n of
        None \<Rightarrow> (n, [])
      | Some (a, b) \<Rightarrow> if a = [] \<or> b = [] then (n, []) else (a, CHR ''.'' # b))"

definition content_at :: "fs_env \<Rightarrow> (string \<rightharpoonup> string) \<Rightarrow> string list \<Rightarrow> string option" where
  "content_at fe fs p = (if link_free (fe_links fe) p then fs (path_string p) else None)"

definition read_at :: "fs_env \<Rightarrow> string list \<Rightarrow> string wop" where
  "read_at fe p = bnd (gets (\<lambda>w. content_at fe (files w) p)) (\<lambda>c.
     case c of None \<Rightarrow> fail OSError (''No such file: '' @ path_string p) | Some x \<Rightarrow> ret x)"

section \<open>Import from paths\<close>

definition assert_importable_path :: "crypto \<Rightarrow> fs_env \<Rightarrow> db \<Rightarrow> string \<Rightarrow> exn + string list" where
  "assert_importable_path k fe d path =
     (let p = real_of fe path in
      if list_ex (\<lambda>root. p = real_of fe root \<or> is_parent (real_of fe root) p) (settings_scan_paths k d)
      then Inr p
      else raises ValidationAppError (''Path is not within an allowed certificate directory: '' @ path))"

definition read_importable :: "ctx \<Rightarrow> fs_env \<Rightarrow> string \<Rightarrow> string wop" where
  "read_importable cx fe path =
     bnd (db_get (\<lambda>d. assert_importable_path (cx_kc cx) fe d path)) (\<lambda>r.
     bnd (lift_exn r) (read_at fe))"

definition read_optional :: "ctx \<Rightarrow> fs_env \<Rightarrow> string option \<Rightarrow> string option wop" where
  "read_optional cx fe path =
     (if truthy path then bnd (read_importable cx fe (str_or path [])) (\<lambda>x. ret (Some x)) else ret None)"

definition import_from_paths ::
    "ctx \<Rightarrow> fs_env \<Rightarrow> datetime \<Rightarrow> string \<Rightarrow> string option \<Rightarrow> string option \<Rightarrow> import_payload \<Rightarrow> actor \<Rightarrow> int wop" where
  "import_from_paths cx fe now cert_path key_path chain_path payload user =
     bnd (read_importable cx fe cert_path) (\<lambda>cert_data.
     bnd (read_optional cx fe key_path) (\<lambda>key_data.
     bnd (read_optional cx fe chain_path) (\<lambda>chain_data.
     import_certificate cx now (Some cert_data) key_data chain_data None None payload user JobTrigger.API)))"

section \<open>Discovery\<close>

definition CERT_EXTS :: "string list" where
  "CERT_EXTS = [''.pem'', ''.crt'', ''.cer'', ''.cert'', ''.der'']"

definition PFX_EXTS :: "string list" where
  "PFX_EXTS = [''.pfx'', ''.p12'']"

definition scan_payload :: "bool option \<Rightarrow> import_payload" where
  "scan_payload auto_renew = \<lparr>im_domain = None, im_environment = Some ''production'', im_provider = None,
     im_auto_renew = auto_renew, im_owner_id = None, im_notes = None, im_tags = []\<rparr>"

definition open_path :: "fs_env \<Rightarrow> string \<Rightarrow> string wop" where
  "open_path fe path = read_at fe (real_of fe path)"

definition looks_like_private_key :: "fs_env \<Rightarrow> string \<Rightarrow> bool wop" where
  "looks_like_private_key fe path = gets (\<lambda>w. case content_at fe (files w) (real_of fe path) of
     None \<Rightarrow> False | Some x \<Rightarrow> py_contains ''PRIVATE KEY'' (take 200 x))"

text \<open>The state of one walk: the candidate keys by stem (later ones first), the certificate files
  in order, and the fingerprints already known.\<close>

record walk =
  wk_keys :: "(string \<times> string) list"
  wk_certs :: "string list"
  wk_seen :: "string list"

definition skip :: "string \<Rightarrow> unit sop" where
  "skip l = bnd (modify (\<lambda>s. s\<lparr>sc_skipped := sc_skipped s + 1\<rparr>)) (\<lambda>_. log_line l)"

definition imported :: "string \<Rightarrow> unit sop" where
  "imported l = bnd (modify (\<lambda>s. s\<lparr>sc_imported := sc_imported s + 1\<rparr>)) (\<lambda>_. log_line l)"

text \<open>An import within the session of the run.  When its flush violates a unique index, every later
  query of the run raises until the session is rolled back.\<close>

definition session_import :: "int wop \<Rightarrow> int sop" where
  "session_import m =
     bnd usable (\<lambda>_.
     catch_op (in_world m) (\<lambda>e.
       bnd (when_op (exc_of e = IntegrityError) (modify (\<lambda>s. s\<lparr>sc_broken := True\<rparr>))) (\<lambda>_. throw e)))"

definition maybe_import_pfx ::
    "ctx \<Rightarrow> fs_env \<Rightarrow> datetime \<Rightarrow> string \<Rightarrow> string list \<Rightarrow> string list sop" where
  "maybe_import_pfx cx fe now path seen =
     catch_op
       (bnd (in_world (open_path fe path)) (\<lambda>data.
        bnd (lift_exn (parse_pfx (cx_x5 cx) data (Some []))) (\<lambda>(cert, key, extra).
        bnd (lift_exn (parse_certificate (cx_x5 cx) cert)) (\<lambda>m.
        let fp = m_fingerprint_sha256 m in
        if fp \<in> set seen then bnd (log_line (''SKIP duplicate pfx '' @ path)) (\<lambda>_. ret seen)
        else
          bnd (session_import (import_certificate cx now None None None (Some data) (Some []) (scan_payload None) None JobTrigger.API)) (\<lambda>_.
          bnd (imported (''IMPORTED '' @ path)) (\<lambda>_. ret (fp # seen)))))))
       (\<lambda>e. bnd (skip (''SKIP pfx '' @ path @ '': '' @ exc_msg e)) (\<lambda>_. ret seen))"

definition sibling_key :: "fs_env \<Rightarrow> string \<Rightarrow> string option wop" where
  "sibling_key fe cert_file = gets (\<lambda>w. find (\<lambda>c. content_at fe (files w) (real_of fe c) \<noteq> None)
     (map (\<lambda>n. parent_dir cert_file @ ''/'' @ n) [''privkey.pem'', ''privkey.key'', ''key.pem'']))"

definition maybe_import_cert ::
    "ctx \<Rightarrow> fs_env \<Rightarrow> datetime \<Rightarrow> (string \<times> string) list \<Rightarrow> string \<Rightarrow> string list \<Rightarrow> string list sop" where
  "maybe_import_cert cx fe now keys cert_file seen =
     bnd (catch_op
            (bnd (in_world (open_path fe cert_file)) (\<lambda>data.
             bnd (lift_exn (parse_certificate (cx_x5 cx) data)) (\<lambda>m. ret (Some (m_fingerprint_sha256 m)))))
            (\<lambda>e. bnd (log_line (''SKIP unparseable '' @ cert_file @ '': '' @ exc_msg e)) (\<lambda>_. ret None))) (\<lambda>parsed.
     case parsed of
       None \<Rightarrow> ret seen
     | Some fp \<Rightarrow>
         if fp \<in> set seen then bnd (log_line (''SKIP duplicate '' @ cert_file)) (\<lambda>_. ret seen)
         else
           bnd (case map_of keys (fst (split_name cert_file)) of
                  Some k \<Rightarrow> ret (Some k) | None \<Rightarrow> in_world (sibling_key fe cert_file)) (\<lambda>key_path.
           catch_op
             (bnd (session_import (import_from_paths cx fe now cert_file key_path None (scan_payload (Some False)) None)) (\<lambda>_.
              bnd (imported (''IMPORTED '' @ cert_file)) (\<lambda>_. ret (fp # seen))))
             (\<lambda>e. bnd (skip (''SKIP '' @ cert_file @ '': '' @ exc_msg e)) (\<lambda>_. ret seen))))"

text \<open>The first pass over the files of a directory.\<close>

primrec collect :: "ctx \<Rightarrow> fs_env \<Rightarrow> datetime \<Rightarrow> string list \<Rightarrow> walk \<Rightarrow> walk sop" where
  "collect cx fe now [] k = ret k"
| "collect cx fe now (p # ps) k =
     bnd (let ext = py_lower (snd (split_name p)) in
          if ext \<in> set PFX_EXTS then
            bnd (modify (\<lambda>s. s\<lparr>sc_found := sc_found s + 1\<rparr>)) (\<lambda>_.
            bnd (maybe_import_pfx cx fe now p (wk_seen k)) (\<lambda>seen. ret (k\<lparr>wk_seen := seen\<rparr>)))
          else if ext \<in> set CERT_EXTS then
            bnd (in_world (looks_like_private_key fe p)) (\<lambda>is_key.
            if is_key then ret (k\<lparr>wk_keys := (fst (split_name p), p) # wk_keys k\<rparr>)
            else bnd (modify (\<lambda>s. s\<lparr>sc_found := sc_found s + 1\<rparr>)) (\<lambda>_.
                 ret (k\<lparr>wk_certs := wk_certs k @ [p]\<rparr>)))
          else ret k) (\<lambda>k'.
     collect cx fe now ps k')"

primrec import_all ::
    "ctx \<Rightarrow> fs_env \<Rightarrow> datetime \<Rightarrow> (string \<times> string) list \<Rightarrow> string list \<Rightarrow> string list \<Rightarrow> string list sop" where
  "import_all cx fe now keys [] seen = ret seen"
| "import_all cx fe now keys (c # cs) seen =
     bnd (maybe_import_cert cx fe now keys c seen) (\<lambda>seen'. import_all cx fe now keys cs seen')"

definition walk_dir :: "ctx \<Rightarrow> fs_env \<Rightarrow> datetime \<Rightarrow> string list \<Rightarrow> string list \<Rightarrow> string list sop" where
  "walk_dir cx fe now paths seen =
     bnd (collect cx fe now paths \<lparr>wk_keys = [], wk_certs = [], wk_seen = seen\<rparr>) (\<lambda>k.
     import_all cx fe now (wk_keys k) (wk_certs k) (wk_seen k))"

primrec walk_all ::
    "ctx \<Rightarrow> fs_env \<Rightarrow> (string \<Rightarrow> string list option) \<Rightarrow> datetime \<Rightarrow> string list \<Rightarrow> string list \<Rightarrow> unit sop" where
  "walk_all cx fe listing now [] seen = ret ()"
| "walk_all cx fe listing now (b # bs) seen =
     bnd (case listing b of
            None \<Rightarrow> bnd (log_line (''SKIP (missing): '' @ b)) (\<lambda>_. ret seen)
          | Some paths \<Rightarrow> walk_dir cx fe now paths seen) (\<lambda>seen'.
     walk_all cx fe listing now bs seen')"

definition known_fingerprints :: "db \<Rightarrow> string list" where
  "known_fingerprints d =
     concat (map (\<lambda>w. if truthy (c_fingerprint_sha256 (rval w)) then [str_or (c_fingerprint_sha256 (rval w)) []] else [])
       (rows (certificates d))) @ ignored_fingerprints d"

definition discovery_body ::
    "ctx \<Rightarrow> fs_env \<Rightarrow> (string \<Rightarrow> string list option) \<Rightarrow> datetime \<Rightarrow> int \<Rightarrow> string list \<Rightarrow> int option \<Rightarrow> unit sop" where
  "discovery_body cx fe listing now r paths created_by =
     bnd (query known_fingerprints) (\<lambda>seen.
     bnd (walk_all cx fe listing now paths seen) (\<lambda>_.
     finish_scan cx now r JobType.DISCOVERY ''discovery.run'' None created_by))"

text \<open>\<^verbatim>\<open>_paths_from_settings\<close>\<close>

definition paths_from_settings :: "crypto \<Rightarrow> string list \<Rightarrow> db \<Rightarrow> string list" where
  "paths_from_settings k extra d =
     foldl (\<lambda>ps p. if p \<in> set ps then ps else ps @ [p]) (settings_scan_paths k d) extra"

definition run_discovery ::
    "ctx \<Rightarrow> fs_env \<Rightarrow> (string \<Rightarrow> string list option) \<Rightarrow> datetime \<Rightarrow> string list \<Rightarrow> int option \<Rightarrow> int wop" where
  "run_discovery cx fe listing now extra_paths created_by =
     bnd (db_get (paths_from_settings (cx_kc cx) extra_paths)) (\<lambda>paths.
     bnd (add_run now ((new_run now created_by)\<lparr>dr_scan_paths := paths\<rparr>)) (\<lambda>r.
     bnd (tracked_run now r (discovery_body cx fe listing now r paths created_by)) (\<lambda>_.
     ret r)))"

section \<open>The path jail\<close>

text \<open>What the jail is for, in terms of places: the given path, its links followed, is reached
  without a link and lies at or below the place of a configured directory.\<close>

definition below :: "string list \<Rightarrow> string list \<Rightarrow> bool" where
  "below root p \<longleftrightarrow> (\<exists>q. p = root @ q)"

definition allowed_content :: "ctx \<Rightarrow> fs_env \<Rightarrow> world \<Rightarrow> string \<Rightarrow> string option" where
  "allowed_content cx fe w path =
     (let p = real_of fe path in
      if list_ex (\<lambda>root. below (real_of fe root) p) (settings_scan_paths (cx_kc cx) (work w)) \<and> link_free (fe_links fe) p
      then files w (path_string p) else None)"

lemma below_iff: "below r p \<longleftrightarrow> p = r \<or> is_parent r p"
proof
  assume "p = r \<or> is_parent r p"
  then show "below r p" unfolding below_def is_parent_def by (metis append.right_neutral append_take_drop_id)
next
  assume "below r p"
  then obtain q where "p = r @ q" by (auto simp: below_def)
  then show "p = r \<or> is_parent r p" by (cases q) (auto simp: is_parent_def)
qed

lemma read_importable_cases:
  "\<exists>e. read_importable cx fe path w =
     (case allowed_content cx fe w path of None \<Rightarrow> (Inl e, w) | Some x \<Rightarrow> (Inr x, w))"
  by (auto simp: read_importable_def assert_importable_path_def allowed_content_def below_iff read_at_def content_at_def
      Let_def op_simps bnd_def split: option.splits)

definition given :: "string option \<Rightarrow> string list" where
  "given p = (if truthy p then [str_or p []] else [])"

definition optional_content :: "ctx \<Rightarrow> fs_env \<Rightarrow> world \<Rightarrow> string option \<Rightarrow> string option" where
  "optional_content cx fe w p = (if truthy p then allowed_content cx fe w (str_or p []) else None)"

lemma read_optional_cases:
  "\<exists>e. read_optional cx fe path w =
     (if list_ex (\<lambda>p. allowed_content cx fe w p = None) (given path) then (Inl e, w)
      else (Inr (optional_content cx fe w path), w))"
proof -
  obtain e where "read_importable cx fe (str_or path []) w =
     (case allowed_content cx fe w (str_or path []) of None \<Rightarrow> (Inl e, w) | Some x \<Rightarrow> (Inr x, w))"
    using read_importable_cases by blast
  then show ?thesis
    by (auto simp: read_optional_def given_def optional_content_def bnd_def op_simps split: option.splits)
qed

lemma import_from_paths_cases:
  "if list_ex (\<lambda>p. allowed_content cx fe w p = None) (cert_path # given key_path @ given chain_path)
   then \<exists>e. import_from_paths cx fe now cert_path key_path chain_path p user w = (Inl e, w)
   else import_from_paths cx fe now cert_path key_path chain_path p user w =
     import_certificate cx now (allowed_content cx fe w cert_path) (optional_content cx fe w key_path)
       (optional_content cx fe w chain_path) None None p user JobTrigger.API w"
proof -
  obtain e1 where 1: "read_importable cx fe cert_path w =
     (case allowed_content cx fe w cert_path of None \<Rightarrow> (Inl e1, w) | Some x \<Rightarrow> (Inr x, w))"
    using read_importable_cases by blast
  obtain e2 where 2: "read_optional cx fe key_path w =
     (if list_ex (\<lambda>p. allowed_content cx fe w p = None) (given key_path) then (Inl e2, w)
      else (Inr (optional_content cx fe w key_path), w))" using read_optional_cases by blast
  obtain e3 where 3: "read_optional cx fe chain_path w =
     (if list_ex (\<lambda>p. allowed_content cx fe w p = None) (given chain_path) then (Inl e3, w)
      else (Inr (optional_content cx fe w chain_path), w))" using read_optional_cases by blast
  show ?thesis
    by (simp add: import_from_paths_def bnd_def 1 2 3 split: option.splits)
qed

text \<open>C35: An import from paths reads only files that lie below a directory an administrator
  configured, wherever links lead: when one of the given paths, its links followed, ends
  outside the places of the configured directories, runs into a loop or has no file, the
  import is refused and nothing changes; otherwise it is the import of the contents of
  exactly the files at those places.\<close>

theorem import_from_paths_jailed:
  "if list_ex (\<lambda>p. allowed_content cx fe w p = None) (cert_path # given key_path @ given chain_path)
   then \<exists>e. import_from_paths cx fe now cert_path key_path chain_path p user w = (Inl e, w)
   else import_from_paths cx fe now cert_path key_path chain_path p user w =
     import_certificate cx now (allowed_content cx fe w cert_path) (optional_content cx fe w key_path)
       (optional_content cx fe w chain_path) None None p user JobTrigger.API w"
  by (rule import_from_paths_cases)

lemma import_outside_raises:
  assumes "allowed_content cx fe w path = None"
  shows "\<exists>e. import_from_paths cx fe now path kp cp p user w = (Inl e, w)"
  using import_from_paths_cases [of cx fe w path kp cp now p user] assms by simp

text \<open>A certificate file that the jail refuses, such as one below a directory that was only passed
  to the run, or a link that leaves the configured directories, is never imported by a run:
  it is counted as skipped.\<close>

theorem refused_files_skipped:
  assumes "allowed_content cx fe (sc_world s) f = None" "\<not> sc_broken s"
    and "content_at fe (files (sc_world s)) (real_of fe f) = Some x" "parse_certificate (cx_x5 cx) x = Inr m"
    "m_fingerprint_sha256 m \<notin> set seen"
  shows "\<exists>l s'. maybe_import_cert cx fe now keys f seen s = (Inr seen, s') \<and> sc_world s' = sc_world s \<and>
    sc_skipped s' = sc_skipped s + 1 \<and> sc_logs s' = sc_logs s @ [l]"
proof -
  obtain kp where kp: "(case map_of keys (fst (split_name f)) of
      Some k \<Rightarrow> ret (Some k) | None \<Rightarrow> in_world (sibling_key fe f)) s = (Inr kp, s)"
    by (cases "map_of keys (fst (split_name f))") (auto simp: op_simps sibling_key_def)
  obtain e where e: "import_from_paths cx fe now f kp None (scan_payload (Some False)) None (sc_world s) = (Inl e, sc_world s)"
    using import_outside_raises [OF assms(1)] by blast
  have "open_path fe f (sc_world s) = (Inr x, sc_world s)" using assms(3) by (simp add: open_path_def read_at_def op_simps)
  then show ?thesis
    using assms(2,4,5) e kp
    by (cases "exc_of e = IntegrityError")
      (simp_all add: maybe_import_cert_def session_import_def catch_op_def bnd_def op_simps when_op_def skip_def log_line_def)
qed

section \<open>Ignored fingerprints\<close>

text \<open>No certificate with fingerprint \<open>fp\<close> is tracked, in the session and in what is committed.\<close>

definition untracked :: "string \<Rightarrow> world \<Rightarrow> bool" where
  "untracked fp w \<longleftrightarrow> winv (\<lambda>d. find_by_fingerprint fp d = None) w"

lemma untracked_certs:
  "find_by_fingerprint fp d = None \<longleftrightarrow> tbl_first (\<lambda>w. c_fingerprint_sha256 (rval w) = Some fp) (certificates d) = None"
  by (simp add: find_by_fingerprint_def)

lemma keeps_untracked_mod [keeps_rules]:
  "(\<And>d. certificates (f d) = certificates d) \<Longrightarrow> keeps (untracked fp) (db_mod f)"
  unfolding untracked_def by (rule keeps_db_mod) (simp add: find_by_fingerprint_def)

lemma keeps_untracked_ops [keeps_rules]:
  "keeps (untracked fp) (add_job now x)" "keeps (untracked fp) (audit_cert cx now a u c r ms dt)"
  "keeps (untracked fp) (add_domains now i' b sans)" "keeps (untracked fp) commit" "keeps (untracked fp) rollback"
  "keeps (untracked fp) (on_fs g)" "keeps (untracked fp) (fs_write p c')" "keeps (untracked fp) (write_private_key s k iv fp' pem)"
  unfolding add_job_def audit_cert_def record_audit_def add_domains_def
  by (auto intro!: keeps_rules simp: split_beta)
    (auto simp: keeps_def untracked_def winv_def op_simps on_fs_def fs_write_def write_private_key_def bnd_def Let_def
      split: prod.splits)

lemma keeps_untracked_tag [keeps_rules]: "keeps (untracked fp) (add_tag now i' n)"
proof -
  have "keeps (untracked fp) (upd_cert now i' f)" if "\<And>c. c_fingerprint_sha256 (f c) = c_fingerprint_sha256 c" for f
    unfolding untracked_def upd_cert_def
    by (rule keeps_db_mod) (simp add: find_by_fingerprint_def tbl_upd_def tbl_first_upd_where that)
  then show ?thesis unfolding add_tag_def by (auto intro!: keeps_rules)
qed

lemma keeps_untracked_notify [keeps_rules]: "keeps (untracked fp) (notify cx now ev c)"
  unfolding notify_def queue_event_notifications_def queue_one_def Let_def
  by (intro keeps_rules) (auto intro!: keeps_rules split: prod.splits)

lemma keeps_untracked_store:
  assumes "c_fingerprint_sha256 c \<noteq> Some fp"
  shows "keeps (untracked fp) (import_store cx now p user trigger fp' c)"
proof -
  have "keeps (untracked fp) (add_cert now c)"
    using assms by (auto simp: keeps_def add_cert_def op_simps untracked_def winv_def find_by_fingerprint_add)
  then show ?thesis unfolding import_store_def by (intro keeps_rules)
qed

text \<open>An import of another certificate tracks no certificate with this fingerprint.\<close>

lemma import_untracked:
  assumes other: "\<And>m. import_source cx cd kd chd pd pp m \<Longrightarrow> m_fingerprint_sha256 m \<noteq> fp" and w: "untracked fp w"
  shows "wp (import_certificate cx now cd kd chd pd pp p user trigger) (\<lambda>_. untracked fp) (\<lambda>_. untracked fp) w"
proof -
  have store: "wp (import_store cx now p user trigger fp' (import_row s m p user hc kp)) (\<lambda>_. untracked fp) (\<lambda>_. untracked fp) t"
    if "untracked fp t" "import_inputs cx cd kd chd pd pp = Inr (raw, key_data, chain)" "truthy raw"
      "parse_certificate (cx_x5 cx) (str_or raw []) = Inr m" for t fp' m s hc kp raw key_data chain
  proof -
    have "import_source cx cd kd chd pd pp m"
      using that(2-4) truthy_str_or [of raw "[]"] unfolding import_source_def by metis
    from other [OF this] have "c_fingerprint_sha256 (import_row s m p user hc kp) \<noteq> Some fp"
      by (simp add: import_row_def Let_def)
    from wp_keeps [OF keeps_untracked_store [OF this] that(1)] show ?thesis by auto
  qed
  have fs: "untracked fp (t\<lparr>files := g\<rparr>) = untracked fp t" for t g by (simp add: untracked_def winv_def)
  have key: "wp (write_private_key s k iv fp' pem) Q (\<lambda>_. untracked fp) t" if "untracked fp t" "\<And>x u. untracked fp u \<Longrightarrow> Q x u"
    for s k iv fp' pem t Q
    by (rule wp_keeps [where I = "untracked fp"]) (use that in \<open>auto intro: keeps_rules\<close>)
  show ?thesis
    unfolding import_certificate_def Let_def
    using w by (auto intro!: store key simp: wp_simps when_op_def fs simp del: bnd_db bnd_prim split: sum.splits)
qed

lemma session_import_untracked:
  assumes "wp m (\<lambda>_. untracked fp) (\<lambda>_. untracked fp) (sc_world s)" "untracked fp (sc_world s)"
  shows "wp (session_import m) (\<lambda>_ s'. untracked fp (sc_world s')) (\<lambda>_ s'. untracked fp (sc_world s')) s"
  using assms
  by (auto simp: session_import_def wp_def catch_op_def bnd_def op_simps when_op_def split: prod.splits sum.splits)

text \<open>One step of a walk keeps the ignored fingerprint among the known ones and untracked.\<close>

definition shuns :: "string \<Rightarrow> string list sop \<Rightarrow> bool" where
  "shuns fp m \<longleftrightarrow> (\<forall>s. untracked fp (sc_world s) \<longrightarrow>
     wp m (\<lambda>seen s'. untracked fp (sc_world s') \<and> fp \<in> set seen) (\<lambda>_ s'. untracked fp (sc_world s')) s)"

lemma shunsI:
  "(\<And>s. untracked fp (sc_world s) \<Longrightarrow>
     wp m (\<lambda>seen s'. untracked fp (sc_world s') \<and> fp \<in> set seen) (\<lambda>_ s'. untracked fp (sc_world s')) s) \<Longrightarrow> shuns fp m"
  by (simp add: shuns_def)

lemma shunsD:
  "shuns fp m \<Longrightarrow> untracked fp (sc_world s) \<Longrightarrow>
     wp m (\<lambda>seen s'. untracked fp (sc_world s') \<and> fp \<in> set seen) (\<lambda>_ s'. untracked fp (sc_world s')) s"
  by (simp add: shuns_def)

lemma untracked_counters [simp]:
  "keeps (\<lambda>s. untracked fp (sc_world s)) (log_line l)" "keeps (\<lambda>s. untracked fp (sc_world s)) (skip l)"
  "keeps (\<lambda>s. untracked fp (sc_world s)) (imported l)" "keeps (\<lambda>s. untracked fp (sc_world s)) (modify (sc_found_update g))"
  by (simp_all add: keeps_def log_line_def skip_def imported_def op_simps bnd_def)

lemma open_path_simp:
  "open_path fe path w = (case content_at fe (files w) (real_of fe path) of
     None \<Rightarrow> Inl (Exn OSError (''No such file: '' @ path_string (real_of fe path)) None) | Some x \<Rightarrow> Inr x, w)"
  by (simp add: open_path_def read_at_def op_simps bnd_def split: option.splits)

lemma allowed_is_content:
  "allowed_content cx fe w path = Some x \<Longrightarrow> content_at fe (files w) (real_of fe path) = Some x"
  by (auto simp: allowed_content_def content_at_def Let_def split: if_splits)

text \<open>What a run reads through a path is what the import reads at its place, so the import is of
  the certificate whose fingerprint was compared.\<close>

lemma path_import_untracked:
  assumes x: "content_at fe (files w) (real_of fe path) = Some x" "parse_certificate (cx_x5 cx) x = Inr m"
    and fp: "m_fingerprint_sha256 m \<noteq> fp" and w: "untracked fp w"
  shows "wp (import_from_paths cx fe now path kp cp p user) (\<lambda>_. untracked fp) (\<lambda>_. untracked fp) w"
proof (cases "list_ex (\<lambda>p. allowed_content cx fe w p = None) (path # given kp @ given cp)")
  case True
  with import_from_paths_cases [of cx fe w path kp cp now p user]
  obtain e where "import_from_paths cx fe now path kp cp p user w = (Inl e, w)" by auto
  then show ?thesis using w by (simp add: wp_def)
next
  case False
  then have a: "allowed_content cx fe w path = Some x" using allowed_is_content [of cx fe w path] x(1) by auto
  have src: "m_fingerprint_sha256 m' \<noteq> fp"
    if "import_source cx (Some x) (optional_content cx fe w kp) (optional_content cx fe w cp) None None m'" for m'
    using that x(2) fp by (auto simp: import_source_def import_inputs_def truthy_def)
  show ?thesis
    using import_from_paths_cases [of cx fe w path kp cp now p user] False a
      import_untracked [where now = now and p = p and user = user and trigger = JobTrigger.API, OF src w] by (simp add: wp_def)
qed

lemma wp_scan_ops [wp_simps]:
  "wp (in_world m) Q E s = wp m (\<lambda>x w. Q x (s\<lparr>sc_world := w\<rparr>)) (\<lambda>e w. E e (s\<lparr>sc_world := w\<rparr>)) (sc_world s)"
  "wp (log_line l) Q' E s = Q' () (s\<lparr>sc_logs := sc_logs s @ [l]\<rparr>)"
  "wp (skip l) Q' E s = Q' () (s\<lparr>sc_skipped := sc_skipped s + 1, sc_logs := sc_logs s @ [l]\<rparr>)"
  "wp (imported l) Q' E s = Q' () (s\<lparr>sc_imported := sc_imported s + 1, sc_logs := sc_logs s @ [l]\<rparr>)"
  by (auto simp: wp_def in_world_def log_line_def skip_def imported_def op_simps bnd_def split: prod.splits sum.splits)

lemma wp_open_path [wp_simps]:
  "wp (open_path fe path) Q E w = (case content_at fe (files w) (real_of fe path) of
     None \<Rightarrow> E (Exn OSError (''No such file: '' @ path_string (real_of fe path)) None) w | Some x \<Rightarrow> Q x w)"
  by (simp add: wp_def open_path_simp split: option.splits)

lemma import_or_skip:
  assumes "wp m (\<lambda>_. untracked fp) (\<lambda>_. untracked fp) (sc_world s)" "untracked fp (sc_world s)"
    and "\<And>x t. untracked fp (sc_world t) \<Longrightarrow> Q x t" "\<And>e t. untracked fp (sc_world t) \<Longrightarrow> E e t"
  shows "wp (session_import m) Q E s"
  by (rule wp_mono [OF session_import_untracked [OF assms(1,2)]]) (rule assms; assumption)+

lemma maybe_import_cert_shuns:
  assumes fp: "fp \<in> set seen"
  shows "shuns fp (maybe_import_cert cx fe now keys f seen)"
proof (rule shunsI)
  fix s :: scan assume s: "untracked fp (sc_world s)"
  have imp: "wp (session_import (import_from_paths cx fe now f kp cp p user)) Q E s"
    if "content_at fe (files (sc_world s)) (real_of fe f) = Some x" "parse_certificate (cx_x5 cx) x = Inr m"
      "m_fingerprint_sha256 m \<notin> set seen" "\<And>x t. untracked fp (sc_world t) \<Longrightarrow> Q x t"
      "\<And>e t. untracked fp (sc_world t) \<Longrightarrow> E e t" for x m kp cp p user Q E
    by (rule import_or_skip [OF path_import_untracked [OF that(1,2) _ s] s]) (use that fp in auto)
  show "wp (maybe_import_cert cx fe now keys f seen) (\<lambda>seen s'. untracked fp (sc_world s') \<and> fp \<in> set seen)
      (\<lambda>_ s'. untracked fp (sc_world s')) s"
    using s fp by (auto simp: maybe_import_cert_def sibling_key_def wp_simps intro!: imp split: option.splits sum.splits)
qed

lemma maybe_import_pfx_shuns:
  assumes fp: "fp \<in> set seen"
  shows "shuns fp (maybe_import_pfx cx fe now path seen)"
proof (rule shunsI)
  fix s :: scan assume s: "untracked fp (sc_world s)"
  have imp: "wp (session_import (import_certificate cx now None None None (Some x) (Some []) p user tr)) Q E s"
    if "parse_pfx (cx_x5 cx) x (Some []) = Inr (cert, key, extra)" "parse_certificate (cx_x5 cx) cert = Inr m"
      "m_fingerprint_sha256 m \<notin> set seen" "\<And>x t. untracked fp (sc_world t) \<Longrightarrow> Q x t"
      "\<And>e t. untracked fp (sc_world t) \<Longrightarrow> E e t" for x m cert key extra p user tr Q E
  proof (rule import_or_skip [OF import_untracked [OF _ s] s])
    fix m' assume "import_source cx None None None (Some x) (Some []) m'"
    then show "m_fingerprint_sha256 m' \<noteq> fp"
      using that(1-3) fp by (auto simp: import_source_def import_inputs_def str_or_def truthy_def split: if_splits)
  qed (use that in auto)
  show "wp (maybe_import_pfx cx fe now path seen) (\<lambda>seen s'. untracked fp (sc_world s') \<and> fp \<in> set seen)
      (\<lambda>_ s'. untracked fp (sc_world s')) s"
    using s fp by (auto simp: maybe_import_pfx_def wp_simps Let_def intro!: imp split: option.splits sum.splits)
qed

lemma collect_shuns:
  assumes "untracked fp (sc_world s)" "fp \<in> set (wk_seen k)"
  shows "wp (collect cx fe now ps k) (\<lambda>k s'. untracked fp (sc_world s') \<and> fp \<in> set (wk_seen k)) (\<lambda>_ s'. untracked fp (sc_world s')) s"
  using assms
proof (induction ps arbitrary: s k)
  case (Cons p ps)
  have pfx: "wp (maybe_import_pfx cx fe now p (wk_seen k)) Q E t"
    if "untracked fp (sc_world t)" "\<And>seen u. untracked fp (sc_world u) \<Longrightarrow> fp \<in> set seen \<Longrightarrow> Q seen u"
      "\<And>e u. untracked fp (sc_world u) \<Longrightarrow> E e u" for Q E t
    by (rule wp_mono [OF shunsD [OF maybe_import_pfx_shuns [OF Cons.prems(2)] that(1)]]) (use that in auto)
  show ?case
    using Cons.prems by (auto simp: wp_simps looks_like_private_key_def Let_def intro!: pfx Cons.IH)
qed (simp add: wp_simps)

lemma import_all_shuns: "fp \<in> set seen \<Longrightarrow> shuns fp (import_all cx fe now keys cs seen)"
proof (induction cs arbitrary: seen)
  case (Cons c cs)
  show ?case
  proof (rule shunsI)
    fix s :: scan assume s: "untracked fp (sc_world s)"
    show "wp (import_all cx fe now keys (c # cs) seen) (\<lambda>seen s'. untracked fp (sc_world s') \<and> fp \<in> set seen)
        (\<lambda>_ s'. untracked fp (sc_world s')) s"
      unfolding import_all.simps wp_bnd
      by (rule wp_mono [OF shunsD [OF maybe_import_cert_shuns [OF Cons.prems] s]]) (use Cons.IH shunsD in auto)
  qed
qed (simp add: shuns_def wp_simps)

lemma walk_dir_shuns: "fp \<in> set seen \<Longrightarrow> shuns fp (walk_dir cx fe now paths seen)"
proof (rule shunsI)
  fix s :: scan assume s: "untracked fp (sc_world s)" and fp: "fp \<in> set seen"
  show "wp (walk_dir cx fe now paths seen) (\<lambda>seen s'. untracked fp (sc_world s') \<and> fp \<in> set seen)
      (\<lambda>_ s'. untracked fp (sc_world s')) s"
    unfolding walk_dir_def wp_bnd
    by (rule wp_mono [OF collect_shuns [OF s]]) (use fp shunsD [OF import_all_shuns] in auto)
qed

lemma walk_all_untracked:
  assumes "untracked fp (sc_world s)" "fp \<in> set seen"
  shows "wp (walk_all cx fe listing now bs seen) (\<lambda>_ s'. untracked fp (sc_world s')) (\<lambda>_ s'. untracked fp (sc_world s')) s"
  using assms
proof (induction bs arbitrary: s seen)
  case (Cons b bs)
  have dir: "wp (walk_dir cx fe now ps seen) Q E t"
    if "untracked fp (sc_world t)" "\<And>seen u. untracked fp (sc_world u) \<Longrightarrow> fp \<in> set seen \<Longrightarrow> Q seen u"
      "\<And>e u. untracked fp (sc_world u) \<Longrightarrow> E e u" for Q E t ps
    by (rule wp_mono [OF shunsD [OF walk_dir_shuns [OF Cons.prems(2)] that(1)]]) (use that in auto)
  show ?case
    using Cons.prems by (auto simp: wp_simps intro!: dir Cons.IH split: option.splits)
qed (simp add: wp_simps)

lemma untracked_same_certs:
  "certificates (work w') = certificates (work w) \<Longrightarrow> certificates (committed w') = certificates (work w) \<or>
     certificates (committed w') = certificates (committed w) \<Longrightarrow> untracked fp w \<Longrightarrow> untracked fp w'"
  by (auto simp: untracked_def winv_def find_by_fingerprint_def)

lemma finish_scan_untracked:
  assumes "untracked fp (sc_world s)"
  shows "untracked fp (sc_world (snd (finish_scan cx now r ty action known cb s)))"
  by (rule untracked_same_certs [OF _ _ assms])
    (auto simp: finish_scan_def bnd_def op_simps commit_scan_def upd_run_def add_job_def record_audit_def flushed_def)

text \<open>Any scan: of the network, of the transparency logs, or of the files.\<close>

definition any_scan ::
    "ctx \<Rightarrow> scan_net \<Rightarrow> fs_env \<Rightarrow> (string \<Rightarrow> string list option) \<Rightarrow> datetime \<Rightarrow> int \<Rightarrow> world \<Rightarrow> world \<Rightarrow> bool" where
  "any_scan cx net fe listing now r w w' \<longleftrightarrow> scan_run cx net now r w w' \<or>
     (\<exists>extra_paths cb. run_discovery cx fe listing now extra_paths cb w = (Inr r, w'))"

lemma run_discovery_untracked:
  assumes run: "run_discovery cx fe listing now extra_paths cb w = (Inr r, w')"
    and fp: "fp \<in> set (ignored_fingerprints (work w))" and w: "find_by_fingerprint fp (work w) = None"
  shows "untracked fp w'"
proof -
  let ?x = "(new_run now cb)\<lparr>dr_scan_paths := paths_from_settings (cx_kc cx) extra_paths (work w)\<rparr>"
  obtain w1 where w1: "add_run now ?x w = (Inr r, w1)"
    "tracked_run now r (discovery_body cx fe listing now r (dr_scan_paths ?x) cb) w1 = (Inr (), w')"
    using run by (auto simp: run_discovery_def bnd_Inr op_simps)
  have u: "untracked fp w1" using w1(1) w
    by (auto simp: add_run_def op_simps untracked_def winv_def find_by_fingerprint_def)
  have seen: "fp \<in> set (known_fingerprints (work w1))"
    using w1(1) fp by (auto simp: add_run_def op_simps known_fingerprints_def ignored_fingerprints_def)
  have "wp (discovery_body cx fe listing now r (dr_scan_paths ?x) cb) (\<lambda>_ s'. untracked fp (sc_world s'))
      (\<lambda>_ s'. untracked fp (sc_world s')) (start_scan_state w1)"
  proof -
    have "wp (walk_all cx fe listing now (dr_scan_paths ?x) (known_fingerprints (work w1)))
        (\<lambda>_. wp (finish_scan cx now r JobType.DISCOVERY ''discovery.run'' None cb) (\<lambda>_ s'. untracked fp (sc_world s'))
          (\<lambda>_ s'. untracked fp (sc_world s'))) (\<lambda>_ s'. untracked fp (sc_world s')) (start_scan_state w1)"
      by (rule wp_mono [OF walk_all_untracked [OF _ seen]])
        (use u finish_scan_untracked in \<open>auto simp: wp_def split: prod.splits sum.splits, (metis snd_conv)+\<close>)
    moreover have "wp (query g) Q E (start_scan_state w1) = Q (g (work w1)) (start_scan_state w1)" for g :: "db \<Rightarrow> string list" and Q E
      by (simp add: wp_def op_simps)
    ultimately show ?thesis by (simp add: discovery_body_def wp_bnd)
  qed
  then show ?thesis
    using w1(2) by (auto simp: tracked_run_def wp_def bnd_def op_simps upd_run_def untracked_def winv_def find_by_fingerprint_def
        split: prod.splits sum.splits)
qed

text \<open>C27: A certificate whose fingerprint is on the ignore list, as every discovered certificate that
  was deleted, is not tracked again by any later scan of the network, of the transparency logs
  or of the files.\<close>

theorem ignored_stay_gone:
  assumes "any_scan cx net fe listing now r w w'" and "wf_table (discovery_runs (work w))"
    and "fp \<in> set (ignored_fingerprints (work w))" and "find_by_fingerprint fp (work w) = None"
  shows "find_by_fingerprint fp (committed w') = None"
  using assms(1) scan_run_ignored [OF _ assms(2-4)] run_discovery_untracked [OF _ assms(3,4)]
  unfolding any_scan_def by (auto simp: untracked_def winv_def)

end
