(* ===== verification/Scan_Witnesses.thy ===== *)
theory Scan_Witnesses
  imports Cert_Refine Discovery_Files Cert_Witnesses
begin

text \<open>
  Concrete inputs at which the properties of \<open>Cert_Refine\<close>, \<open>Discovery_Proofs\<close> and
  \<open>Discovery_Files\<close> apply, and a scan that leaves two active findings for one certificate.
\<close>

section \<open>Life of a certificate\<close>

definition demo_requests :: "life_op list" where
  "demo_requests = [Renew 5 1 False None JobTrigger.API, Cancel 6, Cancel 7, Revoke 8 ''superseded'' True None JobTrigger.API]"

lemma lifecycle_refinement_witness:
  "life_trace (CertificateStatus.ACTIVE, RenewalStatus.NONE) (life_log without_provider 1 demo_requests (demo_session demo_cert)) \<and>
   list_all logged_ok (life_log without_provider 1 demo_requests (demo_session demo_cert))"
  by (rule lifecycle_refinement)
    (simp_all add: wf_jobs_def life_of_def life_ok_def demo_session_def open_session_def tbl_get_def tbl_row_def tbl_add_def
      empty_table_def empty_db_def wf_table_def ids_def demo_cert_def new_certificate_def)

lemma revoked_renewal_reactivates_witness:
  "\<exists>c'. tbl_get 1 (certificates (committed (snd (life_run with_provider 1 (Renew 5 1 True None JobTrigger.API)
       (demo_session (mark_revoked demo_cert)))))) = Some c' \<and>
     c_status c' \<in> {CertificateStatus.ACTIVE, CertificateStatus.EXPIRING, CertificateStatus.RENEWING}"
  by (rule revoked_renewal_reactivates [of _ _ "mark_revoked demo_cert"])
    (simp_all add: wf_jobs_def revoked_state_def mark_revoked_def demo_session_def open_session_def tbl_get_def tbl_row_def
      tbl_add_def empty_table_def empty_db_def wf_table_def ids_def demo_cert_def new_certificate_def truthy_def)

section \<open>Scans\<close>

text \<open>crt.sh answers every query with the same entry, which names the tracked certificate.\<close>

definition demo_entry :: "int \<Rightarrow> ct_entry" where
  "demo_entry n = \<lparr>ce_id = Some n, ce_serial_number = Some ''0A'', ce_issuer_name = Some ''CN=CA''\<rparr>"

definition demo_net :: "ct_entry list \<Rightarrow> scan_net" where
  "demo_net es = \<lparr>sn_crtsh = (\<lambda>_. Entries es), sn_crtsh_pem = (\<lambda>_. None), sn_tls = (\<lambda>_ _. Some ''der''),
     sn_network = (\<lambda>_. None), sn_to_pem = (\<lambda>x. x)\<rparr>"

definition tracked_cert :: certificate where
  "tracked_cert = demo_cert\<lparr>c_serial_number := Some ''a'', c_issuer := Some ''CN=CA'', c_sans := [''vpn.example.com'']\<rparr>"

abbreviation ct_scan :: "ct_entry list \<Rightarrow> string list \<Rightarrow> (exn + int) \<times> world" where
  "ct_scan es domains \<equiv> run_ct_monitor with_provider (demo_net es) 5 domains None None None (Some 10) None (demo_session tracked_cert)"

lemma ct_scan_returns: "fst (ct_scan [demo_entry 7] [''example.com'', ''vpn.example.com'']) = Inr 1"
  by code_simp

lemma demo_runs [simp]: "wf_table (discovery_runs (work (demo_session c)))" "obs_ids (ct_observations (work (demo_session c))) = {}"
  by (simp_all add: demo_session_def open_session_def empty_db_def empty_table_def wf_table_def ids_def obs_ids_def)

lemma overlapping_domains_fail_witness:
  "\<exists>w' x. ct_scan [demo_entry 7] [''example.com'', ''vpn.example.com''] = (Inr 1, w') \<and>
     tbl_get 1 (discovery_runs (committed w')) = Some x \<and> dr_status x = ''failed''"
proof -
  obtain w' where w: "run_ct_monitor with_provider (demo_net [demo_entry 7]) 5 ([] @ ''example.com'' # [] @ ''vpn.example.com'' # [])
      None None None (Some 10) None (demo_session tracked_cert) = (Inr 1, w')"
    using ct_scan_returns by (metis append_Nil prod.collapse)
  have f: "fetch_crtsh_entries (sn_crtsh (demo_net [demo_entry 7])) d 10 = Some [demo_entry 7]" for d
    by (simp add: fetch_crtsh_entries_def demo_net_def slice_to_def)
  have s: "find_by_serial (ce_serial_number (demo_entry 7)) (ce_issuer_name (demo_entry 7)) (work (demo_session tracked_cert)) \<noteq> None"
    by code_simp
  from overlapping_domains_fail [OF w _ _ f _ f _ _ _ s, of 7] w show ?thesis
    by (auto simp: demo_entry_def)
qed

lemma scan_run_atomic_witness:
  "\<exists>w' x. ct_scan [demo_entry 7] [''example.com'', ''vpn.example.com''] = (Inr 1, w') \<and> committed w' = work w' \<and>
     tbl_get 1 (discovery_runs (committed w')) = Some x \<and> dr_finished_at x = Some 5"
proof -
  obtain w' where w: "ct_scan [demo_entry 7] [''example.com'', ''vpn.example.com''] = (Inr 1, w')"
    using ct_scan_returns by (metis prod.collapse)
  then have "scan_run with_provider (demo_net [demo_entry 7]) 5 1 (demo_session tracked_cert) w'"
    unfolding scan_run_def by blast
  from scan_run_atomic [OF this] w show ?thesis by auto
qed

definition ignoring_session :: world where
  "ignoring_session = open_session (empty_db\<lparr>discovery_ignores := snd (tbl_add 0
     \<lparr>di_fingerprint_sha256 = ''AB:CD'', di_domain = None, di_source_path = None, di_ignored_by = None\<rparr> empty_table)\<rparr>) Map.empty"

lemma ignored_stay_gone_witness:
  "\<exists>w'. run_network_scan with_provider (demo_net []) (\<lambda>_. True) 5 [''host''] (Some [443]) None True None ignoring_session = (Inr 1, w') \<and>
     find_by_fingerprint ''AB:CD'' (committed w') = None"
proof -
  have "fst (run_network_scan with_provider (demo_net []) (\<lambda>_. True) 5 [''host''] (Some [443]) None True None ignoring_session) = Inr 1"
    by code_simp
  then obtain w' where w: "run_network_scan with_provider (demo_net []) (\<lambda>_. True) 5 [''host''] (Some [443]) None True None ignoring_session = (Inr 1, w')"
    by (metis prod.collapse)
  then have "any_scan with_provider (demo_net []) \<lparr>fe_cwd = [], fe_links = []\<rparr> (\<lambda>_. None) 5 1 ignoring_session w'"
    unfolding any_scan_def scan_run_def by blast
  from ignored_stay_gone [OF this, of "''AB:CD''"] w show ?thesis
    by (auto simp: ignoring_session_def open_session_def ignored_fingerprints_def rows_add find_by_fingerprint_def
        tbl_first_def empty_db_def empty_table_def wf_table_def ids_def)
qed

lemma scan_targets_bounded_witness:
  "int (length (scan_targets (demo_net []) [''a'', ''b''] [443, 8443])) \<le> 4"
  by (rule scan_targets_bounded [of "\<lambda>_. None" "[''a'', ''b'']"]) code_simp

text \<open>What certbot leaves below its directory: the names below \<^verbatim>\<open>live\<close> are links into \<^verbatim>\<open>archive\<close>.  Only
  \<^verbatim>\<open>/etc/letsencrypt/live\<close> is among the default directories, so the jail refuses them all.\<close>

definition certbot_env :: fs_env where
  "certbot_env = \<lparr>fe_cwd = [], fe_links = [([''etc'', ''letsencrypt'', ''live'', ''a.io'', ''cert.pem''], ''../../archive/a.io/cert1.pem'')]\<rparr>"

definition certbot_files :: "string \<rightharpoonup> string" where
  "certbot_files = [''/etc/letsencrypt/archive/a.io/cert1.pem'' \<mapsto> ''cert'']"

lemma live_resolves:
  "real_of certbot_env ''/etc/letsencrypt/live/a.io/cert.pem'' = [''etc'', ''letsencrypt'', ''archive'', ''a.io'', ''cert1.pem'']"
  by code_simp

lemma live_refused:
  "allowed_content with_provider certbot_env ((demo_session demo_cert)\<lparr>files := certbot_files\<rparr>) ''/etc/letsencrypt/live/a.io/cert.pem'' = None"
  (is "?c = None")
proof -
  have "list_all (\<lambda>r. \<not> (real_of certbot_env ''/etc/letsencrypt/live/a.io/cert.pem'' = real_of certbot_env r \<or>
      is_parent (real_of certbot_env r) (real_of certbot_env ''/etc/letsencrypt/live/a.io/cert.pem'')))
      (settings_scan_paths (cx_kc with_provider) (work (demo_session demo_cert)))"
    by code_simp
  then show ?thesis by (simp add: allowed_content_def below_iff Let_def list_ex_iff list_all_iff)
qed

lemma refused_files_skipped_witness:
  "\<exists>l s'. maybe_import_cert with_provider certbot_env 5 [] ''/etc/letsencrypt/live/a.io/cert.pem'' []
       (start_scan_state ((demo_session demo_cert)\<lparr>files := certbot_files\<rparr>)) = (Inr [], s') \<and> sc_skipped s' = 1 \<and> sc_logs s' = [l]"
proof -
  let ?s = "start_scan_state ((demo_session demo_cert)\<lparr>files := certbot_files\<rparr>)"
  have c: "content_at certbot_env (files (sc_world ?s)) (real_of certbot_env ''/etc/letsencrypt/live/a.io/cert.pem'') = Some ''cert''"
    unfolding live_resolves by (simp add: content_at_def link_free_def certbot_env_def certbot_files_def path_string_def upt_rec)
  have p: "parse_certificate (cx_x5 with_provider) ''cert'' = Inr demo_meta"
    by (simp add: with_provider_def demo_ctx_def demo_x509_def)
  from refused_files_skipped [OF _ _ c p, of "[]" 5 "[]"] live_refused show ?thesis by (auto simp: start_scan_state_def)
qed

end
