(* ===== verification/Remote.thy ===== *)
theory Remote
  imports Cert_Requests
begin

text \<open>
  \<open>app/services/ssh.py\<close>: the SSH client.  The remote host (paramiko and what is at the other
  end) is a function \<open>host\<close> from the history of requests and the next request to an answer or
  an exception, so that it may keep any state of its own.  The client records what it sends:
  \<open>rs_trace\<close> is everything that reached the transport, in order.  \<open>rs_logs\<close> is the log a
  deployment collects.  \<open>follows\<close> compares a run of the client with a plan, the requests in the
  order in which they are meant to be made.
\<close>

record ssh_result =
  sr_command :: string
  sr_exit_code :: int
  sr_stdout :: string
  sr_stderr :: string
  sr_duration_ms :: int

record ssh_config =
  sg_hostname :: string
  sg_port :: int
  sg_username :: string
  sg_password :: "string option"
  sg_key_path :: "string option"
  sg_key_passphrase :: "string option"
  sg_proxy_jump :: "string option"
  sg_connect_timeout :: int
  sg_command_timeout :: int

text \<open>The keyword arguments of \<^verbatim>\<open>paramiko.SSHClient.connect\<close>; \<open>ck_sock\<close> is the command of the
  \<^verbatim>\<open>ProxyCommand\<close>, run by a local shell.\<close>

record connect_kwargs =
  ck_hostname :: string
  ck_port :: int
  ck_username :: string
  ck_timeout :: int
  ck_allow_agent :: bool
  ck_password :: "string option"
  ck_key_filename :: "string option"
  ck_passphrase :: "string option"
  ck_sock :: "string option"

datatype remote_op =
    Connect connect_kwargs
  | Exec string int
  | Open_sftp
  | Put string string
  | Chmod string int
  | Close

type_synonym host = "remote_op list \<Rightarrow> remote_op \<Rightarrow> exn + ssh_result"

record remote =
  rs_world :: world
  rs_trace :: "remote_op list"
  rs_sftp :: bool
  rs_logs :: "string list"

type_synonym 'a rop = "(remote, 'a) op"

definition start_remote :: "world \<Rightarrow> remote" where
  "start_remote w = \<lparr>rs_world = w, rs_trace = [], rs_sftp = False, rs_logs = []\<rparr>"

definition on_world :: "'a wop \<Rightarrow> 'a rop" where
  "on_world m s = (case m (rs_world s) of (r, w) \<Rightarrow> (r, s\<lparr>rs_world := w\<rparr>))"

definition send :: "host \<Rightarrow> remote_op \<Rightarrow> ssh_result rop" where
  "send h x s = (h (rs_trace s) x, s\<lparr>rs_trace := rs_trace s @ [x]\<rparr>)"

definition log_add :: "string \<Rightarrow> unit rop" where
  "log_add l = modify (\<lambda>s. s\<lparr>rs_logs := rs_logs s @ [l]\<rparr>)"

section \<open>Connection\<close>

text \<open>\<open>build_ssh_config\<close>\<close>

definition decrypt_opt :: "crypto \<Rightarrow> string option \<Rightarrow> exn + string option" where
  "decrypt_opt k v =
     (if truthy v then (case decrypt_secret k (str_or v []) of Inl e \<Rightarrow> Inl e | Inr x \<Rightarrow> Inr (Some x))
      else Inr None)"

definition build_ssh_config :: "settings \<Rightarrow> crypto \<Rightarrow> server \<Rightarrow> exn + ssh_config" where
  "build_ssh_config cfg k sv =
     (case decrypt_opt k (sv_ssh_password_encrypted sv) of
        Inl e \<Rightarrow> Inl e
      | Inr password \<Rightarrow>
          (case decrypt_opt k (sv_ssh_key_passphrase_encrypted sv) of
             Inl e \<Rightarrow> Inl e
           | Inr passphrase \<Rightarrow> Inr \<lparr>
               sg_hostname = str_or (sv_ip_address sv) (sv_hostname sv), sg_port = sv_ssh_port sv,
               sg_username = sv_ssh_user sv, sg_password = password,
               sg_key_path = sv_ssh_key_path sv, sg_key_passphrase = passphrase,
               sg_proxy_jump = sv_proxy_jump sv, sg_connect_timeout = ssh_connect_timeout cfg,
               sg_command_timeout = ssh_command_timeout cfg\<rparr>))"

text \<open>\<open>_build_proxy_socket\<close>\<close>

definition proxy_command :: "string \<Rightarrow> exn + string" where
  "proxy_command proxy_jump =
     (case validate_proxy_jump proxy_jump of
        Inl e \<Rightarrow> Inl e
      | Inr spec \<Rightarrow>
          (case py_rpartition CHR ''@'' spec of
             None \<Rightarrow> raises ValueError ''not enough values to unpack (expected 2, got 1)''
           | Some (user, hostport) \<Rightarrow>
               (let (host, p) = py_partition CHR '':'' hostport in
                case (if truthy p then py_int (str_or p []) else Inr 22) of
                  Inl e \<Rightarrow> Inl e
                | Inr port \<Rightarrow> Inr
                    (''ssh -o StrictHostKeyChecking=no -o UserKnownHostsFile=/dev/null -W '' @ host @ '':'' @
                     str_int port @ '' -p 22 '' @ user @ ''@'' @ host))))"

definition connect_args :: "ssh_config \<Rightarrow> (string \<rightharpoonup> string) \<Rightarrow> exn + connect_kwargs" where
  "connect_args c fs =
     (let has_key = truthy (sg_key_path c) \<and> fs (str_or (sg_key_path c) []) \<noteq> None in
      case (if truthy (sg_proxy_jump c) then map_sum id Some (proxy_command (str_or (sg_proxy_jump c) []))
            else Inr None) of
        Inl e \<Rightarrow> Inl e
      | Inr sock \<Rightarrow> Inr \<lparr>
          ck_hostname = sg_hostname c, ck_port = sg_port c, ck_username = sg_username c,
          ck_timeout = sg_connect_timeout c,
          ck_allow_agent = (sg_password c = None \<and> \<not> truthy (sg_key_path c)),
          ck_password = (if truthy (sg_password c) then sg_password c else None),
          ck_key_filename = (if has_key then sg_key_path c else None),
          ck_passphrase = (if has_key \<and> truthy (sg_key_passphrase c) then sg_key_passphrase c else None),
          ck_sock = sock\<rparr>)"

definition connect :: "(string \<Rightarrow> string) \<Rightarrow> host \<Rightarrow> ssh_config \<Rightarrow> unit rop" where
  "connect rd h c =
     catch_op (bnd (gets (\<lambda>s. connect_args c (files (rs_world s)))) (\<lambda>a.
               bnd (lift_exn a) (\<lambda>args.
               bnd (send h (Connect args)) (\<lambda>_. ret ()))))
       (\<lambda>e. fail SSHConnectionError (''Cannot connect to '' @ sg_username c @ ''@'' @ sg_hostname c @ '':'' @
              str_int (sg_port c) @ '': '' @ rd (exc_msg e)))"

definition close :: "unit rop" where
  "close = modify (\<lambda>s. s\<lparr>rs_trace := rs_trace s @ [Close], rs_sftp := False\<rparr>)"

text \<open>\<^verbatim>\<open>with SSHClient(build_ssh_config(server)) as ssh: body\<close>\<close>

definition finally_op :: "'a rop \<Rightarrow> unit rop \<Rightarrow> 'a rop" where
  "finally_op m fin s = (case m s of (r, s') \<Rightarrow> (r, snd (fin s')))"

definition with_ssh :: "ctx \<Rightarrow> host \<Rightarrow> server \<Rightarrow> (ssh_config \<Rightarrow> 'a rop) \<Rightarrow> 'a rop" where
  "with_ssh cx h sv body =
     bnd (lift_exn (build_ssh_config (cx_cfg cx) (cx_kc cx) sv)) (\<lambda>c.
     bnd (connect (cx_rdf cx) h c) (\<lambda>_.
     finally_op (body c) close))"

section \<open>Requests\<close>

definition ssh_exec :: "(string \<Rightarrow> string) \<Rightarrow> host \<Rightarrow> ssh_config \<Rightarrow> string \<Rightarrow> ssh_result rop" where
  "ssh_exec rd h c command =
     catch_op (bnd (send h (Exec command (sg_command_timeout c))) (\<lambda>r. ret (r\<lparr>sr_command := command\<rparr>)))
       (\<lambda>e. fail SSHConnectionError (''SSH command failed: '' @ rd (exc_msg e)))"

definition ensure_sftp :: "host \<Rightarrow> unit rop" where
  "ensure_sftp h =
     bnd (gets rs_sftp) (\<lambda>opened.
     if opened then ret ()
     else bnd (send h Open_sftp) (\<lambda>_. modify (\<lambda>s. s\<lparr>rs_sftp := True\<rparr>)))"

definition sftp_put_bytes :: "host \<Rightarrow> string \<Rightarrow> string \<Rightarrow> int \<Rightarrow> unit rop" where
  "sftp_put_bytes h data remote_path mode =
     bnd (ensure_sftp h) (\<lambda>_.
     bnd (send h (Put remote_path data)) (\<lambda>_.
     bnd (send h (Chmod remote_path mode)) (\<lambda>_. ret ())))"

definition sftp_put :: "host \<Rightarrow> string \<Rightarrow> string \<Rightarrow> int \<Rightarrow> unit rop" where
  "sftp_put h local_path remote_path mode =
     bnd (ensure_sftp h) (\<lambda>_.
     bnd (on_world (fs_read local_path)) (\<lambda>data.
     bnd (send h (Put remote_path data)) (\<lambda>_.
     bnd (send h (Chmod remote_path mode)) (\<lambda>_. ret ()))))"

text \<open>\<open>_quote\<close>\<close>

definition quote :: "string \<Rightarrow> string" where
  "quote path =
     concat (map (\<lambda>c. if c = CHR '' '' then [CHR 0x5C, CHR '' ''] else [c])
       (concat (map (\<lambda>c. if c = CHR 0x27 then [CHR 0x27, CHR 0x5C, CHR 0x27, CHR 0x27] else [c]) path)))"

definition sftp_mkdir_p :: "(string \<Rightarrow> string) \<Rightarrow> host \<Rightarrow> ssh_config \<Rightarrow> string \<Rightarrow> unit rop" where
  "sftp_mkdir_p rd h c remote_path =
     bnd (ssh_exec rd h c (''mkdir -p '' @ quote remote_path)) (\<lambda>_. ret ())"

end
