(* ===== verification/Deployment.thy ===== *)
theory Deployment
  imports Remote Tasks
begin

text \<open>
  \<open>app/services/deployment_service.py\<close>, the tasks of \<open>app/tasks/deployments.py\<close> and the two
  endpoints of \<open>app/api/v1/deployments.py\<close> that start work.  The template engine (jinja2), the
  remote host and the TLS handshake are the fields of a \<open>deploy_env\<close>.  A deployment runs in the
  state of \<open>Remote\<close>: the database, what was sent to the host, and the collected log.
\<close>

record tls_peer =
  tp_version :: string
  tp_not_after :: "datetime option"

record deploy_env =
  de_host :: host
  de_render :: "string \<Rightarrow> dict \<Rightarrow> exn + string"
  de_tls :: "string \<Rightarrow> string \<Rightarrow> int \<Rightarrow> exn + tls_peer"

section \<open>Templates and records\<close>

definition lf :: string where
  "lf = [CHR 0x0A]"

definition dq :: string where
  "dq = [CHR 0x22]"

definition DEFAULT_DEPLOY_SCRIPT :: string where
  "DEFAULT_DEPLOY_SCRIPT =
     ''set -e'' @ lf @
     ''# Deploy certificate material for {{ domain }}'' @ lf @
     ''install -m 0644 /tmp/certmgr_{{ cert_id }}/cert.pem {{ remote_cert_path }}'' @ lf @
     ''install -m 0600 /tmp/certmgr_{{ cert_id }}/privkey.pem {{ remote_key_path }}'' @ lf @
     ''{% if chain_path %}install -m 0644 /tmp/certmgr_{{ cert_id }}/chain.pem {{ remote_chain_path }}{% endif %}'' @ lf @
     ''chown {% if ownership %}{{ ownership }}{% else %}root:root{% endif %} {{ remote_cert_path }} {{ remote_key_path }}'' @ lf"

definition DEFAULT_BACKUP_SCRIPT :: string where
  "DEFAULT_BACKUP_SCRIPT =
     ''set -e'' @ lf @
     ''ts=$(date +%Y%m%d%H%M%S)'' @ lf @
     ''for f in {{ remote_cert_path }} {{ remote_key_path }} {% if remote_chain_path %}{{ remote_chain_path }}{% endif %}; do'' @ lf @
     ''  if [ -f '' @ dq @ ''$f'' @ dq @ '' ]; then'' @ lf @
     ''    mkdir -p {{ backup_dir }}'' @ lf @
     ''    cp -a '' @ dq @ ''$f'' @ dq @ '' '' @ dq @ ''{{ backup_dir }}/$(basename $f).$ts.bak'' @ dq @ lf @
     ''  fi'' @ lf @
     ''done'' @ lf @
     ''echo '' @ dq @ ''BACKUP_DIR={{ backup_dir }}'' @ dq @ lf"

definition DEFAULT_RELOAD :: string where
  "DEFAULT_RELOAD = ''systemctl reload {{ service }}''"

definition default_template :: "string \<Rightarrow> deployment_template" where
  "default_template target_type = \<lparr>
     dt_name = ''default-'' @ target_type, dt_target_type = target_type, dt_description = None,
     dt_pre_deploy_script = [], dt_backup_script = DEFAULT_BACKUP_SCRIPT,
     dt_deploy_script = DEFAULT_DEPLOY_SCRIPT, dt_post_deploy_script = [],
     dt_reload_command = Some DEFAULT_RELOAD, dt_verify_enabled = True, dt_rollback_enabled = True,
     dt_variables = [(''service'', target_type)], dt_is_active = True, dt_created_by = None\<rparr>"

text \<open>\<open>get_template\<close>; the name of a template is unique, so the flush of a default template fails
  when an inactive template has its name.\<close>

definition get_template :: "datetime \<Rightarrow> int option \<Rightarrow> string \<Rightarrow> int wop" where
  "get_template now template_id target_type =
     (if id_truthy template_id then
        bnd (db_get (\<lambda>d. tbl_get (or_default template_id 0) (deployment_templates d))) (\<lambda>t.
        case t of None \<Rightarrow> fail NotFoundError ''Deployment template not found''
        | Some _ \<Rightarrow> ret (or_default template_id 0))
      else
        bnd (db_get (\<lambda>d. rev (tbl_sel (\<lambda>w. dt_target_type (rval w) = target_type \<and> dt_is_active (rval w))
               (deployment_templates d)))) (\<lambda>ts.
        case ts of
          w # _ \<Rightarrow> ret (rid w)
        | [] \<Rightarrow>
            bnd (db_get (\<lambda>d. (next_id (deployment_templates d),
                   tbl_first (\<lambda>w. dt_name (rval w) = ''default-'' @ target_type) (deployment_templates d) \<noteq> None)))
              (\<lambda>(i, taken).
            if taken then fail IntegrityError ''UNIQUE constraint failed: deployment_templates.name''
            else bnd (db_mod (deployment_templates_update (\<lambda>t. snd (tbl_add now (default_template target_type) t))))
                   (\<lambda>_. ret i))))"

definition ALLOWED_SERVICE_NAMES :: "string list" where
  "ALLOWED_SERVICE_NAMES =
     [''nginx'', ''apache2'', ''httpd'', ''openvpn'', ''haproxy'', ''tomcat9'', ''tomcat10'',
      ''node'', ''nodejs'', ''certmgr'', ''sshd'']"

definition get_server :: "int \<Rightarrow> server wop" where
  "get_server i = bnd (db_get (\<lambda>d. tbl_get i (servers d))) (\<lambda>s.
     case s of None \<Rightarrow> fail NotFoundError ''Server not found'' | Some x \<Rightarrow> ret x)"

definition new_deployment :: "int \<Rightarrow> int \<Rightarrow> int \<Rightarrow> DeploymentMethod \<Rightarrow> string option \<Rightarrow> actor \<Rightarrow> deployment" where
  "new_deployment cid sid tid method target user = \<lparr>
     d_certificate_id = cid, d_server_id = sid, d_template_id = Some tid, d_method = method,
     d_target_service = target, d_remote_cert_path = None, d_remote_key_path = None,
     d_remote_chain_path = None, d_status = DeploymentStatus.PENDING, d_backup_path = None,
     d_log_path = None, d_verification = [], d_error_message = None, d_started_at = None,
     d_finished_at = None, d_created_by = map_option fst user\<rparr>"

record deploy_request =
  dq_certificate_id :: int
  dq_server_id :: int
  dq_template_id :: "int option"
  dq_target_service :: "string option"
  dq_method :: DeploymentMethod

text \<open>\<^verbatim>\<open>target_service or server.web_server_type\<close>\<close>

definition service_of :: "deploy_request \<Rightarrow> server \<Rightarrow> string option" where
  "service_of q sv = (if truthy (dq_target_service q) then dq_target_service q else sv_web_server_type sv)"

definition create_deployment_record :: "datetime \<Rightarrow> deploy_request \<Rightarrow> actor \<Rightarrow> int wop" where
  "create_deployment_record now q user =
     (if truthy (dq_target_service q) \<and> str_or (dq_target_service q) [] \<notin> set ALLOWED_SERVICE_NAMES then
        fail ValidationAppError (''target_service '' @ [CHR 0x27] @ str_or (dq_target_service q) [] @ [CHR 0x27] @
          '' is not in the allowed list'')
      else
        bnd (get_certificate (dq_certificate_id q)) (\<lambda>_.
        bnd (get_server (dq_server_id q)) (\<lambda>sv.
        bnd (get_template now (dq_template_id q) (str_or (service_of q sv) ''custom'')) (\<lambda>t.
        bnd (db_get (\<lambda>d. next_id (deployments d))) (\<lambda>i.
        bnd (db_mod (deployments_update (\<lambda>tb. snd (tbl_add now (new_deployment (dq_certificate_id q)
               (dq_server_id q) t (dq_method q) (service_of q sv) user) tb)))) (\<lambda>_.
        bnd commit (\<lambda>_. ret i)))))))"

definition upd_deployment :: "datetime \<Rightarrow> int \<Rightarrow> (deployment \<Rightarrow> deployment) \<Rightarrow> unit wop" where
  "upd_deployment now i f = db_mod (deployments_update (tbl_upd now i f))"

section \<open>Verification, execution record, log\<close>

record tls_check =
  tv_ok :: bool
  tv_checks :: dict
  tv_error :: "string option"

definition verify_remote_tls ::
    "(string \<Rightarrow> string \<Rightarrow> int \<Rightarrow> exn + tls_peer) \<Rightarrow> datetime \<Rightarrow> string \<Rightarrow> string \<Rightarrow> int \<Rightarrow> exn + tls_check" where
  "verify_remote_tls tls now host domain port =
     (case tls host domain port of
        Inl e \<Rightarrow> if exc_of e = OSError
                 then Inr \<lparr>tv_ok = False, tv_checks = [], tv_error = Some (exc_msg e)\<rparr> else Inl e
      | Inr p \<Rightarrow> Inr \<lparr>tv_ok = True,
          tv_checks = [(''tls_handshake'', JBool True), (''hostname'', JBool True), (''protocol'', JStr (tp_version p))] @
            (case tp_not_after p of None \<Rightarrow> []
             | Some t \<Rightarrow> let days = td_days (t - now) in
                 [(''expiry_days'', JInt days), (''expiry_ok'', JBool (0 < days))]),
          tv_error = None\<rparr>)"

definition check_json :: "tls_check \<Rightarrow> dict" where
  "check_json v = [(''ok'', JBool (tv_ok v)), (''checks'', JObj (tv_checks v))] @
     (case tv_error v of None \<Rightarrow> [] | Some e \<Rightarrow> [(''error'', JStr e)])"

text \<open>An INSERT with an explicit identifier.\<close>

definition tbl_add_at :: "datetime \<Rightarrow> int \<Rightarrow> 'r \<Rightarrow> 'r table \<Rightarrow> 'r table" where
  "tbl_add_at now i r t =
     t\<lparr>rows := rows t @ [\<lparr>rid = i, created_at = now, updated_at = now, rval = r\<rparr>],
       next_id := max (next_id t) (i + 1)\<rparr>"

definition record_execution ::
    "datetime \<Rightarrow> int \<Rightarrow> int option \<Rightarrow> string \<Rightarrow> int \<Rightarrow> int \<Rightarrow> int \<Rightarrow> actor \<Rightarrow> JobTrigger \<Rightarrow> JobStatus \<Rightarrow> unit wop" where
  "record_execution now elapsed execution_id error exit_code cid sid user trigger status =
     (let err = (if error = [] then None else Some (take 4000 error));
          i = or_default execution_id 0;
          exec_row = (new_job JobType.DEPLOY (Some cid) trigger status now user)\<lparr>
            j_server_id := Some sid, j_exit_code := Some exit_code, j_error_message := err,
            j_execution_time_ms := Some elapsed, j_finished_at := Some now\<rparr> in
      bnd (db_get (\<lambda>d. id_truthy execution_id \<and> tbl_get i (job_executions d) \<noteq> None)) (\<lambda>existing.
      if existing then
        upd_job now i (\<lambda>x. x\<lparr>j_status := status, j_exit_code := Some exit_code,
          j_error_message := err, j_finished_at := Some now\<rparr>)
      else if id_truthy execution_id then db_mod (job_executions_update (tbl_add_at now i exec_row))
      else db_mod (job_executions_update (\<lambda>t. snd (tbl_add now exec_row t)))))"

definition persist_log :: "settings \<Rightarrow> int \<Rightarrow> string rop" where
  "persist_log cfg i =
     bnd (gets rs_logs) (\<lambda>lines.
     let path = log_root cfg @ ''/deployments/deploy-'' @ str_int i @ ''.log'';
         text = py_join lf lines in
     bnd (on_world (fs_write path (if text = [] then ''- no output -'' else text))) (\<lambda>_. ret path))"

section \<open>Rollback\<close>

definition restore_command :: "string \<Rightarrow> string \<Rightarrow> string" where
  "restore_command backup_dir target =
     ''latest=$(ls -t '' @ backup_dir @ ''/$(basename '' @ target @ '').*.bak 2>/dev/null | head -1); '' @
     ''if [ -n '' @ dq @ ''$latest'' @ dq @ '' ]; then cp -a '' @ dq @ ''$latest'' @ dq @ '' '' @ target @ ''; fi''"

definition rolled_back :: "datetime \<Rightarrow> int \<Rightarrow> unit rop" where
  "rolled_back now i =
     bnd (on_world (upd_deployment now i (\<lambda>d. d\<lparr>d_status := DeploymentStatus.ROLLED_BACK\<rparr>))) (\<lambda>_.
     on_world commit)"

definition restore_targets :: "deployment \<Rightarrow> string list" where
  "restore_targets d = map (\<lambda>t. str_or t [])
     (filter truthy [d_remote_cert_path d, d_remote_key_path d, d_remote_chain_path d])"

definition rollback_deployment :: "ctx \<Rightarrow> deploy_env \<Rightarrow> datetime \<Rightarrow> int \<Rightarrow> deployment \<Rightarrow> server \<Rightarrow> unit rop" where
  "rollback_deployment cx env now i d sv =
     catch_op
       (with_ssh cx (de_host env) sv (\<lambda>c.
          if \<not> truthy (d_backup_path d) then ret ()
          else
            bnd (for_each (restore_targets d) (\<lambda>target.
              bnd (ssh_exec (cx_rdf cx) (de_host env) c (restore_command (str_or (d_backup_path d) []) target)) (\<lambda>res.
              log_add (''[rollback] rc='' @ str_int (sr_exit_code res) @ '' -> '' @ target)))) (\<lambda>_.
            rolled_back now i)))
       (\<lambda>e. if exc_of e = SSHConnectionError then rolled_back now i else throw e)"

section \<open>Deployment\<close>

definition dict_update :: "dict \<Rightarrow> (string \<times> string) list \<Rightarrow> dict" where
  "dict_update d vs = foldl (\<lambda>d (key, v). dict_set key (JStr v) d) d vs"

definition vars_ctx :: "int \<Rightarrow> certificate \<Rightarrow> server \<Rightarrow> deployment \<Rightarrow> deployment_template \<Rightarrow> dict" where
  "vars_ctx cid cert sv dep tmpl = dict_update
     [(''domain'', JStr (c_domain cert)), (''cert_id'', JInt cid),
      (''remote_cert_path'', JStr (str_or (d_remote_cert_path dep) (''/etc/ssl/certs/'' @ c_domain cert @ ''.crt''))),
      (''remote_key_path'', JStr (str_or (d_remote_key_path dep) (''/etc/ssl/private/'' @ c_domain cert @ ''.key''))),
      (''remote_chain_path'', JStr (str_or (d_remote_chain_path dep) (''/etc/ssl/certs/'' @ c_domain cert @ ''.chain.crt''))),
      (''service'', JStr (if truthy (d_target_service dep) then str_or (d_target_service dep) []
                          else str_or (sv_web_server_type sv) ''nginx'')),
      (''backup_dir'', JStr (''/var/backups/certmgr/'' @ c_domain cert)),
      (''server'', JStr (sv_hostname sv)), (''ownership'', JNull),
      (''environment'', JStr (c_environment cert))]
     (dt_variables tmpl)"

definition ctx_str :: "dict \<Rightarrow> string \<Rightarrow> string" where
  "ctx_str d key = json_str (dict_get d key) []"

record rendered =
  rn_pre_deploy_script :: string
  rn_backup_script :: string
  rn_deploy_script :: string
  rn_post_deploy_script :: string
  rn_reload_command :: string

definition render_all :: "(string \<Rightarrow> dict \<Rightarrow> exn + string) \<Rightarrow> deployment_template \<Rightarrow> dict \<Rightarrow> rendered rop" where
  "render_all rnd tmpl vars =
     bnd (lift_exn (rnd (dt_pre_deploy_script tmpl) vars)) (\<lambda>a.
     bnd (lift_exn (rnd (dt_backup_script tmpl) vars)) (\<lambda>b.
     bnd (lift_exn (rnd (dt_deploy_script tmpl) vars)) (\<lambda>c.
     bnd (lift_exn (rnd (dt_post_deploy_script tmpl) vars)) (\<lambda>d.
     bnd (lift_exn (rnd (str_or (dt_reload_command tmpl) []) vars)) (\<lambda>e.
     ret \<lparr>rn_pre_deploy_script = a, rn_backup_script = b, rn_deploy_script = c,
          rn_post_deploy_script = d, rn_reload_command = e\<rparr>)))))"

text \<open>What one run works on: the objects that the code holds in local variables.\<close>

record job =
  jb_deployment :: int
  jb_cert_id :: int
  jb_cert :: certificate
  jb_server_id :: int
  jb_server :: server
  jb_template :: deployment_template
  jb_vars :: dict
  jb_rendered :: rendered

definition remote_tmp :: "job \<Rightarrow> string" where
  "remote_tmp jb = ''/tmp/certmgr_'' @ str_int (jb_cert_id jb)"

text \<open>\<^verbatim>\<open>res = ssh.exec(cmd); logs.append(...)\<close>\<close>

definition run_step :: "ctx \<Rightarrow> host \<Rightarrow> ssh_config \<Rightarrow> string \<Rightarrow> string \<Rightarrow> ssh_result rop" where
  "run_step cx h c label command =
     bnd (ssh_exec (cx_rdf cx) h c command) (\<lambda>res.
     bnd (log_add (''['' @ label @ ''] rc='' @ str_int (sr_exit_code res) @ lf @ sr_stdout res @ lf @ sr_stderr res))
       (\<lambda>_. ret res))"

definition must_succeed :: "ssh_result \<Rightarrow> string \<Rightarrow> unit rop" where
  "must_succeed res message =
     (if sr_exit_code res \<noteq> 0 then fail DeploymentError (message @ last_n 1000 (sr_stderr res)) else ret ())"

definition stage_pre :: "ctx \<Rightarrow> host \<Rightarrow> ssh_config \<Rightarrow> job \<Rightarrow> unit rop" where
  "stage_pre cx h c jb =
     (let cmd = rn_pre_deploy_script (jb_rendered jb) in
      when_op (cmd \<noteq> []) (bnd (run_step cx h c ''pre-deploy'' cmd) (\<lambda>_. ret ())))"

definition stage_files :: "ctx \<Rightarrow> host \<Rightarrow> ssh_config \<Rightarrow> job \<Rightarrow> unit rop" where
  "stage_files cx h c jb =
     (let cert = jb_cert jb; tmp = remote_tmp jb in
      bnd (sftp_mkdir_p (cx_rdf cx) h c tmp) (\<lambda>_.
      bnd (sftp_put h (str_or (c_cert_path cert) []) (tmp @ ''/cert.pem'') 420) (\<lambda>_.
      bnd (on_world (if truthy (c_key_path cert) then has_private_key (c_key_path cert) else ret False)) (\<lambda>has.
      bnd (if has then
             bnd (on_world (read_private_key (cx_kc cx) (str_or (c_key_path cert) []))) (\<lambda>key_pem.
             sftp_put_bytes h key_pem (tmp @ ''/privkey.pem'') 384)
           else fail DeploymentError ''Certificate has no private key - cannot deploy'') (\<lambda>_.
      bnd (on_world (opt_exists (c_chain_path cert))) (\<lambda>chain.
      bnd (on_world (opt_exists (c_fullchain_path cert))) (\<lambda>fullchain.
      if chain then sftp_put h (str_or (c_chain_path cert) []) (tmp @ ''/chain.pem'') 420
      else if fullchain then sftp_put h (str_or (c_fullchain_path cert) []) (tmp @ ''/chain.pem'') 420
      else ret ())))))))"

definition stage_backup :: "ctx \<Rightarrow> host \<Rightarrow> ssh_config \<Rightarrow> datetime \<Rightarrow> job \<Rightarrow> unit rop" where
  "stage_backup cx h c now jb =
     (let cmd = rn_backup_script (jb_rendered jb) in
      when_op (cmd \<noteq> [])
        (bnd (run_step cx h c ''backup'' cmd) (\<lambda>res.
         bnd (must_succeed res (''Backup failed on '' @ sv_hostname (jb_server jb) @ '': '')) (\<lambda>_.
         on_world (upd_deployment now (jb_deployment jb) (\<lambda>d. d\<lparr>d_backup_path := Some (ctx_str (jb_vars jb) ''backup_dir'')\<rparr>))))))"

definition install_commands :: "job \<Rightarrow> string list" where
  "install_commands jb =
     [''install -m 0644 '' @ remote_tmp jb @ ''/cert.pem '' @ ctx_str (jb_vars jb) ''remote_cert_path'',
      ''install -m 0600 '' @ remote_tmp jb @ ''/privkey.pem '' @ ctx_str (jb_vars jb) ''remote_key_path''] @
     (if truthy (c_chain_path (jb_cert jb))
      then [''install -m 0644 '' @ remote_tmp jb @ ''/chain.pem '' @ ctx_str (jb_vars jb) ''remote_chain_path''] else [])"

definition stage_deploy :: "ctx \<Rightarrow> host \<Rightarrow> ssh_config \<Rightarrow> job \<Rightarrow> unit rop" where
  "stage_deploy cx h c jb =
     (let cmd = rn_deploy_script (jb_rendered jb) in
      if cmd \<noteq> [] then
        bnd (run_step cx h c ''deploy'' cmd) (\<lambda>res. must_succeed res ''Deploy script failed: '')
      else for_each (install_commands jb) (\<lambda>cmd.
        bnd (ssh_exec (cx_rdf cx) h c cmd) (\<lambda>res.
        log_add (''[install] rc='' @ str_int (sr_exit_code res) @ '' '' @ cmd))))"

definition stage_post :: "ctx \<Rightarrow> host \<Rightarrow> ssh_config \<Rightarrow> job \<Rightarrow> unit rop" where
  "stage_post cx h c jb =
     (let post = rn_post_deploy_script (jb_rendered jb); reload = rn_reload_command (jb_rendered jb) in
      bnd (when_op (post \<noteq> []) (bnd (run_step cx h c ''post-deploy'' post) (\<lambda>_. ret ()))) (\<lambda>_.
      when_op (reload \<noteq> [])
        (bnd (run_step cx h c ''reload'' reload) (\<lambda>res. must_succeed res ''Service reload failed: ''))))"

definition stage_verify :: "ctx \<Rightarrow> deploy_env \<Rightarrow> datetime \<Rightarrow> job \<Rightarrow> unit rop" where
  "stage_verify cx env now jb =
     when_op (dt_verify_enabled (jb_template jb) \<and> deployment_verify_enabled (cx_cfg cx))
       (bnd (lift_exn (verify_remote_tls (de_tls env) now (sv_hostname (jb_server jb)) (c_domain (jb_cert jb)) 443)) (\<lambda>v.
        bnd (on_world (upd_deployment now (jb_deployment jb) (\<lambda>d. d\<lparr>d_verification := check_json v\<rparr>))) (\<lambda>_.
        if \<not> tv_ok v then fail DeploymentError (''TLS verification failed: '' @ fstr (tv_error v)) else ret ())))"

definition stage_cleanup :: "ctx \<Rightarrow> host \<Rightarrow> ssh_config \<Rightarrow> job \<Rightarrow> unit rop" where
  "stage_cleanup cx h c jb =
     catch_op (bnd (ssh_exec (cx_rdf cx) h c (''rm -rf '' @ remote_tmp jb)) (\<lambda>_. ret ())) (\<lambda>_. ret ())"

definition deploy_session :: "ctx \<Rightarrow> deploy_env \<Rightarrow> datetime \<Rightarrow> job \<Rightarrow> ssh_config \<Rightarrow> unit rop" where
  "deploy_session cx env now jb c =
     (let h = de_host env in
      bnd (stage_pre cx h c jb) (\<lambda>_.
      bnd (stage_files cx h c jb) (\<lambda>_.
      bnd (stage_backup cx h c now jb) (\<lambda>_.
      bnd (stage_deploy cx h c jb) (\<lambda>_.
      bnd (stage_post cx h c jb) (\<lambda>_.
      bnd (stage_verify cx env now jb) (\<lambda>_.
      stage_cleanup cx h c jb)))))))"

definition audit_deploy :: "ctx \<Rightarrow> datetime \<Rightarrow> actor \<Rightarrow> int \<Rightarrow> AuditResult \<Rightarrow> dict \<Rightarrow> unit wop" where
  "audit_deploy cx now user cid res details = audit_cert cx now ''certificate.deploy'' user cid res None details"

definition close_deployment ::
    "ctx \<Rightarrow> datetime \<Rightarrow> job \<Rightarrow> DeploymentStatus \<Rightarrow> string option \<Rightarrow> unit rop" where
  "close_deployment cx now jb status error =
     bnd (persist_log (cx_cfg cx) (jb_deployment jb)) (\<lambda>path.
     bnd (on_world (upd_deployment now (jb_deployment jb) (\<lambda>d. d\<lparr>d_status := status,
            d_error_message := (case error of None \<Rightarrow> d_error_message d | Some m \<Rightarrow> Some m),
            d_finished_at := Some now, d_log_path := Some path\<rparr>))) (\<lambda>_.
     on_world commit))"

definition deploy_ok :: "ctx \<Rightarrow> datetime \<Rightarrow> int \<Rightarrow> job \<Rightarrow> deploy_request \<Rightarrow> actor \<Rightarrow> JobTrigger \<Rightarrow> int option \<Rightarrow> unit rop" where
  "deploy_ok cx now elapsed jb q user trigger execution_id =
     (let host = sv_hostname (jb_server jb) in
      bnd (close_deployment cx now jb DeploymentStatus.SUCCESS None) (\<lambda>_.
      bnd (on_world (audit_deploy cx now user (jb_cert_id jb) AuditResult.SUCCESS
             [(''server'', JStr host), (''method'', JStr (DeploymentMethod_value (dq_method q)))])) (\<lambda>_.
      bnd (on_world (queue_event_notifications (cx_nt cx) (cx_kc cx) now ''deployed''
             (Some (jb_cert_id jb, jb_cert jb)) [(''server'', host)])) (\<lambda>_.
      on_world (record_execution now elapsed execution_id [] 0 (jb_cert_id jb) (jb_server_id jb) user trigger JobStatus.SUCCESS)))))"

definition deploy_failed ::
    "ctx \<Rightarrow> deploy_env \<Rightarrow> datetime \<Rightarrow> int \<Rightarrow> job \<Rightarrow> actor \<Rightarrow> JobTrigger \<Rightarrow> int option \<Rightarrow> exn \<Rightarrow> unit rop" where
  "deploy_failed cx env now elapsed jb user trigger execution_id e =
     (let host = sv_hostname (jb_server jb); msg = exc_msg e in
      bnd (close_deployment cx now jb DeploymentStatus.FAILED (Some (take 4000 msg))) (\<lambda>_.
      bnd (on_world (audit_deploy cx now user (jb_cert_id jb) AuditResult.FAILURE
             [(''server'', JStr host), (''error'', JStr (take 500 msg))])) (\<lambda>_.
      bnd (on_world (queue_event_notifications (cx_nt cx) (cx_kc cx) now ''deployment_failed''
             (Some (jb_cert_id jb, jb_cert jb)) [(''server'', host), (''error'', take 300 msg)])) (\<lambda>_.
      bnd (on_world (record_execution now elapsed execution_id (take 4000 msg) 1 (jb_cert_id jb) (jb_server_id jb)
             user trigger JobStatus.FAILED)) (\<lambda>_.
      when_op (dt_rollback_enabled (jb_template jb) \<and> deployment_rollback_enabled (cx_cfg cx))
        (bnd (on_world (db_get (\<lambda>d. tbl_get (jb_deployment jb) (deployments d)))) (\<lambda>row.
         case row of
           None \<Rightarrow> fail AttributeError ''deployment''
         | Some d \<Rightarrow> rollback_deployment cx env now (jb_deployment jb) d (jb_server jb))))))))"

definition run_deployment ::
    "ctx \<Rightarrow> deploy_env \<Rightarrow> datetime \<Rightarrow> int \<Rightarrow> job \<Rightarrow> deploy_request \<Rightarrow> actor \<Rightarrow> JobTrigger \<Rightarrow> int option \<Rightarrow> unit rop" where
  "run_deployment cx env now elapsed jb q user trigger execution_id =
     catch_op
       (bnd (with_ssh cx (de_host env) (jb_server jb) (deploy_session cx env now jb)) (\<lambda>_.
        deploy_ok cx now elapsed jb q user trigger execution_id))
       (\<lambda>e. if exc_of e \<in> {SSHConnectionError, DeploymentError}
            then deploy_failed cx env now elapsed jb user trigger execution_id e else throw e)"

definition start_deployment :: "deploy_env \<Rightarrow> datetime \<Rightarrow> int \<Rightarrow> int \<Rightarrow> certificate \<Rightarrow> int \<Rightarrow> server \<Rightarrow> deployment
      \<Rightarrow> deployment_template \<Rightarrow> job rop" where
  "start_deployment env now i cid cert sid sv dep tmpl =
     bnd (on_world (upd_deployment now i (\<lambda>d. d\<lparr>d_status := DeploymentStatus.RUNNING, d_started_at := Some now\<rparr>))) (\<lambda>_.
     bnd (on_world commit) (\<lambda>_.
     let vars = vars_ctx cid cert sv dep tmpl in
     bnd (render_all (de_render env) tmpl vars) (\<lambda>rn.
     bnd (on_world (upd_deployment now i (\<lambda>d. d\<lparr>d_remote_cert_path := Some (ctx_str vars ''remote_cert_path''),
            d_remote_key_path := Some (ctx_str vars ''remote_key_path''),
            d_remote_chain_path := Some (ctx_str vars ''remote_chain_path'')\<rparr>))) (\<lambda>_.
     bnd (on_world commit) (\<lambda>_.
     ret \<lparr>jb_deployment = i, jb_cert_id = cid, jb_cert = cert, jb_server_id = sid, jb_server = sv,
          jb_template = tmpl, jb_vars = vars, jb_rendered = rn\<rparr>)))))"

definition the_deployment :: "int \<Rightarrow> (deployment \<times> deployment_template) wop" where
  "the_deployment i =
     bnd (db_get (\<lambda>d. tbl_get i (deployments d))) (\<lambda>dep.
     case dep of None \<Rightarrow> fail AttributeError ''deployment''
     | Some x \<Rightarrow>
         bnd (db_get (\<lambda>d. tbl_get (or_default (d_template_id x) 0) (deployment_templates d))) (\<lambda>t.
         case t of None \<Rightarrow> fail AttributeError ''template'' | Some t \<Rightarrow> ret (x, t)))"

definition deploy_certificate ::
    "ctx \<Rightarrow> deploy_env \<Rightarrow> datetime \<Rightarrow> int \<Rightarrow> deploy_request \<Rightarrow> actor \<Rightarrow> JobTrigger \<Rightarrow> int option \<Rightarrow> int rop" where
  "deploy_certificate cx env now elapsed q user trigger execution_id =
     (let cid = dq_certificate_id q; sid = dq_server_id q in
      bnd (on_world (create_deployment_record now q user)) (\<lambda>i.
      bnd (on_world (get_certificate cid)) (\<lambda>cert.
      bnd (on_world (get_server sid)) (\<lambda>sv.
      bnd (on_world (the_deployment i)) (\<lambda>(dep, tmpl).
      bnd (on_world (opt_exists (c_cert_path cert))) (\<lambda>material.
      if \<not> material then
        bnd (on_world (upd_deployment now i (\<lambda>d. d\<lparr>d_status := DeploymentStatus.FAILED,
               d_error_message := Some ''Certificate material missing on platform''\<rparr>))) (\<lambda>_.
        bnd (on_world commit) (\<lambda>_.
        bnd (on_world (record_execution now elapsed execution_id ''missing material'' 1 cid sid user trigger JobStatus.FAILED))
          (\<lambda>_. ret i)))
      else
        bnd (start_deployment env now i cid cert sid sv dep tmpl) (\<lambda>jb.
        bnd (run_deployment cx env now elapsed jb q user trigger execution_id) (\<lambda>_. ret i))))))))"

section \<open>Tasks and endpoints\<close>

text \<open>\<open>session_scope\<close> around an operation on the remote state.\<close>

definition remote_session :: "'a rop \<Rightarrow> 'a rop" where
  "remote_session body s =
     (case body s of
        (Inr x, s') \<Rightarrow> (Inr x, s'\<lparr>rs_world := snd (commit (rs_world s'))\<rparr>)
      | (Inl e, s') \<Rightarrow> (Inl e, s'\<lparr>rs_world := snd (rollback (rs_world s'))\<rparr>))"

definition deploy_task :: "ctx \<Rightarrow> deploy_env \<Rightarrow> datetime \<Rightarrow> int \<Rightarrow> deploy_request \<Rightarrow> int option \<Rightarrow> int rop" where
  "deploy_task cx env now elapsed q execution_id =
     remote_session (bnd (on_world (ensure_not_maintenance now ''background job'')) (\<lambda>_.
       deploy_certificate cx env now elapsed q None JobTrigger.API execution_id))"

text \<open>\<^verbatim>\<open>deployment.server\<close>; the foreign key keeps it present.\<close>

definition rollback_row :: "ctx \<Rightarrow> deploy_env \<Rightarrow> datetime \<Rightarrow> int \<Rightarrow> deployment \<Rightarrow> unit rop" where
  "rollback_row cx env now i d =
     bnd (on_world (get_server (d_server_id d))) (\<lambda>sv. rollback_deployment cx env now i d sv)"

definition rollback_task :: "ctx \<Rightarrow> deploy_env \<Rightarrow> datetime \<Rightarrow> int \<Rightarrow> bool rop" where
  "rollback_task cx env now i =
     remote_session (bnd (on_world (ensure_not_maintenance now ''background job'')) (\<lambda>_.
       bnd (on_world (db_get (\<lambda>d. tbl_get i (deployments d)))) (\<lambda>row.
       case row of None \<Rightarrow> ret False
       | Some d \<Rightarrow> bnd (rollback_row cx env now i d) (\<lambda>_. ret True))))"

text \<open>\<^verbatim>\<open>POST /deployments\<close>: the identifier in the answer and, outside the eager mode, the message
  that \<open>enqueue_deploy\<close> hands to the workers.\<close>

definition post_deploy ::
    "ctx \<Rightarrow> deploy_env \<Rightarrow> datetime \<Rightarrow> int \<Rightarrow> api_user \<Rightarrow> string option \<Rightarrow> string option \<Rightarrow> deploy_request
      \<Rightarrow> (int \<times> deploy_request option) rop" where
  "post_deploy cx env now elapsed user ip agent q =
     (let actor = Some (au_id user, au_username user) in
      if \<not> has_permission (au_role user) (P_at (''cert'', ''deploy'')) then
        fail PermissionDeniedError ''You are not authorized to deploy certificates''
      else
        bnd (on_world (ensure_not_maintenance now ''deployment'')) (\<lambda>_.
        if celery_task_always_eager (cx_cfg cx) then
          bnd (deploy_certificate cx env now elapsed q actor JobTrigger.API None) (\<lambda>i. ret (i, None))
        else
          bnd (on_world (create_deployment_record now q actor)) (\<lambda>i.
          bnd (on_world (audit_admin (cx_rdf cx) now ''certificate.deploy'' user
                 (Some (''certificate'', str_int (dq_certificate_id q))) ip agent
                 [(''server_id'', JInt (dq_server_id q)), (''method'', JStr (DeploymentMethod_value (dq_method q))),
                  (''status'', JStr ''queued'')])) (\<lambda>_.
          ret (i, Some q)))))"

text \<open>\<^verbatim>\<open>POST /deployments/{id}/rollback\<close>.  Outside the eager mode it calls \<^verbatim>\<open>rollback_async.delay\<close>;
  \<open>rollback_async\<close> is a plain function, which has no such attribute.\<close>

definition post_rollback ::
    "ctx \<Rightarrow> deploy_env \<Rightarrow> datetime \<Rightarrow> api_user \<Rightarrow> string option \<Rightarrow> string option \<Rightarrow> int \<Rightarrow> DeploymentStatus rop" where
  "post_rollback cx env now user ip agent i =
     (if \<not> has_permission (au_role user) (P_at (''cert'', ''deploy'')) then
        fail PermissionDeniedError ''You are not authorized to roll back deployments''
      else
        bnd (on_world (db_get (\<lambda>d. tbl_get i (deployments d)))) (\<lambda>row.
        case row of
          None \<Rightarrow> fail NotFoundError ''Deployment not found''
        | Some d \<Rightarrow>
            if celery_task_always_eager (cx_cfg cx) then
              bnd (rollback_row cx env now i d) (\<lambda>_.
              bnd (on_world (db_get (\<lambda>d. tbl_get i (deployments d)))) (\<lambda>row2.
              case row2 of
                None \<Rightarrow> fail AttributeError ''status''
              | Some d2 \<Rightarrow>
                  bnd (on_world (audit_admin (cx_rdf cx) now ''deployment.rollback'' user
                         (Some (''deployment'', str_int i)) ip agent [])) (\<lambda>_.
                  ret (d_status d2))))
            else fail AttributeError ''delay''))"


end
