(* ===== verification/Servers.thy ===== *)
theory Servers
  imports Deployment
begin

text \<open>
  \<open>app/services/server_service.py\<close> and \<open>app/api/v1/servers.py\<close>: the server inventory and the
  restricted remote command center.  The allowlist is a list of regular expressions over
  \<open>Py_Re\<close>; an accepted command is proved free of shell metacharacters, and what the command
  center sends to a host is the accepted command and nothing else.
\<close>

section \<open>The command allowlist\<close>

primrec lit_str :: "string \<Rightarrow> re" where
  "lit_str [] = Eps"
| "lit_str (c # cs) = Seq (lit c) (lit_str cs)"

primrec alt_list :: "re \<Rightarrow> re list \<Rightarrow> re" where
  "alt_list r [] = r"
| "alt_list r (q # qs) = Alt r (alt_list q qs)"

definition name_char :: "char \<Rightarrow> bool" where
  "name_char c \<longleftrightarrow> is_alnum_ascii c \<or> c \<in> set ''_.-''"

definition path_char :: "char \<Rightarrow> bool" where
  "path_char c \<longleftrightarrow> is_alnum_ascii c \<or> c \<in> set ''_./-''"

definition letter :: "char \<Rightarrow> bool" where
  "letter c \<longleftrightarrow> py_islower_ascii c \<or> py_isupper_ascii c"

definition CERT_DIRS :: re where
  "CERT_DIRS = alt_list (lit_str ''/etc/ssl'') (map lit_str
     [''/etc/letsencrypt'', ''/etc/pki'', ''/etc/nginx'', ''/etc/httpd'', ''/etc/apache2'', ''/etc/openvpn''])"

definition SAFE_SUBPATH :: re where
  "SAFE_SUBPATH = opt_re (Seq (lit CHR ''/'') (Star (Cls path_char)))"

definition SERVICE_NAME :: re where
  "SERVICE_NAME = plus_re (Cls name_char)"

definition anchored :: "re \<Rightarrow> re" where
  "anchored r = Seq Bol (Seq r Eol)"

definition ALLOWED_COMMAND_PATTERNS :: "(string \<times> re) list" where
  "ALLOWED_COMMAND_PATTERNS =
     [(''view_cert_files'', anchored (Seq (alt_list (lit_str ''cat'') (map lit_str [''ls -la'', ''head -5'', ''tail -5'']))
         (Seq (lit CHR '' '') (Seq CERT_DIRS SAFE_SUBPATH)))),
      (''check_permissions'', anchored (Seq (lit_str ''ls -la '') (Seq CERT_DIRS SAFE_SUBPATH))),
      (''check_ownership'', anchored (Seq (lit_str ''stat -c %'') (Seq (plus_re (Cls letter))
         (Seq (lit CHR '' '') (Seq CERT_DIRS SAFE_SUBPATH))))),
      (''view_service_logs'', anchored (Seq (lit_str ''journalctl -u '') SERVICE_NAME)),
      (''view_nginx_logs'', anchored (Seq (lit_str ''tail -n 200 /var/log/nginx'')
         (opt_re (Seq (lit CHR ''/'') (plus_re (Cls name_char)))))),
      (''view_apache_logs'', anchored (Seq (lit_str ''tail -n 200 /var/log/apache2'')
         (opt_re (Seq (lit CHR ''/'') (plus_re (Cls name_char)))))),
      (''service_status'', anchored (Seq (lit_str ''systemctl '')
         (Seq (alt_list (lit_str ''is-active'') [lit_str ''status'']) (Seq (lit CHR '' '') SERVICE_NAME)))),
      (''restart_service'', anchored (Seq (lit_str ''systemctl restart '') SERVICE_NAME)),
      (''reload_service'', anchored (Seq (lit_str ''systemctl reload '') SERVICE_NAME)),
      (''stop_service'', anchored (Seq (lit_str ''systemctl stop '') SERVICE_NAME)),
      (''start_service'', anchored (Seq (lit_str ''systemctl start '') SERVICE_NAME)),
      (''whoami'', anchored (lit_str ''whoami'')),
      (''uptime'', anchored (lit_str ''uptime'')),
      (''disk_space'', anchored (lit_str ''df -h'')),
      (''memory'', anchored (lit_str ''free -h''))]"

definition validate_remote_command :: "string \<Rightarrow> exn + string" where
  "validate_remote_command command =
     (let cmd = py_strip command in
      if cmd = [] \<or> 512 < length cmd then raises ValidationAppError ''Command is empty or too long''
      else case find (\<lambda>(name, pattern). re_match pattern cmd) ALLOWED_COMMAND_PATTERNS of
             Some (name, _) \<Rightarrow> Inr name
           | None \<Rightarrow> raises ValidationAppError ''Command is not in the allowed maintenance allowlist'')"

section \<open>Inventory\<close>

text \<open>The dumped \<open>ServerCreate\<close> body, with the two keys the service reads beyond it.\<close>

record server_payload =
  sp_hostname :: string
  sp_ip_address :: "string option"
  sp_environment :: string
  sp_os_type :: string
  sp_ssh_port :: int
  sp_auth_method :: string
  sp_ssh_user :: string
  sp_ssh_password :: "string option"
  sp_ssh_key_path :: "string option"
  sp_ssh_key_passphrase :: "string option"
  sp_proxy_jump :: "string option"
  sp_jump_host :: "string option"
  sp_certificate_directory :: "string option"
  sp_web_server_type :: "string option"
  sp_owner_id :: "int option"
  sp_tags :: "string list"
  sp_notes :: "string option"
  sp_capabilities :: dict

definition encrypt_opt :: "crypto \<Rightarrow> string \<Rightarrow> string option \<Rightarrow> string option" where
  "encrypt_opt k iv v = (if truthy v then Some (encrypt_secret k iv (str_or v [])) else None)"

definition server_row :: "crypto \<Rightarrow> string \<Rightarrow> string \<Rightarrow> int \<Rightarrow> server_payload \<Rightarrow> server" where
  "server_row k iv hostname port p = \<lparr>
     sv_hostname = hostname, sv_ip_address = sp_ip_address p, sv_environment = sp_environment p,
     sv_os_type = sp_os_type p, sv_ssh_port = port, sv_auth_method = sp_auth_method p,
     sv_ssh_user = sp_ssh_user p, sv_ssh_password_encrypted = encrypt_opt k iv (sp_ssh_password p),
     sv_ssh_key_path = sp_ssh_key_path p,
     sv_ssh_key_passphrase_encrypted = encrypt_opt k iv (sp_ssh_key_passphrase p),
     sv_proxy_jump = sp_proxy_jump p, sv_jump_host = sp_jump_host p,
     sv_certificate_directory = sp_certificate_directory p, sv_web_server_type = sp_web_server_type p,
     sv_owner_id = sp_owner_id p, sv_tags = [], sv_connection_status = ConnectionStatus.UNKNOWN,
     sv_last_check_at = None, sv_notes = sp_notes p, sv_capabilities = sp_capabilities p\<rparr>"

definition upd_server :: "datetime \<Rightarrow> int \<Rightarrow> (server \<Rightarrow> server) \<Rightarrow> unit wop" where
  "upd_server now i f = db_mod (servers_update (tbl_upd now i f))"

definition find_tag :: "string \<Rightarrow> db \<Rightarrow> int option" where
  "find_tag name d = map_option rid (tbl_first (\<lambda>w. tag_name (rval w) = name) (tags d))"

definition add_server_tag :: "datetime \<Rightarrow> int \<Rightarrow> string \<Rightarrow> unit wop" where
  "add_server_tag now i name =
     bnd (db_get (find_tag name)) (\<lambda>found.
     bnd (case found of
            Some t \<Rightarrow> ret t
          | None \<Rightarrow> bnd (db_get (\<lambda>d. next_id (tags d))) (\<lambda>t.
              bnd (db_mod (tags_update (\<lambda>tb. snd (tbl_add now \<lparr>tag_name = name, tag_color = ''#3f51b5''\<rparr> tb))))
                (\<lambda>_. ret t))) (\<lambda>t.
     upd_server now i (\<lambda>s. if t \<in> set (sv_tags s) then s else s\<lparr>sv_tags := sv_tags s @ [t]\<rparr>)))"

definition hostname_taken :: "int option \<Rightarrow> string \<Rightarrow> db \<Rightarrow> bool" where
  "hostname_taken except h d \<longleftrightarrow>
     tbl_first (\<lambda>w. sv_hostname (rval w) = h \<and> Some (rid w) \<noteq> except) (servers d) \<noteq> None"

definition create_server :: "crypto \<Rightarrow> string \<Rightarrow> datetime \<Rightarrow> server_payload \<Rightarrow> int wop" where
  "create_server k iv now p =
     bnd (lift_exn (validate_domain False (sp_hostname p))) (\<lambda>hostname.
     if truthy (sp_ip_address p) \<and> \<not> is_valid_ip (str_or (sp_ip_address p) []) then
       fail ValidationAppError (''Invalid IP address: '' @ str_or (sp_ip_address p) [])
     else
       bnd (lift_exn (validate_port (sp_ssh_port p))) (\<lambda>port.
       bnd (db_get (\<lambda>d. (next_id (servers d), hostname_taken None hostname d))) (\<lambda>(i, taken).
       if taken then fail IntegrityError ''UNIQUE constraint failed: servers.hostname''
       else
         bnd (db_mod (servers_update (\<lambda>t. snd (tbl_add now (server_row k iv hostname port p) t)))) (\<lambda>_.
         bnd (for_each (sp_tags p) (add_server_tag now i)) (\<lambda>_.
         bnd commit (\<lambda>_. ret i))))))"

text \<open>The fields of \<open>ServerUpdate\<close> that were sent: \<open>None\<close> not sent, \<open>Some None\<close> sent as null.\<close>

record server_update =
  su_hostname :: "string option option"
  su_ip_address :: "string option option"
  su_environment :: "string option option"
  su_os_type :: "string option option"
  su_ssh_port :: "int option option"
  su_auth_method :: "string option option"
  su_ssh_user :: "string option option"
  su_ssh_password :: "string option"
  su_ssh_key_path :: "string option option"
  su_ssh_key_passphrase :: "string option"
  su_proxy_jump :: "string option option"
  su_certificate_directory :: "string option option"
  su_web_server_type :: "string option option"
  su_owner_id :: "int option option"
  su_tags :: "string list option"
  su_notes :: "string option option"

definition no_update :: server_update where
  "no_update = \<lparr>su_hostname = None, su_ip_address = None, su_environment = None, su_os_type = None,
     su_ssh_port = None, su_auth_method = None, su_ssh_user = None, su_ssh_password = None,
     su_ssh_key_path = None, su_ssh_key_passphrase = None, su_proxy_jump = None,
     su_certificate_directory = None, su_web_server_type = None, su_owner_id = None, su_tags = None,
     su_notes = None\<rparr>"

definition sent :: "'a option option \<Rightarrow> 'a \<Rightarrow> 'a" where
  "sent u old = (case u of Some (Some v) \<Rightarrow> v | _ \<Rightarrow> old)"

definition apply_update :: "crypto \<Rightarrow> string \<Rightarrow> server_update \<Rightarrow> server \<Rightarrow> server" where
  "apply_update k iv u s = s\<lparr>
     sv_hostname := sent (su_hostname u) (sv_hostname s),
     sv_ip_address := or_default (su_ip_address u) (sv_ip_address s),
     sv_environment := sent (su_environment u) (sv_environment s),
     sv_os_type := sent (su_os_type u) (sv_os_type s),
     sv_ssh_port := sent (su_ssh_port u) (sv_ssh_port s),
     sv_auth_method := sent (su_auth_method u) (sv_auth_method s),
     sv_ssh_user := sent (su_ssh_user u) (sv_ssh_user s),
     sv_ssh_password_encrypted := (if truthy (su_ssh_password u)
        then encrypt_opt k iv (su_ssh_password u) else sv_ssh_password_encrypted s),
     sv_ssh_key_path := or_default (su_ssh_key_path u) (sv_ssh_key_path s),
     sv_ssh_key_passphrase_encrypted := (if truthy (su_ssh_key_passphrase u)
        then encrypt_opt k iv (su_ssh_key_passphrase u) else sv_ssh_key_passphrase_encrypted s),
     sv_proxy_jump := or_default (su_proxy_jump u) (sv_proxy_jump s),
     sv_certificate_directory := or_default (su_certificate_directory u) (sv_certificate_directory s),
     sv_web_server_type := or_default (su_web_server_type u) (sv_web_server_type s),
     sv_owner_id := or_default (su_owner_id u) (sv_owner_id s),
     sv_notes := or_default (su_notes u) (sv_notes s)\<rparr>"

text \<open>The flush at the commit: null in a column that is not nullable, or a hostname in use.\<close>

definition update_violates :: "server_update \<Rightarrow> int \<Rightarrow> server \<Rightarrow> db \<Rightarrow> bool" where
  "update_violates u i s d \<longleftrightarrow>
     su_hostname u = Some None \<or> su_environment u = Some None \<or> su_os_type u = Some None \<or>
     su_ssh_port u = Some None \<or> su_auth_method u = Some None \<or> su_ssh_user u = Some None \<or>
     hostname_taken (Some i) (sent (su_hostname u) (sv_hostname s)) d"

text \<open>The new tags are looked up while earlier ones of the same request are not flushed, so a new
  name that occurs twice is inserted twice and violates the unique index.\<close>

definition new_tag_names :: "string list \<Rightarrow> db \<Rightarrow> string list" where
  "new_tag_names names d = filter (\<lambda>n. find_tag n d = None) names"

definition set_server_tags :: "datetime \<Rightarrow> int \<Rightarrow> string list \<Rightarrow> unit wop" where
  "set_server_tags now i names =
     bnd (upd_server now i (\<lambda>s. s\<lparr>sv_tags := []\<rparr>)) (\<lambda>_.
     bnd (db_get (new_tag_names names)) (\<lambda>new.
     if \<not> distinct new then fail IntegrityError ''UNIQUE constraint failed: tags.name''
     else for_each names (add_server_tag now i)))"

definition update_server :: "crypto \<Rightarrow> string \<Rightarrow> datetime \<Rightarrow> int \<Rightarrow> server_update \<Rightarrow> unit wop" where
  "update_server k iv now i u =
     bnd (get_server i) (\<lambda>s.
     bnd (db_get (update_violates u i s)) (\<lambda>bad.
     if bad then fail IntegrityError ''constraint failed: servers''
     else
       bnd (upd_server now i (apply_update k iv u)) (\<lambda>_.
       bnd (case su_tags u of None \<Rightarrow> ret () | Some names \<Rightarrow> set_server_tags now i names) (\<lambda>_.
       commit))))"

text \<open>\<open>delete_server\<close> with the foreign keys: deployments cascade, executions keep a null.\<close>

definition delete_server_rows :: "datetime \<Rightarrow> int \<Rightarrow> db \<Rightarrow> db" where
  "delete_server_rows now i d = d\<lparr>
     servers := tbl_del i (servers d),
     deployments := tbl_del_where (\<lambda>w. d_server_id (rval w) = i) (deployments d),
     job_executions := tbl_upd_where now (\<lambda>w. j_server_id (rval w) = Some i)
       (\<lambda>x. x\<lparr>j_server_id := None\<rparr>) (job_executions d)\<rparr>"

definition delete_server :: "datetime \<Rightarrow> int \<Rightarrow> unit wop" where
  "delete_server now i =
     bnd (get_server i) (\<lambda>_.
     bnd (db_mod (delete_server_rows now i)) (\<lambda>_. commit))"

text \<open>SQL \<^verbatim>\<open>LIKE\<close>, and \<^verbatim>\<open>ilike\<close>, which compares lower-case forms.\<close>

fun like_match :: "string \<Rightarrow> string \<Rightarrow> bool" where
  "like_match [] s \<longleftrightarrow> s = []"
| "like_match (x # p) [] \<longleftrightarrow> x = CHR 0x25 \<and> like_match p []"
| "like_match (x # p) (c # s) \<longleftrightarrow>
     (if x = CHR 0x25 then like_match p (c # s) \<or> like_match (x # p) s
      else (x = CHR ''_'' \<or> x = c) \<and> like_match p s)"

definition ilike :: "string \<Rightarrow> string \<Rightarrow> bool" where
  "ilike p s \<longleftrightarrow> like_match (py_lower p) (py_lower s)"

definition server_matches :: "string option \<Rightarrow> string option \<Rightarrow> server row \<Rightarrow> bool" where
  "server_matches search environ w \<longleftrightarrow>
     (truthy search \<longrightarrow> (let like = [CHR 0x25] @ str_or search [] @ [CHR 0x25] in
        ilike like (sv_hostname (rval w)) \<or>
        (case sv_ip_address (rval w) of None \<Rightarrow> False | Some ip \<Rightarrow> ilike like ip))) \<and>
     (truthy environ \<longrightarrow> sv_environment (rval w) = str_or environ [])"

definition list_servers :: "string option \<Rightarrow> string option \<Rightarrow> nat \<Rightarrow> nat \<Rightarrow> db \<Rightarrow> server row list \<times> nat" where
  "list_servers search environ page page_size d =
     (let ws = tbl_sel (server_matches search environ) (servers d) in
      (take page_size (drop ((page - 1) * page_size) (sort_key (\<lambda>w. sv_hostname (rval w)) ws)), length ws))"

section \<open>Remote operations\<close>

text \<open>\<^verbatim>\<open>s.splitlines()[-1]\<close> of a stripped string.\<close>

definition is_linebreak :: "char \<Rightarrow> bool" where
  "is_linebreak c \<longleftrightarrow> (of_char c :: nat) \<in> {10, 11, 12, 13, 28, 29, 30, 133}"

definition last_line :: "string \<Rightarrow> exn + string" where
  "last_line s = (if s = [] then raises IndexError ''list index out of range''
     else Inr (rev (takeWhile (\<lambda>c. \<not> is_linebreak c) (rev s))))"

record connection_test =
  ct_reachable :: bool
  ct_hostname :: "string option"
  ct_exit_code :: "int option"
  ct_error :: "string option"

definition set_connection :: "datetime \<Rightarrow> int \<Rightarrow> ConnectionStatus \<Rightarrow> unit rop" where
  "set_connection now i st =
     bnd (on_world (upd_server now i (\<lambda>s. s\<lparr>sv_connection_status := st, sv_last_check_at := Some now\<rparr>))) (\<lambda>_.
     on_world commit)"

definition test_connection :: "ctx \<Rightarrow> host \<Rightarrow> datetime \<Rightarrow> int \<Rightarrow> connection_test rop" where
  "test_connection cx h now i =
     bnd (on_world (get_server i)) (\<lambda>sv.
     catch_op
       (with_ssh cx h sv (\<lambda>c.
          bnd (ssh_exec (cx_rdf cx) h c ''echo ok; hostname'') (\<lambda>res.
          let ok = (sr_exit_code res = 0 \<and> py_contains (sr_stdout res) ''ok'') in
          bnd (set_connection now i (if ok then ConnectionStatus.REACHABLE else ConnectionStatus.UNREACHABLE)) (\<lambda>_.
          bnd (lift_exn (if sr_stdout res = [] then Inr None else map_sum id Some (last_line (py_strip (sr_stdout res))))) (\<lambda>name.
          ret \<lparr>ct_reachable = ok, ct_hostname = name, ct_exit_code = Some (sr_exit_code res), ct_error = None\<rparr>)))))
       (\<lambda>e. if exc_of e = SSHConnectionError then
              bnd (set_connection now i ConnectionStatus.UNREACHABLE) (\<lambda>_.
              ret \<lparr>ct_reachable = False, ct_hostname = None, ct_exit_code = None, ct_error = Some (exc_msg e)\<rparr>)
            else throw e))"

record command_result =
  cm_command :: string
  cm_command_name :: "string option"
  cm_exit_code :: int
  cm_stdout :: string
  cm_stderr :: string

definition audit_server :: "ctx \<Rightarrow> datetime \<Rightarrow> actor \<Rightarrow> int \<Rightarrow> AuditResult \<Rightarrow> dict \<Rightarrow> unit wop" where
  "audit_server cx now user i res details =
     record_audit (cx_rdf cx) now ((audit_defaults ''server.command'')\<lparr>
       aa_user_id := map_option fst user, aa_username := map_option snd user,
       aa_resource_type := Some ''server'', aa_resource_id := Some (str_int i),
       aa_result := res, aa_details := details\<rparr>)"

definition run_maintenance_command :: "ctx \<Rightarrow> host \<Rightarrow> datetime \<Rightarrow> int \<Rightarrow> string \<Rightarrow> actor \<Rightarrow> command_result rop" where
  "run_maintenance_command cx h now i command user =
     bnd (lift_exn (validate_remote_command command)) (\<lambda>name.
     bnd (on_world (get_server i)) (\<lambda>sv.
     catch_op
       (bnd (with_ssh cx h sv (\<lambda>c. ssh_exec (cx_rdf cx) h c command)) (\<lambda>res.
        bnd (on_world (audit_server cx now user i (if sr_exit_code res = 0 then AuditResult.SUCCESS else AuditResult.FAILURE)
               [(''command_name'', JStr name), (''command'', JStr command)])) (\<lambda>_.
        ret \<lparr>cm_command = command, cm_command_name = Some name, cm_exit_code = sr_exit_code res,
             cm_stdout = last_n 8000 (sr_stdout res), cm_stderr = last_n 2000 (sr_stderr res)\<rparr>)))
       (\<lambda>e. if exc_of e = SSHConnectionError then
              bnd (on_world (audit_server cx now user i AuditResult.FAILURE
                     [(''command'', JStr command), (''error'', JStr (exc_msg e))])) (\<lambda>_.
              ret \<lparr>cm_command = command, cm_command_name = None, cm_exit_code = 255,
                   cm_stdout = [], cm_stderr = exc_msg e\<rparr>)
            else throw e)))"

definition SERVICE_ACTIONS :: "string list" where
  "SERVICE_ACTIONS = [''status'', ''restart'', ''reload'', ''stop'', ''start'']"

definition service_control :: "ctx \<Rightarrow> host \<Rightarrow> datetime \<Rightarrow> int \<Rightarrow> string \<Rightarrow> string \<Rightarrow> actor \<Rightarrow> command_result rop" where
  "service_control cx h now i service action user =
     (if service \<notin> set ALLOWED_SERVICE_NAMES then
        fail ValidationAppError (''Service '' @ [CHR 0x27] @ service @ [CHR 0x27] @ '' is not in the allowed list'')
      else if action \<notin> set SERVICE_ACTIONS then fail ValidationAppError (''Unsupported service action: '' @ action)
      else run_maintenance_command cx h now i (''systemctl '' @ action @ '' '' @ service) user)"

section \<open>Endpoints\<close>

definition require_manager :: "api_user \<Rightarrow> string \<Rightarrow> ('s, unit) op" where
  "require_manager user message =
     (if au_role user \<notin> {''administrator'', ''certificate_manager''} then fail PermissionDeniedError message else ret ())"

definition actor_of :: "api_user \<Rightarrow> actor" where
  "actor_of user = Some (au_id user, au_username user)"

definition audit_on_server ::
    "ctx \<Rightarrow> datetime \<Rightarrow> string \<Rightarrow> api_user \<Rightarrow> string option \<Rightarrow> string option \<Rightarrow> int \<Rightarrow> AuditResult \<Rightarrow> unit wop" where
  "audit_on_server cx now action user ip agent i res =
     record_audit (cx_rdf cx) now ((audit_defaults action)\<lparr>aa_user_id := Some (au_id user),
       aa_username := Some (au_username user), aa_resource_type := Some ''server'',
       aa_resource_id := Some (str_int i), aa_result := res, aa_ip_address := ip, aa_user_agent := agent\<rparr>)"

definition post_server ::
    "ctx \<Rightarrow> datetime \<Rightarrow> api_user \<Rightarrow> string option \<Rightarrow> string option \<Rightarrow> server_payload \<Rightarrow> int wop" where
  "post_server cx now user ip agent p =
     bnd (require_manager user ''Not authorized to manage servers'') (\<lambda>_.
     bnd (create_server (cx_kc cx) (cx_ivf cx) now p) (\<lambda>i.
     bnd (audit_on_server cx now ''server.create'' user ip agent i AuditResult.SUCCESS) (\<lambda>_. ret i)))"

definition patch_server ::
    "ctx \<Rightarrow> datetime \<Rightarrow> api_user \<Rightarrow> string option \<Rightarrow> string option \<Rightarrow> int \<Rightarrow> server_update \<Rightarrow> unit wop" where
  "patch_server cx now user ip agent i u =
     bnd (require_manager user ''Not authorized to manage servers'') (\<lambda>_.
     bnd (update_server (cx_kc cx) (cx_ivf cx) now i u) (\<lambda>_.
     audit_on_server cx now ''server.update'' user ip agent i AuditResult.SUCCESS))"

definition remove_server ::
    "ctx \<Rightarrow> datetime \<Rightarrow> api_user \<Rightarrow> string option \<Rightarrow> string option \<Rightarrow> int \<Rightarrow> unit wop" where
  "remove_server cx now user ip agent i =
     bnd (require_manager user ''Not authorized to manage servers'') (\<lambda>_.
     bnd (delete_server now i) (\<lambda>_.
     audit_on_server cx now ''server.delete'' user ip agent i AuditResult.SUCCESS))"

definition post_test ::
    "ctx \<Rightarrow> host \<Rightarrow> datetime \<Rightarrow> api_user \<Rightarrow> string option \<Rightarrow> string option \<Rightarrow> int \<Rightarrow> connection_test rop" where
  "post_test cx h now user ip agent i =
     bnd (test_connection cx h now i) (\<lambda>r.
     bnd (on_world (audit_on_server cx now ''server.test'' user ip agent i
            (if ct_reachable r then AuditResult.SUCCESS else AuditResult.FAILURE))) (\<lambda>_. ret r))"

definition post_command :: "ctx \<Rightarrow> host \<Rightarrow> datetime \<Rightarrow> api_user \<Rightarrow> int \<Rightarrow> string \<Rightarrow> command_result rop" where
  "post_command cx h now user i command =
     bnd (require_manager user ''Not authorized to run remote commands'') (\<lambda>_.
     run_maintenance_command cx h now i command (actor_of user))"

definition post_service ::
    "ctx \<Rightarrow> host \<Rightarrow> datetime \<Rightarrow> api_user \<Rightarrow> int \<Rightarrow> string \<Rightarrow> string \<Rightarrow> command_result rop" where
  "post_service cx h now user i service action =
     bnd (require_manager user ''Not authorized to control services'') (\<lambda>_.
     service_control cx h now i service action (actor_of user))"

end
