(* ===== verification/Deploy_Proofs.thy ===== *)
theory Deploy_Proofs
  imports Deployment "HOL-Library.Sublist"
begin

text \<open>
  Proofs about deployments.  \<open>follows\<close> compares what an operation sends with a plan: a list of
  requests, some of them critical.  \<open>run_plan\<close> is how far a host lets the plan go, the abstract
  specification of a deployment's remote session; the stages compose as the plans append.
  \<open>status_in\<close> is the invariant on the status column that the outcome theorems track.
\<close>

section \<open>Lifting\<close>

lemma on_world_simp [op_simps]:
  "on_world m s = (fst (m (rs_world s)), s\<lparr>rs_world := snd (m (rs_world s))\<rparr>)"
  by (simp add: on_world_def split: prod.splits)

lemma wp_on_world [wp_simps]:
  "wp (on_world m) Q E s = wp m (\<lambda>x w. Q x (s\<lparr>rs_world := w\<rparr>)) (\<lambda>e w. E e (s\<lparr>rs_world := w\<rparr>)) (rs_world s)"
  by (auto simp: wp_def on_world_def split: prod.splits sum.splits)

definition rinv :: "(world \<Rightarrow> bool) \<Rightarrow> remote \<Rightarrow> bool" where
  "rinv J s \<longleftrightarrow> J (rs_world s)"

lemma keeps_on_world [keeps_rules]: "keeps J m \<Longrightarrow> keeps (rinv J) (on_world m)"
  by (simp add: keeps_def op_simps rinv_def)

lemma keeps_transport [keeps_rules]:
  "keeps (rinv J) (send h x)" "keeps (rinv J) (log_add l)" "keeps (rinv J) close"
  by (simp_all add: keeps_def send_def log_add_def close_def op_simps rinv_def)

lemma keeps_finally [keeps_rules]: "keeps I m \<Longrightarrow> keeps I fin \<Longrightarrow> keeps I (finally_op m fin)"
  by (auto simp: keeps_def finally_op_def split: prod.splits)

lemma keeps_connect [keeps_rules]: "keeps (rinv J) (connect rd h c)"
  unfolding connect_def by (intro keeps_rules)

lemma keeps_exec [keeps_rules]: "keeps (rinv J) (ssh_exec rd h c cmd)"
  unfolding ssh_exec_def by (intro keeps_rules)

lemma keeps_sftp_flag: "keeps (rinv J) (modify (rs_sftp_update f))"
  by (simp add: keeps_def op_simps rinv_def)

lemma keeps_sftp [keeps_rules]:
  "keeps (rinv J) (ensure_sftp h)"
  "keeps (rinv J) (sftp_put_bytes h data path mode)"
  "keeps (rinv J) (sftp_mkdir_p rd h c path)"
  unfolding sftp_put_bytes_def sftp_mkdir_p_def ensure_sftp_def by (intro keeps_rules keeps_sftp_flag)+

lemma keeps_with_ssh [keeps_rules]:
  "(\<And>c. keeps (rinv J) (body c)) \<Longrightarrow> keeps (rinv J) (with_ssh cx h sv body)"
  unfolding with_ssh_def by (intro keeps_rules) simp

section \<open>The status of a deployment\<close>

definition status_in :: "int \<Rightarrow> DeploymentStatus set \<Rightarrow> db \<Rightarrow> bool" where
  "status_in i S d \<longleftrightarrow> (\<exists>x. tbl_get i (deployments d) = Some x \<and> d_status x \<in> S)"

lemma status_in_upd:
  "(\<And>x. d_status (f x) = d_status x) \<Longrightarrow> status_in i S d \<Longrightarrow> status_in i S (deployments_update (tbl_upd now j f) d)"
  by (auto simp: status_in_def tbl.get_upd)

lemma status_in_other:
  "deployments d' = deployments d \<Longrightarrow> status_in i S d' = status_in i S d"
  by (simp add: status_in_def)

lemma keeps_status_upd:
  "(\<And>x. d_status (f x) = d_status x) \<Longrightarrow> keeps (winv (status_in i S)) (upd_deployment now j f)"
  unfolding upd_deployment_def by (intro keeps_db_mod status_in_upd)

lemma keeps_status_set:
  "(\<And>x. d_status (f x) \<in> S) \<Longrightarrow> keeps (winv (status_in i S)) (upd_deployment now i f)"
  unfolding upd_deployment_def by (intro keeps_db_mod) (auto simp: status_in_def tbl.get_upd)

lemma keeps_fs [keeps_rules]:
  "keeps (winv I) (fs_read p)" "keeps (winv I) (fs_exists p)" "keeps (winv I) (fs_write p x)"
  "keeps (winv I) (opt_exists q)" "keeps (winv I) (has_private_key q)" "keeps (winv I) (read_private_key k p)"
  unfolding fs_read_def fs_exists_def fs_write_def opt_exists_def has_private_key_def read_private_key_def
  by (auto intro!: keeps_rules keeps_modify simp: winv_def split: sum.splits)

lemma keeps_sftp_put [keeps_rules]: "keeps (rinv (winv I)) (sftp_put h src path mode)"
  unfolding sftp_put_def by (intro keeps_rules)

lemma keeps_status_audit [keeps_rules]: "keeps (winv (status_in i S)) (record_audit rd now a)"
  unfolding record_audit_def by (intro keeps_db_mod) (simp add: status_in_def)

lemma keeps_status_queue [keeps_rules]:
  "keeps (winv (status_in i S)) (queue_event_notifications nt k now event cert extra)"
  unfolding queue_event_notifications_def queue_one_def Let_def
  by (intro keeps_rules) (auto intro!: keeps_db_mod simp: status_in_def split: prod.splits)

lemma keeps_status_execution [keeps_rules]:
  "keeps (winv (status_in i S)) (record_execution now el ex err code cid sid user tr st)"
  unfolding record_execution_def upd_job_def Let_def
  by (intro keeps_rules keeps_db_mod) (simp_all add: status_in_def)

lemma keeps_log [keeps_rules]: "keeps (rinv (winv I)) (persist_log cfg i)"
  unfolding persist_log_def by (intro keeps_rules)

lemma keeps_must [keeps_rules]: "keeps I (must_succeed res m)"
  unfolding must_succeed_def by (intro keeps_rules)

lemma keeps_session: "keeps (rinv (winv (status_in i S))) (deploy_session cx env now jb c)"
  unfolding deploy_session_def stage_pre_def stage_files_def stage_backup_def stage_deploy_def stage_post_def
    stage_verify_def stage_cleanup_def run_step_def Let_def
  by (intro keeps_rules keeps_status_upd) simp_all

lemma close_wp:
  assumes "winv (status_in (jb_deployment jb) T) (rs_world s)"
  shows "wp (close_deployment cx now jb st err) (\<lambda>_. rinv (winv (status_in (jb_deployment jb) {st}))) E s"
  using assms
  by (auto simp: close_deployment_def persist_log_def upd_deployment_def wp_simps Let_def rinv_def winv_def
      status_in_def tbl.get_upd simp del: bnd_db bnd_prim)

lemma keeps_rolled_back: "DeploymentStatus.ROLLED_BACK \<in> S \<Longrightarrow> keeps (rinv (winv (status_in i S))) (rolled_back now i)"
  unfolding rolled_back_def by (intro keeps_rules keeps_status_set) simp

lemma keeps_rollback_deployment:
  "DeploymentStatus.ROLLED_BACK \<in> S \<Longrightarrow> keeps (rinv (winv (status_in i S))) (rollback_deployment cx env now i d sv)"
  unfolding rollback_deployment_def by (intro keeps_rules keeps_rolled_back)

abbreviation tracked_status :: "int \<Rightarrow> DeploymentStatus set \<Rightarrow> remote \<Rightarrow> bool" where
  "tracked_status i S \<equiv> rinv (winv (status_in i S))"

lemma tracked_mono: "tracked_status i S s \<Longrightarrow> S \<subseteq> T \<Longrightarrow> tracked_status i T s"
  by (auto simp: rinv_def winv_def status_in_def)

lemma wp_then_keeps:
  "wp m (\<lambda>_. I) (\<lambda>_. I) s \<Longrightarrow> (\<And>x. keeps I (f x)) \<Longrightarrow> wp (bnd m f) (\<lambda>_. I) (\<lambda>_. I) s"
  unfolding wp_bnd by (erule wp_mono) (auto intro: wp_keeps)

lemma close_tracked:
  assumes "tracked_status (jb_deployment jb) T s" "st \<in> S"
  shows "wp (close_deployment cx now jb st err) (\<lambda>_. tracked_status (jb_deployment jb) S)
    (\<lambda>_. tracked_status (jb_deployment jb) S) s"
  by (rule wp_mono [OF close_wp [where E = "\<lambda>_ _. False"]])
    (use assms in \<open>auto simp: rinv_def intro: tracked_mono [unfolded rinv_def]\<close>)

lemma deploy_ok_wp:
  assumes "tracked_status (jb_deployment jb) T s"
  shows "wp (deploy_ok cx now el jb q user tr ex) (\<lambda>_. tracked_status (jb_deployment jb) {DeploymentStatus.SUCCESS})
    (\<lambda>_. tracked_status (jb_deployment jb) {DeploymentStatus.SUCCESS}) s"
  unfolding deploy_ok_def audit_deploy_def audit_cert_def Let_def
  by (intro wp_then_keeps close_tracked [OF assms] keeps_rules) simp

lemma deploy_failed_wp:
  assumes "tracked_status (jb_deployment jb) T s"
  shows "wp (deploy_failed cx env now el jb user tr ex e)
    (\<lambda>_. tracked_status (jb_deployment jb) {DeploymentStatus.FAILED, DeploymentStatus.ROLLED_BACK})
    (\<lambda>_. tracked_status (jb_deployment jb) {DeploymentStatus.FAILED, DeploymentStatus.ROLLED_BACK}) s"
  unfolding deploy_failed_def audit_deploy_def audit_cert_def Let_def
  by (intro wp_then_keeps close_tracked [OF assms] keeps_rules keeps_rollback_deployment) simp_all

lemma run_deployment_wp:
  assumes "tracked_status (jb_deployment jb) {DeploymentStatus.RUNNING} s"
  shows "wp (run_deployment cx env now el jb q user tr ex)
    (\<lambda>_. tracked_status (jb_deployment jb)
       {DeploymentStatus.SUCCESS, DeploymentStatus.FAILED, DeploymentStatus.ROLLED_BACK})
    (\<lambda>_. tracked_status (jb_deployment jb) (- {DeploymentStatus.PENDING})) s"
  unfolding run_deployment_def wp_catch wp_bnd
proof (rule wp_keeps [OF keeps_with_ssh [OF keeps_session] assms], goal_cases)
  case (1 x t)
  show ?case
    by (rule wp_mono [OF deploy_ok_wp [OF 1]])
      (auto simp: wp_simps intro: tracked_mono intro!: wp_mono [OF deploy_failed_wp])
next
  case (2 e t)
  show ?case
    by (auto simp: wp_simps intro: tracked_mono [OF 2] tracked_mono intro!: wp_mono [OF deploy_failed_wp [OF 2]])
qed

section \<open>Plans\<close>

type_synonym plan = "(remote_op \<times> bool) list"

definition accepted :: "host \<Rightarrow> remote_op list \<Rightarrow> remote_op \<times> bool \<Rightarrow> bool" where
  "accepted h t p \<longleftrightarrow> (case h t (fst p) of Inl _ \<Rightarrow> False | Inr r \<Rightarrow> snd p \<longrightarrow> sr_exit_code r = 0)"

text \<open>How far a host lets a plan go: to its end, or up to and including the first request that
  raises or, if critical, exits with a nonzero code.\<close>

primrec run_plan :: "host \<Rightarrow> remote_op list \<Rightarrow> plan \<Rightarrow> bool \<times> remote_op list" where
  "run_plan h t [] = (True, [])"
| "run_plan h t (p # ps) =
     (if accepted h t p then (fst (run_plan h (t @ [fst p]) ps), fst p # snd (run_plan h (t @ [fst p]) ps))
      else (False, [fst p]))"

lemma run_plan_append:
  "run_plan h t (p @ q) =
     (if fst (run_plan h t p) then
        (fst (run_plan h (t @ snd (run_plan h t p)) q), snd (run_plan h t p) @ snd (run_plan h (t @ snd (run_plan h t p)) q))
      else run_plan h t p)"
  by (induction p arbitrary: t) auto

lemma run_plan_all: "fst (run_plan h t p) \<Longrightarrow> snd (run_plan h t p) = map fst p"
  by (induction p arbitrary: t) (auto split: if_splits)

lemma run_plan_prefix: "prefix (snd (run_plan h t p)) (map fst p)"
  by (induction p arbitrary: t) auto

text \<open>\<open>follows fs h a p b m\<close>: with the files \<open>fs\<close>, an SFTP channel that is open iff \<open>a\<close>, the
  operation sends what the host lets pass of the plan \<open>p\<close>: all of it when it returns, a prefix
  when it raises.\<close>

definition follows :: "(string \<rightharpoonup> string) \<Rightarrow> host \<Rightarrow> bool \<Rightarrow> plan \<Rightarrow> bool \<Rightarrow> 'a rop \<Rightarrow> bool" where
  "follows fs h a p b m \<longleftrightarrow> (\<forall>s. files (rs_world s) = fs \<and> rs_sftp s = a \<longrightarrow>
     wp m (\<lambda>_ t. files (rs_world t) = fs \<and> rs_sftp t = b \<and> fst (run_plan h (rs_trace s) p) \<and>
             rs_trace t = rs_trace s @ snd (run_plan h (rs_trace s) p))
          (\<lambda>_ t. \<exists>xs. prefix xs (snd (run_plan h (rs_trace s) p)) \<and> rs_trace t = rs_trace s @ xs) s)"

named_theorems follows_rules \<open>what an operation sends\<close>

lemma follows_bnd [follows_rules]:
  assumes "follows fs h a p b m" and "\<And>x. follows fs h b q c (f x)"
  shows "follows fs h a (p @ q) c (bnd m f)"
  unfolding follows_def wp_bnd
proof (intro allI impI)
  fix s :: remote assume s: "files (rs_world s) = fs \<and> rs_sftp s = a"
  let ?p = "run_plan h (rs_trace s) p"
  show "wp m (\<lambda>x. wp (f x) (\<lambda>_ t. files (rs_world t) = fs \<and> rs_sftp t = c \<and> fst (run_plan h (rs_trace s) (p @ q)) \<and>
             rs_trace t = rs_trace s @ snd (run_plan h (rs_trace s) (p @ q)))
          (\<lambda>_ t. \<exists>xs. prefix xs (snd (run_plan h (rs_trace s) (p @ q))) \<and> rs_trace t = rs_trace s @ xs))
        (\<lambda>_ t. \<exists>xs. prefix xs (snd (run_plan h (rs_trace s) (p @ q))) \<and> rs_trace t = rs_trace s @ xs) s"
  proof (rule wp_mono [OF assms(1) [unfolded follows_def, rule_format, OF s]], goal_cases)
    case (1 x t)
    have "wp (f x) (\<lambda>_ u. files (rs_world u) = fs \<and> rs_sftp u = c \<and> fst (run_plan h (rs_trace t) q) \<and>
             rs_trace u = rs_trace t @ snd (run_plan h (rs_trace t) q))
          (\<lambda>_ u. \<exists>xs. prefix xs (snd (run_plan h (rs_trace t) q)) \<and> rs_trace u = rs_trace t @ xs) t"
      using assms(2) [unfolded follows_def] 1 by blast
    then show ?case
      by (rule wp_mono) (use 1 in \<open>auto simp: run_plan_append\<close>)
  next
    case (2 e t)
    then show ?case by (auto simp: run_plan_append intro: prefix_prefix)
  qed
qed

lemma follows_ret [follows_rules]: "follows fs h a [] a (ret x)"
  by (simp add: follows_def wp_simps)

lemma follows_throw [follows_rules]: "follows fs h a p b (throw e)"
  by (simp add: follows_def wp_simps)

lemma follows_log [follows_rules]: "follows fs h a [] a (log_add l)"
  by (simp add: follows_def log_add_def wp_simps)

lemma follows_db [follows_rules]: "follows fs h a [] a (on_world (upd_deployment now i f))"
  by (simp add: follows_def upd_deployment_def wp_simps)

lemma follows_lift [follows_rules]: "follows fs h a [] a (lift_exn r)"
  by (auto simp: follows_def wp_simps split: sum.splits)

lemma follows_send [follows_rules]: "follows fs h a [(x, False)] a (send h x)"
  by (auto simp: follows_def send_def wp_def accepted_def split: sum.splits)

lemma follows_if [follows_rules]:
  "(P \<Longrightarrow> follows fs h a p b m) \<Longrightarrow> (\<not> P \<Longrightarrow> follows fs h a q b n) \<Longrightarrow>
   follows fs h a (if P then p else q) b (if P then m else n)"
  by simp

lemma follows_check: "follows fs h a [] a (if P then throw e else ret x)"
  by (simp add: follows_throw follows_ret)

lemma follows_when [follows_rules]:
  "(P \<Longrightarrow> follows fs h a p a m) \<Longrightarrow> follows fs h a (if P then p else []) a (when_op P m)"
  by (simp add: when_op_def follows_ret)

lemma follows_each [follows_rules]:
  "(\<And>x. follows fs h a (p x) a (f x)) \<Longrightarrow> follows fs h a (concat (map p xs)) a (for_each xs f)"
  by (induction xs) (auto intro!: follows_rules)

lemma follows_read:
  "(\<And>x. fs path = Some x \<Longrightarrow> follows fs h a p b (f x)) \<Longrightarrow> follows fs h a p b (bnd (on_world (fs_read path)) f)"
  by (auto simp: follows_def fs_read_def wp_simps split: option.splits simp del: bnd_prim)

lemma follows_exists:
  "follows fs h a p b (f (truthy v \<and> fs (str_or v []) \<noteq> None)) \<Longrightarrow>
   follows fs h a p b (bnd (on_world (opt_exists v)) f)"
  by (auto simp: follows_def opt_exists_def fs_exists_def wp_simps simp del: bnd_prim)

definition key_text :: "crypto \<Rightarrow> (string \<rightharpoonup> string) \<Rightarrow> string \<Rightarrow> string" where
  "key_text k fs path =
     (let content = (case fs path of None \<Rightarrow> [] | Some x \<Rightarrow> x) in
      case decrypt_secret k content of Inr pem \<Rightarrow> pem | Inl _ \<Rightarrow> content)"

lemma wp_sum [wp_simps]:
  "wp (case x of Inl e \<Rightarrow> f e | Inr y \<Rightarrow> g y) Q E s = (case x of Inl e \<Rightarrow> wp (f e) Q E s | Inr y \<Rightarrow> wp (g y) Q E s)"
  by (cases x) auto

lemma follows_key:
  "follows fs h a p b (f (key_text k fs path)) \<Longrightarrow> follows fs h a p b (bnd (on_world (read_private_key k path)) f)"
  by (auto simp: follows_def read_private_key_def fs_exists_def fs_read_def key_text_def wp_simps
      split: option.splits sum.splits simp del: bnd_prim)

text \<open>Conversion of a plan that is built by the rules to the intended one.\<close>

lemma follows_eq: "follows fs h a p b m \<Longrightarrow> p = q \<Longrightarrow> follows fs h a q b m"
  by simp

definition exec_plan :: "ssh_config \<Rightarrow> bool \<Rightarrow> string \<Rightarrow> plan" where
  "exec_plan c critical cmd = (if cmd \<noteq> [] then [(Exec cmd (sg_command_timeout c), critical)] else [])"

definition put_plan :: "string \<Rightarrow> string \<Rightarrow> int \<Rightarrow> plan" where
  "put_plan path data mode = [(Put path data, False), (Chmod path mode, False)]"

lemma follows_exec [follows_rules]:
  "follows fs h a [(Exec cmd (sg_command_timeout c), False)] a (ssh_exec rd h c cmd)"
  by (auto simp: follows_def ssh_exec_def send_def wp_def accepted_def catch_op_def bnd_def op_simps split: sum.splits)

lemma follows_step [follows_rules]:
  "follows fs h a [(Exec cmd (sg_command_timeout c), False)] a (run_step cx h c l cmd)"
  unfolding run_step_def by (rule follows_eq, (rule follows_rules)+, simp)

lemma follows_critical [follows_rules]:
  "follows fs h a [(Exec cmd (sg_command_timeout c), True)] a (bnd (run_step cx h c l cmd) (\<lambda>res. must_succeed res m))"
  by (auto simp: follows_def run_step_def ssh_exec_def send_def log_add_def must_succeed_def wp_def accepted_def
      catch_op_def bnd_def op_simps split: sum.splits)

lemma follows_sftp:
  "follows fs h False [(Open_sftp, False)] True (ensure_sftp h)"
  "follows fs h True [] True (ensure_sftp h)"
  by (auto simp: follows_def ensure_sftp_def send_def wp_def accepted_def bnd_def op_simps split: sum.splits)

lemma follows_put_bytes: "follows fs h True (put_plan path data mode) True (sftp_put_bytes h data path mode)"
  unfolding sftp_put_bytes_def put_plan_def by (rule follows_eq, (rule follows_sftp(2) follows_rules)+, simp)

definition file_text :: "(string \<rightharpoonup> string) \<Rightarrow> string \<Rightarrow> string" where
  "file_text fs path = (case fs path of None \<Rightarrow> [] | Some x \<Rightarrow> x)"

lemma follows_put:
  "follows fs h False ([(Open_sftp, False)] @ put_plan path (file_text fs src) mode) True (sftp_put h src path mode)"
  "follows fs h True (put_plan path (file_text fs src) mode) True (sftp_put h src path mode)"
proof -
  have p: "follows fs h True (put_plan path (file_text fs src) mode) True
      (bnd (on_world (fs_read src)) (\<lambda>data. bnd (send h (Put path data)) (\<lambda>_. bnd (send h (Chmod path mode)) (\<lambda>_. ret ()))))"
    by (rule follows_read, rule follows_eq, (rule follows_rules)+, simp add: put_plan_def file_text_def)
  show "follows fs h False ([(Open_sftp, False)] @ put_plan path (file_text fs src) mode) True (sftp_put h src path mode)"
    unfolding sftp_put_def by (rule follows_bnd [OF follows_sftp(1) p])
  show "follows fs h True (put_plan path (file_text fs src) mode) True (sftp_put h src path mode)"
    unfolding sftp_put_def by (rule follows_eq, rule follows_bnd [OF follows_sftp(2)], rule p, simp)
qed

text \<open>The plan of a deployment.\<close>

definition files_plan :: "crypto \<Rightarrow> (string \<rightharpoonup> string) \<Rightarrow> job \<Rightarrow> ssh_config \<Rightarrow> plan" where
  "files_plan k fs jb c =
     (let cert = jb_cert jb; tmp = remote_tmp jb; there = (\<lambda>v. truthy v \<and> fs (str_or v []) \<noteq> None) in
      [(Exec (''mkdir -p '' @ quote tmp) (sg_command_timeout c), False), (Open_sftp, False)] @
      put_plan (tmp @ ''/cert.pem'') (file_text fs (str_or (c_cert_path cert) [])) 420 @
      put_plan (tmp @ ''/privkey.pem'') (key_text k fs (str_or (c_key_path cert) [])) 384 @
      (if there (c_chain_path cert) then put_plan (tmp @ ''/chain.pem'') (file_text fs (str_or (c_chain_path cert) [])) 420
       else if there (c_fullchain_path cert)
       then put_plan (tmp @ ''/chain.pem'') (file_text fs (str_or (c_fullchain_path cert) [])) 420 else []))"

definition deploy_plan :: "crypto \<Rightarrow> (string \<rightharpoonup> string) \<Rightarrow> job \<Rightarrow> ssh_config \<Rightarrow> plan" where
  "deploy_plan k fs jb c =
     (let rn = jb_rendered jb in
      exec_plan c False (rn_pre_deploy_script rn) @ files_plan k fs jb c @
      exec_plan c True (rn_backup_script rn) @
      (if rn_deploy_script rn \<noteq> [] then exec_plan c True (rn_deploy_script rn)
       else concat (map (exec_plan c False) (install_commands jb))) @
      exec_plan c False (rn_post_deploy_script rn) @ exec_plan c True (rn_reload_command rn))"

lemma follows_files: "follows fs h False (files_plan (cx_kc cx) fs jb c) True (stage_files cx h c jb)"
proof -
  let ?cert = "jb_cert jb"
  let ?key = "truthy (c_key_path ?cert) \<and> fs (str_or (c_key_path ?cert) []) \<noteq> None"
  let ?pk = "put_plan (remote_tmp jb @ ''/privkey.pem'') (key_text (cx_kc cx) fs (str_or (c_key_path ?cert) [])) 384"
  let ?chain = "if truthy (c_chain_path ?cert) \<and> fs (str_or (c_chain_path ?cert) []) \<noteq> None
      then put_plan (remote_tmp jb @ ''/chain.pem'') (file_text fs (str_or (c_chain_path ?cert) [])) 420
      else if truthy (c_fullchain_path ?cert) \<and> fs (str_or (c_fullchain_path ?cert) []) \<noteq> None
      then put_plan (remote_tmp jb @ ''/chain.pem'') (file_text fs (str_or (c_fullchain_path ?cert) [])) 420 else []"
  have has: "(if truthy (c_key_path ?cert) then has_private_key (c_key_path ?cert) else ret False) =
      opt_exists (c_key_path ?cert)"
    by (simp add: has_private_key_def opt_exists_def)
  have key: "follows fs h True ?pk True
     (if ?key then bnd (on_world (read_private_key (cx_kc cx) (str_or (c_key_path ?cert) [])))
        (\<lambda>key_pem. sftp_put_bytes h key_pem (remote_tmp jb @ ''/privkey.pem'') 384)
      else fail DeploymentError ''Certificate has no private key - cannot deploy'')"
    by (cases ?key) (auto intro!: follows_key follows_put_bytes follows_throw)
  have chain: "follows fs h True ?chain True
     (bnd (on_world (opt_exists (c_chain_path ?cert))) (\<lambda>chain.
      bnd (on_world (opt_exists (c_fullchain_path ?cert))) (\<lambda>fullchain.
      if chain then sftp_put h (str_or (c_chain_path ?cert) []) (remote_tmp jb @ ''/chain.pem'') 420
      else if fullchain then sftp_put h (str_or (c_fullchain_path ?cert) []) (remote_tmp jb @ ''/chain.pem'') 420
      else ret ())))"
    by (intro follows_exists follows_if follows_put(2) follows_ret)
  have mk: "follows fs h False [(Exec (''mkdir -p '' @ quote (remote_tmp jb)) (sg_command_timeout c), False)] False
      (sftp_mkdir_p (cx_rdf cx) h c (remote_tmp jb))"
    unfolding sftp_mkdir_p_def by (rule follows_eq, (rule follows_rules)+, simp)
  show ?thesis
    unfolding stage_files_def Let_def has
    by (rule follows_eq, rule follows_bnd [OF mk], rule follows_bnd [OF follows_put(1)], rule follows_exists,
        rule follows_bnd [OF key], rule chain)
      (auto simp: files_plan_def Let_def)
qed

lemma follows_session:
  "follows fs (de_host env) False (deploy_plan (cx_kc cx) fs jb c) True
     (bnd (stage_pre cx (de_host env) c jb) (\<lambda>_.
      bnd (stage_files cx (de_host env) c jb) (\<lambda>_.
      bnd (stage_backup cx (de_host env) c now jb) (\<lambda>_.
      bnd (stage_deploy cx (de_host env) c jb) (\<lambda>_.
      bnd (stage_post cx (de_host env) c jb) (\<lambda>_.
      stage_verify cx env now jb))))))"
proof -
  let ?h = "de_host env" and ?rn = "jb_rendered jb"
  have pre: "follows fs ?h False (exec_plan c False (rn_pre_deploy_script ?rn)) False (stage_pre cx ?h c jb)"
    unfolding stage_pre_def Let_def exec_plan_def
    by (rule follows_eq, (rule follows_rules)+, simp)
  have backup: "follows fs ?h True (exec_plan c True (rn_backup_script ?rn)) True (stage_backup cx ?h c now jb)"
    unfolding stage_backup_def Let_def exec_plan_def bnd_assoc [symmetric]
    by (rule follows_eq, (rule follows_rules)+, simp)
  have install: "rn_deploy_script ?rn = [] \<Longrightarrow> map (exec_plan c False) (install_commands jb) =
      map (\<lambda>cmd. [(Exec cmd (sg_command_timeout c), False)] @ []) (install_commands jb)"
    by (auto simp: exec_plan_def install_commands_def)
  have deploy: "follows fs ?h True (if rn_deploy_script ?rn \<noteq> [] then exec_plan c True (rn_deploy_script ?rn)
      else concat (map (exec_plan c False) (install_commands jb))) True (stage_deploy cx ?h c jb)"
    unfolding stage_deploy_def Let_def
    by (rule follows_eq, (rule follows_rules)+, simp add: install exec_plan_def)
  have post: "follows fs ?h True (exec_plan c False (rn_post_deploy_script ?rn) @ exec_plan c True (rn_reload_command ?rn)) True
      (stage_post cx ?h c jb)"
    unfolding stage_post_def Let_def exec_plan_def
    by (rule follows_eq, (rule follows_rules)+, simp)
  have verify: "follows fs ?h True [] True (stage_verify cx env now jb)"
    unfolding stage_verify_def
    by (rule follows_eq, (rule follows_check follows_rules)+, simp)
  show ?thesis
    by (rule follows_eq, (rule pre follows_files backup deploy post verify follows_bnd)+)
      (simp add: deploy_plan_def Let_def)
qed

section \<open>The session of a deployment\<close>

lemma followsD:
  assumes "follows fs h a p b m" "files (rs_world s) = fs" "rs_sftp s = a"
  shows "wp m (\<lambda>_ t. fst (run_plan h (rs_trace s) p) \<and> rs_trace t = rs_trace s @ map fst p)
          (\<lambda>_ t. \<exists>xs. prefix xs (snd (run_plan h (rs_trace s) p)) \<and> rs_trace t = rs_trace s @ xs) s"
  by (rule wp_mono [OF assms(1) [unfolded follows_def, rule_format, OF conjI [OF assms(2,3)]]]) (auto dest: run_plan_all)

definition cleanup_op :: "ssh_config \<Rightarrow> job \<Rightarrow> remote_op" where
  "cleanup_op c jb = Exec (''rm -rf '' @ remote_tmp jb) (sg_command_timeout c)"

lemma cleanup_sends:
  "wp (stage_cleanup cx h c jb) (\<lambda>_ t. rs_trace t = rs_trace s @ [cleanup_op c jb]) E s"
  by (auto simp: stage_cleanup_def cleanup_op_def ssh_exec_def send_def wp_def catch_op_def bnd_def op_simps
      split: sum.splits)

lemma session_trace:
  assumes "files (rs_world s) = fs" "\<not> rs_sftp s"
  shows "wp (deploy_session cx env now jb c)
    (\<lambda>_ t. fst (run_plan (de_host env) (rs_trace s) (deploy_plan (cx_kc cx) fs jb c)) \<and>
       rs_trace t = rs_trace s @ map fst (deploy_plan (cx_kc cx) fs jb c) @ [cleanup_op c jb])
    (\<lambda>_ t. \<exists>xs. prefix xs (snd (run_plan (de_host env) (rs_trace s) (deploy_plan (cx_kc cx) fs jb c))) \<and>
       rs_trace t = rs_trace s @ xs) s"
proof -
  let ?h = "de_host env"
  have d: "deploy_session cx env now jb c = bnd (bnd (stage_pre cx ?h c jb) (\<lambda>_.
      bnd (stage_files cx ?h c jb) (\<lambda>_. bnd (stage_backup cx ?h c now jb) (\<lambda>_.
      bnd (stage_deploy cx ?h c jb) (\<lambda>_. bnd (stage_post cx ?h c jb) (\<lambda>_.
      stage_verify cx env now jb)))))) (\<lambda>_. stage_cleanup cx ?h c jb)"
    by (simp add: deploy_session_def Let_def bnd_assoc)
  have f: "rs_sftp s = False" using assms(2) by simp
  show ?thesis unfolding d wp_bnd [where m = "bnd (stage_pre cx ?h c jb) x" for x]
    by (rule wp_mono [OF followsD [OF follows_session assms(1) f]])
      (auto intro!: wp_mono [OF cleanup_sends [where E = "\<lambda>_ _. False"]])
qed

lemma wp_finally: "wp (finally_op m close) Q E s =
    wp m (\<lambda>x t. Q x (t\<lparr>rs_trace := rs_trace t @ [Close], rs_sftp := False\<rparr>))
         (\<lambda>e t. E e (t\<lparr>rs_trace := rs_trace t @ [Close], rs_sftp := False\<rparr>)) s"
  by (auto simp: wp_def finally_op_def close_def op_simps split: prod.splits sum.splits)

lemma with_ssh_trace:
  assumes "build_ssh_config (cx_cfg cx) (cx_kc cx) sv = Inr c" "connect_args c (files (rs_world s)) = Inr args"
    and "\<And>r. de_host env (rs_trace s) (Connect args) = Inr r \<Longrightarrow>
      wp (body c) (\<lambda>x t. Q x (t\<lparr>rs_trace := rs_trace t @ [Close], rs_sftp := False\<rparr>))
         (\<lambda>e t. E e (t\<lparr>rs_trace := rs_trace t @ [Close], rs_sftp := False\<rparr>)) (s\<lparr>rs_trace := rs_trace s @ [Connect args]\<rparr>)"
    and "\<And>e e'. de_host env (rs_trace s) (Connect args) = Inl e \<Longrightarrow> exc_of e' = SSHConnectionError \<Longrightarrow>
      E e' (s\<lparr>rs_trace := rs_trace s @ [Connect args]\<rparr>)"
  shows "wp (with_ssh cx (de_host env) sv body) Q E s"
proof (cases "de_host env (rs_trace s) (Connect args)")
  case (Inl e)
  then show ?thesis using assms(1,2,4)
    by (auto simp: with_ssh_def connect_def send_def wp_simps wp_def bnd_def catch_op_def op_simps)
next
  case (Inr r)
  have "connect (cx_rdf cx) (de_host env) c s = (Inr (), s\<lparr>rs_trace := rs_trace s @ [Connect args]\<rparr>)"
    using assms(2) Inr by (simp add: connect_def send_def bnd_def catch_op_def op_simps)
  then have "wp (with_ssh cx (de_host env) sv body) Q E s =
      wp (finally_op (body c) close) Q E (s\<lparr>rs_trace := rs_trace s @ [Connect args]\<rparr>)"
    using assms(1) by (simp add: with_ssh_def wp_def bnd_def op_simps)
  then show ?thesis using assms(3) [OF Inr] by (simp add: wp_finally)
qed

text \<open>After a failure the host gets nothing but attempts to restore.\<close>

definition recovery :: "remote_op \<Rightarrow> bool" where
  "recovery x \<longleftrightarrow> (case x of Connect _ \<Rightarrow> True | Close \<Rightarrow> True
     | Exec cmd _ \<Rightarrow> \<exists>dir target. cmd = restore_command dir target | _ \<Rightarrow> False)"

definition recovering :: "remote_op list \<Rightarrow> remote \<Rightarrow> bool" where
  "recovering T s \<longleftrightarrow> (\<exists>rest. list_all recovery rest \<and> rs_trace s = T @ rest)"

lemma recovering_snoc: "recovering T s \<Longrightarrow> recovery x \<Longrightarrow> rs_trace t = rs_trace s @ [x] \<Longrightarrow> recovering T t"
proof -
  assume "recovering T s" "recovery x" "rs_trace t = rs_trace s @ [x]"
  then obtain rest where "list_all recovery (rest @ [x])" "rs_trace t = T @ rest @ [x]"
    by (auto simp: recovering_def)
  then show ?thesis unfolding recovering_def by blast
qed

lemma keeps_recovering_send: "recovery x \<Longrightarrow> keeps (recovering T) (send h x)"
  by (auto simp: keeps_def send_def intro: recovering_snoc)

lemma keeps_recovering [keeps_rules]:
  "keeps (recovering T) (on_world m)" "keeps (recovering T) (log_add l)"
  by (simp_all add: keeps_def recovering_def op_simps log_add_def)

lemma keeps_recovering_close: "keeps (recovering T) close"
  by (auto simp: keeps_def close_def op_simps recovery_def intro: recovering_snoc [where x = Close])

lemma keeps_recovering_rollback: "keeps (recovering T) (rollback_deployment cx env now i d sv)"
  unfolding rollback_deployment_def with_ssh_def connect_def ssh_exec_def rolled_back_def
  by (intro keeps_rules keeps_recovering_send keeps_recovering_close) (auto simp: recovery_def)

lemma keeps_recovering_failed: "keeps (recovering T) (deploy_failed cx env now el jb user tr ex e)"
  unfolding deploy_failed_def close_deployment_def persist_log_def Let_def
  by (intro keeps_rules keeps_recovering_rollback)

section \<open>Properties\<close>

lemma deploy_ok_trace: "rs_trace (snd (deploy_ok cx now el jb q user tr ex s)) = rs_trace s"
proof -
  have "keeps (\<lambda>t. rs_trace t = T) (deploy_ok cx now el jb q user tr ex)" for T
    unfolding deploy_ok_def close_deployment_def persist_log_def Let_def
    by (intro keeps_rules) (simp_all add: keeps_def op_simps)
  then show ?thesis by (simp add: keeps_def)
qed

lemma remote_state_started: "rs_trace (start_remote w) = []" "\<not> rs_sftp (start_remote w)" "rs_world (start_remote w) = w"
  by (simp_all add: start_remote_def)

lemma deploy_session_trace:
  assumes "build_ssh_config (cx_cfg cx) (cx_kc cx) (jb_server jb) = Inr c" "connect_args c (files w) = Inr args"
  shows "wp (with_ssh cx (de_host env) (jb_server jb) (deploy_session cx env now jb))
     (\<lambda>_ t. fst (run_plan (de_host env) [Connect args] (deploy_plan (cx_kc cx) (files w) jb c)) \<and>
        rs_trace t = Connect args # map fst (deploy_plan (cx_kc cx) (files w) jb c) @ [cleanup_op c jb, Close])
     (\<lambda>_ t. \<exists>xs rest. prefix xs (snd (run_plan (de_host env) [Connect args] (deploy_plan (cx_kc cx) (files w) jb c))) \<and>
        list_all recovery rest \<and> rs_trace t = Connect args # xs @ rest) (start_remote w)"
proof (rule with_ssh_trace [OF assms(1), where args = args], goal_cases)
  case (2 r)
  let ?ops = "snd (run_plan (de_host env) [Connect args] (deploy_plan (cx_kc cx) (files w) jb c))"
  show ?case
  proof (rule wp_mono [OF session_trace [where fs = "files w"]], goal_cases)
    case (4 e t)
    then obtain xs where "prefix xs ?ops" "rs_trace t = Connect args # xs"
      by (auto simp: remote_state_started)
    then show ?case by (intro exI [of _ xs] exI [of _ "[Close]"]) (simp add: recovery_def)
  qed (auto simp: remote_state_started)
qed (use assms(2) in \<open>auto simp: remote_state_started intro!: exI [of _ "[]"]\<close>)

text \<open>After a failure only recovery requests follow what was sent.\<close>

lemma deploy_failed_trace:
  assumes run: "deploy_failed cx env now el jb user tr ex e s2 = (Inr (), s')" and st: "tracked_status (jb_deployment jb) T s2"
    and sent: "rs_trace s2 = Connect args # xs @ rest" "prefix xs ops"
      "list_all (\<lambda>x. recovery x \<or> x = cleanup_op c jb) rest"
  shows "\<exists>x xs' rest'. tbl_get (jb_deployment jb) (deployments (committed (rs_world s'))) = Some x \<and>
      d_status x \<in> {DeploymentStatus.FAILED, DeploymentStatus.ROLLED_BACK} \<and>
      rs_trace s' = Connect args # xs' @ rest' \<and> prefix xs' ops \<and>
      list_all (\<lambda>x. recovery x \<or> x = cleanup_op c jb) rest'"
proof -
  have "recovering (rs_trace s2) s2" by (simp add: recovering_def)
  from keepsD [OF keeps_recovering_failed this] have "recovering (rs_trace s2) s'" using run by (metis snd_conv)
  then obtain r2 where "list_all recovery r2" "rs_trace s' = rs_trace s2 @ r2"
    by (auto simp: recovering_def)
  then have "rs_trace s' = Connect args # xs @ rest @ r2" "list_all (\<lambda>x. recovery x \<or> x = cleanup_op c jb) (rest @ r2)"
    using sent(1,3) by (auto simp: list_all_iff)
  moreover have "tracked_status (jb_deployment jb) {DeploymentStatus.FAILED, DeploymentStatus.ROLLED_BACK} s'"
    using wp_InrD [OF deploy_failed_wp [OF st] run] .
  ultimately show ?thesis using sent(2) unfolding rinv_def winv_def status_in_def by blast
qed

text \<open>C12: What a deployment sends is determined by its plan: a successful one sent the whole plan,
  every critical command (backup, installation, reload) exiting with 0, and then the cleanup; a
  failed one stopped at the first request that the host refused, or earlier, and sent nothing
  afterwards but the cleanup and the commands that restore the backup.  In particular nothing is installed
  before the backup succeeded.\<close>

theorem deploy_follows_plan:
  assumes run: "run_deployment cx env now el jb q user tr ex (start_remote w) = (Inr (), s')"
    and st: "winv (status_in (jb_deployment jb) {DeploymentStatus.RUNNING}) w"
    and cfg: "build_ssh_config (cx_cfg cx) (cx_kc cx) (jb_server jb) = Inr c" "connect_args c (files w) = Inr args"
  shows "\<exists>x xs rest. tbl_get (jb_deployment jb) (deployments (committed (rs_world s'))) = Some x \<and>
    rs_trace s' = Connect args # xs @ rest \<and>
    (if d_status x = DeploymentStatus.SUCCESS
     then fst (run_plan (de_host env) [Connect args] (deploy_plan (cx_kc cx) (files w) jb c)) \<and>
       xs = map fst (deploy_plan (cx_kc cx) (files w) jb c) \<and> rest = [cleanup_op c jb, Close]
     else d_status x \<in> {DeploymentStatus.FAILED, DeploymentStatus.ROLLED_BACK} \<and>
       prefix xs (snd (run_plan (de_host env) [Connect args] (deploy_plan (cx_kc cx) (files w) jb c))) \<and>
       list_all (\<lambda>x. recovery x \<or> x = cleanup_op c jb) rest)"
proof -
  let ?h = "de_host env" and ?i = "jb_deployment jb" and ?p = "deploy_plan (cx_kc cx) (files w) jb c"
  let ?s = "start_remote w"
  note tr = deploy_session_trace [OF cfg, of env now]
  have rn: "tracked_status ?i {DeploymentStatus.RUNNING} ?s" using st by (simp add: rinv_def remote_state_started)
  obtain r1 s1 where w1: "with_ssh cx ?h (jb_server jb) (deploy_session cx env now jb) ?s = (r1, s1)" by fastforce
  have t1: "tracked_status ?i {DeploymentStatus.RUNNING} s1"
    using keepsD [OF keeps_with_ssh rn, of "deploy_session cx env now jb" cx ?h "jb_server jb"] keeps_session w1 by simp
  have pre: "prefix (map fst ?p) (snd (run_plan ?h [Connect args] ?p))" if "fst (run_plan ?h [Connect args] ?p)"
    using run_plan_all [OF that] by simp
  note failed = deploy_failed_trace [where ops = "snd (run_plan ?h [Connect args] ?p)"]
  show ?thesis
  proof (cases r1)
    case (Inr u)
    have f: "fst (run_plan ?h [Connect args] ?p)" "rs_trace s1 = Connect args # map fst ?p @ [cleanup_op c jb, Close]"
      using wp_InrD [OF tr w1 [unfolded Inr]] by auto
    obtain r2 s2 where d: "deploy_ok cx now el jb q user tr ex s1 = (r2, s2)" by fastforce
    have t2: "rs_trace s2 = rs_trace s1" using deploy_ok_trace [of cx now el jb q user tr ex s1] d by simp
    have k2: "tracked_status ?i {DeploymentStatus.SUCCESS} s2"
      using deploy_ok_wp [OF t1, of cx now el q user tr ex] d by (auto simp: wp_def split: sum.splits)
    show ?thesis
    proof (cases r2)
      case Inr
      then have "s' = s2" using run d w1 \<open>r1 = Inr u\<close> by (simp add: run_deployment_def catch_op_def bnd_def)
      then show ?thesis using k2 f t2 by (auto simp: rinv_def winv_def status_in_def)
    next
      case (Inl e)
      then have "deploy_failed cx env now el jb user tr ex e s2 = (Inr (), s')"
        using run d w1 \<open>r1 = Inr u\<close>
        by (auto simp: run_deployment_def catch_op_def bnd_def op_simps split: if_splits)
      from failed [OF this k2, of args "map fst ?p" "[cleanup_op c jb, Close]"] show ?thesis
        using f t2 pre by (fastforce simp: recovery_def)
    qed
  next
    case (Inl e)
    then have "deploy_failed cx env now el jb user tr ex e s1 = (Inr (), s')"
      using run w1 by (auto simp: run_deployment_def catch_op_def bnd_def op_simps split: if_splits)
    moreover obtain xs rest where "prefix xs (snd (run_plan ?h [Connect args] ?p))" "list_all recovery rest"
        "rs_trace s1 = Connect args # xs @ rest"
      using wp_InlD [OF tr w1 [unfolded Inl]] by blast
    ultimately show ?thesis using failed [OF _ t1] by (fastforce simp: list_all_iff)
  qed
qed

lemma keeps_get_template:
  "keeps (\<lambda>w. deployments (work w) = D \<and> committed w = C \<and> files w = F) (get_template now tid ty)"
  unfolding get_template_def
  by (intro keeps_rules) (auto simp: keeps_def op_simps split: list.splits prod.splits)

lemma create_record_wp:
  assumes "wf_table (deployments (work w))"
  shows "wp (create_deployment_record now q user)
    (\<lambda>i w'. committed w' = work w' \<and> files w' = files w \<and> (\<exists>x. tbl_get i (deployments (work w')) = Some x \<and>
       d_status x = DeploymentStatus.PENDING \<and> d_certificate_id x = dq_certificate_id q \<and> d_server_id x = dq_server_id q))
    (\<lambda>_ w'. committed w' = committed w) w"
proof -
  have add: "tbl_get (next_id t) (snd (tbl_add now r t)) = Some r" if "wf_table t" for t :: "deployment table" and r
    using tbl.get_add_same [OF that, of now r] by (simp add: tbl_add_def)
  show ?thesis
    unfolding create_deployment_record_def get_certificate_def get_server_def
    by (auto simp: wp_simps add new_deployment_def assms split: option.splits
        intro!: wp_keeps [OF keeps_get_template [of "deployments (work w)" "committed w" "files w"]]
        simp del: bnd_db bnd_prim)
qed

lemma start_wp:
  assumes "tracked_status i T s"
  shows "wp (start_deployment env now i cid cert sid sv dep tmpl)
    (\<lambda>jb t. jb_deployment jb = i \<and> tracked_status i {DeploymentStatus.RUNNING} t)
    (\<lambda>_. tracked_status i {DeploymentStatus.RUNNING}) s"
  using assms unfolding start_deployment_def render_all_def upd_deployment_def Let_def
  by (auto simp: wp_simps rinv_def winv_def status_in_def tbl.get_upd split: sum.splits simp del: bnd_db bnd_prim)

lemma keeps_status_reads [keeps_rules]:
  "keeps J (get_certificate j)" "keeps J (get_server j)" "keeps J (the_deployment j)"
  unfolding get_certificate_def get_server_def the_deployment_def by (intro keeps_rules)+

abbreviation (input) closed_statuses :: "DeploymentStatus set" where
  "closed_statuses \<equiv> {DeploymentStatus.SUCCESS, DeploymentStatus.FAILED, DeploymentStatus.ROLLED_BACK}"

lemma missing_material_wp:
  assumes "tracked_status i T s"
  shows "wp (bnd (on_world (upd_deployment now i (\<lambda>d. d\<lparr>d_status := DeploymentStatus.FAILED, d_error_message := m\<rparr>))) (\<lambda>_.
        bnd (on_world commit) (\<lambda>_.
        bnd (on_world (record_execution now el ex err 1 cid sid user tr JobStatus.FAILED)) (\<lambda>_. ret i))))
    (\<lambda>j t. j = i \<and> tracked_status i closed_statuses t) (\<lambda>_. tracked_status i closed_statuses) s"
proof -
  let ?I = "tracked_status i closed_statuses"
  have "wp (bnd (on_world (upd_deployment now i (\<lambda>d. d\<lparr>d_status := DeploymentStatus.FAILED, d_error_message := m\<rparr>)))
      (\<lambda>_. on_world commit)) (\<lambda>_. ?I) (\<lambda>_. ?I) s"
    using assms by (auto simp: upd_deployment_def wp_simps rinv_def winv_def status_in_def tbl.get_upd)
  then have "wp (bnd (bnd (on_world (upd_deployment now i (\<lambda>d. d\<lparr>d_status := DeploymentStatus.FAILED, d_error_message := m\<rparr>)))
      (\<lambda>_. on_world commit)) (\<lambda>_. on_world (record_execution now el ex err 1 cid sid user tr JobStatus.FAILED)))
      (\<lambda>_. ?I) (\<lambda>_. ?I) s"
    by (rule wp_then_keeps) (intro keeps_rules)
  then show ?thesis unfolding bnd_assoc wp_bnd wp_prim by (elim wp_mono) auto
qed

lemma wp_reads:
  "keeps I m \<Longrightarrow> I s \<Longrightarrow> (\<And>x t. I t \<Longrightarrow> wp (f x) Q (\<lambda>_ _. True) t) \<Longrightarrow> wp (bnd m f) Q (\<lambda>_ _. True) s"
  unfolding wp_bnd by (erule (1) wp_keeps) simp_all

lemma run_started:
  assumes "tracked_status i T s"
  shows "wp (bnd (start_deployment env now i cid cert sid sv dep tmpl) (\<lambda>jb.
      bnd (run_deployment cx env now el jb q user tr ex) (\<lambda>_. ret i))) (\<lambda>i. tracked_status i closed_statuses) (\<lambda>_ _. True) s"
  unfolding wp_bnd wp_prim
  by (rule wp_mono [OF start_wp [OF assms]]) (auto intro!: wp_mono [OF run_deployment_wp])

lemma deploy_certificate_wp:
  assumes "wf_table (deployments (work (rs_world s)))"
  shows "wp (deploy_certificate cx env now el q user tr ex) (\<lambda>i. tracked_status i closed_statuses) (\<lambda>_ _. True) s"
proof -
  note created = wp_mono [OF create_record_wp [OF assms], where E' = "\<lambda>_ _. True"]
  show ?thesis unfolding deploy_certificate_def Let_def
  proof (subst wp_bnd, subst wp_on_world, rule created, goal_cases)
    case (1 i w')
    have t: "tracked_status i {DeploymentStatus.PENDING} (s\<lparr>rs_world := w'\<rparr>)"
      using 1 by (auto simp: rinv_def winv_def status_in_def)
    have k: "keeps (tracked_status i S) (on_world (get_certificate j))" "keeps (tracked_status i S) (on_world (get_server j))"
      "keeps (tracked_status i S) (on_world (the_deployment j))" "keeps (tracked_status i S) (on_world (opt_exists p))" for S j p
      by (intro keeps_rules)+
    show ?case
      by (rule wp_reads [OF k(1) t], rule wp_reads [OF k(2)], assumption, rule wp_reads [OF k(3)], assumption)
        (auto intro!: wp_reads [OF k(4)] run_started wp_mono [OF missing_material_wp])
  qed simp
qed

text \<open>C13: A deployment that returns is closed in the committed state.\<close>

theorem deploy_outcome:
  assumes "deploy_certificate cx env now el q user tr ex s = (Inr i, s')"
    and "wf_table (deployments (work (rs_world s)))"
  shows "\<exists>x. tbl_get i (deployments (committed (rs_world s'))) = Some x \<and>
    d_status x \<in> {DeploymentStatus.SUCCESS, DeploymentStatus.FAILED, DeploymentStatus.ROLLED_BACK}"
  using wp_InrD [OF deploy_certificate_wp [OF assms(2)] assms(1)] by (auto simp: rinv_def winv_def status_in_def)

section \<open>Failures\<close>

definition only_connects :: "remote \<Rightarrow> bool" where
  "only_connects s \<longleftrightarrow> list_all (\<lambda>x. case x of Connect _ \<Rightarrow> True | _ \<Rightarrow> False) (rs_trace s)"

definition refuses :: "host \<Rightarrow> bool" where
  "refuses h \<longleftrightarrow> (\<forall>t a. \<exists>e. h t (Connect a) = Inl e)"

lemma connect_refused:
  assumes "refuses h"
  shows "wp (connect rd h c) (\<lambda>_ _. False)
    (\<lambda>e t. exc_of e = SSHConnectionError \<and> rs_world t = rs_world s \<and> (only_connects s \<longrightarrow> only_connects t)) s"
proof (cases "connect_args c (files (rs_world s))")
  case (Inl e)
  then show ?thesis by (simp add: connect_def wp_def catch_op_def bnd_def op_simps)
next
  case (Inr a)
  obtain e where "h (rs_trace s) (Connect a) = Inl e" using assms unfolding refuses_def by blast
  with Inr show ?thesis
    by (simp add: connect_def wp_def catch_op_def bnd_def send_def only_connects_def op_simps)
qed

lemma with_ssh_refused:
  assumes "refuses h" "build_ssh_config (cx_cfg cx) (cx_kc cx) sv = Inr c"
  shows "wp (with_ssh cx h sv body) (\<lambda>_ _. False)
    (\<lambda>e t. exc_of e = SSHConnectionError \<and> rs_world t = rs_world s \<and> (only_connects s \<longrightarrow> only_connects t)) s"
  unfolding with_ssh_def assms(2) bnd_prim wp_bnd
  by (rule wp_mono [OF connect_refused [OF assms(1)]]) auto

lemma keeps_only_connects [keeps_rules]: "keeps only_connects (on_world m)" "keeps only_connects (log_add l)"
  by (simp_all add: keeps_def only_connects_def op_simps log_add_def)

lemma rolled_back_wp:
  assumes "tracked_status i T s" "only_connects s"
  shows "wp (rolled_back now i) (\<lambda>_ t. tracked_status i {DeploymentStatus.ROLLED_BACK} t \<and> only_connects t) E s"
  using assms
  by (auto simp: rolled_back_def upd_deployment_def wp_simps rinv_def winv_def status_in_def tbl.get_upd only_connects_def)

lemma rollback_refused:
  assumes "refuses (de_host env)" "build_ssh_config (cx_cfg cx) (cx_kc cx) sv = Inr c"
    and "tracked_status i T s" "only_connects s"
  shows "wp (rollback_deployment cx env now i d sv)
    (\<lambda>_ t. tracked_status i {DeploymentStatus.ROLLED_BACK} t \<and> only_connects t) (\<lambda>_ _. True) s"
  unfolding rollback_deployment_def wp_catch
  by (rule wp_mono [OF with_ssh_refused [OF assms(1,2)]])
    (use assms(3,4) in \<open>auto simp: wp_simps rinv_def intro!: rolled_back_wp [unfolded rinv_def]\<close>)

lemma failed_refused:
  assumes "refuses (de_host env)" "build_ssh_config (cx_cfg cx) (cx_kc cx) (jb_server jb) = Inr c"
    and "dt_rollback_enabled (jb_template jb)" "deployment_rollback_enabled (cx_cfg cx)"
    and "tracked_status (jb_deployment jb) T s" "only_connects s"
  shows "wp (deploy_failed cx env now el jb user tr ex e)
    (\<lambda>_ t. tracked_status (jb_deployment jb) {DeploymentStatus.ROLLED_BACK} t \<and> only_connects t) (\<lambda>_ _. True) s"
proof -
  let ?I = "\<lambda>t. tracked_status (jb_deployment jb) {DeploymentStatus.FAILED} t \<and> only_connects t"
  have c: "wp (close_deployment cx now jb DeploymentStatus.FAILED m) (\<lambda>_. ?I) (\<lambda>_ _. True) s" for m
  proof -
    have "keeps only_connects (close_deployment cx now jb DeploymentStatus.FAILED m)"
      unfolding close_deployment_def persist_log_def Let_def by (intro keeps_rules)
    then show ?thesis using close_tracked [OF assms(5), of DeploymentStatus.FAILED "{DeploymentStatus.FAILED}" cx now m] assms(6)
      by (auto simp: wp_def keeps_def split: prod.splits sum.splits)
  qed
  have k: "keeps ?I (on_world (audit_deploy cx now user cid res dt))" 
    "keeps ?I (on_world (queue_event_notifications nt kc now ev x y))"
    "keeps ?I (on_world (record_execution now el ex err n cid sid user tr st))"
    "keeps ?I (on_world (db_get g))" for cid res dt nt kc ev x y err n sid st and g :: "db \<Rightarrow> deployment option"
    unfolding audit_deploy_def audit_cert_def by (intro keeps_conj keeps_rules)+
  show ?thesis unfolding deploy_failed_def Let_def
  proof (subst wp_bnd, rule wp_mono [OF c], goal_cases)
    case (1 u t)
    show ?case
      by (rule wp_reads [OF k(1) 1], rule wp_reads [OF k(2)], assumption, rule wp_reads [OF k(3)], assumption)
        (auto simp: when_op_def assms(3,4) wp_simps intro!: wp_reads [OF k(4)] rollback_refused [OF assms(1,2)]
          split: option.splits)
  qed simp
qed

text \<open>A deployment to a host that never lets anyone connect ends as rolled back, although nothing
  was deployed and no command, of the deployment or of a rollback, ever reached the host.\<close>

theorem unreachable_rolled_back:
  assumes "refuses (de_host env)" and "build_ssh_config (cx_cfg cx) (cx_kc cx) (jb_server jb) = Inr c"
    and "dt_rollback_enabled (jb_template jb)" and "deployment_rollback_enabled (cx_cfg cx)"
    and "winv (status_in (jb_deployment jb) {DeploymentStatus.RUNNING}) w"
    and "run_deployment cx env now el jb q user tr ex (start_remote w) = (Inr (), s')"
  shows "only_connects s' \<and> (\<exists>x. tbl_get (jb_deployment jb) (deployments (committed (rs_world s'))) = Some x \<and>
    d_status x = DeploymentStatus.ROLLED_BACK)"
proof -
  have s: "tracked_status (jb_deployment jb) {DeploymentStatus.RUNNING} (start_remote w)" "only_connects (start_remote w)"
    using assms(5) by (simp_all add: start_remote_def rinv_def only_connects_def)
  have "wp (run_deployment cx env now el jb q user tr ex)
      (\<lambda>_ t. tracked_status (jb_deployment jb) {DeploymentStatus.ROLLED_BACK} t \<and> only_connects t) (\<lambda>_ _. True) (start_remote w)"
    unfolding run_deployment_def wp_catch wp_bnd
    by (rule wp_mono [OF with_ssh_refused [OF assms(1,2)]])
      (use s in \<open>auto simp: wp_simps rinv_def intro!: failed_refused [OF assms(1-4), unfolded rinv_def]\<close>)
  from wp_InrD [OF this assms(6)] show ?thesis by (auto simp: rinv_def winv_def status_in_def)
qed

text \<open>Any other exception in the session (the SFTP channel, reading the private key, the
  verification) is not handled: it escapes, and the deployment stays running in the committed
  state for good.\<close>

theorem deploy_exception_strands:
  assumes "winv (status_in (jb_deployment jb) {DeploymentStatus.RUNNING}) w"
    and "with_ssh cx (de_host env) (jb_server jb) (deploy_session cx env now jb) (start_remote w) = (Inl e, s1)"
    and "exc_of e \<notin> {SSHConnectionError, DeploymentError}"
  shows "\<exists>s' x. remote_session (run_deployment cx env now el jb q user tr ex) (start_remote w) = (Inl e, s') \<and>
    tbl_get (jb_deployment jb) (deployments (committed (rs_world s'))) = Some x \<and> d_status x = DeploymentStatus.RUNNING"
proof -
  have "tracked_status (jb_deployment jb) {DeploymentStatus.RUNNING} (start_remote w)"
    using assms(1) by (simp add: rinv_def start_remote_def)
  from keepsD [OF keeps_with_ssh this, of "deploy_session cx env now jb" cx "de_host env" "jb_server jb"]
  have "tracked_status (jb_deployment jb) {DeploymentStatus.RUNNING} s1" using keeps_session assms(2) by simp
  then show ?thesis using assms(2,3)
    by (auto simp: remote_session_def run_deployment_def catch_op_def bnd_def op_simps rinv_def winv_def status_in_def)
qed

section \<open>Other deployments\<close>

text \<open>An invariant of the database that depends on the deployments only and that no change of the
  deployment \<open>j\<close> can break is kept by a run that works on \<open>j\<close>.\<close>

locale bystander =
  fixes I :: "db \<Rightarrow> bool" and j :: int
  assumes other: "deployments d' = deployments d \<Longrightarrow> I d \<Longrightarrow> I d'"
    and upd: "I d \<Longrightarrow> I (deployments_update (tbl_upd now j f) d)"
begin

lemma upd_keeps: "keeps (winv I) (upd_deployment now j f)"
  unfolding upd_deployment_def by (intro keeps_db_mod upd)

lemma db_keeps: "(\<And>d. deployments (f d) = deployments d) \<Longrightarrow> keeps (winv I) (db_mod f)"
  by (intro keeps_db_mod) (auto intro: other)

lemma audit_keeps: "keeps (winv I) (record_audit rd now a)"
  unfolding record_audit_def by (intro db_keeps) simp

lemma queue_keeps: "keeps (winv I) (queue_event_notifications nt k now event cert extra)"
  unfolding queue_event_notifications_def queue_one_def Let_def
  by (intro keeps_rules) (auto intro!: db_keeps split: prod.splits)

lemma execution_keeps: "keeps (winv I) (record_execution now el ex err code cid sid user tr st)"
  unfolding record_execution_def upd_job_def Let_def by (intro keeps_rules db_keeps) simp_all

lemma rollback_keeps: "keeps (rinv (winv I)) (rollback_deployment cx env now j d sv)"
  unfolding rollback_deployment_def rolled_back_def by (intro keeps_rules upd_keeps)

lemma session_keeps: "jb_deployment jb = j \<Longrightarrow> keeps (rinv (winv I)) (deploy_session cx env now jb c)"
  unfolding deploy_session_def stage_pre_def stage_files_def stage_backup_def stage_deploy_def stage_post_def
    stage_verify_def stage_cleanup_def run_step_def Let_def
  by (intro keeps_rules) (simp_all add: upd_keeps)

lemma close_keeps: "jb_deployment jb = j \<Longrightarrow> keeps (rinv (winv I)) (close_deployment cx now jb st err)"
  unfolding close_deployment_def by (intro keeps_rules) (simp_all add: upd_keeps)

lemma run_keeps: "jb_deployment jb = j \<Longrightarrow> keeps (rinv (winv I)) (run_deployment cx env now el jb q user tr ex)"
  unfolding run_deployment_def deploy_ok_def deploy_failed_def audit_deploy_def audit_cert_def Let_def
  by (intro keeps_rules session_keeps close_keeps audit_keeps queue_keeps execution_keeps) (simp_all add: rollback_keeps)

lemma started_keeps:
  "keeps (rinv (winv I)) (bnd (start_deployment env now j cid cert sid sv dep tmpl)
     (\<lambda>jb. bnd (run_deployment cx env now el jb q user tr ex) (\<lambda>_. ret j)))"
  unfolding start_deployment_def render_all_def Let_def bnd_assoc bnd_prim(1)
  by (intro keeps_rules run_keeps upd_keeps) simp

lemma missing_keeps:
  "keeps (rinv (winv I)) (bnd (on_world (upd_deployment now j f)) (\<lambda>_. bnd (on_world commit) (\<lambda>_.
     bnd (on_world (record_execution now el ex err code cid sid user tr st)) (\<lambda>_. ret j))))"
  by (intro keeps_rules upd_keeps execution_keeps)

end

definition same_others :: "int \<Rightarrow> deployment table \<Rightarrow> db \<Rightarrow> bool" where
  "same_others j D d \<longleftrightarrow> (\<forall>k. k \<noteq> j \<longrightarrow> tbl_get k (deployments d) = tbl_get k D)"

interpretation others: bystander "same_others j D" j for j D
  by unfold_locales (auto simp: same_others_def tbl.get_upd)

lemma create_others:
  assumes "wf_table (deployments (work w))"
  shows "wp (create_deployment_record now q user)
    (\<lambda>i w'. i = next_id (deployments (work w)) \<and> winv (same_others i (deployments (work w))) w')
    (\<lambda>_ w'. deployments (work w') = deployments (work w) \<and> committed w' = committed w) w"
proof -
  have add: "k \<noteq> next_id t \<Longrightarrow> tbl_get k (snd (tbl_add now r t)) = tbl_get k t"
    if "wf_table t" for t :: "deployment table" and r k
    using tbl.get_add [OF that, of k now r] by (simp add: tbl_add_def)
  show ?thesis
    unfolding create_deployment_record_def get_certificate_def get_server_def
    by (auto simp: wp_simps add winv_def same_others_def assms split: option.splits
        intro!: wp_keeps [OF keeps_get_template [of "deployments (work w)" "committed w" "files w"]]
        simp del: bnd_db bnd_prim)
qed

text \<open>A deployment changes no deployment but the one it creates, whatever happens: each other row
  is the same before and after, in the session and in what is committed.\<close>

theorem deploy_only_its_row:
  assumes "wf_table (deployments (work (rs_world s)))" and "committed (rs_world s) = work (rs_world s)"
    and "k \<noteq> next_id (deployments (work (rs_world s)))"
    and "deploy_certificate cx env now el q user tr ex s = (r, s')"
  shows "tbl_get k (deployments (committed (rs_world s'))) = tbl_get k (deployments (committed (rs_world s))) \<and>
    tbl_get k (deployments (work (rs_world s'))) = tbl_get k (deployments (work (rs_world s)))"
proof -
  let ?D = "deployments (work (rs_world s))"
  let ?j = "next_id ?D"
  let ?I = "rinv (winv (same_others ?j ?D))"
  have I: "?I s" using assms(2) by (simp add: rinv_def winv_def same_others_def)
  have "wp (deploy_certificate cx env now el q user tr ex) (\<lambda>_. ?I) (\<lambda>_. ?I) s"
    unfolding deploy_certificate_def Let_def
  proof (subst wp_bnd, subst wp_on_world, rule wp_mono [OF create_others [OF assms(1)]], goal_cases)
    case (1 i w')
    have k: "keeps ?I (on_world (get_certificate c))" "keeps ?I (on_world (get_server c))"
      "keeps ?I (on_world (the_deployment c))" "keeps ?I (on_world (opt_exists p))" for c p
      by (intro keeps_rules)+
    have "keeps ?I (bnd (on_world (get_certificate (dq_certificate_id q))) (\<lambda>cert.
        bnd (on_world (get_server (dq_server_id q))) (\<lambda>sv.
        bnd (on_world (the_deployment ?j)) (\<lambda>(dep, tmpl).
        bnd (on_world (opt_exists (c_cert_path cert))) (\<lambda>material.
        if \<not> material then
          bnd (on_world (upd_deployment now ?j (\<lambda>d. d\<lparr>d_status := DeploymentStatus.FAILED,
                 d_error_message := Some ''Certificate material missing on platform''\<rparr>))) (\<lambda>_.
          bnd (on_world commit) (\<lambda>_.
          bnd (on_world (record_execution now el ex ''missing material'' 1 (dq_certificate_id q) (dq_server_id q) user tr JobStatus.FAILED))
            (\<lambda>_. ret ?j)))
        else
          bnd (start_deployment env now ?j (dq_certificate_id q) cert (dq_server_id q) sv dep tmpl) (\<lambda>jb.
          bnd (run_deployment cx env now el jb q user tr ex) (\<lambda>_. ret ?j)))))))"
      by (intro keeps_bnd k keeps_prod keeps_if others.missing_keeps others.started_keeps)
    then show ?case using 1 by (auto intro!: wp_keeps simp: rinv_def)
  qed (use I in \<open>auto simp: rinv_def winv_def same_others_def\<close>)
  then have "?I s'" using assms(4) by (auto simp: wp_def split: sum.splits)
  then show ?thesis using assms(2,3) by (simp add: rinv_def winv_def same_others_def)
qed

lemma keeps_guard: "keeps (\<lambda>w. committed w = work w \<and> deployments (work w) = D) (ensure_not_maintenance now op')"
  unfolding ensure_not_maintenance_def is_maintenance_def
  by (auto simp: keeps_def bnd_def op_simps split: option.splits)

lemma create_wf:
  assumes "wf_table (deployments (work w))"
  shows "wp (create_deployment_record now q user) (\<lambda>i w'. wf_table (deployments (work w'))) (\<lambda>_ _. True) w"
  unfolding create_deployment_record_def get_certificate_def get_server_def
  by (auto simp: wp_simps assms tbl.wf_add split: option.splits
      intro!: wp_keeps [OF keeps_get_template [of "deployments (work w)" "committed w" "files w"]]
      simp del: bnd_db bnd_prim)

lemma wf_get_bound: "wf_table t \<Longrightarrow> tbl_get i t = Some x \<Longrightarrow> i < next_id t"
  by (auto simp: wf_table_def ids_def tbl_get_def tbl_row_def find_Some_iff)

lemma deploy_task_other:
  assumes "wf_table (deployments (work w))" "committed w = work w" "tbl_get k (deployments (work w)) = Some x"
  shows "tbl_get k (deployments (committed (rs_world (snd (deploy_task cx env now el q ex (start_remote w)))))) = Some x"
proof -
  obtain r w1 where g: "ensure_not_maintenance now ''background job'' w = (r, w1)" by fastforce
  have w1: "committed w1 = work w1" "deployments (work w1) = deployments (work w)"
    using keepsD [OF keeps_guard, of w "deployments (work w)" now "''background job''"] assms(2) g by auto
  show ?thesis
  proof (cases r)
    case (Inl e)
    then show ?thesis using g w1 assms(3) by (simp add: deploy_task_def remote_session_def bnd_def op_simps start_remote_def)
  next
    case (Inr u)
    let ?s = "(start_remote w)\<lparr>rs_world := w1\<rparr>"
    obtain r2 s2 where d: "deploy_certificate cx env now el q None JobTrigger.API ex ?s = (r2, s2)" by fastforce
    have "k \<noteq> next_id (deployments (work w1))" using wf_get_bound [OF assms(1,3)] w1(2) by simp
    then have "tbl_get k (deployments (committed (rs_world s2))) = Some x" "tbl_get k (deployments (work (rs_world s2))) = Some x"
      using deploy_only_its_row [of ?s k cx env now el q None JobTrigger.API ex r2 s2] d w1 assms by simp_all
    then show ?thesis using Inr g d
      by (cases r2) (simp_all add: deploy_task_def remote_session_def bnd_def op_simps start_remote_def)
  qed
qed

text \<open>Outside the eager mode the endpoint creates a deployment and hands the request to a worker,
  which creates another one: the deployment whose identifier the caller got stays pending,
  whatever the worker does.\<close>

theorem async_deploy_pending:
  assumes "remote_session (post_deploy cx env now el user ip agent q) (start_remote w) = (Inr (i, Some m), s1)"
    and "wf_table (deployments (work w))" and "committed w = work w"
  shows "\<exists>x. tbl_get i (deployments (committed (rs_world
      (snd (deploy_task cx env2 now2 el2 m ex2 (start_remote (rs_world s1))))))) = Some x \<and>
    d_status x = DeploymentStatus.PENDING"
proof -
  obtain r w1 where g: "ensure_not_maintenance now ''deployment'' w = (r, w1)" by fastforce
  have w1: "committed w1 = work w1" "deployments (work w1) = deployments (work w)"
    using keepsD [OF keeps_guard, of w "deployments (work w)" now "''deployment''"] assms(3) g by auto
  let ?a = "Some (au_id user, au_username user)"
  obtain rc w2 where c: "create_deployment_record now q ?a w1 = (rc, w2)" by fastforce
  have s1: "rc = Inr i" "committed (rs_world s1) = work (rs_world s1)" "deployments (work (rs_world s1)) = deployments (work w2)"
    using assms(1) g c
    by (auto simp: remote_session_def post_deploy_def Let_def bnd_def op_simps start_remote_def audit_admin_def record_audit_def
        split: if_splits sum.splits prod.splits)
  note c' = c [unfolded s1(1)]
  have "wf_table (deployments (work w2))" "\<exists>x. tbl_get i (deployments (work w2)) = Some x \<and> d_status x = DeploymentStatus.PENDING"
    using wp_InrD [OF create_record_wp c'] wp_InrD [OF create_wf c'] w1(2) assms(2) by auto
  then show ?thesis using s1(2,3) deploy_task_other [of "rs_world s1" i] by metis
qed

end
