(* ===== verification/Server_Proofs.thy ===== *)
theory Server_Proofs
  imports Servers Deploy_Proofs
begin

text \<open>
  The command center and the server inventory.  The alphabet of each allowlist pattern bounds the
  characters of an accepted command; the invariant \<open>safe_sends\<close> carries that to everything the
  command center sends.
\<close>

section \<open>Accepted commands\<close>

lemma alpha_lit_str [simp]: "alpha (lit_str s) c \<longleftrightarrow> c \<in> set s"
  by (induction s) (auto simp: lit_def)

lemma alpha_alt_list [simp]: "alpha (alt_list r rs) c \<longleftrightarrow> (\<exists>q \<in> set (r # rs). alpha q c)"
  by (induction rs arbitrary: r) auto

definition command_char :: "char \<Rightarrow> bool" where
  "command_char c \<longleftrightarrow> is_alnum_ascii c \<or> c \<in> set ''_./- '' \<or> c = CHR 0x25"

definition within :: "re \<Rightarrow> bool" where
  "within r \<longleftrightarrow> (\<forall>c. alpha r c \<longrightarrow> command_char c)"

lemma within_simps [simp]:
  "within (Seq a b) \<longleftrightarrow> within a \<and> within b" "within (Alt a b) \<longleftrightarrow> within a \<and> within b"
  "within (Star a) \<longleftrightarrow> within a" "within (plus_re a) \<longleftrightarrow> within a" "within (opt_re a) \<longleftrightarrow> within a"
  "within (lit c) \<longleftrightarrow> command_char c" "within (lit_str s) \<longleftrightarrow> list_all command_char s"
  "within (alt_list a rs) \<longleftrightarrow> within a \<and> list_all within rs"
  by (auto simp: within_def plus_re_def opt_re_def lit_def list_all_iff)

lemma within_classes [simp]: "within (Cls name_char)" "within (Cls path_char)" "within (Cls letter)"
  by (auto simp: within_def command_char_def name_char_def path_char_def letter_def is_alnum_ascii_def)

lemma command_chars [simp]: "command_char c" if "c \<in> set ''abcdefghijklmnopqrstuvwxyz0123456789_./- %''"
proof -
  have "list_all command_char ''abcdefghijklmnopqrstuvwxyz0123456789_./- %''" by code_simp
  then show ?thesis using that unfolding list_all_iff by blast
qed

lemma anchored_eq [simp]: "anchored a = anchored b \<longleftrightarrow> a = b"
  by (simp add: anchored_def)

lemma pattern_alphabet: "list_all (\<lambda>p. \<exists>r. snd p = anchored r \<and> within r) ALLOWED_COMMAND_PATTERNS"
  unfolding ALLOWED_COMMAND_PATTERNS_def CERT_DIRS_def SAFE_SUBPATH_def SERVICE_NAME_def
  by (simp del: lit_str.simps alt_list.simps)

lemma find_SomeD: "find P xs = Some x \<Longrightarrow> x \<in> set xs \<and> P x"
  by (auto simp: find_Some_iff)

lemma validated_chars:
  assumes "validate_remote_command command = Inr name"
  shows "list_all command_char (py_strip command) \<and> py_strip command \<noteq> [] \<and> length (py_strip command) \<le> 512"
proof -
  let ?c = "py_strip command"
  obtain pattern where p: "(name, pattern) \<in> set ALLOWED_COMMAND_PATTERNS" "re_match pattern ?c"
    and l: "?c \<noteq> []" "length ?c \<le> 512"
    using assms find_SomeD [of "\<lambda>(name, pattern). re_match pattern ?c" ALLOWED_COMMAND_PATTERNS]
    by (fastforce simp: validate_remote_command_def Let_def split: if_splits option.splits)
  obtain r where r: "pattern = anchored r" "\<forall>c. alpha r c \<longrightarrow> command_char c"
    using pattern_alphabet p(1) by (fastforce simp: list_all_iff within_def)
  have "alpha r c" if "c \<in> set ?c" for c
    using match_anchored_alpha [of r ?c c] p(2) r(1) that stripped_last' [of command] by (simp add: anchored_def)
  then show ?thesis using r(2) l by (simp add: list_all_iff)
qed

text \<open>The text is judged as it is sent.  The pattern was matched against the stripped text, so white space of
  any kind, also a newline, may stand before and behind the \<open>core\<close>; nothing else may.\<close>

definition sent_text_ok :: "string \<Rightarrow> bool" where
  "sent_text_ok command \<longleftrightarrow> (\<exists>before core after. command = before @ core @ after \<and> core \<noteq> [] \<and> length core \<le> 512 \<and>
     list_all command_char core \<and> list_all py_isspace before \<and> list_all py_isspace after)"

definition safe_op :: "remote_op \<Rightarrow> bool" where
  "safe_op x \<longleftrightarrow> (case x of
       Exec command _ \<Rightarrow> sent_text_ok command
     | Connect _ \<Rightarrow> True | Close \<Rightarrow> True | _ \<Rightarrow> False)"

lemma rstrip_split: "\<exists>after. s = rstrip_by p s @ after \<and> list_all p after"
  by (intro exI [of _ "rev (takeWhile p (rev s))"])
    (auto simp: rstrip_by_def list_all_iff rev_append [symmetric] simp del: rev_append dest: set_takeWhileD)

lemma strip_split: "\<exists>before after. s = before @ py_strip s @ after \<and> list_all py_isspace before \<and> list_all py_isspace after"
proof -
  have "s = takeWhile py_isspace s @ lstrip_by py_isspace s" by (simp add: lstrip_by_def)
  moreover have "list_all py_isspace (takeWhile py_isspace s)" by (auto simp: list_all_iff dest: set_takeWhileD)
  moreover obtain after where "lstrip_by py_isspace s = py_strip s @ after" "list_all py_isspace after"
    using rstrip_split [of "lstrip_by py_isspace s" py_isspace] by (auto simp: py_strip_def strip_by_def)
  ultimately show ?thesis by metis
qed

lemma sent_text_okI: "validate_remote_command command = Inr name \<Longrightarrow> sent_text_ok command"
  using validated_chars [of command name] strip_split [of command] unfolding sent_text_ok_def by metis

definition safe_sends :: "remote \<Rightarrow> bool" where
  "safe_sends s \<longleftrightarrow> list_all safe_op (rs_trace s)"

lemma keeps_safe_send: "safe_op x \<Longrightarrow> keeps safe_sends (send h x)"
  by (simp add: keeps_def safe_sends_def send_def)

lemma keeps_safe [keeps_rules]: "keeps safe_sends (on_world m)" "keeps safe_sends close"
  by (simp_all add: keeps_def safe_sends_def op_simps close_def safe_op_def)

lemma keeps_safe_command: "keeps safe_sends (run_maintenance_command cx h now i command user)"
proof (cases "validate_remote_command command")
  case (Inl e)
  then show ?thesis by (simp add: run_maintenance_command_def keeps_throw)
next
  case (Inr name)
  then have "safe_op (Exec command t)" for t using sent_text_okI by (simp add: safe_op_def)
  then show ?thesis
    unfolding run_maintenance_command_def with_ssh_def connect_def ssh_exec_def
    by (intro keeps_rules keeps_safe_send) (simp_all add: safe_op_def)
qed

text \<open>C33: Whatever command or service a user asks for, every text the command center sends to a host is a
  non-empty core of at most 512 letters, digits, blanks and the characters \<^verbatim>\<open>_ . / - %\<close>, without a shell
  metacharacter, quote or newline, with nothing but white space before and behind it.\<close>

theorem command_center_safe:
  "keeps safe_sends (post_command cx h now user i command) \<and>
   keeps safe_sends (post_service cx h now user i service action)"
  unfolding post_command_def post_service_def service_control_def require_manager_def
  by (intro conjI keeps_rules keeps_safe_command)

text \<open>The white space around the core is not removed: a newline behind an accepted command reaches the host,
  although \<^verbatim>\<open>command.py\<close> counts it among the metacharacters.\<close>

lemma newline_accepted:
  "validate_remote_command (''df -h'' @ [CHR 0x0A]) = validate_remote_command ''df -h'' \<and>
   isl (validate_remote_command ''df -h'') = False \<and> sent_text_ok (''df -h'' @ [CHR 0x0A])"
proof (intro conjI)
  show r: "validate_remote_command (''df -h'' @ [CHR 0x0A]) = validate_remote_command ''df -h''" by code_simp
  show l: "isl (validate_remote_command ''df -h'') = False" by code_simp
  show "sent_text_ok (''df -h'' @ [CHR 0x0A])" using l
    by (intro sent_text_okI [of _ "projr (validate_remote_command ''df -h'')"])
      (simp only: r sum.collapse(2) not_False_eq_True)
qed

text \<open>The allowlist does not confine the paths: a path below an allowed directory may leave it
  again, so any file of the host can be read.\<close>

theorem allowlist_traversal:
  "validate_remote_command ''cat /etc/ssl/../shadow'' = Inr ''view_cert_files'' \<and>
   validate_remote_command ''cat /etc/shadow'' = raises ValidationAppError ''Command is not in the allowed maintenance allowlist''"
  by code_simp

text \<open>Every action on every allowed service passes the allowlist.\<close>

lemma service_commands_accepted:
  "list_all (\<lambda>service. list_all (\<lambda>action. validate_remote_command (''systemctl '' @ action @ '' '' @ service) =
     Inr (if action = ''status'' then ''service_status'' else action @ ''_service'')) SERVICE_ACTIONS) ALLOWED_SERVICE_NAMES"
  by code_simp

section \<open>Inventory\<close>

lemma keeps_tag:
  "keeps (\<lambda>w. committed w = C \<and> (\<exists>t. tbl_get i (servers (work w)) = Some (sv\<lparr>sv_tags := t\<rparr>))) (add_server_tag now j name)"
proof (cases "j = i")
  case True
  have "keeps (\<lambda>w. committed w = C \<and> (\<exists>t. tbl_get i (servers (work w)) = Some (sv\<lparr>sv_tags := t\<rparr>)))
      (upd_server now i (\<lambda>s. if x \<in> set (sv_tags s) then s else s\<lparr>sv_tags := sv_tags s @ [x]\<rparr>))" for x
  proof (rule keepsI, elim conjE exE)
    fix s :: world and t assume "committed s = C" "tbl_get i (servers (work s)) = Some (sv\<lparr>sv_tags := t\<rparr>)"
    then show "committed (snd (upd_server now i (\<lambda>s. if x \<in> set (sv_tags s) then s else s\<lparr>sv_tags := sv_tags s @ [x]\<rparr>) s)) = C \<and>
      (\<exists>t. tbl_get i (servers (work (snd (upd_server now i (\<lambda>s. if x \<in> set (sv_tags s) then s
         else s\<lparr>sv_tags := sv_tags s @ [x]\<rparr>) s)))) = Some (sv\<lparr>sv_tags := t\<rparr>))"
      by (intro conjI exI [of _ "if x \<in> set t then t else t @ [x]"]) (simp_all add: upd_server_def op_simps tbl.get_upd)
  qed
  with True show ?thesis
    unfolding add_server_tag_def by (intro keeps_rules) (auto simp: keeps_def op_simps)
next
  case False
  then have "keeps (\<lambda>w. committed w = C \<and> (\<exists>t. tbl_get i (servers (work w)) = Some (sv\<lparr>sv_tags := t\<rparr>)))
      (upd_server now j f)" for f
    by (auto simp: keeps_def upd_server_def op_simps tbl.get_upd)
  then show ?thesis
    unfolding add_server_tag_def by (intro keeps_rules) (auto simp: keeps_def op_simps)
qed

lemma create_server_wp:
  assumes "wf_table (servers (work w))"
  shows "wp (create_server k iv now p) (\<lambda>i w'. committed w' = work w' \<and> (\<exists>h port t.
      validate_domain False (sp_hostname p) = Inr h \<and> validate_port (sp_ssh_port p) = Inr port \<and>
      (truthy (sp_ip_address p) \<longrightarrow> is_valid_ip (str_or (sp_ip_address p) [])) \<and>
      tbl_get i (servers (work w')) = Some ((server_row k iv h port p)\<lparr>sv_tags := t\<rparr>)))
    (\<lambda>_ w'. committed w' = committed w) w"
proof -
  let ?row = "\<lambda>h port. server_row k iv h port p"
  let ?I = "\<lambda>h port w'. committed w' = committed w \<and>
      (\<exists>t. tbl_get (next_id (servers (work w))) (servers (work w')) = Some ((?row h port)\<lparr>sv_tags := t\<rparr>))"
  have add: "tbl_get (next_id t) (snd (tbl_add now r t)) = Some r" if "wf_table t" for t :: "server table" and r
    using tbl.get_add_same [OF that, of now r] by (simp add: tbl_add_def)
  have t: "\<exists>t. ?row h port = (?row h port)\<lparr>sv_tags := t\<rparr>" for h port
    by (rule exI [of _ "[]"]) (simp add: server_row_def)
  have k: "keeps (?I h port) (for_each (sp_tags p) (add_server_tag now j))" for h port j
    by (intro keeps_for_each keeps_tag)
  show ?thesis unfolding create_server_def
    by (auto simp: wp_simps add assms split: sum.splits simp del: bnd_db bnd_prim
        intro!: wp_keeps [OF k] t)
qed

text \<open>A server that was created has a valid address and port, and connecting to it uses exactly
  the credentials that were given: they are stored encrypted and decrypt to themselves.\<close>

theorem created_server_connects:
  assumes "fernet_correct k" and "create_server k iv now p w = (Inr i, w')" and "wf_table (servers (work w))"
    and "\<And>m. m \<noteq> [] \<Longrightarrow> fernet_encrypt k iv m \<noteq> []"
  shows "\<exists>sv c. tbl_get i (servers (committed w')) = Some sv \<and> build_ssh_config cfg k sv = Inr c \<and>
    sg_password c = (if truthy (sp_ssh_password p) then sp_ssh_password p else None) \<and>
    sg_key_passphrase c = (if truthy (sp_ssh_key_passphrase p) then sp_ssh_key_passphrase p else None) \<and>
    1 \<le> sg_port c \<and> sg_port c \<le> 65535 \<and>
    (is_valid_ip (sg_hostname c) \<or> validate_domain False (sp_hostname p) = Inr (sg_hostname c))"
proof -
  obtain h port t where r: "committed w' = work w'" "validate_domain False (sp_hostname p) = Inr h"
    "validate_port (sp_ssh_port p) = Inr port" "truthy (sp_ip_address p) \<longrightarrow> is_valid_ip (str_or (sp_ip_address p) [])"
    "tbl_get i (servers (work w')) = Some ((server_row k iv h port p)\<lparr>sv_tags := t\<rparr>)"
    using wp_InrD [OF create_server_wp [OF assms(3)] assms(2)] by blast
  have d: "decrypt_opt k (encrypt_opt k iv v) = Inr (if truthy v then v else None)" for v
    using secret_roundtrip [OF assms(1)] assms(4)
    by (cases v) (auto simp: decrypt_opt_def encrypt_opt_def truthy_def str_or_def encrypt_secret_def)
  have "port = sp_ssh_port p" "1 \<le> port" "port \<le> 65535" using r(3) by (auto simp: validate_port_def split: if_splits)
  then show ?thesis using r
    by (auto simp: build_ssh_config_def server_row_def d str_or_def truthy_def split: option.splits)
qed

text \<open>An update stores any hostname and port: what the creation validates is not validated here.\<close>

lemma update_server_unchecked:
  assumes "tbl_get i (servers (work w)) = Some sv" and "\<not> hostname_taken (Some i) h (work w)"
  shows "\<exists>sv'. update_server k iv now i (no_update\<lparr>su_hostname := Some (Some h), su_ssh_port := Some (Some port)\<rparr>) w =
      (Inr (), snd (update_server k iv now i (no_update\<lparr>su_hostname := Some (Some h), su_ssh_port := Some (Some port)\<rparr>) w)) \<and>
    tbl_get i (servers (committed (snd (update_server k iv now i
      (no_update\<lparr>su_hostname := Some (Some h), su_ssh_port := Some (Some port)\<rparr>) w)))) = Some sv' \<and>
    sv_hostname sv' = h \<and> sv_ssh_port sv' = port"
  using assms
  by (simp add: update_server_def get_server_def no_update_def update_violates_def sent_def upd_server_def
      apply_update_def tbl.get_upd op_simps)

text \<open>Deleting a server removes its deployments and keeps its executions without the reference.\<close>

lemma delete_server_effect:
  assumes "delete_server now i w = (Inr (), w')"
  shows "tbl_get i (servers (committed w')) = None \<and>
    list_all (\<lambda>x. d_server_id (rval x) \<noteq> i) (rows (deployments (committed w'))) \<and>
    list_all (\<lambda>x. j_server_id (rval x) \<noteq> Some i) (rows (job_executions (committed w'))) \<and>
    ids (job_executions (committed w')) = ids (job_executions (work w))"
  using assms
  by (auto simp: delete_server_def get_server_def delete_server_rows_def op_simps bnd_def tbl.get_del
      tbl_del_where_def tbl_upd_where_def list_all_iff ids_def split: option.splits)

end
