(* ===== verification/Deploy_Witnesses.thy ===== *)
theory Deploy_Witnesses
  imports Server_Proofs Cert_Witnesses
begin

text \<open>
  Concrete deployments at which the properties of \<open>Deploy_Proofs\<close> and \<open>Server_Proofs\<close> apply: a
  host that accepts everything, one that cannot be reached, and one without SFTP.
\<close>

definition demo_payload :: server_payload where
  "demo_payload = \<lparr>
     sp_hostname = ''Web.example.com'', sp_ip_address = None, sp_environment = ''production'',
     sp_os_type = ''linux'', sp_ssh_port = 22, sp_auth_method = ''ssh_key'', sp_ssh_user = ''root'',
     sp_ssh_password = Some ''s3cret'', sp_ssh_key_path = None, sp_ssh_key_passphrase = None,
     sp_proxy_jump = None, sp_jump_host = None, sp_certificate_directory = None,
     sp_web_server_type = Some ''nginx'', sp_owner_id = None, sp_tags = [''web''], sp_notes = None,
     sp_capabilities = []\<rparr>"

definition demo_server :: server where
  "demo_server = server_row clear_crypto ''iv'' ''web.example.com'' 22 demo_payload"

definition deployable :: certificate where
  "deployable = demo_cert\<lparr>c_cert_path := Some ''/c.pem'', c_key_path := Some ''/k.pem''\<rparr>"

definition deploy_files :: "string \<rightharpoonup> string" where
  "deploy_files = [''/c.pem'' \<mapsto> ''CERT'', ''/k.pem'' \<mapsto> ''KEY'']"

definition running_deployment :: deployment where
  "running_deployment = (new_deployment 1 1 1 DeploymentMethod.SFTP (Some ''nginx'') None)\<lparr>d_status := DeploymentStatus.RUNNING\<rparr>"

definition demo_template :: deployment_template where
  "demo_template = \<lparr>dt_name = ''web'', dt_target_type = ''nginx'', dt_description = None,
     dt_pre_deploy_script = [], dt_backup_script = ''backup'', dt_deploy_script = ''install'',
     dt_post_deploy_script = [], dt_reload_command = Some ''reload'', dt_verify_enabled = True,
     dt_rollback_enabled = True, dt_variables = [], dt_is_active = True, dt_created_by = None\<rparr>"

definition deploy_world :: "deployment list \<Rightarrow> world" where
  "deploy_world ds = open_session (empty_db\<lparr>
     certificates := snd (tbl_add 0 deployable empty_table),
     servers := snd (tbl_add 0 demo_server empty_table),
     deployment_templates := snd (tbl_add 0 demo_template empty_table),
     deployments := foldl (\<lambda>t d. snd (tbl_add 0 d t)) empty_table ds\<rparr>) deploy_files"

definition done_result :: ssh_result where
  "done_result = \<lparr>sr_command = [], sr_exit_code = 0, sr_stdout = [], sr_stderr = [], sr_duration_ms = 1\<rparr>"

definition host_ok :: host where
  "host_ok t x = Inr done_result"

definition host_down :: host where
  "host_down t x = Inl (Exn OSError ''timed out'' None)"

definition host_without_sftp :: host where
  "host_without_sftp t x = (if x = Open_sftp then Inl (Exn OSError ''channel refused'' None) else Inr done_result)"

definition demo_env :: "host \<Rightarrow> deploy_env" where
  "demo_env h = \<lparr>de_host = h, de_render = (\<lambda>s _. Inr s),
     de_tls = (\<lambda>_ _ _. Inr \<lparr>tp_version = ''TLSv1.3'', tp_not_after = None\<rparr>)\<rparr>"

definition demo_request :: deploy_request where
  "demo_request = \<lparr>dq_certificate_id = 1, dq_server_id = 1, dq_template_id = None,
     dq_target_service = Some ''nginx'', dq_method = DeploymentMethod.SFTP\<rparr>"

definition demo_rendered :: rendered where
  "demo_rendered = \<lparr>rn_pre_deploy_script = [], rn_backup_script = ''backup'', rn_deploy_script = ''install'',
     rn_post_deploy_script = [], rn_reload_command = ''reload''\<rparr>"

definition demo_job :: job where
  "demo_job = \<lparr>jb_deployment = 1, jb_cert_id = 1, jb_cert = deployable, jb_server_id = 1, jb_server = demo_server,
     jb_template = demo_template, jb_vars = [], jb_rendered = demo_rendered\<rparr>"

abbreviation run_demo :: "host \<Rightarrow> (exn + unit) \<times> remote" where
  "run_demo h \<equiv> run_deployment with_provider (demo_env h) 5 1 demo_job demo_request None JobTrigger.API None
     (start_remote (deploy_world [running_deployment]))"

lemma foldl_add_wf: "wf_table t \<Longrightarrow> wf_table (foldl (\<lambda>t d. snd (tbl_add now d t)) t ds)"
  by (induction ds arbitrary: t) (simp_all add: tbl.wf_add)

lemma deploy_world_facts [simp]:
  "winv (status_in 1 {DeploymentStatus.RUNNING}) (deploy_world [running_deployment])"
  "wf_table (deployments (work (deploy_world ds)))" "files (deploy_world ds) = deploy_files"
  "committed (deploy_world ds) = work (deploy_world ds)"
  using foldl_add_wf [OF wf_empty_table, of 0 ds]
  by (simp_all add: deploy_world_def open_session_def winv_def status_in_def running_deployment_def)
    (simp_all add: tbl_get_def tbl_row_def tbl_add_def empty_table_def)

definition demo_config :: ssh_config where
  "demo_config = \<lparr>sg_hostname = ''web.example.com'', sg_port = 22, sg_username = ''root'',
     sg_password = Some ''s3cret'', sg_key_path = None, sg_key_passphrase = None, sg_proxy_jump = None,
     sg_connect_timeout = 10, sg_command_timeout = 120\<rparr>"

definition demo_args :: connect_kwargs where
  "demo_args = \<lparr>ck_hostname = ''web.example.com'', ck_port = 22, ck_username = ''root'', ck_timeout = 10,
     ck_allow_agent = False, ck_password = Some ''s3cret'', ck_key_filename = None, ck_passphrase = None,
     ck_sock = None\<rparr>"

lemma demo_connection:
  "build_ssh_config (cx_cfg with_provider) (cx_kc with_provider) (jb_server demo_job) = Inr demo_config"
  "connect_args demo_config fs = Inr demo_args"
  by (simp_all add: build_ssh_config_def with_provider_def demo_ctx_def demo_job_def demo_server_def server_row_def
      demo_payload_def decrypt_opt_def encrypt_opt_def truthy_def str_or_def decrypt_secret_def encrypt_secret_def
      clear_crypto_def default_settings_def demo_config_def demo_args_def connect_args_def Let_def)

lemma demo_job_deployment [simp]: "jb_deployment demo_job = 1"
  by (simp add: demo_job_def)

lemma deploy_follows_plan_witness:
  "\<exists>s' xs rest. run_demo host_ok = (Inr (), s') \<and> rs_trace s' = Connect demo_args # xs @ rest"
proof -
  have "fst (run_demo host_ok) = Inr ()" by code_simp
  then obtain s' where r: "run_demo host_ok = (Inr (), s')" by (cases "run_demo host_ok") auto
  from deploy_follows_plan [OF r, of demo_config demo_args] show ?thesis
    using r demo_connection by auto
qed

lemma deploy_outcome_witness:
  "\<exists>s' x. deploy_certificate with_provider (demo_env host_ok) 5 1 demo_request None JobTrigger.API None
       (start_remote (deploy_world [])) = (Inr 1, s') \<and>
     tbl_get 1 (deployments (committed (rs_world s'))) = Some x \<and>
     d_status x \<in> {DeploymentStatus.SUCCESS, DeploymentStatus.FAILED, DeploymentStatus.ROLLED_BACK}"
proof -
  let ?r = "deploy_certificate with_provider (demo_env host_ok) 5 1 demo_request None JobTrigger.API None
       (start_remote (deploy_world []))"
  have "fst ?r = Inr 1" by code_simp
  then obtain s' where r: "?r = (Inr 1, s')" by (cases ?r) auto
  from deploy_outcome [OF this] r show ?thesis by (auto simp: start_remote_def)
qed

lemma deploy_only_its_row_witness:
  "\<exists>r s'. deploy_certificate with_provider (demo_env host_down) 5 1 demo_request None JobTrigger.API None
       (start_remote (deploy_world [running_deployment])) = (r, s') \<and>
     tbl_get 1 (deployments (committed (rs_world s'))) = Some running_deployment"
proof -
  let ?s = "start_remote (deploy_world [running_deployment])"
  obtain r s' where r: "deploy_certificate with_provider (demo_env host_down) 5 1 demo_request None JobTrigger.API None ?s = (r, s')"
    by fastforce
  have "next_id (deployments (work (rs_world ?s))) = 2" "tbl_get 1 (deployments (work (rs_world ?s))) = Some running_deployment"
    by (simp_all add: start_remote_def deploy_world_def open_session_def tbl_add_def empty_table_def tbl_get_def tbl_row_def)
  then show ?thesis using deploy_only_its_row [of ?s 1, OF _ _ _ r] r by (simp add: start_remote_def)
qed

lemma unreachable_rolled_back_witness:
  "\<exists>s' x. run_demo host_down = (Inr (), s') \<and> only_connects s' \<and>
     tbl_get 1 (deployments (committed (rs_world s'))) = Some x \<and> d_status x = DeploymentStatus.ROLLED_BACK"
proof -
  have "fst (run_demo host_down) = Inr ()" by code_simp
  then obtain s' where r: "run_demo host_down = (Inr (), s')" by (cases "run_demo host_down") auto
  have "refuses (de_host (demo_env host_down))" by (simp add: refuses_def demo_env_def host_down_def)
  from unreachable_rolled_back [OF this demo_connection(1) _ _ _ r] show ?thesis
    using r by (auto simp: demo_job_def demo_template_def with_provider_def default_settings_def)
qed

lemma deploy_exception_strands_witness:
  "\<exists>e s' x. remote_session (run_deployment with_provider (demo_env host_without_sftp) 5 1 demo_job demo_request None
       JobTrigger.API None) (start_remote (deploy_world [running_deployment])) = (Inl e, s') \<and>
     tbl_get 1 (deployments (committed (rs_world s'))) = Some x \<and> d_status x = DeploymentStatus.RUNNING"
proof -
  let ?b = "with_ssh with_provider (de_host (demo_env host_without_sftp)) (jb_server demo_job)
      (deploy_session with_provider (demo_env host_without_sftp) 5 demo_job) (start_remote (deploy_world [running_deployment]))"
  have "fst ?b = Inl (Exn OSError ''channel refused'' None)" by code_simp
  then obtain s1 where b: "?b = (Inl (Exn OSError ''channel refused'' None), s1)" by (cases ?b) auto
  from deploy_exception_strands [OF _ b] show ?thesis by fastforce
qed

definition demo_user :: api_user where
  "demo_user = \<lparr>au_id = 1, au_username = ''admin'', au_role = ''administrator''\<rparr>"

lemma async_deploy_pending_witness:
  "\<exists>s1 x. remote_session (post_deploy with_provider (demo_env host_ok) 5 1 demo_user None None demo_request)
       (start_remote (deploy_world [])) = (Inr (1, Some demo_request), s1) \<and>
     tbl_get 1 (deployments (committed (rs_world (snd (deploy_task with_provider (demo_env host_ok) 6 1 demo_request None
       (start_remote (rs_world s1))))))) = Some x \<and> d_status x = DeploymentStatus.PENDING"
proof -
  let ?r = "remote_session (post_deploy with_provider (demo_env host_ok) 5 1 demo_user None None demo_request)
       (start_remote (deploy_world []))"
  have "fst ?r = Inr (1, Some demo_request)" by code_simp
  then obtain s1 where r: "?r = (Inr (1, Some demo_request), s1)" by (cases ?r) auto
  from async_deploy_pending [OF r] r show ?thesis by auto
qed

lemma created_server_connects_witness:
  "\<exists>w' sv c. create_server clear_crypto ''iv'' 5 demo_payload (demo_session demo_cert) = (Inr 1, w') \<and>
     tbl_get 1 (servers (committed w')) = Some sv \<and> build_ssh_config default_settings clear_crypto sv = Inr c \<and>
     sg_password c = Some ''s3cret''"
proof -
  let ?r = "create_server clear_crypto ''iv'' 5 demo_payload (demo_session demo_cert)"
  have "fst ?r = Inr 1" by code_simp
  then obtain w' where r: "?r = (Inr 1, w')" by (cases ?r) auto
  have "wf_table (servers (work (demo_session demo_cert)))"
    by (simp add: demo_session_def open_session_def empty_db_def)
  moreover have "fernet_encrypt clear_crypto iv m = m" for iv m by (simp add: clear_crypto_def)
  ultimately show ?thesis
    using created_server_connects [OF clear_crypto_correct(2) r, of default_settings] r
    by (auto simp: demo_payload_def truthy_def)
qed

end
