(* ===== verification/Cert_Usage.thy ===== *)
theory Cert_Usage
  imports Discovery "HOL-Library.AList"
begin

text \<open>
  \<open>app/services/certificate_usage_service.py\<close>: which endpoints present a given certificate.
  Candidates are collected from the certificate, the inventory, earlier network scans and the
  user's list; each is probed once and its row of \<open>usage_results\<close> is inserted or updated.  The
  resolver, the handshakes and the creation of the TLS context are the fields of a
  \<open>probe_net\<close>.  The worker threads only compute the outcomes of the probes, which are read in
  the order of submission, so the probes appear as function values here.  The iteration
  order of Python sets only decides the order of the rows; the order of first occurrence is taken.
\<close>

section \<open>Candidates\<close>

definition normalize_fingerprint :: "string option \<Rightarrow> string" where
  "normalize_fingerprint v =
     filter (\<lambda>c. c \<noteq> CHR '' '') (filter (\<lambda>c. c \<noteq> CHR '':'') (map upper_char (str_or v [])))"

text \<open>A line \<^verbatim>\<open>host:port\<close> with a usable port, anything else is a host.\<close>

definition split_endpoint :: "string \<Rightarrow> string \<times> int option" where
  "split_endpoint item =
     (if CHR '':'' \<in> set item \<and> \<not> is_valid_ip item then
        (case py_rpartition CHR '':'' item of
           None \<Rightarrow> (item, None)
         | Some (candidate_host, port_str) \<Rightarrow>
             (case py_int port_str of
                Inl _ \<Rightarrow> (item, None)
              | Inr n \<Rightarrow> (case validate_port n of
                            Inl _ \<Rightarrow> (item, None)
                          | Inr p \<Rightarrow> (py_strip candidate_host, Some p))))
      else (item, None))"

fun parse_manual_hostnames :: "string list \<Rightarrow> (string \<times> int option) list" where
  "parse_manual_hostnames [] = []"
| "parse_manual_hostnames (line # rest) =
     (let item = py_strip line in
      if item = [] then parse_manual_hostnames rest
      else
        (case split_endpoint item of (host, port) \<Rightarrow>
          (case validate_domain False host of
             Inr h \<Rightarrow> (h, port) # parse_manual_hostnames rest
           | Inl _ \<Rightarrow>
               if is_valid_ip host then (py_lower host, port) # parse_manual_hostnames rest
               else parse_manual_hostnames rest)))"

definition wildcard_suffix :: "string \<Rightarrow> string" where
  "wildcard_suffix domain = (if py_startswith domain ''*.'' then drop 2 domain else domain)"

definition is_dot :: "char \<Rightarrow> bool" where
  "is_dot c \<longleftrightarrow> c = CHR ''.''"

definition covered_by_single_label_wildcard :: "string \<Rightarrow> string \<Rightarrow> bool" where
  "covered_by_single_label_wildcard hostname suffix =
     (let h = rstrip_by is_dot hostname;
          s = py_lower (rstrip_by is_dot suffix) in
      if \<not> py_endswith h (CHR ''.'' # s) then False
      else let remainder = take (length h - (length s + 1)) h in
           remainder \<noteq> [] \<and> CHR ''.'' \<notin> set remainder)"

definition wildcard_suffixes :: "certificate \<Rightarrow> string list" where
  "wildcard_suffixes c =
     (let wildcard_sans = filter (\<lambda>s. py_startswith s ''*.'') (c_sans c);
          names = (if wildcard_sans = [] \<and> py_startswith (c_domain c) ''*.'' then [c_domain c] else wildcard_sans) in
      sorted_set (map wildcard_suffix names))"

definition literal_sans :: "certificate \<Rightarrow> string list" where
  "literal_sans c = map (\<lambda>s. py_lower (py_strip s)) (filter (\<lambda>s. s \<noteq> [] \<and> \<not> py_startswith s ''*.'') (c_sans c))"

definition covered_by_any :: "string list \<Rightarrow> string \<Rightarrow> bool" where
  "covered_by_any suffixes h \<longleftrightarrow> list_ex (covered_by_single_label_wildcard h) suffixes"

definition candidate_hostnames_from_inventory :: "string list \<Rightarrow> db \<Rightarrow> string list" where
  "candidate_hostnames_from_inventory suffixes d =
     (if suffixes = [] then []
      else
        let hosts = map (\<lambda>w. py_lower (py_strip (sv_hostname (rval w)))) (rows (servers d));
            names = map (\<lambda>w. py_lower (py_strip (cd_domain (rval w)))) (rows (certificate_domains d)) in
        remdups (filter (\<lambda>h. h \<noteq> [] \<and> covered_by_any suffixes h) hosts @
                 filter (\<lambda>n. n \<noteq> [] \<and> \<not> py_startswith n ''*.'' \<and> covered_by_any suffixes n) names))"

definition candidate_targets_from_network_sightings :: "int \<Rightarrow> db \<Rightarrow> (string \<times> int) list" where
  "candidate_targets_from_network_sightings cid d =
     map (\<lambda>(h, p). (py_lower (py_strip h), p)) (filter (\<lambda>(h, p). h \<noteq> [])
       (remdups (map (\<lambda>w. (ns_host (rval w), ns_port (rval w)))
         (tbl_sel (\<lambda>w. ns_certificate_id (rval w) = cid) (network_sightings d)))))"

section \<open>Probes\<close>

record probe_result =
  pr_status :: CertUsageResultStatus
  pr_ip_address :: "string option"
  pr_presented_fingerprint :: "string option"
  pr_presented_subject :: "string option"
  pr_presented_issuer :: "string option"
  pr_presented_serial :: "string option"
  pr_not_before :: "datetime option"
  pr_not_after :: "datetime option"
  pr_error_code :: "string option"
  pr_error_message :: "string option"

definition failed_probe :: "CertUsageResultStatus \<Rightarrow> string option \<Rightarrow> string \<Rightarrow> string \<Rightarrow> probe_result" where
  "failed_probe st ip code msg = \<lparr>pr_status = st, pr_ip_address = ip, pr_presented_fingerprint = None,
     pr_presented_subject = None, pr_presented_issuer = None, pr_presented_serial = None,
     pr_not_before = None, pr_not_after = None, pr_error_code = Some code, pr_error_message = Some msg\<rparr>"

text \<open>What the resolver answers within the timeout (\<open>DnsError\<close> covers \<^verbatim>\<open>gaierror\<close> and
  \<^verbatim>\<open>UnicodeError\<close>), and what connecting and the handshake end with.  An operating system error
  during the handshake is not an \<^verbatim>\<open>SSLError\<close> and is reported like one of the connection.\<close>

datatype dns_reply = Resolved string | DnsTimeout | DnsError string | DnsRaised exn

datatype tls_reply =
    Presented "string option"
  | ConnectTimeout
  | ConnectError string
  | HandshakeTimeout
  | HandshakeError string
  | TlsRaised exn

record probe_net =
  pn_context :: "exn + unit"
  pn_dns :: "string \<Rightarrow> dns_reply"
  pn_tls :: "string \<Rightarrow> int \<Rightarrow> string option \<Rightarrow> tls_reply"

text \<open>The part after the name is resolved.\<close>

definition judge_presented :: "x509 \<Rightarrow> string \<Rightarrow> string option \<Rightarrow> string option \<Rightarrow> exn + probe_result" where
  "judge_presented x5 expected ip der =
     (case der of
        None \<Rightarrow> Inr (failed_probe CertUsageResultStatus.TLS_FAILED ip ''no_certificate''
                  ''TLS handshake succeeded but no certificate was presented'')
      | Some x \<Rightarrow>
          (case parse_certificate x5 x of
             Inl e \<Rightarrow>
               if exc_of e = ValidationAppError
               then Inr (failed_probe CertUsageResultStatus.TLS_FAILED ip ''parse_failed'' (take 500 (exc_msg e)))
               else Inl e
           | Inr m \<Rightarrow>
               let presented = Some (m_fingerprint_sha256 m) in
               Inr \<lparr>pr_status = (if normalize_fingerprint presented = normalize_fingerprint (Some expected)
                                then CertUsageResultStatus.CONFIRMED
                                else CertUsageResultStatus.DIFFERENT_CERTIFICATE),
                 pr_ip_address = ip, pr_presented_fingerprint = presented,
                 pr_presented_subject = Some (m_subject m), pr_presented_issuer = Some (m_issuer m),
                 pr_presented_serial = Some (m_serial_number m),
                 pr_not_before = Some (m_valid_from m), pr_not_after = Some (m_valid_until m),
                 pr_error_code = None, pr_error_message = None\<rparr>))"

definition connect_probe :: "x509 \<Rightarrow> probe_net \<Rightarrow> string \<Rightarrow> int \<Rightarrow> string \<Rightarrow> string \<Rightarrow> exn + probe_result" where
  "connect_probe x5 net hostname port expected ip =
     (let server_hostname = (if is_valid_ip hostname then None else Some hostname) in
      case pn_tls net ip port server_hostname of
        Presented der \<Rightarrow> judge_presented x5 expected (Some ip) der
      | HandshakeTimeout \<Rightarrow>
          Inr (failed_probe CertUsageResultStatus.TIMEOUT (Some ip) ''tls_timeout'' ''TLS handshake timed out'')
      | HandshakeError msg \<Rightarrow>
          Inr (failed_probe CertUsageResultStatus.TLS_FAILED (Some ip) ''tls_failed'' (take 500 msg))
      | ConnectTimeout \<Rightarrow>
          Inr (failed_probe CertUsageResultStatus.TIMEOUT (Some ip) ''connect_timeout'' ''Connection timed out'')
      | ConnectError msg \<Rightarrow>
          Inr (failed_probe CertUsageResultStatus.UNREACHABLE (Some ip) ''connect_failed'' (take 500 msg))
      | TlsRaised e \<Rightarrow> Inl e)"

definition probe_hostname :: "x509 \<Rightarrow> probe_net \<Rightarrow> string \<Rightarrow> int \<Rightarrow> string \<Rightarrow> exn + probe_result" where
  "probe_hostname x5 net hostname port expected =
     (if is_valid_ip hostname then connect_probe x5 net hostname port expected hostname
      else
        (case pn_dns net hostname of
           Resolved ip \<Rightarrow> connect_probe x5 net hostname port expected ip
         | DnsTimeout \<Rightarrow>
             Inr (failed_probe CertUsageResultStatus.TIMEOUT None ''dns_timeout'' ''DNS resolution timed out'')
         | DnsError msg \<Rightarrow>
             Inr (failed_probe CertUsageResultStatus.DNS_FAILED None ''dns_failed'' (take 500 msg))
         | DnsRaised e \<Rightarrow> Inl e))"

definition CONNECTIVITY_FAILURES :: "CertUsageResultStatus list" where
  "CONNECTIVITY_FAILURES =
     [CertUsageResultStatus.DNS_FAILED, CertUsageResultStatus.UNREACHABLE, CertUsageResultStatus.TIMEOUT]"

text \<open>The loop over the ports after the first; \<open>None\<close> when none of them is reachable.\<close>

fun other_ports ::
    "(int \<Rightarrow> exn + probe_result) \<Rightarrow> int list \<Rightarrow> exn + (int \<times> probe_result) option" where
  "other_ports probe [] = Inr None"
| "other_ports probe (p # ps) =
     (case probe p of
        Inl e \<Rightarrow> Inl e
      | Inr r \<Rightarrow> if pr_status r \<notin> set CONNECTIVITY_FAILURES then Inr (Some (p, r)) else other_ports probe ps)"

definition port_fallback :: "(int \<Rightarrow> exn + probe_result) \<Rightarrow> int list \<Rightarrow> exn + (int \<times> probe_result)" where
  "port_fallback probe ports =
     (case ports of
        [] \<Rightarrow> raises ValueError ''ports must be non-empty''
      | first_port # rest \<Rightarrow>
          (case probe first_port of
             Inl e \<Rightarrow> Inl e
           | Inr first_result \<Rightarrow>
               if pr_status first_result \<notin> set CONNECTIVITY_FAILURES \<or>
                  pr_status first_result = CertUsageResultStatus.DNS_FAILED
               then Inr (first_port, first_result)
               else (case other_ports probe rest of
                       Inl e \<Rightarrow> Inl e
                     | Inr (Some hit) \<Rightarrow> Inr hit
                     | Inr None \<Rightarrow> Inr (first_port, first_result))))"

definition probe_hostname_with_port_fallback ::
    "x509 \<Rightarrow> probe_net \<Rightarrow> string \<Rightarrow> int list \<Rightarrow> string \<Rightarrow> exn + (int \<times> probe_result)" where
  "probe_hostname_with_port_fallback x5 net hostname ports expected =
     port_fallback (\<lambda>p. probe_hostname x5 net hostname p expected) ports"

section \<open>Results\<close>

definition SOURCE_PRECEDENCE :: "string \<Rightarrow> int" where
  "SOURCE_PRECEDENCE source =
     or_default (map_of [(''inventory'', 0), (''certificate_sans'', 1), (''manual'', 2), (''network_sighting'', 3)] source) 0"

text \<open>The columns of the unique constraint; a comparison with \<^verbatim>\<open>None\<close> is rendered \<^verbatim>\<open>IS NULL\<close>.\<close>

definition endpoint :: "usage_result \<Rightarrow> int \<times> string \<times> string option \<times> int" where
  "endpoint r = (ur_certificate_id r, ur_hostname r, ur_ip_address r, ur_port r)"

definition new_result :: "datetime \<Rightarrow> int \<Rightarrow> string \<Rightarrow> int \<Rightarrow> string \<Rightarrow> probe_result \<Rightarrow> usage_result" where
  "new_result now cid hostname port source pr = \<lparr>
     ur_certificate_id = cid, ur_hostname = hostname, ur_ip_address = pr_ip_address pr, ur_port = port,
     ur_protocol = ''tls'', ur_status = CertUsageResultStatus.UNREACHABLE, ur_expected_fingerprint = None,
     ur_presented_fingerprint = None, ur_presented_subject = None, ur_presented_issuer = None,
     ur_presented_serial = None, ur_presented_certificate_id = None, ur_not_before = None, ur_not_after = None,
     ur_discovery_source = source, ur_error_code = None, ur_error_message = None, ur_first_seen_at = now,
     ur_last_seen_at = None, ur_last_checked_at = now, ur_scan_id = None\<rparr>"

definition reachable :: "probe_result \<Rightarrow> bool" where
  "reachable pr \<longleftrightarrow> pr_status pr \<in> {CertUsageResultStatus.CONFIRMED, CertUsageResultStatus.DIFFERENT_CERTIFICATE}"

text \<open>The certificate a different endpoint presents, when it is known.\<close>

definition presented_certificate :: "probe_result \<Rightarrow> db \<Rightarrow> int option" where
  "presented_certificate pr d =
     (if pr_status pr = CertUsageResultStatus.DIFFERENT_CERTIFICATE \<and> truthy (pr_presented_fingerprint pr)
      then map_option rid (tbl_first (\<lambda>w. c_fingerprint_sha256 (rval w) = pr_presented_fingerprint pr) (certificates d))
      else None)"

definition note_probe ::
    "datetime \<Rightarrow> int \<Rightarrow> certificate \<Rightarrow> int option \<Rightarrow> probe_result \<Rightarrow> usage_result \<Rightarrow> usage_result" where
  "note_probe now sid c known pr r = r\<lparr>
     ur_status := pr_status pr, ur_expected_fingerprint := c_fingerprint_sha256 c,
     ur_presented_fingerprint := pr_presented_fingerprint pr,
     ur_presented_subject := pr_presented_subject pr, ur_presented_issuer := pr_presented_issuer pr,
     ur_presented_serial := pr_presented_serial pr, ur_not_before := pr_not_before pr,
     ur_not_after := pr_not_after pr, ur_error_code := pr_error_code pr,
     ur_error_message := pr_error_message pr, ur_last_checked_at := now, ur_scan_id := Some sid,
     ur_presented_certificate_id := known,
     ur_last_seen_at := (if reachable pr then Some now else ur_last_seen_at r)\<rparr>"

definition upgrade_source :: "string \<Rightarrow> usage_result \<Rightarrow> usage_result" where
  "upgrade_source source r =
     (if SOURCE_PRECEDENCE (ur_discovery_source r) < SOURCE_PRECEDENCE source
      then r\<lparr>ur_discovery_source := source\<rparr> else r)"

definition find_result :: "int \<times> string \<times> string option \<times> int \<Rightarrow> db \<Rightarrow> usage_result row option" where
  "find_result k d = tbl_first (\<lambda>w. endpoint (rval w) = k) (usage_results d)"

definition record_result ::
    "datetime \<Rightarrow> int \<Rightarrow> int \<Rightarrow> certificate \<Rightarrow> string \<Rightarrow> int \<Rightarrow> string \<Rightarrow> probe_result
      \<Rightarrow> CertUsageResultStatus wop" where
  "record_result now sid cid c hostname port source pr =
     bnd (db_get (find_result (cid, hostname, pr_ip_address pr, port))) (\<lambda>existing.
     bnd (db_get (presented_certificate pr)) (\<lambda>known.
     bnd (case existing of
            None \<Rightarrow> db_mod (usage_results_update (\<lambda>t. snd (tbl_add now
                      (note_probe now sid c known pr (new_result now cid hostname port source pr)) t)))
          | Some w \<Rightarrow> db_mod (usage_results_update (tbl_upd now (rid w)
                      (\<lambda>r. note_probe now sid c known pr (upgrade_source source r))))) (\<lambda>_.
     ret (pr_status pr))))"

section \<open>Scans\<close>

definition get_usage_discovery_certificate :: "int \<Rightarrow> certificate wop" where
  "get_usage_discovery_certificate cid =
     bnd (db_get (\<lambda>d. tbl_get cid (certificates d))) (\<lambda>co.
     case co of
       None \<Rightarrow> fail NotFoundError ''Certificate not found''
     | Some c \<Rightarrow>
         if \<not> c_is_wildcard c \<and> length (c_sans c) \<le> 1
         then fail ValidationAppError
           ''Usage discovery is only available for wildcard or multi-domain (SAN) certificates in this release''
         else ret c)"

record usage_request =
  uq_sources :: "string list option"
  uq_hostnames :: "string list option"
  uq_ports :: "int list option"
  uq_has_timeout :: bool
  uq_concurrency :: "int option"

text \<open>\<^verbatim>\<open>get_setting(db, key) or default\<close>; an unreadable setting raises.\<close>

definition setting_or :: "crypto \<Rightarrow> string \<Rightarrow> string \<Rightarrow> string wop" where
  "setting_or k key dflt =
     bnd (db_get (get_setting k key)) (\<lambda>v. bnd (lift_exn v) (\<lambda>x. ret (str_or x dflt)))"

fun validate_ports :: "int list \<Rightarrow> exn + int list" where
  "validate_ports [] = Inr []"
| "validate_ports (p # ps) =
     (case validate_port p of
        Inl e \<Rightarrow> Inl e
      | Inr q \<Rightarrow> (case validate_ports ps of Inl e \<Rightarrow> Inl e | Inr qs \<Rightarrow> Inr (q # qs)))"

definition resolve_ports :: "crypto \<Rightarrow> int list option \<Rightarrow> int list wop" where
  "resolve_ports k ports =
     (if ports = Some [] then fail ValidationAppError ''At least one port is required''
      else
        bnd (case ports of
               Some ps \<Rightarrow> ret ps
             | None \<Rightarrow> bnd (setting_or k ''cert_usage_scan.ports'' ''443,8443,9443'') (\<lambda>raw.
                         lift_exn (parse_all (split_list raw)))) (\<lambda>raw_ports.
        lift_exn (validate_ports raw_ports)))"

definition resolve_limits :: "crypto \<Rightarrow> (string \<Rightarrow> bool) \<Rightarrow> usage_request \<Rightarrow> unit wop" where
  "resolve_limits k float_ok q =
     bnd (if uq_has_timeout q then ret ()
          else bnd (setting_or k ''cert_usage_scan.timeout_seconds'' ''5'') (\<lambda>t.
                 if float_ok t then ret () else fail ValueError ''could not convert string to float'')) (\<lambda>_.
     if id_truthy (uq_concurrency q) then ret ()
     else bnd (setting_or k ''cert_usage_scan.max_concurrency'' ''25'') (\<lambda>n.
            bnd (lift_exn (py_int n)) (\<lambda>_. ret ())))"

text \<open>The two dictionaries: names probed at the configured ports in order, and endpoints whose
  port is known.  Assigning to an existing key keeps its position, as \<open>AList.update\<close> does.\<close>

type_synonym candidates = "(string \<times> string) list \<times> ((string \<times> int) \<times> string) list"

definition set_all :: "'v \<Rightarrow> 'k list \<Rightarrow> ('k \<times> 'v) list \<Rightarrow> ('k \<times> 'v) list" where
  "set_all v ks al = fold (\<lambda>k. AList.update k v) ks al"

definition add_manual :: "string \<times> int option \<Rightarrow> candidates \<Rightarrow> candidates" where
  "add_manual hp cs =
     (case hp of
        (h, Some p) \<Rightarrow> (fst cs, AList.update (h, p) ''manual'' (snd cs))
      | (h, None) \<Rightarrow> (AList.update h ''manual'' (fst cs), snd cs))"

definition scan_candidates :: "string list \<Rightarrow> string list option \<Rightarrow> int \<Rightarrow> certificate \<Rightarrow> db \<Rightarrow> candidates" where
  "scan_candidates sources hostnames cid c d =
     (let f1 = (if ''inventory'' \<in> set sources
                then set_all ''inventory'' (candidate_hostnames_from_inventory (wildcard_suffixes c) d) [] else []);
          f2 = (if ''sans'' \<in> set sources then set_all ''certificate_sans'' (literal_sans c) f1 else f1);
          (f3, e1) = (if ''manual'' \<in> set sources
                      then fold add_manual (parse_manual_hostnames (or_default hostnames [])) (f2, []) else (f2, []));
          e2 = (if ''network_sightings'' \<in> set sources
                then set_all ''network_sighting'' (candidate_targets_from_network_sightings cid d) e1 else e1) in
      (f3, e2))"

definition new_scan :: "int \<Rightarrow> string list \<Rightarrow> int option \<Rightarrow> usage_scan" where
  "new_scan cid sources created_by = \<lparr>us_certificate_id = cid, us_status = CertUsageScanStatus.QUEUED,
     us_sources = sources, us_started_at = None, us_completed_at = None, us_candidate_count = 0,
     us_scanned_count = 0, us_confirmed_count = 0, us_different_certificate_count = 0,
     us_unreachable_count = 0, us_error_count = 0, us_log = None, us_created_by = created_by\<rparr>"

definition upd_scan :: "datetime \<Rightarrow> int \<Rightarrow> (usage_scan \<Rightarrow> usage_scan) \<Rightarrow> unit wop" where
  "upd_scan now i f = db_mod (usage_scans_update (tbl_upd now i f))"

text \<open>The row of the scan: the given one when it exists, else a new one.\<close>

definition scan_row :: "datetime \<Rightarrow> int option \<Rightarrow> usage_scan \<Rightarrow> int wop" where
  "scan_row now scan_id x =
     bnd (db_get (\<lambda>d. case scan_id of
            Some i \<Rightarrow> if tbl_get i (usage_scans d) \<noteq> None then Some i else None | None \<Rightarrow> None)) (\<lambda>known.
     case known of
       Some i \<Rightarrow> ret i
     | None \<Rightarrow>
         bnd (db_get (\<lambda>d. next_id (usage_scans d))) (\<lambda>i.
         bnd (db_mod (usage_scans_update (\<lambda>t. snd (tbl_add now x t)))) (\<lambda>_. ret i)))"

text \<open>A loop whose body yields a value.\<close>

primrec map_op :: "('a \<Rightarrow> ('s, 'b) op) \<Rightarrow> 'a list \<Rightarrow> ('s, 'b list) op" where
  "map_op f [] = ret []"
| "map_op f (x # xs) = bnd (f x) (\<lambda>y. bnd (map_op f xs) (\<lambda>ys. ret (y # ys)))"

definition probe_error :: "exn \<Rightarrow> probe_result" where
  "probe_error e = failed_probe CertUsageResultStatus.UNREACHABLE None ''probe_error'' (take 500 (exc_msg e))"

definition first_port :: "int list \<Rightarrow> exn + int" where
  "first_port ports = (case ports of [] \<Rightarrow> raises IndexError ''list index out of range'' | p # _ \<Rightarrow> Inr p)"

definition finish_probe ::
    "datetime \<Rightarrow> int \<Rightarrow> int \<Rightarrow> certificate \<Rightarrow> string \<Rightarrow> int \<Rightarrow> string \<Rightarrow> probe_result \<Rightarrow> CertUsageResultStatus wop" where
  "finish_probe now sid cid c hostname port source pr =
     bnd (record_result now sid cid c hostname port source pr) (\<lambda>st.
     bnd (upd_scan now sid (\<lambda>x. x\<lparr>us_scanned_count := us_scanned_count x + 1\<rparr>)) (\<lambda>_. ret st))"

definition finish_fallback ::
    "ctx \<Rightarrow> probe_net \<Rightarrow> datetime \<Rightarrow> int \<Rightarrow> int \<Rightarrow> certificate \<Rightarrow> int list \<Rightarrow> string \<times> string \<Rightarrow> CertUsageResultStatus wop" where
  "finish_fallback cx net now sid cid c ports hs = (case hs of (hostname, source) \<Rightarrow>
     (case probe_hostname_with_port_fallback (cx_x5 cx) net hostname ports (str_or (c_fingerprint_sha256 c) []) of
        Inr (port, pr) \<Rightarrow> finish_probe now sid cid c hostname port source pr
      | Inl e \<Rightarrow> bnd (lift_exn (first_port ports)) (\<lambda>port.
                  finish_probe now sid cid c hostname port source (probe_error e))))"

definition finish_explicit ::
    "ctx \<Rightarrow> probe_net \<Rightarrow> datetime \<Rightarrow> int \<Rightarrow> int \<Rightarrow> certificate \<Rightarrow> (string \<times> int) \<times> string \<Rightarrow> CertUsageResultStatus wop" where
  "finish_explicit cx net now sid cid c hps = (case hps of ((hostname, port), source) \<Rightarrow>
     (case probe_hostname (cx_x5 cx) net hostname port (str_or (c_fingerprint_sha256 c) []) of
        Inr pr \<Rightarrow> finish_probe now sid cid c hostname port source pr
      | Inl e \<Rightarrow> finish_probe now sid cid c hostname port source (probe_error e)))"

definition scan_log :: "usage_scan \<Rightarrow> string" where
  "scan_log x = str_int (us_scanned_count x) @ '' candidate(s) scanned: '' @
     str_int (us_confirmed_count x) @ '' confirmed, '' @
     str_int (us_different_certificate_count x) @ '' different certificate, '' @
     str_int (us_unreachable_count x) @ '' unreachable, '' @
     str_int (us_error_count x) @ '' DNS/TLS/timeout errors.''"

text \<open>The counters, from the statuses of all probes.\<close>

definition complete_scan :: "datetime \<Rightarrow> CertUsageResultStatus list \<Rightarrow> usage_scan \<Rightarrow> usage_scan" where
  "complete_scan now statuses x =
     (let counts = (\<lambda>st. int (count_list statuses st));
          y = x\<lparr>us_confirmed_count := counts CertUsageResultStatus.CONFIRMED,
                us_different_certificate_count := counts CertUsageResultStatus.DIFFERENT_CERTIFICATE,
                us_unreachable_count := counts CertUsageResultStatus.UNREACHABLE,
                us_error_count := counts CertUsageResultStatus.DNS_FAILED +
                  counts CertUsageResultStatus.TLS_FAILED + counts CertUsageResultStatus.TIMEOUT,
                us_status := CertUsageScanStatus.COMPLETED, us_completed_at := Some now\<rparr> in
      y\<lparr>us_log := Some (scan_log y)\<rparr>)"

definition usage_scan_body ::
    "ctx \<Rightarrow> probe_net \<Rightarrow> datetime \<Rightarrow> int \<Rightarrow> int \<Rightarrow> certificate \<Rightarrow> int list \<Rightarrow> candidates \<Rightarrow> unit wop" where
  "usage_scan_body cx net now sid cid c ports cs =
     bnd (lift_exn (pn_context net)) (\<lambda>_.
     bnd (map_op (finish_fallback cx net now sid cid c ports) (fst cs)) (\<lambda>st1.
     bnd (map_op (finish_explicit cx net now sid cid c) (snd cs)) (\<lambda>st2.
     bnd (upd_scan now sid (complete_scan now (st1 @ st2))) (\<lambda>_. commit))))"

definition usage_scan_failed :: "datetime \<Rightarrow> int \<Rightarrow> exn \<Rightarrow> unit wop" where
  "usage_scan_failed now sid e =
     bnd rollback (\<lambda>_.
     bnd (upd_scan now sid (\<lambda>x. x\<lparr>us_status := CertUsageScanStatus.FAILED, us_completed_at := Some now,
            us_log := Some (take 2000 (''Scan failed: '' @ exc_msg e))\<rparr>)) (\<lambda>_. commit))"

text \<open>The execution record and the audit entry of a completed scan.\<close>

definition report_scan :: "ctx \<Rightarrow> datetime \<Rightarrow> int \<Rightarrow> int \<Rightarrow> int option \<Rightarrow> unit wop" where
  "report_scan cx now sid cid created_by =
     bnd (db_get (\<lambda>d. tbl_get sid (usage_scans d))) (\<lambda>xo.
     case xo of
       None \<Rightarrow> ret ()
     | Some x \<Rightarrow>
         bnd (add_job now ((new_job JobType.CERT_USAGE_SCAN (Some cid) JobTrigger.MANUAL JobStatus.SUCCESS now None)\<lparr>
                j_started_at := us_started_at x, j_finished_at := us_completed_at x,
                j_stdout := us_log x, j_created_by := created_by\<rparr>)) (\<lambda>_.
         bnd (record_audit (cx_rdf cx) now ((audit_defaults ''certificate.usage_scan'')\<lparr>
                aa_resource_type := Some ''certificate'', aa_resource_id := Some (str_int cid),
                aa_details := [(''scan_id'', JInt sid), (''candidates'', JInt (us_candidate_count x)),
                  (''confirmed'', JInt (us_confirmed_count x))]\<rparr>)) (\<lambda>_.
         commit)))"

definition run_usage_scan ::
    "ctx \<Rightarrow> probe_net \<Rightarrow> datetime \<Rightarrow> int \<Rightarrow> int \<Rightarrow> certificate \<Rightarrow> int list \<Rightarrow> candidates \<Rightarrow> int option \<Rightarrow> unit wop" where
  "run_usage_scan cx net now sid cid c ports cs created_by =
     bnd (catch_op
            (bnd (usage_scan_body cx net now sid cid c ports cs) (\<lambda>_. ret True))
            (\<lambda>e. bnd (usage_scan_failed now sid e) (\<lambda>_. ret False))) (\<lambda>ok.
     when_op ok (report_scan cx now sid cid created_by))"

definition start_usage_scan ::
    "ctx \<Rightarrow> probe_net \<Rightarrow> (string \<Rightarrow> bool) \<Rightarrow> datetime \<Rightarrow> int \<Rightarrow> usage_request \<Rightarrow> int option \<Rightarrow> int option \<Rightarrow> int wop" where
  "start_usage_scan cx net float_ok now cid q created_by scan_id =
     bnd (get_usage_discovery_certificate cid) (\<lambda>c.
     let sources = (case uq_sources q of
            None \<Rightarrow> [''sans'', ''inventory'', ''network_sightings'', ''manual'']
          | Some ss \<Rightarrow> if ss = [] then [''sans'', ''inventory'', ''network_sightings'', ''manual''] else ss) in
     bnd (resolve_ports (cx_kc cx) (uq_ports q)) (\<lambda>ports.
     bnd (resolve_limits (cx_kc cx) float_ok q) (\<lambda>_.
     bnd (db_get (scan_candidates sources (uq_hostnames q) cid c)) (\<lambda>cs.
     bnd (scan_row now scan_id (new_scan cid sources created_by)) (\<lambda>sid.
     bnd (upd_scan now sid (\<lambda>x. x\<lparr>us_status := CertUsageScanStatus.RUNNING, us_sources := sources,
            us_started_at := Some now, us_candidate_count := int (length (fst cs) + length (snd cs))\<rparr>)) (\<lambda>_.
     bnd commit (\<lambda>_.
     if fst cs = [] \<and> snd cs = [] then
       bnd (upd_scan now sid (\<lambda>x. x\<lparr>us_status := CertUsageScanStatus.COMPLETED, us_completed_at := Some now,
              us_log := Some ''No candidate hostnames - nothing to scan.''\<rparr>)) (\<lambda>_.
       bnd commit (\<lambda>_. ret sid))
     else bnd (run_usage_scan cx net now sid cid c ports cs created_by) (\<lambda>_. ret sid))))))))"

definition STALE_SCAN_MINUTES :: int where
  "STALE_SCAN_MINUTES = 30"

definition mark_stale_scan_failed :: "datetime \<Rightarrow> int \<Rightarrow> unit wop" where
  "mark_stale_scan_failed now sid =
     bnd (db_get (\<lambda>d. tbl_get sid (usage_scans d))) (\<lambda>xo.
     case xo of
       None \<Rightarrow> ret ()
     | Some x \<Rightarrow>
         (case us_started_at x of
            None \<Rightarrow> ret ()
          | Some started \<Rightarrow>
              if us_status x \<noteq> CertUsageScanStatus.RUNNING \<or> now - started < STALE_SCAN_MINUTES * us_per_minute then ret ()
              else
                bnd (upd_scan now sid (\<lambda>x. x\<lparr>us_status := CertUsageScanStatus.FAILED, us_completed_at := Some now,
                       us_log := Some (''Marked failed: no progress for over '' @ str_int STALE_SCAN_MINUTES @
                         '' minutes - the worker likely crashed or was restarted mid-scan.'')\<rparr>)) (\<lambda>_. commit)))"

record usage_counts =
  uc_candidates :: nat
  uc_of :: "CertUsageResultStatus \<Rightarrow> nat"

definition usage_summary :: "int \<Rightarrow> db \<Rightarrow> usage_counts" where
  "usage_summary cid d =
     (let count = (\<lambda>st. tbl_count (\<lambda>w. ur_certificate_id (rval w) = cid \<and> ur_status (rval w) = st) (usage_results d)) in
      \<lparr>uc_candidates = sum_list (map count CertUsageResultStatus_members), uc_of = count\<rparr>)"

end
