(* ===== verification/Cert_Api.thy ===== *)
theory Cert_Api
  imports Cert_Usage Discovery_Files Servers Tasks "HOL-Library.Product_Lexorder"
begin

text \<open>
  The certificate endpoints of \<open>app/api/v1/certificates.py\<close> with the inventory listing and the
  bulk actions of \<open>app/services/certificate_service.py\<close>, and \<open>app/api/v1/certificate_usage.py\<close>.  An
  endpoint is its handler on the session of the request; its caller is an \<open>api_user\<close>, the
  client's address and user agent are the pair \<open>rq\<close>.
\<close>

type_synonym request = "string option \<times> string option"

definition require_perm :: "api_user \<Rightarrow> string \<Rightarrow> string \<Rightarrow> ('s, unit) op" where
  "require_perm user perm message =
     (if \<not> has_permission (au_role user) perm then fail PermissionDeniedError message else ret ())"

definition audit_request ::
    "ctx \<Rightarrow> datetime \<Rightarrow> string \<Rightarrow> api_user \<Rightarrow> (string \<times> string) option \<Rightarrow> request \<Rightarrow> dict \<Rightarrow> unit wop" where
  "audit_request cx now action user resource rq details =
     audit_admin (cx_rdf cx) now action user resource (fst rq) (snd rq) details"

section \<open>Inventory\<close>

record cert_filters =
  cf_status :: "string option"
  cf_environment :: "string option"
  cf_issuer :: "string option"
  cf_provider :: "string option"
  cf_key_type :: "string option"
  cf_renewal_status :: "string option"
  cf_cert_type :: "string option"
  cf_owner_id :: "int option"
  cf_tags :: "string option"
  cf_auto_renew :: "string option"

definition matches_search :: "string option \<Rightarrow> certificate \<Rightarrow> bool" where
  "matches_search search c \<longleftrightarrow>
     (truthy search \<longrightarrow> (let like = [CHR 0x25] @ str_or search [] @ [CHR 0x25] in
        list_ex (\<lambda>v. case v of None \<Rightarrow> False | Some s \<Rightarrow> ilike like s)
          [Some (c_domain c), c_issuer c, c_subject c, c_serial_number c, c_fingerprint_sha256 c, c_cert_name c]))"

text \<open>\<^verbatim>\<open>col == value\<close> for a value that is neither \<^verbatim>\<open>None\<close> nor empty; a null column never equals it.\<close>

definition eq_filter :: "string option \<Rightarrow> string option \<Rightarrow> bool" where
  "eq_filter value col \<longleftrightarrow> (truthy value \<longrightarrow> col = value)"

definition tag_names_of :: "db \<Rightarrow> certificate \<Rightarrow> string list" where
  "tag_names_of d c = List.map_filter (\<lambda>t. map_option tag_name (tbl_get t (tags d))) (c_tags c)"

definition tag_filter :: "string option \<Rightarrow> string list" where
  "tag_filter v = (if truthy v then filter (\<lambda>t. t \<noteq> []) (map py_strip (split_on CHR '','' (str_or v []))) else [])"

definition matches_filters :: "cert_filters \<Rightarrow> db \<Rightarrow> certificate \<Rightarrow> bool" where
  "matches_filters f d c \<longleftrightarrow>
     eq_filter (cf_status f) (Some (CertificateStatus_value (c_status c))) \<and>
     eq_filter (cf_environment f) (Some (c_environment c)) \<and>
     eq_filter (cf_issuer f) (c_issuer c) \<and>
     eq_filter (cf_provider f) (Some (c_provider_name c)) \<and>
     eq_filter (cf_key_type f) (Some (c_key_type c)) \<and>
     eq_filter (cf_renewal_status f) (Some (RenewalStatus_value (c_renewal_status c))) \<and>
     eq_filter (cf_cert_type f) (Some (CertificateType_value (c_cert_type c))) \<and>
     (cf_owner_id f \<noteq> None \<longrightarrow> c_owner_id c = cf_owner_id f) \<and>
     (truthy (cf_auto_renew f) \<longrightarrow> c_auto_renew c = (py_lower (str_or (cf_auto_renew f) []) = ''true'')) \<and>
     (tag_filter (cf_tags f) \<noteq> [] \<longrightarrow> list_ex (\<lambda>t. t \<in> set (tag_filter (cf_tags f))) (tag_names_of d c))"

text \<open>The sort column as a key: numbers and times in the first part, strings in the second.\<close>

definition sort_column :: "string \<Rightarrow> certificate row \<Rightarrow> (int \<times> string) option" where
  "sort_column sort_by w =
     (let c = rval w in
      if sort_by = ''id'' then Some (rid w, [])
      else if sort_by = ''domain'' then Some (0, c_domain c)
      else if sort_by = ''created_at'' then Some (created_at w, [])
      else if sort_by = ''issuer'' then map_option (Pair 0) (c_issuer c)
      else if sort_by = ''status'' then Some (0, CertificateStatus_value (c_status c))
      else if sort_by = ''environment'' then Some (0, c_environment c)
      else if sort_by = ''key_type'' then Some (0, c_key_type c)
      else if sort_by = ''renewal_status'' then Some (0, RenewalStatus_value (c_renewal_status c))
      else if sort_by = ''cert_type'' then Some (0, CertificateType_value (c_cert_type c))
      else map_option (\<lambda>t. (t, [])) (c_valid_until c))"

text \<open>\<^verbatim>\<open>_sort_expression\<close>: nulls come last, but on MySQL they sort before everything.\<close>

definition sort_expression :: "bool \<Rightarrow> string \<Rightarrow> string \<Rightarrow> certificate row list \<Rightarrow> certificate row list" where
  "sort_expression mysql sort_by direction ws =
     (let nulls = filter (\<lambda>w. sort_column sort_by w = None) ws;
          vals = sort_key (\<lambda>w. or_default (sort_column sort_by w) (0, [])) (filter (\<lambda>w. sort_column sort_by w \<noteq> None) ws);
          asc = (direction = ''asc'') in
      if mysql \<and> asc then nulls @ vals else (if asc then vals else rev vals) @ nulls)"

definition status_summary :: "db \<Rightarrow> (string \<times> nat) list" where
  "status_summary d =
     map (\<lambda>s. (CertificateStatus_value s, tbl_count (\<lambda>w. c_status (rval w) = s) (certificates d)))
       (filter (\<lambda>s. 0 < tbl_count (\<lambda>w. c_status (rval w) = s) (certificates d)) CertificateStatus_members)"

record cert_query =
  cq_search :: "string option"
  cq_filters :: cert_filters
  cq_sort_by :: string
  cq_sort_dir :: string
  cq_page :: nat
  cq_page_size :: nat

definition list_certificates :: "bool \<Rightarrow> cert_query \<Rightarrow> db \<Rightarrow> certificate row list \<times> nat \<times> (string \<times> nat) list" where
  "list_certificates mysql q d =
     (let ws = tbl_sel (\<lambda>w. matches_search (cq_search q) (rval w) \<and> matches_filters (cq_filters q) d (rval w)) (certificates d) in
      (take (cq_page_size q) (drop ((cq_page q - 1) * cq_page_size q) (sort_expression mysql (cq_sort_by q) (cq_sort_dir q) ws)),
       length ws, status_summary d))"

text \<open>\<^verbatim>\<open>(total + page_size - 1) // page_size\<close>\<close>

definition page_count :: "nat \<Rightarrow> nat \<Rightarrow> nat" where
  "page_count found page_size = (found + page_size - 1) div page_size"

definition get_certificates :: "bool \<Rightarrow> datetime \<Rightarrow> cert_query \<Rightarrow> (int list \<times> nat \<times> nat \<times> (string \<times> nat) list) wop" where
  "get_certificates mysql now q =
     bnd (db_get (list_certificates mysql q)) (\<lambda>(ws, found, summary).
     bnd (for_each ws (\<lambda>w. mark_stale_renewal_failed now (rid w))) (\<lambda>_.
     ret (map rid ws, found, page_count found (cq_page_size q), summary)))"

definition get_certificate_by_id :: "datetime \<Rightarrow> int \<Rightarrow> certificate wop" where
  "get_certificate_by_id now i =
     bnd (get_certificate i) (\<lambda>_.
     bnd (mark_stale_renewal_failed now i) (\<lambda>_. get_certificate i))"

section \<open>Life cycle\<close>

definition cert_ref :: "int \<Rightarrow> (string \<times> string) option" where
  "cert_ref i = Some (''certificate'', str_int i)"

definition post_cancel_renewal :: "ctx \<Rightarrow> datetime \<Rightarrow> api_user \<Rightarrow> request \<Rightarrow> int \<Rightarrow> certificate wop" where
  "post_cancel_renewal cx now user rq i =
     bnd (require_perm user (P_at (''cert'', ''renew'')) ''You are not authorized to cancel a renewal'') (\<lambda>_.
     bnd (get_certificate i) (\<lambda>_.
     bnd (cancel_renewal now i) (\<lambda>_.
     bnd (audit_request cx now ''certificate.renewal.cancel'' user (cert_ref i) rq []) (\<lambda>_.
     get_certificate i))))"

definition patch_certificate :: "ctx \<Rightarrow> datetime \<Rightarrow> api_user \<Rightarrow> int \<Rightarrow> cert_update \<Rightarrow> certificate wop" where
  "patch_certificate cx now user i p =
     bnd (require_perm user (P_at (''cert'', ''edit'')) ''You are not authorized to edit certificates'') (\<lambda>_.
     bnd (update_certificate cx now i p (actor_of user)) (\<lambda>_. get_certificate i))"

definition wizard_validate_domains :: "string list \<Rightarrow> exn + string list \<times> CertificateType" where
  "wizard_validate_domains domains =
     (case validate_domain_list True domains of Inl e \<Rightarrow> Inl e | Inr ds \<Rightarrow> Inr (ds, cert_type_for ds))"

definition wizard_validate_method :: "string \<Rightarrow> exn + string" where
  "wizard_validate_method method =
     (if method \<notin> set (map ValidationMethod_value ValidationMethod_members)
      then raises ValidationAppError (''Invalid validation method: '' @ method) else Inr method)"

text \<open>\<^verbatim>\<open>POST /certificates\<close> and \<^verbatim>\<open>/issue\<close>: the certificate and, outside the eager mode, the message for the workers.\<close>

definition post_issue :: "ctx \<Rightarrow> datetime \<Rightarrow> int \<Rightarrow> api_user \<Rightarrow> issue_payload \<Rightarrow> (int \<times> job_message option) wop" where
  "post_issue cx now elapsed user p =
     bnd (require_perm user ''certificate:issue'' ''You are not authorized to issue certificates'') (\<lambda>_.
     bnd (ensure_not_maintenance now ''certificate issuance'') (\<lambda>_.
     if celery_task_always_eager (cx_cfg cx) then
       bnd (issue_certificate cx now elapsed p (actor_of user) JobTrigger.API True) (\<lambda>i. ret (i, None))
     else
       bnd (issue_certificate cx now elapsed p (actor_of user) JobTrigger.API False) (\<lambda>i.
       ret (i, Some \<lparr>jm_job_type = JobType_value JobType.ISSUE, jm_certificate_id = i,
                     jm_user_id = Some (au_id user), jm_execution_id = None\<rparr>))))"

definition post_renew :: "ctx \<Rightarrow> datetime \<Rightarrow> int \<Rightarrow> api_user \<Rightarrow> int \<Rightarrow> bool \<Rightarrow> int wop" where
  "post_renew cx now elapsed user i force =
     bnd (require_perm user (P_at (''cert'', ''renew'')) ''You are not authorized to renew certificates'') (\<lambda>_.
     bnd (ensure_not_maintenance now ''renewal'') (\<lambda>_.
     renew_certificate cx now elapsed i force (actor_of user) JobTrigger.API))"

definition post_revoke :: "ctx \<Rightarrow> datetime \<Rightarrow> api_user \<Rightarrow> int \<Rightarrow> string \<Rightarrow> bool \<Rightarrow> int wop" where
  "post_revoke cx now user i reason delete_after =
     bnd (require_perm user (P_at (''cert'', ''revoke'')) ''You are not authorized to revoke certificates'') (\<lambda>_.
     bnd (ensure_not_maintenance now ''revocation'') (\<lambda>_.
     revoke_certificate cx now i reason delete_after (actor_of user) JobTrigger.API))"

definition remove_certificate :: "ctx \<Rightarrow> datetime \<Rightarrow> api_user \<Rightarrow> int \<Rightarrow> unit wop" where
  "remove_certificate cx now user i =
     bnd (require_perm user (P_at (''cert'', ''delete'')) ''You are not authorized to delete certificates'') (\<lambda>_.
     delete_certificate cx now i (actor_of user))"

definition post_clone :: "ctx \<Rightarrow> datetime \<Rightarrow> int \<Rightarrow> api_user \<Rightarrow> int \<Rightarrow> string list \<Rightarrow> int wop" where
  "post_clone cx now elapsed user i domains =
     bnd (require_perm user (P_at (''cert'', ''issue'')) ''You are not authorized to issue certificates'') (\<lambda>_.
     clone_certificate cx now elapsed i domains (actor_of user))"

section \<open>Import\<close>

definition read_limited :: "settings \<Rightarrow> string option \<Rightarrow> exn + string option" where
  "read_limited s upload =
     (case upload of
        None \<Rightarrow> Inr None
      | Some x \<Rightarrow> if max_upload_bytes s < int (length x) then raises ValidationAppError ''Upload exceeds size limit''
                  else Inr (Some x))"

record upload_form =
  uf_certificate :: string
  uf_private_key :: "string option"
  uf_chain :: "string option"
  uf_pfx :: "string option"
  uf_pfx_password :: "string option"
  uf_environment :: string
  uf_auto_renew :: bool
  uf_tags :: "string option"
  uf_notes :: "string option"

definition import_upload :: "ctx \<Rightarrow> datetime \<Rightarrow> api_user \<Rightarrow> upload_form \<Rightarrow> int wop" where
  "import_upload cx now user f =
     bnd (require_perm user (P_at (''cert'', ''import'')) ''You are not authorized to import certificates'') (\<lambda>_.
     bnd (ensure_not_maintenance now ''import'') (\<lambda>_.
     bnd (lift_exn (read_limited (cx_cfg cx) (Some (uf_certificate f)))) (\<lambda>cert_data.
     bnd (lift_exn (read_limited (cx_cfg cx) (uf_private_key f))) (\<lambda>key_data.
     bnd (lift_exn (read_limited (cx_cfg cx) (uf_chain f))) (\<lambda>chain_data.
     bnd (lift_exn (read_limited (cx_cfg cx) (uf_pfx f))) (\<lambda>pfx_data.
     import_certificate cx now cert_data key_data chain_data pfx_data (uf_pfx_password f)
       \<lparr>im_domain = None, im_environment = Some (uf_environment f), im_provider = None,
        im_auto_renew = Some (uf_auto_renew f), im_owner_id = None, im_notes = uf_notes f,
        im_tags = tag_filter (uf_tags f)\<rparr> (actor_of user) JobTrigger.API))))))"

record import_request =
  iq_cert_path :: string
  iq_key_path :: "string option"
  iq_chain_path :: "string option"
  iq_environment :: string
  iq_auto_renew :: bool
  iq_tags :: "string list"
  iq_owner_id :: "int option"
  iq_notes :: "string option"

definition post_import_paths :: "ctx \<Rightarrow> fs_env \<Rightarrow> datetime \<Rightarrow> api_user \<Rightarrow> import_request \<Rightarrow> int wop" where
  "post_import_paths cx fe now user q =
     bnd (require_perm user (P_at (''cert'', ''import'')) ''You are not authorized to import certificates'') (\<lambda>_.
     bnd (ensure_not_maintenance now ''import'') (\<lambda>_.
     import_from_paths cx fe now (iq_cert_path q) (iq_key_path q) (iq_chain_path q)
       \<lparr>im_domain = None, im_environment = Some (iq_environment q), im_provider = None,
        im_auto_renew = Some (iq_auto_renew q), im_owner_id = iq_owner_id q, im_notes = iq_notes q,
        im_tags = iq_tags q\<rparr> (actor_of user)))"

section \<open>Bulk actions\<close>

record bulk_options =
  bo_force :: bool
  bo_reason :: "string option"
  bo_server_id :: "int option"
  bo_template_id :: "int option"
  bo_usage :: usage_request

record bulk_message =
  bm_action :: string
  bm_certificate_id :: int
  bm_user_id :: "int option"
  bm_options :: bulk_options

text \<open>What a bulk action needs besides the context: the hosts and the network.\<close>

record bulk_env =
  be_deploy :: deploy_env
  be_probe :: probe_net
  be_float_ok :: "string \<Rightarrow> bool"
  be_elapsed :: int

definition bulk_execute ::
    "ctx \<Rightarrow> bulk_env \<Rightarrow> datetime \<Rightarrow> string \<Rightarrow> int \<Rightarrow> actor \<Rightarrow> bulk_options \<Rightarrow> unit rop" where
  "bulk_execute cx env now action i user o' =
     (if action = ''renew'' then
        bnd (on_world (renew_certificate cx now (be_elapsed env) i (bo_force o') user JobTrigger.API)) (\<lambda>_. ret ())
      else if action = ''revoke'' then
        bnd (on_world (revoke_certificate cx now i (or_default (bo_reason o') ''superseded'') True user JobTrigger.API)) (\<lambda>_. ret ())
      else if action = ''deploy'' then
        (case bo_server_id o' of
           None \<Rightarrow> bnd (on_world (get_certificate i)) (\<lambda>_. fail NotFoundError ''Server not found'')
         | Some sid \<Rightarrow>
             bnd (deploy_certificate cx (be_deploy env) now (be_elapsed env)
                    \<lparr>dq_certificate_id = i, dq_server_id = sid, dq_template_id = bo_template_id o',
                     dq_target_service = None, dq_method = DeploymentMethod.SFTP\<rparr> user JobTrigger.API None) (\<lambda>_. ret ()))
      else if action = ''delete'' then on_world (delete_certificate cx now i user)
      else if action = ''usage_scan'' then
        bnd (on_world (start_usage_scan cx (be_probe env) (be_float_ok env) now i
               ((bo_usage o')\<lparr>uq_concurrency := None\<rparr>) (map_option fst user) None)) (\<lambda>_. ret ())
      else fail ValidationAppError (''Unsupported bulk action: '' @ action))"

record bulk_counts =
  bc_queued :: nat
  bc_failed :: nat

fun bulk_loop ::
    "ctx \<Rightarrow> bulk_env \<Rightarrow> datetime \<Rightarrow> string \<Rightarrow> actor \<Rightarrow> bulk_options \<Rightarrow> int list \<Rightarrow> bulk_counts \<Rightarrow> bulk_message list
      \<Rightarrow> (bulk_counts \<times> bulk_message list) rop" where
  "bulk_loop cx env now action user o' [] n ms = ret (n, ms)"
| "bulk_loop cx env now action user o' (i # is) n ms =
     bnd (catch_op
       (bnd (on_world (get_certificate i)) (\<lambda>_.
        if celery_task_always_eager (cx_cfg cx)
        then bnd (bulk_execute cx env now action i user o') (\<lambda>_. ret (Some []))
        else ret (Some [\<lparr>bm_action = action, bm_certificate_id = i, bm_user_id = map_option fst user, bm_options = o'\<rparr>])))
       (\<lambda>e. ret None)) (\<lambda>r.
     case r of
       Some msgs \<Rightarrow> bulk_loop cx env now action user o' is (n\<lparr>bc_queued := bc_queued n + 1\<rparr>) (ms @ msgs)
     | None \<Rightarrow> bulk_loop cx env now action user o' is (n\<lparr>bc_failed := bc_failed n + 1\<rparr>) ms)"

definition bulk_action ::
    "ctx \<Rightarrow> bulk_env \<Rightarrow> datetime \<Rightarrow> string \<Rightarrow> int list \<Rightarrow> actor \<Rightarrow> bulk_options \<Rightarrow> (bulk_counts \<times> bulk_message list) rop" where
  "bulk_action cx env now action is user o' = bulk_loop cx env now action user o' is \<lparr>bc_queued = 0, bc_failed = 0\<rparr> []"

definition bulk_operation :: "ctx \<Rightarrow> bulk_env \<Rightarrow> datetime \<Rightarrow> bulk_message \<Rightarrow> unit rop" where
  "bulk_operation cx env now m =
     remote_session (bnd (on_world (ensure_not_maintenance now ''background job'')) (\<lambda>_.
       bulk_execute cx env now (bm_action m) (bm_certificate_id m) None (bm_options m)))"

definition BULK_ACTIONS :: "string list" where
  "BULK_ACTIONS = [''renew'', ''revoke'', ''deploy'', ''issue'', ''delete'', ''usage_scan'']"

definition post_bulk ::
    "ctx \<Rightarrow> bulk_env \<Rightarrow> datetime \<Rightarrow> api_user \<Rightarrow> request \<Rightarrow> string \<Rightarrow> int list \<Rightarrow> bulk_options
      \<Rightarrow> (bulk_counts \<times> bulk_message list) rop" where
  "post_bulk cx env now user rq action is o' =
     (if action \<notin> set BULK_ACTIONS then fail ValidationAppError (''Unsupported bulk action: '' @ action)
      else if is = [] \<or> 500 < length is then fail ValidationAppError ''ids must be a non-empty list (max 500)''
      else
        bnd (require_perm user (P_at (''cert'', ''bulk'')) (''You are not authorized to bulk '' @ action @ '' certificates'')) (\<lambda>_.
        bnd (require_perm user (P_at (''cert'', action)) (''You are not authorized to bulk '' @ action @ '' certificates'')) (\<lambda>_.
        bnd (on_world (ensure_not_maintenance now (''bulk '' @ action))) (\<lambda>_.
        bnd (bulk_action cx env now action is (actor_of user) o') (\<lambda>(n, ms).
        bnd (on_world (audit_request cx now (''certificate.bulk.'' @ action) user None rq
               [(''ids'', JList (map JInt is)), (''result'', JObj [(''queued'', JInt (int (bc_queued n))), (''failed'', JInt (int (bc_failed n)))])])) (\<lambda>_.
        ret (n, ms)))))))"

section \<open>Favourites, tags, executions\<close>

definition set_favorite :: "datetime \<Rightarrow> int \<Rightarrow> bool option \<Rightarrow> bool wop" where
  "set_favorite now i v =
     bnd (get_certificate i) (\<lambda>c.
     let f = or_default v (\<not> c_favorite c) in
     bnd (upd_cert now i (\<lambda>c. c\<lparr>c_favorite := f\<rparr>)) (\<lambda>_.
     bnd commit (\<lambda>_. ret f)))"

text \<open>Every name is appended without looking whether it is already there: a repeated name inserts the
  same row of the association twice, or the same new tag twice, and the flush fails.\<close>

definition set_tags :: "datetime \<Rightarrow> int \<Rightarrow> string list \<Rightarrow> unit wop" where
  "set_tags now i names =
     bnd (get_certificate i) (\<lambda>_.
     bnd (upd_cert now i (\<lambda>c. c\<lparr>c_tags := []\<rparr>)) (\<lambda>_.
     if \<not> distinct names then fail IntegrityError ''UNIQUE constraint failed''
     else
       bnd (for_each names (add_tag now i)) (\<lambda>_. commit)))"

record execution_view =
  ev_id :: int
  ev_job_type :: JobType
  ev_status :: JobStatus
  ev_exit_code :: "int option"
  ev_stdout :: string
  ev_stderr :: string
  ev_error_message :: "string option"
  ev_execution_time_ms :: "int option"
  ev_started_at :: "datetime option"
  ev_finished_at :: "datetime option"
  ev_task_id :: "string option"

definition serialize_execution :: "job_execution row \<Rightarrow> execution_view" where
  "serialize_execution w = (let j = rval w in \<lparr>
     ev_id = rid w, ev_job_type = j_job_type j, ev_status = j_status j, ev_exit_code = j_exit_code j,
     ev_stdout = last_n 20000 (str_or (j_stdout j) []), ev_stderr = last_n 20000 (str_or (j_stderr j) []),
     ev_error_message = j_error_message j, ev_execution_time_ms = j_execution_time_ms j,
     ev_started_at = j_started_at j, ev_finished_at = j_finished_at j, ev_task_id = j_task_id j\<rparr>)"

section \<open>Usage\<close>

definition presented_certificate_domains :: "db \<Rightarrow> usage_result row list \<Rightarrow> int \<rightharpoonup> string" where
  "presented_certificate_domains d ws =
     (let is = List.map_filter (\<lambda>w. ur_presented_certificate_id (rval w)) ws in
      (\<lambda>i. if i \<in> set is then map_option c_domain (tbl_get i (certificates d)) else None))"

text \<open>A page of results: the rows, each with the domain of the certificate it presents, and their number.\<close>

definition usage_page ::
    "(usage_result \<Rightarrow> bool) \<Rightarrow> nat \<Rightarrow> nat \<Rightarrow> db \<Rightarrow> (usage_result row \<times> string option) list \<times> nat \<times> nat" where
  "usage_page p page page_size d =
     (let ws = tbl_sel (\<lambda>w. p (rval w)) (usage_results d);
          shown = take page_size (drop ((page - 1) * page_size) (sort_key (\<lambda>w. ur_hostname (rval w)) ws));
          domains = presented_certificate_domains d shown in
      (map (\<lambda>w. (w, Option.bind (ur_presented_certificate_id (rval w)) domains)) shown,
       length ws, if page_size = 0 then 1 else page_count (length ws) page_size))"

definition usage_matches :: "int \<Rightarrow> string option \<Rightarrow> int option \<Rightarrow> string option \<Rightarrow> usage_result \<Rightarrow> bool" where
  "usage_matches cid status port search r \<longleftrightarrow> ur_certificate_id r = cid \<and>
     (truthy status \<longrightarrow> CertUsageResultStatus_value (ur_status r) = str_or status []) \<and>
     (port \<noteq> None \<longrightarrow> Some (ur_port r) = port) \<and>
     (truthy search \<longrightarrow> ilike ([CHR 0x25] @ str_or search [] @ [CHR 0x25]) (ur_hostname r))"

definition certificate_usage ::
    "int \<Rightarrow> string option \<Rightarrow> string option \<Rightarrow> int option \<Rightarrow> nat \<Rightarrow> nat \<Rightarrow> db
      \<Rightarrow> ((usage_result row \<times> string option) list \<times> nat \<times> nat) \<times> usage_counts" where
  "certificate_usage cid status search port page page_size d =
     (usage_page (usage_matches cid status port search) page page_size d, usage_summary cid d)"

record usage_message =
  um_certificate_id :: int
  um_request :: usage_request
  um_created_by :: "int option"
  um_scan_id :: "int option"

definition default_sources :: "string list" where
  "default_sources = [''sans'', ''inventory'', ''network_sightings'', ''manual'']"

text \<open>\<^verbatim>\<open>POST /certificates/{id}/usage/scan\<close>: the identifier of the scan and, outside the eager mode, the
  message for the workers.  No concurrency can be requested.\<close>

definition trigger_usage_scan ::
    "ctx \<Rightarrow> bulk_env \<Rightarrow> datetime \<Rightarrow> api_user \<Rightarrow> request \<Rightarrow> int \<Rightarrow> usage_request \<Rightarrow> (int \<times> usage_message option) wop" where
  "trigger_usage_scan cx env now user rq cid q0 =
     (let q = q0\<lparr>uq_concurrency := None\<rparr> in
      bnd (require_perm user (P_at (''cert'', ''usage_scan'')) ''You are not authorized to run certificate usage scans'') (\<lambda>_.
      if celery_task_always_eager (cx_cfg cx) then
        bnd (start_usage_scan cx (be_probe env) (be_float_ok env) now cid q (Some (au_id user)) None) (\<lambda>i. ret (i, None))
      else
        bnd (get_usage_discovery_certificate cid) (\<lambda>_.
        bnd (scan_row now None (new_scan cid (case uq_sources q of Some (s # ss) \<Rightarrow> s # ss | _ \<Rightarrow> default_sources)
               (Some (au_id user)))) (\<lambda>i.
        bnd commit (\<lambda>_.
        bnd (audit_request cx now ''certificate.usage_scan.trigger'' user (cert_ref cid) rq []) (\<lambda>_.
        ret (i, Some \<lparr>um_certificate_id = cid, um_request = q, um_created_by = Some (au_id user), um_scan_id = Some i\<rparr>)))))))"

definition run_certificate_usage_scan :: "ctx \<Rightarrow> bulk_env \<Rightarrow> datetime \<Rightarrow> usage_message \<Rightarrow> int wop" where
  "run_certificate_usage_scan cx env now m =
     db_task now (start_usage_scan cx (be_probe env) (be_float_ok env) now (um_certificate_id m) (um_request m)
       (um_created_by m) (um_scan_id m))"

definition get_scan :: "datetime \<Rightarrow> api_user \<Rightarrow> int \<Rightarrow> usage_scan wop" where
  "get_scan now user i =
     bnd (require_perm user (P_at (''cert'', ''view'')) ''You are not authorized to view certificate usage scans'') (\<lambda>_.
     bnd (db_get (\<lambda>d. tbl_get i (usage_scans d))) (\<lambda>x.
     if x = None then fail NotFoundError ''Scan not found''
     else
       bnd (mark_stale_scan_failed now i) (\<lambda>_.
       bnd (db_get (\<lambda>d. tbl_get i (usage_scans d))) (\<lambda>y.
       case y of None \<Rightarrow> fail AttributeError ''scan'' | Some s \<Rightarrow> ret s))))"

definition get_scan_results ::
    "api_user \<Rightarrow> int \<Rightarrow> string option \<Rightarrow> nat \<Rightarrow> nat \<Rightarrow> ((usage_result row \<times> string option) list \<times> nat \<times> nat) wop" where
  "get_scan_results user i status page page_size =
     bnd (require_perm user (P_at (''cert'', ''view'')) ''You are not authorized to view certificate usage scans'') (\<lambda>_.
     bnd (db_get (\<lambda>d. tbl_get i (usage_scans d))) (\<lambda>x.
     if x = None then fail NotFoundError ''Scan not found''
     else db_get (usage_page (\<lambda>r. ur_scan_id r = Some i \<and>
            (truthy status \<longrightarrow> CertUsageResultStatus_value (ur_status r) = str_or status [])) page page_size)))"

section \<open>Downloads\<close>

definition DOWNLOAD_FORMATS :: "string list" where
  "DOWNLOAD_FORMATS = [''zip'', ''pem'', ''key'', ''chain'', ''fullchain'', ''pfx'']"

definition require_key_permission :: "api_user \<Rightarrow> ('s, unit) op" where
  "require_key_permission user =
     require_perm user ''certificate:download_key'' ''You are not authorized to download private keys''"

definition download_certificate ::
    "ctx \<Rightarrow> (string \<Rightarrow> string \<Rightarrow> string option \<Rightarrow> string \<Rightarrow> exn + string) \<Rightarrow> datetime \<Rightarrow> api_user \<Rightarrow> request \<Rightarrow> int
      \<Rightarrow> string \<Rightarrow> bool \<Rightarrow> string option \<Rightarrow> export wop" where
  "download_certificate cx build_pfx now user rq i fmt include_key password =
     (if fmt \<notin> set DOWNLOAD_FORMATS then fail ValidationAppError (''Unsupported format: '' @ fmt)
      else
        bnd (if fmt = ''key'' then require_key_permission user
             else when_op (include_key \<and> fmt \<in> {''zip'', ''pfx''}) (require_key_permission user)) (\<lambda>_.
        bnd (export_bundle cx build_pfx i fmt include_key (str_or password [])) (\<lambda>data.
        bnd (audit_request cx now ''certificate.download'' user (cert_ref i) rq
               [(''format'', JStr fmt), (''include_key'', JBool include_key)]) (\<lambda>_.
        ret data))))"

end
