(* ===== verification/Registrar.thy ===== *)
theory Registrar
  imports Cert_Api Cert_Safety
begin

text \<open>
  Certificates of a registrar account, \<open>app/services/godaddy_client.py\<close> and \<open>app/services/godaddy_service.py\<close>
  with their endpoint in \<open>app/api/v1/certificates.py\<close>; and the secret sources of \<open>app/services/secrets.py\<close>.
  The HTTP client and the JSON decoding of the answers are a \<open>registrar_net\<close>.
\<close>

section \<open>Client\<close>

record gd_certificate =
  gc_certificateId :: "string option"
  gc_commonName :: "string option"
  gc_names :: "string option list"
  gc_certificateStatus :: "string option"
  gc_revokedAt :: "string option"
  gc_validEnd :: "string option"

record gd_pems =
  gp_certificate :: "string option"
  gp_intermediate :: "string option"
  gp_cross :: "string option"

text \<open>\<open>rn_get\<close>: headers, path and the \<^verbatim>\<open>domain\<close> parameter to a transport error or a status with a text.\<close>

record registrar_net =
  rn_get :: "(string \<times> string) list \<Rightarrow> string \<Rightarrow> string option \<Rightarrow> string + int \<times> string"
  rn_list :: "string \<Rightarrow> exn + gd_certificate list"
  rn_bundle :: "string \<Rightarrow> exn + gd_pems"

type_synonym gd_headers = "(string \<times> string) list"

definition gd_client :: "string \<Rightarrow> string \<Rightarrow> exn + gd_headers" where
  "gd_client api_key api_secret =
     (if api_key = [] \<or> api_secret = []
      then raises ValidationAppError (''GoDaddy API key/secret are not configured - set godaddy.api_key '' @
        ''and godaddy.api_secret in Settings first.'')
      else Inr [(''Authorization'', ''sso-key '' @ api_key @ '':'' @ api_secret), (''Accept'', ''application/json'')])"

text \<open>\<open>Inl\<close> is the message of a \<^verbatim>\<open>GoDaddyError\<close>.\<close>

definition gd_get :: "registrar_net \<Rightarrow> gd_headers \<Rightarrow> string \<Rightarrow> string option \<Rightarrow> string + string" where
  "gd_get net h path domain =
     (case rn_get net h path domain of
        Inl err \<Rightarrow> Inl (''Could not reach GoDaddy API: '' @ err)
      | Inr (status, text) \<Rightarrow>
          if 400 \<le> status
          then Inl (''GoDaddy API returned '' @ str_int status @ '' for '' @ path @ '': '' @ take 500 text)
          else Inr text)"

definition gd_list_certificates :: "registrar_net \<Rightarrow> gd_headers \<Rightarrow> string option \<Rightarrow> string + (exn + gd_certificate list)" where
  "gd_list_certificates net h domain =
     (case gd_get net h ''/v1/certificates'' (if truthy domain then domain else None) of
        Inl err \<Rightarrow> Inl err | Inr text \<Rightarrow> Inr (rn_list net text))"

definition gd_download_certificate :: "registrar_net \<Rightarrow> gd_headers \<Rightarrow> string \<Rightarrow> string + (exn + gd_pems)" where
  "gd_download_certificate net h i =
     (case gd_get net h (''/v1/certificates/'' @ i @ ''/download'') None of
        Inl err \<Rightarrow> Inl err | Inr text \<Rightarrow> Inr (rn_bundle net text))"

section \<open>Service\<close>

definition gd_settings_client :: "crypto \<Rightarrow> db \<Rightarrow> exn + gd_headers" where
  "gd_settings_client k d =
     (case get_setting k ''godaddy.api_key'' d of
        Inl e \<Rightarrow> Inl e
      | Inr api_key \<Rightarrow>
          (case get_setting k ''godaddy.api_secret'' d of
             Inl e \<Rightarrow> Inl e
           | Inr api_secret \<Rightarrow> gd_client (str_or api_key []) (str_or api_secret [])))"

text \<open>\<^verbatim>\<open>s.lower().rstrip(".")\<close>\<close>

definition dns_name :: "string \<Rightarrow> string" where
  "dns_name s = rev (dropWhile (\<lambda>c. c = CHR ''.'') (rev (py_lower s)))"

definition domain_matches :: "string \<Rightarrow> gd_certificate \<Rightarrow> bool" where
  "domain_matches domain c \<longleftrightarrow>
     dns_name domain \<in> set (dns_name (str_or (gc_commonName c) []) #
       map (\<lambda>n. dns_name (str_or n [])) (filter truthy (gc_names c)))"

definition LIVE_STATUSES :: "string list" where
  "LIVE_STATUSES = [''ISSUED'']"

definition is_live :: "gd_certificate \<Rightarrow> bool" where
  "is_live c \<longleftrightarrow> (case gc_certificateStatus c of None \<Rightarrow> False | Some s \<Rightarrow> s \<in> set LIVE_STATUSES) \<and> \<not> truthy (gc_revokedAt c)"

definition valid_end :: "gd_certificate \<Rightarrow> string" where
  "valid_end c = str_or (gc_validEnd c) []"

text \<open>\<^verbatim>\<open>max(pool, key=...)\<close>: the first of the largest.\<close>

definition latest :: "gd_certificate \<Rightarrow> gd_certificate list \<Rightarrow> gd_certificate" where
  "latest c cs = foldl (\<lambda>best c. if valid_end best < valid_end c then c else best) c cs"

definition choose_certificate :: "string \<Rightarrow> gd_certificate list \<Rightarrow> exn + gd_certificate" where
  "choose_certificate domain candidates =
     (let matches = filter (domain_matches domain) candidates;
          live = filter is_live matches in
      case (if live = [] then matches else live) of
        [] \<Rightarrow> raises NotFoundError (''No GoDaddy certificate found for '' @ domain)
      | c # cs \<Rightarrow> Inr (latest c cs))"

definition find_certificate_id :: "registrar_net \<Rightarrow> crypto \<Rightarrow> db \<Rightarrow> string \<Rightarrow> exn + string" where
  "find_certificate_id net k d domain =
     (case gd_settings_client k d of
        Inl e \<Rightarrow> Inl e
      | Inr h \<Rightarrow>
          (case gd_list_certificates net h (Some domain) of
             Inl err \<Rightarrow> raises ValidationAppError (''GoDaddy lookup failed: '' @ err)
           | Inr (Inl e) \<Rightarrow> Inl e
           | Inr (Inr candidates) \<Rightarrow>
               (case choose_certificate domain candidates of
                  Inl e \<Rightarrow> Inl e
                | Inr c \<Rightarrow> (case gc_certificateId c of None \<Rightarrow> raises KeyError ''certificateId'' | Some i \<Rightarrow> Inr i))))"

definition gd_payload :: "string \<Rightarrow> bool \<Rightarrow> import_payload" where
  "gd_payload environ auto_renew = \<lparr>im_domain = None, im_environment = Some environ, im_provider = Some ''godaddy'',
     im_auto_renew = Some auto_renew, im_owner_id = None, im_notes = None, im_tags = []\<rparr>"

text \<open>The intermediate and the cross certificate, one after the other.\<close>

definition gd_chain :: "gd_pems \<Rightarrow> string option" where
  "gd_chain b = (case filter truthy [gp_intermediate b, gp_cross b] of
     [] \<Rightarrow> None | ps \<Rightarrow> Some (concat (map (\<lambda>p. str_or p []) ps)))"

text \<open>What is read from the registrar: the identifier and the bundle.\<close>

definition gd_fetch ::
    "registrar_net \<Rightarrow> crypto \<Rightarrow> string option \<Rightarrow> string option \<Rightarrow> db \<Rightarrow> exn + string \<times> gd_pems" where
  "gd_fetch net k domain certificate_id d =
     (if truthy domain = truthy certificate_id
      then raises ValidationAppError ''Provide exactly one of domain or certificate_id''
      else
        (case gd_settings_client k d of
           Inl e \<Rightarrow> Inl e
         | Inr h \<Rightarrow>
             (case (if truthy certificate_id then Inr (str_or certificate_id [])
                    else find_certificate_id net k d (str_or domain [])) of
                Inl e \<Rightarrow> Inl e
              | Inr i \<Rightarrow>
                  (case gd_download_certificate net h i of
                     Inl err \<Rightarrow> raises ValidationAppError (''GoDaddy download failed: '' @ err)
                   | Inr (Inl e) \<Rightarrow> Inl e
                   | Inr (Inr b) \<Rightarrow>
                       if \<not> truthy (gp_certificate b)
                       then raises ValidationAppError (''GoDaddy returned no certificate for '' @ i)
                       else Inr (i, b)))))"

definition fetch_certificate_from_godaddy ::
    "ctx \<Rightarrow> registrar_net \<Rightarrow> datetime \<Rightarrow> string option \<Rightarrow> string option \<Rightarrow> string \<Rightarrow> bool \<Rightarrow> actor \<Rightarrow> (int \<times> string) wop" where
  "fetch_certificate_from_godaddy cx net now domain certificate_id environ auto_renew user =
     bnd (db_get (gd_fetch net (cx_kc cx) domain certificate_id)) (\<lambda>r.
     bnd (lift_exn r) (\<lambda>(gid, b).
     bnd (import_certificate cx now (gp_certificate b) None (gd_chain b) None None (gd_payload environ auto_renew) user
            JobTrigger.API) (\<lambda>i.
     ret (i, gid))))"

definition post_import_godaddy ::
    "ctx \<Rightarrow> registrar_net \<Rightarrow> datetime \<Rightarrow> api_user \<Rightarrow> request \<Rightarrow> string option \<Rightarrow> string option \<Rightarrow> string \<Rightarrow> bool
      \<Rightarrow> (int \<times> string) wop" where
  "post_import_godaddy cx net now user rq domain certificate_id environ auto_renew =
     bnd (require_perm user (P_at (''cert'', ''import'')) ''You are not authorized to import certificates'') (\<lambda>_.
     bnd (ensure_not_maintenance now ''import'') (\<lambda>_.
     bnd (fetch_certificate_from_godaddy cx net now domain certificate_id environ auto_renew (actor_of user)) (\<lambda>(i, gid).
     bnd (audit_request cx now ''certificate.import.godaddy'' user (Some (''certificate'', str_int i)) rq
            [(''godaddy_certificate_id'', JStr gid)]) (\<lambda>_.
     ret (i, gid)))))"

section \<open>Secret sources\<close>

text \<open>A backend gives a value or none: the vault, if it could be opened, then the environment; the encrypted rows of
  the database are bound later.\<close>

record secret_manager =
  sm_vault :: "(string \<Rightarrow> string option) option"
  sm_environ :: "string \<Rightarrow> string option"
  sm_db_bound :: bool

definition secret_setting_key :: "string \<Rightarrow> string" where
  "secret_setting_key key = ''secret.'' @ key"

definition db_secret_row :: "crypto \<Rightarrow> string \<Rightarrow> db \<Rightarrow> exn + string option" where
  "db_secret_row k key d =
     (case setting_row (secret_setting_key key) d of
        None \<Rightarrow> Inr None
      | Some w \<Rightarrow>
          if truthy (as_value (rval w))
          then (case decrypt_secret k (str_or (as_value (rval w)) []) of Inl e \<Rightarrow> Inl e | Inr v \<Rightarrow> Inr (Some v))
          else Inr None)"

text \<open>\<^verbatim>\<open>self._row(key) or default\<close>\<close>

definition db_secret_get :: "crypto \<Rightarrow> string \<Rightarrow> string option \<Rightarrow> db \<Rightarrow> exn + string option" where
  "db_secret_get k key dflt d =
     (case db_secret_row k key d of Inl e \<Rightarrow> Inl e | Inr v \<Rightarrow> Inr (if truthy v then v else dflt))"

definition db_secret_set :: "crypto \<Rightarrow> string \<Rightarrow> datetime \<Rightarrow> string \<Rightarrow> string \<Rightarrow> unit wop" where
  "db_secret_set k iv now key v =
     bnd (db_get (setting_row (secret_setting_key key))) (\<lambda>row.
     case row of
       None \<Rightarrow> db_mod (app_settings_update (\<lambda>t. snd (tbl_add now \<lparr>as_key = secret_setting_key key,
                 as_value = Some (encrypt_secret k iv v), as_is_secret = True, as_description = None, as_updated_by = None\<rparr> t)))
     | Some w \<Rightarrow> db_mod (app_settings_update (tbl_upd now (rid w)
                 (\<lambda>x. x\<lparr>as_value := Some (encrypt_secret k iv v), as_is_secret := True\<rparr>))))"

fun first_secret :: "(string \<Rightarrow> string option) list \<Rightarrow> string \<Rightarrow> string option" where
  "first_secret [] key = None"
| "first_secret (b # bs) key = (case b key of Some v \<Rightarrow> Some v | None \<Rightarrow> first_secret bs key)"

definition manager_backends :: "secret_manager \<Rightarrow> (string \<Rightarrow> string option) list" where
  "manager_backends m = (case sm_vault m of None \<Rightarrow> [] | Some v \<Rightarrow> [v]) @ [sm_environ m]"

definition manager_get :: "crypto \<Rightarrow> secret_manager \<Rightarrow> string \<Rightarrow> string option \<Rightarrow> db \<Rightarrow> exn + string option" where
  "manager_get k m key dflt d =
     (case first_secret (manager_backends m) key of
        Some v \<Rightarrow> Inr (Some v)
      | None \<Rightarrow> if sm_db_bound m then db_secret_get k key None d else Inr dflt)"

definition manager_set_db :: "crypto \<Rightarrow> string \<Rightarrow> secret_manager \<Rightarrow> datetime \<Rightarrow> string \<Rightarrow> string \<Rightarrow> unit wop" where
  "manager_set_db k iv m now key v =
     (if \<not> sm_db_bound m then fail RuntimeError ''DB secret backend not bound'' else db_secret_set k iv now key v)"

end
