(* ===== verification/Api_Proofs.thy ===== *)
theory Api_Proofs
  imports Cert_Api Registrar
begin

text \<open>
  The certificate endpoints: who may call what, what a download contains, and what a bulk action
  reports.
\<close>

section \<open>Access control\<close>

text \<open>The endpoints of \<open>api/v1/certificates.py\<close> that may change something or hand out keys, and the
  permissions each asks for.  Reading a certificate, favourites and tags ask for none.\<close>

datatype cert_call =
    CancelRenewal int
  | Patch int cert_update
  | Issue issue_payload
  | RenewNow int bool
  | RevokeNow int string bool
  | Remove int
  | Clone int "string list"
  | Upload upload_form
  | ImportPaths fs_env import_request
  | ImportRegistrar registrar_net "string option" "string option" string bool
  | Bulk string "int list" bulk_options
  | UsageScan int usage_request
  | Show_scan int
  | Show_results int "string option" nat nat
  | Download "string \<Rightarrow> string \<Rightarrow> string option \<Rightarrow> string \<Rightarrow> exn + string" int string bool "string option"
  | Show int
  | Favorite int "bool option"
  | Tags int "string list"

fun needed :: "cert_call \<Rightarrow> string list" where
  "needed (CancelRenewal _) = [''certificate:renew'']"
| "needed (Patch _ _) = [''certificate:edit'']"
| "needed (Issue _) = [''certificate:issue'']"
| "needed (RenewNow _ _) = [''certificate:renew'']"
| "needed (RevokeNow _ _ _) = [''certificate:revoke'']"
| "needed (Remove _) = [''certificate:delete'']"
| "needed (Clone _ _) = [''certificate:issue'']"
| "needed (Upload _) = [''certificate:import'']"
| "needed (ImportPaths _ _) = [''certificate:import'']"
| "needed (ImportRegistrar _ _ _ _ _) = [''certificate:import'']"
| "needed (Bulk action _ _) = [''certificate:bulk'', ''certificate:'' @ action]"
| "needed (UsageScan _ _) = [''certificate:usage_scan'']"
| "needed (Show_scan _) = [''certificate:view'']"
| "needed (Show_results _ _ _ _) = [''certificate:view'']"
| "needed (Download _ _ fmt include_key _) =
     (if fmt = ''key'' \<or> include_key \<and> fmt \<in> {''zip'', ''pfx''} then [''certificate:download_key''] else [])"
| "needed (Show _) = []"
| "needed (Favorite _ _) = []"
| "needed (Tags _ _) = []"

definition discard :: "('s, 'a) op \<Rightarrow> ('s, unit) op" where
  "discard m = bnd m (\<lambda>_. ret ())"

fun call :: "ctx \<Rightarrow> bulk_env \<Rightarrow> datetime \<Rightarrow> api_user \<Rightarrow> request \<Rightarrow> cert_call \<Rightarrow> unit rop" where
  "call cx env now u rq (CancelRenewal i) = discard (on_world (post_cancel_renewal cx now u rq i))"
| "call cx env now u rq (Patch i p) = discard (on_world (patch_certificate cx now u i p))"
| "call cx env now u rq (Issue p) = discard (on_world (post_issue cx now (be_elapsed env) u p))"
| "call cx env now u rq (RenewNow i f) = discard (on_world (post_renew cx now (be_elapsed env) u i f))"
| "call cx env now u rq (RevokeNow i r d) = discard (on_world (post_revoke cx now u i r d))"
| "call cx env now u rq (Remove i) = on_world (remove_certificate cx now u i)"
| "call cx env now u rq (Clone i ds) = discard (on_world (post_clone cx now (be_elapsed env) u i ds))"
| "call cx env now u rq (Upload f) = discard (on_world (import_upload cx now u f))"
| "call cx env now u rq (ImportPaths fe q) = discard (on_world (post_import_paths cx fe now u q))"
| "call cx env now u rq (ImportRegistrar net d cid e ar) = discard (on_world (post_import_godaddy cx net now u rq d cid e ar))"
| "call cx env now u rq (Bulk a is o') = discard (post_bulk cx env now u rq a is o')"
| "call cx env now u rq (UsageScan i q) = discard (on_world (trigger_usage_scan cx env now u rq i q))"
| "call cx env now u rq (Show_scan i) = discard (on_world (get_scan now u i))"
| "call cx env now u rq (Show_results i st pg sz) = discard (on_world (get_scan_results u i st pg sz))"
| "call cx env now u rq (Download bp i fmt ik pw) = discard (on_world (download_certificate cx bp now u rq i fmt ik pw))"
| "call cx env now u rq (Show i) = discard (on_world (get_certificate_by_id now i))"
| "call cx env now u rq (Favorite i v) = discard (on_world (set_favorite now i v))"
| "call cx env now u rq (Tags i ns) = on_world (set_tags now i ns)"

lemma P_at_cert [simp]:
  "P_at (''cert'', ''renew'') = ''certificate:renew''" "P_at (''cert'', ''edit'') = ''certificate:edit''"
  "P_at (''cert'', ''issue'') = ''certificate:issue''" "P_at (''cert'', ''revoke'') = ''certificate:revoke''"
  "P_at (''cert'', ''delete'') = ''certificate:delete''" "P_at (''cert'', ''import'') = ''certificate:import''"
  "P_at (''cert'', ''bulk'') = ''certificate:bulk''" "P_at (''cert'', ''usage_scan'') = ''certificate:usage_scan''"
  "P_at (''cert'', ''deploy'') = ''certificate:deploy''" "P_at (''cert'', ''view'') = ''certificate:view''"
  by (simp_all add: P_at_def P_codes_def)

lemma P_at_bulk: "a \<in> set BULK_ACTIONS \<Longrightarrow> P_at (''cert'', a) = ''certificate:'' @ a"
  by (auto simp: BULK_ACTIONS_def)

lemma denied_simp: "\<not> has_permission (au_role u) p \<Longrightarrow> require_perm u p m s = (Inl (Exn PermissionDeniedError m None), s)"
  by (simp add: require_perm_def op_simps)

lemma allowed_simp: "has_permission (au_role u) p \<Longrightarrow> require_perm u p m s = (Inr (), s)"
  by (simp add: require_perm_def op_simps)

lemmas endpoint_defs = post_cancel_renewal_def patch_certificate_def post_issue_def post_renew_def post_revoke_def
  remove_certificate_def post_clone_def import_upload_def post_import_paths_def trigger_usage_scan_def
  post_import_godaddy_def get_scan_def get_scan_results_def download_certificate_def require_key_permission_def when_op_def

text \<open>C20: Access control of the certificate endpoints that ask for a permission: a caller whose role lacks a
  permission the call asks for gets an error, and the call has no effect, in the database, the files or on
  a host.  For a bulk action these are both the bulk permission and the one of the action, for a download
  the one for keys when a key is asked for.  Favourites, tags and the plain downloads ask for none.\<close>

theorem cert_calls_gated:
  assumes "p \<in> set (needed c)" "\<not> has_permission (au_role user) p"
  shows "\<exists>e. call cx env now user rq c s = (Inl e, s) \<and> exc_of e \<in> {PermissionDeniedError, ValidationAppError}"
proof (cases c)
  case (Bulk a xs o')
  show ?thesis
  proof (cases "a \<in> set BULK_ACTIONS \<and> xs \<noteq> [] \<and> length xs \<le> 500")
    case True
    then show ?thesis
      using assms Bulk P_at_bulk [of a]
      by (cases "has_permission (au_role user) ''certificate:bulk''")
        (auto simp: post_bulk_def discard_def bnd_def denied_simp allowed_simp)
  next
    case False
    then show ?thesis using Bulk by (auto simp: post_bulk_def discard_def bnd_def op_simps)
  qed
qed (use assms in \<open>auto simp: endpoint_defs discard_def on_world_def bnd_def denied_simp Let_def op_simps split: if_splits\<close>)

section \<open>Downloads\<close>

lemma zip_member_names: "zip_member path name w = (Inr ms, w') \<Longrightarrow> fst ` set ms \<subseteq> {name} \<and> w' = w"
  by (auto simp: zip_member_def read_if_exists_def bnd_def op_simps split: if_splits option.splits sum.splits prod.splits)

text \<open>What the archive of a request without the key holds.\<close>

lemma export_zip_keyless:
  "wp (export_zip cfg k fp False) (\<lambda>ms w'. w' = w \<and> ''privkey.pem'' \<notin> fst ` set ms \<and>
     (\<forall>x. files w (store_pfx_path cfg fp) = Some x \<longrightarrow> (''bundle.pfx'', x) \<in> set ms)) (\<lambda>_ _. False) w"
  by (auto simp: export_zip_def zip_member_def read_if_exists_def has_private_key_def wp_simps image_Un image_iff
      simp del: bnd_db bnd_prim split: option.splits)

lemma build_bundle_keyless: "wp (build_bundle cfg k bp fp False pw) (\<lambda>_ _. False) (\<lambda>_ _. True) w"
  by (auto simp: build_bundle_def read_if_exists_def has_private_key_def wp_simps simp del: bnd_db bnd_prim split: option.splits)

lemma wp_True: "wp m (\<lambda>_ _. True) (\<lambda>_ _. True) s"
  by (simp add: wp_def split: prod.splits sum.splits)

lemma wp_total: "wp m Q (\<lambda>_ _. False) s \<Longrightarrow> \<exists>x t. m s = (Inr x, t) \<and> Q x t"
  by (auto simp: wp_def split: prod.splits sum.splits)

lemma wp_require [wp_simps]:
  "wp (require_perm u p m) Q E s =
     (if has_permission (au_role u) p then Q () s else E (Exn PermissionDeniedError m None) s)"
  by (simp add: require_perm_def wp_simps)

lemma wp_get [wp_simps]:
  "wp (get_certificate i) Q E w = (case tbl_get i (certificates (work w)) of
     None \<Rightarrow> E (Exn NotFoundError (''Certificate '' @ str_int i @ '' not found'') None) w | Some c \<Rightarrow> Q c w)"
  by (simp add: get_certificate_def wp_simps split: option.splits del: bnd_db bnd_prim)

lemma wp_audit [wp_simps]:
  "wp (audit_request cx now a u r rq dt) Q E w =
     Q () (snd (audit_request cx now a u r rq dt w))"
  by (simp add: audit_request_def audit_admin_def record_audit_def wp_def op_simps)

lemma audit_request_state:
  "files (snd (audit_request cx now a u r rq dt w)) = files w"
  "certificates (work (snd (audit_request cx now a u r rq dt w))) = certificates (work w)"
  by (simp_all add: audit_request_def audit_admin_def record_audit_def op_simps)

text \<open>What a caller without the permission may get: a public file of the certificate, or an archive whose members
  are public files of the store or the bundle that was left there.\<close>

definition public_file :: "certificate \<Rightarrow> (string \<rightharpoonup> string) \<Rightarrow> string \<Rightarrow> bool" where
  "public_file c fs x \<longleftrightarrow> list_ex (\<lambda>p. truthy p \<and> fs (str_or p []) = Some x) [c_cert_path c, c_chain_path c, c_fullchain_path c]"

definition public_member :: "settings \<Rightarrow> string \<Rightarrow> (string \<rightharpoonup> string) \<Rightarrow> string \<times> string \<Rightarrow> bool" where
  "public_member cfg fp fs m \<longleftrightarrow> list_ex (\<lambda>(n, p). fst m = n \<and> fs p = Some (snd m))
     [(''cert.pem'', store_cert_path cfg fp), (''fullchain.pem'', store_fullchain_path cfg fp), (''chain.pem'', store_chain_path cfg fp)]"

definition left_bundle :: "settings \<Rightarrow> string \<Rightarrow> (string \<rightharpoonup> string) \<Rightarrow> string \<times> string \<Rightarrow> bool" where
  "left_bundle cfg fp fs m \<longleftrightarrow> fst m = ''bundle.pfx'' \<and> fs (store_pfx_path cfg fp) = Some (snd m)"

definition keyless_answer :: "settings \<Rightarrow> certificate \<Rightarrow> (string \<rightharpoonup> string) \<Rightarrow> export \<Rightarrow> bool" where
  "keyless_answer cfg c fs data =
     (case data of
        Blob x \<Rightarrow> public_file c fs x
      | Archive ms \<Rightarrow> list_all (\<lambda>m. public_member cfg (str_or (c_fingerprint_sha256 c) (parent_name (str_or (c_cert_path c) []))) fs m \<or>
          left_bundle cfg (str_or (c_fingerprint_sha256 c) (parent_name (str_or (c_cert_path c) []))) fs m) ms)"

lemma export_zip_members:
  "wp (export_zip cfg k fp False) (\<lambda>ms w'. w' = w \<and> list_all (\<lambda>m. public_member cfg fp (files w) m \<or> left_bundle cfg fp (files w) m) ms)
     (\<lambda>_ _. False) w"
  by (auto simp: export_zip_def zip_member_def read_if_exists_def has_private_key_def wp_simps public_member_def left_bundle_def
      simp del: bnd_db bnd_prim split: option.splits)

lemma path_or_cert_public:
  assumes "truthy (c_cert_path c)" "p \<in> {c_chain_path c, c_fullchain_path c}"
  shows "wp (path_or_cert p (str_or (c_cert_path c) [])) (\<lambda>data w'. w' = w \<and> (\<exists>x. data = Blob x \<and> public_file c (files w) x)) (\<lambda>_ _. True) w"
proof -
  have "truthy p \<Longrightarrow> files w (str_or p []) = Some x \<Longrightarrow> public_file c (files w) x" for x
    using assms(2) by (auto simp: public_file_def)
  moreover have "files w (str_or (c_cert_path c) []) = Some x \<Longrightarrow> public_file c (files w) x" for x
    using assms(1) by (simp add: public_file_def)
  ultimately show ?thesis
    by (cases p) (auto simp: path_or_cert_def opt_exists_def truthy_def wp_simps simp del: bnd_db bnd_prim split: option.splits)
qed

lemma export_keyless:
  assumes "fmt \<in> {''pem'', ''chain'', ''fullchain''} \<or> fmt \<in> {''zip'', ''pfx''} \<and> \<not> include_key"
  shows "wp (export_bundle cx bp i fmt include_key pw) (\<lambda>data w'. w' = w \<and> fmt \<noteq> ''pfx'' \<and>
      (\<exists>c. tbl_get i (certificates (work w)) = Some c \<and> keyless_answer (cx_cfg cx) c (files w) data)) (\<lambda>_ _. True) w"
proof -
  have zip: "wp (export_zip (cx_cfg cx) k fp False) Q (\<lambda>_ _. True) w"
    if "\<And>ms. list_all (\<lambda>m. public_member (cx_cfg cx) fp (files w) m \<or> left_bundle (cx_cfg cx) fp (files w) m) ms \<Longrightarrow> Q ms w" for k fp Q
    by (rule wp_mono [OF export_zip_members]) (use that in auto)
  have chain: "wp (path_or_cert p (str_or (c_cert_path c) [])) Q (\<lambda>_ _. True) w"
    if "truthy (c_cert_path c)" "p \<in> {c_chain_path c, c_fullchain_path c}" "\<And>x. public_file c (files w) x \<Longrightarrow> Q (Blob x) w" for c p Q
    by (rule wp_mono [OF path_or_cert_public [OF that(1,2)]]) (use that in auto)
  have pem: "public_file c (files w) x" if "truthy (c_cert_path c)" "files w (str_or (c_cert_path c) []) = Some x" for c x
    using that by (simp add: public_file_def)
  from assms consider "fmt = ''pem''" | "fmt = ''chain''" | "fmt = ''fullchain''" | "fmt = ''zip''" "\<not> include_key"
    | "fmt = ''pfx''" "\<not> include_key" by blast
  then show ?thesis
  proof cases
    case 1
    then show ?thesis
      by (auto simp: export_bundle_def opt_exists_def Let_def wp_simps keyless_answer_def pem simp del: bnd_db bnd_prim split: option.splits)
  next
    case 2
    then show ?thesis
      by (auto simp: export_bundle_def opt_exists_def Let_def wp_simps keyless_answer_def simp del: bnd_db bnd_prim
          split: option.split intro!: chain)
  next
    case 3
    then show ?thesis
      by (auto simp: export_bundle_def opt_exists_def Let_def wp_simps keyless_answer_def simp del: bnd_db bnd_prim
          split: option.split intro!: chain)
  next
    case 4
    then show ?thesis
      by (auto simp: export_bundle_def opt_exists_def Let_def wp_simps keyless_answer_def simp del: bnd_db bnd_prim
          split: option.split intro!: zip)
  next
    case 5
    then show ?thesis
      by (auto simp: export_bundle_def opt_exists_def Let_def wp_simps simp del: bnd_db bnd_prim
          split: option.split intro!: wp_mono [OF build_bundle_keyless])
  qed
qed

text \<open>C22: A caller without the permission to download keys gets no key file and no bundle made for the
  request: a download returns the certificate file, its chain or its full chain, or an archive of
  these files.  The archive has one more member, the bundle an authorized export left in the store,
  which is the leak of C40.  No file is written.\<close>

theorem key_download_gated:
  assumes run: "download_certificate cx build_pfx now user rq i fmt include_key password w = (Inr data, w')"
    and no: "\<not> has_permission (au_role user) ''certificate:download_key''"
  shows "\<exists>c. tbl_get i (certificates (work w)) = Some c \<and> fmt \<in> {''pem'', ''chain'', ''fullchain'', ''zip''} \<and>
    keyless_answer (cx_cfg cx) c (files w) data \<and> files w' = files w"
proof (cases "fmt \<in> {''pem'', ''chain'', ''fullchain''} \<or> fmt \<in> {''zip'', ''pfx''} \<and> \<not> include_key")
  case True
  let ?m = "bnd (export_bundle cx build_pfx i fmt include_key (str_or password [])) (\<lambda>data.
      bnd (audit_request cx now ''certificate.download'' user (cert_ref i) rq
        [(''format'', JStr fmt), (''include_key'', JBool include_key)]) (\<lambda>_. ret data))"
  have gate: "download_certificate cx build_pfx now user rq i fmt include_key password w = ?m w"
    using True by (auto simp: download_certificate_def when_op_def DOWNLOAD_FORMATS_def)
  have "wp ?m (\<lambda>data w'. fmt \<noteq> ''pfx'' \<and> files w' = files w \<and>
      (\<exists>c. tbl_get i (certificates (work w)) = Some c \<and> keyless_answer (cx_cfg cx) c (files w) data)) (\<lambda>_ _. True) w"
    unfolding wp_bnd
    by (rule wp_mono [OF export_keyless [OF True]]) (auto simp: wp_simps audit_request_state simp del: bnd_db bnd_prim)
  from wp_InrD [OF this run [unfolded gate]] True show ?thesis by auto
next
  case False
  have "wp (download_certificate cx build_pfx now user rq i fmt include_key password) (\<lambda>_ _. False) (\<lambda>_ _. True) w"
    using False no by (auto simp: download_certificate_def require_key_permission_def when_op_def wp_simps DOWNLOAD_FORMATS_def
        simp del: bnd_db bnd_prim)
  from wp_InrD [OF this run] show ?thesis by simp
qed

text \<open>A PFX download leaves the bundle in the store.\<close>

lemma build_bundle_writes:
  "wp (build_bundle cfg k bp fp True pw)
     (\<lambda>_ w1. \<exists>pfx. w1 = w\<lparr>files := (files w)(store_pfx_path cfg fp \<mapsto> pfx)\<rparr>) (\<lambda>_ _. True) w"
  unfolding build_bundle_def wp_bnd read_if_exists_def has_private_key_def
  by (auto simp: read_private_key_def wp_simps simp del: bnd_db bnd_prim split: option.split sum.split)

lemma pfx_left_behind:
  "wp (download_certificate cx bp now u rq i ''pfx'' True pw) (\<lambda>data w1. \<exists>c pfx. data = Blob pfx \<and>
      tbl_get i (certificates (work w1)) = Some c \<and> truthy (c_cert_path c) \<and>
      files w1 (str_or (c_cert_path c) []) \<noteq> None \<and>
      files w1 (store_pfx_path (cx_cfg cx) (str_or (c_fingerprint_sha256 c) (parent_name (str_or (c_cert_path c) [])))) = Some pfx)
    (\<lambda>_ _. True) w"
  by (auto simp: download_certificate_def require_key_permission_def when_op_def DOWNLOAD_FORMATS_def export_bundle_def
      wp_simps Let_def audit_request_state simp del: bnd_db bnd_prim split: option.split
      intro!: wp_mono [OF build_bundle_writes])

text \<open>C40: The archive is not safe without the permission: it always includes the PFX that an earlier
  download of an authorized user left in the store, which holds the private key, unencrypted when no
  password was given.  Any user, whatever the role, obtains it by asking for an archive without the key.\<close>

theorem archive_leaks_bundle:
  assumes first: "download_certificate cx build_pfx now manager rq i ''pfx'' True None w = (Inr (Blob pfx), w1)"
  shows "\<exists>ms w2. download_certificate cx build_pfx now' user rq' i ''zip'' False None w1 = (Inr (Archive ms), w2) \<and>
    (''bundle.pfx'', pfx) \<in> set ms"
proof -
  from wp_InrD [OF pfx_left_behind first] obtain c where c: "tbl_get i (certificates (work w1)) = Some c" "truthy (c_cert_path c)"
    "files w1 (str_or (c_cert_path c) []) \<noteq> None"
    "files w1 (store_pfx_path (cx_cfg cx) (str_or (c_fingerprint_sha256 c) (parent_name (str_or (c_cert_path c) [])))) = Some pfx"
    by blast
  have "wp (download_certificate cx build_pfx now' user rq' i ''zip'' False None)
      (\<lambda>data _. \<exists>ms. data = Archive ms \<and> (''bundle.pfx'', pfx) \<in> set ms) (\<lambda>_ _. False) w1"
    using c by (auto simp: download_certificate_def export_bundle_def when_op_def wp_simps Let_def DOWNLOAD_FORMATS_def
        simp del: bnd_db bnd_prim split: option.splits intro!: wp_mono [OF export_zip_keyless])
  from wp_total [OF this] show ?thesis by blast
qed

section \<open>Bulk actions\<close>

lemma bulk_loop_accounts:
  "\<exists>n' ms' s'. bulk_loop cx env now action user o' xs n ms s = (Inr (n', ms'), s') \<and>
     bc_queued n' + bc_failed n' = bc_queued n + bc_failed n + length xs \<and>
     (celery_task_always_eager (cx_cfg cx) \<longrightarrow> ms' = ms) \<and>
     (\<not> celery_task_always_eager (cx_cfg cx) \<longrightarrow> length ms' + bc_queued n = length ms + bc_queued n')"
proof (induction xs arbitrary: n ms s)
  case Nil
  then show ?case by (simp add: ret_simp)
next
  case (Cons i xs)
  let ?m = "bnd (on_world (get_certificate i)) (\<lambda>_.
        if celery_task_always_eager (cx_cfg cx)
        then bnd (bulk_execute cx env now action i user o') (\<lambda>_. ret (Some []))
        else ret (Some [\<lparr>bm_action = action, bm_certificate_id = i, bm_user_id = map_option fst user, bm_options = o'\<rparr>]))"
  have "wp ?m (\<lambda>r _. \<exists>msgs. r = Some msgs \<and> length msgs = (if celery_task_always_eager (cx_cfg cx) then 0 else 1)) (\<lambda>_ _. True) s"
    unfolding wp_bnd by (rule wp_mono [OF wp_True]) (auto simp: wp_simps intro: wp_mono [OF wp_True])
  then obtain r s' where "catch_op ?m (\<lambda>e. ret None) s = (Inr r, s')"
    "r = None \<or> (\<exists>msgs. r = Some msgs \<and> length msgs = (if celery_task_always_eager (cx_cfg cx) then 0 else 1))"
    by (auto simp: wp_def catch_op_def ret_simp split: prod.splits sum.splits)
  then consider (none) "catch_op ?m (\<lambda>e. ret None) s = (Inr None, s')"
    | (some) msgs where "catch_op ?m (\<lambda>e. ret None) s = (Inr (Some msgs), s')"
        "length msgs = (if celery_task_always_eager (cx_cfg cx) then 0 else 1)" by blast
  then show ?case
  proof cases
    case none
    then show ?thesis using Cons.IH [of "n\<lparr>bc_failed := bc_failed n + 1\<rparr>" ms s'] by (simp add: bnd_def)
  next
    case some
    then show ?thesis
      using Cons.IH [of "n\<lparr>bc_queued := bc_queued n + 1\<rparr>" "ms @ msgs" s'] by (auto simp: bnd_def)
  qed
qed

text \<open>C23: A bulk action always returns and accounts for every identifier, as queued or as failed, whatever the
  single operations do; one message is sent per queued identifier, and none in the eager mode, where the
  work is done at once.\<close>

theorem bulk_action_accounts:
  "\<exists>n ms s'. bulk_action cx env now action xs user o' s = (Inr (n, ms), s') \<and>
     bc_queued n + bc_failed n = length xs \<and> length ms = (if celery_task_always_eager (cx_cfg cx) then 0 else bc_queued n)"
  using bulk_loop_accounts [of cx env now action user o' xs "\<lparr>bc_queued = 0, bc_failed = 0\<rparr>" "[]" s]
  by (auto simp: bulk_action_def)

lemma bulk_loop_issue:
  "celery_task_always_eager (cx_cfg cx) \<Longrightarrow>
   bulk_loop cx env now ''issue'' user o' xs n ms s = (Inr (n\<lparr>bc_failed := bc_failed n + length xs\<rparr>, ms), s)"
proof (induction xs arbitrary: n)
  case (Cons i xs)
  have "catch_op (bnd (on_world (get_certificate i)) (\<lambda>_. bnd (bulk_execute cx env now ''issue'' i user o') (\<lambda>_. ret (Some [])))) (\<lambda>e. ret None) s
      = (Inr (None :: bulk_message list option), s)"
    by (auto simp: catch_op_def bnd_def on_world_def get_certificate_def bulk_execute_def op_simps split: option.splits)
  then show ?case using Cons by (simp add: bnd_def)
qed (simp add: ret_simp)

text \<open>The endpoint accepts the bulk action \<open>issue\<close>, but nothing implements it: in the eager mode every
  certificate fails; otherwise the certificates are reported as queued, and the task of each message raises
  and changes nothing.\<close>

theorem bulk_issue_does_nothing:
  assumes "bm_action m = ''issue''" "celery_task_always_eager (cx_cfg cx)"
  shows "bulk_action cx env now ''issue'' xs user o' s = (Inr (\<lparr>bc_queued = 0, bc_failed = length xs\<rparr>, []), s) \<and>
    (\<exists>e s'. bulk_operation cy env now m (start_remote (open_session d fs)) = (Inl e, s') \<and> rs_trace s' = [] \<and>
      certificates (committed (rs_world s')) = certificates d \<and> job_executions (committed (rs_world s')) = job_executions d)"
proof
  show "bulk_action cx env now ''issue'' xs user o' s = (Inr (\<lparr>bc_queued = 0, bc_failed = length xs\<rparr>, []), s)"
    using bulk_loop_issue [OF assms(2), of env now user o' xs "\<lparr>bc_queued = 0, bc_failed = 0\<rparr>" "[]" s]
    by (simp add: bulk_action_def)
  show "\<exists>e s'. bulk_operation cy env now m (start_remote (open_session d fs)) = (Inl e, s') \<and> rs_trace s' = [] \<and>
      certificates (committed (rs_world s')) = certificates d \<and> job_executions (committed (rs_world s')) = job_executions d"
    using assms(1)
    by (auto simp: bulk_operation_def bulk_execute_def ensure_not_maintenance_def is_maintenance_def remote_session_def
        on_world_def bnd_def op_simps start_remote_def open_session_def split: option.splits prod.splits sum.splits if_splits)
qed

end
