(* ===== verification/Usage_Proofs.thy ===== *)
theory Usage_Proofs
  imports Cert_Usage
begin

text \<open>
  Usage discovery: wildcard coverage against the reference definition on labels, the probe of a host with
  several ports, the ledger of endpoints (one row per endpoint, its history kept, \<open>CONFIRMED\<close>
  only on equal fingerprints) and how a scan ends.
\<close>

section \<open>Wildcard coverage\<close>

text \<open>The labels of a name; a trailing dot denotes the root.\<close>

definition labels :: "string \<Rightarrow> string list" where
  "labels name = split_on CHR ''.'' (rstrip_by is_dot name)"

lemma split_on_ConsE:
  assumes "split_on c s = l # ps" "ps \<noteq> []"
  obtains t where "s = l @ c # t" "split_on c t = ps" "c \<notin> set l"
  using assms
proof (induction s arbitrary: l thesis)
  case (Cons x xs)
  show ?case
  proof (cases "x = c")
    case True
    then show ?thesis using Cons.prems by (auto intro: Cons.prems(1) [of xs])
  next
    case False
    then obtain l' where l': "split_on c xs = l' # ps" "l = x # l'"
      using Cons.prems by (auto split: list.splits)
    then obtain t where "xs = l' @ c # t" "split_on c t = ps" "c \<notin> set l'"
      using Cons.IH Cons.prems(3) by metis
    then show ?thesis using l' False Cons.prems(1) by auto
  qed
qed simp

lemma split_on_inj: "split_on c s = split_on c t \<Longrightarrow> s = t"
proof (induction "split_on c s" arbitrary: s t)
  case (Cons l ps)
  note eq = Cons.hyps(2) [symmetric] Cons.prems [symmetric, unfolded Cons.hyps(2) [symmetric]]
  show ?case
  proof (cases "ps = []")
    case True
    have "x = l" if "split_on c x = [l]" for x
    proof (cases "c \<in> set x")
      case True
      then obtain a b where "x = a @ c # b" "c \<notin> set a" by (metis split_list_first)
      then show ?thesis using that by (simp add: split_on_append_sep)
    qed (use that in \<open>simp add: split_on_no_sep\<close>)
    then show ?thesis using eq True by auto
  next
    case False
    then obtain a b where "s = l @ c # a" "split_on c a = ps" "t = l @ c # b" "split_on c b = ps"
      using eq by (metis split_on_ConsE)
    then show ?thesis using Cons.hyps(1) [of a b] by simp
  qed
qed (metis split_on_nonempty)

lemma is_dot_lower: "is_dot (lower_char c) = is_dot c"
proof -
  have "lower_char CHR ''.'' = CHR ''.''" by (simp add: lower_char_def)
  then show ?thesis using lower_char_eq_nonletter [of c "CHR ''.''"] by (auto simp: is_dot_def)
qed

lemma rstrip_lower: "rstrip_by is_dot (py_lower s) = py_lower (rstrip_by is_dot s)"
  by (simp add: rstrip_by_def py_lower_def rev_map dropWhile_map comp_def is_dot_lower)

text \<open>C19: A host is a candidate of a wildcard name exactly when it has one label more than the
  suffix, the others being equal: the comparison of strings implements the comparison of labels.\<close>

theorem single_label_coverage:
  "covered_by_single_label_wildcard h s \<longleftrightarrow> (\<exists>l. l \<noteq> [] \<and> labels h = l # labels (py_lower s))"
proof
  let ?h = "rstrip_by is_dot h" and ?s = "py_lower (rstrip_by is_dot s)"
  {
    assume c: "covered_by_single_label_wildcard h s"
    define l where "l = take (length ?h - (length ?s + 1)) ?h"
    have "?h = l @ CHR ''.'' # ?s" "l \<noteq> []" "CHR ''.'' \<notin> set l"
      using c by (auto simp: covered_by_single_label_wildcard_def Let_def l_def py_endswith_def split: if_splits)
        (metis append_take_drop_id)
    then show "\<exists>l. l \<noteq> [] \<and> labels h = l # labels (py_lower s)"
      by (auto simp: labels_def rstrip_lower split_on_append_sep)
  next
    assume "\<exists>l. l \<noteq> [] \<and> labels h = l # labels (py_lower s)"
    then obtain l where l: "l \<noteq> []" "split_on CHR ''.'' ?h = l # split_on CHR ''.'' ?s"
      by (auto simp: labels_def rstrip_lower)
    obtain t where "?h = l @ CHR ''.'' # t" "split_on CHR ''.'' t = split_on CHR ''.'' ?s" "CHR ''.'' \<notin> set l"
      using split_on_ConsE [OF l(2)] by auto
    then have "?h = l @ CHR ''.'' # ?s" "CHR ''.'' \<notin> set l" by (auto dest: split_on_inj)
    then show "covered_by_single_label_wildcard h s"
      using l(1) by (simp add: covered_by_single_label_wildcard_def Let_def py_endswith_def)
  }
qed

section \<open>Probes\<close>

text \<open>What a probe reports of the fingerprints.\<close>

definition probe_ok :: "string option \<Rightarrow> probe_result \<Rightarrow> bool" where
  "probe_ok fp pr \<longleftrightarrow> (reachable pr \<longrightarrow> pr_presented_fingerprint pr \<noteq> None) \<and>
     (reachable pr \<longrightarrow> (pr_status pr = CertUsageResultStatus.CONFIRMED \<longleftrightarrow>
        normalize_fingerprint (pr_presented_fingerprint pr) = normalize_fingerprint fp))"

lemma norm_str_or [simp]: "normalize_fingerprint (Some (str_or fp [])) = normalize_fingerprint fp"
  by (simp add: normalize_fingerprint_def str_or_def split: option.splits)

lemma probe_ok_failed [simp]:
  "st \<notin> {CertUsageResultStatus.CONFIRMED, CertUsageResultStatus.DIFFERENT_CERTIFICATE} \<Longrightarrow> probe_ok fp (failed_probe st ip code msg)"
  by (simp add: probe_ok_def failed_probe_def reachable_def)

lemma probe_error_ok [simp]: "probe_ok fp (probe_error e)"
  by (simp add: probe_error_def)

lemma judge_ok: "judge_presented x5 (str_or fp []) ip der = Inr pr \<Longrightarrow> probe_ok fp pr"
  by (auto simp: judge_presented_def Let_def probe_ok_def reachable_def failed_probe_def
      split: option.splits sum.splits if_splits)

lemma probe_hostname_ok: "probe_hostname x5 net h p (str_or fp []) = Inr pr \<Longrightarrow> probe_ok fp pr"
  by (auto simp: probe_hostname_def connect_probe_def Let_def dest: judge_ok
      split: if_splits dns_reply.splits tls_reply.splits)

text \<open>The result of the fallback is the probe of one of the ports.\<close>

lemma other_ports_hit:
  "other_ports f ps = Inr (Some (p, r)) \<Longrightarrow> p \<in> set ps \<and> f p = Inr r \<and> pr_status r \<notin> set CONNECTIVITY_FAILURES"
  by (induction ps) (auto split: sum.splits if_splits)

lemma port_fallback_probe: "port_fallback f ps = Inr (p, r) \<Longrightarrow> p \<in> set ps \<and> f p = Inr r"
  by (auto simp: port_fallback_def dest: other_ports_hit split: list.splits sum.splits if_splits option.splits)

lemma fallback_ok:
  "probe_hostname_with_port_fallback x5 net h ps (str_or fp []) = Inr (p, pr) \<Longrightarrow> probe_ok fp pr"
  unfolding probe_hostname_with_port_fallback_def by (blast dest: port_fallback_probe probe_hostname_ok)

section \<open>The ledger of endpoints\<close>

text \<open>A property of the results that the two ways of recording a probe keep is kept by every scan.\<close>

locale ledger =
  fixes J :: "usage_result table \<Rightarrow> bool"
  assumes J_add: "\<lbrakk>J t; tbl_first (\<lambda>w. endpoint (rval w) = (cid, h, pr_ip_address pr, p)) t = None;
      probe_ok (c_fingerprint_sha256 c) pr\<rbrakk> \<Longrightarrow>
      J (snd (tbl_add now (note_probe now sid c known pr (new_result now cid h p src pr)) t))"
    and J_upd: "\<lbrakk>J t; tbl_first (\<lambda>w. endpoint (rval w) = (cid, h, pr_ip_address pr, p)) t = Some w;
      probe_ok (c_fingerprint_sha256 c) pr\<rbrakk> \<Longrightarrow>
      J (tbl_upd now (rid w) (\<lambda>r. note_probe now sid c known pr (upgrade_source src r)) t)"
begin

abbreviation (input) kept :: "world \<Rightarrow> bool" where
  "kept \<equiv> winv (\<lambda>d. J (usage_results d))"

lemma keeps_record:
  assumes "probe_ok (c_fingerprint_sha256 c) pr"
  shows "keeps kept (record_result now sid cid c h p src pr)"
  using assms J_add J_upd
  by (auto simp: keeps_def record_result_def find_result_def op_simps winv_def bnd_def split: option.splits)

lemma keeps_other:
  "keeps kept (upd_scan now i f)" "keeps kept (add_job now j)" "keeps kept (record_audit rd now a)"
  "keeps kept (scan_row now si x)"
  unfolding upd_scan_def add_job_def record_audit_def scan_row_def
  by (intro keeps_rules keeps_db_mod; simp)+

lemma keeps_map_op: "(\<And>x. keeps I (f x)) \<Longrightarrow> keeps I (map_op f xs)"
  by (induction xs) (auto intro!: keeps_rules)

lemma keeps_finish:
  "keeps kept (finish_fallback cx net now sid cid c ports hs)"
  "keeps kept (finish_explicit cx net now sid cid c hps)"
  unfolding finish_fallback_def finish_explicit_def finish_probe_def
  by (intro keeps_rules keeps_record keeps_other; simp add: fallback_ok probe_hostname_ok)+

lemma keeps_start_scan: "keeps kept (start_usage_scan cx net fo now cid q cb si)"
  unfolding start_usage_scan_def get_usage_discovery_certificate_def resolve_ports_def resolve_limits_def
    setting_or_def run_usage_scan_def usage_scan_body_def usage_scan_failed_def report_scan_def Let_def
  by (intro keeps_rules keeps_other keeps_map_op keeps_finish)

end
text \<open>One row per endpoint, every \<open>CONFIRMED\<close> row with the expected fingerprint.\<close>

definition confirmed_ok :: "usage_result row \<Rightarrow> bool" where
  "confirmed_ok w \<longleftrightarrow> (ur_status (rval w) = CertUsageResultStatus.CONFIRMED \<longrightarrow>
     ur_presented_fingerprint (rval w) \<noteq> None \<and> ur_last_seen_at (rval w) \<noteq> None \<and>
     normalize_fingerprint (ur_presented_fingerprint (rval w)) = normalize_fingerprint (ur_expected_fingerprint (rval w)))"

definition results_ok :: "usage_result table \<Rightarrow> bool" where
  "results_ok t \<longleftrightarrow> wf_table t \<and> distinct (map (\<lambda>w. endpoint (rval w)) (rows t)) \<and> list_all confirmed_ok (rows t)"

text \<open>What a later state of the ledger keeps of an earlier one.\<close>

definition continues :: "usage_result \<Rightarrow> usage_result \<Rightarrow> bool" where
  "continues a b \<longleftrightarrow> endpoint b = endpoint a \<and> ur_first_seen_at b = ur_first_seen_at a \<and>
     SOURCE_PRECEDENCE (ur_discovery_source a) \<le> SOURCE_PRECEDENCE (ur_discovery_source b) \<and>
     (ur_last_seen_at a \<noteq> None \<longrightarrow> ur_last_seen_at b \<noteq> None)"

definition keeps_history :: "usage_result table \<Rightarrow> usage_result table \<Rightarrow> bool" where
  "keeps_history t0 t \<longleftrightarrow> wf_table t \<and>
     (\<forall>i a. tbl_get i t0 = Some a \<longrightarrow> (\<exists>b. tbl_get i t = Some b \<and> continues a b))"

lemma endpoint_note [simp]:
  "endpoint (note_probe now sid c known pr r) = endpoint r" "endpoint (upgrade_source src r) = endpoint r"
  "endpoint (new_result now cid h p src pr) = (cid, h, pr_ip_address pr, p)"
  by (simp_all add: endpoint_def note_probe_def upgrade_source_def new_result_def)

lemma continues_trans: "continues a b \<Longrightarrow> continues b d \<Longrightarrow> continues a d"
  by (auto simp: continues_def)

lemma continues_note: "continues r (note_probe now sid c known pr (upgrade_source src r))"
  by (auto simp: continues_def) (auto simp: note_probe_def upgrade_source_def)

lemma rows_upd: "rows (tbl_upd now i f t) = map (\<lambda>w. if rid w = i then touch now f w else w) (rows t)"
  by (simp add: tbl_upd_def rows_upd_where)

interpretation endpoints: ledger results_ok
proof
  fix t cid h pr p now sid known src and c :: certificate and w :: "usage_result row"
  assume ok: "results_ok t" "probe_ok (c_fingerprint_sha256 c) pr"
  {
    assume "tbl_first (\<lambda>w. endpoint (rval w) = (cid, h, pr_ip_address pr, p)) t = None"
    then show "results_ok (snd (tbl_add now (note_probe now sid c known pr (new_result now cid h p src pr)) t))"
      using ok by (auto simp: results_ok_def rows_add tbl_first_None)
        (auto simp: confirmed_ok_def note_probe_def probe_ok_def reachable_def)
  next
    let ?t = "tbl_upd now (rid w) (\<lambda>r. note_probe now sid c known pr (upgrade_source src r)) t"
    have "map (\<lambda>w. endpoint (rval w)) (rows ?t) = map (\<lambda>w. endpoint (rval w)) (rows t)" by (simp add: rows_upd)
    moreover have "list_all confirmed_ok (rows ?t)"
      using ok by (auto simp: results_ok_def rows_upd list_all_iff)
        (auto simp: confirmed_ok_def note_probe_def probe_ok_def reachable_def)
    ultimately show "results_ok ?t" using ok(1) by (simp add: results_ok_def)
  }
qed

interpretation history: ledger "keeps_history t0" for t0
proof
  fix t :: "usage_result table" and cid h pr p c now sid known src w
  assume J: "keeps_history t0 t"
  show "keeps_history t0 (snd (tbl_add now (note_probe now sid c known pr (new_result now cid h p src pr)) t))"
    using J unfolding keeps_history_def by (meson tbl.get_add_old tbl.wf_add)
  have "continues a (note_probe now sid c known pr (upgrade_source src b))" if "continues a b" for a b
    using continues_trans [OF that continues_note] .
  then show "keeps_history t0 (tbl_upd now (rid w) (\<lambda>r. note_probe now sid c known pr (upgrade_source src r)) t)"
    using J by (fastforce simp: keeps_history_def)
qed

lemma keeps_history_refl: "wf_table t \<Longrightarrow> keeps_history t t"
  by (simp add: keeps_history_def continues_def)

text \<open>C18: The ledger of endpoints: over a scan, whatever the network answers and however the scan
  ends, there stays one row per (certificate, host, address, port), and a row is marked confirmed only while the
  presented and the expected fingerprint agree up to case and separators.\<close>

theorem usage_scan_ledger:
  assumes "results_ok (usage_results (committed w))" "results_ok (usage_results (work w))"
  shows "results_ok (usage_results (committed (snd (start_usage_scan cx net float_ok now cid q created_by scan_id w))))"
  using keepsD [OF endpoints.keeps_start_scan, of w] assms by (simp add: winv_def)

text \<open>A rescan never loses what is known of an endpoint: its row keeps its identity, the time it was
  first seen, a discovery source of at least the same precedence, and the fact that it has been seen.\<close>

theorem usage_scan_history:
  assumes "wf_table (usage_results (committed w))" "work w = committed w"
    and "tbl_get i (usage_results (committed w)) = Some a"
  shows "\<exists>b. tbl_get i (usage_results (committed (snd (start_usage_scan cx net float_ok now cid q created_by scan_id w)))) = Some b
    \<and> continues a b"
  using keepsD [OF history.keeps_start_scan, of "usage_results (committed w)" w] assms keeps_history_refl
  by (auto simp: winv_def keeps_history_def)

section \<open>How a scan ends\<close>

lemma count_statuses:
  "int (count_list ss CertUsageResultStatus.CONFIRMED) + int (count_list ss CertUsageResultStatus.DIFFERENT_CERTIFICATE) +
   int (count_list ss CertUsageResultStatus.UNREACHABLE) + (int (count_list ss CertUsageResultStatus.DNS_FAILED) +
   int (count_list ss CertUsageResultStatus.TLS_FAILED) + int (count_list ss CertUsageResultStatus.TIMEOUT)) = int (length ss)"
proof (induction ss)
  case (Cons s ss)
  then show ?case by (cases s) simp_all
qed simp

text \<open>The session while the probes are recorded: nothing is committed, and the scan counts.\<close>

definition counting :: "int \<Rightarrow> usage_scan \<Rightarrow> db \<Rightarrow> int \<Rightarrow> world \<Rightarrow> bool" where
  "counting sid x d n w \<longleftrightarrow> committed w = d \<and>
     tbl_get sid (usage_scans (work w)) = Some (x\<lparr>us_scanned_count := us_scanned_count x + n\<rparr>)"

lemma finish_probe_counts:
  "counting sid x d n w \<Longrightarrow>
   wp (finish_probe now sid cid c h p src pr) (\<lambda>_. counting sid x d (n + 1)) E w"
  by (auto simp: finish_probe_def record_result_def upd_scan_def counting_def wp_simps simp del: bnd_db bnd_prim
      split: option.splits)

lemma finish_counts:
  assumes "counting sid x d n w"
  shows "wp (finish_fallback cx net now sid cid c ports hs) (\<lambda>_. counting sid x d (n + 1)) (\<lambda>_ t. committed t = d) w"
    and "wp (finish_explicit cx net now sid cid c hps) (\<lambda>_. counting sid x d (n + 1)) (\<lambda>_ t. committed t = d) w"
  using assms finish_probe_counts [OF assms]
  by (auto simp: finish_fallback_def finish_explicit_def wp_simps counting_def simp del: bnd_db bnd_prim split: sum.splits prod.splits)

lemma map_op_counts:
  assumes "\<And>y n w. counting sid x d n w \<Longrightarrow> wp (f y) (\<lambda>_. counting sid x d (n + 1)) (\<lambda>_ t. committed t = d) w"
  shows "counting sid x d n w \<Longrightarrow>
    wp (map_op f ys) (\<lambda>ss t. length ss = length ys \<and> counting sid x d (n + int (length ys)) t) (\<lambda>_ t. committed t = d) w"
proof (induction ys arbitrary: n w)
  case Nil
  then show ?case by (simp add: wp_simps)
next
  case (Cons y ys)
  have rest: "wp (map_op f ys) (\<lambda>ss t. Suc (length ss) = length (y # ys) \<and> counting sid x d (n + int (length (y # ys))) t)
      (\<lambda>_ t. committed t = d) t" if "counting sid x d (n + 1) t" for t
    using Cons.IH [OF that] by (auto intro: wp_mono simp: algebra_simps)
  have "wp (bnd (map_op f ys) (\<lambda>ss. ret (v # ss))) (\<lambda>ss t. length ss = length (y # ys) \<and>
      counting sid x d (n + int (length (y # ys))) t) (\<lambda>_ t. committed t = d) t" if "counting sid x d (n + 1) t" for t v
    unfolding wp_bnd by (rule wp_mono [OF rest [OF that]]) (auto simp: wp_simps)
  then show ?case unfolding map_op.simps wp_bnd by (intro wp_mono [OF assms [OF Cons.prems]]) (simp_all add: wp_bnd)
qed

text \<open>The row of a scan that went through all its candidates.\<close>

definition accounted :: "int \<Rightarrow> usage_scan \<Rightarrow> bool" where
  "accounted prior x \<longleftrightarrow> us_scanned_count x = prior + us_candidate_count x \<and>
     us_confirmed_count x + us_different_certificate_count x + us_unreachable_count x + us_error_count x = us_candidate_count x"

lemma usage_scan_body_wp:
  assumes "tbl_get sid (usage_scans (work w)) = Some x" "us_candidate_count x = int (length (fst cs) + length (snd cs))"
  shows "wp (usage_scan_body cx net now sid cid c ports cs)
    (\<lambda>_ t. committed t = work t \<and> (\<exists>y. tbl_get sid (usage_scans (work t)) = Some y \<and> us_status y = CertUsageScanStatus.COMPLETED \<and>
       us_completed_at y = Some now \<and> accounted (us_scanned_count x) y))
    (\<lambda>_ t. committed t = committed w) w" (is "wp _ ?Q ?E w")
proof -
  let ?k = "counting sid x (committed w)"
  have fin: "\<exists>y. (\<exists>z. tbl_get sid (usage_scans (work t)) = Some z \<and> complete_scan now (st1 @ st2) z = y) \<and>
      us_status y = CertUsageScanStatus.COMPLETED \<and> us_completed_at y = Some now \<and> accounted (us_scanned_count x) y"
    if "?k (int (length (fst cs)) + int (length (snd cs))) t" "length st1 = length (fst cs)" "length st2 = length (snd cs)" for t st1 st2
    using that assms(2) count_statuses [of "st1 @ st2"]
    by (simp add: counting_def complete_scan_def Let_def accounted_def)
  have two: "wp (map_op (finish_explicit cx net now sid cid c) (snd cs))
      (\<lambda>st2 t. length st2 = length (snd cs) \<and> ?k (int (length (fst cs)) + int (length (snd cs))) t) (\<lambda>_ t. committed t = committed w) t"
    if "?k (0 + int (length (fst cs))) t" for t
    using map_op_counts [where f = "finish_explicit cx net now sid cid c", OF finish_counts(2) that] by simp
  have one: "wp (map_op (finish_fallback cx net now sid cid c ports) (fst cs))
      (\<lambda>st1 t. length st1 = length (fst cs) \<and> ?k (0 + int (length (fst cs))) t) (\<lambda>_ t. committed t = committed w) w"
    using map_op_counts [where f = "finish_fallback cx net now sid cid c ports" and n = 0 and ys = "fst cs" and x = x and w = w and d = "committed w",
        OF finish_counts(1)] assms(1) by (simp add: counting_def)
  show ?thesis
    unfolding usage_scan_body_def upd_scan_def
    by (auto simp: wp_simps simp del: bnd_db bnd_prim split: sum.splits
        intro!: wp_mono [OF one] wp_mono [OF two] fin)
qed

text \<open>The rest of a scan: the report leaves the row of the scan alone, a failure undoes the results.\<close>

definition scan_ended :: "int \<Rightarrow> datetime \<Rightarrow> int \<Rightarrow> usage_result table \<Rightarrow> world \<Rightarrow> bool" where
  "scan_ended sid now prior before t \<longleftrightarrow> committed t = work t \<and>
     (\<exists>y. tbl_get sid (usage_scans (committed t)) = Some y \<and> us_completed_at y = Some now \<and>
       (us_status y = CertUsageScanStatus.COMPLETED \<and> accounted prior y \<or>
        us_status y = CertUsageScanStatus.FAILED \<and> usage_results (committed t) = before))"

lemma report_scan_wp:
  assumes "tbl_get sid (usage_scans (work w)) = Some y" "us_completed_at y = Some now"
    "us_status y = CertUsageScanStatus.COMPLETED" "accounted prior y"
  shows "wp (report_scan cx now sid cid cb) (\<lambda>_. scan_ended sid now prior before) E w"
  using assms by (auto simp: report_scan_def add_job_def record_audit_def wp_simps scan_ended_def simp del: bnd_db bnd_prim)

lemma run_usage_scan_wp:
  assumes x: "tbl_get sid (usage_scans (work w)) = Some x" "us_candidate_count x = int (length (fst cs) + length (snd cs))"
    and c: "committed w = work w"
  shows "wp (run_usage_scan cx net now sid cid c ports cs cb)
    (\<lambda>_. scan_ended sid now (us_scanned_count x) (usage_results (work w))) E w"
proof -
  have failed: "wp (usage_scan_failed now sid e)
      (\<lambda>_. scan_ended sid now (us_scanned_count x) (usage_results (work w))) E' t" if "committed t = committed w" for e t E'
    using that x(1) c by (auto simp: usage_scan_failed_def upd_scan_def wp_simps scan_ended_def simp del: bnd_db bnd_prim)
  show ?thesis
    unfolding run_usage_scan_def when_op_def wp_bnd wp_catch
    by (rule wp_mono [OF usage_scan_body_wp [OF x]])
      (auto simp: wp_simps intro!: report_scan_wp wp_mono [OF failed] simp del: bnd_db bnd_prim)
qed

lemma keeps_readings:
  "keeps J (get_usage_discovery_certificate cid)" "keeps J (resolve_ports k ps)" "keeps J (resolve_limits k fo q)"
  unfolding get_usage_discovery_certificate_def resolve_ports_def resolve_limits_def setting_or_def
  by (intro keeps_rules)+

lemma wp_only_reads: "(\<And>J. keeps J m) \<Longrightarrow> (\<And>x. Q x s) \<Longrightarrow> (\<And>e. E e s) \<Longrightarrow> wp m Q E s"
  by (rule wp_keeps [of "\<lambda>t. t = s"]) auto

text \<open>The number of probes a reused row already counts.\<close>

definition prior_count :: "int option \<Rightarrow> db \<Rightarrow> int" where
  "prior_count scan_id d =
     (case scan_id of None \<Rightarrow> 0
      | Some i \<Rightarrow> (case tbl_get i (usage_scans d) of None \<Rightarrow> 0 | Some x \<Rightarrow> us_scanned_count x))"

text \<open>How a usage scan ends, whatever the resolver, the endpoints and the parser do: its row is
  committed as completed, with one recorded probe per candidate and counters that add up to the candidates,
  or as failed, in which case the results are those from before the scan.  It is never left running.\<close>

theorem usage_scan_outcome:
  assumes run: "start_usage_scan cx net float_ok now cid q created_by scan_id w = (Inr sid, w')"
    and wf: "wf_table (usage_scans (work w))"
  shows "\<exists>y. tbl_get sid (usage_scans (committed w')) = Some y \<and> us_completed_at y = Some now \<and>
    (us_status y = CertUsageScanStatus.COMPLETED \<and> us_candidate_count y = 0 \<or>
     us_status y = CertUsageScanStatus.COMPLETED \<and> accounted (prior_count scan_id (work w)) y \<or>
     us_status y = CertUsageScanStatus.FAILED \<and> usage_results (committed w') = usage_results (work w))"
proof -
  let ?Q = "\<lambda>sid t. \<exists>y. tbl_get sid (usage_scans (committed t)) = Some y \<and> us_completed_at y = Some now \<and>
    (us_status y = CertUsageScanStatus.COMPLETED \<and> us_candidate_count y = 0 \<or>
     us_status y = CertUsageScanStatus.COMPLETED \<and> accounted (prior_count scan_id (work w)) y \<or>
     us_status y = CertUsageScanStatus.FAILED \<and> usage_results (committed t) = usage_results (work w))"
  have row: "wp (scan_row now scan_id x0) (\<lambda>i t. usage_results (work t) = usage_results (work w) \<and>
      (\<exists>y. tbl_get i (usage_scans (work t)) = Some y \<and> us_scanned_count y = prior_count scan_id (work w))) E w"
    if "us_scanned_count x0 = 0" for x0 E
    using wf that tbl.get_add_same [OF wf, of now x0]
    by (auto simp: scan_row_def wp_simps prior_count_def tbl_add_def simp del: bnd_db bnd_prim split: option.splits)
  have go: "wp (bnd (run_usage_scan cx net now i cid c ports cs created_by) (\<lambda>_. ret i)) ?Q (\<lambda>_ _. True) t"
    if y: "\<exists>y. tbl_get i (usage_scans (work t)) = Some y \<and> us_candidate_count y = int (length (fst cs) + length (snd cs)) \<and>
        us_scanned_count y = prior_count scan_id (work w)"
      and t: "committed t = work t" "usage_results (work t) = usage_results (work w)" for i c ports cs t
  proof -
    from y obtain y where y': "tbl_get i (usage_scans (work t)) = Some y" "us_candidate_count y = int (length (fst cs) + length (snd cs))"
      "us_scanned_count y = prior_count scan_id (work w)" by blast
    show ?thesis
      unfolding wp_bnd by (rule wp_mono [OF run_usage_scan_wp [OF y'(1,2) t(1)]])
        (use y'(3) t(2) in \<open>auto simp: scan_ended_def wp_simps\<close>)
  qed
  have "wp (start_usage_scan cx net float_ok now cid q created_by scan_id) ?Q (\<lambda>_ _. True) w"
    unfolding start_usage_scan_def Let_def wp_bnd
    apply (rule wp_only_reads [OF keeps_readings(1)])
     apply (rule wp_only_reads [OF keeps_readings(2)])
      apply (rule wp_only_reads [OF keeps_readings(3)])
       apply (subst wp_db)
       apply (rule wp_mono [OF row])
         apply (simp add: new_scan_def)
        apply (auto simp: upd_scan_def wp_simps intro!: go [unfolded wp_bnd] simp del: bnd_db bnd_prim)
    done
  from wp_InrD [OF this run] show ?thesis .
qed

end
