(* ===== verification/Usage_Witnesses.thy ===== *)
theory Usage_Witnesses
  imports Usage_Proofs Cert_Witnesses
begin

text \<open>A usage scan of a wildcard certificate with one literal name, whose endpoint presents it.\<close>

definition usage_cert :: certificate where
  "usage_cert = (new_certificate ''*.example.com'')\<lparr>c_sans := [''*.example.com'', ''api.example.com''],
     c_is_wildcard := True, c_fingerprint_sha256 := Some ''abcd''\<rparr>"

text \<open>The endpoint as an earlier scan left it: unreachable and found by inventory.\<close>

definition earlier_result :: usage_result where
  "earlier_result = new_result 1 1 ''api.example.com'' 443 ''inventory''
     (failed_probe CertUsageResultStatus.UNREACHABLE (Some ''10.0.0.1'') ''connect_failed'' [])"

definition usage_world :: world where
  "usage_world = open_session (empty_db\<lparr>certificates := snd (tbl_add 0 usage_cert empty_table),
     usage_results := snd (tbl_add 1 earlier_result empty_table)\<rparr>) Map.empty"

definition usage_net :: probe_net where
  "usage_net = \<lparr>pn_context = Inr (), pn_dns = (\<lambda>_. Resolved ''10.0.0.1''),
     pn_tls = (\<lambda>_ p _. if p = 443 then Presented (Some []) else ConnectTimeout)\<rparr>"

definition usage_query :: usage_request where
  "usage_query = \<lparr>uq_sources = Some [''sans''], uq_hostnames = None, uq_ports = Some [8443, 443],
     uq_has_timeout = True, uq_concurrency = Some 1\<rparr>"

definition usage_run :: "(exn + int) \<times> world" where
  "usage_run = start_usage_scan with_provider usage_net (\<lambda>_. True) 5 1 usage_query None None usage_world"

lemma usage_world_facts [simp]:
  "committed usage_world = work usage_world"
  "results_ok (usage_results (work usage_world))" "wf_table (usage_results (work usage_world))"
  "wf_table (usage_scans (work usage_world))" "prior_count None (work usage_world) = 0"
  "tbl_get 1 (usage_results (work usage_world)) = Some earlier_result"
  by (simp_all add: usage_world_def open_session_def empty_db_def results_ok_def confirmed_ok_def wf_table_def ids_def
      tbl_add_def empty_table_def earlier_result_def new_result_def prior_count_def tbl_get_def tbl_row_def)

lemma usage_run_returns: "fst usage_run = Inr 1"
  by code_simp

lemma usage_scan_outcome_witness:
  "\<exists>y. tbl_get 1 (usage_scans (committed (snd usage_run))) = Some y \<and> us_completed_at y = Some 5 \<and>
    (us_status y = CertUsageScanStatus.COMPLETED \<and> us_candidate_count y = 0 \<or>
     us_status y = CertUsageScanStatus.COMPLETED \<and> accounted 0 y \<or>
     us_status y = CertUsageScanStatus.FAILED \<and> usage_results (committed (snd usage_run)) = usage_results (work usage_world))"
proof -
  have "start_usage_scan with_provider usage_net (\<lambda>_. True) 5 1 usage_query None None usage_world = (Inr 1, snd usage_run)"
    using usage_run_returns by (simp add: prod_eq_iff flip: usage_run_def)
  from usage_scan_outcome [OF this] show ?thesis by simp
qed

lemma usage_scan_ledger_witness:
  "results_ok (usage_results (work usage_world)) \<and> results_ok (usage_results (committed (snd usage_run)))"
  unfolding usage_run_def by (intro conjI usage_scan_ledger) simp_all

lemma usage_scan_history_witness:
  "\<exists>b. tbl_get 1 (usage_results (committed (snd usage_run))) = Some b \<and> continues earlier_result b"
  unfolding usage_run_def by (rule usage_scan_history) simp_all

end
