(* ===== verification/Commands.thy ===== *)
theory Commands
  imports Servers Discovery
begin

text \<open>
  Local commands: \<open>app/services/command.py\<close>, the command lines of \<open>app/services/certbot.py\<close> and the
  staged identities of \<open>app/services/ssh_credentials.py\<close>.  Operations act on the file system; the
  operating system (search path, environment, which files can be written, running a process) is an
  \<open>exec_env\<close>.  Fields of a request that no caller sets (\<open>extra_args\<close>, \<open>rsa_key_size\<close>,
  \<open>elliptic_curve\<close>, \<open>common_name\<close>) keep their defaults and are left out.
\<close>

type_synonym 'a fop = "(fs, 'a) op"

datatype run_outcome =
    Exited int string string
  | TimedOut string string
  | RunOSError string
  | RunRaised exn

type_synonym environment_vars = "(string \<times> string) list"

record proc =
  px_argv :: "string list"
  px_env :: environment_vars
  px_user :: "string option"
  px_cwd :: "string option"
  px_timeout :: int

record exec_env =
  xe_which :: "string \<Rightarrow> string option"
  xe_environ :: environment_vars
  xe_executable :: "string \<Rightarrow> bool"
  xe_writable :: "string \<Rightarrow> bool"
  xe_run :: "proc \<Rightarrow> fs \<Rightarrow> run_outcome \<times> fs"
  xe_duration_ms :: int
  xe_home :: string
  xe_token :: string

section \<open>Running a command\<close>

definition FORBIDDEN_METACHARS :: string where
  "FORBIDDEN_METACHARS = '' ;&|`$<>(){}[]*?~!'' @ [CHR 0x22, CHR 0x27, CHR 0x5C, CHR 0x0A, CHR 0x0D, CHR 0x09]"

definition assert_safe_argument :: "string \<Rightarrow> exn + string" where
  "assert_safe_argument v =
     (if list_ex (\<lambda>c. c \<in> set FORBIDDEN_METACHARS) v
      then raises ValidationAppError ''Argument contains forbidden shell characters'' else Inr v)"

fun assert_safe_arguments :: "string list \<Rightarrow> exn + string list" where
  "assert_safe_arguments [] = Inr []"
| "assert_safe_arguments (a # as) =
     (case assert_safe_argument a of
        Inl e \<Rightarrow> Inl e
      | Inr v \<Rightarrow> (case assert_safe_arguments as of Inl e \<Rightarrow> Inl e | Inr vs \<Rightarrow> Inr (v # vs)))"

definition assert_safe_script_path :: "exec_env \<Rightarrow> bool \<Rightarrow> string \<Rightarrow> string fop" where
  "assert_safe_script_path xe executable_required path =
     bnd (gets (\<lambda>fs. fs path \<noteq> None)) (\<lambda>ex.
     if \<not> py_startswith path ''/'' then fail ValidationAppError ''Script path must be absolute''
     else if \<not> ex then fail ValidationAppError (''Script does not exist: '' @ path)
     else if executable_required \<and> \<not> xe_executable xe path then fail ValidationAppError (''Script is not executable: '' @ path)
     else ret path)"

definition SENSITIVE_ENV_SUBSTRINGS :: "string list" where
  "SENSITIVE_ENV_SUBSTRINGS = [''SECRET'', ''PASSWORD'', ''TOKEN'', ''_KEY'', ''DATABASE_URL'', ''CREDENTIAL'']"

definition sensitive_name :: "string \<Rightarrow> bool" where
  "sensitive_name k \<longleftrightarrow> list_ex (\<lambda>s. py_contains s (map upper_char k)) SENSITIVE_ENV_SUBSTRINGS"

definition build_scrubbed_env :: "exec_env \<Rightarrow> environment_vars option \<Rightarrow> environment_vars" where
  "build_scrubbed_env xe env =
     Permissions.dict_update (filter (\<lambda>(k, v). \<not> sensitive_name k) (xe_environ xe)) (or_default env [])"

record command_outcome =
  co_argv :: "string list"
  co_returncode :: int
  co_stdout :: string
  co_stderr :: string
  co_duration_ms :: int
  co_timed_out :: bool

definition run_proc :: "exec_env \<Rightarrow> proc \<Rightarrow> run_outcome fop" where
  "run_proc xe p fs = (case xe_run xe p fs of (r, fs') \<Rightarrow> (Inr r, fs'))"

definition run_command ::
    "exec_env \<Rightarrow> string list \<Rightarrow> environment_vars option \<Rightarrow> string option \<Rightarrow> string option \<Rightarrow> int \<Rightarrow> command_outcome fop" where
  "run_command xe argv env user cwd timeout =
     (case argv of
        [] \<Rightarrow> fail ValidationAppError ''Empty command''
      | cmd # args \<Rightarrow>
          (case xe_which xe cmd of
             None \<Rightarrow> fail CommandError (''Executable not found: '' @ cmd)
           | Some binary \<Rightarrow>
               bnd (lift_exn (assert_safe_arguments args)) (\<lambda>safe.
               bnd (run_proc xe \<lparr>px_argv = binary # safe, px_env = build_scrubbed_env xe env, px_user = user,
                      px_cwd = cwd, px_timeout = timeout\<rparr>) (\<lambda>r.
               case r of
                 Exited rc so se \<Rightarrow> ret \<lparr>co_argv = binary # safe, co_returncode = rc, co_stdout = so, co_stderr = se,
                                      co_duration_ms = xe_duration_ms xe, co_timed_out = False\<rparr>
               | TimedOut so se \<Rightarrow> ret \<lparr>co_argv = binary # safe, co_returncode = 124, co_stdout = so, co_stderr = se,
                                      co_duration_ms = xe_duration_ms xe, co_timed_out = True\<rparr>
               | RunOSError msg \<Rightarrow> fail CommandError (''Failed to execute '' @ cmd @ '': '' @ msg)
               | RunRaised e \<Rightarrow> throw e))))"

section \<open>Certbot command lines\<close>

record certbot_request =
  cb_domains :: "string list"
  cb_email :: string
  cb_key_type :: string
  cb_validation_method :: string
  cb_cert_name :: "string option"
  cb_staging :: bool
  cb_dry_run :: bool
  cb_webroot_path :: "string option"
  cb_standalone_port :: "int option"
  cb_auth_hook :: "string option"
  cb_cleanup_hook :: "string option"
  cb_hook_env :: environment_vars
  cb_hook_execution_user :: "string option"
  cb_hook_working_directory :: "string option"
  cb_hook_timeout :: int
  cb_workdir :: "string option"
  cb_prefer_chain :: "string option"

definition key_type_args :: "certbot_request \<Rightarrow> string list" where
  "key_type_args req =
     (if cb_key_type req \<in> {KeyType_value KeyType.ECDSA_P256, KeyType_value KeyType.ECDSA_P384} then
        [''--key-type'', ''ecdsa'', ''--elliptic-curve'',
         if cb_key_type req = KeyType_value KeyType.ECDSA_P256 then ''secp256r1'' else ''secp384r1'']
      else [''--key-type'', ''rsa'', ''--rsa-key-size'',
            if cb_key_type req = KeyType_value KeyType.RSA_4096 then ''4096'' else ''2048''])"

definition validation_args :: "certbot_request \<Rightarrow> exn + string list" where
  "validation_args req =
     (let m = cb_validation_method req in
      if m = ValidationMethod_value ValidationMethod.HTTP_01 then Inr [''--preferred-challenges'', ''http'']
      else if m = ValidationMethod_value ValidationMethod.DNS_01 then Inr [''--preferred-challenges'', ''dns'']
      else if m = ValidationMethod_value ValidationMethod.STANDALONE then
        Inr [''--standalone'', ''--http-01-port'',
             str_int (if id_truthy (cb_standalone_port req) then or_default (cb_standalone_port req) 80 else 80)]
      else if m = ValidationMethod_value ValidationMethod.WEBROOT then
        (if \<not> truthy (cb_webroot_path req) then raises CertbotError ''webroot_path is required for webroot validation''
         else Inr [''--webroot'', ''-w'', str_or (cb_webroot_path req) []])
      else if m = ValidationMethod_value ValidationMethod.MANUAL_HTTP then Inr [''--manual'', ''--preferred-challenges'', ''http'']
      else if m = ValidationMethod_value ValidationMethod.MANUAL_DNS then Inr [''--manual'', ''--preferred-challenges'', ''dns'']
      else if m = ValidationMethod_value ValidationMethod.CUSTOM then
        (if \<not> truthy (cb_auth_hook req) then raises CertbotError ''Custom validation requires an auth hook'' else Inr [''--manual''])
      else raises CertbotError (''Unsupported validation method: '' @ m))"

definition hook_arg :: "exec_env \<Rightarrow> string \<Rightarrow> string option \<Rightarrow> string list fop" where
  "hook_arg xe flag hook =
     (if truthy hook then bnd (assert_safe_script_path xe True (str_or hook [])) (\<lambda>p. ret [flag, p]) else ret [])"

definition hook_args :: "exec_env \<Rightarrow> certbot_request \<Rightarrow> string list fop" where
  "hook_args xe req =
     bnd (hook_arg xe ''--manual-auth-hook'' (cb_auth_hook req)) (\<lambda>a.
     bnd (hook_arg xe ''--manual-cleanup-hook'' (cb_cleanup_hook req)) (\<lambda>b. ret (a @ b)))"

definition build_certbot_env :: "certbot_request \<Rightarrow> environment_vars" where
  "build_certbot_env req =
     Permissions.dict_update [(''PATH'', ''/usr/local/sbin:/usr/local/bin:/usr/sbin:/usr/bin:/sbin:/bin'')] (cb_hook_env req)"

definition workdir_args :: "settings \<Rightarrow> string option \<Rightarrow> string list" where
  "workdir_args s workdir =
     (if \<not> truthy workdir then []
      else [''--config-dir'', str_or workdir [], ''--work-dir'', str_or workdir [], ''--logs-dir'', log_root s @ ''/certbot''])"

definition opt_args :: "string \<Rightarrow> string option \<Rightarrow> string list" where
  "opt_args flag v = (if truthy v then [flag, str_or v []] else [])"

definition flag_arg :: "bool \<Rightarrow> string \<Rightarrow> string list" where
  "flag_arg b flag = (if b then [flag] else [])"

definition build_issue_command :: "settings \<Rightarrow> exec_env \<Rightarrow> certbot_request \<Rightarrow> string list fop" where
  "build_issue_command s xe req =
     bnd (lift_exn (validate_domain_list True (cb_domains req))) (\<lambda>domains.
     bnd (lift_exn (validation_args req)) (\<lambda>validation.
     bnd (hook_args xe req) (\<lambda>hooks.
     ret ([certbot_binary s, ''certonly'', ''--non-interactive'', ''--agree-tos'', ''--no-self-upgrade'',
           ''-m'', cb_email req, ''--domains'', py_join '','' domains] @
          opt_args ''--cert-name'' (cb_cert_name req) @ key_type_args req @ validation @ hooks @
          workdir_args s (cb_workdir req) @ opt_args ''--preferred-chain'' (cb_prefer_chain req) @
          flag_arg (cb_staging req) ''--staging'' @ flag_arg (cb_dry_run req) ''--dry-run'' @ [''--verbose'']))))"

definition build_renew_command :: "settings \<Rightarrow> string \<Rightarrow> bool \<Rightarrow> bool \<Rightarrow> bool \<Rightarrow> string option \<Rightarrow> string list" where
  "build_renew_command s cert_name force staging dry_run workdir =
     [certbot_binary s, ''renew'', ''--non-interactive'', ''--no-self-upgrade''] @
     opt_args ''--cert-name'' (Some cert_name) @ flag_arg force ''--force-renewal'' @
     flag_arg dry_run ''--dry-run'' @ flag_arg staging ''--staging'' @ workdir_args s workdir"

definition VALID_REASONS :: "string list" where
  "VALID_REASONS = [''unspecified'', ''keycompromise'', ''affiliationchanged'', ''superseded'', ''cessationofoperation'']"

definition build_revoke_command :: "settings \<Rightarrow> string \<Rightarrow> string \<Rightarrow> string option \<Rightarrow> exn + string list" where
  "build_revoke_command s cert_path reason workdir =
     (if reason \<notin> set VALID_REASONS then raises CertbotError (''Invalid revocation reason: '' @ reason)
      else Inr ([certbot_binary s, ''revoke'', ''--cert-path'', cert_path] @ [''--reason'', reason] @ workdir_args s workdir))"

text \<open>\<^verbatim>\<open>timeout or self.timeout\<close>\<close>

definition certbot_execute ::
    "settings \<Rightarrow> exec_env \<Rightarrow> int option \<Rightarrow> string list \<Rightarrow> environment_vars option \<Rightarrow> string option \<Rightarrow> string option \<Rightarrow> int option
      \<Rightarrow> command_outcome fop" where
  "certbot_execute s xe own argv env user cwd timeout =
     run_command xe argv env user cwd
       (if id_truthy timeout then or_default timeout 0
        else if id_truthy own then or_default own 0 else certbot_timeout_seconds s)"

definition certbot_issue :: "settings \<Rightarrow> exec_env \<Rightarrow> int option \<Rightarrow> certbot_request \<Rightarrow> command_outcome fop" where
  "certbot_issue s xe own req =
     bnd (build_issue_command s xe req) (\<lambda>argv.
     certbot_execute s xe own argv (Some (build_certbot_env req)) (cb_hook_execution_user req)
       (cb_hook_working_directory req) (Some (cb_hook_timeout req)))"

definition cert_file :: "settings \<Rightarrow> string \<Rightarrow> string \<Rightarrow> string" where
  "cert_file s cert_name file =
     (if py_startswith cert_name ''/'' then cert_name else certbot_workdir s @ ''/live/'' @ cert_name) @ ''/'' @ file"

end
