(* ===== verification/Providers.thy ===== *)
theory Providers
  imports Commands
begin

text \<open>
  The built-in certificate providers, \<open>app/services/providers/\<close>: Let's Encrypt through certbot, the
  internal OpenSSL authority, and the registry that the certificate service looks them up in.  With
  \<open>registry\<close> in place of the parameter \<open>cx_registry\<close> the model of the certificate
  service runs on the platform's own providers.  Plug-ins loaded from entry points are the map
  \<open>plugins\<close>.
\<close>

section \<open>Staged identities\<close>

definition PEM_HEADER_CHAR :: "char \<Rightarrow> bool" where
  "PEM_HEADER_CHAR c \<longleftrightarrow> py_isupper_ascii c \<or> py_isdigit_ascii c \<or> c = CHR '' ''"

text \<open>A match of \<^verbatim>\<open>-----BEGIN [A-Z0-9 ]*PRIVATE KEY-----\<close> at the start: the text up to the next dash, which is
  all of the class, ends in \<^verbatim>\<open>PRIVATE KEY\<close> and five dashes follow.\<close>

definition pem_header_at :: "string \<Rightarrow> bool" where
  "pem_header_at s \<longleftrightarrow> py_startswith s ''-----BEGIN '' \<and>
     (let t = drop 11 s; label = takeWhile PEM_HEADER_CHAR t in
      py_endswith label ''PRIVATE KEY'' \<and> py_startswith (drop (length label) t) ''-----'')"

fun pem_header_search :: "string \<Rightarrow> bool" where
  "pem_header_search [] \<longleftrightarrow> pem_header_at []"
| "pem_header_search (c # s) \<longleftrightarrow> pem_header_at (c # s) \<or> pem_header_search s"

definition assert_valid_private_key_pem :: "string \<Rightarrow> exn + string" where
  "assert_valid_private_key_pem v =
     (if v = [] \<or> \<not> pem_header_search v
      then raises ValidationAppError (''Does not look like a PEM private key '' @
        ''(missing a '' @ [CHR 0x27] @ ''-----BEGIN ... PRIVATE KEY-----'' @ [CHR 0x27] @ '' header)'')
      else Inr v)"

definition expanduser :: "exec_env \<Rightarrow> string \<Rightarrow> string" where
  "expanduser xe p = (if p = ''~'' \<or> py_startswith p ''~/'' then xe_home xe @ drop 1 p else p)"

definition include_dir :: "settings \<Rightarrow> exec_env \<Rightarrow> string" where
  "include_dir s xe = expanduser xe (ssh_config_include_dir s)"

definition path_parent :: "string \<Rightarrow> string" where
  "path_parent p = py_join ''/'' (butlast (split_on CHR ''/'' p))"

definition ssh_config_path :: "settings \<Rightarrow> exec_env \<Rightarrow> string" where
  "ssh_config_path s xe = path_parent (include_dir s xe) @ ''/config''"

definition split_lines :: "string \<Rightarrow> string list" where
  "split_lines s = split_on CHR 0x0A (map (\<lambda>c. if is_linebreak c then CHR 0x0A else c) s)"

definition includes_dir :: "exec_env \<Rightarrow> string \<Rightarrow> string \<Rightarrow> bool" where
  "includes_dir xe dir line \<longleftrightarrow>
     (let stripped = py_strip line;
          word = takeWhile (\<lambda>c. \<not> py_isspace c) stripped;
          rest = dropWhile py_isspace (drop (length word) stripped) in
      stripped \<noteq> [] \<and> hd stripped \<noteq> CHR ''#'' \<and> rest \<noteq> [] \<and> py_lower word = ''include'' \<and>
      py_contains dir (expanduser xe rest))"

definition ssh_config_include_ready :: "settings \<Rightarrow> exec_env \<Rightarrow> fs \<Rightarrow> bool" where
  "ssh_config_include_ready s xe fs =
     (case fs (ssh_config_path s xe) of
        None \<Rightarrow> False
      | Some text \<Rightarrow> list_ex (includes_dir xe (include_dir s xe)) (split_lines text))"

definition staged_key_path :: "settings \<Rightarrow> exec_env \<Rightarrow> string" where
  "staged_key_path s xe = ssh_key_staging_dir s @ ''/certmgr-'' @ xe_token xe"

definition staged_config_path :: "settings \<Rightarrow> exec_env \<Rightarrow> string" where
  "staged_config_path s xe = include_dir s xe @ ''/'' @ xe_token xe @ ''.conf''"

definition host_stanza :: "settings \<Rightarrow> exec_env \<Rightarrow> string option \<Rightarrow> string" where
  "host_stanza s xe host = ''Host '' @ str_or host [] @ [CHR 0x0A] @ ''  IdentityFile '' @ staged_key_path s xe @ [CHR 0x0A] @
     ''  IdentitiesOnly yes'' @ [CHR 0x0A]"

text \<open>\<open>write_text\<close>: raises when the file cannot be written.\<close>

definition write_text :: "exec_env \<Rightarrow> string \<Rightarrow> string \<Rightarrow> unit fop" where
  "write_text xe path content =
     (if xe_writable xe path then modify (\<lambda>fs. fs(path \<mapsto> content)) else fail OSError (''Permission denied: '' @ path))"

text \<open>\<open>with TemporarySSHIdentity(key, host): body\<close>.  The two files are removed by \<^verbatim>\<open>__exit__\<close>, which runs only once
  \<^verbatim>\<open>__enter__\<close> has returned.\<close>

definition with_identity :: "settings \<Rightarrow> exec_env \<Rightarrow> string \<Rightarrow> string option \<Rightarrow> 'a fop \<Rightarrow> 'a fop" where
  "with_identity s xe key host body =
     (if \<not> truthy host then fail ValidationAppError ''SSH credential is configured but no target host was set''
      else
        bnd (lift_exn (assert_valid_private_key_pem key)) (\<lambda>_.
        bnd (gets (ssh_config_include_ready s xe)) (\<lambda>ready.
        if \<not> ready then
          fail ValidationAppError (''SSH credential injection requires a one-time setup step: add '' @ [CHR 0x27] @
            ''Include '' @ include_dir s xe @ ''/*.conf'' @ [CHR 0x27] @ '' near the top of '' @ ssh_config_path s xe @
            '' (see docs/administration.md). Refusing to run without it rather than silently skip the credential.'')
        else
          bnd (write_text xe (staged_key_path s xe) key) (\<lambda>_.
          bnd (write_text xe (staged_config_path s xe) (host_stanza s xe host)) (\<lambda>_.
          (\<lambda>fs. case body fs of (r, fs') \<Rightarrow> (r, fs'(staged_config_path s xe := None, staged_key_path s xe := None))))))))"

section \<open>Let's Encrypt\<close>

text \<open>The options of certbot and the paths of a configuration are read as strings; a value of another type
  counts as absent.\<close>

definition extra_str :: "dict \<Rightarrow> string \<Rightarrow> string option" where
  "extra_str m k = (case map_of m k of Some (JStr v) \<Rightarrow> Some v | _ \<Rightarrow> None)"

definition extra_int :: "dict \<Rightarrow> string \<Rightarrow> int option" where
  "extra_int m k = (case map_of m k of Some (JInt v) \<Rightarrow> Some v | _ \<Rightarrow> None)"

definition certbot_request_of :: "settings \<Rightarrow> issue_request \<Rightarrow> certbot_request" where
  "certbot_request_of s q = \<lparr>
     cb_domains = q_domains q, cb_email = (if q_email q = [] then default_letsencrypt_email s else q_email q),
     cb_key_type = q_key_type q, cb_validation_method = q_validation_method q, cb_cert_name = q_cert_name q,
     cb_staging = (q_staging q \<or> \<not> q_dry_run q \<and> default_staging s), cb_dry_run = q_dry_run q,
     cb_webroot_path = q_webroot_path q, cb_standalone_port = q_standalone_port q,
     cb_auth_hook = q_auth_hook q, cb_cleanup_hook = q_cleanup_hook q, cb_hook_env = q_hook_env q,
     cb_hook_execution_user = q_hook_execution_user q, cb_hook_working_directory = q_hook_working_directory q,
     cb_hook_timeout = q_hook_timeout q,
     cb_workdir = Some (str_or (extra_str (q_extra q) ''workdir'') (certbot_workdir s)),
     cb_prefer_chain = extra_str (q_extra q) ''prefer_chain''\<rparr>"

definition slug_char :: "char \<Rightarrow> char" where
  "slug_char c = (if is_alnum_ascii c \<or> c \<in> {CHR ''_'', CHR ''.'', CHR ''-''} then c else CHR ''-'')"

definition slug :: "string \<Rightarrow> string" where
  "slug name = take 120 (map slug_char name)"

definition derive_cert_name :: "string list \<Rightarrow> string" where
  "derive_cert_name domains =
     slug (concat (map (\<lambda>c. if c = CHR ''*'' then ''wildcard'' else [c]) (case domains of [] \<Rightarrow> [] | d # _ \<Rightarrow> d)))"

definition no_issue :: "string \<Rightarrow> issue_result" where
  "no_issue err = \<lparr>ir_success = False, ir_cert_path = None, ir_key_path = None, ir_chain_path = None,
     ir_fullchain_path = None, ir_cert_name = None, ir_exit_code = None, ir_stdout = [], ir_stderr = [],
     ir_duration_ms = 0, ir_error = Some err\<rparr>"

definition quoted_list :: "string list \<Rightarrow> string" where
  "quoted_list xs = ''['' @ py_join '', '' (map (\<lambda>x. [CHR 0x27] @ x @ [CHR 0x27]) xs) @ '']''"

text \<open>What certbot's outcome means for the request.\<close>

definition issue_result_of :: "settings \<Rightarrow> issue_request \<Rightarrow> command_outcome \<Rightarrow> fs \<Rightarrow> issue_result" where
  "issue_result_of s q out fs =
     (if co_returncode out = 0 \<and> \<not> q_dry_run q then
        let cert_name = str_or (q_cert_name q) (derive_cert_name (q_domains q));
            missing = filter (\<lambda>p. fs p = None)
              (map (cert_file s cert_name) [''cert.pem'', ''privkey.pem'', ''chain.pem'', ''fullchain.pem'']) in
        if missing \<noteq> [] then
          (no_issue (''Certbot succeeded but files missing: '' @ quoted_list missing))\<lparr>
            ir_stdout := co_stdout out, ir_stderr := co_stderr out, ir_exit_code := Some (co_returncode out),
            ir_duration_ms := co_duration_ms out\<rparr>
        else \<lparr>ir_success = True, ir_cert_path = Some (cert_file s cert_name ''cert.pem''),
               ir_key_path = Some (cert_file s cert_name ''privkey.pem''),
               ir_chain_path = Some (cert_file s cert_name ''chain.pem''),
               ir_fullchain_path = Some (cert_file s cert_name ''fullchain.pem''),
               ir_cert_name = Some cert_name, ir_exit_code = Some (co_returncode out), ir_stdout = co_stdout out,
               ir_stderr = co_stderr out, ir_duration_ms = co_duration_ms out, ir_error = None\<rparr>
      else
        (no_issue (let e = last_n 2000 (py_strip (co_stderr out)) in if e = [] then ''Certbot exited non-zero'' else e))\<lparr>
          ir_stdout := co_stdout out, ir_stderr := co_stderr out, ir_exit_code := Some (co_returncode out),
          ir_duration_ms := co_duration_ms out\<rparr>)"

definition letsencrypt_issue :: "settings \<Rightarrow> crypto \<Rightarrow> exec_env \<Rightarrow> int option \<Rightarrow> issue_request \<Rightarrow> issue_result fop" where
  "letsencrypt_issue s k xe own q =
     (let run = certbot_issue s xe own (certbot_request_of s q) in
      bnd (catch_op
             (bnd (if truthy (q_ssh_private_key_encrypted q) then
                     bnd (lift_exn (decrypt_secret k (str_or (q_ssh_private_key_encrypted q) []))) (\<lambda>key.
                     with_identity s xe key (q_ssh_target_host q) run)
                   else run) (\<lambda>out. ret (Inr out)))
             (\<lambda>e. if exc_of e \<in> {CertbotError, OSError, ValidationAppError, SecurityError}
                  then ret (Inl (no_issue (exc_msg e))) else throw e)) (\<lambda>r.
      case r of Inl res \<Rightarrow> ret res | Inr out \<Rightarrow> gets (issue_result_of s q out)))"

definition renew_skipped :: "string \<Rightarrow> bool" where
  "renew_skipped output \<longleftrightarrow>
     py_contains ''no renewals were attempted'' (py_lower output) \<or> py_contains ''not yet due for renewal'' (py_lower output)"

definition existing :: "fs \<Rightarrow> string \<Rightarrow> string option" where
  "existing fs p = (if fs p \<noteq> None then Some p else None)"

definition no_renew :: "string \<Rightarrow> renew_result" where
  "no_renew err = \<lparr>rr_success = False, rr_renewed = False, rr_cert_path = None, rr_key_path = None, rr_chain_path = None,
     rr_fullchain_path = None, rr_exit_code = None, rr_stdout = [], rr_stderr = [], rr_duration_ms = 0, rr_error = Some err\<rparr>"

definition renew_result_of :: "settings \<Rightarrow> string \<Rightarrow> bool \<Rightarrow> command_outcome \<Rightarrow> fs \<Rightarrow> renew_result" where
  "renew_result_of s cert_name dry_run out fs =
     (let ok = (co_returncode out = 0); file = (\<lambda>f. existing fs (cert_file s cert_name f)) in
      \<lparr>rr_success = ok, rr_renewed = (ok \<and> \<not> renew_skipped (co_stdout out @ co_stderr out) \<and> \<not> dry_run),
       rr_cert_path = file ''cert.pem'', rr_key_path = file ''privkey.pem'', rr_chain_path = file ''chain.pem'',
       rr_fullchain_path = file ''fullchain.pem'', rr_exit_code = Some (co_returncode out), rr_stdout = co_stdout out,
       rr_stderr = co_stderr out, rr_duration_ms = co_duration_ms out,
       rr_error = (if ok then None else Some (last_n 2000 (py_strip (co_stderr out))))\<rparr>)"

definition letsencrypt_renew :: "settings \<Rightarrow> exec_env \<Rightarrow> int option \<Rightarrow> string \<Rightarrow> bool \<Rightarrow> bool \<Rightarrow> renew_result fop" where
  "letsencrypt_renew s xe own cert_name force staging =
     catch_op
       (bnd (certbot_execute s xe own (build_renew_command s cert_name force staging False (Some (certbot_workdir s)))
               None None None None) (\<lambda>out. gets (renew_result_of s cert_name False out)))
       (\<lambda>e. if exc_of e \<in> {CertbotError, OSError} then ret (no_renew (exc_msg e)) else throw e)"

definition letsencrypt_revoke :: "settings \<Rightarrow> exec_env \<Rightarrow> int option \<Rightarrow> string \<Rightarrow> string \<Rightarrow> revoke_result fop" where
  "letsencrypt_revoke s xe own cert_path reason =
     catch_op
       (bnd (lift_exn (build_revoke_command s cert_path reason (Some (certbot_workdir s)))) (\<lambda>argv.
        bnd (certbot_execute s xe own argv None None None None) (\<lambda>out.
        ret \<lparr>vr_success = (co_returncode out = 0), vr_stdout = co_stdout out, vr_stderr = co_stderr out,
             vr_exit_code = Some (co_returncode out),
             vr_error = (if co_returncode out = 0 then None else Some (last_n 2000 (py_strip (co_stderr out))))\<rparr>)))
       (\<lambda>e. if exc_of e \<in> {CertbotError, OSError}
            then ret \<lparr>vr_success = False, vr_stdout = [], vr_stderr = [], vr_exit_code = None, vr_error = Some (exc_msg e)\<rparr>
            else throw e)"

text \<open>\<open>validate_config\<close>\<close>

definition letsencrypt_validate_config :: "settings \<Rightarrow> dict \<Rightarrow> string list" where
  "letsencrypt_validate_config s config =
     (let email = str_or (extra_str config ''email'') (default_letsencrypt_email s) in
      if email = [] \<or> CHR ''@'' \<notin> set email then [''A valid Let'' @ [CHR 0x27] @ ''s Encrypt contact email is required''] else [])"

section \<open>Internal authority\<close>

text \<open>\<open>_run\<close>: \<open>None\<close> on success, else the exit code, the error output and the message of the
  \<^verbatim>\<open>TimeoutExpired\<close> or \<^verbatim>\<open>CalledProcessError\<close> that \<open>issue\<close> turns into a result.\<close>

definition openssl_run :: "settings \<Rightarrow> exec_env \<Rightarrow> string list \<Rightarrow> (int \<times> string \<times> string) option fop" where
  "openssl_run s xe argv =
     bnd (run_proc xe \<lparr>px_argv = argv, px_env = build_scrubbed_env xe None, px_user = None, px_cwd = None,
            px_timeout = certbot_timeout_seconds s\<rparr>) (\<lambda>r.
     case r of
       Exited rc so se \<Rightarrow>
         ret (if rc = 0 then None
              else Some (rc, se, last_n 2000 (if se = [] then ''Command returned non-zero exit status '' @ str_int rc else se)))
     | TimedOut so se \<Rightarrow> ret (Some (124, se, ''openssl command timed out after '' @ str_int (certbot_timeout_seconds s) @ ''s''))
     | RunOSError msg \<Rightarrow> fail OSError msg
     | RunRaised e \<Rightarrow> throw e)"

text \<open>A subject field is any JSON value of the request or of the configuration, and Python treats it by its
  type.  \<open>in_value\<close> is \<^verbatim>\<open>ch in value\<close>: a character of a string, but an element of a list and a key of an
  object; other values cannot be searched.  \<open>py_format\<close> is what an f-string makes of a value, for a string
  the string itself and otherwise its \<^verbatim>\<open>repr\<close>.\<close>

fun json_truthy :: "json \<Rightarrow> bool" where
  "json_truthy JNull = False"
| "json_truthy (JBool b) = b"
| "json_truthy (JInt i) = (i \<noteq> 0)"
| "json_truthy (JStr s) = (s \<noteq> [])"
| "json_truthy (JList xs) = (xs \<noteq> [])"
| "json_truthy (JObj m) = (m \<noteq> [])"

definition repr_char :: "char \<Rightarrow> char \<Rightarrow> string" where
  "repr_char q c =
     (let n = of_char c :: nat; hex = (\<lambda>k. if k < 10 then char_of (48 + k) else char_of (87 + k)) in
      if c = q \<or> n = 0x5C then [CHR 0x5C, c]
      else if n = 0x0A then [CHR 0x5C, CHR ''n'']
      else if n = 0x0D then [CHR 0x5C, CHR ''r'']
      else if n = 0x09 then [CHR 0x5C, CHR ''t'']
      else if n < 32 \<or> n = 127 then [CHR 0x5C, CHR ''x'', hex (n div 16), hex (n mod 16)]
      else [c])"

definition py_repr_str :: "string \<Rightarrow> string" where
  "py_repr_str s =
     (let q = (if CHR 0x27 \<in> set s \<and> CHR 0x22 \<notin> set s then CHR 0x22 else CHR 0x27) in
      q # concat (map (repr_char q) s) @ [q])"

fun py_repr :: "json \<Rightarrow> string" and py_repr_item :: "string \<times> json \<Rightarrow> string" where
  "py_repr JNull = ''None''"
| "py_repr (JBool b) = (if b then ''True'' else ''False'')"
| "py_repr (JInt i) = str_int i"
| "py_repr (JStr s) = py_repr_str s"
| "py_repr (JList xs) = ''['' @ py_join '', '' (map py_repr xs) @ '']''"
| "py_repr (JObj m) = ''{'' @ py_join '', '' (map py_repr_item m) @ ''}''"
| "py_repr_item (k, v) = py_repr_str k @ '': '' @ py_repr v"

definition py_format :: "json \<Rightarrow> string" where
  "py_format v = (case v of JStr s \<Rightarrow> s | _ \<Rightarrow> py_repr v)"

definition in_value :: "char \<Rightarrow> json \<Rightarrow> exn + bool" where
  "in_value ch v =
     (case v of
        JStr s \<Rightarrow> Inr (ch \<in> set s)
      | JList xs \<Rightarrow> Inr (JStr [ch] \<in> set xs)
      | JObj m \<Rightarrow> Inr ([ch] \<in> fst ` set m)
      | _ \<Rightarrow> raises TypeError ''argument is not iterable'')"

definition assert_safe_rdn :: "string \<Rightarrow> json \<Rightarrow> exn + string" where
  "assert_safe_rdn field v =
     (case in_value CHR ''/'' v of
        Inl e \<Rightarrow> Inl e
      | Inr a \<Rightarrow>
          (case (if a then Inr True else in_value CHR ''='' v) of
             Inl e \<Rightarrow> Inl e
           | Inr b \<Rightarrow>
               if b
               then raises ValidationAppError (''Invalid character in certificate subject field '' @ [CHR 0x27] @ field @ [CHR 0x27])
               else Inr (py_format v)))"

definition rdn_value :: "dict \<Rightarrow> dict \<Rightarrow> string \<Rightarrow> string \<Rightarrow> json" where
  "rdn_value config extra key dflt =
     (let x = or_default (map_of extra key) JNull in
      if json_truthy x then x else or_default (map_of config key) (JStr dflt))"

definition rdn :: "dict \<Rightarrow> dict \<Rightarrow> string \<Rightarrow> string \<Rightarrow> exn + string" where
  "rdn config extra key dflt = assert_safe_rdn key (rdn_value config extra key dflt)"

definition common_name :: "issue_request \<Rightarrow> exn + string" where
  "common_name q = (case q_domains q of [] \<Rightarrow> raises IndexError ''list index out of range'' | d # _ \<Rightarrow> Inr d)"

definition subject_string :: "dict \<Rightarrow> issue_request \<Rightarrow> exn + string" where
  "subject_string config q =
     (case rdn config (q_extra q) ''country'' ''US'' of Inl e \<Rightarrow> Inl e | Inr c \<Rightarrow>
     (case rdn config (q_extra q) ''state'' '''' of Inl e \<Rightarrow> Inl e | Inr st \<Rightarrow>
     (case rdn config (q_extra q) ''locality'' '''' of Inl e \<Rightarrow> Inl e | Inr loc \<Rightarrow>
     (case rdn config (q_extra q) ''org'' ''Internal CA'' of Inl e \<Rightarrow> Inl e | Inr o' \<Rightarrow>
     (case rdn config (q_extra q) ''org_unit'' ''IT'' of Inl e \<Rightarrow> Inl e | Inr ou \<Rightarrow>
     (case common_name q of Inl e \<Rightarrow> Inl e | Inr d \<Rightarrow>
     (case assert_safe_rdn ''common_name'' (JStr d) of Inl e \<Rightarrow> Inl e | Inr cn \<Rightarrow>
        Inr (''/C='' @ c @ ''/ST='' @ st @ ''/L='' @ loc @ ''/O='' @ o' @ ''/OU='' @ ou @ ''/CN='' @ cn))))))))"

definition san_list :: "issue_request \<Rightarrow> string" where
  "san_list q = py_join '','' (map (\<lambda>d. ''DNS:'' @ d) (q_domains q))"

definition ext_file_path :: "exec_env \<Rightarrow> string" where
  "ext_file_path xe = ''/tmp/certmgr-'' @ xe_token xe @ ''.ext''"

definition ext_file :: "string \<Rightarrow> string" where
  "ext_file sans = ''subjectAltName='' @ sans @ [CHR 0x0A] @ ''basicConstraints=CA:FALSE'' @ [CHR 0x0A] @
     ''keyUsage=digitalSignature,keyEncipherment'' @ [CHR 0x0A] @ ''extendedKeyUsage=serverAuth'' @ [CHR 0x0A]"

definition genkey_argv :: "string \<Rightarrow> string \<Rightarrow> string \<Rightarrow> string list" where
  "genkey_argv openssl key_type key_path =
     (if key_type \<in> {KeyType_value KeyType.ECDSA_P256, KeyType_value KeyType.ECDSA_P384} then
        [openssl, ''ecparam'', ''-name'', if key_type = KeyType_value KeyType.ECDSA_P256 then ''prime256v1'' else ''secp384r1'',
         ''-genkey'', ''-noout'', ''-out'', key_path]
      else [openssl, ''genrsa'', ''-out'', key_path, if key_type = KeyType_value KeyType.RSA_4096 then ''4096'' else ''2048''])"

definition fs_get :: "string \<Rightarrow> string fop" where
  "fs_get p = bnd (gets (\<lambda>fs. fs p)) (\<lambda>c. case c of None \<Rightarrow> fail OSError (''No such file: '' @ p) | Some x \<Rightarrow> ret x)"

text \<open>A step of \<open>issue\<close>: a failed command ends it with a result.\<close>

definition and_then :: "(int \<times> string \<times> string) option fop \<Rightarrow> issue_result fop \<Rightarrow> issue_result fop" where
  "and_then m next = bnd m (\<lambda>r. case r of
     None \<Rightarrow> next
   | Some (code, err, msg) \<Rightarrow> ret ((no_issue msg)\<lparr>ir_exit_code := Some code, ir_stderr := err\<rparr>))"

definition sign_argv :: "string \<Rightarrow> string \<Rightarrow> string \<Rightarrow> string \<Rightarrow> int \<Rightarrow> string \<Rightarrow> string \<Rightarrow> string list" where
  "sign_argv openssl csr ca_cert ca_key days cert ext =
     [openssl, ''x509'', ''-req'', ''-in'', csr, ''-CA'', ca_cert, ''-CAkey'', ca_key, ''-CAcreateserial'', ''-days'', str_int days,
      ''-out'', cert, ''-extfile'', ext]"

definition openssl_issue :: "settings \<Rightarrow> exec_env \<Rightarrow> dict \<Rightarrow> issue_request \<Rightarrow> issue_result fop" where
  "openssl_issue s xe config q =
     (let openssl = or_default (extra_str config ''openssl_binary'') ''openssl'';
          ca_key = extra_str config ''ca_key_path''; ca_cert = extra_str config ''ca_cert_path'' in
      if \<not> truthy ca_key \<or> \<not> truthy ca_cert then ret (no_issue ''OpenSSL CA not configured (ca_key_path/ca_cert_path)'')
      else
        bnd (lift_exn (common_name q)) (\<lambda>cn.
        let dir = str_or (extra_str config ''default_cert_dir'') (storage_root s) @ ''/internal/'' @ slug cn;
            key = dir @ ''/privkey.pem''; csr = dir @ ''/request.csr''; cert = dir @ ''/cert.pem'';
            fullchain = dir @ ''/fullchain.pem'';
            days = (if id_truthy (extra_int (q_extra q) ''validity_days'') then or_default (extra_int (q_extra q) ''validity_days'') 0
                    else or_default (extra_int config ''validity_days'') 825) in
        and_then (openssl_run s xe (genkey_argv openssl (q_key_type q) key)) (
        bnd (lift_exn (subject_string config q)) (\<lambda>subj.
        and_then (openssl_run s xe [openssl, ''req'', ''-new'', ''-key'', key, ''-out'', csr, ''-subj'', subj,
            ''-addext'', ''subjectAltName='' @ san_list q, ''-addext'', ''keyUsage=digitalSignature,keyEncipherment'',
            ''-addext'', ''extendedKeyUsage=serverAuth'']) (
        bnd (modify (\<lambda>fs. fs(ext_file_path xe \<mapsto> ext_file (san_list q)))) (\<lambda>_.
        and_then (\<lambda>fs. case openssl_run s xe (sign_argv openssl csr (str_or ca_cert []) (str_or ca_key []) days cert (ext_file_path xe)) fs
            of (r, fs') \<Rightarrow> (r, fs'(ext_file_path xe := None))) (
        bnd (fs_get cert) (\<lambda>leaf.
        bnd (fs_get (str_or ca_cert [])) (\<lambda>ca.
        bnd (modify (\<lambda>fs. fs(fullchain \<mapsto> leaf @ ca))) (\<lambda>_.
        ret \<lparr>ir_success = True, ir_cert_path = Some cert, ir_key_path = Some key, ir_chain_path = ca_cert,
             ir_fullchain_path = Some fullchain, ir_cert_name = Some (slug cn), ir_exit_code = Some 0, ir_stdout = [],
             ir_stderr = [], ir_duration_ms = 0, ir_error = None\<rparr>))))))))))"

definition openssl_renew :: "string \<Rightarrow> bool \<Rightarrow> bool \<Rightarrow> renew_result fop" where
  "openssl_renew cert_name force staging =
     ret (no_renew ''Internal CA certificates are re-issued, not renewed; use issue'')"

text \<open>\<^verbatim>\<open>Path(p).with_suffix(".pem.revoked")\<close>; the empty path has no name.\<close>

definition with_suffix :: "string \<Rightarrow> string \<Rightarrow> string" where
  "with_suffix path suffix =
     (let name = last (split_on CHR ''/'' path); dir = take (length path - length name) path in
      case py_rpartition CHR ''.'' name of
        None \<Rightarrow> path @ suffix
      | Some (stem, ext) \<Rightarrow> if stem = [] \<or> ext = [] then path @ suffix else dir @ stem @ suffix)"

definition openssl_revoke :: "string \<Rightarrow> string \<Rightarrow> revoke_result fop" where
  "openssl_revoke cert_path reason =
     (if cert_path = [] then fail ValueError ''has an empty name''
      else bnd (modify (\<lambda>fs. case fs cert_path of
                 None \<Rightarrow> fs
               | Some x \<Rightarrow> (fs(cert_path := None))(with_suffix cert_path ''.pem.revoked'' \<mapsto> x))) (\<lambda>_.
           ret \<lparr>vr_success = True, vr_stdout = ''Certificate revoked (moved to .revoked)'', vr_stderr = [],
                vr_exit_code = None, vr_error = None\<rparr>))"

definition openssl_validate_config :: "fs \<Rightarrow> dict \<Rightarrow> string list" where
  "openssl_validate_config fs config =
     (let problems = map (\<lambda>k. k @ '' is required for the OpenSSL CA provider'')
            (filter (\<lambda>k. \<not> truthy (extra_str config k)) [''ca_key_path'', ''ca_cert_path'', ''openssl_binary'']) in
      if problems \<noteq> [] then problems
      else map (\<lambda>p. ''Path does not exist: '' @ p)
             (filter (\<lambda>p. fs p = None) [str_or (extra_str config ''ca_key_path'') [], str_or (extra_str config ''ca_cert_path'') []]))"

text \<open>\<open>verify\<close> of both providers.  \<open>sans_of\<close> reads the alternative names of a PEM certificate
  (\<open>None\<close>: the extension is absent); \<open>cert_path\<close> may be null, which \<^verbatim>\<open>open\<close> refuses.\<close>

definition read_sans :: "(string \<Rightarrow> exn + string list option) \<Rightarrow> fs \<Rightarrow> string option \<Rightarrow> exn + string list option" where
  "read_sans sans_of fs path =
     (case path of
        None \<Rightarrow> raises TypeError ''expected str, bytes or os.PathLike object, not NoneType''
      | Some p \<Rightarrow> (case fs p of None \<Rightarrow> raises OSError (''No such file or directory: '' @ p) | Some pem \<Rightarrow> sans_of pem))"

definition missing_sans :: "string list \<Rightarrow> string list \<Rightarrow> string list" where
  "missing_sans sans domains = filter (\<lambda>d. lstrip_by (\<lambda>c. c = CHR ''*'' \<or> c = CHR ''.'') d \<notin> set sans) domains"

definition letsencrypt_verify ::
    "(string \<Rightarrow> exn + string list option) \<Rightarrow> fs \<Rightarrow> string option \<Rightarrow> string list \<Rightarrow> bool \<times> string" where
  "letsencrypt_verify sans_of fs cert_path domains =
     (case read_sans sans_of fs cert_path of
        Inl e \<Rightarrow> (False, ''Cannot parse certificate: '' @ exc_msg e)
      | Inr so \<Rightarrow>
          let missing = missing_sans (or_default so []) domains in
          if missing \<noteq> [] then (False, ''Certificate does not cover: '' @ quoted_list missing)
          else (True, ''Certificate covers all requested domains''))"

definition openssl_verify ::
    "(string \<Rightarrow> exn + string list option) \<Rightarrow> fs \<Rightarrow> string option \<Rightarrow> string list \<Rightarrow> bool \<times> string" where
  "openssl_verify sans_of fs cert_path domains =
     (case read_sans sans_of fs cert_path of
        Inl e \<Rightarrow> (False, exc_msg e)
      | Inr None \<Rightarrow> (False, ''No SubjectAlternativeName extension was found'')
      | Inr (Some sans) \<Rightarrow>
          let missing = missing_sans sans domains in
          if missing = [] then (True, ''OK'') else (False, ''Missing SANs: '' @ quoted_list missing))"

section \<open>Registry\<close>

definition letsencrypt_provider :: "settings \<Rightarrow> crypto \<Rightarrow> exec_env \<Rightarrow> dict \<Rightarrow> provider" where
  "letsencrypt_provider s k xe config = (let own = extra_int config ''timeout_seconds'' in \<lparr>
     pv_issue = letsencrypt_issue s k xe own, pv_renew = letsencrypt_renew s xe own,
     pv_revoke = letsencrypt_revoke s xe own\<rparr>)"

definition openssl_provider :: "settings \<Rightarrow> exec_env \<Rightarrow> dict \<Rightarrow> provider" where
  "openssl_provider s xe config = \<lparr>pv_issue = openssl_issue s xe config, pv_renew = openssl_renew, pv_revoke = openssl_revoke\<rparr>"

text \<open>\<open>create\<close>, on the configuration text; one that cannot be read or parsed leaves the configuration empty.\<close>

definition registry ::
    "settings \<Rightarrow> crypto \<Rightarrow> exec_env \<Rightarrow> (string \<Rightarrow> dict option) \<Rightarrow> (string \<Rightarrow> (dict \<Rightarrow> provider) option)
      \<Rightarrow> string \<Rightarrow> string option \<Rightarrow> provider option" where
  "registry s k xe loads plugins key text =
     (let config = (case text of None \<Rightarrow> [] | Some t \<Rightarrow> or_default (loads t) []) in
      case plugins key of
        Some cls \<Rightarrow> Some (cls config)
      | None \<Rightarrow>
          if key = ''letsencrypt'' then Some (letsencrypt_provider s k xe config)
          else if key = ''openssl-ca'' then Some (openssl_provider s xe config) else None)"

end
