(* ===== verification/Verification.thy ===== *)
theory Verification
  imports Providers Discovery_Files
begin

text \<open>
  Verification of stored certificates, \<open>app/services/verification.py\<close>, and the periodic tasks that
  the broker's timetable starts: \<open>app/tasks/maintenance.py\<close> and \<open>app/tasks/discovery.py\<close>.
\<close>

section \<open>Verification\<close>

definition strip_wildcard :: "string \<Rightarrow> string" where
  "strip_wildcard = lstrip_by (\<lambda>c. c = CHR ''*'' \<or> c = CHR ''.'')"

definition verify_local :: "x509 \<Rightarrow> datetime \<Rightarrow> fs \<Rightarrow> string option \<Rightarrow> string list \<Rightarrow> bool \<times> string" where
  "verify_local x5 now fs cert_path domains =
     (case (if truthy cert_path then fs (str_or cert_path []) else None) of
        None \<Rightarrow> (False, ''Certificate file missing'')
      | Some pem \<Rightarrow>
          (case parse_certificate x5 pem of
             Inl e \<Rightarrow> (False, ''Cannot parse certificate: '' @ exc_msg e)
           | Inr m \<Rightarrow>
               let sans = map strip_wildcard (m_sans m);
                   missing = filter (\<lambda>d. strip_wildcard d \<notin> set sans) domains in
               if missing \<noteq> [] then (False, ''Certificate does not cover: '' @ quoted_list missing)
               else if m_valid_from m > now then (False, ''Certificate is not yet valid'')
               else if m_valid_until m < now then (False, ''Certificate is expired'')
               else (True, ''Certificate covers all domains and is within its validity window'')))"

text \<open>The verifier of a provider, \<open>None\<close> for an unknown one (\<open>KeyError\<close>).  Verifiers of plug-ins are
  a parameter and may raise.\<close>

type_synonym verifier = "fs \<Rightarrow> string option \<Rightarrow> string list \<Rightarrow> exn + (bool \<times> string)"

definition provider_verifier ::
    "(string \<Rightarrow> exn + string list option) \<Rightarrow> (string \<Rightarrow> verifier option) \<Rightarrow> string \<Rightarrow> verifier option" where
  "provider_verifier sans_of plugins key =
     (case plugins key of
        Some v \<Rightarrow> Some v
      | None \<Rightarrow>
          if key = ''letsencrypt'' then Some (\<lambda>fs p ds. Inr (letsencrypt_verify sans_of fs p ds))
          else if key = ''openssl-ca'' then Some (\<lambda>fs p ds. Inr (openssl_verify sans_of fs p ds)) else None)"

definition verify_domains :: "certificate \<Rightarrow> string list" where
  "verify_domains c = c_domain c # filter (\<lambda>d. d \<noteq> c_domain c) (c_sans c)"

record verify_response =
  vy_certificate_id :: int
  vy_ok :: bool
  vy_message :: string
  vy_domains :: "string list"

definition verify_certificate ::
    "x509 \<Rightarrow> (string \<Rightarrow> verifier option) \<Rightarrow> datetime \<Rightarrow> int \<Rightarrow> verify_response wop" where
  "verify_certificate x5 vs now i =
     bnd (get_certificate i) (\<lambda>c.
     bnd (gets files) (\<lambda>fs.
     let ds = verify_domains c; local = verify_local x5 now fs (c_cert_path c) ds in
     bnd (case vs (c_provider_name c) of
            None \<Rightarrow> ret local
          | Some v \<Rightarrow> (case v fs (c_cert_path c) ds of
                         Inr r \<Rightarrow> ret r
                       | Inl e \<Rightarrow> if exc_of e = KeyError then ret local else throw e)) (\<lambda>(ok, message).
     ret \<lparr>vy_certificate_id = i, vy_ok = ok, vy_message = message, vy_domains = ds\<rparr>)))"

section \<open>Maintenance tasks\<close>

definition verifies :: "(string \<Rightarrow> verifier option) \<Rightarrow> fs \<Rightarrow> certificate \<Rightarrow> bool" where
  "verifies vs fs c =
     (case vs (c_provider_name c) of
        None \<Rightarrow> False
      | Some v \<Rightarrow> (case v fs (c_cert_path c) (verify_domains c) of Inl _ \<Rightarrow> False | Inr (ok, _) \<Rightarrow> ok))"

definition weekly_verification :: "(string \<Rightarrow> verifier option) \<Rightarrow> datetime \<Rightarrow> (nat \<times> nat) wop" where
  "weekly_verification vs now =
     bnd (db_get (\<lambda>d. map rval (tbl_sel (\<lambda>w. c_status (rval w) = CertificateStatus.ACTIVE) (certificates d)))) (\<lambda>cs.
     bnd (gets files) (\<lambda>fs.
     let verified = length (filter (verifies vs fs) cs); failed = length cs - verified in
     bnd (add_job now ((new_job JobType.VERIFY None JobTrigger.SCHEDULER JobStatus.SUCCESS now None)\<lparr>
            j_finished_at := Some now,
            j_stdout := Some (''verified='' @ str_int (int verified) @ '' failed='' @ str_int (int failed))\<rparr>)) (\<lambda>_.
     bnd commit (\<lambda>_. ret (verified, failed)))))"

definition health_scan_task :: "(string \<Rightarrow> tls_probe) \<Rightarrow> datetime \<Rightarrow> health_counts wop" where
  "health_scan_task probe now = db_task now (scan_all probe now None)"

definition compliance_report_task :: "(nat \<Rightarrow> nat \<Rightarrow> json) \<Rightarrow> datetime \<Rightarrow> compliance_report wop" where
  "compliance_report_task rate now = db_task now (run_compliance_report rate now None True)"

definition weekly_verification_task :: "(string \<Rightarrow> verifier option) \<Rightarrow> datetime \<Rightarrow> (nat \<times> nat) wop" where
  "weekly_verification_task vs now = db_task now (weekly_verification vs now)"

definition apply_retention_task :: "settings \<Rightarrow> datetime \<Rightarrow> retention_result wop" where
  "apply_retention_task s now = db_task now (apply_retention s now None None None False)"

section \<open>Discovery tasks\<close>

definition configured_list :: "crypto \<Rightarrow> string \<Rightarrow> db \<Rightarrow> exn + string list" where
  "configured_list k key d =
     (case get_setting k key d of
        Inl e \<Rightarrow> Inl e
      | Inr v \<Rightarrow> Inr (filter (\<lambda>t. t \<noteq> []) (map py_strip (split_on CHR '','' (str_or v [])))))"

text \<open>What the scan tasks return: nothing when no target is configured, else the run and its counts.\<close>

type_synonym scan_summary = "(int \<times> int \<times> int) option"

definition summary_of :: "int \<Rightarrow> db \<Rightarrow> scan_summary" where
  "summary_of r d = map_option (\<lambda>x. (r, dr_found_count x, dr_imported_count x)) (tbl_get r (discovery_runs d))"

definition run_discovery_task ::
    "ctx \<Rightarrow> fs_env \<Rightarrow> (string \<Rightarrow> string list option) \<Rightarrow> datetime \<Rightarrow> string list \<Rightarrow> int option \<Rightarrow> scan_summary wop" where
  "run_discovery_task cx fe listing now extra_paths created_by =
     db_task now (bnd (run_discovery cx fe listing now extra_paths created_by) (\<lambda>r. db_get (summary_of r)))"

definition run_network_scan_task ::
    "ctx \<Rightarrow> scan_net \<Rightarrow> (string \<Rightarrow> bool) \<Rightarrow> datetime \<Rightarrow> string list \<Rightarrow> int list option \<Rightarrow> int option \<Rightarrow> bool
      \<Rightarrow> int option \<Rightarrow> scan_summary wop" where
  "run_network_scan_task cx net float_ok now targets ports concurrency has_timeout created_by =
     db_task now (bnd (run_network_scan cx net float_ok now targets ports concurrency has_timeout created_by) (\<lambda>r.
       db_get (summary_of r)))"

definition run_scheduled_network_scan :: "ctx \<Rightarrow> scan_net \<Rightarrow> (string \<Rightarrow> bool) \<Rightarrow> datetime \<Rightarrow> scan_summary wop" where
  "run_scheduled_network_scan cx net float_ok now =
     db_task now (
     bnd (db_get (configured_list (cx_kc cx) ''tls_scan.scheduled_targets'')) (\<lambda>c.
     bnd (lift_exn c) (\<lambda>targets.
     if targets = [] then ret None
     else bnd (run_network_scan cx net float_ok now targets None None False None) (\<lambda>r. db_get (summary_of r)))))"

definition run_ct_monitor_task :: "ctx \<Rightarrow> scan_net \<Rightarrow> datetime \<Rightarrow> string list \<Rightarrow> int option \<Rightarrow> scan_summary wop" where
  "run_ct_monitor_task cx net now domains created_by =
     db_task now (bnd (run_ct_monitor cx net now domains None None None None created_by) (\<lambda>r. db_get (summary_of r)))"

definition run_scheduled_ct_monitor :: "ctx \<Rightarrow> scan_net \<Rightarrow> datetime \<Rightarrow> scan_summary wop" where
  "run_scheduled_ct_monitor cx net now =
     db_task now (
     bnd (db_get (configured_list (cx_kc cx) ''ct_monitoring.domains'')) (\<lambda>c.
     bnd (lift_exn c) (\<lambda>domains.
     if domains = [] then ret None
     else bnd (run_ct_monitor cx net now domains None None None None None) (\<lambda>r. db_get (summary_of r)))))"

end
