(* ===== verification/Provider_Proofs.thy ===== *)
theory Provider_Proofs
  imports Verification
begin

text \<open>
  Facts about commands and providers: which processes the command runner can start, what a successful
  issuance means, that staged keys and extension files do not outlive a call, that a subject cannot
  smuggle in a component, and which certificates verification can never accept.
\<close>

section \<open>Confinement\<close>

text \<open>A process as \<open>run_command\<close> builds it: no argument has a shell metacharacter and no variable with a
  secret's name is set unless the caller passed it.\<close>

definition clean_proc :: "environment_vars \<Rightarrow> proc \<Rightarrow> bool" where
  "clean_proc env p \<longleftrightarrow>
     (\<forall>a \<in> set (tl (px_argv p)). set a \<inter> set FORBIDDEN_METACHARS = {}) \<and>
     (\<forall>k. sensitive_name k \<longrightarrow> k \<in> fst ` set (px_env p) \<longrightarrow> k \<in> fst ` set env)"

text \<open>The same system, except that a process that is not clean does \<open>g\<close>.\<close>

definition confine :: "environment_vars \<Rightarrow> (proc \<Rightarrow> fs \<Rightarrow> run_outcome \<times> fs) \<Rightarrow> exec_env \<Rightarrow> exec_env" where
  "confine env g xe = xe\<lparr>xe_run := (\<lambda>p fs. if clean_proc env p then xe_run xe p fs else g p fs)\<rparr>"

lemma confine_simps [simp]:
  "xe_which (confine env g xe) = xe_which xe" "xe_environ (confine env g xe) = xe_environ xe"
  "xe_executable (confine env g xe) = xe_executable xe" "xe_writable (confine env g xe) = xe_writable xe" "xe_duration_ms (confine env g xe) = xe_duration_ms xe"
  "xe_home (confine env g xe) = xe_home xe" "xe_token (confine env g xe) = xe_token xe"
  by (simp_all add: confine_def)

lemma safe_arguments:
  "assert_safe_arguments as = Inr bs \<Longrightarrow> bs = as \<and> (\<forall>a \<in> set as. set a \<inter> set FORBIDDEN_METACHARS = {})"
proof (induction as arbitrary: bs)
  case (Cons a as)
  then show ?case
    by (auto simp: assert_safe_argument_def list_ex_iff split: sum.splits if_splits)
qed simp

lemma unsafe_argument:
  "a \<in> set as \<Longrightarrow> c \<in> set a \<Longrightarrow> c \<in> set FORBIDDEN_METACHARS \<Longrightarrow>
   assert_safe_arguments as = Inl (Exn ValidationAppError ''Argument contains forbidden shell characters'' None)"
  by (induction as) (auto simp: assert_safe_argument_def list_ex_iff split: sum.splits)

lemma names_dict_update: "set (map fst (Permissions.dict_update xs ys)) = set (map fst xs) \<union> set (map fst ys)"
  by (induction ys arbitrary: xs) (auto simp: Permissions.dict_update_def keys_dict_set simp del: set_map split: if_splits)

lemmas keys_dict_update = names_dict_update [unfolded set_map]

lemma scrubbed_env:
  "sensitive_name k \<Longrightarrow> k \<in> fst ` set (build_scrubbed_env xe env) \<Longrightarrow> k \<in> fst ` set (or_default env [])"
  by (auto simp: build_scrubbed_env_def keys_dict_update)

lemma run_proc_confine [simp]:
  "clean_proc env p \<Longrightarrow> run_proc (confine env g xe) p = run_proc xe p"
  by (simp add: run_proc_def confine_def fun_eq_iff)

lemma build_scrubbed_confine [simp]: "build_scrubbed_env (confine env g xe) = build_scrubbed_env xe"
  by (simp add: build_scrubbed_env_def fun_eq_iff)

lemma run_command_confine:
  assumes "fst ` set (or_default e []) \<subseteq> fst ` set env"
  shows "run_command (confine env g xe) argv e user cwd timeout = run_command xe argv e user cwd timeout"
proof -
  have "clean_proc env \<lparr>px_argv = b # safe, px_env = build_scrubbed_env xe e, px_user = user, px_cwd = cwd, px_timeout = timeout\<rparr>"
    if "assert_safe_arguments as = Inr safe" for b as safe
    using safe_arguments [OF that] scrubbed_env [of _ xe e] assms by (auto simp: clean_proc_def)
  then show ?thesis
    by (auto simp: run_command_def fun_eq_iff bnd_def lift_exn_def split: list.splits option.splits sum.splits prod.splits)
qed

lemma certbot_execute_confine:
  "fst ` set (or_default e []) \<subseteq> fst ` set env \<Longrightarrow>
   certbot_execute s (confine env g xe) own argv e user cwd t = certbot_execute s xe own argv e user cwd t"
  by (simp add: certbot_execute_def run_command_confine)

lemma build_issue_confine: "build_issue_command s (confine env g xe) req = build_issue_command s xe req"
  by (simp add: build_issue_command_def hook_args_def hook_arg_def assert_safe_script_path_def)

lemma certbot_issue_confine:
  "fst ` set (build_certbot_env req) \<subseteq> fst ` set env \<Longrightarrow> certbot_issue s (confine env g xe) own req = certbot_issue s xe own req"
  by (simp add: certbot_issue_def build_issue_confine certbot_execute_confine or_default_def)

lemma paths_confine:
  "expanduser (confine env g xe) = expanduser xe" "include_dir s (confine env g xe) = include_dir s xe"
  "includes_dir (confine env g xe) = includes_dir xe" "ssh_config_path s (confine env g xe) = ssh_config_path s xe"
proof -
  show e: "expanduser (confine env g xe) = expanduser xe" by (simp add: expanduser_def fun_eq_iff)
  then show i: "include_dir s (confine env g xe) = include_dir s xe" by (simp add: include_dir_def)
  show "includes_dir (confine env g xe) = includes_dir xe" by (simp add: fun_eq_iff includes_dir_def e)
  show "ssh_config_path s (confine env g xe) = ssh_config_path s xe" by (simp add: ssh_config_path_def i)
qed

lemma identity_confine:
  "ssh_config_include_ready s (confine env g xe) = ssh_config_include_ready s xe"
  "staged_key_path s (confine env g xe) = staged_key_path s xe"
  "staged_config_path s (confine env g xe) = staged_config_path s xe"
  "host_stanza s (confine env g xe) = host_stanza s xe" "write_text (confine env g xe) = write_text xe"
  unfolding fun_eq_iff ssh_config_include_ready_def staged_key_path_def staged_config_path_def host_stanza_def write_text_def
    paths_confine
  by simp_all

lemma with_identity_confine: "with_identity s (confine env g xe) key host body = with_identity s xe key host body"
  by (simp add: with_identity_def identity_confine paths_confine cong: if_cong)

text \<open>C10: Let's Encrypt's provider only ever starts clean processes: whatever a process with a shell
  metacharacter in an argument, or with a secret of the platform in its environment, would do, no issue,
  renew or revoke call can observe it.  Only the variables of the request's hook are passed on, with the
  fixed search path.\<close>

theorem letsencrypt_confined:
  "letsencrypt_issue s k (confine (build_certbot_env (certbot_request_of s q)) g xe) own q = letsencrypt_issue s k xe own q \<and>
   letsencrypt_renew s (confine [] g xe) own cert_name force staging = letsencrypt_renew s xe own cert_name force staging \<and>
   letsencrypt_revoke s (confine [] g xe) own cert_path reason = letsencrypt_revoke s xe own cert_path reason"
  by (simp add: letsencrypt_issue_def letsencrypt_renew_def letsencrypt_revoke_def certbot_issue_confine
      with_identity_confine certbot_execute_confine or_default_def Let_def)

section \<open>Issuance through certbot\<close>

lemma star_char: "lower_char CHR ''*'' = CHR ''*''" "\<not> py_isspace CHR ''*''"
  by (simp_all add: lower_char_def py_isspace_def)

lemma dropWhile_keeps: "c \<in> set xs \<Longrightarrow> \<not> P c \<Longrightarrow> c \<in> set (dropWhile P xs)"
  by (induction xs) auto

lemma star_strip:
  assumes "CHR ''*'' \<in> set d"
  shows "CHR ''*'' \<in> set (py_lower (py_strip d))"
proof -
  have "CHR ''*'' \<in> set (py_strip d)"
    unfolding py_strip_def strip_by_def lstrip_by_def rstrip_by_def set_rev
    using assms star_char(2) by (intro dropWhile_keeps) (simp_all add: dropWhile_keeps)
  then have "lower_char CHR ''*'' \<in> set (py_lower (py_strip d))" unfolding py_lower_def set_map by (rule imageI)
  then show ?thesis by (simp only: star_char)
qed

lemma validate_domain_star: "validate_domain b d = Inr v \<Longrightarrow> CHR ''*'' \<in> set d \<Longrightarrow> CHR ''*'' \<in> set v"
  using star_strip [of d] by (auto simp: validate_domain_def Let_def split: if_splits)

lemma loop_keeps_out: "domain_list_loop f out ds = Inr vs \<Longrightarrow> set out \<subseteq> set vs"
  by (induction f out ds rule: domain_list_loop.induct) (auto split: sum.splits if_splits)

lemma loop_maps: "domain_list_loop f out ds = Inr vs \<Longrightarrow> d \<in> set ds \<Longrightarrow> \<exists>v \<in> set vs. f d = Inr v"
proof (induction f out ds rule: domain_list_loop.induct)
  case (2 f out x ds)
  then obtain n where n: "f x = Inr n" "n \<notin> set out" "domain_list_loop f (out @ [n]) ds = Inr vs"
    by (auto split: sum.splits if_splits)
  then show ?case using 2 loop_keeps_out [OF n(3)] by auto
qed simp

lemma validate_list_star:
  "validate_domain_list b ds = Inr vs \<Longrightarrow> d \<in> set ds \<Longrightarrow> CHR ''*'' \<in> set d \<Longrightarrow> \<exists>v \<in> set vs. CHR ''*'' \<in> set v"
  unfolding validate_domain_list_def using loop_maps validate_domain_star by blast

lemma set_py_join: "x \<in> set xs \<Longrightarrow> set x \<subseteq> set (py_join sep xs)"
  by (induction sep xs rule: py_join.induct) auto

text \<open>A wildcard in the domains is an argument with a forbidden character.\<close>

lemma wp_any: "(\<And>x t. Q x t) \<Longrightarrow> wp m Q (\<lambda>_ _. True) t"
  by (simp add: wp_def split: prod.splits sum.splits)

lemma issue_command_star:
  assumes "d \<in> set (cb_domains req)" "CHR ''*'' \<in> set d"
  shows "wp (build_issue_command s xe req) (\<lambda>argv _. \<exists>a \<in> set (tl argv). CHR ''*'' \<in> set a) (\<lambda>_ _. True) fs"
proof (cases "validate_domain_list True (cb_domains req)")
  case (Inr vs)
  then have "CHR ''*'' \<in> set (py_join '','' vs)"
    using validate_list_star [OF Inr assms] set_py_join by fastforce
  then show ?thesis
    unfolding build_issue_command_def wp_bnd wp_lift Inr
    by (cases "validation_args req") (simp_all add: wp_prim wp_any)
next
  case (Inl e)
  then show ?thesis unfolding build_issue_command_def wp_bnd wp_lift by simp
qed

lemma run_command_star:
  assumes "a \<in> set (tl argv)" "CHR ''*'' \<in> set a"
  shows "\<exists>e. run_command xe argv env user cwd t fs = (Inl e, fs)"
  using assms unsafe_argument [OF assms]
  by (cases argv) (auto simp: run_command_def op_simps FORBIDDEN_METACHARS_def split: option.splits)

lemma certbot_issue_star:
  assumes "d \<in> set (cb_domains req)" "CHR ''*'' \<in> set d"
  shows "wp (certbot_issue s xe own req) (\<lambda>_ _. False) (\<lambda>_ _. True) fs"
proof -
  have "wp (certbot_execute s xe own argv env user cwd t) (\<lambda>_ _. False) (\<lambda>_ _. True) fs'"
    if star: "\<exists>a \<in> set (tl argv). CHR ''*'' \<in> set a" for argv env user cwd t fs'
  proof -
    obtain a where a: "a \<in> set (tl argv)" "CHR ''*'' \<in> set a" using star by blast
    obtain e where "certbot_execute s xe own argv env user cwd t fs' = (Inl e, fs')"
      unfolding certbot_execute_def using run_command_star [OF a] by blast
    then show ?thesis by (simp add: wp_def)
  qed
  then show ?thesis
    unfolding certbot_issue_def wp_bnd by (rule wp_mono [OF issue_command_star [OF assms]]) auto
qed

lemma with_identity_cases:
  assumes "with_identity s xe key host body fs = (r, t)"
  obtains (refused) e where "r = Inl e" "t = fs"
  | (half) e where "r = Inl e" "\<not> xe_writable xe (staged_config_path s xe)"
  | (ran) fs1 fs2 where "body fs1 = (r, fs2)" "t = fs2(staged_config_path s xe := None, staged_key_path s xe := None)"
proof (cases "truthy host \<and> (\<exists>v. assert_valid_private_key_pem key = Inr v) \<and> ssh_config_include_ready s xe fs \<and>
    xe_writable xe (staged_key_path s xe)")
  case enter: True
  show ?thesis
  proof (cases "xe_writable xe (staged_config_path s xe)")
    case True
    let ?fs1 = "fs(staged_key_path s xe \<mapsto> key, staged_config_path s xe \<mapsto> host_stanza s xe host)"
    obtain r' fs2 where b: "body ?fs1 = (r', fs2)" by fastforce
    from enter True have "with_identity s xe key host body fs =
        (r', fs2(staged_config_path s xe := None, staged_key_path s xe := None))"
      unfolding with_identity_def write_text_def by (auto simp only: bnd_prim b prod.case simp_thms if_False if_True)
    with assms b show ?thesis using ran by simp
  next
    case False
    with assms enter show ?thesis using half
      unfolding with_identity_def write_text_def by (auto simp: throw_def)
  qed
next
  case False
  then show ?thesis using assms refused
    by (cases "truthy host"; cases "assert_valid_private_key_pem key"; cases "ssh_config_include_ready s xe fs")
      (auto simp: with_identity_def throw_def write_text_def)
qed

lemma certbot_run_star:
  assumes "d \<in> set (q_domains q)" "CHR ''*'' \<in> set d"
    and "certbot_issue s xe own (certbot_request_of s q) fs = (r, t)"
  shows "\<exists>e. r = Inl e"
  using certbot_issue_star [of d "certbot_request_of s q" s xe own fs] assms
  by (auto simp: certbot_request_of_def wp_def split: sum.splits)

text \<open>The command part of \<open>issue\<close>, before its result is interpreted.\<close>

definition issue_run :: "settings \<Rightarrow> crypto \<Rightarrow> exec_env \<Rightarrow> int option \<Rightarrow> issue_request \<Rightarrow> command_outcome fop" where
  "issue_run s k xe own q =
     (if truthy (q_ssh_private_key_encrypted q) then
        bnd (lift_exn (decrypt_secret k (str_or (q_ssh_private_key_encrypted q) []))) (\<lambda>key.
        with_identity s xe key (q_ssh_target_host q) (certbot_issue s xe own (certbot_request_of s q)))
      else certbot_issue s xe own (certbot_request_of s q))"

lemma letsencrypt_issue_run:
  "letsencrypt_issue s k xe own q fs =
     (case issue_run s k xe own q fs of
        (Inr out, t) \<Rightarrow> (Inr (issue_result_of s q out t), t)
      | (Inl e, t) \<Rightarrow> (if exc_of e \<in> {CertbotError, OSError, ValidationAppError, SecurityError}
                      then Inr (no_issue (exc_msg e)) else Inl e, t))"
  unfolding letsencrypt_issue_def issue_run_def Let_def
  by (simp add: bnd_def catch_op_def op_simps split: prod.splits sum.splits)

lemma issue_run_star:
  assumes d: "d \<in> set (q_domains q)" "CHR ''*'' \<in> set d" and r: "issue_run s k xe own q fs = (r, t)"
  shows "\<exists>e. r = Inl e"
proof (cases "truthy (q_ssh_private_key_encrypted q)")
  case True
  show ?thesis
  proof (cases "decrypt_secret k (str_or (q_ssh_private_key_encrypted q) [])")
    case (Inr key)
    with r True have "with_identity s xe key (q_ssh_target_host q) (certbot_issue s xe own (certbot_request_of s q)) fs = (r, t)"
      by (simp add: issue_run_def)
    then show ?thesis by (cases rule: with_identity_cases) (use certbot_run_star [OF d] in auto)
  qed (use r True in \<open>auto simp: issue_run_def throw_def\<close>)
qed (use r certbot_run_star [OF d] in \<open>auto simp: issue_run_def\<close>)

text \<open>C9: An issuance that Let's Encrypt's provider reports as successful was no dry run, named no wildcard
  domain, ended with exit code 0, and each of the four files it reports exists.  So a dry run never
  succeeds, and a wildcard certificate is never issued: its asterisk is one of the characters that the
  command runner refuses in an argument.\<close>

theorem letsencrypt_success_means:
  assumes r: "letsencrypt_issue s k xe own q fs = (Inr r, fs')" and ok: "ir_success r"
  shows "\<not> q_dry_run q \<and> (\<forall>d \<in> set (q_domains q). CHR ''*'' \<notin> set d) \<and> ir_exit_code r = Some 0 \<and>
    (\<forall>p \<in> {ir_cert_path r, ir_key_path r, ir_chain_path r, ir_fullchain_path r}. \<exists>f. p = Some f \<and> fs' f \<noteq> None)"
proof -
  obtain out where out: "issue_run s k xe own q fs = (Inr out, fs')" and res: "r = issue_result_of s q out fs'"
    using r ok by (auto simp: letsencrypt_issue_run no_issue_def split: prod.splits sum.splits if_splits)
  have "CHR ''*'' \<notin> set d" if "d \<in> set (q_domains q)" for d using issue_run_star [OF that _ out] by auto
  then show ?thesis using ok unfolding res
    by (auto simp: issue_result_of_def no_issue_def Let_def filter_empty_conv split: if_splits)
qed

text \<open>A private key that is staged for a remote hook does not outlive the call once the client
  configuration could be written: whatever the command does and however it ends, no staged key and no staged
  configuration is left.\<close>

theorem staged_key_removed:
  assumes q: "truthy (q_ssh_private_key_encrypted q)" and wr: "xe_writable xe (staged_config_path s xe)"
    and fs: "fs (staged_key_path s xe) = None" "fs (staged_config_path s xe) = None"
  shows "snd (letsencrypt_issue s k xe own q fs) (staged_key_path s xe) = None \<and>
    snd (letsencrypt_issue s k xe own q fs) (staged_config_path s xe) = None"
proof -
  let ?gone = "\<lambda>t. t (staged_key_path s xe) = None \<and> t (staged_config_path s xe) = None"
  have "?gone (snd (with_identity s xe key host body fs))" for key host and body :: "command_outcome fop"
  proof -
    obtain r t where rt: "with_identity s xe key host body fs = (r, t)" by fastforce
    then have "?gone t" by (cases rule: with_identity_cases) (use fs wr in auto)
    with rt show ?thesis by simp
  qed
  then have "?gone (snd (issue_run s k xe own q fs))"
    using q fs by (cases "decrypt_secret k (str_or (q_ssh_private_key_encrypted q) [])")
      (auto simp: issue_run_def throw_def)
  then show ?thesis by (auto simp: letsencrypt_issue_run split: prod.splits sum.splits)
qed

text \<open>When the key could be staged and the client configuration could not be written, the exception leaves
  \<^verbatim>\<open>__enter__\<close>, so \<^verbatim>\<open>__exit__\<close> never runs: the issuance is reported as failed and the decrypted private key
  stays on disk.\<close>

theorem staged_key_leaks:
  assumes q: "truthy (q_ssh_private_key_encrypted q)" "decrypt_secret k (str_or (q_ssh_private_key_encrypted q) []) = Inr key"
      "truthy (q_ssh_target_host q)" "assert_valid_private_key_pem key = Inr key" "ssh_config_include_ready s xe fs"
    and wr: "xe_writable xe (staged_key_path s xe)" "\<not> xe_writable xe (staged_config_path s xe)"
  shows "\<exists>r. letsencrypt_issue s k xe own q fs = (Inr r, fs(staged_key_path s xe \<mapsto> key)) \<and> \<not> ir_success r"
proof -
  have "issue_run s k xe own q fs =
      (Inl (Exn OSError (''Permission denied: '' @ staged_config_path s xe) None), fs(staged_key_path s xe \<mapsto> key))"
    using q wr by (simp add: issue_run_def with_identity_def write_text_def throw_def)
  then show ?thesis by (simp add: letsencrypt_issue_run no_issue_def)
qed

section \<open>Without certbot\<close>

lemma run_command_missing:
  "xe_which xe cmd = None \<Longrightarrow>
   run_command xe (cmd # args) env user cwd t fs = (Inl (Exn CommandError (''Executable not found: '' @ cmd) None), fs)"
  by (simp add: run_command_def throw_def)

lemma letsencrypt_renew_missing:
  "xe_which xe (certbot_binary s) = None \<Longrightarrow>
   letsencrypt_renew s xe own cert_name force staging fs =
     (Inl (Exn CommandError (''Executable not found: '' @ certbot_binary s) None), fs)"
  by (simp add: letsencrypt_renew_def certbot_execute_def build_renew_command_def run_command_missing catch_op_def
      bnd_def throw_def)

lemma provider_for_letsencrypt:
  assumes "c_provider_name c = ''letsencrypt''" "cx_registry cx = registry s k xe loads plugins" "plugins ''letsencrypt'' = None"
  shows "wp (provider_for cx c) (\<lambda>pv _. \<exists>config. pv = letsencrypt_provider s k xe config) (\<lambda>_ _. False) w"
  using assms by (auto simp: provider_for_def wp_simps registry_def Let_def simp del: bnd_db)

lemma renew_missing_wp:
  assumes c: "tbl_get i (certificates (work w)) = Some c" "renewable c" "c_provider_name c = ''letsencrypt''"
    and reg: "cx_registry cx = registry s k xe loads plugins" "plugins ''letsencrypt'' = None"
    and missing: "xe_which xe (certbot_binary s) = None"
  shows "wp (renew_certificate cx now el i force user tr) (\<lambda>_ _. False) (\<lambda>e _. exc_of e = CommandError) w"
proof -
  have raise: "wp (on_fs (pv_renew pv n force st)) Q (\<lambda>e _. exc_of e = CommandError) t"
    if "\<exists>config. pv = letsencrypt_provider s k xe config" for pv n st Q and t :: world
    using that letsencrypt_renew_missing [OF missing]
    by (auto simp: wp_def on_fs_def letsencrypt_provider_def Let_def)
  have run: "wp (bnd (provider_for cx c) (\<lambda>pv. bnd (on_fs (pv_renew pv n force st)) f)) (\<lambda>_ _. False)
      (\<lambda>e _. exc_of e = CommandError) t" for n st t and f :: "renew_result \<Rightarrow> int wop"
    unfolding wp_bnd by (rule wp_mono [OF provider_for_letsencrypt [OF c(3) reg]]) (auto intro: raise)
  show ?thesis using c(1,2) run
    by (auto simp: renew_certificate_def renewable_def wp_prim wp_if wp_bnd [of "get_certificate _"] wp_get_certificate
        wp_bnd [of "upd_cert _ _ _"] wp_bnd [of "add_job _ _"] wp_bnd [of commit] wp_upd wp_add_job wp_db)
qed

text \<open>C11: On a host without certbot a renewal is not recorded as failed.  The command error is none of the
  exceptions that the provider catches, so it escapes; the certificate stays RENEWING with a RUNNING
  execution, and every further renewal is refused as already in progress.\<close>

theorem renewal_without_certbot:
  assumes c: "tbl_get i (certificates (work w)) = Some c" "renewable c" "c_provider_name c = ''letsencrypt''"
    and wf: "wf_table (job_executions (work w))"
    and reg: "cx_registry cx = registry s k xe loads plugins" "plugins ''letsencrypt'' = None"
    and missing: "xe_which xe (certbot_binary s) = None"
  shows "\<exists>e w'. in_session (renew_certificate cx now el i force user tr) w = (Inl e, w') \<and> exc_of e = CommandError \<and>
    tbl_get i (certificates (committed w')) =
      Some (c\<lparr>c_renewal_status := RenewalStatus.IN_PROGRESS, c_status := CertificateStatus.RENEWING\<rparr>) \<and>
    map_option j_status (tbl_get (next_id (job_executions (work w))) (job_executions (committed w'))) = Some JobStatus.RUNNING \<and>
    fst (renew_certificate cx now2 el2 i force2 user2 tr2 w') =
      Inl (Exn ConflictError ''Renewal already in progress for this certificate'' None)"
proof -
  obtain e t where t: "renew_certificate cx now el i force user tr w = (Inl e, t)" "exc_of e = CommandError"
    using renew_missing_wp [OF c reg missing, of now el force user tr] unfolding wp_def by (auto split: prod.splits sum.splits)
  then have "in_session (renew_certificate cx now el i force user tr) w = (Inl e, t\<lparr>work := committed t\<rparr>)"
    by (simp add: in_session_def)
  then show ?thesis using t(2) renewal_blocked [OF c(1,2) wf t(1)]
    by (intro exI [of _ e] exI [of _ "t\<lparr>work := committed t\<rparr>"]) (simp add: new_job_def)
qed

section \<open>Subjects\<close>

lemma assert_safe_rdn_text:
  "assert_safe_rdn f (JStr v) = Inr r \<Longrightarrow> r = v \<and> CHR ''/'' \<notin> set v \<and> CHR ''='' \<notin> set v"
  by (auto simp: assert_safe_rdn_def in_value_def py_format_def split: if_splits)

definition is_text :: "json \<Rightarrow> bool" where
  "is_text v \<longleftrightarrow> (case v of JStr _ \<Rightarrow> True | _ \<Rightarrow> False)"

text \<open>The subject fields of a request and of a configuration are texts, or missing.\<close>

definition SUBJECT_FIELDS :: "string list" where
  "SUBJECT_FIELDS = [''country'', ''state'', ''locality'', ''org'', ''org_unit'']"

definition text_fields :: "dict \<Rightarrow> bool" where
  "text_fields m \<longleftrightarrow> list_all (\<lambda>k. is_text (or_default (map_of m k) (JStr []))) SUBJECT_FIELDS"

lemma rdn_value_text:
  assumes "text_fields config" "text_fields extra" "k \<in> set SUBJECT_FIELDS"
  shows "\<exists>s. rdn_value config extra k d = JStr s"
proof -
  have "is_text (or_default (map_of config k) (JStr []))" "is_text (or_default (map_of extra k) (JStr []))"
    using assms by (auto simp: text_fields_def list_all_iff)
  then show ?thesis
    by (cases "map_of config k"; cases "map_of extra k")
      (auto simp: rdn_value_def Let_def or_default_def is_text_def split: json.splits)
qed

lemma rdn_ok:
  assumes "text_fields config" "text_fields extra" "k \<in> set SUBJECT_FIELDS" "rdn config extra k d = Inr r"
  shows "CHR ''/'' \<notin> set r \<and> CHR ''='' \<notin> set r"
  using rdn_value_text [OF assms(1-3), of d] assms(4) assert_safe_rdn_text by (fastforce simp: rdn_def)

text \<open>C30: When the subject fields of the request and of the configuration are texts, a subject that the internal
  authority passes to openssl parses back, at its slashes, into exactly six components in their order,
  each with one equals sign, the last being the first requested domain: no field can smuggle in a
  component of its own.\<close>

theorem subject_roundtrip:
  assumes "subject_string config q = Inr subj" and fields: "text_fields config" "text_fields (q_extra q)"
  shows "\<exists>c st l o' ou. split_on CHR ''/'' subj =
      [[], ''C='' @ c, ''ST='' @ st, ''L='' @ l, ''O='' @ o', ''OU='' @ ou, ''CN='' @ hd (q_domains q)] \<and>
    (\<forall>v \<in> {c, st, l, o', ou, hd (q_domains q)}. CHR ''/'' \<notin> set v \<and> CHR ''='' \<notin> set v) \<and> q_domains q \<noteq> []"
proof -
  obtain c st l o' ou cn where
    r: "rdn config (q_extra q) ''country'' ''US'' = Inr c" "rdn config (q_extra q) ''state'' [] = Inr st"
      "rdn config (q_extra q) ''locality'' [] = Inr l" "rdn config (q_extra q) ''org'' ''Internal CA'' = Inr o'"
      "rdn config (q_extra q) ''org_unit'' ''IT'' = Inr ou" and
    d: "common_name q = Inr cn" "assert_safe_rdn ''common_name'' (JStr cn) = Inr cn" and
    s: "subj = CHR ''/'' # (''C='' @ c) @ CHR ''/'' # (''ST='' @ st) @ CHR ''/'' # (''L='' @ l) @ CHR ''/'' # (''O='' @ o') @
      CHR ''/'' # (''OU='' @ ou) @ CHR ''/'' # (''CN='' @ cn)"
    using assms(1) assert_safe_rdn_text unfolding subject_string_def by (auto split: sum.splits)
  have cn: "cn = hd (q_domains q)" "q_domains q \<noteq> []" using d(1) by (auto simp: common_name_def split: list.splits)
  have k: "''country'' \<in> set SUBJECT_FIELDS" "''state'' \<in> set SUBJECT_FIELDS" "''locality'' \<in> set SUBJECT_FIELDS"
    "''org'' \<in> set SUBJECT_FIELDS" "''org_unit'' \<in> set SUBJECT_FIELDS" by (simp_all add: SUBJECT_FIELDS_def)
  note ok = rdn_ok [OF fields k(1) r(1)] rdn_ok [OF fields k(2) r(2)] rdn_ok [OF fields k(3) r(3)] rdn_ok [OF fields k(4) r(4)]
    rdn_ok [OF fields k(5) r(5)] conjunct2 [OF assert_safe_rdn_text [OF d(2)]]
  let ?n = "\<lambda>v. CHR ''/'' \<notin> set v"
  have "?n (''C='' @ c)" "?n (''ST='' @ st)" "?n (''L='' @ l)" "?n (''O='' @ o')" "?n (''OU='' @ ou)" "?n (''CN='' @ cn)"
    using ok by simp_all
  then have "split_on CHR ''/'' subj = [[], ''C='' @ c, ''ST='' @ st, ''L='' @ l, ''O='' @ o', ''OU='' @ ou, ''CN='' @ cn]"
    unfolding s by (simp only: split_on_append_sep split_on_no_sep split_on.simps(2) refl if_True not_False_eq_True)
  then show ?thesis using ok cn by blast
qed

text \<open>The check looks for the characters in the value, not in what becomes of it: a list passes when no element
  is a bare slash or equals sign, and is then written out with whatever its elements contain.  The request may
  carry any JSON value, so whoever may issue certificates chooses the subject after all.\<close>

theorem list_field_injects:
  assumes "map_of (q_extra q) ''org'' = Some (JList [JStr (''x/CN='' @ name @ ''/O=y'')])"
    and "rdn config (q_extra q) ''country'' ''US'' = Inr c" "rdn config (q_extra q) ''state'' [] = Inr st"
    and "rdn config (q_extra q) ''locality'' [] = Inr l" "rdn config (q_extra q) ''org_unit'' ''IT'' = Inr ou"
    and "q_domains q = d # ds" "CHR ''/'' \<notin> set d" "CHR ''='' \<notin> set d" "list_all is_alnum_ascii name"
  shows "\<exists>a b. subject_string config q = Inr (a @ ''/CN='' @ name @ ''/O=y'' @ b)"
proof -
  have id: "concat (map (repr_char CHR 0x27) name) = name"
  proof -
    have "repr_char CHR 0x27 c = [c]" if "is_alnum_ascii c" for c
      using that by (auto simp: repr_char_def Let_def is_alnum_ascii_def py_islower_ascii_def py_isupper_ascii_def py_isdigit_ascii_def Let_def)
    then have "concat (map (repr_char CHR 0x27) xs) = xs" if "list_all is_alnum_ascii xs" for xs
      using that by (induction xs) auto
    then show ?thesis using assms(9) by blast
  qed
  have q: "CHR 0x27 \<notin> set name" using assms(9) by (auto simp: list_all_iff is_alnum_ascii_def py_islower_ascii_def py_isupper_ascii_def py_isdigit_ascii_def Let_def)
  have "py_repr_str (''x/CN='' @ name @ ''/O=y'') = [CHR 0x27] @ ''x/CN='' @ name @ ''/O=y'' @ [CHR 0x27]"
    using id q by (simp add: py_repr_str_def repr_char_def Let_def)
  then have "rdn config (q_extra q) ''org'' ''Internal CA'' = Inr (''['' @ [CHR 0x27] @ ''x/CN='' @ name @ ''/O=y'' @ [CHR 0x27] @ '']'')"
    using assms(1) by (simp add: rdn_def rdn_value_def assert_safe_rdn_def in_value_def py_format_def or_default_def Let_def)
  then have "subject_string config q = Inr ((''/C='' @ c @ ''/ST='' @ st @ ''/L='' @ l @ ''/O=['' @ [CHR 0x27] @ ''x'') @
      ''/CN='' @ name @ ''/O=y'' @ ([CHR 0x27] @ '']/OU='' @ ou @ ''/CN='' @ d))"
    using assms(2-8) by (simp add: subject_string_def common_name_def assert_safe_rdn_def in_value_def py_format_def)
  then show ?thesis by blast
qed

section \<open>Verification\<close>

lemma filter_length_mono: "(\<And>x. P x \<Longrightarrow> Q x) \<Longrightarrow> length (filter P xs) \<le> length (filter Q xs)"
  by (induction xs) auto

text \<open>A wildcard certificate never passes its provider's verification, even one whose only name is exactly
  the requested wildcard, because the requested name is stripped of its wildcard and looked up among the
  certificate's names as they are.  The local verifier strips both sides and accepts the same certificate
  within its validity.\<close>

theorem wildcard_never_verifies:
  assumes c: "fs p = Some pem" "parse_certificate x5 pem = Inr m" "m_sans m = [d]" "m_valid_from m \<le> now" "now \<le> m_valid_until m"
    and s: "sans_of pem = Inr (Some (m_sans m))"
    and d: "py_startswith d ''*.''" and p: "p \<noteq> []"
  shows "fst (letsencrypt_verify sans_of fs (Some p) [d]) = False \<and> fst (openssl_verify sans_of fs (Some p) [d]) = False \<and>
    fst (verify_local x5 now fs (Some p) [d]) = True"
proof -
  let ?P = "\<lambda>c. c = CHR ''*'' \<or> c = CHR ''.''"
  obtain t where t: "d = CHR ''*'' # t" using d by (cases d) (auto simp: py_startswith_def)
  have "length (lstrip_by ?P d) < length d" unfolding lstrip_by_def t using length_dropWhile_le [of ?P t] by simp
  then have "lstrip_by ?P d \<noteq> d" by auto
  then have "missing_sans [d] [d] = [d]" by (simp add: missing_sans_def)
  then show ?thesis using c s p
    unfolding letsencrypt_verify_def openssl_verify_def read_sans_def verify_local_def truthy_def str_or_def
    by (simp add: or_default_def Let_def)
qed

text \<open>The weekly verification counts every active certificate once, as verified or failed, records the
  counts in one finished execution and changes no certificate.  A certificate of a provider that is not
  registered, such as an imported one, is always counted as failed, although verifying it alone falls
  back to the local verifier.\<close>

theorem weekly_verification_accounts:
  assumes r: "weekly_verification vs now w = (Inr (ok, bad), w')"
    and wf: "wf_table (job_executions (work w))"
  shows "ok + bad = length (tbl_sel (\<lambda>x. c_status (rval x) = CertificateStatus.ACTIVE) (certificates (work w))) \<and>
    length (tbl_sel (\<lambda>x. c_status (rval x) = CertificateStatus.ACTIVE \<and> vs (c_provider_name (rval x)) = None)
      (certificates (work w))) \<le> bad \<and>
    certificates (committed w') = certificates (work w) \<and>
    (\<exists>j. tbl_get (next_id (job_executions (work w))) (job_executions (committed w')) = Some j \<and> j_status j = JobStatus.SUCCESS \<and>
       j_stdout j = Some (''verified='' @ str_int (int ok) @ '' failed='' @ str_int (int bad)))"
proof -
  let ?act = "tbl_sel (\<lambda>x. c_status (rval x) = CertificateStatus.ACTIVE) (certificates (work w))"
  let ?good = "\<lambda>x. verifies vs (files w) (rval x)"
  have cnt: "ok = length (filter ?good ?act)" "bad = length ?act - ok"
    and d: "committed w' = job_executions_update (\<lambda>t. snd (tbl_add now ((new_job JobType.VERIFY None JobTrigger.SCHEDULER
      JobStatus.SUCCESS now None)\<lparr>j_finished_at := Some now, j_stdout :=
        Some (''verified='' @ str_int (int ok) @ '' failed='' @ str_int (int bad))\<rparr>) t)) (work w)"
    using r by (auto simp: weekly_verification_def Let_def db_get_def db_mod_def add_job_def commit_def op_simps bnd_def
        filter_map comp_def)
  have "length (filter (\<lambda>x. vs (c_provider_name (rval x)) = None) ?act) \<le> length (filter (\<lambda>x. \<not> ?good x) ?act)"
    by (rule filter_length_mono) (auto simp: verifies_def)
  moreover have "length (filter (\<lambda>x. \<not> ?good x) ?act) = bad"
    using cnt sum_length_filter_compl [of ?good ?act] by simp
  moreover have "ok \<le> length ?act" using cnt by simp
  moreover have "tbl_sel (\<lambda>x. c_status (rval x) = CertificateStatus.ACTIVE \<and> vs (c_provider_name (rval x)) = None)
      (certificates (work w)) = filter (\<lambda>x. vs (c_provider_name (rval x)) = None) ?act"
    by (simp add: tbl_sel_def)
  ultimately show ?thesis unfolding d using cnt(2) wf by (simp add: get_new_job new_job_def)
qed

end
