(* ===== verification/Backups.thy ===== *)
theory Backups
  imports Cert_Api
begin

text \<open>
  Backups of certificate material, \<open>app/services/backup_service.py\<close>: writing and reading archives,
  restoring them, removing old ones and verifying what is there, with the endpoints of
  \<open>app/api/v1/extras.py\<close> and the tasks.  The archive format is an \<open>archiver\<close> and its law
  \<open>archiver_correct\<close>; directory listings, the tools of the databases and the checks of their dumps are
  arguments.
\<close>

section \<open>Archives\<close>

text \<open>Packing files under member names; why an archive cannot be opened, if so; its members with
  whether they are regular files.\<close>

record archiver =
  ar_pack :: "(string \<times> string) list \<Rightarrow> string"
  ar_open :: "string \<Rightarrow> string option"
  ar_members :: "string \<Rightarrow> exn + (string \<times> bool \<times> string) list"

definition archiver_correct :: "archiver \<Rightarrow> bool" where
  "archiver_correct ar \<longleftrightarrow> (\<forall>ms. ar_open ar (ar_pack ar ms) = None \<and>
     ar_members ar (ar_pack ar ms) = Inr (map (\<lambda>(n, x). (n, True, x)) ms))"

definition ARCHIVE_MEMBER_KEYS :: "string list" where
  "ARCHIVE_MEMBER_KEYS = [''cert_path'', ''key_path'', ''chain_path'', ''fullchain_path'', ''pfx_path'']"

text \<open>\<^verbatim>\<open>getattr(cert, attr)\<close>\<close>

definition member_path :: "certificate \<Rightarrow> string \<Rightarrow> string option" where
  "member_path c attr =
     (if attr = ''cert_path'' then c_cert_path c
      else if attr = ''key_path'' then c_key_path c
      else if attr = ''chain_path'' then c_chain_path c
      else if attr = ''fullchain_path'' then c_fullchain_path c
      else c_pfx_path c)"

text \<open>\<^verbatim>\<open>Path(name).name\<close>\<close>

definition path_name :: "string \<Rightarrow> string" where
  "path_name p = (case rev (filter (\<lambda>x. x \<noteq> [] \<and> x \<noteq> ''.'') (split_on CHR ''/'' p)) of [] \<Rightarrow> [] | x # _ \<Rightarrow> x)"

definition collect_member :: "(string \<times> string) list \<Rightarrow> string \<times> bool \<times> string \<Rightarrow> (string \<times> string) list" where
  "collect_member acc m =
     (case m of (name, is_file, content) \<Rightarrow>
        let n = path_name name; key = take (length n - 4) n in
        if is_file \<and> py_endswith n ''.bin'' \<and> key \<in> set ARCHIVE_MEMBER_KEYS then Permissions.dict_set key content acc else acc)"

definition read_archive_safely :: "archiver \<Rightarrow> string \<Rightarrow> fs \<Rightarrow> exn + (string \<times> string) list" where
  "read_archive_safely ar path fs =
     (case fs path of
        None \<Rightarrow> raises NotFoundError (''Backup archive not found: '' @ path)
      | Some data \<Rightarrow>
          (case ar_open ar data of
             Some err \<Rightarrow> raises ValidationAppError (''Corrupt or unreadable backup archive: '' @ err)
           | None \<Rightarrow>
               (case ar_members ar data of
                  Inl e \<Rightarrow> Inl e
                | Inr ms \<Rightarrow>
                    let members = foldl collect_member [] ms in
                    if ''cert_path'' \<notin> set (map fst members)
                    then raises ValidationAppError ''Archive does not contain a certificate member (cert_path.bin)''
                    else Inr members)))"

section \<open>Backup\<close>

text \<open>The files of a certificate that exist, under their attribute.\<close>

definition material :: "certificate \<Rightarrow> fs \<Rightarrow> (string \<times> string) list" where
  "material c fs = List.map_filter (\<lambda>attr.
     if truthy (member_path c attr)
     then map_option (Pair attr) (fs (str_or (member_path c attr) [])) else None) ARCHIVE_MEMBER_KEYS"

definition archive_path :: "settings \<Rightarrow> int \<Rightarrow> string \<Rightarrow> string" where
  "archive_path s i stamp =
     backup_root s @ ''/certificates/'' @ str_int i @ ''/cert-'' @ str_int i @ ''-'' @ stamp @ ''.tar.gz''"

definition backup_row :: "ctx \<Rightarrow> int \<Rightarrow> certificate \<Rightarrow> string \<Rightarrow> string \<Rightarrow> backup" where
  "backup_row cx i c path data = \<lparr>b_certificate_id = Some i, b_kind = BackupKind.CERTIFICATE, b_storage_path = path,
     b_size_bytes = int (length data), b_checksum_sha256 = Some (sha256_hex (cx_kc cx) data),
     b_backup_metadata = [(''domain'', JStr (c_domain c)),
       (''fingerprint'', case c_fingerprint_sha256 c of None \<Rightarrow> JNull | Some f \<Rightarrow> JStr f)],
     b_restored_at = None\<rparr>"

text \<open>\<open>strf\<close> formats a time as \<^verbatim>\<open>%Y%m%d%H%M%S\<close>.\<close>

definition backup_certificate ::
    "ctx \<Rightarrow> archiver \<Rightarrow> (datetime \<Rightarrow> string) \<Rightarrow> datetime \<Rightarrow> int \<Rightarrow> certificate \<Rightarrow> int option wop" where
  "backup_certificate cx ar strf now i c =
     bnd (gets (\<lambda>w. material c (files w))) (\<lambda>ms.
     if ms = [] then ret None
     else
       let path = archive_path (cx_cfg cx) i (strf now); data = ar_pack ar (map (\<lambda>(k, x). (k @ ''.bin'', x)) ms) in
       bnd (fs_write path data) (\<lambda>_.
       bnd (db_get (\<lambda>d. next_id (backups d))) (\<lambda>b.
       bnd (db_mod (backups_update (\<lambda>t. snd (tbl_add now (backup_row cx i c path data) t)))) (\<lambda>_.
       bnd commit (\<lambda>_. ret (Some b))))))"

fun backup_loop ::
    "ctx \<Rightarrow> archiver \<Rightarrow> (datetime \<Rightarrow> string) \<Rightarrow> datetime \<Rightarrow> (int \<times> certificate) list \<Rightarrow> nat \<times> nat \<Rightarrow> (nat \<times> nat) wop" where
  "backup_loop cx ar strf now [] n = ret n"
| "backup_loop cx ar strf now ((i, c) # cs) (count, skipped) =
     bnd (catch_op
            (bnd (backup_certificate cx ar strf now i c) (\<lambda>row.
             ret (case row of None \<Rightarrow> (count, skipped + 1) | Some _ \<Rightarrow> (count + 1, skipped))))
            (\<lambda>_. ret (count, skipped))) (\<lambda>n.
     backup_loop cx ar strf now cs n)"

definition backup_all :: "ctx \<Rightarrow> archiver \<Rightarrow> (datetime \<Rightarrow> string) \<Rightarrow> datetime \<Rightarrow> (nat \<times> nat) wop" where
  "backup_all cx ar strf now =
     bnd (db_get (\<lambda>d. map (\<lambda>w. (rid w, rval w)) (rows (certificates d)))) (\<lambda>cs. backup_loop cx ar strf now cs (0, 0))"

definition cleanup_old_backups :: "settings \<Rightarrow> datetime \<Rightarrow> nat wop" where
  "cleanup_old_backups s now =
     (let cutoff = now - backup_keep_days s * us_per_day in
      bnd (db_get (\<lambda>d. tbl_sel (\<lambda>w. created_at w < cutoff) (backups d))) (\<lambda>old.
      bnd (modify (\<lambda>w. w\<lparr>files := (\<lambda>p. if p \<in> (b_storage_path \<circ> rval) ` set old then None else files w p)\<rparr>)) (\<lambda>_.
      bnd (db_mod (backups_update (tbl_del_where (\<lambda>w. created_at w < cutoff)))) (\<lambda>_.
      bnd commit (\<lambda>_. ret (length old))))))"

section \<open>Database dump\<close>

record dump_config =
  dc_database_url :: string
  dc_pg_dump_binary :: string
  dc_mysqldump_binary :: string
  dc_environ :: "(string \<times> string) list"

text \<open>Arguments and environment to an exception, or exit code, output and error output; the tool may write files.\<close>

type_synonym dump_tool = "string list \<Rightarrow> (string \<times> string) list \<Rightarrow> fs \<Rightarrow> (exn + int \<times> string \<times> string) \<times> fs"

definition after_prefix :: "string \<Rightarrow> string \<Rightarrow> string option" where
  "after_prefix p s = (if py_startswith s p then Some (drop (length p) s) else None)"

text \<open>The non-empty part before the first character of \<open>stop\<close>, and the rest from there on.\<close>

definition part_until :: "(char \<Rightarrow> bool) \<Rightarrow> string \<Rightarrow> (string \<times> string) option" where
  "part_until stop s = (let a = takeWhile (\<lambda>c. \<not> stop c) s in if a = [] then None else Some (a, drop (length a) s))"

definition word_char :: "char \<Rightarrow> bool" where
  "word_char c \<longleftrightarrow> py_islower_ascii c \<or> py_isupper_ascii c \<or> py_isdigit_ascii c \<or> c = CHR ''_''"

text \<open>\<^verbatim>\<open>([^:]+):([^@]+)@([^:/]+)\<close>: the groups and the rest.\<close>

definition url_authority :: "string \<Rightarrow> (string \<times> string \<times> string \<times> string) option" where
  "url_authority s =
     (case part_until (\<lambda>c. c = CHR '':'') s of
        Some (user, CHR '':'' # r) \<Rightarrow>
          (case part_until (\<lambda>c. c = CHR ''@'') r of
             Some (password, CHR ''@'' # q) \<Rightarrow>
               (case part_until (\<lambda>c. c = CHR '':'' \<or> c = CHR ''/'') q of
                  Some (host, rest) \<Rightarrow> Some (user, password, host, rest) | None \<Rightarrow> None)
           | _ \<Rightarrow> None)
      | _ \<Rightarrow> None)"

text \<open>\<^verbatim>\<open>:(\d+)\<close> and \<^verbatim>\<open>/(\w+)\<close>\<close>

definition url_port :: "string \<Rightarrow> (string \<times> string) option" where
  "url_port s = (case s of CHR '':'' # r \<Rightarrow> part_until (\<lambda>c. \<not> py_isdigit_ascii c) r | _ \<Rightarrow> None)"

definition url_dbname :: "string \<Rightarrow> string option" where
  "url_dbname s = (case s of CHR ''/'' # r \<Rightarrow> map_option fst (part_until (\<lambda>c. \<not> word_char c) r) | _ \<Rightarrow> None)"

definition url_scheme :: "string list \<Rightarrow> string \<Rightarrow> string \<Rightarrow> string option" where
  "url_scheme names driver url =
     (case List.map_filter (\<lambda>n. case after_prefix (n @ ''://'') url of
              Some r \<Rightarrow> Some r | None \<Rightarrow> after_prefix (n @ driver @ ''://'') url) names of
        [] \<Rightarrow> None | r # _ \<Rightarrow> Some r)"

type_synonym db_address = "string \<times> string \<times> string \<times> string \<times> string"

definition postgres_url :: "string \<Rightarrow> db_address option" where
  "postgres_url url =
     (case url_scheme [''postgresql''] ''+psycopg'' url of
        None \<Rightarrow> None
      | Some s \<Rightarrow>
          (case url_authority s of
             None \<Rightarrow> None
           | Some (user, password, host, r) \<Rightarrow>
               (case url_port r of
                  None \<Rightarrow> None
                | Some (port, q) \<Rightarrow> map_option (\<lambda>name. (user, password, host, port, name)) (url_dbname q))))"

text \<open>Here the port is optional and 3306 by default.\<close>

definition mysql_url :: "string \<Rightarrow> db_address option" where
  "mysql_url url =
     (case url_scheme [''mysql'', ''mariadb''] ''+pymysql'' url of
        None \<Rightarrow> None
      | Some s \<Rightarrow>
          (case url_authority s of
             None \<Rightarrow> None
           | Some (user, password, host, r) \<Rightarrow>
               (case url_port r of
                  Some (port, q) \<Rightarrow> map_option (\<lambda>name. (user, password, host, port, name)) (url_dbname q)
                | None \<Rightarrow> map_option (\<lambda>name. (user, password, host, ''3306'', name)) (url_dbname r))))"

definition dump_path :: "settings \<Rightarrow> string \<Rightarrow> string" where
  "dump_path s stamp = backup_root s @ ''/database/db-'' @ stamp @ ''.dump''"

definition pg_dump_argv :: "dump_config \<Rightarrow> string \<Rightarrow> db_address \<Rightarrow> string list" where
  "pg_dump_argv dc target = (\<lambda>(user, _, host, port, name).
     [dc_pg_dump_binary dc, ''-h'', host, ''-p'', port, ''-U'', user, ''-Fc'', ''-f'', target, name])"

definition mysqldump_argv :: "dump_config \<Rightarrow> db_address \<Rightarrow> string list" where
  "mysqldump_argv dc = (\<lambda>(user, _, host, port, name).
     [dc_mysqldump_binary dc, ''-h'', host, ''-P'', port, ''-u'', user,
      ''--single-transaction'', ''--routines'', ''--triggers'', name])"

definition unsupported_database :: "exn + string" where
  "unsupported_database = raises RuntimeError ''Database backup not supported for this DATABASE_URL''"

definition backup_sqlite :: "string \<Rightarrow> string \<Rightarrow> fs \<Rightarrow> (exn + string) \<times> fs" where
  "backup_sqlite url target fs =
     (case after_prefix ''sqlite:///'' url of
        None \<Rightarrow> (unsupported_database, fs)
      | Some f \<Rightarrow> (case fs f of None \<Rightarrow> (unsupported_database, fs) | Some data \<Rightarrow> (Inr target, fs(target \<mapsto> data))))"

definition backup_database :: "settings \<Rightarrow> dump_config \<Rightarrow> dump_tool \<Rightarrow> string \<Rightarrow> fs \<Rightarrow> (exn + string) \<times> fs" where
  "backup_database s dc tool stamp fs =
     (let url = dc_database_url dc; target = dump_path s stamp in
      if py_startswith url ''postgresql'' \<and> postgres_url url \<noteq> None then
        let a = the (postgres_url url) in
        (case tool (pg_dump_argv dc target a) (Permissions.dict_set ''PGPASSWORD'' (fst (snd a)) (dc_environ dc)) fs of
           (Inl e, fs') \<Rightarrow> (Inl e, fs')
         | (Inr (code, _, err), fs') \<Rightarrow>
             if code \<noteq> 0 then (raises RuntimeError (''pg_dump failed: '' @ last_n 500 err), fs') else (Inr target, fs'))
      else if (py_startswith url ''mysql'' \<or> py_startswith url ''mariadb'') \<and> mysql_url url \<noteq> None then
        let a = the (mysql_url url) in
        (case tool (mysqldump_argv dc a) (Permissions.dict_set ''MYSQL_PWD'' (fst (snd a)) (dc_environ dc)) (fs(target \<mapsto> [])) of
           (Inl e, fs') \<Rightarrow> (Inl e, fs')
         | (Inr (code, out, err), fs') \<Rightarrow>
             let fs'' = fs'(target \<mapsto> out) in
             if code \<noteq> 0 then (raises RuntimeError (''mysqldump failed: '' @ last_n 500 err), fs'') else (Inr target, fs''))
      else backup_sqlite url target fs)"

section \<open>Restore\<close>

definition store_member_path :: "settings \<Rightarrow> string \<Rightarrow> string \<Rightarrow> string" where
  "store_member_path s fp attr =
     (if attr = ''cert_path'' then store_cert_path s fp
      else if attr = ''key_path'' then store_key_path s fp
      else if attr = ''chain_path'' then store_chain_path s fp
      else if attr = ''fullchain_path'' then store_fullchain_path s fp
      else store_pfx_path s fp)"

definition set_member_path :: "string \<Rightarrow> string \<Rightarrow> certificate \<Rightarrow> certificate" where
  "set_member_path attr p c =
     (if attr = ''cert_path'' then c\<lparr>c_cert_path := Some p\<rparr>
      else if attr = ''key_path'' then c\<lparr>c_key_path := Some p\<rparr>
      else if attr = ''chain_path'' then c\<lparr>c_chain_path := Some p\<rparr>
      else if attr = ''fullchain_path'' then c\<lparr>c_fullchain_path := Some p\<rparr>
      else c\<lparr>c_pfx_path := Some p\<rparr>)"

text \<open>The material goes back into the store directory of the fingerprint.\<close>

definition restore_files :: "settings \<Rightarrow> string \<Rightarrow> (string \<times> string) list \<Rightarrow> fs \<Rightarrow> fs" where
  "restore_files s fp members fs =
     foldl (\<lambda>fs k. case map_of members k of None \<Rightarrow> fs | Some x \<Rightarrow> fs(store_member_path s fp k \<mapsto> x)) fs ARCHIVE_MEMBER_KEYS"

definition restored_row :: "settings \<Rightarrow> x509_meta \<Rightarrow> (string \<times> string) list \<Rightarrow> certificate \<Rightarrow> certificate" where
  "restored_row s m members c =
     (foldl (\<lambda>c k. if map_of members k \<noteq> None then set_member_path k (store_member_path s (m_fingerprint_sha256 m) k) c else c)
        c ARCHIVE_MEMBER_KEYS)\<lparr>
       c_fingerprint_sha256 := Some (m_fingerprint_sha256 m), c_subject := Some (m_subject m), c_issuer := Some (m_issuer m),
       c_serial_number := Some (m_serial_number m), c_valid_from := Some (m_valid_from m),
       c_valid_until := Some (m_valid_until m), c_sans := (if m_sans m = [] then c_sans c else m_sans m)\<rparr>"

definition restore_target :: "int option \<Rightarrow> x509_meta \<Rightarrow> db \<Rightarrow> exn + (int \<times> certificate) option" where
  "restore_target certificate_id m d =
     (case certificate_id of
        Some i \<Rightarrow>
          (case tbl_get i (certificates d) of
             None \<Rightarrow> raises NotFoundError (''Certificate '' @ str_int i @ '' not found'')
           | Some c \<Rightarrow>
               if truthy (c_fingerprint_sha256 c) \<and> c_fingerprint_sha256 c \<noteq> Some (m_fingerprint_sha256 m)
               then raises ConflictError ''Fingerprint mismatch - this backup belongs to a different certificate''
               else Inr (Some (i, c)))
      | None \<Rightarrow>
          Inr (map_option (\<lambda>w. (rid w, rval w))
            (tbl_first (\<lambda>w. c_fingerprint_sha256 (rval w) = Some (m_fingerprint_sha256 m)) (certificates d))))"

definition restore_payload :: import_payload where
  "restore_payload = \<lparr>im_domain = None, im_environment = Some ''production'', im_provider = None, im_auto_renew = None,
     im_owner_id = None, im_notes = Some ''Restored from backup'', im_tags = []\<rparr>"

text \<open>The archive holds the encrypted key; the import wants the plain one.\<close>

definition archived_key :: "crypto \<Rightarrow> (string \<times> string) list \<Rightarrow> exn + string option" where
  "archived_key k members =
     (let key = map_of members ''key_path'' in
      if truthy key then
        (case decrypt_secret k (str_or key []) of
           Inl _ \<Rightarrow> raises ValidationAppError ''Cannot decrypt private key from archive (wrong master key?)''
         | Inr pem \<Rightarrow> Inr (Some pem))
      else Inr key)"

definition restore_new :: "ctx \<Rightarrow> datetime \<Rightarrow> x509_meta \<Rightarrow> (string \<times> string) list \<Rightarrow> int option wop" where
  "restore_new cx now m members =
     bnd (lift_exn (archived_key (cx_kc cx) members)) (\<lambda>key.
     bnd (import_certificate cx now (map_of members ''cert_path'') key
            (if truthy (map_of members ''chain_path'') then map_of members ''chain_path'' else map_of members ''fullchain_path'')
            None None restore_payload None JobTrigger.SYSTEM) (\<lambda>_.
     db_get (\<lambda>d. map_option rid (tbl_first (\<lambda>w. c_fingerprint_sha256 (rval w) = Some (m_fingerprint_sha256 m)) (certificates d)))))"

definition restore_existing :: "ctx \<Rightarrow> datetime \<Rightarrow> x509_meta \<Rightarrow> (string \<times> string) list \<Rightarrow> int \<Rightarrow> int option wop" where
  "restore_existing cx now m members i =
     bnd (modify (\<lambda>w. w\<lparr>files := restore_files (cx_cfg cx) (m_fingerprint_sha256 m) members (files w)\<rparr>)) (\<lambda>_.
     bnd (upd_cert now i (restored_row (cx_cfg cx) m members)) (\<lambda>_. ret (Some i)))"

definition mark_restored :: "datetime \<Rightarrow> string \<Rightarrow> db \<Rightarrow> db" where
  "mark_restored now archive d =
     (case tbl_first (\<lambda>w. b_storage_path (rval w) = archive) (backups d) of
        None \<Rightarrow> d
      | Some w \<Rightarrow> backups_update (tbl_upd now (rid w) (\<lambda>b. b\<lparr>b_restored_at := Some now\<rparr>)) d)"

datatype restore_result =
    DryRun string string "int option" "string list"
  | Restored bool "int option" string bool

definition restore_certificate ::
    "ctx \<Rightarrow> archiver \<Rightarrow> datetime \<Rightarrow> string \<Rightarrow> int option \<Rightarrow> bool \<Rightarrow> int option \<Rightarrow> restore_result wop" where
  "restore_certificate cx ar now archive certificate_id dry_run restored_by =
     bnd (gets (\<lambda>w. read_archive_safely ar archive (files w))) (\<lambda>r.
     bnd (lift_exn r) (\<lambda>members.
     bnd (lift_exn (parse_certificate (cx_x5 cx) (or_default (map_of members ''cert_path'') []))) (\<lambda>m.
     bnd (db_get (restore_target certificate_id m)) (\<lambda>t.
     bnd (lift_exn t) (\<lambda>target.
     if dry_run then
       ret (DryRun archive (m_fingerprint_sha256 m) (map_option fst target) (sorted_set (map fst members)))
     else
       bnd (case target of None \<Rightarrow> restore_new cx now m members | Some (i, c) \<Rightarrow> restore_existing cx now m members i) (\<lambda>i.
       bnd (db_mod (mark_restored now archive)) (\<lambda>_.
       bnd (record_audit (cx_rdf cx) now ((audit_defaults ''backup.restore'')\<lparr>aa_resource_type := Some ''certificate'',
              aa_resource_id := map_option str_int i, aa_user_id := restored_by,
              aa_details := [(''archive'', JStr archive), (''fingerprint'', JStr (m_fingerprint_sha256 m))]\<rparr>)) (\<lambda>_.
       bnd commit (\<lambda>_.
       ret (Restored (target = None) i (m_fingerprint_sha256 m) (''key_path'' \<in> set (map fst members))))))))))))"

section \<open>Verification\<close>

text \<open>\<open>_verify_database_dump\<close>: \<open>sqlite\<close> and \<open>pg_restore\<close> are the checks of the two tools on a dump, the
  second absent when it is not installed.  A dump that cannot be read is reported.\<close>

definition verify_database_dump ::
    "(string \<Rightarrow> exn + bool \<times> string) \<Rightarrow> (string \<Rightarrow> exn + bool \<times> string) option \<Rightarrow> string \<Rightarrow> fs \<Rightarrow> bool \<times> string" where
  "verify_database_dump sqlite pg_restore path fs =
     (let report = (\<lambda>r. case r of Inl e \<Rightarrow> (False, exc_msg e) | Inr x \<Rightarrow> x) in
      case fs path of
        None \<Rightarrow> (False, ''No such file or directory: '' @ path)
      | Some data \<Rightarrow>
          let head = take 16 data; text = take 2000 data in
          if py_startswith head ''SQLite format 3'' then report (sqlite path)
          else if py_startswith head ''PGDMP'' then
            (case pg_restore of
               Some check \<Rightarrow> report (check path)
             | None \<Rightarrow> (True, ''pg custom-format dump (pg_restore not installed - skipped)''))
          else if py_contains ''CREATE TABLE'' text \<or> py_contains ''DROP TABLE'' text \<or> py_strip text \<noteq> []
          then (True, ''SQL text dump looks valid'') else (False, ''empty dump''))"

definition check_archive :: "ctx \<Rightarrow> archiver \<Rightarrow> bool \<Rightarrow> fs \<Rightarrow> db \<Rightarrow> string \<Rightarrow> exn + unit" where
  "check_archive cx ar check_checksums fs d path =
     (case read_archive_safely ar path fs of
        Inl e \<Rightarrow> Inl e
      | Inr members \<Rightarrow>
          (case (if check_checksums then tbl_first (\<lambda>w. b_storage_path (rval w) = path) (backups d) else None) of
             None \<Rightarrow> Inr ()
           | Some w \<Rightarrow>
               if truthy (b_checksum_sha256 (rval w)) \<and>
                  b_checksum_sha256 (rval w) \<noteq> Some (sha256_hex (cx_kc cx) (or_default (fs path) []))
               then raises ValueError ''checksum mismatch with DB record'' else Inr ()))"

record verify_summary =
  vs_archives_total :: nat
  vs_archives_checked :: nat
  vs_archives_verified :: nat
  vs_archives_failed :: nat
  vs_errors :: "string list"
  vs_dumps_verified :: nat
  vs_dumps_failed :: nat
  vs_dump_errors :: "string list"
  vs_ok :: bool

definition archive_sample :: "bool \<Rightarrow> string list \<Rightarrow> string list" where
  "archive_sample sample_only archives =
     (if sample_only \<and> 5 < length archives then take (max 1 (length archives div 10 + 1)) archives else archives)"

text \<open>\<open>archives\<close> and \<open>dumps\<close> are the sorted listings of the two directories.\<close>

definition verify_backup_archives ::
    "ctx \<Rightarrow> archiver \<Rightarrow> (string \<Rightarrow> bool \<times> string) \<Rightarrow> string list \<Rightarrow> string list \<Rightarrow> bool \<Rightarrow> bool \<Rightarrow> verify_summary wop" where
  "verify_backup_archives cx ar check_dump archives dumps sample_only check_checksums =
     bnd (db_get (\<lambda>d. d)) (\<lambda>d.
     bnd (gets files) (\<lambda>fs.
     let sample = archive_sample sample_only archives;
         bad = List.map_filter (\<lambda>p. case check_archive cx ar check_checksums fs d p of
                  Inl e \<Rightarrow> Some (path_name p @ '': '' @ exc_msg e) | Inr _ \<Rightarrow> None) sample;
         bad_dumps = List.map_filter (\<lambda>p. case check_dump p of
                  (ok, note) \<Rightarrow> if ok then None else Some (path_name p @ '': '' @ note)) dumps in
     ret \<lparr>vs_archives_total = length archives, vs_archives_checked = length sample,
          vs_archives_verified = length sample - length bad, vs_archives_failed = length bad, vs_errors = take 20 bad,
          vs_dumps_verified = length dumps - length bad_dumps, vs_dumps_failed = length bad_dumps,
          vs_dump_errors = take 10 bad_dumps, vs_ok = (bad = [] \<and> bad_dumps = [])\<rparr>))"

section \<open>Tasks and endpoints\<close>

definition run_backup_task :: "ctx \<Rightarrow> archiver \<Rightarrow> (datetime \<Rightarrow> string) \<Rightarrow> datetime \<Rightarrow> (nat \<times> nat) wop" where
  "run_backup_task cx ar strf now = db_task now (backup_all cx ar strf now)"

definition cleanup_backups_task :: "settings \<Rightarrow> datetime \<Rightarrow> nat wop" where
  "cleanup_backups_task s now = db_task now (cleanup_old_backups s now)"

definition verify_backups_task ::
    "ctx \<Rightarrow> archiver \<Rightarrow> (string \<Rightarrow> bool \<times> string) \<Rightarrow> datetime \<Rightarrow> string list \<Rightarrow> string list \<Rightarrow> verify_summary wop" where
  "verify_backups_task cx ar check_dump now archives dumps =
     db_task now (verify_backup_archives cx ar check_dump archives dumps False True)"

definition post_backup_run :: "ctx \<Rightarrow> archiver \<Rightarrow> (datetime \<Rightarrow> string) \<Rightarrow> datetime \<Rightarrow> api_user \<Rightarrow> request \<Rightarrow> (nat \<times> nat) wop" where
  "post_backup_run cx ar strf now user rq =
     bnd (require_admin user ''Only administrators can run backups'') (\<lambda>_.
     bnd (backup_all cx ar strf now) (\<lambda>r.
     bnd (audit_request cx now ''backup.run'' user None rq
            [(''backed_up'', JInt (int (fst r))), (''skipped_no_material'', JInt (int (snd r)))]) (\<lambda>_. ret r)))"

definition post_backup_verify ::
    "ctx \<Rightarrow> archiver \<Rightarrow> (string \<Rightarrow> bool \<times> string) \<Rightarrow> datetime \<Rightarrow> api_user \<Rightarrow> request \<Rightarrow> string list \<Rightarrow> string list \<Rightarrow> bool
      \<Rightarrow> verify_summary wop" where
  "post_backup_verify cx ar check_dump now user rq archives dumps sample_only =
     bnd (require_admin user ''Only administrators can verify backups'') (\<lambda>_.
     bnd (verify_backup_archives cx ar check_dump archives dumps sample_only True) (\<lambda>r.
     bnd (record_audit (cx_rdf cx) now ((audit_defaults ''backup.verify'')\<lparr>aa_user_id := Some (au_id user),
            aa_username := Some (au_username user), aa_result := (if vs_ok r then AuditResult.SUCCESS else AuditResult.FAILURE),
            aa_ip_address := fst rq, aa_user_agent := snd rq,
            aa_details := [(''archives_total'', JInt (int (vs_archives_total r))),
              (''archives_verified'', JInt (int (vs_archives_verified r))),
              (''archives_failed'', JInt (int (vs_archives_failed r)))]\<rparr>)) (\<lambda>_. ret r)))"

definition post_backup_restore ::
    "ctx \<Rightarrow> archiver \<Rightarrow> datetime \<Rightarrow> api_user \<Rightarrow> request \<Rightarrow> int \<Rightarrow> bool \<Rightarrow> int option \<Rightarrow> restore_result wop" where
  "post_backup_restore cx ar now user rq b dry_run certificate_id =
     bnd (require_admin user ''Only administrators can restore backups'') (\<lambda>_.
     bnd (db_get (\<lambda>d. tbl_get b (backups d))) (\<lambda>row.
     case row of
       None \<Rightarrow> fail NotFoundError ''Backup not found''
     | Some x \<Rightarrow>
         bnd (restore_certificate cx ar now (b_storage_path x) certificate_id dry_run (Some (au_id user))) (\<lambda>r.
         bnd (audit_request cx now ''backup.restore'' user (Some (''backup'', str_int b)) rq
                [(''archive'', JStr (b_storage_path x)), (''dry_run'', JBool dry_run)]) (\<lambda>_. ret r))))"

end
