(* ===== verification/Backup_Proofs.thy ===== *)
theory Backup_Proofs
  imports Backups
begin

text \<open>
  A backup can be restored: what was archived comes back, whatever happened to the store in between,
  and an archive that was just written verifies.  Backups never touch a certificate.
\<close>

section \<open>Archives\<close>

lemma member_name:
  assumes "k \<in> set ARCHIVE_MEMBER_KEYS"
  shows "path_name (k @ ''.bin'') = k @ ''.bin''"
proof -
  have "list_all (\<lambda>k. path_name (k @ ''.bin'') = k @ ''.bin'') ARCHIVE_MEMBER_KEYS" by code_simp
  with assms show ?thesis by (simp add: list_all_iff)
qed

lemma collect_packed:
  "set (map fst ms) \<subseteq> set ARCHIVE_MEMBER_KEYS \<Longrightarrow> distinct (map fst (acc @ ms)) \<Longrightarrow>
   foldl collect_member acc (map (\<lambda>(n, x). (n, True, x)) (map (\<lambda>(k, x). (k @ ''.bin'', x)) ms)) = acc @ ms"
proof (induction ms arbitrary: acc)
  case (Cons m ms)
  obtain k x where m: "m = (k, x)" by fastforce
  have "collect_member acc (k @ ''.bin'', True, x) = acc @ [(k, x)]"
    using Cons.prems member_name [of k] dict_set_new [of k acc x]
    by (auto simp: collect_member_def m py_endswith_def image_iff)
  then show ?case using Cons.IH [of "acc @ [(k, x)]"] Cons.prems by (simp add: m)
qed simp

lemma read_packed:
  assumes "archiver_correct ar" "fs path = Some (ar_pack ar (map (\<lambda>(k, x). (k @ ''.bin'', x)) ms))"
    and "set (map fst ms) \<subseteq> set ARCHIVE_MEMBER_KEYS" "distinct (map fst ms)"
  shows "read_archive_safely ar path fs =
    (if ''cert_path'' \<in> set (map fst ms) then Inr ms
     else raises ValidationAppError ''Archive does not contain a certificate member (cert_path.bin)'')"
  using assms collect_packed [of ms "[]"] unfolding archiver_correct_def read_archive_safely_def by simp

section \<open>Material\<close>

lemma map_filter_keys:
  "distinct ks \<Longrightarrow> distinct (map fst (List.map_filter (\<lambda>k. map_option (Pair k) (f k)) ks)) \<and>
   set (map fst (List.map_filter (\<lambda>k. map_option (Pair k) (f k)) ks)) \<subseteq> set ks \<and>
   (\<forall>k \<in> set ks. map_of (List.map_filter (\<lambda>k. map_option (Pair k) (f k)) ks) k = f k)"
proof (induction ks)
  case (Cons k ks)
  have "map_of (List.map_filter (\<lambda>k. map_option (Pair k) (f k)) ks) k = None"
    using Cons by (auto simp: map_of_eq_None_iff)
  with Cons show ?case by (cases "f k") (auto simp: map_filter_simps)
qed (simp add: map_filter_simps)

definition file_of :: "certificate \<Rightarrow> fs \<Rightarrow> string \<Rightarrow> string option" where
  "file_of c fs attr = (if truthy (member_path c attr) then fs (str_or (member_path c attr) []) else None)"

lemma material_alt: "material c fs = List.map_filter (\<lambda>k. map_option (Pair k) (file_of c fs k)) ARCHIVE_MEMBER_KEYS"
  unfolding material_def by (rule arg_cong2 [of _ _ _ _ List.map_filter]) (auto simp: file_of_def)

lemma distinct_keys: "distinct ARCHIVE_MEMBER_KEYS"
  by (simp add: ARCHIVE_MEMBER_KEYS_def)

lemmas material_facts = map_filter_keys [OF distinct_keys, of "file_of c fs" for c fs, folded material_alt]

lemma material_lookup: "map_of (material c fs) k = (if k \<in> set ARCHIVE_MEMBER_KEYS then file_of c fs k else None)"
  using material_facts [of c fs] by (auto simp: map_of_eq_None_iff)

section \<open>Restoring\<close>

lemma keys_cases:
  assumes "k \<in> set ARCHIVE_MEMBER_KEYS"
  obtains "k = ''cert_path''" | "k = ''key_path''" | "k = ''chain_path''" | "k = ''fullchain_path''" | "k = ''pfx_path''"
proof -
  have "k = ''cert_path'' \<or> k = ''key_path'' \<or> k = ''chain_path'' \<or> k = ''fullchain_path'' \<or> k = ''pfx_path''"
    using assms unfolding ARCHIVE_MEMBER_KEYS_def by simp
  then show thesis by (elim disjE) (erule that)+
qed

lemmas store_path_defs = store_member_path_def store_cert_path_def store_key_path_def store_chain_path_def
  store_fullchain_path_def store_pfx_path_def

lemma restored_files:
  "k \<in> set ARCHIVE_MEMBER_KEYS \<Longrightarrow> map_of members k = Some x \<Longrightarrow>
   restore_files s fp members fs (store_member_path s fp k) = Some x"
  by (erule keys_cases) (auto simp: restore_files_def ARCHIVE_MEMBER_KEYS_def store_path_defs split: option.splits)

lemma restored_path:
  "k \<in> set ARCHIVE_MEMBER_KEYS \<Longrightarrow> map_of members k = Some x \<Longrightarrow>
   member_path (restored_row s m members c) k = Some (store_member_path s (m_fingerprint_sha256 m) k)"
  by (erule keys_cases) (auto simp: restored_row_def ARCHIVE_MEMBER_KEYS_def member_path_def set_member_path_def)

lemma store_path_truthy: "truthy (Some (store_member_path s fp k))" "str_or (Some (store_member_path s fp k)) d = store_member_path s fp k"
  by (simp_all add: store_path_defs truthy_def str_or_def)

lemma restored_material:
  "k \<in> set ARCHIVE_MEMBER_KEYS \<Longrightarrow> map_of members k = Some x \<Longrightarrow>
   file_of (restored_row s m members c) (restore_files s (m_fingerprint_sha256 m) members fs) k = Some x"
  by (simp add: file_of_def restored_path store_path_truthy restored_files)

lemma restore_existing_runs:
  assumes r: "read_archive_safely ar archive (files w) = Inr members"
    and m: "parse_certificate (cx_x5 cx) (or_default (map_of members ''cert_path'') []) = Inr m"
    and c: "tbl_get i (certificates (work w)) = Some c"
      "truthy (c_fingerprint_sha256 c) \<longrightarrow> c_fingerprint_sha256 c = Some (m_fingerprint_sha256 m)"
  shows "\<exists>w'. restore_certificate cx ar now archive (Some i) False u w =
      (Inr (Restored False (Some i) (m_fingerprint_sha256 m) (''key_path'' \<in> set (map fst members))), w') \<and>
    committed w' = work w' \<and> files w' = restore_files (cx_cfg cx) (m_fingerprint_sha256 m) members (files w) \<and>
    tbl_get i (certificates (committed w')) = Some (restored_row (cx_cfg cx) m members c)"
proof -
  have "restore_target (Some i) m (work w) = Inr (Some (i, c))" using c by (auto simp: restore_target_def)
  then show ?thesis using c(1)
    by (simp add: restore_certificate_def r m restore_existing_def op_simps db_get_def db_mod_def upd_cert_def commit_def
        record_audit_def mark_restored_def tbl.get_upd split: option.splits)
qed

text \<open>Where the material of a fingerprint lies: below its directory of the store, one file per kind.\<close>

definition in_store :: "settings \<Rightarrow> string \<Rightarrow> string \<Rightarrow> string" where
  "in_store s fp k = cert_dir s fp @ ''/'' @ or_default (map_of [(''cert_path'', ''cert.pem''), (''key_path'', ''privkey.enc.pem''),
     (''chain_path'', ''chain.pem''), (''fullchain_path'', ''fullchain.pem''), (''pfx_path'', ''bundle.pfx'')] k) []"

lemma store_member_in_store: "k \<in> set ARCHIVE_MEMBER_KEYS \<Longrightarrow> store_member_path s fp k = in_store s fp k"
  by (erule keys_cases) (simp_all add: in_store_def store_path_defs or_default_def)

lemma in_store_inj: "inj_on (in_store s fp) (set ARCHIVE_MEMBER_KEYS)"
proof (rule inj_onI)
  fix j k assume "j \<in> set ARCHIVE_MEMBER_KEYS" "k \<in> set ARCHIVE_MEMBER_KEYS" "in_store s fp j = in_store s fp k"
  then show "j = k" by (elim keys_cases) (simp_all add: in_store_def or_default_def)
qed

lemma map_of_rekeyed:
  "inj_on f K \<Longrightarrow> set (map fst ms) \<subseteq> K \<Longrightarrow> k \<in> K \<Longrightarrow> map_of (map (\<lambda>(k, x). (f k, x)) ms) (f k) = map_of ms k"
  by (induction ms) (auto dest: inj_onD)

lemma restore_files_frame:
  "p \<notin> store_member_path s fp ` set (map fst members) \<Longrightarrow> restore_files s fp members fs p = fs p"
proof -
  assume p: "p \<notin> store_member_path s fp ` set (map fst members)"
  have "foldl (\<lambda>fs k. case map_of members k of None \<Rightarrow> fs | Some x \<Rightarrow> fs(store_member_path s fp k \<mapsto> x)) g ks p = g p" for g ks
  proof (induction ks arbitrary: g)
    case (Cons k ks)
    show ?case
    proof (cases "map_of members k")
      case (Some x)
      then have "p \<noteq> store_member_path s fp k" using p by (force dest: map_of_SomeD)
      then show ?thesis using Cons Some by simp
    qed (simp add: Cons)
  qed simp
  then show ?thesis by (simp add: restore_files_def)
qed

text \<open>A restore writes exactly the archived members to their places in the store.\<close>

lemma restore_files_exact:
  assumes ms: "set (map fst ms) \<subseteq> set ARCHIVE_MEMBER_KEYS"
  shows "restore_files s fp ms fs = fs ++ map_of (map (\<lambda>(k, x). (in_store s fp k, x)) ms)" (is "?l = ?r")
proof
  fix p
  show "?l p = ?r p"
  proof (cases "p \<in> in_store s fp ` set (map fst ms)")
    case True
    then obtain k where k: "k \<in> set (map fst ms)" "p = in_store s fp k" by blast
    then have kk: "k \<in> set ARCHIVE_MEMBER_KEYS" using ms by blast
    from k(1) obtain x where x: "map_of ms k = Some x" by (metis map_of_eq_None_iff not_None_eq set_map)
    have "map_of (map (\<lambda>(k, x). (in_store s fp k, x)) ms) p = Some x"
      using map_of_rekeyed [OF in_store_inj ms kk] x k(2) by simp
    then show ?thesis using restored_files [OF kk x, of s fp fs] store_member_in_store [OF kk] k(2)
      by (simp add: map_add_def)
  next
    case False
    then have "p \<notin> store_member_path s fp ` set (map fst ms)" using ms store_member_in_store by (auto simp: image_iff) fastforce
    moreover have "map_of (map (\<lambda>(k, x). (in_store s fp k, x)) ms) p = None"
      using False by (auto simp: map_of_eq_None_iff image_iff)
    ultimately show ?thesis by (simp add: restore_files_frame map_add_def)
  qed
qed

lemma restored_path_kept:
  "k \<in> set ARCHIVE_MEMBER_KEYS \<Longrightarrow> map_of members k = None \<Longrightarrow> member_path (restored_row s m members c) k = member_path c k"
  by (erule keys_cases) (auto simp: restored_row_def ARCHIVE_MEMBER_KEYS_def member_path_def set_member_path_def)

lemma restored_row_paths:
  "list_all (\<lambda>k. member_path (restored_row s m ms c) k =
     (if k \<in> set (map fst ms) then Some (in_store s (m_fingerprint_sha256 m) k) else member_path c k)) ARCHIVE_MEMBER_KEYS"
proof -
  have "member_path (restored_row s m ms c) k =
     (if k \<in> set (map fst ms) then Some (in_store s (m_fingerprint_sha256 m) k) else member_path c k)"
    if "k \<in> set ARCHIVE_MEMBER_KEYS" for k
  proof (cases "map_of ms k")
    case None
    then have "k \<notin> set (map fst ms)" by (simp add: map_of_eq_None_iff)
    then show ?thesis using restored_path_kept [OF that None] by simp
  next
    case (Some x)
    then have "k \<in> set (map fst ms)" by (metis map_of_eq_None_iff option.distinct(1) set_map)
    then show ?thesis using restored_path [OF that Some] store_member_in_store [OF that] by simp
  qed
  then show ?thesis by (simp add: list_all_iff)
qed

text \<open>C14: A backup can be restored.  Whatever happened to the files and the row of a certificate after its
  backup, as long as the archive is still there and the row carries no other fingerprint, restoring the archive
  into it succeeds and is committed.  It writes exactly the archived material, each part with the archived content
  to its file below the directory of the fingerprint in the store, and no other file; the row names these files,
  keeps its path for a part that was not archived, and so the material of the row contains all that was backed up.\<close>

theorem backup_restore_roundtrip:
  assumes ar: "archiver_correct ar"
    and b: "backup_certificate cx ar strf now i c w = (Inr (Some b), w1)"
    and x: "map_of (material c (files w)) ''cert_path'' = Some pem" "parse_certificate (cx_x5 cx) pem = Inr m"
    and t: "tbl_get i (certificates (work w2)) = Some c2"
      "truthy (c_fingerprint_sha256 c2) \<longrightarrow> c_fingerprint_sha256 c2 = Some (m_fingerprint_sha256 m)"
    and f: "files w2 (archive_path (cx_cfg cx) i (strf now)) = files w1 (archive_path (cx_cfg cx) i (strf now))"
  shows "\<exists>r c3 w3. restore_certificate cx ar now2 (archive_path (cx_cfg cx) i (strf now)) (Some i) False u w2 = (Inr r, w3) \<and>
    committed w3 = work w3 \<and> tbl_get i (certificates (committed w3)) = Some c3 \<and>
    files w3 = files w2 ++ map_of (map (\<lambda>(k, x). (in_store (cx_cfg cx) (m_fingerprint_sha256 m) k, x)) (material c (files w))) \<and>
    list_all (\<lambda>k. member_path c3 k =
      (if k \<in> set (map fst (material c (files w))) then Some (in_store (cx_cfg cx) (m_fingerprint_sha256 m) k) else member_path c2 k))
      ARCHIVE_MEMBER_KEYS \<and>
    map_of (material c (files w)) \<subseteq>\<^sub>m map_of (material c3 (files w3))"
proof -
  let ?p = "archive_path (cx_cfg cx) i (strf now)" and ?ms = "material c (files w)"
  have "files w1 ?p = Some (ar_pack ar (map (\<lambda>(k, x). (k @ ''.bin'', x)) ?ms))"
    using b by (auto simp: backup_certificate_def op_simps fs_write_def db_get_def db_mod_def commit_def Let_def split: if_splits)
  moreover have "''cert_path'' \<in> set (map fst ?ms)" using x(1) by (metis map_of_eq_None_iff option.distinct(1) set_map)
  ultimately have "read_archive_safely ar ?p (files w2) = Inr ?ms"
    using read_packed [OF ar, of "files w2" ?p ?ms] material_facts [of c "files w"] f by simp
  from restore_existing_runs [OF this _ t, of cx now2 u] x
  obtain r w3 where r: "restore_certificate cx ar now2 ?p (Some i) False u w2 = (Inr r, w3)" "committed w3 = work w3"
    "files w3 = restore_files (cx_cfg cx) (m_fingerprint_sha256 m) ?ms (files w2)"
    "tbl_get i (certificates (committed w3)) = Some (restored_row (cx_cfg cx) m ?ms c2)"
    by (auto simp: or_default_def)
  have "map_of ?ms \<subseteq>\<^sub>m map_of (material (restored_row (cx_cfg cx) m ?ms c2) (files w3))"
    using restored_material [of _ ?ms] unfolding r(3) map_le_def material_lookup by (auto split: if_splits)
  moreover have "files w3 = files w2 ++ map_of (map (\<lambda>(k, x). (in_store (cx_cfg cx) (m_fingerprint_sha256 m) k, x)) ?ms)"
    unfolding r(3) by (rule restore_files_exact) (use material_facts [of c "files w"] in blast)
  ultimately show ?thesis using r(1,2,4) restored_row_paths by blast
qed

text \<open>C15: Restoring is atomic: a restore that raises (a missing or corrupt archive, another certificate's
  fingerprint, a wrong master key, a refused import) has changed nothing in the database, a dry run has changed
  nothing at all, and a restore that returns is committed.\<close>

theorem restore_atomic:
  assumes wf: "wf_table (certificates (work w))"
  shows "case restore_certificate cx ar now archive certificate_id dry_run u w of
      (Inl e, w') \<Rightarrow> committed w' = committed w \<and> work w' = work w
    | (Inr r, w') \<Rightarrow> (if dry_run then w' = w else committed w' = work w')"
proof -
  let ?Q = "\<lambda>r w'. if dry_run then w' = w else committed w' = work w'"
  let ?E = "\<lambda>e w'. committed w' = committed w \<and> work w' = work w"
  have new: "wp (restore_new cx now m members) (\<lambda>_ _. True) ?E w" for m members
    unfolding restore_new_def wp_bnd wp_lift
    by (cases "archived_key (cx_kc cx) members") (auto simp: wp_simps intro!: wp_mono [OF import_wp [OF wf]])
  have old: "wp (restore_existing cx now m members i) (\<lambda>_ _. True) ?E w" for m members i
    by (simp add: restore_existing_def wp_simps)
  have "wp (restore_certificate cx ar now archive certificate_id dry_run u) ?Q ?E w"
    unfolding restore_certificate_def wp_bnd wp_lift
    by (auto simp: wp_prim wp_db wp_if record_audit_def wp_bnd intro!: wp_mono [OF new] wp_mono [OF old]
        split: sum.splits option.splits)
  then show ?thesis by (auto simp: wp_def split: prod.splits sum.splits)
qed

text \<open>The clean-up removes exactly the backups older than the retention period, counts them, and deletes
  no archive that a remaining backup still names, unless an old backup names the same one.\<close>

theorem cleanup_exact:
  "\<exists>w'. cleanup_old_backups s now w =
      (Inr (length (filter (\<lambda>b. created_at b < now - backup_keep_days s * us_per_day) (rows (backups (work w))))), w') \<and>
    rows (backups (committed w')) = filter (\<lambda>b. \<not> created_at b < now - backup_keep_days s * us_per_day) (rows (backups (work w))) \<and>
    certificates (committed w') = certificates (work w) \<and>
    (\<forall>p. files w' p = (if \<exists>b \<in> set (rows (backups (work w))). created_at b < now - backup_keep_days s * us_per_day \<and>
        b_storage_path (rval b) = p then None else files w p))"
  by (auto simp: cleanup_old_backups_def Let_def op_simps db_get_def db_mod_def commit_def tbl_sel_def tbl_del_where_def image_iff)

section \<open>Verification\<close>

text \<open>An archive that was just written verifies: it opens, contains the certificate and has the recorded
  checksum, provided the backup found the certificate's own file and no earlier backup used the same name.\<close>

theorem fresh_backup_verifies:
  assumes ar: "archiver_correct ar" and b: "backup_certificate cx ar strf now i c w = (Inr (Some b), w1)"
    and x: "map_of (material c (files w)) ''cert_path'' = Some pem"
    and new: "tbl_first (\<lambda>v. b_storage_path (rval v) = archive_path (cx_cfg cx) i (strf now)) (backups (work w)) = None"
  shows "\<exists>r. verify_backup_archives cx ar check_dump [archive_path (cx_cfg cx) i (strf now)] [] False True w1 = (Inr r, w1) \<and>
    vs_ok r \<and> vs_archives_verified r = 1"
proof -
  let ?p = "archive_path (cx_cfg cx) i (strf now)" and ?ms = "material c (files w)"
  let ?d = "ar_pack ar (map (\<lambda>(k, x). (k @ ''.bin'', x)) ?ms)"
  have w1: "files w1 ?p = Some ?d" "backups (work w1) = snd (tbl_add now (backup_row cx i c ?p ?d) (backups (work w)))"
    using b by (auto simp: backup_certificate_def op_simps fs_write_def db_get_def db_mod_def commit_def Let_def split: if_splits)
  have "''cert_path'' \<in> set (map fst ?ms)" using x by (metis map_of_eq_None_iff option.distinct(1) set_map)
  then have "read_archive_safely ar ?p (files w1) = Inr ?ms"
    using read_packed [OF ar, of "files w1" ?p ?ms] w1(1) material_facts [of c "files w"] by simp
  moreover have "\<exists>v. tbl_first (\<lambda>v. b_storage_path (rval v) = ?p) (backups (work w1)) = Some v \<and> rval v = backup_row cx i c ?p ?d"
    using new unfolding w1(2) by (auto simp: tbl_first_def tbl_add_def find_append backup_row_def)
  ultimately have "check_archive cx ar True (files w1) (work w1) ?p = Inr ()"
    using w1(1) by (auto simp: check_archive_def backup_row_def or_default_def)
  then show ?thesis
    by (simp add: verify_backup_archives_def archive_sample_def map_filter_simps op_simps db_get_def Let_def)
qed

section \<open>Database dumps\<close>

lemma part_until_append:
  assumes "a \<noteq> []" "list_all (\<lambda>c. \<not> stop c) a" "r = [] \<or> stop (hd r)"
  shows "part_until stop (a @ r) = Some (a, r)"
proof -
  have "takeWhile (\<lambda>c. \<not> stop c) (a @ r) = a"
    using assms(2,3) by (cases r) (auto simp: list_all_iff takeWhile_eq_all_conv [THEN iffD2] takeWhile_append2)
  then show ?thesis using assms(1) by (simp add: part_until_def Let_def)
qed

text \<open>The address of a PostgreSQL database is read back from its URL, provided no part contains the separator that
  ends it; an escaped password is passed on as it is written.\<close>

theorem postgres_url_roundtrip:
  assumes "user \<noteq> []" "CHR '':'' \<notin> set user" "password \<noteq> []" "CHR ''@'' \<notin> set password"
    and "host \<noteq> []" "CHR '':'' \<notin> set host" "CHR ''/'' \<notin> set host"
    and "port \<noteq> []" "list_all py_isdigit_ascii port" "name \<noteq> []" "list_all word_char name"
  shows "postgres_url (''postgresql://'' @ user @ '':'' @ password @ ''@'' @ host @ '':'' @ port @ ''/'' @ name) =
    Some (user, password, host, port, name)"
proof -
  have d: "\<not> py_isdigit_ascii CHR ''/''" by code_simp
  have u: "part_until (\<lambda>c. c = CHR '':'') (user @ '':'' @ r) = Some (user, '':'' @ r)" for r
    by (rule part_until_append) (use assms in \<open>auto simp: list_all_iff\<close>)
  have p: "part_until (\<lambda>c. c = CHR ''@'') (password @ ''@'' @ r) = Some (password, ''@'' @ r)" for r
    by (rule part_until_append) (use assms in \<open>auto simp: list_all_iff\<close>)
  have h: "part_until (\<lambda>c. c = CHR '':'' \<or> c = CHR ''/'') (host @ '':'' @ r) = Some (host, '':'' @ r)" for r
    by (rule part_until_append) (use assms in \<open>auto simp: list_all_iff\<close>)
  have o': "part_until (\<lambda>c. \<not> py_isdigit_ascii c) (port @ ''/'' @ r) = Some (port, ''/'' @ r)" for r
    by (rule part_until_append) (use assms d in \<open>auto simp: list_all_iff\<close>)
  have n: "part_until (\<lambda>c. \<not> word_char c) name = Some (name, [])"
    using part_until_append [of name "\<lambda>c. \<not> word_char c" "[]"] assms by simp
  show ?thesis
    using u [of "password @ ''@'' @ host @ '':'' @ port @ ''/'' @ name"] p [of "host @ '':'' @ port @ ''/'' @ name"]
      h [of "port @ ''/'' @ name"] o' [of name] n
    by (simp add: postgres_url_def url_scheme_def after_prefix_def py_startswith_def url_authority_def url_port_def
        url_dbname_def List.map_filter_def)
qed

end
