(* ===== verification/Backup_Witnesses.thy ===== *)
theory Backup_Witnesses
  imports Backup_Proofs Cert_Witnesses
begin

text \<open>A certificate with one file, backed up, lost and restored.\<close>

text \<open>An archive whose length is the number of its list of members.\<close>

definition unary_archiver :: archiver where
  "unary_archiver = \<lparr>ar_pack = (\<lambda>ms. replicate (to_nat ms) CHR ''x''), ar_open = (\<lambda>_. None),
     ar_members = (\<lambda>s. Inr (map (\<lambda>(n, x). (n, True, x)) (from_nat (length s))))\<rparr>"

lemma unary_archiver_correct: "archiver_correct unary_archiver"
  by (simp add: archiver_correct_def unary_archiver_def)

definition kept_cert :: certificate where
  "kept_cert = demo_cert\<lparr>c_cert_path := Some ''/c''\<rparr>"

definition kept_world :: world where
  "kept_world = (demo_session kept_cert)\<lparr>files := [''/c'' \<mapsto> ''pem'']\<rparr>"

definition backed_up :: "(exn + int option) \<times> world" where
  "backed_up = backup_certificate with_provider unary_archiver (\<lambda>_. ''t'') 5 1 kept_cert kept_world"

lemma kept_material: "material kept_cert (files kept_world) = [(''cert_path'', ''pem'')]"
  by (simp add: material_def kept_cert_def kept_world_def demo_cert_def new_certificate_def ARCHIVE_MEMBER_KEYS_def
      map_filter_simps member_path_def truthy_def str_or_def)

lemma backed_up_runs: "\<exists>b w1. backed_up = (Inr (Some b), w1) \<and> work w1 = committed w1 \<and> certificates (work w1) = certificates (work kept_world)"
  by (simp add: backed_up_def backup_certificate_def kept_material op_simps fs_write_def db_get_def db_mod_def Let_def)

lemma kept_facts:
  "map_of (material kept_cert (files kept_world)) ''cert_path'' = Some ''pem''"
  "parse_certificate (cx_x5 with_provider) ''pem'' = Inr demo_meta"
  by (simp_all add: kept_material with_provider_def demo_ctx_def demo_x509_def)

text \<open>After the backup the file itself is gone.\<close>

lemma backup_restore_roundtrip_witness:
  "\<exists>r c3 w1 w3. snd backed_up = w1 \<and>
     restore_certificate with_provider unary_archiver 9 (archive_path (cx_cfg with_provider) 1 ''t'') (Some 1) False None
       (w1\<lparr>files := (files w1)(''/c'' := None)\<rparr>) = (Inr r, w3) \<and>
     committed w3 = work w3 \<and> map_of (material c3 (files w3)) ''cert_path'' = Some ''pem''"
proof -
  obtain b w1 where b: "backed_up = (Inr (Some b), w1)" "certificates (work w1) = certificates (work kept_world)"
    using backed_up_runs by blast
  let ?w2 = "w1\<lparr>files := (files w1)(''/c'' := None)\<rparr>"
  have t: "tbl_get 1 (certificates (work ?w2)) = Some kept_cert" using b(2) by (simp add: kept_world_def)
  have fp: "truthy (c_fingerprint_sha256 kept_cert) \<longrightarrow> c_fingerprint_sha256 kept_cert = Some (m_fingerprint_sha256 demo_meta)"
    by (simp add: kept_cert_def demo_cert_def new_certificate_def truthy_def)
  have f: "files ?w2 (archive_path (cx_cfg with_provider) 1 ''t'') = files w1 (archive_path (cx_cfg with_provider) 1 ''t'')"
    by (simp add: archive_path_def with_provider_def default_settings_def)
  from backup_restore_roundtrip [OF unary_archiver_correct b(1) [unfolded backed_up_def] kept_facts t fp f, of 9 None]
  obtain r c3 w3 where "restore_certificate with_provider unary_archiver 9 (archive_path (cx_cfg with_provider) 1 ''t'') (Some 1)
      False None ?w2 = (Inr r, w3)" "committed w3 = work w3" "map_of (material kept_cert (files kept_world)) \<subseteq>\<^sub>m map_of (material c3 (files w3))"
    by blast
  moreover have "map_of (material c3 (files w3)) ''cert_path'' = Some ''pem''"
    using bspec [OF calculation(3) [unfolded map_le_def], of "''cert_path''"] kept_facts(1) by (simp add: domI)
  ultimately show ?thesis unfolding b(1) snd_conv by blast
qed

lemma restore_atomic_witness:
  "case restore_certificate with_provider unary_archiver 9 ''/none'' None False None kept_world of
      (Inl e, w') \<Rightarrow> committed w' = committed kept_world \<and> work w' = work kept_world
    | (Inr r, w') \<Rightarrow> (if False then w' = kept_world else committed w' = work w')"
  by (rule restore_atomic) (simp add: kept_world_def)

lemma fresh_backup_verifies_witness:
  "\<exists>r. verify_backup_archives with_provider unary_archiver (\<lambda>_. (True, [])) [archive_path (cx_cfg with_provider) 1 ''t''] [] False True
     (snd backed_up) = (Inr r, snd backed_up) \<and> vs_ok r"
proof -
  obtain b w1 where b: "backed_up = (Inr (Some b), w1)" using backed_up_runs by blast
  have "tbl_first (\<lambda>v. b_storage_path (rval v) = archive_path (cx_cfg with_provider) 1 ((\<lambda>_. ''t'') 5)) (backups (work kept_world)) = None"
    by (simp add: tbl_first_def kept_world_def demo_session_def open_session_def empty_db_def empty_table_def)
  from fresh_backup_verifies [OF unary_archiver_correct b [unfolded backed_up_def] kept_facts(1) this, of "\<lambda>_. (True, [])"]
  show ?thesis unfolding b snd_conv by blast
qed

end
