(* ===== verification/Webhooks.thy ===== *)
theory Webhooks
  imports Cert_Api
begin

text \<open>
  Outbound webhooks, \<open>app/services/webhook_service.py\<close>, with the delivery task of
  \<open>app/tasks/notifications.py\<close> and the endpoints of \<open>app/api/v1/extras.py\<close>.  The HTTP client, the
  message authentication code and the JSON encoding are a \<open>hook_net\<close>; the messages handed to the client are
  recorded in their order.
\<close>

record http_message =
  hm_url :: string
  hm_body :: string
  hm_headers :: "(string \<times> string) list"

text \<open>What the call \<^verbatim>\<open>httpx.post\<close> does: it raises an exception that is not an \<^verbatim>\<open>httpx.HTTPError\<close> (an
  \<^verbatim>\<open>httpx.InvalidURL\<close> for a malformed address, which no schema checks), it raises an \<^verbatim>\<open>HTTPError\<close> with
  its text, or it returns an answer with its status and text.\<close>

type_synonym http_result = "exn + string + int \<times> string"

record hook_net =
  hn_hmac :: "string \<Rightarrow> string \<Rightarrow> string"
  hn_body :: "string \<Rightarrow> dict \<Rightarrow> datetime \<Rightarrow> string"
  hn_post :: "http_message \<Rightarrow> http_result"

record hook_state =
  hk_world :: world
  hk_sent :: "http_message list"

type_synonym 'a hop = "(hook_state, 'a) op"

definition hook_world :: "'a wop \<Rightarrow> 'a hop" where
  "hook_world m s = (case m (hk_world s) of (r, w) \<Rightarrow> (r, s\<lparr>hk_world := w\<rparr>))"

text \<open>The exception that is not an \<^verbatim>\<open>HTTPError\<close> escapes.\<close>

definition post_message :: "hook_net \<Rightarrow> http_message \<Rightarrow> (string + int \<times> string) hop" where
  "post_message net m s = (hn_post net m, s\<lparr>hk_sent := hk_sent s @ [m]\<rparr>)"

definition WEBHOOK_EVENTS :: "string list" where
  "WEBHOOK_EVENTS = [''certificate.issued'', ''certificate.renewed'', ''certificate.expired'', ''certificate.revoked'',
     ''certificate.imported'', ''deployment.completed'', ''deployment.failed'', ''renewal.failed'']"

section \<open>Delivery\<close>

definition hook_secret :: "crypto \<Rightarrow> webhook_endpoint \<Rightarrow> exn + string option" where
  "hook_secret k ep =
     (if truthy (we_secret_encrypted ep)
      then (case decrypt_secret k (str_or (we_secret_encrypted ep) []) of Inl e \<Rightarrow> Inl e | Inr s \<Rightarrow> Inr (Some s))
      else Inr None)"

definition hook_message :: "hook_net \<Rightarrow> string \<Rightarrow> string \<Rightarrow> string \<Rightarrow> string option \<Rightarrow> http_message" where
  "hook_message net url event body secret = \<lparr>hm_url = url, hm_body = body, hm_headers =
     [(''Content-Type'', ''application/json''), (''User-Agent'', ''CertMgr/1.0''), (''X-CertMgr-Event'', event)] @
     (if truthy secret then [(''X-CertMgr-Signature'', ''sha256='' @ hn_hmac net (str_or secret []) body)] else [])\<rparr>"

definition is_success :: "int \<Rightarrow> bool" where
  "is_success status \<longleftrightarrow> 200 \<le> status \<and> status \<le> 299"

definition delivery_result :: "string + int \<times> string \<Rightarrow> webhook_delivery \<Rightarrow> webhook_delivery" where
  "delivery_result r d =
     (case r of
        Inl err \<Rightarrow> d\<lparr>wd_status := ''failed'', wd_error := Some err\<rparr>
      | Inr (status, text) \<Rightarrow>
          let d' = d\<lparr>wd_status := (if is_success status then ''delivered'' else ''failed''),
                wd_response_code := Some status, wd_response_body := Some (take 2000 text)\<rparr> in
          if is_success status then d' else d'\<lparr>wd_error := Some (''HTTP '' @ str_int status)\<rparr>)"

definition touch_endpoint :: "datetime \<Rightarrow> int \<Rightarrow> string + int \<times> string \<Rightarrow> db \<Rightarrow> db" where
  "touch_endpoint now e r =
     (case r of Inl _ \<Rightarrow> id
      | Inr _ \<Rightarrow> webhook_endpoints_update (tbl_upd now e (\<lambda>x. x\<lparr>we_last_delivery_at := None\<rparr>)))"

text \<open>The result is the status, the answer's code and the error.  A delivery without its endpoint fails on the
  missing attribute.\<close>

definition send_delivery ::
    "ctx \<Rightarrow> hook_net \<Rightarrow> datetime \<Rightarrow> int \<Rightarrow> (string \<times> int option \<times> string option) hop" where
  "send_delivery cx net now i =
     bnd (hook_world (db_get (\<lambda>d. tbl_get i (webhook_deliveries d)))) (\<lambda>row.
     case row of
       None \<Rightarrow> ret (''failed'', None, Some ''delivery not found'')
     | Some x \<Rightarrow>
         bnd (hook_world (db_get (\<lambda>d. tbl_get (wd_endpoint_id x) (webhook_endpoints d)))) (\<lambda>endpoint.
         case endpoint of
           None \<Rightarrow> fail AttributeError ''secret_encrypted''
         | Some ep \<Rightarrow>
             let body = hn_body net (wd_event x) (wd_payload x) now in
             bnd (lift_exn (hook_secret (cx_kc cx) ep)) (\<lambda>secret.
             bnd (post_message net (hook_message net (we_url ep) (wd_event x) body secret)) (\<lambda>r.
             bnd (hook_world (db_mod (webhook_deliveries_update (tbl_upd now i (delivery_result r))))) (\<lambda>_.
             bnd (hook_world (db_mod (touch_endpoint now (wd_endpoint_id x) r))) (\<lambda>_.
             bnd (hook_world commit) (\<lambda>_.
             let y = delivery_result r x in ret (wd_status y, wd_response_code y, wd_error y))))))))"

definition deliver_webhook_task :: "ctx \<Rightarrow> hook_net \<Rightarrow> datetime \<Rightarrow> int \<Rightarrow> (string \<times> int option \<times> string option) hop" where
  "deliver_webhook_task cx net now i s =
     (case bnd (hook_world (ensure_not_maintenance now ''background job'')) (\<lambda>_. send_delivery cx net now i) s of
        (Inl e, t) \<Rightarrow> (Inl e, t\<lparr>hk_world := (hk_world t)\<lparr>work := committed (hk_world t)\<rparr>\<rparr>)
      | (Inr r, t) \<Rightarrow> (Inr r, t\<lparr>hk_world := (hk_world t)\<lparr>committed := work (hk_world t)\<rparr>\<rparr>))"

section \<open>Dispatch\<close>

definition new_delivery :: "int \<Rightarrow> string \<Rightarrow> dict \<Rightarrow> webhook_delivery" where
  "new_delivery e event payload = \<lparr>wd_endpoint_id = e, wd_event = event, wd_payload = payload, wd_status = ''pending'',
     wd_response_code = None, wd_response_body = None, wd_error = None\<rparr>"

text \<open>Outside the eager mode the helper \<open>deliver_webhooks_async\<close> is asked for an attribute \<^verbatim>\<open>delay\<close>, which a plain
  function does not have.\<close>

fun dispatch_loop :: "ctx \<Rightarrow> hook_net \<Rightarrow> datetime \<Rightarrow> string \<Rightarrow> dict \<Rightarrow> (int \<times> webhook_endpoint) list \<Rightarrow> unit hop" where
  "dispatch_loop cx net now event payload [] = ret ()"
| "dispatch_loop cx net now event payload ((e, ep) # eps) =
     (if event \<in> set (we_events ep) then
        bnd (hook_world (db_get (\<lambda>d. next_id (webhook_deliveries d)))) (\<lambda>i.
        bnd (hook_world (db_mod (webhook_deliveries_update (\<lambda>t. snd (tbl_add now (new_delivery e event payload) t))))) (\<lambda>_.
        bnd (if celery_task_always_eager (cx_cfg cx) then bnd (send_delivery cx net now i) (\<lambda>_. ret ())
             else fail AttributeError ''delay'') (\<lambda>_.
        dispatch_loop cx net now event payload eps)))
      else dispatch_loop cx net now event payload eps)"

definition dispatch :: "ctx \<Rightarrow> hook_net \<Rightarrow> datetime \<Rightarrow> string \<Rightarrow> dict \<Rightarrow> unit hop" where
  "dispatch cx net now event payload =
     bnd (hook_world (db_get (\<lambda>d. map (\<lambda>w. (rid w, rval w)) (tbl_sel (\<lambda>w. we_is_active (rval w)) (webhook_endpoints d))))) (\<lambda>eps.
     dispatch_loop cx net now event payload eps)"

section \<open>Endpoints\<close>

record webhook_create =
  wc_name :: string
  wc_url :: string
  wc_secret :: "string option"
  wc_events :: "string list"
  wc_is_active :: bool

definition webhook_create_ok :: "webhook_create \<Rightarrow> bool" where
  "webhook_create_ok b \<longleftrightarrow> 2 \<le> length (wc_name b) \<and> length (wc_name b) \<le> 128 \<and>
     8 \<le> length (wc_url b) \<and> length (wc_url b) \<le> 2048 \<and>
     (case wc_secret b of None \<Rightarrow> True | Some s \<Rightarrow> length s \<le> 512)"

definition endpoint_row :: "crypto \<Rightarrow> string \<Rightarrow> webhook_create \<Rightarrow> webhook_endpoint" where
  "endpoint_row k iv b = \<lparr>we_name = wc_name b, we_url = wc_url b,
     we_secret_encrypted = (if truthy (wc_secret b) then Some (encrypt_secret k iv (str_or (wc_secret b) [])) else None),
     we_events = wc_events b, we_is_active = wc_is_active b, we_last_delivery_at = None, we_failure_count = 0\<rparr>"

definition create_endpoint :: "ctx \<Rightarrow> datetime \<Rightarrow> api_user \<Rightarrow> request \<Rightarrow> webhook_create \<Rightarrow> int wop" where
  "create_endpoint cx now user rq b =
     (if \<not> webhook_create_ok b then fail ValidationAppError ''Request validation failed''
      else
        bnd (require_admin user ''Only administrators can manage webhooks'') (\<lambda>_.
        bnd (db_get (\<lambda>d. next_id (webhook_endpoints d))) (\<lambda>e.
        bnd (db_mod (webhook_endpoints_update (\<lambda>t. snd (tbl_add now (endpoint_row (cx_kc cx) (cx_ivf cx) b) t)))) (\<lambda>_.
        bnd commit (\<lambda>_.
        bnd (audit_request cx now ''webhook.create'' user (Some (''webhook'', str_int e)) rq []) (\<lambda>_. ret e))))))"

end
