(* ===== verification/Webhook_Proofs.thy ===== *)
theory Webhook_Proofs
  imports Webhooks Cert_Witnesses
begin

text \<open>
  What a webhook delivery sends and records, that its signature is the one of the secret the endpoint was
  created with, and that outside the eager mode no event can be dispatched.
\<close>

lemma hook_world_db [simp]:
  "hook_world (db_get f) s = (Inr (f (work (hk_world s))), s)"
  "hook_world (db_mod g) s = (Inr (), s\<lparr>hk_world := (hk_world s)\<lparr>work := g (work (hk_world s))\<rparr>\<rparr>)"
  "hook_world commit s = (Inr (), s\<lparr>hk_world := (hk_world s)\<lparr>committed := work (hk_world s)\<rparr>\<rparr>)"
  by (simp_all add: hook_world_def db_get_def db_mod_def op_simps)

lemma bnd_hook_db [simp]:
  "bnd (hook_world (db_get f)) h s = h (f (work (hk_world s))) s"
  "bnd (hook_world (db_mod g)) h' s = h' () (s\<lparr>hk_world := (hk_world s)\<lparr>work := g (work (hk_world s))\<rparr>\<rparr>)"
  "bnd (hook_world commit) h' s = h' () (s\<lparr>hk_world := (hk_world s)\<lparr>committed := work (hk_world s)\<rparr>\<rparr>)"
  by (simp_all add: bnd_def)

lemma hook_secret_roundtrip:
  "fernet_correct k \<Longrightarrow> wc_secret b = Some s \<Longrightarrow> s \<noteq> [] \<Longrightarrow> encrypt_secret k iv s \<noteq> [] \<Longrightarrow>
   hook_secret k (endpoint_row k iv b) = Inr (Some s)"
  by (simp add: hook_secret_def endpoint_row_def truthy_def str_or_def secret_roundtrip)

lemma delivered_iff: "wd_status (delivery_result r x) = ''delivered'' \<longleftrightarrow> (\<exists>st t. r = Inr (st, t) \<and> is_success st)"
  by (auto simp: delivery_result_def Let_def split: sum.splits)

text \<open>C32: A delivery to an endpoint that was created with a secret hands exactly one message to the HTTP
  client, for the endpoint's address, signed with that secret over exactly the body of the message.  If the
  client answers or reports a transport error, the delivery returns, its outcome is committed, and it is
  \<open>delivered\<close> exactly when the answer's status is a success.  Any other exception of the client, such as
  the one for a malformed address, escapes with nothing changed: the delivery keeps the status it had.\<close>

theorem delivery_signed:
  assumes k: "fernet_correct (cx_kc cx)" "encrypt_secret (cx_kc cx) iv sec \<noteq> []" and b: "wc_secret b = Some sec" "sec \<noteq> []"
    and d: "tbl_get i (webhook_deliveries (work (hk_world s))) = Some x"
      "tbl_get (wd_endpoint_id x) (webhook_endpoints (work (hk_world s))) = Some (endpoint_row (cx_kc cx) iv b)"
  shows "\<exists>m q t. send_delivery cx net now i s = (q, t) \<and> hk_sent t = hk_sent s @ [m] \<and> hm_url m = wc_url b \<and>
    map_of (hm_headers m) ''X-CertMgr-Signature'' = Some (''sha256='' @ hn_hmac net sec (hm_body m)) \<and>
    (case hn_post net m of
       Inl e \<Rightarrow> q = Inl e \<and> hk_world t = hk_world s
     | Inr a \<Rightarrow> \<exists>r. q = Inr r \<and>
         (fst r = ''delivered'' \<longleftrightarrow> (\<exists>st txt. a = Inr (st, txt) \<and> is_success st)) \<and>
         committed (hk_world t) = work (hk_world t) \<and>
         map_option wd_status (tbl_get i (webhook_deliveries (committed (hk_world t)))) = Some (fst r))"
proof -
  let ?m = "hook_message net (wc_url b) (wd_event x) (hn_body net (wd_event x) (wd_payload x) now) (Some sec)"
  have "hook_secret (cx_kc cx) (endpoint_row (cx_kc cx) iv b) = Inr (Some sec)" by (rule hook_secret_roundtrip [OF k(1) b k(2)])
  moreover have "we_url (endpoint_row (cx_kc cx) iv b) = wc_url b" by (simp add: endpoint_row_def)
  moreover have "webhook_deliveries (touch_endpoint now e r d) = webhook_deliveries d" for e r d
    by (simp add: touch_endpoint_def split: sum.splits)
  ultimately show ?thesis using d b
    by (cases "hn_post net ?m"; intro exI [of _ ?m])
      (simp_all add: send_delivery_def op_simps post_message_def bnd_def Let_def delivered_iff tbl.get_upd hook_message_def
        truthy_def str_or_def)
qed

text \<open>Outside the eager mode no event is ever dispatched: as soon as one active endpoint subscribes to it, the
  dispatcher fails on the missing attribute of the helper, sends nothing and commits nothing.\<close>

theorem dispatch_fails:
  assumes eager: "\<not> celery_task_always_eager (cx_cfg cx)"
    and ep: "w \<in> set (rows (webhook_endpoints (work (hk_world s))))" "we_is_active (rval w)" "event \<in> set (we_events (rval w))"
  shows "\<exists>e t. dispatch cx net now event payload s = (Inl e, t) \<and> exc_of e = AttributeError \<and> hk_sent t = hk_sent s \<and>
    committed (hk_world t) = committed (hk_world s)"
proof -
  have "\<exists>e t. dispatch_loop cx net now event payload eps s = (Inl e, t) \<and> exc_of e = AttributeError \<and> hk_sent t = hk_sent s \<and>
      committed (hk_world t) = committed (hk_world s)"
    if "(rid w, rval w) \<in> set eps" for eps
    using that
  proof (induction eps)
    case (Cons x eps)
    then show ?case using eager ep(3) by (cases x) (auto simp: throw_simp)
  qed simp
  then show ?thesis using ep by (auto simp: dispatch_def tbl_sel_def)
qed

section \<open>Witnesses\<close>

definition demo_hook :: webhook_create where
  "demo_hook = \<lparr>wc_name = ''ops'', wc_url = ''https://h.io/x'', wc_secret = Some ''s3'', wc_events = [''certificate.issued''],
     wc_is_active = True\<rparr>"

definition demo_hook_net :: hook_net where
  "demo_hook_net = \<lparr>hn_hmac = (\<lambda>k m. k @ m), hn_body = (\<lambda>e _ _. e),
     hn_post = (\<lambda>m. if py_startswith (hm_url m) ''https://'' then Inr (Inr (204, [])) else raises ValueError ''Invalid URL'')\<rparr>"

definition hook_state_of :: "webhook_create \<Rightarrow> hook_state" where
  "hook_state_of b = \<lparr>hk_world = open_session (empty_db\<lparr>
     webhook_endpoints := snd (tbl_add 0 (endpoint_row clear_crypto ''iv'' b) empty_table),
     webhook_deliveries := snd (tbl_add 0 (new_delivery 1 ''certificate.issued'' []) empty_table)\<rparr>) Map.empty, hk_sent = []\<rparr>"

lemma hk_sent_start: "hk_sent (hook_state_of b) = []"
  by (simp add: hook_state_of_def)

definition demo_hook_state :: hook_state where
  "demo_hook_state = hook_state_of demo_hook"

lemma hook_state_facts:
  "tbl_get 1 (webhook_deliveries (work (hk_world (hook_state_of b)))) = Some (new_delivery 1 ''certificate.issued'' [])"
  "tbl_get 1 (webhook_endpoints (work (hk_world (hook_state_of b)))) = Some (endpoint_row clear_crypto ''iv'' b)"
  "cx_kc with_provider = clear_crypto" "encrypt_secret clear_crypto ''iv'' ''s3'' \<noteq> []"
  by (simp_all add: hook_state_of_def open_session_def tbl_get_def tbl_row_def tbl_add_def empty_table_def with_provider_def
      demo_ctx_def encrypt_secret_def clear_crypto_def)

text \<open>The stored address decides: one is answered, the other is refused by the client itself.\<close>

definition bad_hook :: webhook_create where
  "bad_hook = demo_hook\<lparr>wc_url := ''http://[bad''\<rparr>"

lemma delivery_signed_witness:
  "(\<exists>m r t. send_delivery with_provider demo_hook_net 5 1 demo_hook_state = (Inr r, t) \<and> fst r = ''delivered'' \<and> hk_sent t = [m] \<and>
     map_of (hm_headers m) ''X-CertMgr-Signature'' = Some (''sha256='' @ hn_hmac demo_hook_net ''s3'' (hm_body m))) \<and>
   (\<exists>e t. send_delivery with_provider demo_hook_net 5 1 (hook_state_of bad_hook) = (Inl e, t) \<and> hk_world t = hk_world (hook_state_of bad_hook))"
proof -
  have "\<exists>m q t. send_delivery with_provider demo_hook_net 5 1 (hook_state_of b) = (q, t) \<and> hk_sent t = hk_sent (hook_state_of b) @ [m] \<and>
      hm_url m = wc_url b \<and>
      map_of (hm_headers m) ''X-CertMgr-Signature'' = Some (''sha256='' @ hn_hmac demo_hook_net ''s3'' (hm_body m)) \<and>
      (case hn_post demo_hook_net m of
         Inl e \<Rightarrow> q = Inl e \<and> hk_world t = hk_world (hook_state_of b)
       | Inr a \<Rightarrow> \<exists>r. q = Inr r \<and> (fst r = ''delivered'' \<longleftrightarrow> (\<exists>st txt. a = Inr (st, txt) \<and> is_success st)) \<and>
           committed (hk_world t) = work (hk_world t) \<and>
           map_option wd_status (tbl_get 1 (webhook_deliveries (committed (hk_world t)))) = Some (fst r))"
    if "wc_secret b = Some ''s3''" for b
    by (rule delivery_signed [where iv = "''iv''" and x = "new_delivery 1 ''certificate.issued'' []"])
      (use that hook_state_facts in \<open>simp_all add: new_delivery_def\<close>)
  from this [of demo_hook] this [of bad_hook] show ?thesis
    by (auto simp: demo_hook_state_def demo_hook_def bad_hook_def demo_hook_net_def py_startswith_def is_success_def
        hk_sent_start)
qed

lemma dispatch_fails_witness:
  "\<exists>e t. dispatch with_provider demo_hook_net 5 ''certificate.issued'' [] demo_hook_state = (Inl e, t) \<and> exc_of e = AttributeError"
proof -
  have "\<exists>w \<in> set (rows (webhook_endpoints (work (hk_world demo_hook_state)))).
      we_is_active (rval w) \<and> ''certificate.issued'' \<in> set (we_events (rval w))"
    by (simp add: demo_hook_state_def hook_state_of_def open_session_def tbl_add_def empty_table_def endpoint_row_def demo_hook_def)
  then obtain w where w: "w \<in> set (rows (webhook_endpoints (work (hk_world demo_hook_state))))" "we_is_active (rval w)"
    "''certificate.issued'' \<in> set (we_events (rval w))" by blast
  have "\<not> celery_task_always_eager (cx_cfg with_provider)" by (simp add: with_provider_def default_settings_def)
  from dispatch_fails [OF this w] show ?thesis by blast
qed

end
