(* ===== verification/User_Api.thy ===== *)
theory User_Api
  imports Auth Cert_Api Providers
begin

text \<open>
  The endpoints of \<open>app/api/v1/users.py\<close>, \<open>app/api/v1/jobs.py\<close> and \<open>app/api/v1/hooks.py\<close>: user
  administration, the retry of executions, hook scripts with their keys.  A \<^verbatim>\<open>dict\<close> body is a record in
  which \<open>None\<close> is a missing key; values have the type of their column.  Assignments to a loaded row reach the
  database when the session is flushed, so an endpoint writes them once, at its commit.
\<close>

section \<open>Users\<close>

record user_view =
  uv_id :: int
  uv_username :: string
  uv_email :: "string option"
  uv_full_name :: string
  uv_role :: "string option"
  uv_is_active :: bool
  uv_mfa_enabled :: bool
  uv_must_change_password :: bool
  uv_last_login_at :: "string option"
  uv_created_at :: string

definition serialize_user :: "db \<Rightarrow> user row \<Rightarrow> user_view" where
  "serialize_user d w = (let u = rval w in
     \<lparr>uv_id = rid w, uv_username = u_username u, uv_email = u_email u, uv_full_name = u_full_name u,
      uv_role = map_option ro_name (tbl_get (u_role_id u) (roles d)), uv_is_active = u_is_active u,
      uv_mfa_enabled = u_mfa_enabled u, uv_must_change_password = u_must_change_password u,
      uv_last_login_at = map_option isoformat (u_last_login_at u), uv_created_at = isoformat (created_at w)\<rparr>)"

definition user_matches :: "string option \<Rightarrow> user \<Rightarrow> bool" where
  "user_matches search u \<longleftrightarrow>
     (truthy search \<longrightarrow> (let like = [CHR 0x25] @ str_or search [] @ [CHR 0x25] in
        ilike like (u_username u) \<or> ilike like (u_full_name u) \<or>
        (case u_email u of None \<Rightarrow> False | Some e \<Rightarrow> ilike like e)))"

definition list_users :: "api_user \<Rightarrow> string option \<Rightarrow> nat \<Rightarrow> nat \<Rightarrow> (user_view list \<times> nat) wop" where
  "list_users user search page page_size =
     bnd (require_perm user ''admin:users'' ''Only administrators can list users'') (\<lambda>_.
     db_get (\<lambda>d. let ws = tbl_sel (\<lambda>w. user_matches search (rval w)) (users d) in
       (map (serialize_user d) (take page_size (drop ((page - 1) * page_size) (sort_key (\<lambda>w. u_username (rval w)) ws))),
        length ws)))"

definition list_roles :: "api_user \<Rightarrow> (string \<times> string list) list wop" where
  "list_roles user =
     bnd (require_perm user ''admin:users'' ''Only administrators can view role definitions'') (\<lambda>_.
     db_get (\<lambda>d. map (\<lambda>w. (ro_name (rval w), ro_permissions (rval w))) (sort_key rid (rows (roles d)))))"

record user_body =
  ub_username :: "string option"
  ub_email :: "string option"
  ub_full_name :: string
  ub_password :: string
  ub_role :: string

definition create_user_endpoint :: "ctx \<Rightarrow> datetime \<Rightarrow> randoms \<Rightarrow> api_user \<Rightarrow> Cert_Api.request \<Rightarrow> user_body \<Rightarrow> int wop" where
  "create_user_endpoint cx now rnd user rq b =
     bnd (require_admin user ''Only administrators can create users'') (\<lambda>_.
     if validate_password_policy (cx_cfg cx) (ub_password b) \<noteq> [] then fail ValidationAppError ''Password policy not met''
     else
       (case ub_username b of
          None \<Rightarrow> fail KeyError ''username''
        | Some name \<Rightarrow>
            bnd (create_user (cx_cfg cx) (cx_kc cx) now rnd name (ub_email b) (ub_full_name b) (ub_password b)
                   (ub_role b) (Some (au_id user))) (\<lambda>i.
            bnd (audit_request cx now ''user.create'' user None rq [(''username'', JStr name)]) (\<lambda>_. ret i))))"

record user_patch =
  up_full_name :: "string option"
  up_email :: "string option option"
  up_role :: "string option"
  up_is_active :: "bool option"
  up_reset_password :: "string option"

text \<open>An active user whose role row is the administrator's.\<close>

definition active_admin :: "db \<Rightarrow> user row \<Rightarrow> bool" where
  "active_admin d w \<longleftrightarrow> u_is_active (rval w) \<and>
     map_option ro_name (tbl_get (u_role_id (rval w)) (roles d)) = Some ''administrator''"

definition other_active_admins :: "int \<Rightarrow> db \<Rightarrow> nat" where
  "other_active_admins i d = tbl_count (\<lambda>w. active_admin d w \<and> rid w \<noteq> i) (users d)"

definition losing_admin_status :: "string \<Rightarrow> user \<Rightarrow> user_patch \<Rightarrow> bool" where
  "losing_admin_status role u b \<longleftrightarrow> role = ''administrator'' \<and> u_is_active u \<and>
     (up_is_active b = Some False \<or> (case up_role b of None \<Rightarrow> False | Some r \<Rightarrow> r \<noteq> ''administrator''))"

text \<open>The new role identifier, only for administrators.\<close>

definition patched_role :: "api_user \<Rightarrow> user_patch \<Rightarrow> int option wop" where
  "patched_role user b =
     (case up_role b of
        None \<Rightarrow> ret None
      | Some name \<Rightarrow>
          if au_role user \<noteq> ''administrator'' then ret None
          else
            bnd (db_get (\<lambda>d. tbl_first (\<lambda>w. ro_name (rval w) = name) (roles d))) (\<lambda>r.
            case r of None \<Rightarrow> fail ValidationAppError ''Invalid role'' | Some w \<Rightarrow> ret (Some (rid w))))"

definition patched_password :: "ctx \<Rightarrow> randoms \<Rightarrow> user_patch \<Rightarrow> string option wop" where
  "patched_password cx rnd b =
     (if \<not> truthy (up_reset_password b) then ret None
      else if validate_password_policy (cx_cfg cx) (str_or (up_reset_password b) []) \<noteq> []
      then fail ValidationAppError ''Password policy not met''
      else bnd (lift_exn (hash_password (cx_cfg cx) (cx_kc cx) (r_salt rnd) (str_or (up_reset_password b) []))) (\<lambda>h. ret (Some h)))"

definition apply_patch :: "api_user \<Rightarrow> user_patch \<Rightarrow> int option \<Rightarrow> string option \<Rightarrow> user \<Rightarrow> user" where
  "apply_patch user b role hashed u = u\<lparr>
     u_full_name := or_default (up_full_name b) (u_full_name u),
     u_email := or_default (up_email b) (u_email u),
     u_role_id := or_default role (u_role_id u),
     u_is_active := (if au_role user = ''administrator'' then or_default (up_is_active b) (u_is_active u) else u_is_active u),
     u_hashed_password := or_default hashed (u_hashed_password u),
     u_must_change_password := (hashed \<noteq> None \<or> u_must_change_password u)\<rparr>"

text \<open>The unique email column.\<close>

definition email_taken :: "int \<Rightarrow> user_patch \<Rightarrow> db \<Rightarrow> bool" where
  "email_taken i b d \<longleftrightarrow>
     (case up_email b of
        Some (Some e) \<Rightarrow> list_ex (\<lambda>w. rid w \<noteq> i \<and> u_email (rval w) = Some e) (rows (users d))
      | _ \<Rightarrow> False)"

definition update_user :: "ctx \<Rightarrow> datetime \<Rightarrow> randoms \<Rightarrow> api_user \<Rightarrow> Cert_Api.request \<Rightarrow> int \<Rightarrow> user_patch \<Rightarrow> user_view option wop" where
  "update_user cx now rnd user rq i b =
     (if au_role user \<noteq> ''administrator'' \<and> au_id user \<noteq> i then fail PermissionDeniedError ''Not authorized''
      else
        bnd (db_get (\<lambda>d. tbl_get i (users d))) (\<lambda>row.
        case row of
          None \<Rightarrow> fail NotFoundError ''User not found''
        | Some u \<Rightarrow>
            bnd (role_claims i) (\<lambda>(role, _).
            bnd (db_get (other_active_admins i)) (\<lambda>others.
            if losing_admin_status role u b \<and> others = 0
            then fail ValidationAppError ''Cannot disable or change the role of the last active administrator''
            else
              bnd (patched_role user b) (\<lambda>r.
              bnd (patched_password cx rnd b) (\<lambda>h.
              bnd (db_get (email_taken i b)) (\<lambda>taken.
              if taken then fail IntegrityError ''users.email''
              else
                bnd (upd_user now i (apply_patch user b r h)) (\<lambda>_.
                bnd commit (\<lambda>_.
                bnd (audit_request cx now ''user.update'' user (Some (''user'', str_int i)) rq []) (\<lambda>_.
                db_get (\<lambda>d. map_option (serialize_user d) (tbl_row i (users d)))))))))))))"

section \<open>Executions\<close>

record execution_view =
  ev_id :: int
  ev_job_type :: string
  ev_certificate_id :: "int option"
  ev_server_id :: "int option"
  ev_task_id :: "string option"
  ev_trigger :: string
  ev_status :: string
  ev_exit_code :: "int option"
  ev_stdout :: string
  ev_stderr :: string
  ev_error_message :: "string option"
  ev_execution_time_ms :: "int option"
  ev_retry_count :: int
  ev_started_at :: "string option"
  ev_finished_at :: "string option"
  ev_log_path :: "string option"
  ev_created_at :: string

text \<open>\<^verbatim>\<open>(e.stdout or "")[-10000:]\<close>\<close>

definition tail_10000 :: "string option \<Rightarrow> string" where
  "tail_10000 x = last_n 10000 (str_or x [])"

definition serialize_execution :: "job_execution row \<Rightarrow> execution_view" where
  "serialize_execution w = (let x = rval w in
     \<lparr>ev_id = rid w, ev_job_type = JobType_value (j_job_type x), ev_certificate_id = j_certificate_id x,
      ev_server_id = j_server_id x, ev_task_id = j_task_id x, ev_trigger = JobTrigger_value (j_trigger x),
      ev_status = JobStatus_value (j_status x), ev_exit_code = j_exit_code x, ev_stdout = tail_10000 (j_stdout x),
      ev_stderr = tail_10000 (j_stderr x), ev_error_message = j_error_message x,
      ev_execution_time_ms = j_execution_time_ms x, ev_retry_count = j_retry_count x,
      ev_started_at = map_option isoformat (j_started_at x), ev_finished_at = map_option isoformat (j_finished_at x),
      ev_log_path = j_log_path x, ev_created_at = isoformat (created_at w)\<rparr>)"

definition list_jobs :: "execution_query \<Rightarrow> (execution_view list \<times> nat) wop" where
  "list_jobs q = bnd (db_get (list_executions q)) (\<lambda>(ws, found). ret (map serialize_execution ws, found))"

definition get_job :: "int \<Rightarrow> execution_view option wop" where
  "get_job i = bnd (get_execution i) (\<lambda>_. db_get (\<lambda>d. map_option serialize_execution (tbl_row i (job_executions d))))"

text \<open>\<^verbatim>\<open>POST /jobs/{id}/retry\<close> has no check of its own.\<close>

definition retry_job ::
    "ctx \<Rightarrow> (int \<Rightarrow> int \<Rightarrow> int \<Rightarrow> unit wop) \<Rightarrow> datetime \<Rightarrow> int \<Rightarrow> api_user \<Rightarrow> int \<Rightarrow> (job_message option \<times> int) wop" where
  "retry_job cx deploy now elapsed user i = retry_execution cx deploy now elapsed i (actor_of user)"

section \<open>Hooks\<close>

record hook_create =
  hk_name :: string
  hk_hook_type :: string
  hk_script_path :: string
  hk_env_vars :: "(string \<times> string) list"
  hk_execution_user :: "string option"
  hk_working_directory :: "string option"
  hk_timeout_seconds :: int
  hk_is_active :: bool
  hk_is_default :: bool
  hk_description :: "string option"
  hk_ssh_private_key :: "string option"
  hk_ssh_target_host :: "string option"

definition within :: "nat \<Rightarrow> string option \<Rightarrow> bool" where
  "within n x \<longleftrightarrow> (case x of None \<Rightarrow> True | Some s \<Rightarrow> length s \<le> n)"

definition hook_create_ok :: "hook_create \<Rightarrow> bool" where
  "hook_create_ok b \<longleftrightarrow> 2 \<le> length (hk_name b) \<and> length (hk_name b) \<le> 128 \<and>
     1 \<le> length (hk_script_path b) \<and> length (hk_script_path b) \<le> 2048 \<and> within 64 (hk_execution_user b) \<and>
     within 1024 (hk_working_directory b) \<and> 10 \<le> hk_timeout_seconds b \<and> hk_timeout_seconds b \<le> 3600 \<and>
     within 255 (hk_ssh_target_host b)"

definition require_hook_role :: "api_user \<Rightarrow> unit wop" where
  "require_hook_role user =
     (if au_role user \<notin> {''administrator'', ''certificate_manager''}
      then fail PermissionDeniedError ''Not authorized to manage hooks'' else ret ())"

definition check_script :: "exec_env \<Rightarrow> string \<Rightarrow> unit wop" where
  "check_script xe path =
     bnd (gets (\<lambda>w. fst (assert_safe_script_path xe True path (files w)))) (\<lambda>r.
     case r of
       Inr _ \<Rightarrow> ret ()
     | Inl e \<Rightarrow> if exc_of e = ValidationAppError then fail ValidationAppError (''Hook script invalid: '' @ exc_msg e) else throw e)"

text \<open>The stored form of a key; the empty string and \<^verbatim>\<open>None\<close> store none.\<close>

definition stored_key :: "ctx \<Rightarrow> string option \<Rightarrow> exn + string option" where
  "stored_key cx raw =
     (if truthy raw then
        (case assert_valid_private_key_pem (str_or raw []) of
           Inl e \<Rightarrow> Inl e
         | Inr pem \<Rightarrow> Inr (Some (encrypt_secret (cx_kc cx) (cx_ivf cx) pem)))
      else Inr None)"

definition hook_name_taken :: "int option \<Rightarrow> string \<Rightarrow> db \<Rightarrow> bool" where
  "hook_name_taken i name d \<longleftrightarrow> list_ex (\<lambda>w. Some (rid w) \<noteq> i \<and> h_name (rval w) = name) (rows (hooks d))"

definition hook_row :: "hook_create \<Rightarrow> HookType \<Rightarrow> string option \<Rightarrow> hook" where
  "hook_row b t key = \<lparr>h_name = hk_name b, h_hook_type = t, h_script_path = hk_script_path b, h_env_vars = hk_env_vars b,
     h_execution_user = hk_execution_user b, h_working_directory = hk_working_directory b,
     h_timeout_seconds = hk_timeout_seconds b, h_is_active = hk_is_active b, h_is_default = hk_is_default b,
     h_description = hk_description b, h_ssh_private_key_encrypted = key, h_ssh_target_host = hk_ssh_target_host b\<rparr>"

record hook_view =
  hv_id :: int
  hv_name :: string
  hv_hook_type :: string
  hv_script_path :: string
  hv_env_vars :: "(string \<times> string) list"
  hv_execution_user :: "string option"
  hv_working_directory :: "string option"
  hv_timeout_seconds :: int
  hv_is_active :: bool
  hv_is_default :: bool
  hv_description :: "string option"
  hv_has_ssh_key :: bool
  hv_ssh_target_host :: "string option"
  hv_created_at :: string

definition serialize_hook :: "int \<Rightarrow> datetime \<Rightarrow> hook \<Rightarrow> hook_view" where
  "serialize_hook i created h = \<lparr>hv_id = i, hv_name = h_name h, hv_hook_type = HookType_value (h_hook_type h),
     hv_script_path = h_script_path h, hv_env_vars = h_env_vars h, hv_execution_user = h_execution_user h,
     hv_working_directory = h_working_directory h, hv_timeout_seconds = h_timeout_seconds h,
     hv_is_active = h_is_active h, hv_is_default = h_is_default h, hv_description = h_description h,
     hv_has_ssh_key = truthy (h_ssh_private_key_encrypted h), hv_ssh_target_host = h_ssh_target_host h,
     hv_created_at = isoformat created\<rparr>"

definition list_hooks :: "string option \<Rightarrow> hook_view list wop" where
  "list_hooks hook_type =
     db_get (\<lambda>d. map (\<lambda>w. serialize_hook (rid w) (created_at w) (rval w)) (sort_key (\<lambda>w. h_name (rval w))
       (tbl_sel (\<lambda>w. truthy hook_type \<longrightarrow> Some (HookType_value (h_hook_type (rval w))) = hook_type) (hooks d))))"

definition create_hook :: "ctx \<Rightarrow> exec_env \<Rightarrow> datetime \<Rightarrow> api_user \<Rightarrow> Cert_Api.request \<Rightarrow> hook_create \<Rightarrow> hook_view wop" where
  "create_hook cx xe now user rq b =
     (if \<not> hook_create_ok b then fail ValidationAppError ''Request validation failed''
      else
        bnd (require_hook_role user) (\<lambda>_.
        (case enum_of HookType_members HookType_value (hk_hook_type b) of
           Inl _ \<Rightarrow> fail ValidationAppError (''Invalid hook type: '' @ hk_hook_type b)
         | Inr t \<Rightarrow>
             bnd (check_script xe (hk_script_path b)) (\<lambda>_.
             bnd (lift_exn (stored_key cx (hk_ssh_private_key b))) (\<lambda>key.
             bnd (db_get (hook_name_taken None (hk_name b))) (\<lambda>taken.
             if taken then fail IntegrityError ''hooks.name''
             else
               bnd (db_get (\<lambda>d. next_id (hooks d))) (\<lambda>i.
               bnd (db_mod (hooks_update (\<lambda>t'. snd (tbl_add now (hook_row b t key) t')))) (\<lambda>_.
               bnd commit (\<lambda>_.
               bnd (audit_request cx now ''hook.create'' user (Some (''hook'', str_int i)) rq []) (\<lambda>_.
               ret (serialize_hook i now (hook_row b t key))))))))))))"

record hook_patch =
  hp_name :: "string option"
  hp_hook_type :: "HookType option"
  hp_script_path :: "string option"
  hp_env_vars :: "(string \<times> string) list option"
  hp_execution_user :: "string option option"
  hp_working_directory :: "string option option"
  hp_timeout_seconds :: "int option"
  hp_is_active :: "bool option"
  hp_is_default :: "bool option"
  hp_description :: "string option option"
  hp_ssh_target_host :: "string option option"
  hp_ssh_private_key :: "string option option"

definition patch_hook :: "hook_patch \<Rightarrow> string option option \<Rightarrow> hook \<Rightarrow> hook" where
  "patch_hook b key h = \<lparr>h_name = or_default (hp_name b) (h_name h), h_hook_type = or_default (hp_hook_type b) (h_hook_type h),
     h_script_path = or_default (hp_script_path b) (h_script_path h), h_env_vars = or_default (hp_env_vars b) (h_env_vars h),
     h_execution_user = or_default (hp_execution_user b) (h_execution_user h),
     h_working_directory = or_default (hp_working_directory b) (h_working_directory h),
     h_timeout_seconds = or_default (hp_timeout_seconds b) (h_timeout_seconds h),
     h_is_active = or_default (hp_is_active b) (h_is_active h), h_is_default = or_default (hp_is_default b) (h_is_default h),
     h_description = or_default (hp_description b) (h_description h),
     h_ssh_private_key_encrypted = or_default key (h_ssh_private_key_encrypted h),
     h_ssh_target_host = or_default (hp_ssh_target_host b) (h_ssh_target_host h)\<rparr>"

text \<open>A hook type outside the enumeration, which the source would store unchecked, is not representable here.\<close>

definition update_hook ::
    "ctx \<Rightarrow> exec_env \<Rightarrow> datetime \<Rightarrow> api_user \<Rightarrow> Cert_Api.request \<Rightarrow> int \<Rightarrow> hook_patch \<Rightarrow> hook_view wop" where
  "update_hook cx xe now user rq i b =
     bnd (require_hook_role user) (\<lambda>_.
     bnd (db_get (\<lambda>d. tbl_row i (hooks d))) (\<lambda>row.
     case row of
       None \<Rightarrow> fail NotFoundError ''Hook not found''
     | Some w \<Rightarrow>
         bnd (case hp_ssh_private_key b of
                None \<Rightarrow> ret None
              | Some raw \<Rightarrow> bnd (lift_exn (stored_key cx raw)) (\<lambda>k. ret (Some k))) (\<lambda>key.
         bnd (when_op (truthy (hp_script_path b)) (check_script xe (str_or (hp_script_path b) []))) (\<lambda>_.
         bnd (db_get (hook_name_taken (Some i) (h_name (patch_hook b key (rval w))))) (\<lambda>taken.
         if taken then fail IntegrityError ''hooks.name''
         else
           bnd (db_mod (hooks_update (tbl_upd now i (patch_hook b key)))) (\<lambda>_.
           bnd commit (\<lambda>_.
           bnd (audit_request cx now ''hook.update'' user (Some (''hook'', str_int i)) rq []) (\<lambda>_.
           ret (serialize_hook i (created_at w) (patch_hook b key (rval w)))))))))))"

definition delete_hook :: "ctx \<Rightarrow> datetime \<Rightarrow> api_user \<Rightarrow> Cert_Api.request \<Rightarrow> int \<Rightarrow> unit wop" where
  "delete_hook cx now user rq i =
     bnd (require_admin user ''Only administrators can delete hooks'') (\<lambda>_.
     bnd (db_get (\<lambda>d. tbl_get i (hooks d))) (\<lambda>row.
     case row of
       None \<Rightarrow> fail NotFoundError ''Hook not found''
     | Some h \<Rightarrow>
         bnd (db_mod (hooks_update (tbl_del i))) (\<lambda>_.
         bnd commit (\<lambda>_.
         audit_request cx now ''hook.delete'' user (Some (''hook'', str_int i)) rq []))))"

end
