(* ===== verification/User_Proofs.thy ===== *)
theory User_Proofs
  imports User_Api
begin

text \<open>
  What the user, job and hook endpoints guarantee: there is always an active administrator; a hook's key is
  stored encrypted and is the one that is staged; and two gaps, sessions that outlive a password reset and
  retries that nobody has to be allowed to make.
\<close>

section \<open>The last administrator\<close>

definition admin_inv :: "db \<Rightarrow> bool" where
  "admin_inv d \<longleftrightarrow> wf_table (users d) \<and> wf_table (roles d) \<and> list_ex (active_admin d) (rows (users d))"

lemma active_admin_cong: "roles d' = roles d \<Longrightarrow> active_admin d' w = active_admin d w"
  by (simp add: active_admin_def)

text \<open>An update keeps an administrator if it keeps the row one, or there is another.\<close>

lemma admin_inv_upd:
  assumes "admin_inv d"
    and "\<And>w. w \<in> set (rows (users d)) \<Longrightarrow> rid w = i \<Longrightarrow> active_admin d w \<Longrightarrow>
           active_admin d (touch now f w) \<or> (\<exists>v \<in> set (rows (users d)). active_admin d v \<and> rid v \<noteq> i)"
  shows "admin_inv (users_update (tbl_upd now i f) d)"
proof -
  let ?d = "users_update (tbl_upd now i f) d"
  have rows: "set (rows (users ?d)) = (\<lambda>w. if rid w = i then touch now f w else w) ` set (rows (users d))"
    by (simp add: tbl_upd_def rows_upd_where)
  have wf: "wf_table (users ?d)" "wf_table (roles ?d)" using assms(1) by (simp_all add: admin_inv_def)
  obtain w where w: "w \<in> set (rows (users d))" "active_admin d w"
    using assms(1) by (auto simp: admin_inv_def list_ex_iff)
  obtain v where v: "v \<in> set (rows (users d))" "active_admin d (if rid v = i then touch now f v else v)"
    using w assms(2) [of w] by (cases "rid w = i") auto
  then have "(if rid v = i then touch now f v else v) \<in> set (rows (users ?d))" unfolding rows by blast
  then show ?thesis
    using wf v(2) active_admin_cong [of ?d d] unfolding admin_inv_def list_ex_iff by auto
qed

lemma keeps_admin_upd:
  assumes "\<And>u. u_is_active (f u) = u_is_active u" "\<And>u. u_role_id (f u) = u_role_id u"
  shows "keeps (winv admin_inv) (upd_user now i f)"
  unfolding upd_user_def by (intro keeps_db_mod admin_inv_upd) (auto simp: active_admin_def assms)

lemma keeps_admin_other:
  "(\<And>d. users (f d) = users d) \<Longrightarrow> (\<And>d. roles (f d) = roles d) \<Longrightarrow> keeps (winv admin_inv) (db_mod f)"
  by (rule keeps_db_mod) (simp add: admin_inv_def active_admin_def [abs_def])

lemma admin_insert [keeps_rules]: "keeps (winv admin_inv) (insert_user now u)"
  unfolding insert_user_def
  by (auto intro!: keeps_rules keeps_db_mod simp: admin_inv_def rows_add active_admin_def [abs_def])

lemma admin_record [keeps_rules]: "keeps (winv admin_inv) (record_audit rd now a)"
  unfolding record_audit_def by (rule keeps_admin_other) simp_all

lemma admin_request [keeps_rules]: "keeps (winv admin_inv) (audit_request cx now a u r rq ds)"
  unfolding audit_request_def audit_admin_def by (rule admin_record)

lemma admin_create [keeps_rules]: "keeps (winv admin_inv) (create_user cfg k now rnd n e f p r c)"
  unfolding create_user_def by (auto intro!: keeps_rules)

lemma admin_authenticate: "keeps (winv admin_inv) (authenticate cfg k now rnd n p)"
  unfolding authenticate_def
  by (auto intro!: keeps_rules keeps_admin_upd simp: failed_attempt_def successful_login_def Let_def split: if_splits)

lemma admin_change_password: "keeps (winv admin_inv) (change_password cfg k now rnd uid old new)"
  unfolding change_password_def by (auto intro!: keeps_rules keeps_admin_upd keeps_admin_other)

lemma admin_mfa:
  "keeps (winv admin_inv) (setup_mfa k now rnd uid secret)"
  "keeps (winv admin_inv) (enable_mfa k now uid code)"
  "keeps (winv admin_inv) (disable_mfa k now uid pw)"
  unfolding setup_mfa_def enable_mfa_def disable_mfa_def by (auto intro!: keeps_rules keeps_admin_upd)

lemma admin_bootstrap: "keeps (winv admin_inv) (get_or_create_bootstrap_admin cfg k now rnd)"
  unfolding get_or_create_bootstrap_admin_def by (auto intro!: keeps_rules)

lemma admin_require [keeps_rules]: "keeps J (require_admin user m)"
  unfolding require_admin_def by (auto intro!: keeps_rules)

lemma admin_create_endpoint: "keeps (winv admin_inv) (create_user_endpoint cx now rnd user rq b)"
  unfolding create_user_endpoint_def by (auto intro!: keeps_rules)

text \<open>What the checks of an update establish about the row it writes.\<close>

lemma patched_role_name:
  "patched_role user b s = (Inr r, s') \<Longrightarrow> s' = s \<and>
     (r = None \<or> (\<exists>w name. up_role b = Some name \<and> r = Some (rid w) \<and> w \<in> set (rows (roles (work s))) \<and> ro_name (rval w) = name))"
  by (auto simp: patched_role_def bnd_def op_simps split: option.splits if_splits dest!: tbl_first_Some)

lemma role_claims_name:
  "role_claims i s = (Inr (role, ps), s') \<Longrightarrow> s' = s \<and>
     (\<exists>u ro. tbl_get i (users (work s)) = Some u \<and> tbl_get (u_role_id u) (roles (work s)) = Some ro \<and> role = ro_name ro)"
  by (auto simp: role_claims_def the_user_def bnd_def op_simps enum_of_def find_Some_iff split: option.splits sum.splits if_splits)

lemma admin_patch:
  assumes inv: "admin_inv d" and u: "tbl_get i (users d) = Some u" and ro: "tbl_get (u_role_id u) (roles d) = Some ro"
    and guard: "\<not> (losing_admin_status (ro_name ro) u b \<and> other_active_admins i d = 0)"
    and r: "r = None \<or> (\<exists>w name. up_role b = Some name \<and> r = Some (rid w) \<and> w \<in> set (rows (roles d)) \<and> ro_name (rval w) = name)"
  shows "admin_inv (users_update (tbl_upd now i (apply_patch user b r h)) d)"
proof (rule admin_inv_upd [OF inv])
  fix w assume w: "w \<in> set (rows (users d))" "rid w = i" "active_admin d w"
  have "rval w = u" using tbl_row_in [of "users d" w] w inv u by (auto simp: admin_inv_def tbl_get_def)
  then have a: "u_is_active u" "ro_name ro = ''administrator''" using w(3) ro by (auto simp: active_admin_def)
  show "active_admin d (touch now (apply_patch user b r h) w) \<or> (\<exists>v \<in> set (rows (users d)). active_admin d v \<and> rid v \<noteq> i)"
  proof (cases "losing_admin_status (ro_name ro) u b")
    case True
    then show ?thesis using guard by (auto simp: other_active_admins_def tbl_count_def tbl_sel_def filter_empty_conv)
  next
    case False
    then have "up_is_active b \<noteq> Some False" "\<And>n. up_role b = Some n \<Longrightarrow> n = ''administrator''"
      using a by (auto simp: losing_admin_status_def)
    moreover have "tbl_get (rid v) (roles d) = Some (rval v)" if "v \<in> set (rows (roles d))" for v
      using tbl_row_in [of "roles d" v] that inv by (simp add: admin_inv_def tbl_get_def)
    ultimately have "active_admin d (touch now (apply_patch user b r h) w)"
      using r a ro \<open>rval w = u\<close> by (cases "up_is_active b") (auto simp: active_admin_def apply_patch_def or_default_def)
    then show ?thesis ..
  qed
qed

lemma admin_write:
  assumes "admin_inv (committed s)" "admin_inv (users_update (tbl_upd now i f) (work s))"
  shows "winv admin_inv (snd (bnd (upd_user now i f) (\<lambda>_. bnd commit (\<lambda>_. bnd (audit_request cx now a u r rq ds) (\<lambda>_. db_get g))) s))"
proof -
  let ?s = "snd (commit (snd (upd_user now i f s)))"
  have "winv admin_inv ?s" using assms by (simp add: upd_user_def op_simps winv_def)
  then have "winv admin_inv (snd (bnd (audit_request cx now a u r rq ds) (\<lambda>_. db_get g) ?s))"
    by (rule keepsD [rotated]) (intro keeps_rules)
  then show ?thesis by (simp add: bnd_def upd_user_def op_simps)
qed

lemma patched_password_state: "patched_password cx rnd b s = (x, s') \<Longrightarrow> s' = s"
  by (auto simp: patched_password_def bnd_def op_simps split: if_splits sum.splits)

lemma patched_role_state: "patched_role user b s = (x, s') \<Longrightarrow> s' = s"
  by (auto simp: patched_role_def bnd_def op_simps split: if_splits option.splits)

lemma role_claims_state: "role_claims i s = (x, s') \<Longrightarrow> s' = s"
  by (auto simp: role_claims_def the_user_def bnd_def op_simps split: option.splits sum.splits)

text \<open>An update is refused without effect, or it passed every check and writes its row.\<close>

lemma update_user_cases:
  "update_user cx now rnd user rq i b s = (x, s') \<Longrightarrow> (s' = s \<and> (\<exists>e. x = Inl e)) \<or>
    (\<exists>u ro r h. tbl_get i (users (work s)) = Some u \<and> tbl_get (u_role_id u) (roles (work s)) = Some ro \<and>
      \<not> (losing_admin_status (ro_name ro) u b \<and> other_active_admins i (work s) = 0) \<and>
      patched_role user b s = (Inr r, s) \<and> patched_password cx rnd b s = (Inr h, s) \<and>
      (x, s') = bnd (upd_user now i (apply_patch user b r h)) (\<lambda>_. bnd commit (\<lambda>_.
        bnd (audit_request cx now ''user.update'' user (Some (''user'', str_int i)) rq []) (\<lambda>_.
        db_get (\<lambda>d. map_option (serialize_user d) (tbl_row i (users d)))))) s)"
proof -
  assume run: "update_user cx now rnd user rq i b s = (x, s')"
  obtain x1 x2 x3 where ops: "role_claims i s = (x1, s)" "patched_role user b s = (x2, s)" "patched_password cx rnd b s = (x3, s)"
    by (metis prod.collapse role_claims_state patched_role_state patched_password_state)
  show ?thesis
  proof (cases "tbl_get i (users (work s))")
    case None
    then show ?thesis using run by (auto simp: update_user_def op_simps split: if_splits)
  next
    case u: (Some u)
    show ?thesis
    proof (cases x1)
      case (Inl e)
      then show ?thesis using run u ops(1) by (auto simp: update_user_def op_simps split: if_splits)
    next
      case (Inr rp)
      then obtain role ps where rp: "role_claims i s = (Inr (role, ps), s)" using ops(1) by (cases rp) simp
      then show ?thesis
        using run u ops(2,3) role_claims_name [OF rp]
        by (cases x2; cases x3; cases "losing_admin_status role u b \<and> other_active_admins i (work s) = 0")
          (auto simp: update_user_def op_simps split: if_splits)
    qed
  qed
qed

lemma admin_update: "keeps (winv admin_inv) (update_user cx now rnd user rq i b)"
proof (rule keepsI)
  fix s assume inv: "winv admin_inv s"
  obtain x s' where run: "update_user cx now rnd user rq i b s = (x, s')" by fastforce
  from update_user_cases [OF run] show "winv admin_inv (snd (update_user cx now rnd user rq i b s))"
  proof (elim disjE exE conjE)
    assume "s' = s" then show ?thesis using run inv by simp
  next
    fix u ro r h
    assume h: "tbl_get i (users (work s)) = Some u" "tbl_get (u_role_id u) (roles (work s)) = Some ro"
      "\<not> (losing_admin_status (ro_name ro) u b \<and> other_active_admins i (work s) = 0)" "patched_role user b s = (Inr r, s)"
      "(x, s') = bnd (upd_user now i (apply_patch user b r h)) (\<lambda>_. bnd commit (\<lambda>_.
        bnd (audit_request cx now ''user.update'' user (Some (''user'', str_int i)) rq []) (\<lambda>_.
        db_get (\<lambda>d. map_option (serialize_user d) (tbl_row i (users d)))))) s"
    show ?thesis
      unfolding run h(5) using inv patched_role_name [OF h(4)]
      by (intro admin_write admin_patch [OF _ h(1-3)]) (auto simp: winv_def)
  qed
qed

text \<open>C17: there is always an active administrator: no update of a user, by anybody and with any
  body, no creation of one and no operation of the authentication service takes the last one away, in the
  committed state or the session, whether it returns or raises.\<close>

theorem active_admin_kept:
  "keeps (winv admin_inv) (update_user cx now rnd user rq i b) \<and>
   keeps (winv admin_inv) (create_user_endpoint cx now rnd user rq nb) \<and>
   keeps (winv admin_inv) (authenticate cfg k now rnd name pw) \<and>
   keeps (winv admin_inv) (change_password cfg k now rnd uid old new) \<and>
   keeps (winv admin_inv) (setup_mfa k now rnd uid secret) \<and>
   keeps (winv admin_inv) (enable_mfa k now uid code) \<and>
   keeps (winv admin_inv) (disable_mfa k now uid pw) \<and>
   keeps (winv admin_inv) (get_or_create_bootstrap_admin cfg k now rnd)"
  by (intro conjI admin_update admin_create_endpoint admin_authenticate admin_change_password admin_mfa admin_bootstrap)

section \<open>Password resets\<close>

lemma role_claims_upd:
  assumes "users (work s') = tbl_upd now i f (users (work s))" "roles (work s') = roles (work s)" "\<And>u. u_role_id (f u) = u_role_id u"
  shows "fst (role_claims j s') = fst (role_claims j s)"
  using assms by (auto simp: role_claims_def the_user_def bnd_def op_simps split: option.splits sum.splits)

text \<open>A refresh depends on the tokens and on the role and the activity of its user only.\<close>

lemma refresh_unaffected:
  assumes "users (work s') = tbl_upd now i f (users (work s))" "roles (work s') = roles (work s)"
    and "refresh_tokens (work s') = refresh_tokens (work s)"
    and "\<And>u. u_role_id (f u) = u_role_id u" "\<And>u. u_is_active (f u) = u_is_active u"
  shows "fst (refresh_access_token cfg k t rnd tok s') = fst (refresh_access_token cfg k t rnd tok s)"
proof -
  have row: "tbl_row j (users (work s')) =
      map_option (\<lambda>w. if rid w = i then touch now f w else w) (tbl_row j (users (work s)))" for j
    by (simp add: assms(1) tbl_upd_def tbl_row_upd_where)
  have claims: "\<exists>c. role_claims j s = (c, s) \<and> role_claims j s' = (c, s')" for j
    using role_claims_upd [OF assms(1,2,4), of j] role_claims_state [of j s] role_claims_state [of j s'] by (metis prod.collapse)
  show ?thesis
  proof (cases "decode_token cfg k t tok ''refresh''")
    case (Inl e)
    then show ?thesis by (simp add: refresh_access_token_def op_simps)
  next
    case p: (Inr p)
    show ?thesis
    proof (cases "tbl_first (\<lambda>w. rt_token_hash (rval w) = sha256_hex k tok) (refresh_tokens (work s))")
      case None
      then show ?thesis using p assms(3) by (simp add: refresh_access_token_def find_refresh_def op_simps)
    next
      case w: (Some w)
      show ?thesis
      proof (cases "py_int (p_sub p)")
        case (Inl e)
        then show ?thesis using p w assms(3) by (simp add: refresh_access_token_def find_refresh_def op_simps)
      next
        case sub: (Inr sub)
        show ?thesis
        proof (cases "tbl_row sub (users (work s))")
          case None
          then show ?thesis using p w sub assms(3) row
            by (simp add: refresh_access_token_def find_refresh_def find_user_def tbl_first_rid op_simps)
        next
          case (Some uw)
          obtain c where "role_claims (rid uw) s = (c, s)" "role_claims (rid uw) s' = (c, s')" using claims by blast
          then show ?thesis using p w sub assms(3,5) row Some
            by (cases c) (auto simp: refresh_access_token_def find_refresh_def find_user_def tbl_first_rid op_simps split: prod.splits)
        qed
      qed
    qed
  qed
qed

text \<open>resetting a password ends no session: after an update that replaced the password, every
  refresh token gives what it gave before, unlike after a change of the password by its owner.\<close>

theorem reset_keeps_sessions:
  assumes run: "update_user cx now rnd user rq i b s = (Inr v, s')"
    and b: "truthy (up_reset_password b)" "up_role b = None" "up_is_active b = None"
  shows "map_option u_hashed_password (tbl_get i (users (committed s'))) =
      Some (bcrypt_hashpw (cx_kc cx) (r_salt rnd) (str_or (up_reset_password b) [])) \<and>
    fst (refresh_access_token cfg k t rnd' tok s') = fst (refresh_access_token cfg k t rnd' tok s)"
proof -
  obtain u r h where h: "tbl_get i (users (work s)) = Some u" "patched_role user b s = (Inr r, s)" "patched_password cx rnd b s = (Inr h, s)"
    "(Inr v, s') = bnd (upd_user now i (apply_patch user b r h)) (\<lambda>_. bnd commit (\<lambda>_.
        bnd (audit_request cx now ''user.update'' user (Some (''user'', str_int i)) rq []) (\<lambda>_.
        db_get (\<lambda>d. map_option (serialize_user d) (tbl_row i (users d)))))) s"
    using update_user_cases [OF run] by auto
  have r: "r = None" using h(2) b by (simp add: patched_role_def op_simps)
  have p: "h = Some (bcrypt_hashpw (cx_kc cx) (r_salt rnd) (str_or (up_reset_password b) []))"
    using h(3) b by (auto simp: patched_password_def hash_password_def op_simps split: if_splits)
  have s': "users (committed s') = tbl_upd now i (apply_patch user b r h) (users (work s))"
    "users (work s') = tbl_upd now i (apply_patch user b r h) (users (work s))"
    "roles (work s') = roles (work s)" "refresh_tokens (work s') = refresh_tokens (work s)"
    using h(4) by (simp_all add: upd_user_def audit_request_def audit_admin_def record_audit_def bnd_def op_simps)
  have "fst (refresh_access_token cfg k t rnd' tok s') = fst (refresh_access_token cfg k t rnd' tok s)"
    by (rule refresh_unaffected [OF s'(2-4)]) (simp_all add: apply_patch_def r b or_default_def)
  then show ?thesis using h(1) by (simp add: s'(1) p apply_patch_def or_default_def)
qed

section \<open>Retries\<close>

text \<open>C39: a retry needs no permission: whoever asks, retrying a renewal runs a forced renewal of its
  certificate, which the renewal endpoint refuses a caller without the permission, and everybody
  during maintenance.\<close>

theorem retry_unguarded:
  assumes "tbl_get j (job_executions (work s)) = Some x" "j_job_type x = JobType.RENEW" "j_certificate_id x = Some c" "c \<noteq> 0"
    and "\<not> has_permission (au_role user) ''certificate:renew''"
  shows "bnd (retry_job cx deploy now elapsed user j) (\<lambda>r. ret (snd r)) s =
      renew_certificate cx now elapsed c True (actor_of user) JobTrigger.API s \<and>
    (\<exists>m. post_renew cx now elapsed user c True s = (Inl (Exn PermissionDeniedError m None), s))"
proof
  show "bnd (retry_job cx deploy now elapsed user j) (\<lambda>r. ret (snd r)) s =
      renew_certificate cx now elapsed c True (actor_of user) JobTrigger.API s"
    using assms
    by (simp add: retry_job_def retry_execution_def get_execution_def bnd_assoc op_simps id_truthy_def or_default_def)
      (simp add: bnd_def ret_def split: prod.splits sum.splits)
  have "P_at (''cert'', ''renew'') = ''certificate:renew''" by (simp add: P_at_def P_codes_def)
  then show "\<exists>m. post_renew cx now elapsed user c True s = (Inl (Exn PermissionDeniedError m None), s)"
    using assms(5) by (simp add: post_renew_def require_perm_def op_simps)
qed

section \<open>Hook keys\<close>

lemma stored_key_cases:
  assumes "stored_key cx raw = Inr key" "fernet_correct (cx_kc cx)"
  shows "if truthy raw then \<exists>c. key = Some c \<and> decrypt_secret (cx_kc cx) c = Inr (str_or raw []) \<and> pem_header_search (str_or raw [])
    else key = None"
  using assms by (auto simp: stored_key_def assert_valid_private_key_pem_def secret_roundtrip split: if_splits sum.splits)

text \<open>What a hook holds of a key that was sent: nothing, or an encryption of it.\<close>

definition holds_key :: "crypto \<Rightarrow> string option \<Rightarrow> hook \<Rightarrow> bool" where
  "holds_key k raw h \<longleftrightarrow>
     (case h_ssh_private_key_encrypted h of
        None \<Rightarrow> \<not> truthy raw
      | Some c \<Rightarrow> truthy raw \<and> decrypt_secret k c = Inr (str_or raw []) \<and> pem_header_search (str_or raw []))"

lemma create_hook_key:
  assumes "create_hook cx xe now user rq b s = (Inr v, s')" "wf_table (hooks (work s))" "fernet_correct (cx_kc cx)"
  shows "\<exists>h. tbl_get (hv_id v) (hooks (work s')) = Some h \<and> holds_key (cx_kc cx) (hk_ssh_private_key b) h"
proof -
  obtain t key where k: "stored_key cx (hk_ssh_private_key b) = Inr key" "hv_id v = next_id (hooks (work s))"
    "hooks (work s') = snd (tbl_add now (hook_row b t key) (hooks (work s)))"
    using assms(1)
    by (auto simp: create_hook_def require_hook_role_def check_script_def serialize_hook_def audit_request_def audit_admin_def
        record_audit_def bnd_def op_simps split: if_splits sum.splits)
  show ?thesis
    using stored_key_cases [OF k(1) assms(3)] tbl.get_add_same [OF assms(2), of now "hook_row b t key"]
    unfolding k(2,3) by (auto simp: tbl_add_def holds_key_def hook_row_def split: if_splits)
qed

lemma update_hook_key:
  assumes "update_hook cx xe now user rq i p s = (Inr v, s')" "fernet_correct (cx_kc cx)"
  shows "\<exists>h h'. tbl_get i (hooks (work s)) = Some h \<and> tbl_get i (hooks (committed s')) = Some h' \<and>
    (case hp_ssh_private_key p of
       None \<Rightarrow> h_ssh_private_key_encrypted h' = h_ssh_private_key_encrypted h
     | Some raw \<Rightarrow> holds_key (cx_kc cx) raw h')"
proof -
  obtain h key where k: "tbl_get i (hooks (work s)) = Some h"
    "key = None \<longleftrightarrow> hp_ssh_private_key p = None"
    "\<And>raw. hp_ssh_private_key p = Some raw \<Longrightarrow> \<exists>c. key = Some c \<and> stored_key cx raw = Inr c"
    "hooks (committed s') = tbl_upd now i (patch_hook p key) (hooks (work s))"
    using assms(1)
    by (auto simp: update_hook_def tbl_get_def require_hook_role_def check_script_def when_op_def audit_request_def audit_admin_def
        record_audit_def bnd_def op_simps split: if_splits sum.splits option.splits)
  show ?thesis
  proof (cases "hp_ssh_private_key p")
    case None
    then show ?thesis using k(1,2) unfolding k(4) by (simp add: patch_hook_def or_default_def)
  next
    case (Some raw)
    then obtain c where "key = Some c" "stored_key cx raw = Inr c" using k(3) by blast
    then show ?thesis using Some k(1) stored_key_cases [of cx raw c] assms(2) unfolding k(4)
      by (auto simp: patch_hook_def or_default_def holds_key_def split: if_splits)
  qed
qed

text \<open>C31: the key of a hook round-trips: after a hook was created and updated, what is committed is an
  encryption of the key sent last, and of a text that looks like a private key; an update without the field keeps
  the one of the creation, an empty text or an explicit null removes it (the comment on the schema promises that a
  null leaves it).\<close>

theorem hook_key_roundtrip:
  assumes "fernet_correct (cx_kc cx)" "wf_table (hooks (work s))"
    and "create_hook cx xe now user rq b s = (Inr v, s1)"
    and "update_hook cx xe now' user' rq' (hv_id v) p s1 = (Inr v', s2)"
  shows "\<exists>h. tbl_get (hv_id v) (hooks (committed s2)) = Some h \<and>
    holds_key (cx_kc cx) (or_default (hp_ssh_private_key p) (hk_ssh_private_key b)) h"
  using create_hook_key [OF assms(3,2,1)] update_hook_key [OF assms(4,1)]
  by (cases "hp_ssh_private_key p") (auto simp: or_default_def holds_key_def)

end
