(* ===== verification/Ops_Api.thy ===== *)
theory Ops_Api
  imports Cert_Api Verification
begin

text \<open>
  The endpoints of \<open>app/api/v1/findings.py\<close>, \<open>app/api/v1/notifications.py\<close>, \<open>app/api/v1/audit.py\<close>, the
  deployment templates of \<open>app/api/v1/deployments.py\<close>, and discovery, health, compliance and scheduled jobs of
  \<open>app/api/v1/extras.py\<close>.  Bodies are records in which \<open>None\<close> is a missing key; an endpoint that enqueues work
  returns the message.  \<open>net\<close>, \<open>listing\<close> and \<open>probe\<close> are the network and the file system of the scans.
\<close>

section \<open>Findings\<close>

definition require_manager :: "api_user \<Rightarrow> string \<Rightarrow> unit wop" where
  "require_manager user message =
     (if au_role user \<notin> {''administrator'', ''certificate_manager''} then fail PermissionDeniedError message else ret ())"

definition finding_matches :: "string option \<Rightarrow> string option \<Rightarrow> string option \<Rightarrow> int option \<Rightarrow> ct_finding \<Rightarrow> bool" where
  "finding_matches status severity domain certificate_id f \<longleftrightarrow>
     eq_filter status (Some (FindingStatus_value (f_status f))) \<and>
     eq_filter severity (Some (FindingSeverity_value (f_severity f))) \<and>
     (truthy domain \<longrightarrow> ilike ([CHR 0x25] @ str_or domain [] @ [CHR 0x25]) (f_domain f)) \<and>
     (case certificate_id of None \<Rightarrow> True | Some c \<Rightarrow> f_certificate_id f = c)"

definition list_findings ::
    "api_user \<Rightarrow> string option \<Rightarrow> string option \<Rightarrow> string option \<Rightarrow> int option \<Rightarrow> nat \<Rightarrow> nat
      \<Rightarrow> (ct_finding row list \<times> nat \<times> nat) wop" where
  "list_findings user status severity domain certificate_id page page_size =
     bnd (require_perm user (P_at (''finding'', ''view'')) ''You are not authorized to view findings'') (\<lambda>_.
     db_get (\<lambda>d. let ws = tbl_sel (\<lambda>w. finding_matches status severity domain certificate_id (rval w)) (ct_findings d) in
       (take page_size (drop ((page - 1) * page_size) (sort_key (\<lambda>w. - f_last_seen_at (rval w)) ws)), length ws,
        page_count (length ws) page_size)))"

definition get_finding :: "api_user \<Rightarrow> int \<Rightarrow> ct_finding wop" where
  "get_finding user i =
     bnd (require_perm user (P_at (''finding'', ''view'')) ''You are not authorized to view findings'') (\<lambda>_.
     bnd (db_get (\<lambda>d. tbl_get i (ct_findings d))) (\<lambda>row.
     case row of None \<Rightarrow> fail NotFoundError ''Finding not found'' | Some f \<Rightarrow> ret f))"

record finding_patch =
  fp_status :: "string option"
  fp_assigned_to :: "int option option"
  fp_resolution_reason :: "string option option"

definition patch_finding :: "finding_patch \<Rightarrow> FindingStatus option \<Rightarrow> ct_finding \<Rightarrow> ct_finding" where
  "patch_finding b status f = f\<lparr>f_status := or_default status (f_status f),
     f_assigned_to := or_default (fp_assigned_to b) (f_assigned_to f),
     f_resolution_reason := or_default (fp_resolution_reason b) (f_resolution_reason f)\<rparr>"

definition finding_summary :: "ct_finding \<Rightarrow> json" where
  "finding_summary f = JObj [(''status'', JStr (FindingStatus_value (f_status f))),
     (''assigned_to'', case f_assigned_to f of None \<Rightarrow> JNull | Some i \<Rightarrow> JInt i)]"

definition update_finding :: "ctx \<Rightarrow> datetime \<Rightarrow> api_user \<Rightarrow> Cert_Api.request \<Rightarrow> int \<Rightarrow> finding_patch \<Rightarrow> ct_finding wop" where
  "update_finding cx now user rq i b =
     bnd (require_perm user (P_at (''finding'', ''manage'')) ''You are not authorized to manage findings'') (\<lambda>_.
     bnd (db_get (\<lambda>d. tbl_get i (ct_findings d))) (\<lambda>row.
     case row of
       None \<Rightarrow> fail NotFoundError ''Finding not found''
     | Some f \<Rightarrow>
         bnd (case fp_status b of
                None \<Rightarrow> ret None
              | Some s \<Rightarrow>
                  (case enum_of FindingStatus_members FindingStatus_value s of
                     Inl _ \<Rightarrow> fail ValidationAppError (''Invalid status: '' @ s)
                   | Inr x \<Rightarrow> ret (Some x))) (\<lambda>status.
         bnd (db_mod (ct_findings_update (tbl_upd now i (patch_finding b status)))) (\<lambda>_.
         bnd commit (\<lambda>_.
         bnd (audit_request cx now ''finding.update'' user (Some (''finding'', str_int i)) rq
                [(''before'', finding_summary f), (''after'', finding_summary (patch_finding b status f))]) (\<lambda>_.
         ret (patch_finding b status f)))))))"

section \<open>Notifications\<close>

record channel_config =
  cc_name :: string
  cc_enabled :: bool
  cc_events :: "string list"
  cc_config :: dict

text \<open>\<^verbatim>\<open>{channel, name, enabled, events, configured}\<close>: the stored configuration is not returned.\<close>

definition list_channel_settings :: "(string \<times> string \<times> bool \<times> string list \<times> bool) list wop" where
  "list_channel_settings =
     db_get (\<lambda>d. map (\<lambda>w. let r = rval w in (NotificationChannel_value (nset_channel r), nset_name r, nset_enabled r,
       nset_events r, truthy (nset_config_encrypted r))) (rows (notification_settings d)))"

definition put_channel_settings ::
    "ctx \<Rightarrow> datetime \<Rightarrow> api_user \<Rightarrow> Cert_Api.request \<Rightarrow> string \<Rightarrow> channel_config \<Rightarrow> unit wop" where
  "put_channel_settings cx now user rq channel b =
     bnd (require_manager user ''Not authorized to manage notifications'') (\<lambda>_.
     case enum_of NotificationChannel_members NotificationChannel_value channel of
       Inl _ \<Rightarrow> fail NotFoundError (''Unknown channel: '' @ channel)
     | Inr ch \<Rightarrow>
         bnd (save_channel_config (cx_nt cx) (cx_kc cx) now (cx_ivf cx) ch (cc_config b) (cc_events b) (cc_enabled b) (cc_name b)) (\<lambda>_.
         bnd (db_get (find_channel ch)) (\<lambda>row.
         audit_request cx now ''notification.settings.update'' user
           (map_option (\<lambda>w. (''notification'', str_int (rid w))) row) rq [(''channel'', JStr channel)])))"

text \<open>The test of a channel: for a name that is no channel, no configuration is found.\<close>

definition post_channel_test :: "ctx \<Rightarrow> datetime \<Rightarrow> api_user \<Rightarrow> Cert_Api.request \<Rightarrow> string \<Rightarrow> delivery wop" where
  "post_channel_test cx now user rq channel =
     bnd (case enum_of NotificationChannel_members NotificationChannel_value channel of
            Inl _ \<Rightarrow> ret (False, Some (''Channel '' @ [CHR 0x27] @ channel @ [CHR 0x27] @ '' is not enabled''))
          | Inr ch \<Rightarrow> send_test (cx_nt cx) (cx_kc cx) now ch) (\<lambda>r.
     bnd (record_audit (cx_rdf cx) now ((audit_defaults ''notification.test'')\<lparr>aa_user_id := Some (au_id user),
            aa_username := Some (au_username user), aa_result := (if fst r then AuditResult.SUCCESS else AuditResult.FAILURE),
            aa_ip_address := fst rq, aa_user_agent := snd rq,
            aa_details := [(''channel'', JStr channel), (''error'', opt_json (snd r))]\<rparr>)) (\<lambda>_. ret r))"

text \<open>\<open>None\<close>: the delivery was handed to the workers.\<close>

definition retry_notification :: "ctx \<Rightarrow> datetime \<Rightarrow> int \<Rightarrow> delivery option wop" where
  "retry_notification cx now i =
     (if celery_task_always_eager (cx_cfg cx) then bnd (deliver (cx_nt cx) (cx_kc cx) now i) (\<lambda>r. ret (Some r)) else ret None)"

definition list_notifications :: "string option \<Rightarrow> string option \<Rightarrow> nat \<Rightarrow> nat \<Rightarrow> (notification row list \<times> nat) wop" where
  "list_notifications status event_type page page_size =
     db_get (\<lambda>d. let ws = tbl_sel (\<lambda>w. eq_filter status (Some (NotificationStatus_value (n_status (rval w)))) \<and>
         eq_filter event_type (Some (n_event_type (rval w)))) (notifications d) in
       (take page_size (drop ((page - 1) * page_size) (sort_key (\<lambda>w. - created_at w) ws)), length ws))"

section \<open>Deployment templates\<close>

definition template_ok :: "deployment_template \<Rightarrow> bool" where
  "template_ok t \<longleftrightarrow> 2 \<le> length (dt_name t) \<and> length (dt_name t) \<le> 128 \<and> length (dt_target_type t) \<le> 32"

definition list_templates :: "deployment_template row list wop" where
  "list_templates = db_get (\<lambda>d. sort_key (\<lambda>w. dt_target_type (rval w)) (rows (deployment_templates d)))"

section \<open>Scheduled jobs\<close>

record job_patch =
  jp_name :: "string option"
  jp_job_type :: "string option"
  jp_schedule_type :: "ScheduleType option"
  jp_cron_expression :: "string option option"
  jp_interval_seconds :: "int option option"
  jp_enabled :: "bool option"
  jp_config :: "dict option"

definition scheduled_row :: "api_user \<Rightarrow> string \<Rightarrow> string \<Rightarrow> job_patch \<Rightarrow> scheduled_job" where
  "scheduled_row user name job_type b = \<lparr>sj_name = name, sj_job_type = job_type,
     sj_schedule_type = or_default (jp_schedule_type b) ScheduleType.CRON,
     sj_cron_expression = or_default (jp_cron_expression b) None,
     sj_interval_seconds = or_default (jp_interval_seconds b) None,
     sj_enabled = or_default (jp_enabled b) True, sj_config = or_default (jp_config b) [],
     sj_last_run_at = None, sj_next_run_at = None, sj_created_by = Some (au_id user)\<rparr>"

definition job_name_taken :: "int option \<Rightarrow> string \<Rightarrow> db \<Rightarrow> bool" where
  "job_name_taken i name d \<longleftrightarrow> list_ex (\<lambda>w. Some (rid w) \<noteq> i \<and> sj_name (rval w) = name) (rows (scheduled_jobs d))"

definition create_scheduled_job :: "ctx \<Rightarrow> datetime \<Rightarrow> api_user \<Rightarrow> Cert_Api.request \<Rightarrow> job_patch \<Rightarrow> int wop" where
  "create_scheduled_job cx now user rq b =
     bnd (require_admin user ''Only administrators can manage scheduled jobs'') (\<lambda>_.
     case (jp_name b, jp_job_type b) of
       (None, _) \<Rightarrow> fail KeyError ''name''
     | (Some _, None) \<Rightarrow> fail KeyError ''job_type''
     | (Some name, Some t) \<Rightarrow>
         bnd (db_get (job_name_taken None name)) (\<lambda>taken.
         if taken then fail IntegrityError ''scheduled_jobs.name''
         else
           bnd (db_get (\<lambda>d. next_id (scheduled_jobs d))) (\<lambda>i.
           bnd (db_mod (scheduled_jobs_update (\<lambda>x. snd (tbl_add now (scheduled_row user name t b) x)))) (\<lambda>_.
           bnd commit (\<lambda>_.
           bnd (audit_request cx now ''scheduled_job.create'' user (Some (''scheduled_job'', str_int i)) rq []) (\<lambda>_. ret i))))))"

definition patch_job :: "job_patch \<Rightarrow> scheduled_job \<Rightarrow> scheduled_job" where
  "patch_job b j = j\<lparr>sj_name := or_default (jp_name b) (sj_name j), sj_job_type := or_default (jp_job_type b) (sj_job_type j),
     sj_schedule_type := or_default (jp_schedule_type b) (sj_schedule_type j),
     sj_cron_expression := or_default (jp_cron_expression b) (sj_cron_expression j),
     sj_interval_seconds := or_default (jp_interval_seconds b) (sj_interval_seconds j),
     sj_enabled := or_default (jp_enabled b) (sj_enabled j), sj_config := or_default (jp_config b) (sj_config j)\<rparr>"

text \<open>No audit entry is written here.\<close>

definition update_scheduled_job :: "datetime \<Rightarrow> api_user \<Rightarrow> int \<Rightarrow> job_patch \<Rightarrow> bool wop" where
  "update_scheduled_job now user i b =
     bnd (require_admin user ''Only administrators can manage scheduled jobs'') (\<lambda>_.
     bnd (db_get (\<lambda>d. tbl_get i (scheduled_jobs d))) (\<lambda>row.
     case row of
       None \<Rightarrow> fail NotFoundError ''Scheduled job not found''
     | Some j \<Rightarrow>
         bnd (db_get (job_name_taken (Some i) (sj_name (patch_job b j)))) (\<lambda>taken.
         if taken then fail IntegrityError ''scheduled_jobs.name''
         else
           bnd (db_mod (scheduled_jobs_update (tbl_upd now i (patch_job b)))) (\<lambda>_.
           bnd commit (\<lambda>_. ret (sj_enabled (patch_job b j)))))))"

section \<open>Discovery\<close>

text \<open>A scan that ran: its row; \<open>None\<close>: it was handed to the workers.\<close>

definition scan_answer :: "int \<Rightarrow> db \<Rightarrow> discovery_run option" where
  "scan_answer r d = tbl_get r (discovery_runs d)"

definition trigger_discovery ::
    "ctx \<Rightarrow> fs_env \<Rightarrow> (string \<Rightarrow> string list option) \<Rightarrow> datetime \<Rightarrow> api_user \<Rightarrow> Cert_Api.request \<Rightarrow> string list
      \<Rightarrow> discovery_run option wop" where
  "trigger_discovery cx fe listing now user rq paths =
     bnd (require_perm user (P_at (''discovery'', ''run'')) ''You are not authorized to run discovery'') (\<lambda>_.
     if celery_task_always_eager (cx_cfg cx) then
       bnd (run_discovery cx fe listing now paths (Some (au_id user))) (\<lambda>r. db_get (scan_answer r))
     else bnd (audit_request cx now ''discovery.trigger'' user None rq []) (\<lambda>_. ret None))"

definition trigger_network_scan ::
    "ctx \<Rightarrow> scan_net \<Rightarrow> (string \<Rightarrow> bool) \<Rightarrow> datetime \<Rightarrow> api_user \<Rightarrow> Cert_Api.request \<Rightarrow> string list \<Rightarrow> int list option
      \<Rightarrow> int option \<Rightarrow> bool \<Rightarrow> discovery_run option wop" where
  "trigger_network_scan cx net float_ok now user rq targets ports concurrency has_timeout =
     bnd (require_perm user (P_at (''discovery'', ''network_scan'')) ''You are not authorized to run network scans'') (\<lambda>_.
     if targets = [] then fail ValidationAppError ''At least one target (IP, CIDR, or hostname) is required''
     else if celery_task_always_eager (cx_cfg cx) then
       bnd (run_network_scan cx net float_ok now targets ports concurrency has_timeout (Some (au_id user))) (\<lambda>r.
       db_get (scan_answer r))
     else bnd (audit_request cx now ''discovery.network_scan.trigger'' user None rq []) (\<lambda>_. ret None))"

definition trigger_ct_monitor ::
    "ctx \<Rightarrow> scan_net \<Rightarrow> datetime \<Rightarrow> api_user \<Rightarrow> Cert_Api.request \<Rightarrow> string list \<Rightarrow> discovery_run option wop" where
  "trigger_ct_monitor cx net now user rq domains =
     bnd (require_perm user (P_at (''discovery'', ''ct_monitor'')) ''You are not authorized to run CT monitoring scans'') (\<lambda>_.
     if domains = [] then fail ValidationAppError ''At least one domain is required''
     else if celery_task_always_eager (cx_cfg cx) then
       bnd (run_ct_monitor cx net now domains None None None None (Some (au_id user))) (\<lambda>r. db_get (scan_answer r))
     else bnd (audit_request cx now ''discovery.ct_monitor.trigger'' user None rq []) (\<lambda>_. ret None))"

definition list_sightings :: "api_user \<Rightarrow> int option \<Rightarrow> nat \<Rightarrow> network_sighting row list wop" where
  "list_sightings user certificate_id limit =
     bnd (require_perm user (P_at (''discovery'', ''view'')) ''You are not authorized to view network scan results'') (\<lambda>_.
     db_get (\<lambda>d. take limit (sort_key (\<lambda>w. - ns_last_seen_at (rval w))
       (tbl_sel (\<lambda>w. case certificate_id of None \<Rightarrow> True | Some c \<Rightarrow> ns_certificate_id (rval w) = c) (network_sightings d)))))"

text \<open>Listing the runs closes the stale ones among them.\<close>

definition list_runs :: "datetime \<Rightarrow> api_user \<Rightarrow> nat \<Rightarrow> discovery_run list wop" where
  "list_runs now user limit =
     bnd (require_perm user (P_at (''discovery'', ''view'')) ''You are not authorized to view discovery runs'') (\<lambda>_.
     bnd (db_get (\<lambda>d. take limit (sort_key (\<lambda>w. - dr_started_at (rval w)) (rows (discovery_runs d))))) (\<lambda>ws.
     bnd (for_each ws (\<lambda>w. mark_stale_run_failed now (rid w))) (\<lambda>_.
     db_get (\<lambda>d. List.map_filter (\<lambda>w. tbl_get (rid w) (discovery_runs d)) ws))))"

definition cancel_discovery_run :: "ctx \<Rightarrow> datetime \<Rightarrow> api_user \<Rightarrow> Cert_Api.request \<Rightarrow> int \<Rightarrow> unit wop" where
  "cancel_discovery_run cx now user rq r =
     (if \<not> has_permission (au_role user) (P_at (''discovery'', ''network_scan'')) \<and>
         \<not> has_permission (au_role user) (P_at (''discovery'', ''ct_monitor''))
      then fail PermissionDeniedError ''You are not authorized to cancel discovery runs''
      else
        bnd (db_get (\<lambda>d. tbl_get r (discovery_runs d))) (\<lambda>row.
        case row of
          None \<Rightarrow> fail NotFoundError ''Run not found''
        | Some _ \<Rightarrow>
            bnd (cancel_run now r) (\<lambda>_.
            audit_request cx now ''discovery.run.cancel'' user (Some (''discovery'', str_int r)) rq [])))"

definition list_ignores :: "api_user \<Rightarrow> discovery_ignore row list wop" where
  "list_ignores user =
     bnd (require_perm user (P_at (''discovery'', ''view'')) ''You are not authorized to view discovery ignores'') (\<lambda>_.
     db_get (\<lambda>d. sort_key (\<lambda>w. - created_at w) (rows (discovery_ignores d))))"

text \<open>The entry is recorded before the commit.\<close>

definition delete_discovery_ignore :: "ctx \<Rightarrow> datetime \<Rightarrow> api_user \<Rightarrow> Cert_Api.request \<Rightarrow> int \<Rightarrow> unit wop" where
  "delete_discovery_ignore cx now user rq i =
     bnd (require_perm user (P_at (''discovery'', ''run'')) ''You are not authorized to manage discovery'') (\<lambda>_.
     bnd (db_get (\<lambda>d. tbl_get i (discovery_ignores d))) (\<lambda>row.
     case row of
       None \<Rightarrow> fail NotFoundError ''Ignored fingerprint not found''
     | Some _ \<Rightarrow>
         bnd (db_mod (discovery_ignores_update (tbl_del i))) (\<lambda>_.
         bnd (audit_request cx now ''discovery.unignore'' user (Some (''discovery_ignore'', str_int i)) rq []) (\<lambda>_.
         commit))))"

section \<open>Health and compliance\<close>

definition scan_certificate ::
    "ctx \<Rightarrow> (string \<Rightarrow> tls_probe) \<Rightarrow> datetime \<Rightarrow> api_user \<Rightarrow> Cert_Api.request \<Rightarrow> int \<Rightarrow> health_result wop" where
  "scan_certificate cx probe now user rq i =
     bnd (require_perm user (P_at (''health'', ''run'')) ''You are not authorized to run health scans'') (\<lambda>_.
     bnd (get_certificate i) (\<lambda>_.
     bnd (check_certificate_health probe now i []) (\<lambda>r.
     bnd (audit_request cx now ''health.scan'' user (Some (''certificate'', str_int i)) rq []) (\<lambda>_. ret r))))"

definition health_history :: "int \<Rightarrow> nat \<Rightarrow> health_check row list wop" where
  "health_history i limit =
     db_get (\<lambda>d. take limit (sort_key (\<lambda>w. - hc_checked_at (rval w))
       (tbl_sel (\<lambda>w. hc_certificate_id (rval w) = i) (health_checks d))))"

definition generate_compliance ::
    "ctx \<Rightarrow> (nat \<Rightarrow> nat \<Rightarrow> json) \<Rightarrow> datetime \<Rightarrow> api_user \<Rightarrow> Cert_Api.request \<Rightarrow> compliance_report wop" where
  "generate_compliance cx rate now user rq =
     bnd (require_perm user (P_at (''admin'', ''reports'')) ''You are not authorized to generate compliance reports'') (\<lambda>_.
     bnd (run_compliance_report rate now (Some (au_id user)) True) (\<lambda>r.
     bnd (audit_request cx now ''compliance.report'' user None rq []) (\<lambda>_. ret r)))"

section \<open>Templates and audit log\<close>

definition template_name_taken :: "string \<Rightarrow> db \<Rightarrow> bool" where
  "template_name_taken name d \<longleftrightarrow> list_ex (\<lambda>w. dt_name (rval w) = name) (rows (deployment_templates d))"

definition create_template ::
    "ctx \<Rightarrow> datetime \<Rightarrow> api_user \<Rightarrow> Cert_Api.request \<Rightarrow> deployment_template \<Rightarrow> int wop" where
  "create_template cx now user rq b =
     (if \<not> template_ok b then fail ValidationAppError ''Request validation failed''
      else
        bnd (require_manager user ''Not authorized to manage templates'') (\<lambda>_.
        bnd (db_get (template_name_taken (dt_name b))) (\<lambda>taken.
        if taken then fail IntegrityError ''deployment_templates.name''
        else
          bnd (db_get (\<lambda>d. next_id (deployment_templates d))) (\<lambda>i.
          bnd (db_mod (deployment_templates_update (\<lambda>t. snd (tbl_add now (b\<lparr>dt_created_by := Some (au_id user)\<rparr>) t)))) (\<lambda>_.
          bnd commit (\<lambda>_.
          bnd (audit_request cx now ''deployment.template.create'' user (Some (''deployment_template'', str_int i)) rq []) (\<lambda>_.
          ret i)))))))"

text \<open>\<open>parse\<close> is \<^verbatim>\<open>datetime.fromisoformat\<close>; a date that does not parse is no filter.\<close>

definition list_audit ::
    "(string \<Rightarrow> datetime option) \<Rightarrow> string option \<Rightarrow> string option \<Rightarrow> string option \<Rightarrow> string option \<Rightarrow> string option
      \<Rightarrow> string option \<Rightarrow> nat \<Rightarrow> nat \<Rightarrow> (audit_log row list \<times> nat) wop" where
  "list_audit parse username action resource_type result date_from date_to page page_size =
     (let date = (\<lambda>x. if truthy x then parse (str_or x []) else None) in
      db_get (query_audit \<lparr>aq_user = username, aq_action = action, aq_resource_type = resource_type, aq_result = result,
        aq_date_from = date date_from, aq_date_to = date date_to, aq_limit = page_size, aq_offset = (page - 1) * page_size\<rparr>))"

end
