(* ===== verification/Ops_Proofs.thy ===== *)
theory Ops_Proofs
  imports Ops_Api User_Api Backups Webhooks
begin

text \<open>
  Access control of the administrative endpoints: the ones of \<open>Ops_Api\<close>, \<open>User_Api\<close>, \<open>Backups\<close> and \<open>Webhooks\<close>
  that change something, and who may call each.
\<close>

text \<open>What the calls run on: the network, the file system and the libraries of the scans and backups.\<close>

record ops_env =
  oe_fs :: fs_env
  oe_listing :: "string \<Rightarrow> string list option"
  oe_net :: scan_net
  oe_float_ok :: "string \<Rightarrow> bool"
  oe_probe :: "string \<Rightarrow> tls_probe"
  oe_rate :: "nat \<Rightarrow> nat \<Rightarrow> json"
  oe_archiver :: archiver
  oe_strf :: "datetime \<Rightarrow> string"
  oe_check_dump :: "string \<Rightarrow> bool \<times> string"
  oe_exec :: exec_env
  oe_randoms :: randoms

datatype ops_call =
    UpdateFinding int finding_patch
  | PutChannel string channel_config
  | CreateTemplate deployment_template
  | CreateJob job_patch
  | UpdateJob int job_patch
  | RunDiscovery "string list"
  | RunNetworkScan "string list" "int list option" "int option" bool
  | RunCtMonitor "string list"
  | CancelRun int
  | Unignore int
  | HealthScan int
  | ComplianceReport
  | CreateUser user_body
  | UpdateUser int user_patch
  | CreateHook hook_create
  | UpdateHook int hook_patch
  | DeleteHook int
  | BackupRun
  | BackupVerify "string list" "string list" bool
  | BackupRestore int bool "int option"
  | CreateWebhook webhook_create

text \<open>Who may make a call.\<close>

definition is_manager :: "api_user \<Rightarrow> bool" where
  "is_manager u \<longleftrightarrow> au_role u \<in> {''administrator'', ''certificate_manager''}"

fun may_call :: "api_user \<Rightarrow> ops_call \<Rightarrow> bool" where
  "may_call u (UpdateFinding _ _) = has_permission (au_role u) ''finding:manage''"
| "may_call u (PutChannel _ _) = is_manager u"
| "may_call u (CreateTemplate _) = is_manager u"
| "may_call u (RunDiscovery _) = has_permission (au_role u) ''discovery:run''"
| "may_call u (RunNetworkScan _ _ _ _) = has_permission (au_role u) ''discovery:network_scan''"
| "may_call u (RunCtMonitor _) = has_permission (au_role u) ''discovery:ct_monitor''"
| "may_call u (CancelRun _) =
     (has_permission (au_role u) ''discovery:network_scan'' \<or> has_permission (au_role u) ''discovery:ct_monitor'')"
| "may_call u (Unignore _) = has_permission (au_role u) ''discovery:run''"
| "may_call u (HealthScan _) = has_permission (au_role u) ''health:run''"
| "may_call u ComplianceReport = has_permission (au_role u) ''admin:reports''"
| "may_call u (UpdateUser i _) = (au_role u = ''administrator'' \<or> au_id u = i)"
| "may_call u (CreateHook _) = is_manager u"
| "may_call u (UpdateHook _ _) = is_manager u"
| "may_call u _ = (au_role u = ''administrator'')"

definition void :: "('s, 'a) op \<Rightarrow> ('s, unit) op" where
  "void m = bnd m (\<lambda>_. ret ())"

fun ops :: "ctx \<Rightarrow> ops_env \<Rightarrow> datetime \<Rightarrow> api_user \<Rightarrow> Cert_Api.request \<Rightarrow> ops_call \<Rightarrow> unit wop" where
  "ops cx env now u rq (UpdateFinding i b) = void (update_finding cx now u rq i b)"
| "ops cx env now u rq (PutChannel ch b) = put_channel_settings cx now u rq ch b"
| "ops cx env now u rq (CreateTemplate b) = void (create_template cx now u rq b)"
| "ops cx env now u rq (CreateJob b) = void (create_scheduled_job cx now u rq b)"
| "ops cx env now u rq (UpdateJob i b) = void (update_scheduled_job now u i b)"
| "ops cx env now u rq (RunDiscovery ps) = void (trigger_discovery cx (oe_fs env) (oe_listing env) now u rq ps)"
| "ops cx env now u rq (RunNetworkScan ts ps c t) =
     void (trigger_network_scan cx (oe_net env) (oe_float_ok env) now u rq ts ps c t)"
| "ops cx env now u rq (RunCtMonitor ds) = void (trigger_ct_monitor cx (oe_net env) now u rq ds)"
| "ops cx env now u rq (CancelRun i) = cancel_discovery_run cx now u rq i"
| "ops cx env now u rq (Unignore i) = delete_discovery_ignore cx now u rq i"
| "ops cx env now u rq (HealthScan i) = void (scan_certificate cx (oe_probe env) now u rq i)"
| "ops cx env now u rq ComplianceReport = void (generate_compliance cx (oe_rate env) now u rq)"
| "ops cx env now u rq (CreateUser b) = void (create_user_endpoint cx now (oe_randoms env) u rq b)"
| "ops cx env now u rq (UpdateUser i b) = void (update_user cx now (oe_randoms env) u rq i b)"
| "ops cx env now u rq (CreateHook b) = void (create_hook cx (oe_exec env) now u rq b)"
| "ops cx env now u rq (UpdateHook i b) = void (update_hook cx (oe_exec env) now u rq i b)"
| "ops cx env now u rq (DeleteHook i) = delete_hook cx now u rq i"
| "ops cx env now u rq BackupRun = void (post_backup_run cx (oe_archiver env) (oe_strf env) now u rq)"
| "ops cx env now u rq (BackupVerify as ds smp) =
     void (post_backup_verify cx (oe_archiver env) (oe_check_dump env) now u rq as ds smp)"
| "ops cx env now u rq (BackupRestore i dry c) = void (post_backup_restore cx (oe_archiver env) now u rq i dry c)"
| "ops cx env now u rq (CreateWebhook b) = void (create_endpoint cx now u rq b)"

lemma ops_codes [simp]:
  "P_at (''finding'', ''manage'') = ''finding:manage''" "P_at (''discovery'', ''run'') = ''discovery:run''"
  "P_at (''discovery'', ''network_scan'') = ''discovery:network_scan''"
  "P_at (''discovery'', ''ct_monitor'') = ''discovery:ct_monitor''"
  "P_at (''health'', ''run'') = ''health:run''" "P_at (''admin'', ''reports'') = ''admin:reports''"
  by (simp_all add: P_at_def P_codes_def)

lemma refused [simp]:
  "\<not> has_permission (au_role u) p \<Longrightarrow> bnd (require_perm u p m) f = fail PermissionDeniedError m"
  "au_role u \<noteq> ''administrator'' \<Longrightarrow> bnd (require_admin u m) g = fail PermissionDeniedError m"
  "\<not> is_manager u \<Longrightarrow> bnd (require_manager u m) g = fail PermissionDeniedError m"
  "\<not> is_manager u \<Longrightarrow> bnd (require_hook_role u) g = fail PermissionDeniedError ''Not authorized to manage hooks''"
  by (simp_all add: require_perm_def require_admin_def require_manager_def require_hook_role_def is_manager_def)

lemma void_throw [simp]: "void (throw e) = throw e"
  by (simp add: void_def)

lemmas ops_endpoint_defs = update_finding_def put_channel_settings_def create_template_def create_scheduled_job_def
  update_scheduled_job_def trigger_discovery_def trigger_network_scan_def trigger_ct_monitor_def cancel_discovery_run_def
  delete_discovery_ignore_def scan_certificate_def generate_compliance_def create_user_endpoint_def update_user_def
  create_hook_def update_hook_def delete_hook_def post_backup_run_def post_backup_verify_def post_backup_restore_def
  create_endpoint_def

text \<open>C21: Access control of the administrative endpoints (users, hooks, findings, notification channels, templates,
  scheduled jobs, scans, health, compliance, backups, webhooks): a caller who may not make the call gets an error, and
  neither the session, the committed database nor a file changes.\<close>

theorem ops_calls_gated:
  assumes "\<not> may_call user c"
  shows "\<exists>e. ops cx env now user rq c s = (Inl e, s) \<and> exc_of e \<in> {PermissionDeniedError, ValidationAppError}"
  using assms by (cases c) (simp_all add: ops_endpoint_defs op_simps)

end
