(* ===== verification/Registrar_Proofs.thy ===== *)
theory Registrar_Proofs
  imports Registrar
begin

text \<open>
  Which certificate of a registrar account is imported, and what becomes of a secret that was stored.
\<close>

section \<open>The choice of a certificate\<close>

lemma latest_max:
  "latest c cs \<in> set (c # cs) \<and> (\<forall>x \<in> set (c # cs). valid_end x \<le> valid_end (latest c cs))"
proof (induction cs arbitrary: c)
  case Nil
  then show ?case by (simp add: latest_def)
next
  case (Cons y ys)
  let ?b = "if valid_end c < valid_end y then y else c"
  have "latest c (y # ys) = latest ?b ys" by (simp add: latest_def)
  then show ?case using Cons.IH [of ?b] by (auto split: if_splits)
qed

text \<open>The chosen certificate carries the name, is live if any match is, and none of those outlasts it.\<close>

lemma choose_best:
  assumes "choose_certificate domain cs = Inr c"
  shows "c \<in> set cs \<and> domain_matches domain c \<and>
    (\<forall>c' \<in> set cs. domain_matches domain c' \<and> (is_live c' \<or> \<not> is_live c) \<longrightarrow>
       (is_live c' \<longrightarrow> is_live c) \<and> valid_end c' \<le> valid_end c)"
proof -
  let ?m = "filter (domain_matches domain) cs" and ?l = "filter is_live (filter (domain_matches domain) cs)"
  let ?p = "if ?l = [] then ?m else ?l"
  obtain x xs where p: "?p = x # xs" and c: "c = latest x xs"
    using assms by (auto simp: choose_certificate_def Let_def split: list.splits if_splits)
  have m: "c \<in> set ?p" "\<forall>y \<in> set ?p. valid_end y \<le> valid_end c" using latest_max [of x xs] unfolding p c by blast+
  show ?thesis
  proof (cases "?l = []")
    case True
    then have "\<forall>y \<in> set cs. domain_matches domain y \<longrightarrow> \<not> is_live y" by (auto simp: filter_empty_conv)
    then show ?thesis using m True by auto
  next
    case False
    then show ?thesis using m by auto
  qed
qed

text \<open>What a successful lookup has read from the registrar.\<close>

definition best_match :: "registrar_net \<Rightarrow> crypto \<Rightarrow> db \<Rightarrow> string \<Rightarrow> string \<Rightarrow> bool" where
  "best_match net k d domain gid \<longleftrightarrow>
     (case gd_settings_client k d of
        Inl _ \<Rightarrow> False
      | Inr h \<Rightarrow>
          (case gd_list_certificates net h (Some domain) of
             Inr (Inr cs) \<Rightarrow> list_ex (\<lambda>c. gc_certificateId c = Some gid \<and> domain_matches domain c \<and>
               list_all (\<lambda>c'. domain_matches domain c' \<and> (is_live c' \<or> \<not> is_live c) \<longrightarrow>
                 (is_live c' \<longrightarrow> is_live c) \<and> valid_end c' \<le> valid_end c) cs) cs
           | _ \<Rightarrow> False))"

lemma find_best: "find_certificate_id net k d domain = Inr gid \<Longrightarrow> best_match net k d domain gid"
  by (auto simp: find_certificate_id_def best_match_def list_ex_iff list_all_iff split: sum.splits option.splits
      dest!: choose_best)

text \<open>\<open>m\<close> is the metadata of the certificate that the registrar hands out under the identifier \<open>gid\<close>, asked
  with the credentials of the settings.\<close>

definition registrar_holds :: "registrar_net \<Rightarrow> ctx \<Rightarrow> db \<Rightarrow> string \<Rightarrow> x509_meta \<Rightarrow> bool" where
  "registrar_holds net cx d gid m \<longleftrightarrow> (\<exists>h status text b pem.
     gd_settings_client (cx_kc cx) d = Inr h \<and>
     rn_get net h (''/v1/certificates/'' @ gid @ ''/download'') None = Inr (status, text) \<and> status < 400 \<and>
     rn_bundle net text = Inr b \<and> gp_certificate b = Some pem \<and> parse_certificate (cx_x5 cx) pem = Inr m)"

lemma gd_fetch_found:
  assumes "gd_fetch net k (Some domain) None d = Inr (gid, b)"
  shows "best_match net k d domain gid \<and> (\<exists>h status text. gd_settings_client k d = Inr h \<and>
    rn_get net h (''/v1/certificates/'' @ gid @ ''/download'') None = Inr (status, text) \<and> status < 400 \<and> rn_bundle net text = Inr b)"
  using assms find_best [of net k d domain gid]
  by (auto simp: gd_fetch_def gd_download_certificate_def gd_get_def truthy_def str_or_def split: sum.splits if_splits prod.splits)

lemma import_source_plain: "import_source cx cd None chain None None m \<Longrightarrow> \<exists>pem. cd = Some pem \<and> parse_certificate (cx_x5 cx) pem = Inr m"
  by (auto simp: import_source_def import_inputs_def truthy_def)

text \<open>C28: an import from the registrar by domain either changes nothing in the database, or it commits the
  certificate that the registrar hands out under the identifier of a listed entry which names the domain, compared
  by the platform and not by the registrar's own filter, is live if any such entry is, and is the one valid longest:
  the committed row carries the data of exactly that certificate and the provider godaddy, and no certificate had its
  fingerprint before.\<close>

theorem registrar_import_outcome:
  assumes "wf_table (certificates (work s))"
  shows "case fetch_certificate_from_godaddy cx net now (Some domain) None environ auto_renew user s of
      (Inl _, s') \<Rightarrow> work s' = work s \<and> committed s' = committed s
    | (Inr (i, gid), s') \<Rightarrow> best_match net (cx_kc cx) (work s) domain gid \<and> committed s' = work s' \<and>
        (\<exists>m c. registrar_holds net cx (work s) gid m \<and> tbl_get i (certificates (committed s')) = Some c \<and>
           imported_from (cx_cfg cx) m (gd_payload environ auto_renew) user c \<and>
           c_fingerprint_sha256 c = Some (m_fingerprint_sha256 m) \<and> c_provider_name c = ''godaddy'' \<and>
           tbl_first (\<lambda>r. c_fingerprint_sha256 (rval r) = Some (m_fingerprint_sha256 m)) (certificates (work s)) = None)"
proof (cases "gd_fetch net (cx_kc cx) (Some domain) None (work s)")
  case (Inl e)
  then show ?thesis by (simp add: fetch_certificate_from_godaddy_def op_simps)
next
  case (Inr gb)
  then obtain gid b where g: "gd_fetch net (cx_kc cx) (Some domain) None (work s) = Inr (gid, b)" by (cases gb) simp
  let ?imp = "import_certificate cx now (gp_certificate b) None (gd_chain b) None None (gd_payload environ auto_renew) user JobTrigger.API"
  have run: "fetch_certificate_from_godaddy cx net now (Some domain) None environ auto_renew user s = bnd ?imp (\<lambda>i. ret (i, gid)) s"
    using g by (simp add: fetch_certificate_from_godaddy_def op_simps)
  note wp = import_parsed_wp [OF assms, of cx now "gp_certificate b" None "gd_chain b" None None "gd_payload environ auto_renew" user JobTrigger.API]
  obtain r s' where imp: "?imp s = (r, s')" by fastforce
  show ?thesis
  proof (cases r)
    case (Inl e)
    then show ?thesis unfolding run using imp wp_InlD [OF wp] by (simp add: op_simps)
  next
    case (Inr i)
    from wp_InrD [OF wp imp [unfolded Inr]] obtain m c where m: "committed s' = work s'" "import_source cx (gp_certificate b) None (gd_chain b) None None m"
      "tbl_first (\<lambda>r. c_fingerprint_sha256 (rval r) = Some (m_fingerprint_sha256 m)) (certificates (work s)) = None"
      "tbl_get i (certificates (work s')) = Some c" "imported_from (cx_cfg cx) m (gd_payload environ auto_renew) user c"
      by (auto simp: has_cert_def)
    have "registrar_holds net cx (work s) gid m"
      using gd_fetch_found [OF g] import_source_plain [OF m(2)] unfolding registrar_holds_def by blast
    moreover have "c_provider_name c = ''godaddy''" using imported_from_facts(4) [OF m(5)] by (simp add: gd_payload_def or_default_def)
    ultimately show ?thesis unfolding run
      using imp Inr m gd_fetch_found [OF g] imported_from_facts(1) [OF m(5)] by (auto simp: op_simps)
  qed
qed

section \<open>Stored secrets\<close>

lemma db_secret_stored:
  assumes "fernet_correct k" "fernet_encrypt k iv v \<noteq> []" "db_secret_set k iv now key v s = (Inr (), s')"
  shows "db_secret_row k key (work s') = Inr (Some v)"
proof -
  have enc: "truthy (Some (encrypt_secret k iv v))" "str_or (Some (encrypt_secret k iv v)) [] = encrypt_secret k iv v"
    using assms(2) by (simp_all add: truthy_def str_or_def encrypt_secret_def)
  show ?thesis
  proof (cases "setting_row (secret_setting_key key) (work s)")
    case None
    then have none: "find (\<lambda>w. as_key (rval w) = secret_setting_key key) (rows (app_settings (work s))) = None"
      by (simp add: setting_row_def tbl_first_def)
    show ?thesis
      using assms(3) None secret_roundtrip [OF assms(1)] enc
      by (auto simp: db_secret_set_def db_secret_row_def setting_row_def tbl_first_def rows_add find_append none op_simps)
  next
    case (Some w)
    let ?f = "\<lambda>x. x\<lparr>as_value := Some (encrypt_secret k iv v), as_is_secret := True\<rparr>"
    have "setting_row (secret_setting_key key) (app_settings_update (tbl_upd now (rid w) ?f) (work s)) = Some (touch now ?f w)"
      using Some by (simp add: setting_row_def tbl_upd_def tbl_first_upd_where)
    then show ?thesis
      using assms(3) Some secret_roundtrip [OF assms(1)] enc by (auto simp: db_secret_set_def db_secret_row_def op_simps)
  qed
qed

text \<open>a secret stored in the database reads back through the manager, unless the vault or the environment has
  one of that name: theirs comes first, so storing a new value has no effect then.\<close>

theorem stored_secret_roundtrip:
  assumes "fernet_correct k" "fernet_encrypt k iv v \<noteq> []" "v \<noteq> []" "manager_set_db k iv m now key v s = (Inr (), s')"
  shows "manager_get k m key dflt (work s') =
    Inr (Some (case first_secret (manager_backends m) key of None \<Rightarrow> v | Some x \<Rightarrow> x))"
  using assms db_secret_stored [OF assms(1,2), of now key s s']
  by (auto simp: manager_set_db_def manager_get_def db_secret_get_def truthy_def op_simps split: option.splits if_splits)

end
