(* ===== verification/Registrar_Witnesses.thy ===== *)
theory Registrar_Witnesses
  imports Registrar_Proofs Cert_Witnesses
begin

text \<open>Concrete runs for the registrar import and the secret manager.\<close>

definition shop :: gd_certificate where
  "shop = \<lparr>gc_certificateId = Some ''c1'', gc_commonName = Some ''Shop.Example.'', gc_names = [], gc_certificateStatus = Some ''ISSUED'',
     gc_revokedAt = None, gc_validEnd = Some ''2027-01-01''\<rparr>"

text \<open>A registrar that lists two certificates of the domain, the revoked one with the later end, and one of another.\<close>

definition registrar :: registrar_net where
  "registrar = \<lparr>rn_get = (\<lambda>h p d. Inr (200, p)), rn_list = (\<lambda>_. Inr [shop\<lparr>gc_certificateId := Some ''c0'', gc_commonName := Some ''other.example''\<rparr>,
       shop\<lparr>gc_certificateId := Some ''c2'', gc_validEnd := Some ''2028-01-01'', gc_revokedAt := Some ''2026-01-01''\<rparr>, shop]),
     rn_bundle = (\<lambda>_. Inr \<lparr>gp_certificate = Some ''PEM'', gp_intermediate = None, gp_cross = None\<rparr>)\<rparr>"

definition account :: app_setting where
  "account = \<lparr>as_key = ''godaddy.api_key'', as_value = Some ''k'', as_is_secret = False, as_description = None, as_updated_by = None\<rparr>"

definition account_db :: db where
  "account_db = empty_db\<lparr>app_settings := snd (tbl_add 0 (account\<lparr>as_key := ''godaddy.api_secret''\<rparr>) (snd (tbl_add 0 account empty_table)))\<rparr>"

definition account_session :: world where
  "account_session = open_session account_db Map.empty"

definition import_run :: "(exn + int \<times> string) \<times> world" where
  "import_run = fetch_certificate_from_godaddy with_provider registrar 5 (Some ''shop.example'') None ''production'' False None account_session"

lemma registrar_import_outcome_witness:
  "\<exists>s'. import_run = (Inr (1, ''c1''), s') \<and> best_match registrar clear_crypto (work account_session) ''shop.example'' ''c1'' \<and>
     committed s' = work s' \<and> (\<exists>m c. registrar_holds registrar with_provider (work account_session) ''c1'' m \<and>
       tbl_get 1 (certificates (committed s')) = Some c \<and> c_fingerprint_sha256 c = Some (m_fingerprint_sha256 m))"
proof -
  have "case import_run of (Inr x, _) \<Rightarrow> x = (1, ''c1'') | _ \<Rightarrow> False" by code_simp
  then obtain s' where run: "import_run = (Inr (1, ''c1''), s')" by (auto split: prod.splits sum.splits)
  have wf: "wf_table (certificates (work account_session))" by code_simp
  have c: "cx_kc with_provider = clear_crypto" by (simp add: with_provider_def demo_ctx_def)
  show ?thesis
    using registrar_import_outcome [OF wf, where cx = with_provider and net = registrar and now = 5 and domain = "''shop.example''" and
      environ = "''production''" and auto_renew = False and user = None] run
    unfolding c import_run_def by auto
qed

text \<open>One secret in the environment, one stored.\<close>

definition manager :: secret_manager where
  "manager = \<lparr>sm_vault = None, sm_environ = (\<lambda>k. if k = ''SMTP'' then Some ''env'' else None), sm_db_bound = True\<rparr>"

lemma stored_secret_roundtrip_witness:
  "\<exists>s'. manager_set_db clear_crypto ''iv'' manager 5 ''API'' ''s3cret'' account_session = (Inr (), s') \<and>
     manager_get clear_crypto manager ''API'' None (work s') = Inr (Some ''s3cret'')"
proof -
  have "case manager_set_db clear_crypto ''iv'' manager 5 ''API'' ''s3cret'' account_session of (Inr x, _) \<Rightarrow> x = () | _ \<Rightarrow> False" by code_simp
  then obtain s' where run: "manager_set_db clear_crypto ''iv'' manager 5 ''API'' ''s3cret'' account_session = (Inr (), s')"
    by (auto split: prod.splits sum.splits)
  have e: "fernet_encrypt clear_crypto ''iv'' ''s3cret'' \<noteq> []" "''s3cret'' \<noteq> []"
    "first_secret (manager_backends manager) ''API'' = None" by code_simp+
  show ?thesis using stored_secret_roundtrip [OF clear_crypto_correct(2) e(1,2) run, of None] run unfolding e(3) by auto
qed

end
