(* ===== verification/Insights.thy ===== *)
theory Insights
  imports Cert_Api
begin

text \<open>
  What the platform reports about itself: \<open>app/services/search_service.py\<close>, \<open>app/services/dashboard_service.py\<close> and
  the local part of \<open>app/services/ai_service.py\<close>, with their endpoints.  All of them only read; times are shown by their
  day, counted from 1970.
\<close>

section \<open>Search\<close>

record search_answer =
  sa_certificates :: "int list"
  sa_servers :: "int list"
  sa_users :: "(int \<times> string \<times> string) list"
  sa_total :: nat

definition like_any :: "string \<Rightarrow> string option list \<Rightarrow> bool" where
  "like_any like vs \<longleftrightarrow> list_ex (\<lambda>v. case v of None \<Rightarrow> False | Some s \<Rightarrow> ilike like s) vs"

definition enterprise_search :: "string \<Rightarrow> nat \<Rightarrow> db \<Rightarrow> search_answer" where
  "enterprise_search text limit d =
     (let q = py_strip text in
      if q = [] \<or> length q < 2 then \<lparr>sa_certificates = [], sa_servers = [], sa_users = [], sa_total = 0\<rparr>
      else
        let like = [CHR 0x25] @ q @ [CHR 0x25];
            certs = take limit (tbl_sel (\<lambda>w. let c = rval w in like_any like [Some (c_domain c), c_issuer c, c_subject c,
              c_serial_number c, c_fingerprint_sha256 c, c_cert_name c]) (certificates d));
            hosts = take limit (tbl_sel (\<lambda>w. like_any like [Some (sv_hostname (rval w)), sv_ip_address (rval w)]) (servers d));
            people = take limit (tbl_sel (\<lambda>w. let u = rval w in
              like_any like [Some (u_username u), Some (u_full_name u), u_email u]) (users d)) in
        \<lparr>sa_certificates = map rid certs, sa_servers = map rid hosts,
         sa_users = map (\<lambda>w. (rid w, u_username (rval w), u_full_name (rval w))) people,
         sa_total = length certs + length hosts + length people\<rparr>)"

section \<open>Dashboard\<close>

text \<open>\<^verbatim>\<open>GROUP BY\<close> with counts, in the order of first occurrence.\<close>

fun group_counts :: "'k list \<Rightarrow> ('k \<times> nat) list" where
  "group_counts [] = []"
| "group_counts (k # ks) = (k, Suc (length (filter (\<lambda>x. x = k) ks))) # group_counts (filter (\<lambda>x. x \<noteq> k) ks)"

definition cert_column :: "(certificate \<Rightarrow> 'k) \<Rightarrow> db \<Rightarrow> 'k list" where
  "cert_column f d = map (\<lambda>w. f (rval w)) (rows (certificates d))"

definition expiring_counts :: "datetime \<Rightarrow> int \<Rightarrow> db \<Rightarrow> nat" where
  "expiring_counts now days d =
     tbl_count (\<lambda>w. (case c_valid_until (rval w) of None \<Rightarrow> False | Some t \<Rightarrow> t \<le> now + days * us_per_day) \<and>
       CertificateStatus_value (c_status (rval w)) \<notin> {''revoked'', ''expired'', ''failed'', ''archived''}) (certificates d)"

definition with_status :: "CertificateStatus \<Rightarrow> db \<Rightarrow> nat" where
  "with_status s d = tbl_count (\<lambda>w. c_status (rval w) = s) (certificates d)"

record dashboard_totals =
  ds_total :: nat
  ds_active :: nat
  ds_expired :: nat
  ds_renewing :: nat
  ds_revoked :: nat
  ds_imported :: nat
  ds_failures_7d :: nat
  ds_expiring_60 :: nat
  ds_expiring_30 :: nat
  ds_expiring_7 :: nat
  ds_by_status :: "(string \<times> nat) list"
  ds_by_provider :: "(string \<times> nat) list"
  ds_by_environment :: "(string \<times> nat) list"
  ds_by_type :: "(string \<times> nat) list"
  ds_by_key_type :: "(string \<times> nat) list"

definition dashboard_stats :: "datetime \<Rightarrow> db \<Rightarrow> dashboard_totals" where
  "dashboard_stats now d = \<lparr>
     ds_total = length (rows (certificates d)), ds_active = with_status CertificateStatus.ACTIVE d,
     ds_expired = with_status CertificateStatus.EXPIRED d, ds_renewing = with_status CertificateStatus.RENEWING d,
     ds_revoked = with_status CertificateStatus.REVOKED d, ds_imported = tbl_count (\<lambda>w. c_imported (rval w)) (certificates d),
     ds_failures_7d = tbl_count (\<lambda>w. j_status (rval w) = JobStatus.FAILED \<and> now - 7 * us_per_day \<le> created_at w) (job_executions d),
     ds_expiring_60 = expiring_counts now 60 d, ds_expiring_30 = expiring_counts now 30 d,
     ds_expiring_7 = expiring_counts now 7 d,
     ds_by_status = group_counts (cert_column (\<lambda>c. CertificateStatus_value (c_status c)) d),
     ds_by_provider = group_counts (cert_column c_provider_name d),
     ds_by_environment = group_counts (cert_column c_environment d),
     ds_by_type = group_counts (cert_column (\<lambda>c. CertificateType_value (c_cert_type c)) d),
     ds_by_key_type = group_counts (cert_column c_key_type d)\<rparr>"

text \<open>Year and month, and the day of the month, of a time.\<close>

definition month_of :: "datetime \<Rightarrow> int \<times> int" where
  "month_of t = (case civil_from_days (t div us_per_day) of (y, m, _) \<Rightarrow> (y, m))"

definition day_of :: "datetime \<Rightarrow> int" where
  "day_of t = (case civil_from_days (t div us_per_day) of (_, _, d) \<Rightarrow> d)"

definition next_month :: "int \<times> int \<Rightarrow> int \<times> int" where
  "next_month = (\<lambda>(y, m). if m = 12 then (y + 1, 1) else (y, m + 1))"

text \<open>Months since year 0.\<close>

definition month_number :: "int \<times> int \<Rightarrow> int" where
  "month_number = (\<lambda>(y, m). 12 * y + m)"

lemma next_month_number: "month_number (next_month k) = month_number k + 1"
  by (auto simp: month_number_def next_month_def split: prod.splits)

text \<open>The loop over the months.  After its first round the cursor is the first instant of a month, so it is not
  after \<open>now\<close> exactly when its month is not after the one of \<open>now\<close>; in the first round it is \<open>start\<close>, which is before.\<close>

function months_to :: "int \<times> int \<Rightarrow> int \<times> int \<Rightarrow> (int \<times> int) list" where
  "months_to stop k = (if month_number stop < month_number k then [] else k # months_to stop (next_month k))"
  by auto
termination
  by (relation "measure (\<lambda>(stop, k). nat (month_number stop - month_number k + 1))") (auto simp: next_month_number)

declare months_to.simps [simp del]

definition count_month :: "int \<times> int \<Rightarrow> datetime \<Rightarrow> datetime list \<Rightarrow> nat" where
  "count_month k start ts = length (filter (\<lambda>t. start \<le> t \<and> month_of t = k) ts)"

definition monthly_issuance :: "datetime \<Rightarrow> int \<Rightarrow> db \<Rightarrow> ((int \<times> int) \<times> nat \<times> nat) list" where
  "monthly_issuance now months d =
     (let start = (now div us_per_day - (day_of now - 1) - months * 31) * us_per_day;
          issued = map created_at (rows (certificates d));
          renewed = List.map_filter (\<lambda>w. c_last_renewed_at (rval w)) (rows (certificates d)) in
      map (\<lambda>k. (k, count_month k start issued, count_month k start renewed)) (months_to (month_of now) (month_of start)))"

definition expiry_timeline :: "datetime \<Rightarrow> int \<Rightarrow> db \<Rightarrow> (string \<times> datetime) list" where
  "expiry_timeline now horizon d =
     sort_key snd (List.map_filter (\<lambda>w. case c_valid_until (rval w) of
         None \<Rightarrow> None
       | Some t \<Rightarrow> if t \<le> now + horizon * us_per_day then Some (c_domain (rval w), t) else None) (rows (certificates d)))"

definition renewals_today :: "datetime \<Rightarrow> db \<Rightarrow> (string \<times> string \<times> datetime) list" where
  "renewals_today now d =
     rev (sort_key (\<lambda>(_, _, t). t) (List.map_filter (\<lambda>w. case c_last_renewed_at (rval w) of
         None \<Rightarrow> None
       | Some t \<Rightarrow> if now div us_per_day * us_per_day \<le> t
           then Some (c_domain (rval w), RenewalStatus_value (c_renewal_status (rval w)), t) else None) (rows (certificates d))))"

definition top_owners :: "nat \<Rightarrow> db \<Rightarrow> (string \<times> nat) list" where
  "top_owners limit d =
     take limit (sort_key (\<lambda>(_, n). - int n) (group_counts (List.map_filter (\<lambda>w.
       case c_owner_id (rval w) of None \<Rightarrow> None | Some i \<Rightarrow> map_option u_username (tbl_get i (users d))) (rows (certificates d)))))"

definition deployment_status :: "db \<Rightarrow> (string \<times> nat) list" where
  "deployment_status d = group_counts (map (\<lambda>w. JobStatus_value (j_status (rval w)))
     (tbl_sel (\<lambda>w. j_job_type (rval w) = JobType.DEPLOY) (job_executions d)))"

definition server_summary :: "db \<Rightarrow> nat \<times> nat \<times> (string \<times> nat) list" where
  "server_summary d = (length (rows (servers d)),
     tbl_count (\<lambda>w. ConnectionStatus_value (sv_connection_status (rval w)) = ''reachable'') (servers d),
     group_counts (map (\<lambda>w. sv_environment (rval w)) (rows (servers d))))"

text \<open>\<^verbatim>\<open>created.get(day.day, 0)\<close>: rows are grouped by the day of the month only.\<close>

definition certificate_trends :: "datetime \<Rightarrow> nat \<Rightarrow> db \<Rightarrow> (int \<times> nat) list" where
  "certificate_trends now days d =
     (let start = now - int days * us_per_day;
          created = group_counts (map (\<lambda>w. day_of (created_at w)) (tbl_sel (\<lambda>w. start \<le> created_at w) (certificates d))) in
      map (\<lambda>i. let t = now - int i * us_per_day in (t div us_per_day, or_default (map_of created (day_of t)) 0)) (rev [0..<Suc days]))"

section \<open>Failure analysis\<close>

text \<open>The patterns ignore the case; a dot is any character but a newline.\<close>

definition lit_i :: "char \<Rightarrow> re" where
  "lit_i c = Cls (\<lambda>x. py_lower [x] = py_lower [c])"

definition word :: "string \<Rightarrow> re" where
  "word s = foldr (\<lambda>c r. Seq (lit_i c) r) s Eps"

definition any_char :: re where
  "any_char = Cls (\<lambda>x. x \<noteq> CHR 0x0A)"

definition any_text :: re where
  "any_text = Star any_char"

text \<open>\<^verbatim>\<open>pattern.search(text)\<close>\<close>

definition re_search :: "re \<Rightarrow> string \<Rightarrow> bool" where
  "re_search r s \<longleftrightarrow> list_ex (\<lambda>i. ends r s i \<noteq> []) [0..<Suc (length s)]"

text \<open>The raw string of this pattern has two backslashes before the dot, so the expression asks for a backslash and
  any character.\<close>

definition BAD_RESPONSE_RE :: re where
  "BAD_RESPONSE_RE = Seq (Seq (word ''Invalid response from http://'') (Seq any_text (word ''/'')))
     (Seq (lit CHR 0x5C) (Seq any_char (word ''well-known/acme-challenge'')))"

text \<open>Pattern, category, cause and recommendation.\<close>

definition KNOWN_FAILURES :: "(re \<times> string \<times> string \<times> string) list" where
  "KNOWN_FAILURES = [
    (word ''DNS problem: NXDOMAIN'', ''dns_nxdomain'',
      ''DNS lookup failed for the validation domain'',
      ''Verify the DNS A/AAAA records for the domain; ensure public resolution and correct record at the authoritative nameserver, then retry.''),
    (word ''DNS problem: SERVFAIL'', ''dns_servfail'',
      ''The authoritative nameserver returned SERVFAIL'',
      ''Check nameserver health and DNSSEC configuration; test with `dig @8.8.8.8`.''),
    (Seq (word ''DNS problem: '') (Seq (Alt (word ''looking up'') (word ''expected'')) (word '' A/AAAA'')), ''dns_no_a'',
      ''No A/AAAA record found for the validation domain'',
      ''Add the required DNS record (TXT for dns-01, A/AAAA for http-01) and allow propagation time.''),
    (Alt (word ''Connection refused'') (Seq (word ''Failed to connect to '') (Seq any_text (word '':80''))), ''http_conn_refused'',
      ''The ACME HTTP challenge could not reach port 80'',
      ''Ensure port 80 is open in the firewall and something listens there (or use dns-01 validation).''),
    (Alt (word ''Timeout during connect'') (word ''timed out''), ''network_timeout'',
      ''Network timeout contacting the ACME server or validation endpoint'',
      ''Check outbound connectivity to acme-v02.api.letsencrypt.org and inbound port 80/443.''),
    (BAD_RESPONSE_RE, ''http_bad_response'',
      ''The challenge token was not served at /.well-known/acme-challenge/'',
      ''Confirm the webroot path points at the served document root; check reverse-proxy config that forwards /.well-known/ to the correct backend.''),
    (Alt (word ''too many certificates'') (word ''rate limit''), ''rate_limited'',
      ''Let'' @ [CHR 0x27] @ ''s Encrypt rate limit hit'',
      ''Check https://letsencrypt.org/docs/rate-limits/; use staging for testing, consolidate SANs, or wait for the rate limit window (5 certs/7 days for duplicates).''),
    (Alt (word ''unauthorized'') (Alt (word ''Invalid email'') (word ''account registration'')), ''account_error'',
      ''ACME account registration/authorization problem'',
      ''Verify the contact email and that the account key is not corrupted; register a fresh account.''),
    (Alt (word ''Could not bind TCP port 80'') (Seq (word ''Permission denied'') (Seq any_text (word '':80''))), ''standalone_bind'',
      ''Standalone mode could not bind port 80'',
      ''Stop the web server on port 80 during issuance or use webroot/http-01 with the running server.''),
    (word ''No valid IP addresses found for'', ''no_ip'',
      ''No valid IP address found for the domain'',
      ''Create the DNS record before retrying.''),
    (Seq (word ''hook command '') (Seq any_text (word '' returned error'')), ''hook_failed'',
      ''The auth/cleanup hook script exited non-zero'',
      ''Review hook execution logs; check hook path, permissions, environment variables and the execution user (hooks often need API credentials in env vars).''),
    (Seq (word ''challenge failed for '') (Seq any_text (Seq (word '' '') (Seq (Alt (word ''dns'') (word ''http'')) (word ''-01'')))), ''challenge_failed'',
      ''The validation challenge failed (generic)'',
      ''Use certbot --dry-run with `--debug-challenges` to inspect; verify DNS propagation via https://dnschecker.org before retrying.''),
    (Alt (word ''Failed to parse'') (Alt (word ''Unicode'') (Alt (word ''Invalid domain'') (word ''valueError''))), ''invalid_input'',
      ''Invalid domain or certificate input'',
      ''Confirm domains are valid FQDNs without scheme or path components.''),
    (word ''error during the second phase of the client'', ''client_error'',
      ''Certbot client error during finalization'',
      ''Run with --verbose and inspect the full log; check disk space and permissions under /etc/letsencrypt.''),
    (Alt (word ''Max retries exceeded'') (Alt (word ''Read timed out'') (word ''ConnectTimeout'')), ''acme_unreachable'',
      ''ACME server unreachable from this host'',
      ''Verify egress to acme-v02.api.letsencrypt.org:443 and corporate proxy settings.'')
  ]"

definition match_failure :: "string \<Rightarrow> string \<Rightarrow> (string \<times> string \<times> string) option" where
  "match_failure stderr stdout =
     (let text = stderr @ [CHR 0x0A] @ stdout in
      case find (\<lambda>(p, _). re_search p text) KNOWN_FAILURES of
        Some (_, m) \<Rightarrow> Some m
      | None \<Rightarrow> if py_strip text = []
          then Some (''no_output'', ''No output captured from certbot'', ''Run a manual dry-run to capture output.'') else None)"

text \<open>The confidence is given in hundredths.\<close>

record explanation =
  ex_execution_id :: int
  ex_job_type :: string
  ex_category :: string
  ex_cause :: string
  ex_recommendation :: string
  ex_confidence :: nat
  ex_raw_tail :: string

definition explain_failure :: "int \<Rightarrow> db \<Rightarrow> explanation option" where
  "explain_failure i d =
     (case tbl_get i (job_executions d) of
        None \<Rightarrow> None
      | Some x \<Rightarrow>
          let (code, cause, fix', conf) =
                (case match_failure (str_or (j_stderr x) []) (str_or (j_stdout x) []) of
                   None \<Rightarrow> (''unknown'', ''Failure does not match a known signature'',
                     ''Review the raw log below; retry with --dry-run --verbose to isolate.'', 30)
                 | Some (a, b, c) \<Rightarrow> (a, b, c, 85)) in
          Some \<lparr>ex_execution_id = i, ex_job_type = JobType_value (j_job_type x), ex_category = code, ex_cause = cause,
            ex_recommendation = fix', ex_confidence = conf,
            ex_raw_tail = last_n 2000 (str_or (j_stderr x) (str_or (j_stdout x) []))\<rparr>)"

definition failure_summary :: "job_execution list \<Rightarrow> string" where
  "failure_summary xs =
     (case xs of
        [] \<Rightarrow> ''No execution history available.''
      | x # _ \<Rightarrow>
          if j_status x = JobStatus.SUCCESS then
            ''Last run succeeded in '' @ (if id_truthy (j_execution_time_ms x) then str_int (or_default (j_execution_time_ms x) 0) else ''?'') @ ''ms.''
          else if j_status x = JobStatus.FAILED then ''Last run failed: '' @ take 300 (str_or (j_error_message x) ''unknown error'')
          else ''Last run status: '' @ JobStatus_value (j_status x) @ ''.'')"

record log_summary =
  ls_executions_analyzed :: nat
  ls_outcomes :: "(string \<times> nat) list"
  ls_last_failure :: "string option"
  ls_recommendation :: string
  ls_summary :: string

definition summarize_renewal_logs :: "int \<Rightarrow> db \<Rightarrow> log_summary" where
  "summarize_renewal_logs i d =
     (let xs = map rval (take 10 (sort_key (\<lambda>w. - created_at w) (tbl_sel (\<lambda>w. j_certificate_id (rval w) = Some i \<and>
            j_job_type (rval w) \<in> {JobType.RENEW, JobType.ISSUE}) (job_executions d))));
          last_error = (case find (\<lambda>x. j_status x = JobStatus.FAILED) xs of None \<Rightarrow> None | Some x \<Rightarrow> j_error_message x) in
      \<lparr>ls_executions_analyzed = length xs, ls_outcomes = group_counts (map (\<lambda>x. JobStatus_value (j_status x)) xs),
       ls_last_failure = last_error,
       ls_recommendation = (case (if truthy last_error then match_failure (str_or last_error []) [] else None) of
          None \<Rightarrow> ''No recurring issues detected.'' | Some (_, _, r) \<Rightarrow> r),
       ls_summary = failure_summary xs\<rparr>)"

record recurring =
  rf_job_type :: string
  rf_category :: string
  rf_count :: nat
  rf_certificate_ids :: "int list"

definition failure_key :: "job_execution \<Rightarrow> string \<times> string" where
  "failure_key x = (JobType_value (j_job_type x),
     case match_failure (str_or (j_stderr x) []) (str_or (j_stdout x) []) of None \<Rightarrow> ''unknown'' | Some (code, _) \<Rightarrow> code)"

definition detect_recurring_failures :: "datetime \<Rightarrow> int \<Rightarrow> db \<Rightarrow> recurring list" where
  "detect_recurring_failures now days d =
     (let xs = map rval (tbl_sel (\<lambda>w. j_status (rval w) = JobStatus.FAILED \<and> now - days * us_per_day \<le> created_at w) (job_executions d)) in
      sort_key (\<lambda>r. - int (rf_count r)) (map (\<lambda>(k, n). \<lparr>rf_job_type = fst k, rf_category = snd k, rf_count = n,
        rf_certificate_ids = sort (remdups (List.map_filter (\<lambda>x. if failure_key x = k \<and> id_truthy (j_certificate_id x)
          then j_certificate_id x else None) xs))\<rparr>) (group_counts (map failure_key xs))))"

definition predict_renewal_failures :: "datetime \<Rightarrow> db \<Rightarrow> (int \<times> string \<times> int \<times> nat) list" where
  "predict_renewal_failures now d =
     List.map_filter (\<lambda>w. let n = tbl_count (\<lambda>x. j_certificate_id (rval x) = Some (rid w) \<and>
          j_job_type (rval x) = JobType.RENEW \<and> j_status (rval x) = JobStatus.FAILED) (job_executions d) in
        case days_remaining now (rval w) of
          None \<Rightarrow> None
        | Some days \<Rightarrow> if 2 \<le> n \<and> days \<le> 60 then Some (rid w, c_domain (rval w), days, n) else None)
       (tbl_sel (\<lambda>w. c_auto_renew (rval w)) (certificates d))"

definition suggestion_table :: "(string \<times> string list) list" where
  "suggestion_table = [
    (''dns_nxdomain'', [''Check DNS records with `dig +short <domain>`'', ''Confirm the record at the authoritative NS'']),
    (''dns_servfail'', [''Verify DNSSEC and NS health'', ''Try a public resolver'']),
    (''http_conn_refused'', [''Open port 80'', ''Use dns-01 validation instead'']),
    (''rate_limited'', [''Test against staging'', ''Merge SANs into one certificate'']),
    (''hook_failed'', [''Inspect hook logs under /var/log/certmgr'', ''Test the hook manually with `--debug-challenges`'']),
    (''standalone_bind'', [''Stop the service on :80 during issuance'', ''Use webroot mode''])
  ]"

definition suggestions :: "string \<Rightarrow> string list" where
  "suggestions category = or_default (map_of suggestion_table category) [''Retry with `--dry-run --verbose` and inspect the full log.'']"

text \<open>\<open>llm\<close> is the answer of the language model, if it is enabled and gave one.\<close>

definition troubleshoot ::
    "(explanation \<Rightarrow> string option) \<Rightarrow> int \<Rightarrow> db \<Rightarrow> (explanation \<times> string option \<times> string list) option" where
  "troubleshoot llm i d = map_option (\<lambda>x. (x, llm x, suggestions (ex_category x))) (explain_failure i d)"

section \<open>Endpoints\<close>

definition ai_endpoint :: "api_user \<Rightarrow> (db \<Rightarrow> 'a) \<Rightarrow> 'a wop" where
  "ai_endpoint user f =
     bnd (require_perm user (P_at (''ai'', ''use'')) ''You are not authorized to use the AI assistant'') (\<lambda>_. db_get f)"

text \<open>\<^verbatim>\<open>GET /search\<close> is open to every user.\<close>

definition get_search :: "string \<Rightarrow> nat \<Rightarrow> search_answer wop" where
  "get_search q limit = db_get (enterprise_search q limit)"

end
