(* ===== verification/Insight_Proofs.thy ===== *)
theory Insight_Proofs
  imports Insights
begin

text \<open>
  The numbers of the dashboard are consistent, its months are complete, its trend counts twice, and one of the failure
  signatures never applies.
\<close>

section \<open>Counting\<close>

lemma group_counts_sum: "sum_list (map snd (group_counts ks)) = length ks"
proof (induction ks rule: group_counts.induct)
  case (2 k ks)
  have "length (filter (\<lambda>x. x = k) ks) + length (filter (\<lambda>x. x \<noteq> k) ks) = length ks"
    by (rule sum_length_filter_compl)
  then show ?case using 2 by simp
qed simp

lemma group_counts_lookup: "map_of (group_counts ks) k = (let n = length (filter (\<lambda>x. x = k) ks) in if n = 0 then None else Some n)"
proof (induction ks rule: group_counts.induct)
  case (2 x xs)
  have "length (filter (\<lambda>y. y = k) (filter (\<lambda>y. y \<noteq> x) xs)) = length (filter (\<lambda>y. y = k) xs)" if "k \<noteq> x"
    using that by (simp add: conj_commute) (metis (mono_tags, lifting) filter_cong)
  then show ?case using 2 by (auto simp: Let_def)
qed simp

lemma tbl_count_mono: "(\<And>w. p w \<Longrightarrow> q w) \<Longrightarrow> tbl_count p t \<le> tbl_count q t"
proof -
  assume imp: "\<And>w. p w \<Longrightarrow> q w"
  have "length (filter p ws) \<le> length (filter q ws)" for ws by (induction ws) (auto simp: imp)
  then show ?thesis by (simp add: tbl_count_def tbl_sel_def)
qed

lemma expiring_mono: "a \<le> b \<Longrightarrow> expiring_counts now a d \<le> expiring_counts now b d"
proof -
  assume "a \<le> b"
  then have "now + a * us_per_day \<le> now + b * us_per_day" by (simp add: us_per_day_def)
  then show ?thesis unfolding expiring_counts_def by (intro tbl_count_mono) (auto split: option.splits)
qed

text \<open>the dashboard is consistent: each of the five breakdowns adds up to the total, the one by status has
  exactly the four status totals, and the windows of expiring certificates are nested.\<close>

theorem dashboard_consistent:
  "let s = dashboard_stats now d in
   list_all (\<lambda>g. sum_list (map snd g) = ds_total s) [ds_by_status s, ds_by_provider s, ds_by_environment s, ds_by_type s, ds_by_key_type s] \<and>
   or_default (map_of (ds_by_status s) ''active'') 0 = ds_active s \<and> or_default (map_of (ds_by_status s) ''expired'') 0 = ds_expired s \<and>
   or_default (map_of (ds_by_status s) ''renewing'') 0 = ds_renewing s \<and> or_default (map_of (ds_by_status s) ''revoked'') 0 = ds_revoked s \<and>
   ds_expiring_7 s \<le> ds_expiring_30 s \<and> ds_expiring_30 s \<le> ds_expiring_60 s \<and> ds_expiring_60 s \<le> ds_total s"
proof -
  have status: "or_default (map_of (group_counts (cert_column (\<lambda>c. CertificateStatus_value (c_status c)) d)) (CertificateStatus_value st)) 0 =
      with_status st d" for st
  proof -
    have "CertificateStatus_value a = CertificateStatus_value st \<longleftrightarrow> a = st" for a by (cases a; cases st) simp_all
    then have "length (filter (\<lambda>x. x = CertificateStatus_value st) (cert_column (\<lambda>c. CertificateStatus_value (c_status c)) d)) = with_status st d"
      by (simp add: cert_column_def with_status_def tbl_count_def tbl_sel_def filter_map o_def)
    then show ?thesis by (simp add: group_counts_lookup Let_def or_default_def)
  qed
  have "expiring_counts now 60 d \<le> length (rows (certificates d))"
    by (simp add: expiring_counts_def tbl_count_def tbl_sel_def)
  then show ?thesis
    using status [of CertificateStatus.ACTIVE] status [of CertificateStatus.EXPIRED] status [of CertificateStatus.RENEWING]
      status [of CertificateStatus.REVOKED]
    by (simp add: dashboard_stats_def Let_def group_counts_sum cert_column_def expiring_mono)
qed

section \<open>Months\<close>

lemma months_to_numbers:
  "map month_number (months_to stop k) = (if month_number stop < month_number k then [] else [month_number k .. month_number stop])"
proof (induction stop k rule: months_to.induct)
  case (1 stop k)
  then show ?case
    by (subst months_to.simps) (auto simp: next_month_number upto_rec1)
qed

text \<open>The report has one line for each month from the first one to the current one.\<close>

lemma monthly_complete:
  "map (month_number \<circ> fst) (monthly_issuance now months d) =
     (let start = (now div us_per_day - (day_of now - 1) - months * 31) * us_per_day in
      if month_number (month_of now) < month_number (month_of start) then []
      else [month_number (month_of start) .. month_number (month_of now)])"
  by (simp add: monthly_issuance_def Let_def o_def flip: months_to_numbers)

section \<open>Trends\<close>

text \<open>the trend counts certificates twice: two days of the window that have the same number in their months
  show the same count, so a certificate created on one of them is reported on both.\<close>

theorem trends_double_count:
  assumes "w \<in> set (rows (certificates d))" "now - int days * us_per_day \<le> created_at w"
    and "i \<le> days" "j \<le> days" "i \<noteq> j"
    and "day_of (created_at w) = day_of (now - int i * us_per_day)" "day_of (now - int j * us_per_day) = day_of (now - int i * us_per_day)"
  shows "\<exists>n > 0. ((now - int i * us_per_day) div us_per_day, n) \<in> set (certificate_trends now days d) \<and>
    ((now - int j * us_per_day) div us_per_day, n) \<in> set (certificate_trends now days d) \<and>
    (now - int i * us_per_day) div us_per_day \<noteq> (now - int j * us_per_day) div us_per_day"
proof -
  let ?ks = "map (\<lambda>w. day_of (created_at w)) (tbl_sel (\<lambda>w. now - int days * us_per_day \<le> created_at w) (certificates d))"
  let ?k = "day_of (now - int i * us_per_day)"
  define n where "n = length (filter (\<lambda>x. x = ?k) ?ks)"
  have "w \<in> set (tbl_sel (\<lambda>w. now - int days * us_per_day \<le> created_at w) (certificates d))" using assms(1,2) by (simp add: tbl_sel_def)
  then have "?k \<in> set ?ks" using assms(6) by force
  then have n: "n > 0" by (auto simp: n_def filter_empty_conv)
  then have look: "or_default (map_of (group_counts ?ks) ?k) 0 = n"
    unfolding group_counts_lookup Let_def n_def [symmetric] by (simp add: or_default_def)
  have mem: "((now - int l * us_per_day) div us_per_day, n) \<in> set (certificate_trends now days d)"
    if "l \<le> days" "day_of (now - int l * us_per_day) = ?k" for l
    unfolding certificate_trends_def Let_def using that look by (auto intro!: image_eqI [of _ _ l])
  have "(now - int l * us_per_day) div us_per_day = now div us_per_day - int l" for l
    using div_mult_self1 [of us_per_day now "- int l"] by (simp add: us_per_day_def)
  then have "(now - int i * us_per_day) div us_per_day \<noteq> (now - int j * us_per_day) div us_per_day" using assms(5) by simp
  then show ?thesis using n mem [of i] mem [of j] assms(3,4,7) by blast
qed

text \<open>Midnight on 15 March 2026, and a certificate created then.\<close>

lemma trends_double_count_witness:
  "\<exists>n > 0. (20527, n) \<in> set (certificate_trends (20527 * us_per_day) 30
       (empty_db\<lparr>certificates := snd (tbl_add (20527 * us_per_day) (new_certificate ''a.example'') empty_table)\<rparr>)) \<and>
     (20499, n) \<in> set (certificate_trends (20527 * us_per_day) 30
       (empty_db\<lparr>certificates := snd (tbl_add (20527 * us_per_day) (new_certificate ''a.example'') empty_table)\<rparr>))"
proof -
  let ?w = "\<lparr>rid = 1, created_at = 20527 * us_per_day, updated_at = 20527 * us_per_day, rval = new_certificate ''a.example''\<rparr>"
  let ?d = "empty_db\<lparr>certificates := snd (tbl_add (20527 * us_per_day) (new_certificate ''a.example'') empty_table)\<rparr>"
  have w: "?w \<in> set (rows (certificates ?d))" by (simp add: tbl_add_def empty_table_def)
  have d: "day_of (20527 * us_per_day) = 15" "day_of (20527 * us_per_day - int 28 * us_per_day) = 15" by code_simp+
  show ?thesis
    using trends_double_count [OF w, of "20527 * us_per_day" 30 0 28] d by (simp add: us_per_day_def)
qed

section \<open>Failure signatures\<close>

lemma search_needs:
  assumes "re_search (Seq a (Seq (lit c) b)) s"
  shows "c \<in> set s"
  using assms by (auto simp: re_search_def list_ex_iff lit_def split: if_splits)

lemma bad_entry: "x \<in> set KNOWN_FAILURES \<Longrightarrow> fst (snd x) = ''http_bad_response'' \<Longrightarrow> fst x = BAD_RESPONSE_RE"
proof -
  have "list_all (\<lambda>x. fst (snd x) = ''http_bad_response'' \<longrightarrow> fst x = BAD_RESPONSE_RE) KNOWN_FAILURES"
    by (simp add: KNOWN_FAILURES_def)
  then show "x \<in> set KNOWN_FAILURES \<Longrightarrow> fst (snd x) = ''http_bad_response'' \<Longrightarrow> fst x = BAD_RESPONSE_RE"
    by (auto simp: list_all_iff)
qed

text \<open>the signature of a challenge token that was not served asks for a backslash, which no such message has:
  output without one is never put into that category.\<close>

theorem bad_response_never:
  assumes "CHR 0x5C \<notin> set stderr" "CHR 0x5C \<notin> set stdout"
  shows "\<forall>cause fix'. match_failure stderr stdout \<noteq> Some (''http_bad_response'', cause, fix')"
proof -
  let ?text = "stderr @ [CHR 0x0A] @ stdout"
  have none: "\<not> re_search BAD_RESPONSE_RE ?text"
    using assms search_needs unfolding BAD_RESPONSE_RE_def by fastforce
  have never: "snd x \<noteq> (''http_bad_response'', cause, fix')"
    if "find (\<lambda>(p, _). re_search p ?text) KNOWN_FAILURES = Some x" for x cause fix'
  proof
    assume "snd x = (''http_bad_response'', cause, fix')"
    moreover have "x \<in> set KNOWN_FAILURES" "re_search (fst x) ?text"
      using that by (auto simp: find_Some_iff case_prod_beta)
    ultimately show False using bad_entry [of x] none by simp
  qed
  show ?thesis
  proof (cases "find (\<lambda>(p, _). re_search p ?text) KNOWN_FAILURES")
    case None
    then show ?thesis by (simp add: match_failure_def Let_def)
  next
    case (Some x)
    then show ?thesis using never [of x] by (cases x) (simp add: match_failure_def Let_def)
  qed
qed

lemma bad_response_never_witness:
  "\<forall>cause fix'. match_failure ''Invalid response from http://a.example/.well-known/acme-challenge/x: 404'' [] \<noteq>
     Some (''http_bad_response'', cause, fix')"
  using bad_response_never [of "''Invalid response from http://a.example/.well-known/acme-challenge/x: 404''" "[]"] by simp

end
