(* ===== verification/Spec2Isabelle.thy ===== *)
theory Spec2Isabelle
  imports Auth Service_Witnesses Scan_Witnesses Deploy_Witnesses Api_Witnesses Provider_Witnesses
    Backup_Witnesses Webhook_Proofs User_Witnesses Registrar_Witnesses Insight_Proofs
begin

text \<open>
  \<^bold>\<open>CertMgr, a certificate lifecycle manager.\<close>  The program under \<open>src/backend/app\<close> is a FastAPI
  service over a relational database (SQLAlchemy), with Celery workers beside it.  It issues,
  renews, revokes, imports and deletes TLS certificates through providers (Let's Encrypt by
  certbot, a local authority by openssl), finds certificates on the network, in
  certificate-transparency logs and in the file system, checks their health and compliance,
  and notifies people.  This development models its services as functions on an explicit
  database and proves what they guarantee, errors included.

  \<^bold>\<open>How an operation is modelled.\<close>  A Python function that takes a session is an operation
  \<open>world \<Rightarrow> (exn + 'a) \<times> world\<close> (theory \<open>Ops\<close>): \<open>Inl\<close> is the exception that leaves it, \<open>Inr\<close>
  its result.  The world (theory \<open>Session\<close>) holds two databases, the committed one and the
  working one of the session; \<open>commit\<close> and \<open>rollback\<close> copy one to the other, and the session
  scopes of \<open>core/database.py\<close> (\<open>in_session\<close>) roll back on an exception.  So a theorem about the
  committed database says what is left after a crash or a failed request.  A table (theory
  \<open>Tables\<close>) is a list of identified rows with a fresh-id counter; the records of \<open>Models\<close> are the
  ORM classes of \<open>models/*.py\<close>, column by column, and \<open>Enums\<close> is \<open>models/enums.py\<close>.  Times are
  integers in microseconds; the clock, random values and every package outside the repository are
  arguments of the operations that use them: bcrypt, PyJWT and Fernet (\<open>Security\<close>), the
  cryptography package and the providers behind the interface of \<open>providers/base.py\<close>
  (\<open>Cert_Requests\<close>; \<open>Providers\<close> gives the two built-in ones, over an operating system that starts
  processes), the file system as a map from paths to contents (\<open>Storage\<close>), SMTP and HTTP (\<open>Notifications\<close>), the log server and
  the TLS probe (\<open>Discovery\<close>).  What is assumed of such a parameter is a named hypothesis
  (\<open>fernet_correct\<close> and the like) and has an instance in a witness.  Messages are written in
  ASCII where the source has a typographic dash.

  \<^bold>\<open>Theories and what they show.\<close>
  \<^item> \<open>Prelude\<close>: exceptions and status codes of \<open>core/exceptions.py\<close>, \<open>core/timeutils.py\<close>, string
    functions of Python, collections of rules.  An exception that is no \<open>AppError\<close> is answered 500.
  \<^item> \<open>Py_Re\<close>: regular expressions as the \<open>re\<close> module matches them, with \<^verbatim>\<open>$\<close> before a final
    newline; \<open>Domain_Utils\<close>: \<open>core/domain_utils.py\<close>.  What the validators accept is safe for
    shells and paths, except that newlines pass \<open>validate_proxy_jump\<close>.  \<open>realpath\<close> resolves paths as
    Python 3.13 does, over the symbolic links of the host.
  \<^item> \<open>Security\<close>, \<open>Permissions\<close>, \<open>Audit_Trail\<close>, \<open>Auth\<close>: \<open>core/security.py\<close>, \<open>api/permissions.py\<close>,
    \<open>services/audit_service.py\<close>, \<open>services/auth_service.py\<close>, \<open>api/deps.py\<close>, \<open>api/v1/auth.py\<close>.
    The user table keeps its invariant under every operation; lockout, token round trip,
    refresh-token revocation, exact condition for API tokens.
  \<^item> \<open>Storage\<close>: \<open>services/storage.py\<close>; private keys are stored only encrypted and read back.
  \<^item> \<open>Cert_Requests\<close>, \<open>Cert_Lifecycle\<close>: \<open>services/certificate_service.py\<close>.  \<open>Cert_Proofs\<close> and
    \<open>Cert_Safety\<close> give the outcome of every operation, on success and on each failure, from
    weakest-precondition rules (\<open>wp\<close>, \<open>keeps\<close> of \<open>Ops\<close>); \<open>Cert_Refine\<close> abstracts the status columns
    to a machine whose steps are labelled with the request and whether it returned, and proves that
    in any sequence of requests each one takes the step of its label from where the columns stand.
  \<^item> \<open>Notifications\<close>, \<open>Settings_Store\<close>, \<open>Retention\<close>, \<open>Admin\<close>, \<open>Posture\<close>, \<open>Tasks\<close>: the services of the
    same or a similar name, the settings endpoints, the Celery tasks and the in-process
    scheduler.
  \<^item> \<open>CT_Monitor\<close>, \<open>Discovery\<close>, \<open>Discovery_Files\<close>: \<open>ct_monitor.py\<close>, \<open>network_scanner.py\<close>,
    \<open>discovery_service.py\<close>.  Since the sessions have autoflush off, rows added and not yet flushed
    are kept apart from the ones queries see.  \<open>Discovery_Proofs\<close> proves, over one locale for the
    invariants of a scan, that a scan of the network or of the logs is atomic and keeps ignored
    certificates gone.  The discovery of files commits each import on its own; \<open>Discovery_Files\<close> proves
    that it, too, keeps ignored certificates gone, and that an import from paths reads only what lies
    in the configured directories, links followed.  The links of \<^verbatim>\<open>/etc/letsencrypt/live\<close> leave them.
  \<^item> \<open>Remote\<close>, \<open>Deployment\<close>, \<open>Servers\<close>: \<open>ssh.py\<close>, \<open>deployment_service.py\<close>, \<open>server_service.py\<close> with
    their tasks and endpoints.  The remote host is a function of the history of requests, and
    the state records everything that was sent.  \<open>Deploy_Proofs\<close> compares what a deployment sends
    with a plan, its abstract specification (\<open>run_plan\<close>, \<open>follows\<close>), and tracks the status of the
    deployment; \<open>Server_Proofs\<close> shows that the command center sends no shell metacharacter, up to
    the white space around a command, which the code does not remove.
  \<^item> \<open>Commands\<close>, \<open>Providers\<close>, \<open>Verification\<close>: \<open>command.py\<close>, \<open>certbot.py\<close>, \<open>ssh_credentials.py\<close>,
    \<open>providers/*.py\<close>, \<open>verification.py\<close> and the tasks of \<open>tasks/maintenance.py\<close> and
    \<open>tasks/discovery.py\<close>.  \<open>Provider_Proofs\<close> shows which processes can be started at all, what a
    reported success means, that staged keys are removed, that subjects made of texts parse back (and that
    a list injects components), and composes the
    registry with the certificate service: without certbot a renewal never ends.
  \<^item> \<open>Cert_Usage\<close>: \<open>certificate_usage_service.py\<close>, where the endpoints of a certificate are probed.
    \<open>Usage_Proofs\<close> states the ledger of endpoints as a locale, interpreted for the invariant of its
    rows and for their history, and gives the outcome of a scan.
  \<^item> \<open>Cert_Api\<close>: the endpoints of \<open>api/v1/certificates.py\<close> with the bulk work behind them.
    \<open>Api_Proofs\<close> shows that no call that asks for a permission has an effect without it, and who can
    get at keys.
  \<^item> \<open>Backups\<close>: \<open>backup_service.py\<close> with its tasks and endpoints, the archive format and the tools of
    the databases being parameters.  \<open>Backup_Proofs\<close>: exactly what was backed up is restored, a failed restore
    leaves the database alone, exactly the old backups are removed, fresh ones verify.
  \<^item> \<open>Webhooks\<close>, \<open>Webhook_Proofs\<close>: \<open>webhook_service.py\<close>; a delivery carries a signature of its very body
    and commits its outcome unless the client raises something else than an \<^verbatim>\<open>HTTPError\<close>; queueing one
    outside the eager mode always fails.
  \<^item> \<open>User_Api\<close>: \<open>users.py\<close>, \<open>jobs.py\<close>, \<open>hooks.py\<close> under \<open>api/v1\<close>.  \<open>User_Proofs\<close>: the last active
    administrator cannot be lost, keys of hooks are stored encrypted and read back, but sessions
    outlive a password reset and a retry needs no permission.
  \<^item> \<open>Ops_Api\<close>: \<open>findings.py\<close>, \<open>notifications.py\<close>, \<open>audit.py\<close>, the templates of \<open>deployments.py\<close>, and
    discovery, health, compliance and scheduled jobs of \<open>extras.py\<close>.  \<open>Ops_Proofs\<close> shows, over one
    datatype of calls, that none of the administrative endpoints has an effect for a caller who may
    not make the call.
  \<^item> \<open>Registrar\<close>: \<open>godaddy_client.py\<close>, \<open>godaddy_service.py\<close>, \<open>secrets.py\<close>.  \<open>Registrar_Proofs\<close>: which
    certificate of an account is imported and that the row is that certificate, and which source of a secret wins.
  \<^item> \<open>Insights\<close>: \<open>search_service.py\<close>, \<open>dashboard_service.py\<close>, the local analysis of \<open>ai_service.py\<close>.
    \<open>Insight_Proofs\<close>: the dashboard adds up, its trend counts twice, one signature never applies.
  \<^item> \<open>Cert_Witnesses\<close>, \<open>Service_Witnesses\<close>, \<open>Scan_Witnesses\<close>, \<open>Deploy_Witnesses\<close>, \<open>Usage_Witnesses\<close>,
    \<open>Api_Witnesses\<close>, \<open>Provider_Witnesses\<close>, \<open>Backup_Witnesses\<close>, \<open>User_Witnesses\<close>,
    \<open>Registrar_Witnesses\<close>: concrete runs.

  \<^bold>\<open>Termination.\<close>  Every operation is a total function, nearly always by structural recursion over the
  rows or the inputs it goes through; the loop over the months of the dashboard has a measure.  No
  fuel is needed, apart from the star of \<open>Py_Re\<close>, for which the length of the subject is proved enough.

  \<^bold>\<open>Idealizations.\<close>  Writing a file of the store never fails, and the store itself holds no symbolic
  links; only the import from paths, the discovery of files and \<open>resolve_within_root\<close> follow links.
  An operation reads the clock once, where the source may read it several times (the cutoffs of
  \<open>Retention\<close>, the timestamps of one flush).  JSON has no fractional numbers.  Where the providers
  expect a text in a configuration or in the options of a request, another JSON value counts as
  absent, except in the fields of a subject, which are formatted as Python formats them.  The log
  line of a statement on a session that a violated index broke differs in its wording.

  \<^bold>\<open>Not modelled.\<close>  The reports as CSV, spreadsheet and PDF, the request to a language model and the
  parsing of certificates (formatting, or input/output around packages outside the repository); the
  wizard's capability lists; application assembly, metrics, command line, demo data, migrations, web
  frontend.
\<close>

end
